(* ===== verification/Prelude.thy ===== *)
theory Prelude
  imports Complex_Main "HOL-Library.Sublist"
begin

section \<open>Shared vocabulary of the development\<close>

text \<open>
  The parts of JavaScript that every component uses: results that may be an exception, numbers
  with NaN, and the string methods the sources call (\<open>indexOf\<close>, \<open>lastIndexOf\<close>,
  \<open>substring\<close>, \<open>split\<close>, \<open>join\<close>, \<open>replace\<close>).

  A JavaScript string is a \<^typ>\<open>string\<close>: an ASCII character stands for itself and any other
  character for the bytes of its UTF-8 encoding. Every separator the sources search for is
  ASCII, so searching and cutting at separators commutes with this encoding.
\<close>

named_theorems js_eval \<comment> \<open>evaluation of the modelled JavaScript operations\<close>

subsection \<open>Exceptions as values\<close>

text \<open>
  \<open>Thrown s\<close> is the source's own \<open>throw s\<close>; the other constructors are the exceptions of
  the language and of its library.
\<close>

datatype exn = Thrown string | TypeError | ReferenceError | SyntaxError | URIError | InvalidCharacterError

datatype 'a res = Ok 'a | Throw exn

fun res_bind :: "'a res \<Rightarrow> ('a \<Rightarrow> 'b res) \<Rightarrow> 'b res" where
  "res_bind (Ok x) f = f x"
| "res_bind (Throw e) f = Throw e"

text \<open>
  A computation on a state that may throw: the state changes made before the exception stay.
\<close>

type_synonym ('s, 'a) comp = "'s \<Rightarrow> 'a res \<times> 's"

definition comp_bind :: "('s, 'a) comp \<Rightarrow> ('a \<Rightarrow> ('s, 'b) comp) \<Rightarrow> ('s, 'b) comp" where
  "comp_bind m f s = (case m s of (Ok x, s') \<Rightarrow> f x s' | (Throw e, s') \<Rightarrow> (Throw e, s'))"

definition comp_ret :: "'a \<Rightarrow> ('s, 'a) comp" where
  "comp_ret x s = (Ok x, s)"

definition comp_lift :: "('s \<Rightarrow> 'a res) \<Rightarrow> ('s, 'a) comp" where
  "comp_lift f s = (f s, s)"

definition comp_do :: "('s \<Rightarrow> 's) \<Rightarrow> ('s, unit) comp" where
  "comp_do f s = (Ok (), f s)"

subsection \<open>Numbers with NaN\<close>

text \<open>
  Times and durations are exact rationals: the rounding of IEEE doubles is not modelled, the
  value NaN is, because an absent claim turns into it.
\<close>

datatype jsnum = NaN | Num rat

fun js_add :: "jsnum \<Rightarrow> jsnum \<Rightarrow> jsnum" where
  "js_add (Num a) (Num b) = Num (a + b)"
| "js_add _ _ = NaN"

fun js_sub :: "jsnum \<Rightarrow> jsnum \<Rightarrow> jsnum" where
  "js_sub (Num a) (Num b) = Num (a - b)"
| "js_sub _ _ = NaN"

fun js_mul :: "jsnum \<Rightarrow> jsnum \<Rightarrow> jsnum" where
  "js_mul (Num a) (Num b) = Num (a * b)"
| "js_mul _ _ = NaN"

fun js_less :: "jsnum \<Rightarrow> jsnum \<Rightarrow> bool" where
  "js_less (Num a) (Num b) = (a < b)"
| "js_less _ _ = False"

fun js_le :: "jsnum \<Rightarrow> jsnum \<Rightarrow> bool" where
  "js_le (Num a) (Num b) = (a \<le> b)"
| "js_le _ _ = False"

fun js_num_truthy :: "jsnum \<Rightarrow> bool" where
  "js_num_truthy NaN = False"
| "js_num_truthy (Num a) = (a \<noteq> 0)"

subsection \<open>String methods\<close>

text \<open>\<open>s.indexOf(p)\<close>, with \<open>None\<close> for -1.\<close>

fun index_of :: "string \<Rightarrow> string \<Rightarrow> nat option" where
  "index_of [] p = (if p = [] then Some 0 else None)"
| "index_of (c # s) p =
     (if prefix p (c # s) then Some 0 else map_option Suc (index_of s p))"

text \<open>\<open>s.indexOf(p, n)\<close>: the search starts at position \<open>n\<close>.\<close>

definition index_of_from :: "string \<Rightarrow> string \<Rightarrow> nat \<Rightarrow> nat option" where
  "index_of_from s p n = map_option (\<lambda>i. i + min n (length s)) (index_of (drop n s) p)"

definition contains :: "string \<Rightarrow> string \<Rightarrow> bool" where
  "contains s p \<longleftrightarrow> index_of s p \<noteq> None"

text \<open>\<open>s.substring(i, j)\<close>, which exchanges its arguments when the first is the larger one.\<close>

definition substring :: "string \<Rightarrow> nat \<Rightarrow> nat \<Rightarrow> string" where
  "substring s i j = (if i \<le> j then take (j - i) (drop i s) else take (i - j) (drop j s))"

text \<open>\<open>s.charAt(i)\<close>: the empty string out of range.\<close>

definition char_at :: "string \<Rightarrow> nat \<Rightarrow> string" where
  "char_at s i = (if i < length s then [s ! i] else [])"

text \<open>The position after the last occurrence of a character: \<open>s.lastIndexOf(c) + 1\<close>.\<close>

fun after_last :: "char \<Rightarrow> string \<Rightarrow> string" where
  "after_last c [] = []"
| "after_last c (x # xs) = (if c \<in> set xs then after_last c xs else if x = c then xs else x # xs)"

text \<open>\<open>s.split(c)\<close> for a one-character separator and \<open>xs.join(sep)\<close>.\<close>

fun split_on :: "char \<Rightarrow> string \<Rightarrow> string list" where
  "split_on c [] = [[]]"
| "split_on c (x # xs) =
     (if x = c then [] # split_on c xs
      else (case split_on c xs of [] \<Rightarrow> [[x]] | y # ys \<Rightarrow> (x # y) # ys))"

fun join :: "string \<Rightarrow> string list \<Rightarrow> string" where
  "join sep [] = []"
| "join sep [x] = x"
| "join sep (x # y # zs) = x @ sep @ join sep (y # zs)"

text \<open>\<open>s.replace(p, r)\<close> with a string pattern replaces the first occurrence only.\<close>

definition replace_first :: "string \<Rightarrow> string \<Rightarrow> string \<Rightarrow> string" where
  "replace_first s p r =
     (case index_of s p of None \<Rightarrow> s | Some i \<Rightarrow> take i s @ r @ drop (i + length p) s)"

text \<open>\<open>s.replace(/c/g, d)\<close> for single characters.\<close>

definition replace_all :: "char \<Rightarrow> char \<Rightarrow> string \<Rightarrow> string" where
  "replace_all c d s = map (\<lambda>x. if x = c then d else x) s"

text \<open>Truthiness of an optional string: \<open>undefined\<close>, \<open>null\<close> and the empty string are falsy.\<close>

definition str_truthy :: "string option \<Rightarrow> bool" where
  "str_truthy v \<longleftrightarrow> v \<noteq> None \<and> v \<noteq> Some []"

text \<open>String concatenation with a value that may be \<open>undefined\<close>.\<close>

definition undef_str :: "string option \<Rightarrow> string" where
  "undef_str v = (case v of None \<Rightarrow> ''undefined'' | Some s \<Rightarrow> s)"

text \<open>Decimal digits of an integer: \<open>String(n)\<close>.\<close>

definition digit_char :: "nat \<Rightarrow> char" where
  "digit_char k = ''0123456789'' ! k"

fun nat_str :: "nat \<Rightarrow> string" where
  "nat_str n = (if n < 10 then [digit_char n] else nat_str (n div 10) @ [digit_char (n mod 10)])"

declare nat_str.simps [simp del]

definition int_str :: "int \<Rightarrow> string" where
  "int_str z = (if z < 0 then ''-'' @ nat_str (nat (- z)) else nat_str (nat z))"

subsection \<open>Facts about results and computations\<close>

lemma comp_bind_Ok [js_eval]: "m s = (Ok x, s') \<Longrightarrow> comp_bind m f s = f x s'"
  by (simp add: comp_bind_def)

lemma comp_bind_Throw [js_eval]: "m s = (Throw e, s') \<Longrightarrow> comp_bind m f s = (Throw e, s')"
  by (simp add: comp_bind_def)

lemmas comp_defs = comp_bind_def comp_ret_def comp_lift_def comp_do_def

subsection \<open>Facts about strings\<close>

lemma split_on_not_Nil [simp]: "split_on c s \<noteq> []"
  by (induction s) (auto split: list.splits)

lemma join_Cons_ne: "xs \<noteq> [] \<Longrightarrow> join sep (x # xs) = x @ sep @ join sep xs"
  by (cases xs) auto

lemma join_Cons_head: "join sep ((c # y) # ys) = c # join sep (y # ys)"
  by (cases ys) auto

lemma join_split_on [simp]: "join [c] (split_on c s) = s"
proof (induction s)
  case Nil
  show ?case by simp
next
  case (Cons x s)
  obtain y ys where y: "split_on c s = y # ys"
    by (cases "split_on c s") auto
  with Cons have IH: "join [c] (y # ys) = s" by simp
  show ?case
    using y IH by (auto simp: join_Cons_ne join_Cons_head)
qed

lemma split_on_free: "c \<notin> set s \<Longrightarrow> split_on c s = [s]"
  by (induction s) auto

lemma split_on_append: "c \<notin> set a \<Longrightarrow> split_on c (a @ c # b) = a # split_on c b"
  by (induction a) auto

lemma split_on_pieces_free: "p \<in> set (split_on c s) \<Longrightarrow> c \<notin> set p"
proof (induction s arbitrary: p)
  case Nil
  then show ?case by simp
next
  case (Cons x s)
  obtain y ys where y: "split_on c s = y # ys"
    by (cases "split_on c s") auto
  with Cons show ?case by (auto split: if_splits)
qed

lemma split_on_both: "split_on c (a @ c # b) = split_on c a @ split_on c b"
proof (induction a)
  case (Cons x a)
  then show ?case using split_on_not_Nil [of c a] by (cases "split_on c a") auto
qed simp

lemma split_on_join:
  "xs \<noteq> [] \<Longrightarrow> (\<And>x. x \<in> set xs \<Longrightarrow> c \<notin> set x) \<Longrightarrow> split_on c (join [c] xs) = xs"
proof (induction xs)
  case Nil
  then show ?case by simp
next
  case (Cons x xs)
  show ?case
  proof (cases "xs = []")
    case True
    with Cons.prems show ?thesis by (simp add: split_on_free)
  next
    case False
    with Cons show ?thesis by (simp add: join_Cons_ne split_on_append)
  qed
qed

lemma set_join: "set (join sep xs) \<subseteq> set sep \<union> \<Union> (set ` set xs)"
  by (induction sep xs rule: join.induct) auto

lemma index_of_SomeD: "index_of s p = Some i \<Longrightarrow> prefix p (drop i s) \<and> i \<le> length s"
proof (induction s arbitrary: i)
  case Nil
  then show ?case by (auto split: if_splits)
next
  case (Cons c s)
  then show ?case by (cases i) (auto split: if_splits)
qed

lemma index_of_char_None: "index_of s [c] = None \<longleftrightarrow> c \<notin> set s"
  by (induction s) (auto simp: prefix_Cons)

lemma index_of_char_append: "c \<notin> set a \<Longrightarrow> index_of (a @ c # b) [c] = Some (length a)"
  by (induction a) auto

lemma index_of_char_split:
  "index_of s [c] = Some i \<Longrightarrow> i < length s \<and> s ! i = c \<and> c \<notin> set (take i s)"
proof (induction s arbitrary: i)
  case Nil
  then show ?case by simp
next
  case (Cons x s)
  then show ?case by (cases "x = c") (auto simp: prefix_Cons)
qed

lemma index_of_foreign: "c \<in> set p \<Longrightarrow> c \<notin> set s \<Longrightarrow> index_of s p = None"
  by (induction s) (fastforce dest: set_mono_prefix)+

lemma replace_first_foreign: "c \<in> set p \<Longrightarrow> c \<notin> set s \<Longrightarrow> replace_first s p r = s"
  by (simp add: replace_first_def index_of_foreign)

lemma index_of_prefix: "prefix p s \<Longrightarrow> index_of s p = Some 0"
  by (cases s) auto

lemma index_of_eq_0: "index_of s p = Some 0 \<longleftrightarrow> prefix p s"
  by (cases s) auto

lemma takeWhile_stop: "c \<notin> set a \<Longrightarrow> takeWhile (\<lambda>x. x \<noteq> c) (a @ c # b) = a"
  by (induction a) auto

lemma dropWhile_stop: "c \<notin> set a \<Longrightarrow> dropWhile (\<lambda>x. x \<noteq> c) (a @ c # b) = c # b"
  by (induction a) auto

lemma cut_unique: "c \<notin> set a \<Longrightarrow> c \<notin> set a' \<Longrightarrow> a @ c # b = a' @ c # b' \<longleftrightarrow> a = a' \<and> b = b'"
  by (metis dropWhile_stop list.inject takeWhile_stop)

lemma after_last_app: "c \<notin> set b \<Longrightarrow> after_last c (a @ c # b) = b"
  by (induction a) auto

lemma replace_all_free: "c \<notin> set s \<Longrightarrow> replace_all c d s = s"
  by (induction s) (auto simp: replace_all_def)

lemma nat_str_digits: "x \<in> set (nat_str n) \<Longrightarrow> x \<in> set ''0123456789''"
proof (induction n rule: nat_str.induct)
  case (1 n)
  have digit: "digit_char k \<in> set ''0123456789''" if "k < 10" for k :: nat
    unfolding digit_char_def using that by (intro nth_mem) simp
  show ?case
  proof (cases "n < 10")
    case True
    with "1.prems" digit [of n] show ?thesis by (simp add: nat_str.simps [of n])
  next
    case False
    with 1 digit [of "n mod 10"] show ?thesis by (auto simp: nat_str.simps [of n])
  qed
qed

lemma nat_str_not_Nil [simp]: "nat_str n \<noteq> []"
  by (simp add: nat_str.simps [of n])

end
