(* ===== verification/Promise.thy ===== *)
theory Promise
  imports Prelude
begin

section \<open>The two promise implementations of the adapter\<close>

text \<open>
  \<open>createPromise\<close> (keycloak.js 982-1057) wraps a native promise where the browser has one
  and falls back to a hand-written one. A promise object is a state; an operation returns the
  new state and the callbacks it sets off, each with its argument, in order. For the native
  promise these are jobs of the microtask queue, for the legacy promise they are calls made at once.

  The locale \<open>promise_api\<close> states what the rest of the adapter relies on: a promise is settled
  by the first settling call, a callback attached before or after that is called with the
  settled value, and one of the other kind is not. Its client lemma is about the only way the adapter attaches
  callbacks, \<open>p.success(f).error(g)\<close>: the calls made do not depend on whether the promise
  was settled before or after. Both implementations, and the one \<open>createPromise\<close> picks, are
  interpretations.
\<close>

datatype 'v status = Pending | Fulfilled 'v | Rejected 'v

subsection \<open>The native wrapper\<close>

record ('c, 'v) native =
  n_success :: "bool option"
  n_status :: "'v status"
  n_then :: "'c list"
  n_catch :: "'c list"

definition createNativePromise :: "('c, 'v) native" where
  "createNativePromise = \<lparr>n_success = None, n_status = Pending, n_then = [], n_catch = []\<rparr>"

definition native_setSuccess :: "'v \<Rightarrow> ('c, 'v) native \<Rightarrow> ('c, 'v) native \<times> ('c \<times> 'v) list" where
  "native_setSuccess v p =
     (let p = p\<lparr>n_success := Some True\<rparr> in
      case n_status p of
        Pending \<Rightarrow> (p\<lparr>n_status := Fulfilled v, n_then := [], n_catch := []\<rparr>, map (\<lambda>c. (c, v)) (n_then p))
      | _ \<Rightarrow> (p, []))"

definition native_setError :: "'v \<Rightarrow> ('c, 'v) native \<Rightarrow> ('c, 'v) native \<times> ('c \<times> 'v) list" where
  "native_setError v p =
     (let p = p\<lparr>n_success := Some False\<rparr> in
      case n_status p of
        Pending \<Rightarrow> (p\<lparr>n_status := Rejected v, n_then := [], n_catch := []\<rparr>, map (\<lambda>c. (c, v)) (n_catch p))
      | _ \<Rightarrow> (p, []))"

definition native_onSuccess :: "'c \<Rightarrow> ('c, 'v) native \<Rightarrow> ('c, 'v) native \<times> ('c \<times> 'v) list" where
  "native_onSuccess c p =
     (case n_status p of
        Pending \<Rightarrow> (p\<lparr>n_then := n_then p @ [c]\<rparr>, [])
      | Fulfilled v \<Rightarrow> (p, [(c, v)])
      | Rejected v \<Rightarrow> (p, []))"

definition native_onError :: "'c \<Rightarrow> ('c, 'v) native \<Rightarrow> ('c, 'v) native \<times> ('c \<times> 'v) list" where
  "native_onError c p =
     (case n_status p of
        Pending \<Rightarrow> (p\<lparr>n_catch := n_catch p @ [c]\<rparr>, [])
      | Fulfilled v \<Rightarrow> (p, [])
      | Rejected v \<Rightarrow> (p, [(c, v)]))"

subsection \<open>The legacy promise\<close>

text \<open>The fields are those of the object \<open>p\<close>; an absent flag is false.\<close>

record ('c, 'v) legacy =
  l_success :: bool
  l_error :: bool
  l_result :: "'v option"
  l_successCallback :: "'c option"
  l_errorCallback :: "'c option"

definition createLegacyPromise :: "('c, 'v) legacy" where
  "createLegacyPromise =
     \<lparr>l_success = False, l_error = False, l_result = None, l_successCallback = None, l_errorCallback = None\<rparr>"

definition call_if :: "'c option \<Rightarrow> 'v \<Rightarrow> ('c \<times> 'v) list" where
  "call_if c v = (case c of None \<Rightarrow> [] | Some f \<Rightarrow> [(f, v)])"

definition legacy_setSuccess :: "'v \<Rightarrow> ('c, 'v) legacy \<Rightarrow> ('c, 'v) legacy \<times> ('c \<times> 'v) list" where
  "legacy_setSuccess v p =
     (p\<lparr>l_success := True, l_result := Some v\<rparr>, call_if (l_successCallback p) v)"

definition legacy_setError :: "'v \<Rightarrow> ('c, 'v) legacy \<Rightarrow> ('c, 'v) legacy \<times> ('c \<times> 'v) list" where
  "legacy_setError v p =
     (p\<lparr>l_error := True, l_result := Some v\<rparr>, call_if (l_errorCallback p) v)"

definition legacy_onSuccess :: "'c \<Rightarrow> ('c, 'v) legacy \<Rightarrow> ('c, 'v) legacy \<times> ('c \<times> 'v) list" where
  "legacy_onSuccess c p =
     (if l_success p then (p, case l_result p of None \<Rightarrow> [] | Some v \<Rightarrow> [(c, v)])
      else if \<not> l_error p then (p\<lparr>l_successCallback := Some c\<rparr>, [])
      else (p, []))"

definition legacy_onError :: "'c \<Rightarrow> ('c, 'v) legacy \<Rightarrow> ('c, 'v) legacy \<times> ('c \<times> 'v) list" where
  "legacy_onError c p =
     (if l_error p then (p, case l_result p of None \<Rightarrow> [] | Some v \<Rightarrow> [(c, v)])
      else if \<not> l_success p then (p\<lparr>l_errorCallback := Some c\<rparr>, [])
      else (p, []))"

definition legacy_status :: "('c, 'v) legacy \<Rightarrow> 'v status" where
  "legacy_status p =
     (case l_result p of
        None \<Rightarrow> Pending
      | Some v \<Rightarrow> if l_success p then Fulfilled v else Rejected v)"

text \<open>The flags agree with the stored result, and at most one of them is set.\<close>

definition legacy_inv :: "('c, 'v) legacy \<Rightarrow> bool" where
  "legacy_inv p \<longleftrightarrow>
     ((l_success p \<or> l_error p) \<longleftrightarrow> l_result p \<noteq> None) \<and> \<not> (l_success p \<and> l_error p)"

subsection \<open>The choice of implementation\<close>

datatype ('c, 'v) promise = NativeP "('c, 'v) native" | LegacyP "('c, 'v) legacy"

definition createPromise :: "bool \<Rightarrow> ('c, 'v) promise" where
  "createPromise has_native = (if has_native then NativeP createNativePromise else LegacyP createLegacyPromise)"

fun p_setSuccess :: "'v \<Rightarrow> ('c, 'v) promise \<Rightarrow> ('c, 'v) promise \<times> ('c \<times> 'v) list" where
  "p_setSuccess v (NativeP p) = apfst NativeP (native_setSuccess v p)"
| "p_setSuccess v (LegacyP p) = apfst LegacyP (legacy_setSuccess v p)"

fun p_setError :: "'v \<Rightarrow> ('c, 'v) promise \<Rightarrow> ('c, 'v) promise \<times> ('c \<times> 'v) list" where
  "p_setError v (NativeP p) = apfst NativeP (native_setError v p)"
| "p_setError v (LegacyP p) = apfst LegacyP (legacy_setError v p)"

fun p_onSuccess :: "'c \<Rightarrow> ('c, 'v) promise \<Rightarrow> ('c, 'v) promise \<times> ('c \<times> 'v) list" where
  "p_onSuccess c (NativeP p) = apfst NativeP (native_onSuccess c p)"
| "p_onSuccess c (LegacyP p) = apfst LegacyP (legacy_onSuccess c p)"

fun p_onError :: "'c \<Rightarrow> ('c, 'v) promise \<Rightarrow> ('c, 'v) promise \<times> ('c \<times> 'v) list" where
  "p_onError c (NativeP p) = apfst NativeP (native_onError c p)"
| "p_onError c (LegacyP p) = apfst LegacyP (legacy_onError c p)"

fun p_status :: "('c, 'v) promise \<Rightarrow> 'v status" where
  "p_status (NativeP p) = n_status p"
| "p_status (LegacyP p) = legacy_status p"

fun p_inv :: "('c, 'v) promise \<Rightarrow> bool" where
  "p_inv (NativeP p) = True"
| "p_inv (LegacyP p) = legacy_inv p"

fun p_waiting :: "('c, 'v) promise \<Rightarrow> 'c list \<times> 'c list" where
  "p_waiting (NativeP p) = (n_then p, n_catch p)"
| "p_waiting (LegacyP p) =
     ((case l_successCallback p of None \<Rightarrow> [] | Some c \<Rightarrow> [c]), (case l_errorCallback p of None \<Rightarrow> [] | Some c \<Rightarrow> [c]))"

subsection \<open>The contract\<close>

locale promise_api =
  fixes create :: 'p
    and setOk :: "'v \<Rightarrow> 'p \<Rightarrow> 'p \<times> ('c \<times> 'v) list"
    and setErr :: "'v \<Rightarrow> 'p \<Rightarrow> 'p \<times> ('c \<times> 'v) list"
    and onOk :: "'c \<Rightarrow> 'p \<Rightarrow> 'p \<times> ('c \<times> 'v) list"
    and onErr :: "'c \<Rightarrow> 'p \<Rightarrow> 'p \<times> ('c \<times> 'v) list"
    and status :: "'p \<Rightarrow> 'v status"
    and waiting :: "'p \<Rightarrow> 'c list \<times> 'c list"
    and inv :: "'p \<Rightarrow> bool"
  assumes create_inv: "inv create"
    and create_status: "status create = Pending"
    and create_waiting: "waiting create = ([], [])"
    and setOk_pending: "inv p \<Longrightarrow> status p = Pending \<Longrightarrow>
          inv (fst (setOk v p)) \<and> status (fst (setOk v p)) = Fulfilled v \<and>
          snd (setOk v p) = map (\<lambda>c. (c, v)) (fst (waiting p))"
    and setErr_pending: "inv p \<Longrightarrow> status p = Pending \<Longrightarrow>
          inv (fst (setErr v p)) \<and> status (fst (setErr v p)) = Rejected v \<and>
          snd (setErr v p) = map (\<lambda>c. (c, v)) (snd (waiting p))"
    and onOk_inv: "inv p \<Longrightarrow> inv (fst (onOk c p)) \<and> status (fst (onOk c p)) = status p"
    and onErr_inv: "inv p \<Longrightarrow> inv (fst (onErr c p)) \<and> status (fst (onErr c p)) = status p"
    and onOk_pending: "inv p \<Longrightarrow> status p = Pending \<Longrightarrow> fst (waiting p) = [] \<Longrightarrow>
          waiting (fst (onOk c p)) = ([c], snd (waiting p)) \<and> snd (onOk c p) = []"
    and onErr_pending: "inv p \<Longrightarrow> status p = Pending \<Longrightarrow> snd (waiting p) = [] \<Longrightarrow>
          waiting (fst (onErr c p)) = (fst (waiting p), [c]) \<and> snd (onErr c p) = []"
    and onOk_fulfilled: "inv p \<Longrightarrow> status p = Fulfilled v \<Longrightarrow> snd (onOk c p) = [(c, v)]"
    and onOk_rejected: "inv p \<Longrightarrow> status p = Rejected v \<Longrightarrow> snd (onOk c p) = []"
    and onErr_fulfilled: "inv p \<Longrightarrow> status p = Fulfilled v \<Longrightarrow> snd (onErr c p) = []"
    and onErr_rejected: "inv p \<Longrightarrow> status p = Rejected v \<Longrightarrow> snd (onErr c p) = [(c, v)]"
begin

text \<open>Attaching the two callbacks as \<open>p.success(f).error(g)\<close> does.\<close>

definition attach :: "'c \<Rightarrow> 'c \<Rightarrow> 'p \<Rightarrow> 'p \<times> ('c \<times> 'v) list" where
  "attach f g p = (let (p1, e1) = onOk f p; (p2, e2) = onErr g p1 in (p2, e1 @ e2))"

lemma attach_fst: "fst (attach f g p) = fst (onErr g (fst (onOk f p)))"
  by (simp add: attach_def split: prod.split)

lemma attach_snd: "snd (attach f g p) = snd (onOk f p) @ snd (onErr g (fst (onOk f p)))"
  by (simp add: attach_def split: prod.split)

lemma attach_create:
  "inv (fst (attach f g create)) \<and> status (fst (attach f g create)) = Pending \<and>
   waiting (fst (attach f g create)) = ([f], [g]) \<and> snd (attach f g create) = []"
proof -
  let ?p = "fst (onOk f create)"
  have p: "inv ?p" "status ?p = Pending" "waiting ?p = ([f], [])" "snd (onOk f create) = []"
    using onOk_inv [OF create_inv] onOk_pending [OF create_inv create_status] create_status create_waiting
    by simp_all
  then show ?thesis
    using onErr_inv [OF p(1)] onErr_pending [OF p(1,2)] by (simp add: attach_fst attach_snd)
qed

lemma attach_then_ok: "snd (setOk v (fst (attach f g create))) = [(f, v)]"
  using attach_create [of f g] setOk_pending by simp

lemma attach_then_err: "snd (setErr v (fst (attach f g create))) = [(g, v)]"
  using attach_create [of f g] setErr_pending by simp

lemma ok_then_attach: "snd (attach f g (fst (setOk v create))) = [(f, v)]"
proof -
  let ?p = "fst (setOk v create)"
  have p: "inv ?p" "status ?p = Fulfilled v"
    using setOk_pending [OF create_inv create_status] by simp_all
  then show ?thesis
    using onOk_fulfilled [OF p] onOk_inv [OF p(1)] onErr_fulfilled by (simp add: attach_snd)
qed

lemma err_then_attach: "snd (attach f g (fst (setErr v create))) = [(g, v)]"
proof -
  let ?p = "fst (setErr v create)"
  have p: "inv ?p" "status ?p = Rejected v"
    using setErr_pending [OF create_inv create_status] by simp_all
  then show ?thesis
    using onOk_rejected [OF p] onOk_inv [OF p(1)] onErr_rejected by (simp add: attach_snd)
qed

lemmas delivery = attach_then_ok attach_then_err ok_then_attach err_then_attach

end

subsection \<open>The implementations meet the contract\<close>

lemmas native_defs = createNativePromise_def native_setSuccess_def native_setError_def
  native_onSuccess_def native_onError_def

lemmas legacy_defs = createLegacyPromise_def legacy_setSuccess_def legacy_setError_def
  legacy_onSuccess_def legacy_onError_def legacy_status_def legacy_inv_def call_if_def

interpretation native: promise_api createNativePromise native_setSuccess native_setError
  native_onSuccess native_onError n_status "\<lambda>p. (n_then p, n_catch p)" "\<lambda>_. True"
  by unfold_locales (auto simp: native_defs split: status.split)

interpretation legacy: promise_api createLegacyPromise legacy_setSuccess legacy_setError
  legacy_onSuccess legacy_onError legacy_status
  "\<lambda>p. ((case l_successCallback p of None \<Rightarrow> [] | Some c \<Rightarrow> [c]), (case l_errorCallback p of None \<Rightarrow> [] | Some c \<Rightarrow> [c]))"
  legacy_inv
  by unfold_locales (auto simp: legacy_defs split: option.splits if_splits)

lemmas promise_defs = native_defs legacy_defs createPromise_def

lemmas promise_splits = option.splits if_splits status.splits

lemma created_promise_api:
  "promise_api (createPromise b) p_setSuccess p_setError p_onSuccess p_onError p_status p_waiting p_inv"
proof (unfold_locales, goal_cases)
  case 1
  show ?case by (simp add: createPromise_def legacy.create_inv)
next
  case 2
  show ?case by (simp add: createPromise_def native.create_status legacy.create_status)
next
  case 3
  show ?case by (simp add: createPromise_def createNativePromise_def createLegacyPromise_def)
next
  case (4 p v)
  then show ?case by (cases p) (auto simp: promise_defs split: promise_splits)
next
  case (5 p v)
  then show ?case by (cases p) (auto simp: promise_defs split: promise_splits)
next
  case (6 p c)
  then show ?case by (cases p) (auto simp: promise_defs split: promise_splits)
next
  case (7 p c)
  then show ?case by (cases p) (auto simp: promise_defs split: promise_splits)
next
  case (8 p c)
  then show ?case by (cases p) (auto simp: promise_defs split: promise_splits)
next
  case (9 p c)
  then show ?case by (cases p) (auto simp: promise_defs split: promise_splits)
next
  case (10 p v c)
  then show ?case by (cases p) (auto simp: promise_defs split: promise_splits)
next
  case (11 p v c)
  then show ?case by (cases p) (auto simp: promise_defs split: promise_splits)
next
  case (12 p v c)
  then show ?case by (cases p) (auto simp: promise_defs split: promise_splits)
next
  case (13 p v c)
  then show ?case by (cases p) (auto simp: promise_defs split: promise_splits)
qed

interpretation created: promise_api "createPromise b" p_setSuccess p_setError p_onSuccess p_onError
  p_status p_waiting p_inv for b
  by (rule created_promise_api)

subsection \<open>Properties\<close>

text \<open>C14. Attaching callbacks as \<open>p.success(f).error(g)\<close> calls exactly the one that matches the outcome, once and
  with the settled value, whether the promise is settled before or after and whichever implementation the browser gets.\<close>

theorem promise_delivery:
  "snd (p_setSuccess v (fst (p_onError g (fst (p_onSuccess f (createPromise b)))))) = [(f, v)] \<and>
   snd (p_setError v (fst (p_onError g (fst (p_onSuccess f (createPromise b)))))) = [(g, v)] \<and>
   snd (p_onSuccess f (fst (p_setSuccess v (createPromise b))))
     @ snd (p_onError g (fst (p_onSuccess f (fst (p_setSuccess v (createPromise b)))))) = [(f, v)] \<and>
   snd (p_onSuccess f (fst (p_setError v (createPromise b))))
     @ snd (p_onError g (fst (p_onSuccess f (fst (p_setError v (createPromise b)))))) = [(g, v)]"
  using created.attach_then_ok [where b = b and f = f and g = g and v = v]
    created.attach_then_err [where b = b and f = f and g = g and v = v]
    created.ok_then_attach [where b = b and f = f and g = g and v = v]
    created.err_then_attach [where b = b and f = f and g = g and v = v]
  by (simp add: created.attach_fst created.attach_snd)

text \<open>The native promise ignores every settling call after the first. The legacy one does not: a second
  \<open>setSuccess\<close> calls the success callback again, with the new value.\<close>

theorem settle_again:
  "snd (native_setSuccess u (fst (native_setSuccess v p))) = [] \<and>
   snd (native_setError u (fst (native_setSuccess v p))) = [] \<and>
   n_status (fst (native_setError u (fst (native_setSuccess v createNativePromise)))) = Fulfilled v \<and>
   snd (legacy_setSuccess u (fst (legacy_setSuccess v (fst (legacy_onSuccess c createLegacyPromise))))) = [(c, u)]"
  by (simp add: native_defs legacy_defs Let_def split: status.split)

end
