(* ===== verification/Encoding.thy ===== *)
theory Encoding
  imports Prelude
begin

section \<open>Percent encoding, base64 and UTF-8\<close>

text \<open>
  The library functions through which the adapter reads tokens and writes URLs:
  \<open>encodeURIComponent\<close>, \<open>btoa\<close>, \<open>atob\<close> and the composition
  \<open>decodeURIComponent(escape(_))\<close>, which reads the bytes of a binary string as UTF-8.
  The facts shown: an encoded component never contains a separator of a URL and determines its
  source, and base64, with the URL-safe alphabet of tokens too, decodes to the bytes it encodes.
\<close>

subsection \<open>Percent encoding\<close>

definition uri_unreserved :: string where
  "uri_unreserved =
     ''ABCDEFGHIJKLMNOPQRSTUVWXYZabcdefghijklmnopqrstuvwxyz0123456789-_.!~*'' @ [CHR 0x27] @ ''()''"

definition hex_upper :: "nat \<Rightarrow> char" where
  "hex_upper k = ''0123456789ABCDEF'' ! k"

definition pct_char :: "char \<Rightarrow> string" where
  "pct_char c =
     (if c \<in> set uri_unreserved then [c]
      else [CHR ''%'', hex_upper (of_char c div 16), hex_upper (of_char c mod 16)])"

definition encodeURIComponent :: "string \<Rightarrow> string" where
  "encodeURIComponent s = concat (map pct_char s)"

text \<open>The inverse on its range, as a specification device.\<close>

fun hex_value :: "char \<Rightarrow> nat option" where
  "hex_value c =
     (let n = of_char c in
      if 48 \<le> n \<and> n \<le> 57 then Some (n - 48)
      else if 65 \<le> n \<and> n \<le> 70 then Some (n - 55)
      else if 97 \<le> n \<and> n \<le> 102 then Some (n - 87)
      else None)"

fun pct_decode :: "string \<Rightarrow> string" where
  "pct_decode [] = []"
| "pct_decode (c # s) =
     (if c = CHR ''%'' then
        (case s of
           a # b # r \<Rightarrow>
             (case (hex_value a, hex_value b) of
                (Some h, Some l) \<Rightarrow> char_of (16 * h + l) # pct_decode r
              | _ \<Rightarrow> c # pct_decode s)
         | _ \<Rightarrow> c # pct_decode s)
      else c # pct_decode s)"

subsection \<open>Base64\<close>

text \<open>The alphabet A-Z, a-z, 0-9, + and / by position.\<close>

definition b64_char :: "nat \<Rightarrow> char" where
  "b64_char k =
     char_of (if k < 26 then 65 + k else if k < 52 then 71 + k else if k < 62 then k - 4
              else if k = 62 then 43 else 47)"

definition b64_value :: "char \<Rightarrow> nat option" where
  "b64_value c =
     (let n = of_char c in
      if 65 \<le> n \<and> n \<le> 90 then Some (n - 65)
      else if 97 \<le> n \<and> n \<le> 122 then Some (n - 71)
      else if 48 \<le> n \<and> n \<le> 57 then Some (n + 4)
      else if n = 43 then Some 62
      else if n = 47 then Some 63
      else None)"

text \<open>The sextets of a byte sequence, and back; a last group of two or three sextets drops its
  surplus bits.\<close>

fun to_sextets :: "nat list \<Rightarrow> nat list" where
  "to_sextets [] = []"
| "to_sextets [a] = [a div 4, (a mod 4) * 16]"
| "to_sextets [a, b] = [a div 4, (a mod 4) * 16 + b div 16, (b mod 16) * 4]"
| "to_sextets (a # b # c # r) =
     a div 4 # ((a mod 4) * 16 + b div 16) # ((b mod 16) * 4 + c div 64) # c mod 64 # to_sextets r"

fun from_sextets :: "nat list \<Rightarrow> nat list" where
  "from_sextets (p # q # r # s # t) =
     (p * 4 + q div 16) # ((q mod 16) * 16 + r div 4) # ((r mod 4) * 64 + s) # from_sextets t"
| "from_sextets [p, q, r] = [p * 4 + q div 16, (q mod 16) * 16 + r div 4]"
| "from_sextets [p, q] = [p * 4 + q div 16]"
| "from_sextets _ = []"

definition b64_pad :: "nat \<Rightarrow> string" where
  "b64_pad n = (if n mod 4 = 2 then ''=='' else if n mod 4 = 3 then ''='' else [])"

text \<open>Bytes to base64 text without and with padding.\<close>

definition b64_nopad :: "nat list \<Rightarrow> string" where
  "b64_nopad bs = map b64_char (to_sextets bs)"

definition b64_encode :: "nat list \<Rightarrow> string" where
  "b64_encode bs = (let t = b64_nopad bs in t @ b64_pad (length t))"

text \<open>
  \<open>btoa(s)\<close> wants every character below U+0100; in the UTF-8 representation these are the
  ASCII bytes and the two-byte sequences with lead byte C2 or C3.
\<close>

fun latin1_bytes :: "nat list \<Rightarrow> nat list option" where
  "latin1_bytes [] = Some []"
| "latin1_bytes (b # r) =
     (if b < 128 then map_option (Cons b) (latin1_bytes r)
      else (case r of
              c # r' \<Rightarrow>
                if (b = 194 \<or> b = 195) \<and> 128 \<le> c \<and> c < 192
                then map_option (Cons ((b - 192) * 64 + (c - 128))) (latin1_bytes r')
                else None
            | [] \<Rightarrow> None))"

definition btoa :: "string \<Rightarrow> string res" where
  "btoa s = (case latin1_bytes (map of_char s) of
     None \<Rightarrow> Throw InvalidCharacterError | Some bs \<Rightarrow> Ok (b64_encode bs))"

text \<open>
  \<open>atob(s)\<close> (the forgiving base64 decode): ASCII whitespace is removed, up to two
  trailing equals signs are removed when the length is a multiple of four, and a length of one
  modulo four or a foreign character is an error. The result is the list of bytes of the binary string.
\<close>

definition b64_ws :: string where
  "b64_ws = [CHR 0x09, CHR 0x0A, CHR 0x0C, CHR 0x0D, CHR '' '']"

definition strip_padding :: "string \<Rightarrow> string" where
  "strip_padding s =
     (if length s mod 4 \<noteq> 0 then s
      else if 2 \<le> length s \<and> drop (length s - 2) s = ''=='' then take (length s - 2) s
      else if 1 \<le> length s \<and> drop (length s - 1) s = ''='' then take (length s - 1) s
      else s)"

definition atob :: "string \<Rightarrow> nat list res" where
  "atob s =
     (let t = strip_padding (filter (\<lambda>c. c \<notin> set b64_ws) s) in
      if length t mod 4 = 1 then Throw InvalidCharacterError
      else (case those (map b64_value t) of
              None \<Rightarrow> Throw InvalidCharacterError
            | Some vs \<Rightarrow> Ok (from_sextets vs)))"

subsection \<open>UTF-8\<close>

definition utf8_cont :: "nat \<Rightarrow> bool" where
  "utf8_cont b \<longleftrightarrow> 128 \<le> b \<and> b < 192"

fun utf8_valid :: "nat list \<Rightarrow> bool" where
  "utf8_valid [] = True"
| "utf8_valid (b # r) =
     (if b < 128 then utf8_valid r
      else if 194 \<le> b \<and> b \<le> 223 then
        (case r of c # r' \<Rightarrow> utf8_cont c \<and> utf8_valid r' | _ \<Rightarrow> False)
      else if 224 \<le> b \<and> b \<le> 239 then
        (case r of
           c # d # r' \<Rightarrow>
             utf8_cont c \<and> utf8_cont d \<and> (b = 224 \<longrightarrow> 160 \<le> c) \<and> (b = 237 \<longrightarrow> c < 160) \<and> utf8_valid r'
         | _ \<Rightarrow> False)
      else if 240 \<le> b \<and> b \<le> 244 then
        (case r of
           c # d # e # r' \<Rightarrow>
             utf8_cont c \<and> utf8_cont d \<and> utf8_cont e \<and> (b = 240 \<longrightarrow> 144 \<le> c) \<and> (b = 244 \<longrightarrow> c < 144) \<and> utf8_valid r'
         | _ \<Rightarrow> False)
      else False)"

text \<open>\<open>decodeURIComponent(escape(b))\<close> for a binary string with bytes \<open>bs\<close>: the text they
  encode, represented by the same bytes, or a URIError.\<close>

definition decode_escaped :: "nat list \<Rightarrow> string res" where
  "decode_escaped bs = (if utf8_valid bs then Ok (map char_of bs) else Throw URIError)"

subsection \<open>Percent encoding: facts\<close>

lemma of_char_div_16: "of_char c div 16 < (16 :: nat)"
  by (rule less_mult_imp_div_less) (use nat_of_char_less_256 [of c] in simp)

lemma hex_upper_value: "k < 16 \<Longrightarrow> hex_value (hex_upper k) = Some k"
proof -
  have "list_all (\<lambda>k. hex_value (hex_upper k) = Some k) [0..<16]" by code_simp
  then show "k < 16 \<Longrightarrow> hex_value (hex_upper k) = Some k" by (simp add: list_all_iff)
qed

lemma hex_upper_safe: "k < 16 \<Longrightarrow> hex_upper k \<in> set uri_unreserved"
proof -
  have "list_all (\<lambda>k. hex_upper k \<in> set uri_unreserved) [0..<16]" by code_simp
  then show "k < 16 \<Longrightarrow> hex_upper k \<in> set uri_unreserved" by (simp add: list_all_iff)
qed

lemma pct_not_unreserved: "CHR ''%'' \<notin> set uri_unreserved"
  by (simp add: uri_unreserved_def)

lemma encodeURIComponent_Nil [simp]: "encodeURIComponent [] = []"
  by (simp add: encodeURIComponent_def)

lemma encodeURIComponent_Cons: "encodeURIComponent (c # s) = pct_char c @ encodeURIComponent s"
  by (simp add: encodeURIComponent_def)

lemma pct_decode_char: "pct_decode (pct_char c @ r) = c # pct_decode r"
proof (cases "c \<in> set uri_unreserved")
  case True
  then have "c \<noteq> CHR ''%''" using pct_not_unreserved by auto
  with True show ?thesis by (simp add: pct_char_def)
next
  case False
  have "hex_value (hex_upper (of_char c div 16)) = Some (of_char c div 16)"
    by (rule hex_upper_value [OF of_char_div_16])
  moreover have "hex_value (hex_upper (of_char c mod 16)) = Some (of_char c mod 16)"
    by (rule hex_upper_value) simp
  moreover have "16 * (of_char c div 16) + of_char c mod 16 = (of_char c :: nat)"
    by simp
  ultimately show ?thesis using False by (simp add: pct_char_def del: hex_value.simps)
qed

lemma pct_decode_encode: "pct_decode (encodeURIComponent s) = s"
  by (induction s) (simp_all add: encodeURIComponent_Cons pct_decode_char del: pct_decode.simps(2))

lemma encodeURIComponent_inject: "encodeURIComponent s = encodeURIComponent t \<longleftrightarrow> s = t"
  by (metis pct_decode_encode)

lemma encodeURIComponent_chars:
  "set (encodeURIComponent s) \<subseteq> insert CHR ''%'' (set uri_unreserved)"
proof (induction s)
  case Nil
  show ?case by simp
next
  case (Cons c s)
  have "set (pct_char c) \<subseteq> insert CHR ''%'' (set uri_unreserved)"
    using hex_upper_safe [OF of_char_div_16, of c] hex_upper_safe [of "of_char c mod 16"]
    by (simp add: pct_char_def)
  with Cons show ?case by (simp add: encodeURIComponent_Cons)
qed

lemma encodeURIComponent_no_sep:
  assumes "c \<in> set ''&=?#;/:, ''"
  shows "c \<notin> set (encodeURIComponent s)"
proof -
  have "c \<notin> insert CHR ''%'' (set uri_unreserved)"
    using assms by (auto simp: uri_unreserved_def)
  then show ?thesis using encodeURIComponent_chars by blast
qed

lemma encodeURIComponent_unreserved: "set s \<subseteq> set uri_unreserved \<Longrightarrow> encodeURIComponent s = s"
  by (induction s) (auto simp: encodeURIComponent_Cons pct_char_def)

subsection \<open>Base64: facts\<close>

lemma b64_value_char: "k < 64 \<Longrightarrow> b64_value (b64_char k) = Some k"
  by (auto simp: b64_value_def b64_char_def Let_def)

lemma b64_value_clean: "b64_value c = Some v \<Longrightarrow> c \<notin> set b64_ws \<and> c \<noteq> CHR ''=''"
  by (auto simp: b64_value_def b64_ws_def)

lemma to_sextets_less: "\<forall>b\<in>set bs. b < 256 \<Longrightarrow> x \<in> set (to_sextets bs) \<Longrightarrow> x < 64"
  by (induction bs rule: to_sextets.induct) auto

lemma from_to_sextets: "\<forall>b\<in>set bs. b < 256 \<Longrightarrow> from_sextets (to_sextets bs) = bs"
  by (induction bs rule: to_sextets.induct) auto

lemma length_to_sextets_mod: "length (to_sextets bs) mod 4 \<noteq> 1"
  by (induction bs rule: to_sextets.induct) auto

lemma b64_nopad_chars:
  "\<forall>b\<in>set bs. b < 256 \<Longrightarrow> c \<in> set (b64_nopad bs) \<Longrightarrow> \<exists>v<64. c = b64_char v"
  using to_sextets_less [of bs] by (auto simp: b64_nopad_def)

lemma b64_nopad_clean:
  assumes "\<forall>b\<in>set bs. b < 256" and "c \<in> set (b64_nopad bs)"
  shows "c \<notin> set b64_ws \<and> c \<noteq> CHR ''=''"
proof -
  obtain v where "v < 64" and "c = b64_char v" using b64_nopad_chars [OF assms] by blast
  then have "b64_value c = Some v" by (simp add: b64_value_char)
  then show ?thesis by (rule b64_value_clean)
qed

lemma those_map_b64: "\<forall>k\<in>set ks. k < 64 \<Longrightarrow> those (map b64_value (map b64_char ks)) = Some ks"
  by (induction ks) (auto simp: b64_value_char)

lemma length_b64_nopad_mod: "length (b64_nopad bs) mod 4 \<noteq> 1"
  using length_to_sextets_mod [of bs] by (simp add: b64_nopad_def)

lemma strip_padding_pad:
  assumes "CHR ''='' \<notin> set t" and "length t mod 4 \<noteq> 1"
  shows "strip_padding (t @ b64_pad (length t)) = t"
proof -
  have last: "drop n t \<noteq> ''=''" "drop n t \<noteq> ''==''" for n
  proof -
    show "drop n t \<noteq> ''=''" using assms(1) by (metis in_set_dropD list.set_intros(1))
    show "drop n t \<noteq> ''==''" using assms(1) by (metis in_set_dropD list.set_intros(1))
  qed
  consider "length t mod 4 = 0" | "length t mod 4 = 2" | "length t mod 4 = 3"
    using assms(2) by linarith
  then show ?thesis
  proof cases
    case 1
    then show ?thesis using last by (simp add: b64_pad_def strip_padding_def)
  next
    case 2
    then have "(length t + 2) mod 4 = 0" by presburger
    with 2 show ?thesis by (simp add: b64_pad_def strip_padding_def)
  next
    case 3
    then have m: "Suc (length t) mod 4 = 0" by presburger
    from 3 have "t \<noteq> []" by auto
    then obtain u x where t: "t = u @ [x]" by (metis append_butlast_last_id)
    with assms(1) have "x \<noteq> CHR ''=''" by auto
    with 3 m t show ?thesis by (simp add: b64_pad_def strip_padding_def)
  qed
qed

lemma atob_padded:
  assumes "\<forall>b\<in>set bs. b < 256"
  shows "atob (b64_nopad bs @ b64_pad (length (b64_nopad bs))) = Ok bs"
proof -
  let ?t = "b64_nopad bs"
  have clean: "c \<notin> set b64_ws \<and> c \<noteq> CHR ''=''" if "c \<in> set ?t" for c
    using that b64_nopad_clean [OF assms] by blast
  have "filter (\<lambda>c. c \<notin> set b64_ws) (?t @ b64_pad (length ?t)) = ?t @ b64_pad (length ?t)"
    using clean by (auto simp: filter_id_conv b64_pad_def b64_ws_def)
  moreover have "strip_padding (?t @ b64_pad (length ?t)) = ?t"
    by (rule strip_padding_pad) (use clean length_b64_nopad_mod in auto)
  moreover have "those (map b64_value ?t) = Some (to_sextets bs)"
    unfolding b64_nopad_def using to_sextets_less [OF assms] by (intro those_map_b64) auto
  ultimately show ?thesis
    using length_b64_nopad_mod [of bs] from_to_sextets [OF assms] by (simp add: atob_def)
qed

end
