(* ===== verification/Json.thy ===== *)
theory Json
  imports Encoding
begin

section \<open>JSON\<close>

text \<open>
  \<open>JSON.parse\<close> as a recursive-descent parser and \<open>JSON.stringify\<close> on the flat objects the
  adapter stores. The parser carries fuel; \<open>JSON_parse\<close> gives it one unit more than
  twice the length of the text, and \<open>JSON_parse_fuel\<close> shows that more changes nothing: a
  value opens with a character, so between two nested values a character is consumed. The round trip \<open>JSON_parse_stringify\<close> is what the
  callback storage rests on.
\<close>

datatype json =
    JNull
  | JBool bool
  | JNum rat
  | JStr string
  | JArr "json list"
  | JObj "(string \<times> json) list"

subsection \<open>Reading\<close>

definition is_ws :: "char \<Rightarrow> bool" where
  "is_ws c \<longleftrightarrow> c \<in> set [CHR 0x09, CHR 0x0A, CHR 0x0D, CHR '' '']"

fun skip_ws :: "string \<Rightarrow> string" where
  "skip_ws [] = []"
| "skip_ws (c # s) = (if is_ws c then skip_ws s else c # s)"

definition is_digit :: "char \<Rightarrow> bool" where
  "is_digit c \<longleftrightarrow> c \<in> set ''0123456789''"

fun span_digits :: "string \<Rightarrow> string \<times> string" where
  "span_digits [] = ([], [])"
| "span_digits (c # s) =
     (if is_digit c then (let (a, b) = span_digits s in (c # a, b)) else ([], c # s))"

definition digits_value :: "string \<Rightarrow> nat" where
  "digits_value s = foldl (\<lambda>n c. 10 * n + (of_char c - 48)) 0 s"

text \<open>UTF-8 bytes of a code point.\<close>

definition utf8_encode :: "nat \<Rightarrow> string" where
  "utf8_encode n =
     (if n < 128 then [char_of n]
      else if n < 2048 then [char_of (192 + n div 64), char_of (128 + n mod 64)]
      else if n < 65536 then
        [char_of (224 + n div 4096), char_of (128 + n div 64 mod 64), char_of (128 + n mod 64)]
      else
        [char_of (240 + n div 262144), char_of (128 + n div 4096 mod 64),
         char_of (128 + n div 64 mod 64), char_of (128 + n mod 64)])"

fun hex4 :: "char \<Rightarrow> char \<Rightarrow> char \<Rightarrow> char \<Rightarrow> nat option" where
  "hex4 a b c d =
     (case (hex_value a, hex_value b, hex_value c, hex_value d) of
        (Some x, Some y, Some z, Some w) \<Rightarrow> Some (4096 * x + 256 * y + 16 * z + w)
      | _ \<Rightarrow> None)"

declare hex4.simps [simp del]

text \<open>One escape sequence after the backslash: the characters it stands for and the rest.
  A pair of surrogate escapes is one code point.\<close>

fun punicode :: "string \<Rightarrow> (string \<times> string) option" where
  "punicode (a # b # c # d # r) =
     (case hex4 a b c d of
        None \<Rightarrow> None
      | Some u \<Rightarrow>
          if 55296 \<le> u \<and> u < 56320 then
            (case r of
               x # y # a' # b' # c' # d' # r' \<Rightarrow>
                 (if x = CHR 0x5C \<and> y = CHR ''u'' then
                    (case hex4 a' b' c' d' of
                       Some l \<Rightarrow>
                         if 56320 \<le> l \<and> l < 57344
                         then Some (utf8_encode (65536 + (u - 55296) * 1024 + (l - 56320)), r')
                         else Some (utf8_encode u, r)
                     | None \<Rightarrow> Some (utf8_encode u, r))
                  else Some (utf8_encode u, r))
             | _ \<Rightarrow> Some (utf8_encode u, r))
          else Some (utf8_encode u, r))"
| "punicode _ = None"

definition simple_escape :: "char \<Rightarrow> char option" where
  "simple_escape c =
     map_of [(CHR 0x22, CHR 0x22), (CHR 0x5C, CHR 0x5C), (CHR ''/'', CHR ''/''),
             (CHR ''b'', CHR 0x08), (CHR ''f'', CHR 0x0C), (CHR ''n'', CHR 0x0A),
             (CHR ''r'', CHR 0x0D), (CHR ''t'', CHR 0x09)] c"

fun pescape :: "string \<Rightarrow> (string \<times> string) option" where
  "pescape [] = None"
| "pescape (e # s) =
     (if e = CHR ''u'' then punicode s
      else map_option (\<lambda>x. ([x], s)) (simple_escape e))"

lemma punicode_shorter: "punicode s = Some (x, r) \<Longrightarrow> length r < length s"
  by (induction s rule: punicode.induct) (auto split: option.splits if_splits list.splits)

lemma pescape_shorter: "pescape s = Some (x, r) \<Longrightarrow> length r < length s"
  by (cases s) (auto split: if_splits dest: punicode_shorter)

text \<open>The body of a string after its opening quote.\<close>

function pstring :: "string \<Rightarrow> (string \<times> string) option" where
  "pstring [] = None"
| "pstring (c # s) =
     (if c = CHR 0x22 then Some ([], s)
      else if c = CHR 0x5C then
        (case pescape s of
           None \<Rightarrow> None
         | Some (x, r) \<Rightarrow> map_option (\<lambda>(y, r'). (x @ y, r')) (pstring r))
      else if of_char c < (32 :: nat) then None
      else map_option (\<lambda>(y, r'). (c # y, r')) (pstring s))"
  by pat_completeness auto
termination
  by (relation "measure length") (auto dest: pescape_shorter)

definition pexponent :: "string \<Rightarrow> (int \<times> string) option" where
  "pexponent s =
     (case s of
        e # r \<Rightarrow>
          if e = CHR ''e'' \<or> e = CHR ''E'' then
            (let (neg, r1) = (case r of
                   c # r' \<Rightarrow> if c = CHR ''-'' then (True, r') else if c = CHR ''+'' then (False, r') else (False, r)
                 | [] \<Rightarrow> (False, r));
                 (ds, r2) = span_digits r1 in
             if ds = [] then None
             else Some ((if neg then - int (digits_value ds) else int (digits_value ds)), r2))
          else Some (0, s)
      | [] \<Rightarrow> Some (0, s))"

definition pfraction :: "string \<Rightarrow> (string \<times> string) option" where
  "pfraction s =
     (case s of
        c # r \<Rightarrow>
          if c = CHR ''.'' then (let (ds, r') = span_digits r in if ds = [] then None else Some (ds, r'))
          else Some ([], s)
      | [] \<Rightarrow> Some ([], s))"

definition pow10 :: "int \<Rightarrow> rat" where
  "pow10 e = (if e \<ge> 0 then 10 ^ nat e else 1 / 10 ^ nat (- e))"

definition punsigned :: "string \<Rightarrow> (rat \<times> string) option" where
  "punsigned s =
     (let (ds, r) = span_digits s in
      if ds = [] \<or> (hd ds = CHR ''0'' \<and> length ds > 1) then None
      else (case pfraction r of
              None \<Rightarrow> None
            | Some (fs, r1) \<Rightarrow>
                (case pexponent r1 of
                   None \<Rightarrow> None
                 | Some (e, r2) \<Rightarrow>
                     Some (of_nat (digits_value (ds @ fs)) * pow10 (e - int (length fs)), r2))))"

definition pnumber :: "string \<Rightarrow> (rat \<times> string) option" where
  "pnumber s =
     (case s of
        c # r \<Rightarrow> if c = CHR ''-'' then map_option (\<lambda>(q, r'). (- q, r')) (punsigned r) else punsigned s
      | [] \<Rightarrow> None)"

definition pliteral :: "string \<Rightarrow> json \<Rightarrow> string \<Rightarrow> (json \<times> string) option" where
  "pliteral w v s = (if prefix w s then Some (v, drop (length w) s) else None)"

fun pvalue :: "nat \<Rightarrow> string \<Rightarrow> (json \<times> string) option"
  and pelements :: "nat \<Rightarrow> string \<Rightarrow> (json list \<times> string) option"
  and pmembers :: "nat \<Rightarrow> string \<Rightarrow> ((string \<times> json) list \<times> string) option" where
  "pvalue 0 s = None"
| "pvalue (Suc n) s =
     (case skip_ws s of
        [] \<Rightarrow> None
      | c # r \<Rightarrow>
          if c = CHR 0x22 then map_option (\<lambda>(x, r'). (JStr x, r')) (pstring r)
          else if c = CHR ''{'' then
            (case skip_ws r of
               d # r' \<Rightarrow> if d = CHR ''}'' then Some (JObj [], r')
                         else map_option (\<lambda>(m, r'). (JObj m, r')) (pmembers n r)
             | [] \<Rightarrow> None)
          else if c = CHR ''['' then
            (case skip_ws r of
               d # r' \<Rightarrow> if d = CHR '']'' then Some (JArr [], r')
                         else map_option (\<lambda>(m, r'). (JArr m, r')) (pelements n r)
             | [] \<Rightarrow> None)
          else if c = CHR ''t'' then pliteral ''true'' (JBool True) (c # r)
          else if c = CHR ''f'' then pliteral ''false'' (JBool False) (c # r)
          else if c = CHR ''n'' then pliteral ''null'' JNull (c # r)
          else map_option (\<lambda>(q, r'). (JNum q, r')) (pnumber (c # r)))"
| "pelements 0 s = None"
| "pelements (Suc n) s =
     (case pvalue n s of
        None \<Rightarrow> None
      | Some (v, r) \<Rightarrow>
          (case skip_ws r of
             d # r' \<Rightarrow>
               if d = CHR '','' then map_option (\<lambda>(vs, r''). (v # vs, r'')) (pelements n r')
               else if d = CHR '']'' then Some ([v], r') else None
           | [] \<Rightarrow> None))"
| "pmembers 0 s = None"
| "pmembers (Suc n) s =
     (case skip_ws s of
        q # s1 \<Rightarrow>
          if q = CHR 0x22 then
            (case pstring s1 of
               None \<Rightarrow> None
             | Some (k, s2) \<Rightarrow>
                 (case skip_ws s2 of
                    co # s3 \<Rightarrow>
                      if co = CHR '':'' then
                        (case pvalue n s3 of
                           None \<Rightarrow> None
                         | Some (v, r) \<Rightarrow>
                             (case skip_ws r of
                                d # r' \<Rightarrow>
                                  if d = CHR '','' then map_option (\<lambda>(m, r''). ((k, v) # m, r'')) (pmembers n r')
                                  else if d = CHR ''}'' then Some ([(k, v)], r') else None
                              | [] \<Rightarrow> None))
                      else None
                  | [] \<Rightarrow> None))
          else None
      | [] \<Rightarrow> None)"

definition JSON_parse :: "string \<Rightarrow> json res" where
  "JSON_parse s =
     (case pvalue (Suc (2 * length s)) s of
        Some (v, r) \<Rightarrow> if skip_ws r = [] then Ok v else Throw SyntaxError
      | None \<Rightarrow> Throw SyntaxError)"

subsection \<open>Using values\<close>

text \<open>
  A JavaScript value that came from JSON is a \<open>json option\<close>, \<open>None\<close> for \<open>undefined\<close>.
  Reading a property of an object gives the last member of that name; a property of a
  primitive or an array is \<open>undefined\<close>, of \<open>null\<close> or \<open>undefined\<close> a TypeError.
\<close>

fun jget :: "json \<Rightarrow> string \<Rightarrow> json option" where
  "jget (JObj m) k = map_of (rev m) k"
| "jget _ k = None"

fun jprop :: "json option \<Rightarrow> string \<Rightarrow> json option res" where
  "jprop None k = Throw TypeError"
| "jprop (Some JNull) k = Throw TypeError"
| "jprop (Some v) k = Ok (jget v k)"

fun jtruthy :: "json option \<Rightarrow> bool" where
  "jtruthy None = False"
| "jtruthy (Some JNull) = False"
| "jtruthy (Some (JBool b)) = b"
| "jtruthy (Some (JNum q)) = (q \<noteq> 0)"
| "jtruthy (Some (JStr s)) = (s \<noteq> [])"
| "jtruthy (Some _) = True"

text \<open>\<open>Number(s)\<close> on strings: surrounding blanks are dropped and the empty string is 0.\<close>

definition str_number :: "string \<Rightarrow> jsnum" where
  "str_number s =
     (let t = skip_ws s in
      if t = [] then Num 0
      else (case pnumber t of
              Some (q, r) \<Rightarrow> if skip_ws r = [] then Num q else NaN
            | None \<Rightarrow> NaN))"

fun to_number :: "json \<Rightarrow> jsnum" where
  "to_number JNull = Num 0"
| "to_number (JBool b) = Num (if b then 1 else 0)"
| "to_number (JNum q) = Num q"
| "to_number (JStr s) = str_number s"
| "to_number (JArr []) = Num 0"
| "to_number (JArr [JBool b]) = NaN"
| "to_number (JArr [v]) = to_number v"
| "to_number _ = NaN"

definition opt_number :: "json option \<Rightarrow> jsnum" where
  "opt_number v = (case v of None \<Rightarrow> NaN | Some j \<Rightarrow> to_number j)"

text \<open>The abstract equality \<open>==\<close> on JSON values: \<open>undefined\<close> and \<open>null\<close> are equal to
  each other only, two strings compare as strings, other primitives as numbers; two objects
  from two texts are distinct, and an object or array is not equal to a primitive (the string
  conversion of an array is not modelled).\<close>

fun is_compound :: "json \<Rightarrow> bool" where
  "is_compound (JArr _) = True"
| "is_compound (JObj _) = True"
| "is_compound _ = False"

fun js_eq :: "json option \<Rightarrow> json option \<Rightarrow> bool" where
  "js_eq a b =
     (case (a, b) of
        (None, None) \<Rightarrow> True
      | (None, Some y) \<Rightarrow> y = JNull
      | (Some x, None) \<Rightarrow> x = JNull
      | (Some x, Some y) \<Rightarrow>
          if x = JNull \<or> y = JNull then x = y
          else if is_compound x \<or> is_compound y then False
          else (case (x, y) of
                  (JStr s, JStr t) \<Rightarrow> s = t
                | _ \<Rightarrow> (case (to_number x, to_number y) of (Num p, Num q) \<Rightarrow> p = q | _ \<Rightarrow> False)))"

declare js_eq.simps [simp del]

subsection \<open>Writing flat objects\<close>

datatype jsprim = PStr string | PInt int

fun prim_json :: "jsprim \<Rightarrow> json" where
  "prim_json (PStr s) = JStr s"
| "prim_json (PInt z) = JNum (of_int z)"

definition hex_lower :: "nat \<Rightarrow> char" where
  "hex_lower k = ''0123456789abcdef'' ! k"

definition esc_char :: "char \<Rightarrow> string" where
  "esc_char c =
     (if c = CHR 0x22 then [CHR 0x5C, CHR 0x22]
      else if c = CHR 0x5C then [CHR 0x5C, CHR 0x5C]
      else if c = CHR 0x08 then [CHR 0x5C, CHR ''b'']
      else if c = CHR 0x0C then [CHR 0x5C, CHR ''f'']
      else if c = CHR 0x0A then [CHR 0x5C, CHR ''n'']
      else if c = CHR 0x0D then [CHR 0x5C, CHR ''r'']
      else if c = CHR 0x09 then [CHR 0x5C, CHR ''t'']
      else if of_char c < (32 :: nat) then
        [CHR 0x5C, CHR ''u'', CHR ''0'', CHR ''0'', hex_lower (of_char c div 16), hex_lower (of_char c mod 16)]
      else [c])"

definition quote :: "string \<Rightarrow> string" where
  "quote s = [CHR 0x22] @ concat (map esc_char s) @ [CHR 0x22]"

fun prim_text :: "jsprim \<Rightarrow> string" where
  "prim_text (PStr s) = quote s"
| "prim_text (PInt z) = int_str z"

definition member_text :: "string \<times> jsprim \<Rightarrow> string" where
  "member_text m = quote (fst m) @ '':'' @ prim_text (snd m)"

definition JSON_stringify :: "(string \<times> jsprim) list \<Rightarrow> string" where
  "JSON_stringify m = ''{'' @ join '','' (map member_text m) @ ''}''"

subsection \<open>Strings round trip\<close>

lemma hex_lower_value: "k < 16 \<Longrightarrow> hex_value (hex_lower k) = Some k"
proof -
  have "list_all (\<lambda>k. hex_value (hex_lower k) = Some k) [0..<16]" by code_simp
  then show "k < 16 \<Longrightarrow> hex_value (hex_lower k) = Some k" by (simp add: list_all_iff)
qed

lemma hex4_control:
  assumes "of_char c < (32 :: nat)"
  shows "hex4 CHR ''0'' CHR ''0'' (hex_lower (of_char c div 16)) (hex_lower (of_char c mod 16)) = Some (of_char c)"
proof -
  have "of_char c div 16 < (16 :: nat)" using assms by simp
  then have "hex_value (hex_lower (of_char c div 16)) = Some (of_char c div 16)"
    by (rule hex_lower_value)
  moreover have "hex_value (hex_lower (of_char c mod 16)) = Some (of_char c mod 16)"
    by (rule hex_lower_value) simp
  moreover have "hex_value CHR ''0'' = Some 0" by simp
  ultimately show ?thesis by (simp add: hex4.simps del: hex_value.simps)
qed

lemma pstring_esc_char:
  "pstring (esc_char c @ t) = map_option (\<lambda>(y, r). (c # y, r)) (pstring t)"
proof -
  consider (special) "c \<in> {CHR 0x22, CHR 0x5C, CHR 0x08, CHR 0x0C, CHR 0x0A, CHR 0x0D, CHR 0x09}"
    | (control) "c \<notin> {CHR 0x22, CHR 0x5C, CHR 0x08, CHR 0x0C, CHR 0x0A, CHR 0x0D, CHR 0x09}"
        "of_char c < (32 :: nat)"
    | (plain) "c \<notin> {CHR 0x22, CHR 0x5C, CHR 0x08, CHR 0x0C, CHR 0x0A, CHR 0x0D, CHR 0x09}"
        "\<not> of_char c < (32 :: nat)"
    by blast
  then show ?thesis
  proof cases
    case special
    then show ?thesis by (auto simp: esc_char_def simple_escape_def)
  next
    case control
    then show ?thesis by (simp add: esc_char_def hex4_control utf8_encode_def)
  next
    case plain
    then show ?thesis by (simp add: esc_char_def)
  qed
qed

lemma pstring_quoted: "pstring (concat (map esc_char s) @ CHR 0x22 # r) = Some (s, r)"
  by (induction s) (simp_all add: pstring_esc_char del: pstring.simps(2), simp)

subsection \<open>Integers round trip\<close>

lemma span_digits_append:
  "\<forall>c\<in>set a. is_digit c \<Longrightarrow> span_digits (a @ r) = (let (x, y) = span_digits r in (a @ x, y))"
  by (induction a) (auto split: prod.splits simp: Let_def)

lemma span_digits_stop: "r = [] \<or> \<not> is_digit (hd r) \<Longrightarrow> span_digits r = ([], r)"
  by (cases r) auto

lemma digits_value_snoc: "digits_value (a @ [c]) = 10 * digits_value a + (of_char c - 48)"
  by (simp add: digits_value_def)

lemma digit_char_value: "k < 10 \<Longrightarrow> of_char (digit_char k) - 48 = (k :: nat)"
proof -
  have "list_all (\<lambda>k. of_char (digit_char k) - 48 = k) [0..<10]" by code_simp
  then show "k < 10 \<Longrightarrow> of_char (digit_char k) - 48 = k" by (simp add: list_all_iff)
qed

lemma digits_value_nat_str: "digits_value (nat_str n) = n"
proof (induction n rule: nat_str.induct)
  case (1 n)
  show ?case
  proof (cases "n < 10")
    case True
    then show ?thesis
      using digit_char_value [of n] by (simp add: nat_str.simps [of n] digits_value_def)
  next
    case False
    with 1 have "digits_value (nat_str (n div 10)) = n div 10" by simp
    with False show ?thesis
      using digit_char_value [of "n mod 10"] by (simp add: nat_str.simps [of n] digits_value_snoc)
  qed
qed

lemma digit_char_pos:
  assumes "0 < k" and "k < 10"
  shows "digit_char k \<noteq> CHR ''0''"
proof -
  have "list_all (\<lambda>k. k = 0 \<or> digit_char k \<noteq> CHR ''0'') [0..<10]" by code_simp
  moreover have "k \<in> set [0..<10]" using assms by simp
  ultimately have "k = 0 \<or> digit_char k \<noteq> CHR ''0''" unfolding list_all_iff by (rule bspec)
  with assms show ?thesis by simp
qed

lemma nat_str_no_leading_zero: "0 < n \<Longrightarrow> hd (nat_str n) \<noteq> CHR ''0''"
proof (induction n rule: nat_str.induct)
  case (1 n)
  show ?case
  proof (cases "n < 10")
    case True
    with "1.prems" show ?thesis by (simp add: nat_str.simps [of n] digit_char_pos)
  next
    case False
    with 1 show ?thesis by (simp add: nat_str.simps [of n])
  qed
qed

lemma nat_str_leading:
  "\<not> (hd (nat_str n) = CHR ''0'' \<and> length (nat_str n) > 1)"
proof (cases "n = 0")
  case True
  then show ?thesis by (simp add: nat_str.simps [of 0])
next
  case False
  then show ?thesis using nat_str_no_leading_zero [of n] by simp
qed

text \<open>What may follow a number inside an object.\<close>

definition num_stop :: "string \<Rightarrow> bool" where
  "num_stop r \<longleftrightarrow> r = [] \<or> (\<not> is_digit (hd r) \<and> hd r \<notin> {CHR ''.'', CHR ''e'', CHR ''E''})"

lemma punsigned_nat_str:
  assumes "num_stop r"
  shows "punsigned (nat_str n @ r) = Some (of_nat n, r)"
proof -
  have dig: "\<forall>c\<in>set (nat_str n). is_digit c"
    using nat_str_digits by (auto simp: is_digit_def)
  have "span_digits r = ([], r)"
    using assms by (intro span_digits_stop) (auto simp: num_stop_def)
  then have "span_digits (nat_str n @ r) = (nat_str n, r)"
    using dig by (simp add: span_digits_append)
  moreover have "pfraction r = Some ([], r)" and "pexponent r = Some (0, r)"
    using assms by (auto simp: num_stop_def pfraction_def pexponent_def split: list.splits)
  ultimately show ?thesis
    using nat_str_leading [of n] by (auto simp: punsigned_def digits_value_nat_str pow10_def)
qed

lemma is_digit_minus: "\<not> is_digit CHR ''-''"
  by (simp add: is_digit_def)

lemma nat_str_head: "\<exists>c t. nat_str n = c # t \<and> is_digit c"
proof -
  obtain c t where "nat_str n = c # t" by (cases "nat_str n") auto
  moreover have "c \<in> set (nat_str n)" using calculation by simp
  ultimately show ?thesis using nat_str_digits [of c n] by (auto simp: is_digit_def)
qed

lemma pnumber_int_str:
  assumes "num_stop r"
  shows "pnumber (int_str z @ r) = Some (of_int z, r)"
proof (cases "z < 0")
  case True
  then show ?thesis
    using punsigned_nat_str [OF assms, of "nat (- z)"] by (simp add: int_str_def pnumber_def of_nat_nat)
next
  case False
  obtain c t where ct: "nat_str (nat z) = c # t" "is_digit c" using nat_str_head by blast
  then have "c \<noteq> CHR ''-''" using is_digit_minus by auto
  with False ct punsigned_nat_str [OF assms, of "nat z"] show ?thesis
    by (simp add: int_str_def pnumber_def of_nat_nat)
qed

subsection \<open>Flat objects round trip\<close>

lemma is_digit_classes:
  "is_digit c \<Longrightarrow> \<not> is_ws c \<and> c \<notin> {CHR 0x22, CHR ''{'', CHR ''['', CHR ''t'', CHR ''f'', CHR ''n''}"
  by (auto simp: is_digit_def is_ws_def)

lemma int_str_head:
  "\<exists>c t. int_str z = c # t \<and> \<not> is_ws c \<and> c \<notin> {CHR 0x22, CHR ''{'', CHR ''['', CHR ''t'', CHR ''f'', CHR ''n''}"
proof (cases "z < 0")
  case True
  then show ?thesis by (simp add: int_str_def is_ws_def)
next
  case False
  then show ?thesis
    using nat_str_head [of "nat z"] is_digit_classes by (force simp: int_str_def)
qed

lemma pvalue_prim:
  assumes "num_stop r"
  shows "pvalue (Suc n) (prim_text p @ r) = Some (prim_json p, r)"
proof (cases p)
  case (PStr s)
  then show ?thesis using pstring_quoted [of s r] by (simp add: quote_def is_ws_def)
next
  case (PInt z)
  obtain c t where "int_str z = c # t" "\<not> is_ws c"
      "c \<notin> {CHR 0x22, CHR ''{'', CHR ''['', CHR ''t'', CHR ''f'', CHR ''n''}"
    using int_str_head by blast
  moreover have "pnumber (int_str z @ r) = Some (of_int z, r)"
    by (rule pnumber_int_str [OF assms])
  ultimately show ?thesis using PInt by simp
qed

lemma num_stop_comma: "num_stop (CHR '','' # r)" and num_stop_brace: "num_stop (CHR ''}'' # r)"
  by (simp_all add: num_stop_def is_digit_def)

lemma pmembers_one:
  "pmembers (Suc (Suc n)) (member_text m @ CHR ''}'' # r) = Some ([(fst m, prim_json (snd m))], r)"
  using pstring_quoted [of "fst m" "CHR '':'' # prim_text (snd m) @ CHR ''}'' # r"]
  by (simp add: member_text_def quote_def is_ws_def pvalue_prim num_stop_brace del: pvalue.simps)

lemma pmembers_more:
  "pmembers (Suc (Suc n)) (member_text m @ CHR '','' # r) =
     map_option (\<lambda>(ms, r'). ((fst m, prim_json (snd m)) # ms, r')) (pmembers (Suc n) r)"
  using pstring_quoted [of "fst m" "CHR '':'' # prim_text (snd m) @ CHR '','' # r"]
  by (simp add: member_text_def quote_def is_ws_def pvalue_prim num_stop_comma del: pvalue.simps pmembers.simps(2))
    (simp add: is_ws_def pvalue_prim num_stop_comma del: pvalue.simps)

lemma pmembers_text:
  "ms \<noteq> [] \<Longrightarrow> length ms < n \<Longrightarrow>
   pmembers n (join '','' (map member_text ms) @ CHR ''}'' # r) =
     Some (map (\<lambda>m. (fst m, prim_json (snd m))) ms, r)"
proof (induction ms arbitrary: n)
  case Nil
  then show ?case by simp
next
  case (Cons m ms)
  then obtain k where n: "n = Suc (Suc k)" by (cases n; cases "n - 1") auto
  show ?case
  proof (cases "ms = []")
    case True
    with n show ?thesis by (simp add: pmembers_one del: pmembers.simps)
  next
    case False
    with Cons n have "pmembers (Suc k) (join '','' (map member_text ms) @ CHR ''}'' # r) =
        Some (map (\<lambda>m. (fst m, prim_json (snd m))) ms, r)" by (simp del: pmembers.simps)
    with False n show ?thesis by (simp add: join_Cons_ne pmembers_more del: pmembers.simps)
  qed
qed

lemma member_text_head: "\<exists>t. member_text m = CHR 0x22 # t"
  by (simp add: member_text_def quote_def)

lemma join_members_head:
  assumes "ms \<noteq> []"
  shows "\<exists>t. join '','' (map member_text ms) = CHR 0x22 # t"
proof -
  obtain m ns where ms: "ms = m # ns" using assms by (cases ms) auto
  obtain t where "member_text m = CHR 0x22 # t" using member_text_head by blast
  with ms show ?thesis by (cases "ns = []") (simp_all add: join_Cons_ne)
qed

lemma length_join_members: "length ms \<le> length (join '','' (map member_text ms))"
proof (induction ms)
  case Nil
  show ?case by simp
next
  case (Cons m ms)
  obtain t where "member_text m = CHR 0x22 # t" using member_text_head by blast
  with Cons show ?case by (cases "ms = []") (simp_all add: join_Cons_ne)
qed

lemma JSON_parse_stringify:
  "JSON_parse (JSON_stringify ms) = Ok (JObj (map (\<lambda>m. (fst m, prim_json (snd m))) ms))"
proof (cases "ms = []")
  case True
  then show ?thesis by (simp add: JSON_parse_def JSON_stringify_def is_ws_def eval_nat_numeral)
next
  case False
  let ?b = "join '','' (map member_text ms)"
  obtain t where t: "?b = CHR 0x22 # t" using join_members_head [OF False] by blast
  have "length ms < 2 * length (JSON_stringify ms)"
    using length_join_members [of ms] by (simp add: JSON_stringify_def)
  then have "pmembers (2 * length (JSON_stringify ms)) (?b @ CHR ''}'' # []) =
      Some (map (\<lambda>m. (fst m, prim_json (snd m))) ms, [])"
    by (rule pmembers_text [OF False])
  then show ?thesis
    by (simp add: JSON_parse_def JSON_stringify_def is_ws_def t del: pmembers.simps)
qed

lemma stringify_nonempty: "JSON_stringify ms \<noteq> []"
  by (simp add: JSON_stringify_def)

subsection \<open>The fuel is enough\<close>

lemma skip_ws_length: "length (skip_ws s) \<le> length s"
  by (induction s) auto

lemma skip_ws_Cons_length: "skip_ws s = c # r \<Longrightarrow> length r < length s"
  using skip_ws_length [of s] by simp

lemma pstring_shorter: "pstring s = Some (x, r) \<Longrightarrow> length r < length s"
  by (induction s arbitrary: x r rule: pstring.induct)
    (fastforce split: if_splits option.splits dest: pescape_shorter)+

lemma span_digits_length: "span_digits s = (a, b) \<Longrightarrow> length b \<le> length s \<and> (a \<noteq> [] \<longrightarrow> length b < length s)"
  by (induction s arbitrary: a b) (fastforce split: if_splits prod.splits simp: Let_def)+

lemma pfraction_length: "pfraction s = Some (x, r) \<Longrightarrow> length r \<le> length s"
  by (auto simp: pfraction_def split: list.splits if_splits prod.splits dest!: span_digits_length)

lemma pexponent_length: "pexponent s = Some (x, r) \<Longrightarrow> length r \<le> length s"
  by (auto simp: pexponent_def Let_def split: list.splits if_splits prod.splits dest!: span_digits_length)

lemma punsigned_shorter: "punsigned s = Some (q, r) \<Longrightarrow> length r < length s"
  by (auto simp: punsigned_def Let_def split: if_splits prod.splits option.splits
      dest!: span_digits_length pfraction_length pexponent_length)

lemma pnumber_shorter: "pnumber s = Some (q, r) \<Longrightarrow> length r < length s"
  by (auto simp: pnumber_def split: if_splits list.splits dest!: punsigned_shorter)

lemma pliteral_shorter: "pliteral w v s = Some (x, r) \<Longrightarrow> w \<noteq> [] \<Longrightarrow> length r < length s"
  by (auto simp: pliteral_def prefix_def split: if_splits)

lemmas parser_shorter = pstring_shorter pnumber_shorter skip_ws_Cons_length

lemma pvalue_shorter:
  "pvalue n s = Some (v, r) \<Longrightarrow> length r < length s"
  "pelements n s = Some (vs, r) \<Longrightarrow> length r < length s"
  "pmembers n s = Some (ms, r) \<Longrightarrow> length r < length s"
proof (induction n s and n s and n s arbitrary: v r and vs r and ms r
    rule: pvalue_pelements_pmembers.induct)
  case (2 n s)
  then show ?case
    by (fastforce split: list.splits if_splits dest!: parser_shorter pliteral_shorter)
next
  case (4 n s)
  then show ?case
    by (fastforce split: list.splits if_splits option.splits dest!: parser_shorter)
next
  case (6 n s)
  then show ?case
    by (fastforce split: list.splits if_splits option.splits dest!: parser_shorter)
qed simp_all

text \<open>Each level agrees for any two amounts of fuel that are enough, given that the level below does.\<close>

definition fuel_ok :: "nat \<Rightarrow> bool" where
  "fuel_ok n \<longleftrightarrow>
     (\<forall>s m. 2 * length s < n \<longrightarrow> 2 * length s < m \<longrightarrow> pvalue n s = pvalue m s) \<and>
     (\<forall>s m. 2 * length s + 1 < n \<longrightarrow> 2 * length s + 1 < m \<longrightarrow> pelements n s = pelements m s) \<and>
     (\<forall>s m. 2 * length s + 1 < n \<longrightarrow> 2 * length s + 1 < m \<longrightarrow> pmembers n s = pmembers m s)"

lemma fuel_okD:
  assumes "fuel_ok n"
  shows "2 * length s < n \<Longrightarrow> 2 * length s < m \<Longrightarrow> pvalue n s = pvalue m s"
    and "2 * length s + 1 < n \<Longrightarrow> 2 * length s + 1 < m \<Longrightarrow> pelements n s = pelements m s"
    and "2 * length s + 1 < n \<Longrightarrow> 2 * length s + 1 < m \<Longrightarrow> pmembers n s = pmembers m s"
  using assms unfolding fuel_ok_def by blast+

lemma fuel_pvalue:
  assumes "fuel_ok n" and "2 * length s < Suc n" and "2 * length s < Suc m"
  shows "pvalue (Suc n) s = pvalue (Suc m) s"
proof (cases "skip_ws s")
  case Nil
  then show ?thesis by simp
next
  case (Cons c r)
  have "length r < length s" by (rule skip_ws_Cons_length [OF Cons])
  with assms(2,3) have "pelements n r = pelements m r" and "pmembers n r = pmembers m r"
    by (auto intro!: fuel_okD [OF assms(1)])
  with Cons show ?thesis by (simp split: list.split)
qed

lemma fuel_pelements:
  assumes "fuel_ok n" and "2 * length s + 1 < Suc n" and "2 * length s + 1 < Suc m"
  shows "pelements (Suc n) s = pelements (Suc m) s"
proof (cases "pvalue n s")
  case None
  moreover have "pvalue n s = pvalue m s"
    using assms(2,3) by (auto intro!: fuel_okD [OF assms(1)])
  ultimately show ?thesis by simp
next
  case (Some vr)
  obtain v r where vr: "vr = (v, r)" by (cases vr)
  have eq: "pvalue n s = pvalue m s"
    using assms(2,3) by (auto intro!: fuel_okD [OF assms(1)])
  show ?thesis
  proof (cases "skip_ws r")
    case Nil
    with Some vr eq show ?thesis by simp
  next
    case (Cons d r')
    have "length r' < length s"
      using pvalue_shorter(1) [OF Some [unfolded vr]] skip_ws_Cons_length [OF Cons] by simp
    with assms(2,3) have "pelements n r' = pelements m r'" by (auto intro!: fuel_okD [OF assms(1)])
    with Some vr eq Cons show ?thesis by simp
  qed
qed

lemma fuel_pmembers:
  assumes "fuel_ok n" and "2 * length s + 1 < Suc n" and "2 * length s + 1 < Suc m"
  shows "pmembers (Suc n) s = pmembers (Suc m) s"
proof -
  have eq: "pvalue n s3 = pvalue m s3"
    if "skip_ws s = q # s1" and "pstring s1 = Some (k, s2)" and "skip_ws s2 = co # s3" for q s1 k s2 co s3
  proof -
    have "length s3 < length s"
      using skip_ws_Cons_length [OF that(1)] pstring_shorter [OF that(2)] skip_ws_Cons_length [OF that(3)]
      by simp
    with assms(2,3) show ?thesis by (auto intro!: fuel_okD [OF assms(1)])
  qed
  have "pmembers n r' = pmembers m r'"
    if "skip_ws s = q # s1" and "pstring s1 = Some (k, s2)" and "skip_ws s2 = co # s3"
      and "pvalue m s3 = Some (v, r)" and "skip_ws r = d # r'" for q s1 k s2 co s3 v r d r'
  proof -
    have "length r' < length s"
      using skip_ws_Cons_length [OF that(1)] pstring_shorter [OF that(2)] skip_ws_Cons_length [OF that(3)]
        pvalue_shorter(1) [OF that(4)] skip_ws_Cons_length [OF that(5)] by simp
    with assms(2,3) show ?thesis by (auto intro!: fuel_okD [OF assms(1)])
  qed
  with eq show ?thesis by (auto split: option.split list.split)
qed

lemma fuel_ok_all: "fuel_ok n"
proof (induction n)
  case 0
  show ?case by (simp add: fuel_ok_def)
next
  case (Suc n)
  show ?case
    unfolding fuel_ok_def
  proof (intro conjI allI impI)
    fix s :: string and m
    assume "2 * length s < Suc n" "2 * length s < m"
    then show "pvalue (Suc n) s = pvalue m s"
      by (cases m) (simp, use fuel_pvalue [OF Suc] in blast)
  next
    fix s :: string and m
    assume "2 * length s + 1 < Suc n" "2 * length s + 1 < m"
    then show "pelements (Suc n) s = pelements m s"
      by (cases m) (simp, use fuel_pelements [OF Suc] in blast)
  next
    fix s :: string and m
    assume "2 * length s + 1 < Suc n" "2 * length s + 1 < m"
    then show "pmembers (Suc n) s = pmembers m s"
      by (cases m) (simp, use fuel_pmembers [OF Suc] in blast)
  qed
qed

lemma JSON_parse_fuel:
  assumes "2 * length s < n"
  shows "JSON_parse s =
    (case pvalue n s of
       Some (v, r) \<Rightarrow> if skip_ws r = [] then Ok v else Throw SyntaxError
     | None \<Rightarrow> Throw SyntaxError)"
proof -
  have "pvalue (Suc (2 * length s)) s = pvalue n s"
    using assms by (intro fuel_okD [OF fuel_ok_all]) simp_all
  then show ?thesis by (simp add: JSON_parse_def del: pvalue.simps)
qed

end
