(* ===== verification/Storage.thy ===== *)
theory Storage
  imports Json
begin

section \<open>The callback storage\<close>

text \<open>
  Between the redirect to the server and the return from it the adapter keeps the pending
  login in \<open>localStorage\<close> or, where that is not available, in a cookie (keycloak.js
  1417-1534). A web storage area is a list of items in the order of \<open>key(i)\<close>, a cookie jar a list of
  name, value and expiry in the order of \<open>document.cookie\<close>; times are milliseconds.

  The locale \<open>callback_storage\<close> is the contract the login flow relies on: a state that was
  added is found within the hour, with the values it was added with, and no state is ever found
  twice. Both backends are interpretations of it.
\<close>

subsection \<open>What is stored\<close>

text \<open>The object built by \<open>createLoginUrl\<close>; the local storage adds \<open>expires\<close> as its last property.\<close>

record callback_state =
  cs_state :: string
  cs_nonce :: string
  cs_redirectUri :: string
  cs_prompt :: "string option"

definition state_members :: "callback_state \<Rightarrow> (string \<times> jsprim) list" where
  "state_members st =
     [(''state'', PStr (cs_state st)), (''nonce'', PStr (cs_nonce st)),
      (''redirectUri'', PStr (cs_redirectUri st))] @
     (case cs_prompt st of None \<Rightarrow> [] | Some p \<Rightarrow> [(''prompt'', PStr p)])"

definition callback_key :: "string \<Rightarrow> string" where
  "callback_key state = ''kc-callback-'' @ state"

subsection \<open>Web storage\<close>

type_synonym area = "(string \<times> string) list"

definition getItem :: "string \<Rightarrow> area \<Rightarrow> string option" where
  "getItem k a = map_of a k"

fun setItem :: "string \<Rightarrow> string \<Rightarrow> area \<Rightarrow> area" where
  "setItem k v [] = [(k, v)]"
| "setItem k v ((k', v') # a) = (if k' = k then (k, v) # a else (k', v') # setItem k v a)"

definition removeItem :: "string \<Rightarrow> area \<Rightarrow> area" where
  "removeItem k a = filter (\<lambda>(k', _). k' \<noteq> k) a"

text \<open>The condition under which \<open>clearExpired\<close> removes an item.\<close>

definition stale_value :: "int \<Rightarrow> string \<Rightarrow> bool" where
  "stale_value time v =
     (case JSON_parse v of
        Throw _ \<Rightarrow> True
      | Ok j \<Rightarrow>
          (case jprop (Some j) ''expires'' of
             Throw _ \<Rightarrow> True
           | Ok e \<Rightarrow> \<not> jtruthy e \<or> js_less (opt_number e) (Num (of_int time))))"

definition stale :: "int \<Rightarrow> string \<times> string \<Rightarrow> bool" where
  "stale time kv \<longleftrightarrow>
     index_of (fst kv) ''kc-callback-'' = Some 0 \<and> snd kv \<noteq> [] \<and> stale_value time (snd kv)"

text \<open>The loop of \<open>clearExpired\<close>: the index moves on even when an item was removed under it.\<close>

function clear_loop :: "int \<Rightarrow> nat \<Rightarrow> area \<Rightarrow> area" where
  "clear_loop time i a =
     (if i < length a then
        (if stale time (a ! i) then clear_loop time (Suc i) (removeItem (fst (a ! i)) a)
         else clear_loop time (Suc i) a)
      else a)"
  by pat_completeness auto
termination
proof (relation "measure (\<lambda>(time, i, a). length a - i)", goal_cases)
  case 1
  show ?case by simp
next
  case (2 time i a)
  have "length (removeItem (fst (a ! i)) a) \<le> length a" by (simp add: removeItem_def)
  with 2 show ?case by simp
next
  case (3 time i a)
  then show ?case by simp
qed

declare clear_loop.simps [simp del]

definition clearExpired :: "int \<Rightarrow> area \<Rightarrow> area" where
  "clearExpired time a = clear_loop time 0 a"

definition new_LocalStorage :: "area \<Rightarrow> area" where
  "new_LocalStorage a = removeItem ''kc-test'' (setItem ''kc-test'' ''test'' a)"

definition ls_get :: "int \<Rightarrow> string option \<Rightarrow> area \<Rightarrow> json option res \<times> area" where
  "ls_get now state a =
     (if \<not> str_truthy state then (Ok None, a)
      else
        (let key = callback_key (undef_str state) in
         case getItem key a of
           None \<Rightarrow> (Ok (Some JNull), clearExpired now a)
         | Some value \<Rightarrow>
             if value = [] then (Ok (Some (JStr value)), clearExpired now a)
             else
               (let a' = removeItem key a in
                case JSON_parse value of
                  Throw e \<Rightarrow> (Throw e, a')
                | Ok j \<Rightarrow> (Ok (Some j), clearExpired now a'))))"

definition ls_add :: "int \<Rightarrow> callback_state \<Rightarrow> area \<Rightarrow> area" where
  "ls_add now st a =
     (let a = clearExpired now a;
          key = callback_key (cs_state st);
          members = state_members st @ [(''expires'', PInt (now + 60 * 60 * 1000))] in
      setItem key (JSON_stringify members) a)"

subsection \<open>Cookies\<close>

record cookie =
  ck_name :: string
  ck_value :: string
  ck_expires :: int

type_synonym jar = "cookie list"

definition trim :: "string \<Rightarrow> string" where
  "trim s = rev (dropWhile is_ws (rev (dropWhile is_ws s)))"

text \<open>
  Reading and assigning \<open>document.cookie\<close>. The text up to the first semicolon of what is
  assigned is the pair of name and value; a cookie whose expiry has passed is deleted.
\<close>

definition cookie_text :: "cookie \<Rightarrow> string" where
  "cookie_text c = (if ck_name c = [] then ck_value c else ck_name c @ ''='' @ ck_value c)"

definition document_cookie :: "int \<Rightarrow> jar \<Rightarrow> string" where
  "document_cookie now j = join ''; '' (map cookie_text (filter (\<lambda>c. now < ck_expires c) j))"

fun put_cookie :: "cookie \<Rightarrow> jar \<Rightarrow> jar" where
  "put_cookie c [] = [c]"
| "put_cookie c (d # j) = (if ck_name d = ck_name c then c # j else d # put_cookie c j)"

definition assign_cookie :: "int \<Rightarrow> string \<Rightarrow> int \<Rightarrow> jar \<Rightarrow> jar" where
  "assign_cookie now text expires j =
     (let pair = takeWhile (\<lambda>x. x \<noteq> CHR '';'') text;
          name = trim (takeWhile (\<lambda>x. x \<noteq> CHR ''='') pair);
          value = trim (drop 1 (dropWhile (\<lambda>x. x \<noteq> CHR ''='') pair)) in
      if expires \<le> now then filter (\<lambda>c. ck_name c \<noteq> name) j
      else put_cookie \<lparr>ck_name = name, ck_value = value, ck_expires = expires\<rparr> j)"

text \<open>\<open>cookieExpiration(minutes)\<close> as it is written by \<open>toUTCString\<close>, which drops the milliseconds.\<close>

definition cookieExpiration :: "int \<Rightarrow> int \<Rightarrow> int" where
  "cookieExpiration now minutes = (now + minutes * 60 * 1000) div 1000 * 1000"

definition setCookie :: "int \<Rightarrow> string \<Rightarrow> string \<Rightarrow> int \<Rightarrow> jar \<Rightarrow> jar" where
  "setCookie now key value expirationDate j =
     assign_cookie now (key @ ''='' @ value @ ''; '') expirationDate j"

fun find_cookie :: "string \<Rightarrow> string list \<Rightarrow> string" where
  "find_cookie name [] = []"
| "find_cookie name (c # ca) =
     (let c' = dropWhile (\<lambda>x. x = CHR '' '') c in
      if index_of c' name = Some 0 then substring c' (length name) (length c') else find_cookie name ca)"

definition getCookie :: "int \<Rightarrow> string \<Rightarrow> jar \<Rightarrow> string" where
  "getCookie now key j = find_cookie (key @ ''='') (split_on CHR '';'' (document_cookie now j))"

definition cs_get :: "int \<Rightarrow> string option \<Rightarrow> jar \<Rightarrow> json option res \<times> jar" where
  "cs_get now state j =
     (if \<not> str_truthy state then (Ok None, j)
      else
        (let key = callback_key (undef_str state);
             value = getCookie now key j;
             j' = setCookie now key [] (cookieExpiration now (- 100)) j in
         if value \<noteq> [] then (map_res Some (JSON_parse value), j') else (Ok None, j')))"

definition cs_add :: "int \<Rightarrow> callback_state \<Rightarrow> jar \<Rightarrow> jar" where
  "cs_add now st j =
     setCookie now (callback_key (cs_state st)) (JSON_stringify (state_members st)) (cookieExpiration now 60) j"

definition cs_removeItem :: "int \<Rightarrow> string \<Rightarrow> jar \<Rightarrow> jar" where
  "cs_removeItem now key j = setCookie now key [] (cookieExpiration now (- 100)) j"

subsection \<open>The choice of backend\<close>

datatype backend = LocalStorage | CookieStorage

record store =
  st_area :: area
  st_jar :: jar

text \<open>\<open>createCallbackStorage\<close>: the constructor of \<open>LocalStorage\<close> throws where the browser denies the storage.\<close>

definition createCallbackStorage :: "bool \<Rightarrow> store \<Rightarrow> backend \<times> store" where
  "createCallbackStorage available s =
     (if available then (LocalStorage, s\<lparr>st_area := new_LocalStorage (st_area s)\<rparr>) else (CookieStorage, s))"

definition storage_get :: "backend \<Rightarrow> int \<Rightarrow> string option \<Rightarrow> store \<Rightarrow> json option res \<times> store" where
  "storage_get b now state s =
     (case b of
        LocalStorage \<Rightarrow> (let (r, a) = ls_get now state (st_area s) in (r, s\<lparr>st_area := a\<rparr>))
      | CookieStorage \<Rightarrow> (let (r, j) = cs_get now state (st_jar s) in (r, s\<lparr>st_jar := j\<rparr>)))"

definition storage_add :: "backend \<Rightarrow> int \<Rightarrow> callback_state \<Rightarrow> store \<Rightarrow> store" where
  "storage_add b now st s =
     (case b of
        LocalStorage \<Rightarrow> s\<lparr>st_area := ls_add now st (st_area s)\<rparr>
      | CookieStorage \<Rightarrow> s\<lparr>st_jar := cs_add now st (st_jar s)\<rparr>)"

subsection \<open>Facts about web storage\<close>

definition area_ok :: "area \<Rightarrow> bool" where
  "area_ok a \<longleftrightarrow> distinct (map fst a)"

lemma fst_setItem: "fst ` set (setItem k v a) = insert k (fst ` set a)"
  by (induction k v a rule: setItem.induct) auto

lemma getItem_setItem: "getItem k' (setItem k v a) = (if k' = k then Some v else getItem k' a)"
  by (induction k v a rule: setItem.induct) (auto simp: getItem_def)

lemma area_ok_setItem: "area_ok a \<Longrightarrow> area_ok (setItem k v a)"
  by (induction k v a rule: setItem.induct) (auto simp: area_ok_def fst_setItem)

lemma set_removeItem: "set (removeItem k a) = {kv \<in> set a. fst kv \<noteq> k}"
  by (auto simp: removeItem_def)

lemma area_ok_removeItem: "area_ok a \<Longrightarrow> area_ok (removeItem k a)"
  by (simp add: area_ok_def removeItem_def distinct_map_filter)

lemma getItem_removeItem: "getItem k' (removeItem k a) = (if k' = k then None else getItem k' a)"
  by (induction a) (auto simp: getItem_def removeItem_def)

lemma length_removeItem: "i < length a \<Longrightarrow> length (removeItem (fst (a ! i)) a) < length a"
  unfolding removeItem_def by (rule length_filter_less [of "a ! i"]) auto

lemma area_ok_unique: "area_ok a \<Longrightarrow> kv \<in> set a \<Longrightarrow> kv' \<in> set a \<Longrightarrow> fst kv = fst kv' \<Longrightarrow> kv = kv'"
  unfolding area_ok_def by (auto simp: distinct_map dest: inj_onD)

lemma getItem_iff: "area_ok a \<Longrightarrow> getItem k a = Some v \<longleftrightarrow> (k, v) \<in> set a"
  by (simp add: getItem_def area_ok_def)

lemma clear_loop_subset: "set (clear_loop t i a) \<subseteq> set a"
proof (induction t i a rule: clear_loop.induct)
  case (1 t i a)
  then show ?case by (subst clear_loop.simps) (auto simp: set_removeItem)
qed

lemma clear_loop_ok: "area_ok a \<Longrightarrow> area_ok (clear_loop t i a)"
proof (induction t i a rule: clear_loop.induct)
  case (1 t i a)
  then show ?case by (subst clear_loop.simps) (auto simp: area_ok_removeItem)
qed

lemma clear_loop_keeps:
  "area_ok a \<Longrightarrow> kv \<in> set a \<Longrightarrow> \<not> stale t kv \<Longrightarrow> kv \<in> set (clear_loop t i a)"
proof (induction t i a rule: clear_loop.induct)
  case (1 t i a)
  show ?case
  proof (cases "i < length a \<and> stale t (a ! i)")
    case True
    with "1.prems" have "fst kv \<noteq> fst (a ! i)"
      using area_ok_unique [OF "1.prems"(1,2), of "a ! i"] by auto
    with True 1 have "kv \<in> set (clear_loop t (Suc i) (removeItem (fst (a ! i)) a))"
      by (simp add: set_removeItem area_ok_removeItem)
    with True show ?thesis by (simp add: clear_loop.simps [of t i a])
  next
    case False
    with 1 show ?thesis by (subst clear_loop.simps) auto
  qed
qed

text \<open>What is not stale stays, in its order.\<close>

lemma clear_loop_filter: "area_ok a \<Longrightarrow> filter (\<lambda>kv. \<not> stale t kv) (clear_loop t i a) = filter (\<lambda>kv. \<not> stale t kv) a"
proof (induction t i a rule: clear_loop.induct)
  case (1 t i a)
  show ?case
  proof (cases "i < length a \<and> stale t (a ! i)")
    case True
    have u: "\<not> (\<not> stale t kv \<and> fst kv = fst (a ! i))" if "kv \<in> set a" for kv
      using area_ok_unique [OF "1.prems" that, of "a ! i"] True by auto
    have "filter (\<lambda>kv. \<not> stale t kv) (removeItem (fst (a ! i)) a) = filter (\<lambda>kv. \<not> stale t kv) a"
      unfolding removeItem_def filter_filter by (rule filter_cong [OF refl]) (use u in \<open>simp add: case_prod_beta; blast\<close>)
    with True 1 show ?thesis by (simp add: clear_loop.simps [of t i a] area_ok_removeItem)
  next
    case False
    with 1 show ?thesis by (subst clear_loop.simps) auto
  qed
qed

lemma clear_loop_length: "length (clear_loop t i a) \<le> length a"
proof (induction t i a rule: clear_loop.induct)
  case (1 t i a)
  have "length (removeItem (fst (a ! i)) a) \<le> length a" by (simp add: removeItem_def)
  with 1 show ?case by (subst clear_loop.simps) (auto intro: le_trans)
qed

lemma clear_loop_progress:
  "i \<le> j \<Longrightarrow> j < length a \<Longrightarrow> stale t (a ! j) \<Longrightarrow> length (clear_loop t i a) < length a"
proof (induction t i a rule: clear_loop.induct)
  case (1 t i a)
  show ?case
  proof (cases "stale t (a ! i)")
    case True
    have "length (clear_loop t (Suc i) (removeItem (fst (a ! i)) a)) \<le> length (removeItem (fst (a ! i)) a)"
      by (rule clear_loop_length)
    moreover have "length (removeItem (fst (a ! i)) a) < length a"
      using "1.prems" by (intro length_removeItem) simp
    ultimately show ?thesis using "1.prems" True by (simp add: clear_loop.simps [of t i a])
  next
    case False
    with "1.prems" have "Suc i \<le> j" by (metis Suc_leI le_neq_implies_less)
    with 1 False show ?thesis by (simp add: clear_loop.simps [of t i a])
  qed
qed

lemma clear_loop_none: "(\<And>kv. kv \<in> set a \<Longrightarrow> \<not> stale t kv) \<Longrightarrow> clear_loop t i a = a"
proof (induction t i a rule: clear_loop.induct)
  case (1 t i a)
  then show ?case by (subst clear_loop.simps) (simp add: nth_mem)
qed

lemmas clearExpired_facts = clear_loop_subset [of _ 0, folded clearExpired_def]
  clear_loop_keeps [of _ _ _ 0, folded clearExpired_def]

lemma area_ok_clearExpired: "area_ok a \<Longrightarrow> area_ok (clearExpired t a)"
  by (simp add: clearExpired_def clear_loop_ok)

lemma getItem_clearExpired_None: "getItem k a = None \<Longrightarrow> getItem k (clearExpired t a) = None"
  using clearExpired_facts(1) [of t a] by (auto simp: getItem_def map_of_eq_None_iff)

lemma clearExpired_progress:
  assumes "kv \<in> set a" and "stale t kv"
  shows "length (clearExpired t a) < length a"
proof -
  obtain j where "j < length a" and "a ! j = kv" using assms(1) by (auto simp: in_set_conv_nth)
  with assms(2) show ?thesis unfolding clearExpired_def by (intro clear_loop_progress [of 0 j]) auto
qed

lemma clearExpired_none: "(\<And>kv. kv \<in> set a \<Longrightarrow> \<not> stale t kv) \<Longrightarrow> clearExpired t a = a"
  by (simp add: clearExpired_def clear_loop_none)

lemma clearExpired_iterate:
  "length a \<le> n \<Longrightarrow> kv \<in> set ((clearExpired t ^^ n) a) \<Longrightarrow> \<not> stale t kv"
proof (induction n arbitrary: a)
  case 0
  then show ?case by simp
next
  case (Suc n)
  show ?case
  proof (cases "\<exists>kv\<in>set a. stale t kv")
    case True
    then have "length (clearExpired t a) \<le> n" using Suc.prems(1) clearExpired_progress by fastforce
    with Suc show ?thesis by (simp add: funpow_swap1)
  next
    case False
    then have "clearExpired t a = a" by (intro clearExpired_none) auto
    then have "(clearExpired t ^^ Suc n) a = a" by (induction n) simp_all
    with Suc.prems(2) False show ?thesis by auto
  qed
qed

subsection \<open>Facts about cookies\<close>

text \<open>Names without separators and blanks, as those of the adapter are, and jars in which no other
  cookie can be mistaken for one of them.\<close>

definition plain :: "string \<Rightarrow> bool" where
  "plain s \<longleftrightarrow> (\<forall>c\<in>set s. c \<noteq> CHR '';'' \<and> c \<noteq> CHR ''='' \<and> \<not> is_ws c)"

definition cookie_ok :: "cookie \<Rightarrow> bool" where
  "cookie_ok c \<longleftrightarrow> ck_name c \<noteq> [] \<and> CHR ''='' \<notin> set (ck_name c) \<and> CHR '';'' \<notin> set (ck_name c) \<and>
     \<not> is_ws (hd (ck_name c)) \<and> CHR '';'' \<notin> set (ck_value c)"

definition jar_ok :: "jar \<Rightarrow> bool" where
  "jar_ok j \<longleftrightarrow> (\<forall>c\<in>set j. cookie_ok c) \<and> distinct (map ck_name j)"

lemma plain_callback_key: "plain k \<Longrightarrow> plain (callback_key k)"
  by (auto simp: plain_def callback_key_def is_ws_def)

lemma callback_key_not_Nil [simp]: "callback_key k \<noteq> []"
  by (simp add: callback_key_def)

lemma callback_key_inject [simp]: "callback_key k = callback_key k' \<longleftrightarrow> k = k'"
  by (simp add: callback_key_def)

lemma split_join_semicolon:
  "(\<And>x. x \<in> set xs \<Longrightarrow> CHR '';'' \<notin> set x) \<Longrightarrow>
   split_on CHR '';'' (join ''; '' xs) = (case xs of [] \<Rightarrow> [[]] | x # ys \<Rightarrow> x # map (Cons CHR '' '') ys)"
proof (induction xs)
  case Nil
  then show ?case by simp
next
  case (Cons x xs)
  show ?case
  proof (cases xs)
    case Nil
    with Cons.prems show ?thesis by (simp add: split_on_free)
  next
    case (Cons y ys)
    with Cons.prems Cons.IH show ?thesis by (simp add: split_on_append)
  qed
qed

lemma dropWhile_not_head: "s \<noteq> [] \<Longrightarrow> \<not> P (hd s) \<Longrightarrow> dropWhile P s = s"
  by (cases s) auto

lemma cookie_text_match:
  assumes "cookie_ok c" and "CHR ''='' \<notin> set key"
  shows "index_of (cookie_text c) (key @ ''='') = Some 0 \<longleftrightarrow> ck_name c = key"
proof -
  have "prefix (key @ ''='') (ck_name c @ ''='' @ ck_value c) \<longleftrightarrow> ck_name c = key"
  proof
    assume "prefix (key @ ''='') (ck_name c @ ''='' @ ck_value c)"
    then obtain r where "key @ CHR ''='' # r = ck_name c @ CHR ''='' # ck_value c"
      by (auto simp: prefix_def)
    moreover have "CHR ''='' \<notin> set (ck_name c)" using assms(1) by (simp add: cookie_ok_def)
    ultimately have "key = ck_name c" using assms(2) cut_unique [of "CHR ''=''" key "ck_name c" r "ck_value c"] by simp
    then show "ck_name c = key" by simp
  qed (auto simp: prefix_def)
  with assms(1) show ?thesis by (simp add: index_of_eq_0 cookie_text_def cookie_ok_def)
qed

lemma cookie_text_head:
  "cookie_ok c \<Longrightarrow> dropWhile (\<lambda>x. x = CHR '' '') (cookie_text c) = cookie_text c"
  by (rule dropWhile_not_head) (auto simp: cookie_ok_def cookie_text_def is_ws_def)

lemma cookie_text_value:
  "cookie_ok c \<Longrightarrow> substring (cookie_text c) (length (ck_name c @ ''='')) (length (cookie_text c)) = ck_value c"
  by (simp add: substring_def cookie_text_def cookie_ok_def)

lemma find_cookie_map:
  assumes "\<forall>c\<in>set cs. cookie_ok c" and "CHR ''='' \<notin> set key"
  shows "find_cookie (key @ ''='') (map (\<lambda>c. (if f c then [CHR '' ''] else []) @ cookie_text c) cs) =
    (case find (\<lambda>c. ck_name c = key) cs of None \<Rightarrow> [] | Some c \<Rightarrow> ck_value c)"
  using assms(1)
proof (induction cs)
  case Nil
  then show ?case by simp
next
  case (Cons c cs)
  have "dropWhile (\<lambda>x. x = CHR '' '') ((if f c then [CHR '' ''] else []) @ cookie_text c) = cookie_text c"
    using Cons.prems cookie_text_head by simp
  moreover have "index_of (cookie_text c) (key @ ''='') = Some 0 \<longleftrightarrow> ck_name c = key"
    using Cons.prems assms(2) cookie_text_match by simp
  ultimately show ?case
    using Cons cookie_text_value [of c] by (auto simp: Let_def)
qed

lemma getCookie_find:
  assumes "jar_ok j" and "CHR ''='' \<notin> set key"
  shows "getCookie now key j =
    (case find (\<lambda>c. ck_name c = key) (filter (\<lambda>c. now < ck_expires c) j) of
       None \<Rightarrow> [] | Some c \<Rightarrow> ck_value c)"
proof -
  let ?l = "filter (\<lambda>c. now < ck_expires c) j"
  have ok: "\<forall>c\<in>set ?l. cookie_ok c" using assms(1) by (auto simp: jar_ok_def)
  then have "CHR '';'' \<notin> set x" if "x \<in> set (map cookie_text ?l)" for x
    using that by (auto simp: cookie_ok_def cookie_text_def)
  then have split: "split_on CHR '';'' (document_cookie now j) =
      (case map cookie_text ?l of [] \<Rightarrow> [[]] | x # ys \<Rightarrow> x # map (Cons CHR '' '') ys)"
    unfolding document_cookie_def by (rule split_join_semicolon)
  show ?thesis
  proof (cases ?l)
    case Nil
    then show ?thesis
      using split by (simp add: getCookie_def index_of_eq_0)
  next
    case (Cons c cs)
    have first: "find_cookie (key @ ''='') (cookie_text c # rest) =
        (if ck_name c = key then ck_value c else find_cookie (key @ ''='') rest)" for rest
      using ok Cons cookie_text_head [of c] cookie_text_match [of c key] cookie_text_value [of c] assms(2)
      by auto
    have "find_cookie (key @ ''='') (map (\<lambda>c. CHR '' '' # cookie_text c) cs) =
        (case find (\<lambda>c. ck_name c = key) cs of None \<Rightarrow> [] | Some c \<Rightarrow> ck_value c)"
      using find_cookie_map [of cs key "\<lambda>_. True"] ok Cons assms(2) by simp
    then show ?thesis
      using split Cons first by (simp add: getCookie_def comp_def)
  qed
qed

lemma plain_trim: "\<forall>c\<in>set s. \<not> is_ws c \<Longrightarrow> trim s = s"
  by (simp add: trim_def dropWhile_eq_self_iff)
    (metis dropWhile_eq_self_iff hd_in_set rev_rev_ident set_rev)

lemma assign_pair:
  assumes "plain key"
  shows "takeWhile (\<lambda>x. x \<noteq> CHR '';'') (key @ ''='' @ value @ ''; '') =
    key @ ''='' @ takeWhile (\<lambda>x. x \<noteq> CHR '';'') value"
proof -
  have "CHR '';'' \<notin> set key" using assms by (auto simp: plain_def)
  then have "takeWhile (\<lambda>x. x \<noteq> CHR '';'') (key @ w) = key @ takeWhile (\<lambda>x. x \<noteq> CHR '';'') w" for w
    by (induction key) auto
  moreover have "takeWhile (\<lambda>x. x \<noteq> CHR '';'') (value @ ''; '') = takeWhile (\<lambda>x. x \<noteq> CHR '';'') value"
    by (induction "value") auto
  ultimately show ?thesis by simp
qed

lemma setCookie_plain:
  assumes "plain key"
  shows "setCookie now key value expires j =
    (if expires \<le> now then filter (\<lambda>c. ck_name c \<noteq> key) j
     else put_cookie \<lparr>ck_name = key, ck_value = trim (takeWhile (\<lambda>x. x \<noteq> CHR '';'') value), ck_expires = expires\<rparr> j)"
proof -
  let ?v = "takeWhile (\<lambda>x. x \<noteq> CHR '';'') value"
  have no_eq: "CHR ''='' \<notin> set key" using assms by (auto simp: plain_def)
  then have "takeWhile (\<lambda>x. x \<noteq> CHR ''='') (key @ ''='' @ ?v) = key"
    and "dropWhile (\<lambda>x. x \<noteq> CHR ''='') (key @ ''='' @ ?v) = ''='' @ ?v"
    by (induction key) auto
  moreover have "trim key = key" using assms by (intro plain_trim) (simp add: plain_def)
  ultimately show ?thesis
    unfolding setCookie_def assign_cookie_def assign_pair [OF assms] by simp
qed

lemma set_put_cookie: "set (put_cookie c j) \<subseteq> insert c (set j)"
  by (induction c j rule: put_cookie.induct) auto

lemma names_put_cookie: "ck_name ` set (put_cookie c j) = insert (ck_name c) (ck_name ` set j)"
  by (induction c j rule: put_cookie.induct) auto

lemma jar_ok_put: "jar_ok j \<Longrightarrow> cookie_ok c \<Longrightarrow> jar_ok (put_cookie c j)"
  by (induction c j rule: put_cookie.induct) (auto simp: jar_ok_def names_put_cookie)

lemma find_put_cookie:
  "P c \<Longrightarrow> distinct (map ck_name j) \<Longrightarrow>
   find (\<lambda>d. ck_name d = ck_name c) (filter P (put_cookie c j)) = Some c"
  by (induction c j rule: put_cookie.induct) auto

lemma set_trim: "set (trim s) \<subseteq> set s"
  unfolding trim_def by (metis order_trans set_dropWhileD set_rev subsetI)

lemma cookie_ok_plain:
  "plain key \<Longrightarrow> key \<noteq> [] \<Longrightarrow>
   cookie_ok \<lparr>ck_name = key, ck_value = trim (takeWhile (\<lambda>x. x \<noteq> CHR '';'') v), ck_expires = e\<rparr>"
  using set_trim [of "takeWhile (\<lambda>x. x \<noteq> CHR '';'') v"]
  by (auto simp: cookie_ok_def plain_def dest: set_takeWhileD)

lemma jar_ok_setCookie: "jar_ok j \<Longrightarrow> plain key \<Longrightarrow> key \<noteq> [] \<Longrightarrow> jar_ok (setCookie now key v e j)"
  by (auto simp: setCookie_plain jar_ok_put cookie_ok_plain) (auto simp: jar_ok_def distinct_map_filter)

lemma names_setCookie: "plain key \<Longrightarrow> ck_name ` set (setCookie now key v e j) \<subseteq> insert key (ck_name ` set j)"
  by (auto simp: setCookie_plain names_put_cookie)

lemma setCookie_expired:
  assumes "plain key"
  shows "setCookie now key v (cookieExpiration now (- 100)) j = filter (\<lambda>c. ck_name c \<noteq> key) j"
proof -
  have "cookieExpiration now (- 100) \<le> now" by (simp add: cookieExpiration_def)
  with assms show ?thesis by (simp add: setCookie_plain)
qed

lemma getCookie_absent:
  assumes "jar_ok j" and "plain key" and "key \<notin> ck_name ` set j"
  shows "getCookie now key j = []"
proof -
  have "CHR ''='' \<notin> set key" using assms(2) by (auto simp: plain_def)
  moreover have "find (\<lambda>c. ck_name c = key) (filter (\<lambda>c. now < ck_expires c) j) = None"
    using assms(3) by (auto simp: find_None_iff)
  ultimately show ?thesis using assms(1) by (simp add: getCookie_find)
qed

subsection \<open>The contract of a callback storage\<close>

text \<open>What a lookup gives back for a state that was added.\<close>

definition recalls :: "callback_state \<Rightarrow> json option \<Rightarrow> bool" where
  "recalls st v \<longleftrightarrow>
     (\<exists>m. v = Some (JObj m) \<and>
        jget (JObj m) ''nonce'' = Some (JStr (cs_nonce st)) \<and>
        jget (JObj m) ''redirectUri'' = Some (JStr (cs_redirectUri st)) \<and>
        jget (JObj m) ''prompt'' = map_option JStr (cs_prompt st))"

datatype storage_op = Add int callback_state | Get int string

fun adds :: "string \<Rightarrow> storage_op \<Rightarrow> bool" where
  "adds k (Add t st) = (cs_state st = k)"
| "adds k (Get t k') = False"

fun plain_op :: "storage_op \<Rightarrow> bool" where
  "plain_op (Add t st) = plain (cs_state st)"
| "plain_op (Get t k) = plain k"

fun run_storage :: "(int \<Rightarrow> callback_state \<Rightarrow> 's \<Rightarrow> 's) \<Rightarrow> (int \<Rightarrow> string option \<Rightarrow> 's \<Rightarrow> json option res \<times> 's) \<Rightarrow>
  storage_op list \<Rightarrow> 's \<Rightarrow> 's" where
  "run_storage add get [] s = s"
| "run_storage add get (Add t st # ops) s = run_storage add get ops (add t st s)"
| "run_storage add get (Get t k # ops) s = run_storage add get ops (snd (get t (Some k) s))"

locale callback_storage =
  fixes add :: "int \<Rightarrow> callback_state \<Rightarrow> 's \<Rightarrow> 's"
    and get :: "int \<Rightarrow> string option \<Rightarrow> 's \<Rightarrow> json option res \<times> 's"
    and inv :: "'s \<Rightarrow> bool"
    and holds :: "string \<Rightarrow> 's \<Rightarrow> bool"
    and storable :: "callback_state \<Rightarrow> bool"
  assumes add_inv: "inv s \<Longrightarrow> plain (cs_state st) \<Longrightarrow> inv (add t st s)"
    and get_inv: "inv s \<Longrightarrow> plain k \<Longrightarrow> inv (snd (get t (Some k) s))"
    and get_add: "inv s \<Longrightarrow> plain (cs_state st) \<Longrightarrow> cs_state st \<noteq> [] \<Longrightarrow> storable st \<Longrightarrow>
          t0 \<le> t \<Longrightarrow> t < t0 + 3599000 \<Longrightarrow>
          \<exists>v. fst (get t (Some (cs_state st)) (add t0 st s)) = Ok v \<and> recalls st v"
    and get_forgets: "inv s \<Longrightarrow> plain k \<Longrightarrow> k \<noteq> [] \<Longrightarrow> \<not> holds k (snd (get t (Some k) s))"
    and get_no_new: "inv s \<Longrightarrow> plain k' \<Longrightarrow> holds k (snd (get t (Some k') s)) \<Longrightarrow> holds k s"
    and add_no_new: "inv s \<Longrightarrow> plain (cs_state st) \<Longrightarrow> holds k (add t st s) \<Longrightarrow> holds k s \<or> k = cs_state st"
    and get_absent: "inv s \<Longrightarrow> plain k \<Longrightarrow> \<not> holds k s \<Longrightarrow>
          \<exists>v. fst (get t (Some k) s) = Ok v \<and> \<not> jtruthy v"
begin

lemma run_inv: "inv s \<Longrightarrow> \<forall>op\<in>set ops. plain_op op \<Longrightarrow> inv (run_storage add get ops s)"
proof (induction ops arbitrary: s)
  case (Cons op ops)
  then show ?case by (cases op) (auto simp: add_inv get_inv)
qed simp

lemma run_absent:
  "inv s \<Longrightarrow> \<forall>op\<in>set ops. plain_op op \<and> \<not> adds k op \<Longrightarrow> \<not> holds k s \<Longrightarrow> \<not> holds k (run_storage add get ops s)"
proof (induction ops arbitrary: s)
  case (Cons op ops)
  then show ?case
  proof (cases op)
    case (Add t st)
    then show ?thesis using Cons add_no_new [of s st k t] add_inv [of s st t] by force
  next
    case (Get t k')
    then show ?thesis using Cons get_no_new [of s k' k t] get_inv [of s k' t] by force
  qed
qed simp

text \<open>A state that was looked up once is not found again unless it is added again.\<close>

lemma one_shot:
  assumes "inv s" and "plain k" and "k \<noteq> []" and "\<forall>op\<in>set ops. plain_op op \<and> \<not> adds k op"
  shows "\<exists>v. fst (get t' (Some k) (run_storage add get ops (snd (get t (Some k) s)))) = Ok v \<and> \<not> jtruthy v"
proof (rule get_absent)
  have "inv (snd (get t (Some k) s))" using assms(1,2) by (rule get_inv)
  moreover have "\<not> holds k (snd (get t (Some k) s))" using assms(1-3) by (rule get_forgets)
  ultimately show "\<not> holds k (run_storage add get ops (snd (get t (Some k) s)))" using assms(4) by (intro run_absent)
  show "inv (run_storage add get ops (snd (get t (Some k) s)))"
    using \<open>inv (snd (get t (Some k) s))\<close> assms(4) by (intro run_inv) auto
qed (rule assms(2))

end

subsection \<open>The local storage meets the contract\<close>

lemma state_members_recall:
  assumes "fst ` set extra \<subseteq> {''expires''}"
  shows "recalls st (Some (JObj (map (\<lambda>m. (fst m, prim_json (snd m))) (state_members st @ extra))))"
proof -
  have "k \<in> {''nonce'', ''redirectUri'', ''prompt''} \<Longrightarrow>
      map_of (rev (map (\<lambda>m. (fst m, prim_json (snd m))) extra)) k = None" for k
    using assms by (force simp: map_of_eq_None_iff)
  then show ?thesis
    by (auto simp: recalls_def state_members_def map_add_def split: option.split)
qed

lemma ls_holds_add:
  assumes "getItem k' (ls_add t st a) \<noteq> None" and "getItem k' a = None"
  shows "k' = callback_key (cs_state st)"
  using assms getItem_clearExpired_None [of k' a t] by (auto simp: ls_add_def getItem_setItem split: if_splits)

lemma ls_get_add:
  "cs_state st \<noteq> [] \<Longrightarrow> \<exists>v. fst (ls_get t (Some (cs_state st)) (ls_add t0 st a)) = Ok v \<and> recalls st v"
  using state_members_recall [of "[(''expires'', PInt (t0 + 60 * 60 * 1000))]" st]
  by (simp add: ls_get_def ls_add_def str_truthy_def undef_str_def getItem_setItem stringify_nonempty JSON_parse_stringify Let_def)

lemma ls_get_snd:
  "snd (ls_get t (Some k) a) = a \<or> snd (ls_get t (Some k) a) = clearExpired t a \<or>
   snd (ls_get t (Some k) a) = removeItem (callback_key k) a \<or>
   snd (ls_get t (Some k) a) = clearExpired t (removeItem (callback_key k) a)"
  by (auto simp: ls_get_def Let_def undef_str_def split: option.split res.split)

text \<open>An empty item under a callback key is not looked at, so an entry counts as held when it is not empty.\<close>

definition ls_holds :: "string \<Rightarrow> area \<Rightarrow> bool" where
  "ls_holds k a \<longleftrightarrow> (\<exists>v. getItem (callback_key k) a = Some v \<and> v \<noteq> [])"

lemma ls_holds_clear: "area_ok a \<Longrightarrow> ls_holds k (clearExpired t a) \<Longrightarrow> ls_holds k a"
  using clearExpired_facts(1) [of t a] area_ok_clearExpired [of a t]
  by (auto simp: ls_holds_def getItem_iff)

lemma ls_holds_remove: "ls_holds k (removeItem k' a) \<Longrightarrow> ls_holds k a"
  by (auto simp: ls_holds_def getItem_removeItem split: if_splits)

lemma ls_forgets:
  assumes "area_ok a" and "k \<noteq> []"
  shows "\<not> ls_holds k (snd (ls_get t (Some k) a))"
proof (cases "getItem (callback_key k) a")
  case None
  then show ?thesis
    using assms(2) getItem_clearExpired_None [OF None]
    by (simp add: ls_get_def str_truthy_def undef_str_def ls_holds_def)
next
  case (Some v)
  show ?thesis
  proof (cases "v = []")
    case True
    with Some have "\<not> ls_holds k a" by (simp add: ls_holds_def)
    with Some True assms show ?thesis
      using ls_holds_clear [of a k t] by (auto simp: ls_get_def str_truthy_def undef_str_def)
  next
    case False
    have "\<not> ls_holds k (removeItem (callback_key k) a)" by (simp add: ls_holds_def getItem_removeItem)
    with Some False assms show ?thesis
      using ls_holds_clear [of "removeItem (callback_key k) a" k t] area_ok_removeItem [of a]
      by (auto simp: ls_get_def str_truthy_def undef_str_def Let_def split: res.split)
  qed
qed

interpretation ls: callback_storage ls_add ls_get area_ok ls_holds "\<lambda>_. True"
proof (unfold_locales, goal_cases)
  case (1 s st t)
  then show ?case by (simp add: ls_add_def Let_def area_ok_setItem area_ok_clearExpired)
next
  case (2 s k t)
  then show ?case using ls_get_snd [of t k s] by (auto simp: area_ok_clearExpired area_ok_removeItem)
next
  case (3 s st t0 t)
  then show ?case using ls_get_add by blast
next
  case (4 s k t)
  then show ?case using ls_forgets by blast
next
  case (5 s k' k t)
  then show ?case
    using ls_get_snd [of t k' s] ls_holds_clear ls_holds_remove area_ok_removeItem by metis
next
  case (6 s st k t)
  then show ?case
    using ls_holds_clear [of s k t] by (auto simp: ls_add_def Let_def ls_holds_def getItem_setItem split: if_splits)
next
  case (7 s k t)
  then show ?case
    by (auto simp: ls_get_def ls_holds_def undef_str_def Let_def split: option.split)
qed

subsection \<open>The cookie storage meets the contract\<close>

text \<open>A semicolon ends the value of a cookie, so the fields must not hold one. The redirect URI is
  stored percent-encoded, the state and the nonce are UUIDs, the prompt is the caller's.\<close>

definition cookie_storable :: "callback_state \<Rightarrow> bool" where
  "cookie_storable st \<longleftrightarrow>
     (\<forall>v \<in> {cs_state st, cs_nonce st, cs_redirectUri st} \<union> set_option (cs_prompt st). CHR '';'' \<notin> set v)"

definition cs_holds :: "string \<Rightarrow> jar \<Rightarrow> bool" where
  "cs_holds k j \<longleftrightarrow> callback_key k \<in> ck_name ` set j"

lemma hex_lower_no_semicolon: "k < 16 \<Longrightarrow> hex_lower k \<noteq> CHR '';''"
proof -
  have "list_all (\<lambda>k. hex_lower k \<noteq> CHR '';'') [0..<16]" by code_simp
  then show "k < 16 \<Longrightarrow> hex_lower k \<noteq> CHR '';''" by (auto simp: list_all_iff)
qed

lemma esc_char_no_semicolon:
  assumes "c \<noteq> CHR '';''"
  shows "CHR '';'' \<notin> set (esc_char c)"
proof -
  have "CHR '';'' \<noteq> c" "CHR '';'' \<noteq> hex_lower (of_char c div 16)" "CHR '';'' \<noteq> hex_lower (of_char c mod 16)"
    using assms hex_lower_no_semicolon [OF of_char_div_16 [of c]] hex_lower_no_semicolon [of "of_char c mod 16"]
    by (simp_all add: not_sym)
  then show ?thesis by (simp add: esc_char_def)
qed

lemma quote_no_semicolon:
  assumes "CHR '';'' \<notin> set s"
  shows "CHR '';'' \<notin> set (quote s)"
proof -
  have "CHR '';'' \<notin> set (esc_char c)" if "c \<in> set s" for c
    by (rule esc_char_no_semicolon) (use that assms in metis)
  then show ?thesis by (simp add: quote_def)
qed

lemma stringify_no_semicolon:
  assumes "cookie_storable st"
  shows "CHR '';'' \<notin> set (JSON_stringify (state_members st))"
proof -
  have "CHR '';'' \<notin> set (member_text m)" if "m \<in> set (state_members st)" for m
    using that assms quote_no_semicolon
    by (auto simp: state_members_def cookie_storable_def member_text_def split: option.splits)
  then have "CHR '';'' \<notin> set (join '','' (map member_text (state_members st)))"
    using set_join [of "'',''" "map member_text (state_members st)"] by auto
  then show ?thesis by (simp add: JSON_stringify_def)
qed

lemma trim_braces: "trim (''{'' @ s @ ''}'') = ''{'' @ s @ ''}''"
  by (simp add: trim_def is_ws_def)

lemma stored_value:
  assumes "cookie_storable st"
  shows "trim (takeWhile (\<lambda>x. x \<noteq> CHR '';'') (JSON_stringify (state_members st))) = JSON_stringify (state_members st)"
proof -
  have "takeWhile (\<lambda>x. x \<noteq> CHR '';'') (JSON_stringify (state_members st)) = JSON_stringify (state_members st)"
    using stringify_no_semicolon [OF assms] by (simp add: takeWhile_eq_all_conv) blast
  then show ?thesis using trim_braces by (simp add: JSON_stringify_def)
qed

lemma cookieExpiration_hour: "t0 + 3599000 < cookieExpiration t0 60"
proof -
  have "(t0 + 3600000) mod 1000 < 1000" by simp
  then show ?thesis
    by (simp add: cookieExpiration_def minus_mod_eq_div_mult [symmetric])
qed

lemma cs_get_add:
  assumes "jar_ok j" and "plain (cs_state st)" and "cs_state st \<noteq> []" and "cookie_storable st"
    and "t0 \<le> t" and "t < t0 + 3599000"
  shows "\<exists>v. fst (cs_get t (Some (cs_state st)) (cs_add t0 st j)) = Ok v \<and> recalls st v"
proof -
  let ?key = "callback_key (cs_state st)" and ?text = "JSON_stringify (state_members st)"
  let ?c = "\<lparr>ck_name = ?key, ck_value = ?text, ck_expires = cookieExpiration t0 60\<rparr>"
  have key: "plain ?key" "CHR ''='' \<notin> set ?key"
    using plain_callback_key [OF assms(2)] by (auto simp: plain_def)
  have exp: "t < cookieExpiration t0 60" "\<not> cookieExpiration t0 60 \<le> t0"
    using cookieExpiration_hour [of t0] assms(5,6) by linarith+
  have add: "cs_add t0 st j = put_cookie ?c j"
    using exp key stored_value [OF assms(4)] by (simp add: cs_add_def setCookie_plain)
  have "jar_ok (cs_add t0 st j)"
    unfolding cs_add_def by (rule jar_ok_setCookie [OF assms(1) key(1)]) simp
  then have "getCookie t ?key (cs_add t0 st j) = ?text"
    using getCookie_find [of _ ?key t] find_put_cookie [of "\<lambda>c. t < ck_expires c" ?c j] exp key assms(1) add
    by (simp add: jar_ok_def)
  then show ?thesis
    using assms(3) state_members_recall [of "[]" st]
    by (simp add: cs_get_def str_truthy_def undef_str_def stringify_nonempty JSON_parse_stringify)
qed

lemma cs_get_snd:
  "plain k \<Longrightarrow> snd (cs_get t (Some k) j) = (if k = [] then j else filter (\<lambda>c. ck_name c \<noteq> callback_key k) j)"
  by (simp add: cs_get_def str_truthy_def undef_str_def Let_def setCookie_expired plain_callback_key)

interpretation cs: callback_storage cs_add cs_get jar_ok cs_holds cookie_storable
proof (unfold_locales, goal_cases)
  case (1 s st t)
  then show ?case by (simp add: cs_add_def jar_ok_setCookie plain_callback_key)
next
  case (2 s k t)
  then show ?case by (auto simp: cs_get_snd jar_ok_def distinct_map_filter)
next
  case (3 s st t0 t)
  then show ?case by (rule cs_get_add)
next
  case (4 s k t)
  then show ?case by (auto simp: cs_get_snd cs_holds_def)
next
  case (5 s k' k t)
  then show ?case by (auto simp: cs_get_snd cs_holds_def split: if_splits)
next
  case (6 s st k t)
  have "ck_name ` set (cs_add t st s) \<subseteq> insert (callback_key (cs_state st)) (ck_name ` set s)"
    unfolding cs_add_def by (rule names_setCookie [OF plain_callback_key [OF 6(2)]])
  with 6 show ?case unfolding cs_holds_def by (metis callback_key_inject insertE subsetD)
next
  case (7 s k t)
  then show ?case
    using getCookie_absent [OF _ plain_callback_key, of s k t]
    by (auto simp: cs_get_def cs_holds_def undef_str_def Let_def)
qed

subsection \<open>The storage the adapter uses\<close>

definition store_ok :: "store \<Rightarrow> bool" where
  "store_ok s \<longleftrightarrow> area_ok (st_area s) \<and> jar_ok (st_jar s)"

definition store_holds :: "backend \<Rightarrow> string \<Rightarrow> store \<Rightarrow> bool" where
  "store_holds b k s \<longleftrightarrow> (case b of LocalStorage \<Rightarrow> ls_holds k (st_area s) | CookieStorage \<Rightarrow> cs_holds k (st_jar s))"

definition storable_in :: "backend \<Rightarrow> callback_state \<Rightarrow> bool" where
  "storable_in b st \<longleftrightarrow> (case b of LocalStorage \<Rightarrow> True | CookieStorage \<Rightarrow> cookie_storable st)"

lemma storage_get_simps:
  "fst (storage_get LocalStorage t k s) = fst (ls_get t k (st_area s))"
  "snd (storage_get LocalStorage t k s) = s\<lparr>st_area := snd (ls_get t k (st_area s))\<rparr>"
  "fst (storage_get CookieStorage t k s) = fst (cs_get t k (st_jar s))"
  "snd (storage_get CookieStorage t k s) = s\<lparr>st_jar := snd (cs_get t k (st_jar s))\<rparr>"
  by (simp_all add: storage_get_def split: prod.split)

lemmas storage_defs = storage_add_def store_ok_def store_holds_def storable_in_def storage_get_simps

lemma callback_storage_any:
  "callback_storage (storage_add b) (storage_get b) store_ok (store_holds b) (storable_in b)"
proof (unfold_locales, goal_cases)
  case (1 s st t)
  then show ?case by (cases b) (simp_all add: storage_defs ls.add_inv cs.add_inv)
next
  case (2 s k t)
  then show ?case by (cases b) (simp_all add: storage_defs ls.get_inv cs.get_inv)
next
  case (3 s st t0 t)
  then show ?case by (cases b) (simp_all add: storage_defs ls.get_add cs.get_add)
next
  case (4 s k t)
  then show ?case by (cases b) (simp_all add: storage_defs ls.get_forgets cs.get_forgets)
next
  case (5 s k' k t)
  then show ?case
    using ls.get_no_new [of "st_area s" k' k t] cs.get_no_new [of "st_jar s" k' k t]
    by (cases b) (simp_all add: storage_defs)
next
  case (6 s st k t)
  then show ?case
    using ls.add_no_new [of "st_area s" st k t] cs.add_no_new [of "st_jar s" st k t]
    by (cases b) (simp_all add: storage_defs)
next
  case (7 s k t)
  then show ?case by (cases b) (simp_all add: storage_defs ls.get_absent cs.get_absent)
qed

interpretation cb: callback_storage "storage_add b" "storage_get b" store_ok "store_holds b" "storable_in b" for b
  by (rule callback_storage_any)

subsection \<open>Properties\<close>

text \<open>A callback state that was looked up once is not found again, in the local storage and in the cookies alike,
  whatever is stored and looked up in between, unless it is stored again.\<close>

theorem callback_state_one_shot:
  assumes "store_ok s" and "plain k" and "k \<noteq> []" and "\<forall>op\<in>set ops. plain_op op \<and> \<not> adds k op"
  shows "\<exists>v. fst (storage_get b t' (Some k)
      (run_storage (storage_add b) (storage_get b) ops (snd (storage_get b t (Some k) s)))) = Ok v \<and> \<not> jtruthy v"
  using assms by (rule cb.one_shot)

theorem callback_state_one_shot_witness:
  "\<exists>v. fst (storage_get CookieStorage 7 (Some ''a'')
      (run_storage (storage_add CookieStorage) (storage_get CookieStorage) [Get 5 ''b'']
        (snd (storage_get CookieStorage 3 (Some ''a'') \<lparr>st_area = [], st_jar = []\<rparr>)))) = Ok v \<and> \<not> jtruthy v"
  by (rule callback_state_one_shot) (simp_all add: store_ok_def area_ok_def jar_ok_def plain_def is_ws_def)

text \<open>A callback state is found again for just under an hour, with the nonce, the redirect URI and the prompt it was
  stored with; for the cookie storage this asks that no field holds a semicolon.\<close>

theorem callback_state_recalled:
  assumes "store_ok s" and "plain (cs_state st)" and "cs_state st \<noteq> []" and "storable_in b st"
    and "t0 \<le> t" and "t < t0 + 3599000"
  shows "\<exists>v. fst (storage_get b t (Some (cs_state st)) (storage_add b t0 st s)) = Ok v \<and> recalls st v"
  using assms by (rule cb.get_add)

theorem callback_state_recalled_witness:
  "\<exists>v. fst (storage_get LocalStorage 9 (Some ''a'')
      (storage_add LocalStorage 4 \<lparr>cs_state = ''a'', cs_nonce = ''n'', cs_redirectUri = ''u'', cs_prompt = None\<rparr>
        \<lparr>st_area = [], st_jar = []\<rparr>)) = Ok v \<and>
     recalls \<lparr>cs_state = ''a'', cs_nonce = ''n'', cs_redirectUri = ''u'', cs_prompt = None\<rparr> v"
  using callback_state_recalled [of "\<lparr>st_area = [], st_jar = []\<rparr>"
      "\<lparr>cs_state = ''a'', cs_nonce = ''n'', cs_redirectUri = ''u'', cs_prompt = None\<rparr>" LocalStorage 4 9]
  by (simp add: store_ok_def area_ok_def jar_ok_def plain_def is_ws_def storable_in_def)

text \<open>C15. One pass of \<open>clearExpired\<close> over a local storage, whose keys are distinct, keeps every entry that is not an expired
  or unreadable callback entry, in its order and whatever its key, and brings in no other; it removes at least one such entry whenever there is one;
  and as many passes as there are entries leave exactly the others. (A single pass can leave expired ones,
  because the index moves on past the entry that follows a removed one.)\<close>

theorem clearExpired_sweeps:
  assumes "area_ok a"
  shows "set (clearExpired t a) \<subseteq> set a \<and>
    filter (\<lambda>kv. \<not> stale t kv) (clearExpired t a) = filter (\<lambda>kv. \<not> stale t kv) a \<and>
    (\<exists>kv\<in>set a. stale t kv) = (length (clearExpired t a) < length a) \<and>
    (clearExpired t ^^ length a) a = filter (\<lambda>kv. \<not> stale t kv) a"
proof -
  have keep: "area_ok ((clearExpired t ^^ n) a) \<and> filter (\<lambda>kv. \<not> stale t kv) ((clearExpired t ^^ n) a) = filter (\<lambda>kv. \<not> stale t kv) a" for n
    by (induction n) (simp_all add: assms area_ok_clearExpired clearExpired_def clear_loop_filter clear_loop_ok)
  have "length (clearExpired t a) < length a" if "kv \<in> set a" "stale t kv" for kv
    using clearExpired_progress [OF that] .
  moreover have "clearExpired t a = a" if "\<not> (\<exists>kv\<in>set a. stale t kv)"
    using clearExpired_none [of a t] that by blast
  ultimately have "(\<exists>kv\<in>set a. stale t kv) = (length (clearExpired t a) < length a)" by fastforce
  moreover have "filter (\<lambda>kv. \<not> stale t kv) ((clearExpired t ^^ length a) a) = (clearExpired t ^^ length a) a"
    using clearExpired_iterate [of a "length a" _ t] by (intro filter_True) blast
  ultimately show ?thesis
    using clearExpired_facts(1) [of t a] keep [of 1] keep [of "length a"] by simp
qed

theorem clearExpired_sweeps_witness:
  "set (clearExpired 5 [(''kc-callback-a'', ''x''), (''theme'', ''x'')]) \<subseteq> {(''kc-callback-a'', ''x''), (''theme'', ''x'')} \<and>
   filter (\<lambda>kv. \<not> stale 5 kv) (clearExpired 5 [(''kc-callback-a'', ''x''), (''theme'', ''x'')]) = [(''theme'', ''x'')]"
proof -
  have "JSON_parse ''x'' = Throw SyntaxError" by code_simp
  then have "stale_value 5 ''x''" by (simp add: stale_value_def)
  then show ?thesis
    using clearExpired_sweeps [of "[(''kc-callback-a'', ''x''), (''theme'', ''x'')]" 5] by (simp add: area_ok_def stale_def)
qed

text \<open>Two stale entries next to each other: one pass removes the first and leaves the second.\<close>

theorem clearExpired_skips:
  "clearExpired 5 [(''kc-callback-a'', ''x''), (''kc-callback-b'', ''x'')] = [(''kc-callback-b'', ''x'')]"
proof -
  have "JSON_parse ''x'' = Throw SyntaxError" by code_simp
  then have "stale_value 5 ''x''" by (simp add: stale_value_def)
  then show ?thesis by (simp add: clearExpired_def clear_loop.simps stale_def removeItem_def)
qed

end
