(* ===== verification/Kc_State.thy ===== *)
theory Kc_State
  imports Promise Storage
begin

section \<open>The state of an adapter instance and of its browser\<close>

text \<open>
  \<open>new Keycloak(config)\<close> (keycloak.js 18-43) closes over an object \<open>kc\<close> with the public
  fields, and over the private variables \<open>adapter\<close>, \<open>refreshQueue\<close>,
  \<open>callbackStorage\<close>, \<open>loginIframe\<close> and \<open>useNonce\<close>. The record \<open>world\<close> holds all of
  these together with the part of the browser the adapter touches: promises, the microtask
  queue, requests in flight, timers, opened windows, storage, and a log of the
  calls to the application's callbacks and of the navigations.

  A callback is a closure; here it is a constructor of \<open>cont\<close> (for promises), of
  \<open>xhr_handler\<close> or of \<open>timer\<close> that carries the closure's variables. Console output is
  not modelled. An application callback (\<open>kc.onReady\<close> and the like) is recorded as a
  call; it is assumed not to call back into the adapter before it returns.
\<close>

subsection \<open>Arguments of the public functions\<close>

record options =
  o_redirectUri :: "string option"
  o_prompt :: "string option"
  o_action :: "string option"
  o_scope :: "string option"
  o_maxAge :: "int option"
  o_loginHint :: "string option"
  o_idpHint :: "string option"
  o_locale :: "string option"
  o_kcLocale :: "string option"
  o_cordovaOptions :: "(string \<times> string) list option"

definition no_options :: options where
  "no_options = \<lparr>o_redirectUri = None, o_prompt = None, o_action = None, o_scope = None, o_maxAge = None,
     o_loginHint = None, o_idpHint = None, o_locale = None, o_kcLocale = None, o_cordovaOptions = None\<rparr>"

datatype adapter_option = AdapterName string | AdapterObject

record init_options =
  io_adapter :: "adapter_option option"
  io_useNonce :: "bool option"
  io_checkLoginIframe :: "bool option"
  io_checkLoginIframeInterval :: "rat option"
  io_onLoad :: "string option"
  io_responseMode :: "string option"
  io_flow :: "string option"
  io_timeSkew :: "rat option"
  io_redirectUri :: "string option"
  io_token :: "string option"
  io_refreshToken :: "string option"
  io_idToken :: "string option"

text \<open>The constructor's argument: absent, the URL of a JSON file, or an object.\<close>

datatype oidc_provider = OidcUrl string | OidcObject json

record config_object =
  co_clientId :: "string option"
  co_secret :: "string option"
  co_oidcProvider :: "oidc_provider option"
  co_url :: "string option"
  co_realm :: "string option"

datatype config = NoConfig | ConfigUrl string | ConfigObject config_object

subsection \<open>The callback parameters\<close>

text \<open>The object returned by \<open>parseCallbackUrl\<close>, completed by \<open>parseCallback\<close>.\<close>

record oauth =
  oa_params :: "string \<Rightarrow> string option"
  oa_newUrl :: string
  oa_valid :: bool
  oa_redirectUri :: "json option"
  oa_storedNonce :: "json option"
  oa_prompt :: "json option"

subsection \<open>Closures\<close>

type_synonym pid = nat

text \<open>The values promises carry.\<close>

datatype pval = VUndef | VBool bool | VJson json | VErrorData string "string option" | VReason string

text \<open>
  The callbacks given to \<open>success\<close> and \<open>error\<close> of a promise, named after the function they
  occur in. \<open>pid\<close> arguments are the promises their closures settle.
\<close>

datatype cont =
    InitReady pid
  | InitFailed pid
  | ProcessInit "init_options option" pid
  | ConfigFailed pid
  | CheckSsoReady pid
  | CheckSsoUnchanged pid
  | SetSuccess pid
  | SetError pid
  | CallbackReady oauth pid
  | TokenIframeReady pid
  | TokenUnchanged pid
  | TokenChanged pid
  | TokenUpdated pid
  | TokenUpdateFailed init_options pid
  | UpdateExec int pid
  | NoCallback

datatype xhr_handler =
    OnProfile pid
  | OnUserInfo pid
  | OnRefresh rat
  | OnCode oauth "pid option" rat
  | OnConfigFile pid
  | OnOidcConfig pid

record xhr =
  x_method :: string
  x_url :: string
  x_headers :: "(string \<times> string) list"
  x_body :: "string option"
  x_withCredentials :: bool
  x_handler :: xhr_handler

datatype timer_kind = TokenExpired | CheckIframe

record timer =
  t_kind :: timer_kind
  t_delay :: jsnum

datatype window_kind = LoginWindow pid | LogoutWindow pid | RegisterWindow | AccountWindow

record win =
  win_kind :: window_kind
  win_completed :: bool
  win_closed :: bool
  win_error :: bool
  win_open :: bool

datatype link = LinkLogin pid | LinkLogout pid

subsection \<open>The public object\<close>

datatype endpoints = RealmEndpoints | OidcEndpoints json

record kc =
  kc_authenticated :: bool
  kc_token :: "string option"
  kc_tokenParsed :: "json option"
  kc_refreshToken :: "string option"
  kc_refreshTokenParsed :: "json option"
  kc_idToken :: "string option"
  kc_idTokenParsed :: "json option"
  kc_sessionId :: "json option"
  kc_subject :: "json option"
  kc_realmAccess :: "json option"
  kc_resourceAccess :: "json option"
  kc_timeSkew :: "jsnum option"
  kc_tokenTimeoutHandle :: "nat option"
  kc_loginRequired :: bool
  kc_responseMode :: "string option"
  kc_responseType :: "string option"
  kc_flow :: "string option"
  kc_redirectUri :: "string option"
  kc_authServerUrl :: "string option"
  kc_realm :: "string option"
  kc_clientId :: "string option"
  kc_clientSecret :: "string option"
  kc_endpoints :: "endpoints option"
  kc_iframeVersion :: "string option"
  kc_profile :: "json option"
  kc_userInfo :: "json option"

text \<open>Which application callbacks are set.\<close>

datatype handler = OnReady | OnAuthSuccess | OnAuthError | OnAuthRefreshSuccess | OnAuthRefreshError
  | OnAuthLogout | OnTokenExpired

subsection \<open>The browser and the private variables\<close>

record login_iframe =
  li_enable :: bool
  li_callbackList :: "pid list"
  li_interval :: rat
  li_iframe :: "pid option"
  li_iframeOrigin :: "string option"

datatype adapter = DefaultAdapter | CordovaAdapter | CordovaNativeAdapter | CustomAdapter

datatype effect =
    Call handler pval
  | Navigate string
  | ReplaceState string
  | PostMessage string string
  | AppendIframe string
  | OpenWindow bool string string string
  | OpenTab string
  | CloseTab
  | CustomCall string

record env =
  e_href :: string
  e_origin :: "string option"
  e_protocol :: string
  e_hostname :: string
  e_port :: string
  e_scripts :: "string list"
  e_cordova :: bool
  e_inAppBrowser :: bool
  e_storageAvailable :: bool
  e_now :: int
  e_digits :: "nat \<Rightarrow> nat"
  e_customRedirectUri :: string

record world =
  w_kc :: kc
  w_handlers :: "handler list"
  w_config :: config
  w_adapter :: "adapter option"
  w_refreshQueue :: "pid list"
  w_backend :: "backend option"
  w_iframe :: login_iframe
  w_useNonce :: bool
  w_store :: store
  w_promises :: "(cont, pval) native list"
  w_jobs :: "(cont \<times> pval) list"
  w_xhrs :: "(nat \<times> xhr) list"
  w_timers :: "(nat \<times> timer) list"
  w_windows :: "win list"
  w_links :: "link list"
  w_next :: nat
  w_drawn :: nat
  w_log :: "effect list"
  w_env :: env

subsection \<open>Construction\<close>

text \<open>The version parameter of the script tag, from the last matching script (36-41).\<close>

definition script_version :: "string \<Rightarrow> string option" where
  "script_version src =
     (if (contains src ''keycloak.js'' \<or> contains src ''keycloak.min.js'') \<and> contains src ''version='' then
        (case index_of src ''version='' of
           None \<Rightarrow> None
         | Some i \<Rightarrow> Some (hd (split_on CHR ''&'' (drop (i + 8) src))))
      else None)"

fun iframe_version :: "string list \<Rightarrow> string option \<Rightarrow> string option" where
  "iframe_version [] v = v"
| "iframe_version (src # srcs) v =
     iframe_version srcs (case script_version src of None \<Rightarrow> v | Some x \<Rightarrow> Some x)"

definition new_kc :: "string option \<Rightarrow> kc" where
  "new_kc v =
     \<lparr>kc_authenticated = False, kc_token = None, kc_tokenParsed = None, kc_refreshToken = None,
      kc_refreshTokenParsed = None, kc_idToken = None, kc_idTokenParsed = None, kc_sessionId = None,
      kc_subject = None, kc_realmAccess = None, kc_resourceAccess = None, kc_timeSkew = None,
      kc_tokenTimeoutHandle = None, kc_loginRequired = False, kc_responseMode = None,
      kc_responseType = None, kc_flow = None, kc_redirectUri = None, kc_authServerUrl = None,
      kc_realm = None, kc_clientId = None, kc_clientSecret = None, kc_endpoints = None,
      kc_iframeVersion = v, kc_profile = None, kc_userInfo = None\<rparr>"

definition new_Keycloak :: "config \<Rightarrow> handler list \<Rightarrow> store \<Rightarrow> env \<Rightarrow> world" where
  "new_Keycloak c hs st e =
     \<lparr>w_kc = new_kc (iframe_version (e_scripts e) None), w_handlers = hs, w_config = c, w_adapter = None,
      w_refreshQueue = [], w_backend = None,
      w_iframe = \<lparr>li_enable = True, li_callbackList = [], li_interval = 5, li_iframe = None, li_iframeOrigin = None\<rparr>,
      w_useNonce = True, w_store = st, w_promises = [], w_jobs = [], w_xhrs = [], w_timers = [],
      w_windows = [], w_links = [], w_next = 1, w_drawn = 0, w_log = [], w_env = e\<rparr>"

subsection \<open>Elementary operations\<close>

definition upd_kc :: "(kc \<Rightarrow> kc) \<Rightarrow> world \<Rightarrow> world" where
  "upd_kc f w = w\<lparr>w_kc := f (w_kc w)\<rparr>"

definition upd_iframe :: "(login_iframe \<Rightarrow> login_iframe) \<Rightarrow> world \<Rightarrow> world" where
  "upd_iframe f w = w\<lparr>w_iframe := f (w_iframe w)\<rparr>"

definition emit :: "effect \<Rightarrow> world \<Rightarrow> world" where
  "emit e w = w\<lparr>w_log := w_log w @ [e]\<rparr>"

text \<open>\<open>kc.onX && kc.onX(v)\<close>\<close>

definition call :: "handler \<Rightarrow> pval \<Rightarrow> world \<Rightarrow> world" where
  "call h v w = (if h \<in> set (w_handlers w) then emit (Call h v) w else w)"

text \<open>Promises live in a heap; the callbacks an operation sets off join the microtask queue. The page is one of a browser that has
  \<open>Promise\<close>, so that \<open>createPromise\<close> (982-988) always takes its first branch; the other one, for older browsers, is modelled in theory
  Promise, with the contract both share, but not in the runs of the adapter.\<close>

definition new_promise :: "world \<Rightarrow> pid \<times> world" where
  "new_promise w = (length (w_promises w), w\<lparr>w_promises := w_promises w @ [createNativePromise]\<rparr>)"

definition on_promise ::
  "((cont, pval) native \<Rightarrow> (cont, pval) native \<times> (cont \<times> pval) list) \<Rightarrow> pid \<Rightarrow> world \<Rightarrow> world" where
  "on_promise f p w =
     (if p < length (w_promises w) then
        (let (q, jobs) = f (w_promises w ! p) in
         w\<lparr>w_promises := (w_promises w)[p := q], w_jobs := w_jobs w @ jobs\<rparr>)
      else w)"

definition setSuccess :: "pid \<Rightarrow> pval \<Rightarrow> world \<Rightarrow> world" where
  "setSuccess p v w = on_promise (native_setSuccess v) p w"

definition setError :: "pid \<Rightarrow> pval \<Rightarrow> world \<Rightarrow> world" where
  "setError p v w = on_promise (native_setError v) p w"

definition attach :: "pid \<Rightarrow> cont \<Rightarrow> cont \<Rightarrow> world \<Rightarrow> world" where
  "attach p f g w = on_promise (native_onError g) p (on_promise (native_onSuccess f) p w)"

definition setTimeout :: "timer_kind \<Rightarrow> jsnum \<Rightarrow> world \<Rightarrow> nat \<times> world" where
  "setTimeout k d w =
     (w_next w, w\<lparr>w_timers := w_timers w @ [(w_next w, \<lparr>t_kind = k, t_delay = d\<rparr>)], w_next := Suc (w_next w)\<rparr>)"

definition clearTimeout :: "nat \<Rightarrow> world \<Rightarrow> world" where
  "clearTimeout h w = w\<lparr>w_timers := filter (\<lambda>(i, _). i \<noteq> h) (w_timers w)\<rparr>"

definition send :: "xhr \<Rightarrow> world \<Rightarrow> world" where
  "send x w = w\<lparr>w_xhrs := w_xhrs w @ [(w_next w, x)], w_next := Suc (w_next w)\<rparr>"

definition open_window :: "win \<Rightarrow> world \<Rightarrow> world" where
  "open_window x w = w\<lparr>w_windows := w_windows w @ [x]\<rparr>"

text \<open>\<open>createUUID\<close> (867-878) from 36 draws of \<open>Math.floor(Math.random() * 0x10)\<close>. The bitwise
  operators read the hexadecimal digit as a decimal numeral, so a letter counts as 0.\<close>

definition hex_digits :: string where
  "hex_digits = ''0123456789abcdef''"

definition hex_substr :: "nat \<Rightarrow> string" where
  "hex_substr i = take 1 (drop i hex_digits)"

definition digit_and_3_or_8 :: "string \<Rightarrow> nat" where
  "digit_and_3_or_8 s =
     (let n = (case s of [c] \<Rightarrow> if is_digit c then of_char c - 48 else 0 | _ \<Rightarrow> 0) in n mod 4 + 8)"

definition createUUID :: "(nat \<Rightarrow> nat) \<Rightarrow> string" where
  "createUUID draw =
     (let s = map (\<lambda>i. hex_substr (draw i)) [0..<36];
          s = s[14 := ''4''];
          s = s[19 := hex_substr (digit_and_3_or_8 (s ! 19))];
          s = s[23 := ''-'', 18 := ''-'', 13 := ''-'', 8 := ''-''] in
      concat s)"

definition draw_uuid :: "world \<Rightarrow> string \<times> world" where
  "draw_uuid w = (createUUID (\<lambda>i. e_digits (w_env w) (w_drawn w + i)), w\<lparr>w_drawn := w_drawn w + 36\<rparr>)"

lemmas world_ops = upd_kc_def upd_iframe_def emit_def call_def new_promise_def setTimeout_def
  clearTimeout_def send_def open_window_def draw_uuid_def

lemmas promise_ops = on_promise_def setSuccess_def setError_def attach_def

subsection \<open>A sample browser\<close>

text \<open>A page with an empty storage, used where a theorem is applied to concrete data.\<close>

definition demo_env :: env where
  "demo_env = \<lparr>e_href = ''https://app/'', e_origin = Some ''https://app'', e_protocol = ''https:'', e_hostname = ''app'',
     e_port = [], e_scripts = [], e_cordova = False, e_inAppBrowser = False, e_storageAvailable = True, e_now = 1000000,
     e_digits = (\<lambda>i. i mod 16), e_customRedirectUri = []\<rparr>"

definition demo_store :: store where
  "demo_store = \<lparr>st_area = [], st_jar = []\<rparr>"

end
