(* ===== verification/Urls.thy ===== *)
theory Urls
  imports Kc_State
begin

section \<open>Endpoints and the URLs the adapter builds\<close>

text \<open>
  keycloak.js 227-342 (\<open>createLoginUrl\<close>, \<open>createLogoutUrl\<close>, \<open>createRegisterUrl\<close>,
  \<open>createAccountUrl\<close>), 526-544 (\<open>getRealmUrl\<close>, \<open>getOrigin\<close>), the endpoint tables of
  632-689 and the \<open>redirectUri\<close> functions of the adapters. The lemmas show that the login URL is
  injective in its parameters' values, that a login stores exactly the state it sends, and that
  \<open>openid\<close> is always among the requested scopes.
\<close>

subsection \<open>Endpoints\<close>

definition getRealmUrl :: "kc \<Rightarrow> string option" where
  "getRealmUrl k =
     (case kc_authServerUrl k of
        None \<Rightarrow> None
      | Some u \<Rightarrow>
          if char_at u (length u - 1) = ''/'' then Some (u @ ''realms/'' @ encodeURIComponent (undef_str (kc_realm k)))
          else Some (u @ ''/realms/'' @ encodeURIComponent (undef_str (kc_realm k))))"

definition getOrigin :: "env \<Rightarrow> string" where
  "getOrigin e =
     (if \<not> str_truthy (e_origin e) then
        e_protocol e @ ''//'' @ e_hostname e @ (if e_port e \<noteq> [] then '':'' @ e_port e else [])
      else undef_str (e_origin e))"

text \<open>A member of a JSON object that is used as a string; the documents read here hold strings.\<close>

definition json_str :: "json option \<Rightarrow> string option" where
  "json_str v = (case v of Some (JStr s) \<Rightarrow> Some s | _ \<Rightarrow> None)"

text \<open>The functions of \<open>kc.endpoints\<close>; before \<open>loadConfig\<close> has run, reading them is a TypeError.\<close>

definition realm_endpoint :: "kc \<Rightarrow> string \<Rightarrow> string option res" where
  "realm_endpoint k path = Ok (Some (undef_str (getRealmUrl k) @ ''/protocol/openid-connect/'' @ path))"

definition oidc_optional :: "json \<Rightarrow> string \<Rightarrow> string option res" where
  "oidc_optional j name =
     (if \<not> jtruthy (jget j name) then Throw (Thrown ''Not supported by the OIDC server'')
      else Ok (json_str (jget j name)))"

definition ep_authorize :: "kc \<Rightarrow> string option res" where
  "ep_authorize k =
     (case kc_endpoints k of
        None \<Rightarrow> Throw TypeError
      | Some RealmEndpoints \<Rightarrow> realm_endpoint k ''auth''
      | Some (OidcEndpoints j) \<Rightarrow> Ok (json_str (jget j ''authorization_endpoint'')))"

definition ep_token :: "kc \<Rightarrow> string option res" where
  "ep_token k =
     (case kc_endpoints k of
        None \<Rightarrow> Throw TypeError
      | Some RealmEndpoints \<Rightarrow> realm_endpoint k ''token''
      | Some (OidcEndpoints j) \<Rightarrow> Ok (json_str (jget j ''token_endpoint'')))"

definition ep_logout :: "kc \<Rightarrow> string option res" where
  "ep_logout k =
     (case kc_endpoints k of
        None \<Rightarrow> Throw TypeError
      | Some RealmEndpoints \<Rightarrow> realm_endpoint k ''logout''
      | Some (OidcEndpoints j) \<Rightarrow> oidc_optional j ''end_session_endpoint'')"

definition ep_checkSessionIframe :: "kc \<Rightarrow> string option res" where
  "ep_checkSessionIframe k =
     (case kc_endpoints k of
        None \<Rightarrow> Throw TypeError
      | Some RealmEndpoints \<Rightarrow>
          Ok (Some (undef_str (getRealmUrl k) @ ''/protocol/openid-connect/login-status-iframe.html'' @
            (if str_truthy (kc_iframeVersion k) then ''?version='' @ undef_str (kc_iframeVersion k) else [])))
      | Some (OidcEndpoints j) \<Rightarrow> oidc_optional j ''check_session_iframe'')"

definition ep_register :: "kc \<Rightarrow> string option res" where
  "ep_register k =
     (case kc_endpoints k of
        None \<Rightarrow> Throw TypeError
      | Some RealmEndpoints \<Rightarrow> realm_endpoint k ''registrations''
      | Some (OidcEndpoints j) \<Rightarrow>
          Throw (Thrown (''Redirection to '' @ [CHR 0x22] @ ''Register user'' @ [CHR 0x22] @
            '' page not supported in standard OIDC mode'')))"

definition ep_userinfo :: "kc \<Rightarrow> string option res" where
  "ep_userinfo k =
     (case kc_endpoints k of
        None \<Rightarrow> Throw TypeError
      | Some RealmEndpoints \<Rightarrow> realm_endpoint k ''userinfo''
      | Some (OidcEndpoints j) \<Rightarrow> oidc_optional j ''userinfo_endpoint'')"

text \<open>\<open>setupOidcEndoints\<close>: without provider metadata the realm's own endpoints are used.\<close>

definition setupOidcEndoints :: "json option \<Rightarrow> kc \<Rightarrow> kc" where
  "setupOidcEndoints c k =
     k\<lparr>kc_endpoints := Some (if \<not> jtruthy c then RealmEndpoints else OidcEndpoints (case c of Some j \<Rightarrow> j | None \<Rightarrow> JNull))\<rparr>"

subsection \<open>Redirect URIs\<close>

definition option_field :: "(options \<Rightarrow> 'a option) \<Rightarrow> options option \<Rightarrow> 'a option" where
  "option_field f opts = Option.bind opts f"

definition default_redirectUri :: "options option \<Rightarrow> world \<Rightarrow> string" where
  "default_redirectUri opts w =
     (if str_truthy (option_field o_redirectUri opts) then undef_str (option_field o_redirectUri opts)
      else if str_truthy (kc_redirectUri (w_kc w)) then undef_str (kc_redirectUri (w_kc w))
      else e_href (w_env w))"

definition cordova_redirectUri :: "options option \<Rightarrow> world \<Rightarrow> string" where
  "cordova_redirectUri opts w = ''http://localhost''"

definition native_redirectUri :: "options option \<Rightarrow> world \<Rightarrow> string" where
  "native_redirectUri opts w =
     (if str_truthy (option_field o_redirectUri opts) then undef_str (option_field o_redirectUri opts)
      else if str_truthy (kc_redirectUri (w_kc w)) then undef_str (kc_redirectUri (w_kc w))
      else ''http://localhost'')"

definition adapter_redirectUri :: "options option \<Rightarrow> world \<Rightarrow> string res" where
  "adapter_redirectUri opts w =
     (case w_adapter w of
        None \<Rightarrow> Throw TypeError
      | Some DefaultAdapter \<Rightarrow> Ok (default_redirectUri opts w)
      | Some CordovaAdapter \<Rightarrow> Ok (cordova_redirectUri opts w)
      | Some CordovaNativeAdapter \<Rightarrow> Ok (native_redirectUri opts w)
      | Some CustomAdapter \<Rightarrow> Ok (e_customRedirectUri (w_env w)))"

subsection \<open>The login URL\<close>

definition login_scope :: "options option \<Rightarrow> string" where
  "login_scope opts =
     (if str_truthy (option_field o_scope opts) then
        (if contains (undef_str (option_field o_scope opts)) ''openid'' then undef_str (option_field o_scope opts)
         else ''openid '' @ undef_str (option_field o_scope opts))
      else ''openid'')"

definition param_if :: "string \<Rightarrow> string option \<Rightarrow> string" where
  "param_if name v = (if str_truthy v then name @ encodeURIComponent (undef_str v) else [])"

definition max_age_param :: "int option \<Rightarrow> string" where
  "max_age_param v = (case v of None \<Rightarrow> [] | Some n \<Rightarrow> if n = 0 then [] else ''&max_age='' @ encodeURIComponent (int_str n))"

definition login_url_text ::
  "string option \<Rightarrow> kc \<Rightarrow> bool \<Rightarrow> options option \<Rightarrow> string \<Rightarrow> string \<Rightarrow> string \<Rightarrow> string" where
  "login_url_text baseUrl k use_nonce opts redirectUri state nonce =
     undef_str baseUrl
     @ ''?client_id='' @ encodeURIComponent (undef_str (kc_clientId k))
     @ ''&redirect_uri='' @ encodeURIComponent redirectUri
     @ ''&state='' @ encodeURIComponent state
     @ ''&response_mode='' @ encodeURIComponent (undef_str (kc_responseMode k))
     @ ''&response_type='' @ encodeURIComponent (undef_str (kc_responseType k))
     @ ''&scope='' @ encodeURIComponent (login_scope opts)
     @ (if use_nonce then ''&nonce='' @ encodeURIComponent nonce else [])
     @ param_if ''&prompt='' (option_field o_prompt opts)
     @ max_age_param (option_field o_maxAge opts)
     @ param_if ''&login_hint='' (option_field o_loginHint opts)
     @ param_if ''&kc_idp_hint='' (option_field o_idpHint opts)
     @ param_if ''&ui_locales='' (option_field o_locale opts)
     @ param_if ''&kc_locale='' (option_field o_kcLocale opts)"

definition login_callback_state :: "options option \<Rightarrow> string \<Rightarrow> string \<Rightarrow> string \<Rightarrow> callback_state" where
  "login_callback_state opts redirectUri state nonce =
     \<lparr>cs_state = state, cs_nonce = nonce, cs_redirectUri = encodeURIComponent redirectUri,
      cs_prompt = (if str_truthy (option_field o_prompt opts) then option_field o_prompt opts else None)\<rparr>"

definition store_add :: "callback_state \<Rightarrow> (world, unit) comp" where
  "store_add st w =
     (case w_backend w of
        None \<Rightarrow> (Throw TypeError, w)
      | Some b \<Rightarrow> (Ok (), w\<lparr>w_store := storage_add b (e_now (w_env w)) st (w_store w)\<rparr>))"

definition login_base :: "options option \<Rightarrow> kc \<Rightarrow> string option res" where
  "login_base opts k =
     (if option_field o_action opts = Some ''register'' then ep_register k else ep_authorize k)"

definition createLoginUrl :: "options option \<Rightarrow> (world, string) comp" where
  "createLoginUrl opts w =
     (let (state, w) = draw_uuid w;
          (nonce, w) = draw_uuid w in
      comp_bind (comp_lift (adapter_redirectUri opts)) (\<lambda>redirectUri.
      comp_bind (store_add (login_callback_state opts redirectUri state nonce)) (\<lambda>_.
      comp_bind (comp_lift (\<lambda>w. login_base opts (w_kc w))) (\<lambda>baseUrl.
      comp_lift (\<lambda>w. Ok (login_url_text baseUrl (w_kc w) (w_useNonce w) opts redirectUri state nonce))))) w)"

definition createLogoutUrl :: "options option \<Rightarrow> world \<Rightarrow> string res" where
  "createLogoutUrl opts w =
     res_bind (ep_logout (w_kc w)) (\<lambda>url.
     res_bind (adapter_redirectUri opts w) (\<lambda>redirectUri.
     Ok (undef_str url @ ''?redirect_uri='' @ encodeURIComponent redirectUri)))"

definition createRegisterUrl :: "options option \<Rightarrow> (world, string) comp" where
  "createRegisterUrl opts =
     createLoginUrl (Some ((case opts of None \<Rightarrow> no_options | Some o1 \<Rightarrow> o1)\<lparr>o_action := Some ''register''\<rparr>))"

definition createAccountUrl :: "options option \<Rightarrow> world \<Rightarrow> string option res" where
  "createAccountUrl opts w =
     (case getRealmUrl (w_kc w) of
        None \<Rightarrow> Ok None
      | Some realm \<Rightarrow>
          res_bind (adapter_redirectUri opts w) (\<lambda>redirectUri.
            Ok (Some (realm @ ''/account'' @ ''?referrer='' @ encodeURIComponent (undef_str (kc_clientId (w_kc w)))
              @ ''&referrer_uri='' @ encodeURIComponent redirectUri))))"

subsection \<open>Facts about UUIDs\<close>

lemma hex_substr_digit: "k < 16 \<Longrightarrow> hex_substr k = [hex_lower k]"
proof -
  have "list_all (\<lambda>k. hex_substr k = [hex_lower k]) [0..<16]" by code_simp
  then show "k < 16 \<Longrightarrow> hex_substr k = [hex_lower k]" by (auto simp: list_all_iff)
qed

lemma digit_and_3_or_8_range: "digit_and_3_or_8 s \<in> {8, 9, 10, 11}"
proof -
  obtain n :: nat where "digit_and_3_or_8 s = n mod 4 + 8" by (simp add: digit_and_3_or_8_def Let_def)
  moreover have "n mod 4 < 4" by simp
  ultimately show ?thesis by auto
qed

definition uuid_char :: "(nat \<Rightarrow> nat) \<Rightarrow> nat \<Rightarrow> char" where
  "uuid_char draw i =
     (if i \<in> {8, 13, 18, 23} then CHR ''-'' else if i = 14 then CHR ''4''
      else if i = 19 then hex_lower (digit_and_3_or_8 (hex_substr (draw 19))) else hex_lower (draw i))"

lemma createUUID_chars:
  assumes "\<And>i. i < 36 \<Longrightarrow> draw i < 16"
  shows "createUUID draw = map (uuid_char draw) [0..<36]"
proof -
  let ?f = "\<lambda>i. [uuid_char draw i]"
  have d: "hex_substr (digit_and_3_or_8 s) = [hex_lower (digit_and_3_or_8 s)]" for s
    using digit_and_3_or_8_range [of s] by (intro hex_substr_digit) auto
  have "(map (\<lambda>i. hex_substr (draw i)) [0..<36])
      [14 := ''4'', 19 := hex_substr (digit_and_3_or_8 (hex_substr (draw 19))),
       23 := ''-'', 18 := ''-'', 13 := ''-'', 8 := ''-''] = map ?f [0..<36]"
    by (rule nth_equalityI) (auto simp: nth_list_update hex_substr_digit assms d uuid_char_def)
  then show ?thesis by (simp add: createUUID_def Let_def concat_map_singleton)
qed

lemma hex_lower_plain: "k < 16 \<Longrightarrow> hex_lower k \<in> set ''0123456789abcdef''"
  unfolding hex_lower_def by (rule nth_mem) simp

lemma uuid_char_set:
  assumes "draw i < 16"
  shows "uuid_char draw i \<in> set ''0123456789abcdef-''"
proof -
  have "hex_lower k \<in> set ''0123456789abcdef-''" if "k < 16" for k
    using hex_lower_plain [OF that] by auto
  moreover have "digit_and_3_or_8 s < 16" for s using digit_and_3_or_8_range [of s] by auto
  ultimately show ?thesis using assms by (simp add: uuid_char_def)
qed

lemma createUUID_set:
  assumes "\<And>i. i < 36 \<Longrightarrow> draw i < 16"
  shows "set (createUUID draw) \<subseteq> set ''0123456789abcdef-''"
proof
  fix c
  assume "c \<in> set (createUUID draw)"
  then obtain i where "i < 36" and "c = uuid_char draw i"
    using createUUID_chars [of draw, OF assms] by auto
  then show "c \<in> set ''0123456789abcdef-''" using uuid_char_set [of draw i] assms by metis
qed

lemma createUUID_plain: "(\<And>i. i < 36 \<Longrightarrow> draw i < 16) \<Longrightarrow> plain (createUUID draw)"
  using createUUID_set [of draw] by (fastforce simp: plain_def is_ws_def)

lemma createUUID_not_Nil: "(\<And>i. i < 36 \<Longrightarrow> draw i < 16) \<Longrightarrow> createUUID draw \<noteq> []"
  by (simp add: createUUID_chars)

lemma createUUID_unreserved:
  assumes "\<And>i. i < 36 \<Longrightarrow> draw i < 16"
  shows "encodeURIComponent (createUUID draw) = createUUID draw"
proof (rule encodeURIComponent_unreserved)
  have "set ''0123456789abcdef-'' \<subseteq> set uri_unreserved" by (simp add: uri_unreserved_def)
  then show "set (createUUID draw) \<subseteq> set uri_unreserved" using createUUID_set [of draw, OF assms] by blast
qed

subsection \<open>Reading the login URL back\<close>

text \<open>The query parameters of the login URL as pairs of a name and a plain value, in order.\<close>

definition optional_param :: "string \<Rightarrow> string option \<Rightarrow> (string \<times> string) list" where
  "optional_param name v = (if str_truthy v then [(name, undef_str v)] else [])"

definition login_params :: "kc \<Rightarrow> bool \<Rightarrow> options option \<Rightarrow> string \<Rightarrow> string \<Rightarrow> string \<Rightarrow> (string \<times> string) list" where
  "login_params k use_nonce opts redirectUri state nonce =
     [(''client_id'', undef_str (kc_clientId k)), (''redirect_uri'', redirectUri), (''state'', state),
      (''response_mode'', undef_str (kc_responseMode k)), (''response_type'', undef_str (kc_responseType k)),
      (''scope'', login_scope opts)]
     @ (if use_nonce then [(''nonce'', nonce)] else [])
     @ optional_param ''prompt'' (option_field o_prompt opts)
     @ (case option_field o_maxAge opts of None \<Rightarrow> [] | Some n \<Rightarrow> if n = 0 then [] else [(''max_age'', int_str n)])
     @ optional_param ''login_hint'' (option_field o_loginHint opts)
     @ optional_param ''kc_idp_hint'' (option_field o_idpHint opts)
     @ optional_param ''ui_locales'' (option_field o_locale opts)
     @ optional_param ''kc_locale'' (option_field o_kcLocale opts)"

definition query_param :: "string \<times> string \<Rightarrow> string" where
  "query_param p = fst p @ ''='' @ encodeURIComponent (snd p)"

text \<open>What a server does with a query: cut it at the ampersands, each part at its first equals sign, and decode the value.\<close>

definition read_query :: "string \<Rightarrow> (string \<times> string) list" where
  "read_query s = map (\<lambda>p. (takeWhile (\<lambda>c. c \<noteq> CHR ''='') p, pct_decode (tl (dropWhile (\<lambda>c. c \<noteq> CHR ''='') p))))
     (split_on CHR ''&'' s)"

lemma read_query_params:
  assumes "ps \<noteq> []" and "\<forall>p\<in>set ps. CHR ''&'' \<notin> set (fst p) \<and> CHR ''='' \<notin> set (fst p)"
  shows "read_query (join ''&'' (map query_param ps)) = ps"
proof -
  have "CHR ''&'' \<notin> set (query_param p)" if "p \<in> set ps" for p
    using that assms(2) encodeURIComponent_no_sep [of "CHR ''&''"] by (auto simp: query_param_def)
  then have "split_on CHR ''&'' (join ''&'' (map query_param ps)) = map query_param ps"
    using assms(1) by (intro split_on_join) auto
  moreover have "(takeWhile (\<lambda>c. c \<noteq> CHR ''='') (query_param p),
      pct_decode (tl (dropWhile (\<lambda>c. c \<noteq> CHR ''='') (query_param p)))) = p" if "p \<in> set ps" for p
  proof -
    have "CHR ''='' \<notin> set (fst p)" using that assms(2) by blast
    then show ?thesis by (simp add: query_param_def takeWhile_stop dropWhile_stop pct_decode_encode)
  qed
  ultimately show ?thesis by (simp add: read_query_def comp_def map_idI)
qed

lemma join_amp: "join ''&'' (p # ps) = p @ concat (map (\<lambda>q. ''&'' @ q) ps)"
  by (induction ps arbitrary: p) (simp_all add: join_Cons_ne)

lemma login_url_params:
  "login_url_text baseUrl k use_nonce opts redirectUri state nonce =
     undef_str baseUrl @ ''?'' @ join ''&'' (map query_param (login_params k use_nonce opts redirectUri state nonce))"
  by (simp add: login_url_text_def login_params_def join_amp query_param_def optional_param_def param_if_def max_age_param_def
      split: option.split)

lemma login_params_names:
  "p \<in> set (login_params k use_nonce opts redirectUri state nonce) \<Longrightarrow> CHR ''&'' \<notin> set (fst p) \<and> CHR ''='' \<notin> set (fst p)"
  by (auto simp: login_params_def optional_param_def split: if_splits option.splits)

lemma login_params_not_Nil: "login_params k use_nonce opts redirectUri state nonce \<noteq> []"
  by (simp add: login_params_def)

subsection \<open>Properties\<close>

text \<open>C8. Whatever the values are, a server that cuts the query of the login URL at its separators and decodes the parts
  reads exactly the intended parameters, in order: no value can inject or change another parameter.\<close>

theorem login_url_read_back:
  assumes "login_url_text baseUrl k use_nonce opts redirectUri state nonce = undef_str baseUrl @ ''?'' @ query"
  shows "read_query query = login_params k use_nonce opts redirectUri state nonce"
proof -
  have "query = join ''&'' (map query_param (login_params k use_nonce opts redirectUri state nonce))"
    using assms by (simp add: login_url_params)
  then show ?thesis by (simp add: read_query_params [OF login_params_not_Nil] login_params_names)
qed

theorem login_url_read_back_witness:
  "read_query (join ''&'' (map query_param (login_params (new_kc None) True None ''https://app/?a&b=c'' ''s'' ''n''))) =
     login_params (new_kc None) True None ''https://app/?a&b=c'' ''s'' ''n''"
  by (rule login_url_read_back [of "Some ''x''"]) (simp add: login_url_params)

text \<open>Every login asks for the scope \<open>openid\<close>, whatever scope the caller gives.\<close>

theorem scope_has_openid: "contains (login_scope opts) ''openid''"
  by (simp add: login_scope_def contains_def index_of_prefix)

text \<open>C16. \<open>createUUID\<close> makes a version 4 UUID: 36 characters, dashes at 8, 13, 18 and 23, the version digit 4,
  a variant digit among 8, 9, a and b, and lower-case hexadecimal digits elsewhere.\<close>

theorem uuid_v4:
  assumes "\<forall>i<36. draw i < 16"
  shows "length (createUUID draw) = 36 \<and> (\<forall>i\<in>{8, 13, 18, 23}. createUUID draw ! i = CHR ''-'') \<and>
    createUUID draw ! 14 = CHR ''4'' \<and> createUUID draw ! 19 \<in> set ''89ab'' \<and>
    (\<forall>i<36. i \<notin> {8, 13, 18, 23} \<longrightarrow> createUUID draw ! i \<in> set ''0123456789abcdef'')"
proof -
  have u: "createUUID draw = map (uuid_char draw) [0..<36]" by (rule createUUID_chars) (use assms in blast)
  define n where "n = digit_and_3_or_8 (hex_substr (draw 19))"
  have n: "n \<in> {8, 9, 10, 11}" unfolding n_def by (rule digit_and_3_or_8_range)
  have c: "createUUID draw ! i = uuid_char draw i" if "i < 36" for i using that by (simp add: u)
  have variant: "uuid_char draw 19 \<in> set ''89ab''" using n by (auto simp: uuid_char_def n_def hex_lower_def)
  have "uuid_char draw i \<in> set ''0123456789abcdef''" if "i < 36" "i \<notin> {8, 13, 18, 23}" for i
    using that assms n hex_lower_plain [of "draw i"] hex_lower_plain [of n] by (simp add: uuid_char_def n_def) auto
  then show ?thesis using variant by (simp add: c uuid_char_def u)
qed

theorem uuid_v4_witness: "length (createUUID (\<lambda>i. i mod 16)) = 36 \<and> createUUID (\<lambda>i. i mod 16) ! 14 = CHR ''4''"
  using uuid_v4 [of "\<lambda>i. i mod 16"] by simp

end
