(* ===== verification/Callback.thy ===== *)
theory Callback
  imports Urls
begin

section \<open>Reading the redirect back from the server\<close>

text \<open>
  keycloak.js 888-980: \<open>parseCallbackParams\<close>, \<open>parseCallbackUrl\<close>, \<open>parseCallback\<close>. The
  lemmas characterise the loop over the parameters: the text kept for the new URL is the
  other parameters in their order, the object holds the last value of every parameter of the
  flow, and nothing of the response stays in the new URL.
\<close>

subsection \<open>Parameters\<close>

definition nth_opt :: "nat \<Rightarrow> 'a list \<Rightarrow> 'a option" where
  "nth_opt i xs = (if i < length xs then Some (xs ! i) else None)"

definition param_name :: "string \<Rightarrow> string" where
  "param_name p = hd (split_on CHR ''='' p)"

definition param_value :: "string \<Rightarrow> string option" where
  "param_value p = nth_opt 1 (split_on CHR ''='' p)"

text \<open>One round of the loop on \<open>result.paramsString\<close> and \<open>result.oauthParams\<close>.\<close>

definition param_step ::
  "string list \<Rightarrow> string \<times> (string \<Rightarrow> string option) \<Rightarrow> string \<Rightarrow> string \<times> (string \<Rightarrow> string option)" where
  "param_step supported r p =
     (let (paramsString, oauthParams) = r in
      if param_name p \<in> set supported then (paramsString, oauthParams(param_name p := param_value p))
      else ((if paramsString \<noteq> [] then paramsString @ ''&'' else paramsString) @ p, oauthParams))"

definition parseCallbackParams :: "string \<Rightarrow> string list \<Rightarrow> string \<times> (string \<Rightarrow> string option)" where
  "parseCallbackParams paramsString supportedParams =
     foldl (param_step supportedParams) ([], \<lambda>_. None) (split_on CHR ''&'' paramsString)"

definition flow_params :: "string option \<Rightarrow> string list option" where
  "flow_params flow =
     (if flow = Some ''standard'' then Some [''code'', ''state'', ''session_state'']
      else if flow = Some ''implicit'' then Some [''access_token'', ''id_token'', ''state'', ''session_state'']
      else if flow = Some ''hybrid'' then
        Some [''access_token'', ''id_token'', ''code'', ''state'', ''session_state'']
      else None)"

definition error_params :: "string list" where
  "error_params = [''error'', ''error_description'', ''error_uri'']"

subsection \<open>The URL\<close>

text \<open>The new URL and the parsed parameters, where the response mode finds its part of the URL.\<close>

definition split_callback_url ::
  "string option \<Rightarrow> string \<Rightarrow> string list \<Rightarrow> (string \<times> (string \<Rightarrow> string option)) option" where
  "split_callback_url mode url supported =
     (let queryIndex = index_of url ''?'';
          fragmentIndex = index_of url ''#'' in
      case (mode = Some ''query'', queryIndex, mode = Some ''fragment'', fragmentIndex) of
        (True, Some qi, _, _) \<Rightarrow>
          (let parsed = parseCallbackParams
                 (substring url (qi + 1) (case fragmentIndex of Some fi \<Rightarrow> fi | None \<Rightarrow> length url)) supported;
               newUrl = substring url 0 qi;
               newUrl = (if fst parsed \<noteq> [] then newUrl @ ''?'' @ fst parsed else newUrl);
               newUrl = (case fragmentIndex of Some fi \<Rightarrow> newUrl @ drop fi url | None \<Rightarrow> newUrl) in
           Some (newUrl, snd parsed))
      | (_, _, True, Some fi) \<Rightarrow>
          (let parsed = parseCallbackParams (drop (fi + 1) url) supported;
               newUrl = substring url 0 fi;
               newUrl = (if fst parsed \<noteq> [] then newUrl @ ''#'' @ fst parsed else newUrl) in
           Some (newUrl, snd parsed))
      | _ \<Rightarrow> None)"

definition is_response :: "string option \<Rightarrow> (string \<Rightarrow> string option) \<Rightarrow> bool" where
  "is_response flow m =
     (if flow = Some ''standard'' \<or> flow = Some ''hybrid'' then
        (str_truthy (m ''code'') \<or> str_truthy (m ''error'')) \<and> str_truthy (m ''state'')
      else if flow = Some ''implicit'' then
        (str_truthy (m ''access_token'') \<or> str_truthy (m ''error'')) \<and> str_truthy (m ''state'')
      else False)"

text \<open>Before \<open>init\<close> has set the flow, the list of parameters is undefined and \<open>push\<close> fails.\<close>

definition parseCallbackUrl :: "kc \<Rightarrow> string \<Rightarrow> oauth option res" where
  "parseCallbackUrl k url =
     (case flow_params (kc_flow k) of
        None \<Rightarrow> Throw TypeError
      | Some params \<Rightarrow>
          (case split_callback_url (kc_responseMode k) url (params @ error_params) of
             None \<Rightarrow> Ok None
           | Some (newUrl, m) \<Rightarrow>
               if is_response (kc_flow k) m then
                 Ok (Some \<lparr>oa_params = m, oa_newUrl = newUrl, oa_valid = False, oa_redirectUri = None,
                   oa_storedNonce = None, oa_prompt = None\<rparr>)
               else Ok None))"

definition store_get :: "string option \<Rightarrow> (world, json option) comp" where
  "store_get state w =
     (case w_backend w of
        None \<Rightarrow> (Throw TypeError, w)
      | Some b \<Rightarrow>
          (let (r, s) = storage_get b (e_now (w_env w)) state (w_store w) in (r, w\<lparr>w_store := s\<rparr>)))"

text \<open>\<open>if (oauthState) ...\<close>; a truthy value that came from JSON has properties to read.\<close>

definition complete_oauth :: "oauth \<Rightarrow> json option \<Rightarrow> oauth" where
  "complete_oauth oa oauthState =
     (if jtruthy oauthState then
        (let field = (\<lambda>name. Option.bind oauthState (\<lambda>j. jget j name)) in
         oa\<lparr>oa_valid := True, oa_redirectUri := field ''redirectUri'', oa_storedNonce := field ''nonce'',
            oa_prompt := field ''prompt''\<rparr>)
      else oa)"

definition parseCallback :: "string \<Rightarrow> (world, oauth option) comp" where
  "parseCallback url =
     comp_bind (comp_lift (\<lambda>w. parseCallbackUrl (w_kc w) url)) (\<lambda>oa.
       case oa of
         None \<Rightarrow> comp_ret None
       | Some oauth \<Rightarrow>
           comp_bind (store_get (oa_params oauth ''state'')) (\<lambda>oauthState.
             comp_ret (Some (complete_oauth oauth oauthState))))"

subsection \<open>The loop over the parameters\<close>

definition supported_param :: "string list \<Rightarrow> string \<Rightarrow> bool" where
  "supported_param known p \<longleftrightarrow> param_name p \<in> set known"

fun collect_params :: "string list \<Rightarrow> string list \<Rightarrow> (string \<Rightarrow> string option) \<Rightarrow> (string \<Rightarrow> string option)" where
  "collect_params known [] m = m"
| "collect_params known (p # ps) m =
     collect_params known ps (if supported_param known p then m(param_name p := param_value p) else m)"

definition append_param :: "string \<Rightarrow> string \<Rightarrow> string" where
  "append_param s p = (if s \<noteq> [] then s @ ''&'' else s) @ p"

lemma param_loop:
  "foldl (param_step known) (s, m) ps =
     (foldl append_param s (filter (\<lambda>p. \<not> supported_param known p) ps), collect_params known ps m)"
  by (induction ps arbitrary: s m) (auto simp: param_step_def supported_param_def append_param_def)

lemma append_param_simps [simp]:
  "append_param [] p = p" "s \<noteq> [] \<Longrightarrow> append_param s p = s @ ''&'' @ p"
  by (simp_all add: append_param_def)

lemma append_params_join:
  "s \<noteq> [] \<Longrightarrow> foldl append_param s ps = join ''&'' (s # ps)"
proof (induction ps arbitrary: s)
  case Nil
  then show ?case by simp
next
  case (Cons p ps)
  from Cons.prems have "foldl append_param s (p # ps) = join ''&'' ((s @ ''&'' @ p) # ps)"
    using Cons.IH [of "s @ ''&'' @ p"] by simp
  then show ?case by (cases ps) (simp_all add: join_Cons_ne)
qed

lemma append_params_empty:
  "foldl append_param [] ps = join ''&'' (dropWhile (\<lambda>p. p = []) ps)"
proof (induction ps)
  case Nil
  show ?case by simp
next
  case (Cons p ps)
  then show ?case by (cases "p = []") (simp_all add: append_params_join)
qed

text \<open>The text that is kept: the foreign parameters in order, without leading empty ones.\<close>

definition kept_params :: "string list \<Rightarrow> string \<Rightarrow> string list" where
  "kept_params known s = dropWhile (\<lambda>p. p = []) (filter (\<lambda>p. \<not> supported_param known p) (split_on CHR ''&'' s))"

lemma parseCallbackParams_eq:
  "parseCallbackParams s known = (join ''&'' (kept_params known s), collect_params known (split_on CHR ''&'' s) (\<lambda>_. None))"
  by (simp add: parseCallbackParams_def param_loop append_params_empty kept_params_def)

lemma set_dropWhile: "x \<in> set (dropWhile P xs) \<Longrightarrow> x \<in> set xs"
  by (auto dest: set_dropWhileD)

lemma kept_params_free: "p \<in> set (kept_params known s) \<Longrightarrow> CHR ''&'' \<notin> set p \<and> \<not> supported_param known p"
  unfolding kept_params_def by (auto dest!: set_dropWhile split_on_pieces_free)

lemma collect_params_last:
  "collect_params known (ps @ [p]) m =
     (if supported_param known p then (collect_params known ps m)(param_name p := param_value p) else collect_params known ps m)"
  by (induction ps arbitrary: m) auto

lemma collect_params_other: "k \<notin> set known \<Longrightarrow> collect_params known ps m k = m k"
  by (induction ps arbitrary: m) (auto simp: supported_param_def)

text \<open>Reading the text that was kept finds no parameter of the response in it.\<close>

lemma reparse_kept:
  "snd (parseCallbackParams (fst (parseCallbackParams s known)) known) k =
     (if [] \<in> set known \<and> k = [] \<and> kept_params known s = [] then param_value [] else None)"
proof (cases "kept_params known s = []")
  case True
  then show ?thesis
    by (auto simp: parseCallbackParams_eq supported_param_def param_name_def param_value_def nth_opt_def)
next
  case False
  then have "split_on CHR ''&'' (join ''&'' (kept_params known s)) = kept_params known s"
    using kept_params_free by (intro split_on_join) auto
  moreover have "collect_params known ps m = m" if "\<forall>p\<in>set ps. \<not> supported_param known p" for ps m
    using that by (induction ps) auto
  ultimately show ?thesis
    using False kept_params_free [of _ known s] by (simp add: parseCallbackParams_eq)
qed

subsection \<open>Properties\<close>

text \<open>The last parameter of a given name.\<close>

definition last_param :: "string \<Rightarrow> string list \<Rightarrow> string option" where
  "last_param k ps = Option.bind (map_of (rev (map (\<lambda>p. (param_name p, param_value p)) ps)) k) id"

lemma collect_params_lookup:
  "collect_params known ps m k =
     (if k \<in> set known \<and> k \<in> param_name ` set ps then last_param k ps else m k)"
proof (induction ps rule: rev_induct)
  case Nil
  show ?case by simp
next
  case (snoc p ps)
  then show ?case by (auto simp: collect_params_last supported_param_def last_param_def)
qed

lemma last_param_absent: "k \<notin> param_name ` set ps \<Longrightarrow> last_param k ps = None"
  by (simp add: last_param_def map_of_eq_None_iff image_image bind_eq_None_conv)

text \<open>C9. \<open>parseCallbackParams\<close> returns, for every parameter of the flow, the value of its last occurrence, and
  keeps the other parameters, in order and joined by ampersands, without leading empty ones.\<close>

theorem parseCallbackParams_spec:
  "snd (parseCallbackParams s known) k = (if k \<in> set known then last_param k (split_on CHR ''&'' s) else None) \<and>
   fst (parseCallbackParams s known) =
     join ''&'' (dropWhile (\<lambda>p. p = []) (filter (\<lambda>p. param_name p \<notin> set known) (split_on CHR ''&'' s)))"
  using last_param_absent [of k "split_on CHR ''&'' s"]
  by (auto simp: parseCallbackParams_eq kept_params_def supported_param_def collect_params_lookup)

lemma reparse_none: "[] \<notin> set known \<Longrightarrow> snd (parseCallbackParams (fst (parseCallbackParams s known)) known) = (\<lambda>_. None)"
  by (rule ext) (simp add: reparse_kept)

lemma no_response: "\<not> is_response flow (\<lambda>_. None)"
  by (simp add: is_response_def str_truthy_def)

lemma known_names: "flow_params flow = Some params \<Longrightarrow> [] \<notin> set (params @ error_params)"
  by (auto simp: flow_params_def error_params_def split: if_splits)

lemma fragment_split:
  assumes "index_of url ''#'' = Some fi"
  shows "split_callback_url (Some ''fragment'') url known =
    Some (take fi url @ (if fst (parseCallbackParams (drop (fi + 1) url) known) \<noteq> []
        then ''#'' @ fst (parseCallbackParams (drop (fi + 1) url) known) else []),
      snd (parseCallbackParams (drop (fi + 1) url) known))"
  using assms by (simp add: split_callback_url_def substring_def Let_def)

text \<open>C10. In fragment mode the URL left after a response has been taken out of it is not itself read as a response: reloading
  the page does not process a login twice.\<close>

theorem response_taken_once:
  assumes "kc_responseMode k = Some ''fragment''" and "parseCallbackUrl k url = Ok (Some oa)"
  shows "parseCallbackUrl k (oa_newUrl oa) = Ok None"
proof -
  obtain params where params: "flow_params (kc_flow k) = Some params"
    using assms(2) by (auto simp: parseCallbackUrl_def split: option.splits)
  let ?known = "params @ error_params"
  obtain fi where fi: "index_of url ''#'' = Some fi"
    using assms params by (auto simp: parseCallbackUrl_def split_callback_url_def Let_def split: option.splits)
  let ?kept = "fst (parseCallbackParams (drop (fi + 1) url) ?known)"
  have new: "oa_newUrl oa = take fi url @ (if ?kept \<noteq> [] then ''#'' @ ?kept else [])"
    using assms params fragment_split [OF fi, of ?known] by (auto simp: parseCallbackUrl_def split: if_splits)
  have free: "CHR ''#'' \<notin> set (take fi url)" and len: "length (take fi url) = fi"
    using index_of_char_split [OF fi] by auto
  show ?thesis
  proof (cases "?kept = []")
    case True
    then have "index_of (oa_newUrl oa) ''#'' = None" using free new by (simp add: index_of_char_None)
    then show ?thesis
      using assms(1) params by (simp add: parseCallbackUrl_def split_callback_url_def Let_def split: option.split)
  next
    case False
    then have i: "index_of (oa_newUrl oa) ''#'' = Some fi" and d: "drop (fi + 1) (oa_newUrl oa) = ?kept"
      using new len index_of_char_append [OF free, of ?kept] by simp_all
    then show ?thesis
      using assms(1) params fragment_split [OF i, of ?known] reparse_none [OF known_names [OF params], of "drop (fi + 1) url"]
      by (simp add: parseCallbackUrl_def no_response)
  qed
qed

definition demo_fragment_kc :: kc where
  "demo_fragment_kc = (new_kc None)\<lparr>kc_responseMode := Some ''fragment'', kc_flow := Some ''standard''\<rparr>"

theorem response_taken_once_witness:
  "\<exists>oa. parseCallbackUrl demo_fragment_kc ''u#state=s&x&code=c'' = Ok (Some oa) \<and> oa_newUrl oa = ''u#x'' \<and>
     parseCallbackUrl demo_fragment_kc (oa_newUrl oa) = Ok None"
proof -
  obtain oa where oa: "parseCallbackUrl demo_fragment_kc ''u#state=s&x&code=c'' = Ok (Some oa)" "oa_newUrl oa = ''u#x''"
    by (simp add: parseCallbackUrl_def demo_fragment_kc_def flow_params_def split_callback_url_def substring_def
        parseCallbackParams_def param_step_def param_name_def param_value_def nth_opt_def is_response_def str_truthy_def
        error_params_def Let_def)
  then show ?thesis using response_taken_once [OF _ oa(1)] by (simp add: demo_fragment_kc_def)
qed

end
