(* ===== verification/Adapters.thy ===== *)
theory Adapters
  imports Callback
begin

section \<open>The platform adapters\<close>

text \<open>
  \<open>loadAdapter\<close> (keycloak.js 1148-1415): how a login, a logout, a registration and the
  account page are opened in a browser page, in a Cordova in-app browser and in a native
  browser tab. An adapter object of the application is code outside the repository: its
  calls are recorded, its redirect URI is a field of the environment and its login returns a
  fresh promise. The event handlers of the opened windows are in theory Runtime.

  The locale \<open>login_adapter\<close> is the contract \<open>kc.login\<close> relies on: the one page a login
  opens is the URL that \<open>createLoginUrl\<close> made, and the promise it returns is new and pending.
\<close>

subsection \<open>Cordova options\<close>

definition shallowCloneCordovaOptions :: "options option \<Rightarrow> (string \<times> string) list" where
  "shallowCloneCordovaOptions opts =
     (case option_field o_cordovaOptions opts of
        None \<Rightarrow> []
      | Some m \<Rightarrow> foldl (\<lambda>acc (k, v). setItem k v acc) [] m)"

definition formatCordovaOptions :: "(string \<times> string) list \<Rightarrow> string" where
  "formatCordovaOptions m = join '','' (foldl (\<lambda>acc (k, v). acc @ [k @ ''='' @ v]) [] m)"

definition createCordovaOptions :: "options option \<Rightarrow> string" where
  "createCordovaOptions opts =
     (let m = setItem ''location'' ''no'' (shallowCloneCordovaOptions opts);
          m = (if option_field o_prompt opts = Some ''none'' then setItem ''hidden'' ''yes'' m else m) in
      formatCordovaOptions m)"

definition cordovaOpenWindow :: "window_kind \<Rightarrow> string \<Rightarrow> string \<Rightarrow> world \<Rightarrow> world" where
  "cordovaOpenWindow kind url opts w =
     open_window \<lparr>win_kind = kind, win_completed = False, win_closed = False, win_error = False, win_open = True\<rparr>
       (emit (OpenWindow (e_cordova (w_env w) \<and> e_inAppBrowser (w_env w)) url ''_blank'' opts) w)"

definition alloc :: "(world, pid) comp" where
  "alloc w = (let (p, w') = new_promise w in (Ok p, w'))"

subsection \<open>Login\<close>

definition default_login :: "options option \<Rightarrow> (world, pid) comp" where
  "default_login opts =
     comp_bind (createLoginUrl opts) (\<lambda>url.
     comp_bind (comp_do (emit (Navigate url))) (\<lambda>_. alloc))"

definition cordova_login :: "options option \<Rightarrow> (world, pid) comp" where
  "cordova_login opts =
     comp_bind alloc (\<lambda>p.
     comp_bind (createLoginUrl opts) (\<lambda>url.
     comp_bind (comp_do (cordovaOpenWindow (LoginWindow p) url (createCordovaOptions opts))) (\<lambda>_.
     comp_ret p)))"

definition native_login :: "options option \<Rightarrow> (world, pid) comp" where
  "native_login opts =
     comp_bind alloc (\<lambda>p.
     comp_bind (createLoginUrl opts) (\<lambda>url.
     comp_bind (comp_do (\<lambda>w. emit (OpenTab url) (w\<lparr>w_links := w_links w @ [LinkLogin p]\<rparr>))) (\<lambda>_.
     comp_ret p)))"

definition custom_call :: "string \<Rightarrow> (world, pid) comp" where
  "custom_call name = comp_bind (comp_do (emit (CustomCall name))) (\<lambda>_. alloc)"

definition kc_login :: "options option \<Rightarrow> (world, pid) comp" where
  "kc_login opts w =
     (case w_adapter w of
        None \<Rightarrow> (Throw TypeError, w)
      | Some DefaultAdapter \<Rightarrow> default_login opts w
      | Some CordovaAdapter \<Rightarrow> cordova_login opts w
      | Some CordovaNativeAdapter \<Rightarrow> native_login opts w
      | Some CustomAdapter \<Rightarrow> custom_call ''login'' w)"

subsection \<open>Logout\<close>

definition default_logout :: "options option \<Rightarrow> (world, pid) comp" where
  "default_logout opts =
     comp_bind (comp_lift (createLogoutUrl opts)) (\<lambda>url.
     comp_bind (comp_do (emit (Navigate url))) (\<lambda>_. alloc))"

definition cordova_logout :: "options option \<Rightarrow> (world, pid) comp" where
  "cordova_logout opts =
     comp_bind alloc (\<lambda>p.
     comp_bind (comp_lift (createLogoutUrl opts)) (\<lambda>url.
     comp_bind (comp_do (cordovaOpenWindow (LogoutWindow p) url ''location=no,hidden=yes'')) (\<lambda>_.
     comp_ret p)))"

definition native_logout :: "options option \<Rightarrow> (world, pid) comp" where
  "native_logout opts =
     comp_bind alloc (\<lambda>p.
     comp_bind (comp_lift (createLogoutUrl opts)) (\<lambda>url.
     comp_bind (comp_do (\<lambda>w. emit (OpenTab url) (w\<lparr>w_links := w_links w @ [LinkLogout p]\<rparr>))) (\<lambda>_.
     comp_ret p)))"

definition kc_logout :: "options option \<Rightarrow> (world, pid) comp" where
  "kc_logout opts w =
     (case w_adapter w of
        None \<Rightarrow> (Throw TypeError, w)
      | Some DefaultAdapter \<Rightarrow> default_logout opts w
      | Some CordovaAdapter \<Rightarrow> cordova_logout opts w
      | Some CordovaNativeAdapter \<Rightarrow> native_logout opts w
      | Some CustomAdapter \<Rightarrow> custom_call ''logout'' w)"

subsection \<open>Registration and account management\<close>

definition default_register :: "options option \<Rightarrow> (world, pid) comp" where
  "default_register opts =
     comp_bind (createRegisterUrl opts) (\<lambda>url.
     comp_bind (comp_do (emit (Navigate url))) (\<lambda>_. alloc))"

text \<open>The Cordova version declares no parameter and reads a variable \<open>options\<close> that is not
  declared anywhere: after the URL was made, evaluating it raises a ReferenceError.\<close>

definition cordova_register :: "(world, pid) comp" where
  "cordova_register = comp_bind (createRegisterUrl None) (\<lambda>url. comp_lift (\<lambda>_. Throw ReferenceError))"

definition native_register :: "options option \<Rightarrow> (world, pid) comp" where
  "native_register opts =
     comp_bind alloc (\<lambda>p.
     comp_bind (createRegisterUrl opts) (\<lambda>url.
     comp_bind (comp_do (\<lambda>w. emit (OpenTab url) (w\<lparr>w_links := w_links w @ [LinkLogin p]\<rparr>))) (\<lambda>_.
     comp_ret p)))"

definition kc_register :: "options option \<Rightarrow> (world, pid) comp" where
  "kc_register opts w =
     (case w_adapter w of
        None \<Rightarrow> (Throw TypeError, w)
      | Some DefaultAdapter \<Rightarrow> default_register opts w
      | Some CordovaAdapter \<Rightarrow> cordova_register w
      | Some CordovaNativeAdapter \<Rightarrow> native_register opts w
      | Some CustomAdapter \<Rightarrow> custom_call ''register'' w)"

text \<open>\<open>accountManagement\<close>; only the default adapter returns a promise.\<close>

definition open_account :: "(string \<Rightarrow> (world, pid option) comp) \<Rightarrow> (world, pid option) comp" where
  "open_account act =
     comp_bind (comp_lift (createAccountUrl None)) (\<lambda>url.
       case url of
         None \<Rightarrow> comp_lift (\<lambda>_. Throw (Thrown ''Not supported by the OIDC server''))
       | Some u \<Rightarrow> act u)"

definition default_account :: "(world, pid option) comp" where
  "default_account =
     open_account (\<lambda>u. comp_bind (comp_do (emit (Navigate u))) (\<lambda>_. comp_bind alloc (\<lambda>p. comp_ret (Some p))))"

definition cordova_account :: "(world, pid option) comp" where
  "cordova_account =
     open_account (\<lambda>u. comp_bind (comp_do (cordovaOpenWindow AccountWindow u ''location=no'')) (\<lambda>_. comp_ret None))"

definition native_account :: "(world, pid option) comp" where
  "native_account = open_account (\<lambda>u. comp_bind (comp_do (emit (OpenTab u))) (\<lambda>_. comp_ret None))"

definition kc_accountManagement :: "(world, pid option) comp" where
  "kc_accountManagement w =
     (case w_adapter w of
        None \<Rightarrow> (Throw TypeError, w)
      | Some DefaultAdapter \<Rightarrow> default_account w
      | Some CordovaAdapter \<Rightarrow> cordova_account w
      | Some CordovaNativeAdapter \<Rightarrow> native_account w
      | Some CustomAdapter \<Rightarrow> comp_bind (custom_call ''accountManagement'') (\<lambda>p. comp_ret (Some p)) w)"

subsection \<open>Choosing the adapter\<close>

definition loadAdapter :: "string option \<Rightarrow> (world, adapter) comp" where
  "loadAdapter type w =
     (if \<not> str_truthy type \<or> type = Some ''default'' then (Ok DefaultAdapter, w)
      else if type = Some ''cordova'' then (Ok CordovaAdapter, upd_iframe (\<lambda>l. l\<lparr>li_enable := False\<rparr>) w)
      else if type = Some ''cordova-native'' then
        (Ok CordovaNativeAdapter, upd_iframe (\<lambda>l. l\<lparr>li_enable := False\<rparr>) w)
      else (Throw (Thrown (''invalid adapter type: '' @ undef_str type)), w))"

subsection \<open>The contract of a login\<close>

text \<open>The page an effect opens.\<close>

fun opened :: "effect \<Rightarrow> string list" where
  "opened (Navigate u) = [u]"
| "opened (OpenWindow _ u _ _) = [u]"
| "opened (OpenTab u) = [u]"
| "opened _ = []"

definition opened_pages :: "world \<Rightarrow> string list" where
  "opened_pages w = concat (map opened (w_log w))"

lemma opened_pages_emit: "opened_pages (emit e w) = opened_pages w @ opened e"
  by (simp add: opened_pages_def emit_def)

definition promise_pending :: "pid \<Rightarrow> world \<Rightarrow> bool" where
  "promise_pending p w \<longleftrightarrow> p < length (w_promises w) \<and> n_status (w_promises w ! p) = Pending"

locale login_adapter =
  fixes login :: "options option \<Rightarrow> (world, pid) comp"
  assumes login_effect: "login opts w = (Ok p, w') \<Longrightarrow>
      \<exists>w0 url w1. w0 \<in> {w, snd (new_promise w)} \<and> createLoginUrl opts w0 = (Ok url, w1) \<and>
        opened_pages w' = opened_pages w @ [url] \<and> p = length (w_promises w) \<and>
        w_promises w' = w_promises w @ [createNativePromise] \<and>
        w_store w' = w_store w1 \<and> w_jobs w' = w_jobs w \<and> w_xhrs w' = w_xhrs w"
begin

lemma login_pending: "login opts w = (Ok p, w') \<Longrightarrow> promise_pending p w'"
  using login_effect [of opts w p w'] by (auto simp: promise_pending_def createNativePromise_def)

lemma login_no_request: "login opts w = (Ok p, w') \<Longrightarrow> w_xhrs w' = w_xhrs w \<and> w_jobs w' = w_jobs w"
  using login_effect [of opts w p w'] by blast

end

text \<open>\<open>createLoginUrl\<close> changes the storage and the random source only.\<close>

lemma store_add_frame:
  assumes "store_add st w = (r, w')"
  shows "\<exists>s. w' = w\<lparr>w_store := s\<rparr>"
proof (cases "w_backend w")
  case None
  with assms have "w' = w\<lparr>w_store := w_store w\<rparr>" by (simp add: store_add_def)
  then show ?thesis ..
next
  case (Some b)
  with assms show ?thesis by (auto simp: store_add_def)
qed

lemma createLoginUrl_frame:
  assumes "createLoginUrl opts w = (r, w')"
  shows "\<exists>s d. w' = w\<lparr>w_drawn := d, w_store := s\<rparr>"
proof -
  define w0 where "w0 = w\<lparr>w_drawn := w_drawn w + 36 + 36\<rparr>"
  have "\<exists>s. w' = w0\<lparr>w_store := s\<rparr>"
  proof (cases "adapter_redirectUri opts w0")
    case (Throw e)
    with assms have "w' = w0\<lparr>w_store := w_store w0\<rparr>"
      by (simp add: createLoginUrl_def draw_uuid_def comp_defs w0_def)
    then show ?thesis ..
  next
    case (Ok uri)
    obtain st where "w' = snd (store_add st w0)"
      using assms Ok
      by (auto simp: createLoginUrl_def draw_uuid_def comp_defs w0_def split: res.splits prod.splits)
        (metis snd_conv)+
    then show ?thesis using store_add_frame [of st w0] by (metis prod.collapse)
  qed
  then show ?thesis by (auto simp: w0_def)
qed

lemma createLoginUrl_keeps:
  assumes "createLoginUrl opts w = (r, w')"
  shows "w_log w' = w_log w" "w_promises w' = w_promises w" "w_jobs w' = w_jobs w" "w_xhrs w' = w_xhrs w"
    "w_kc w' = w_kc w" "w_refreshQueue w' = w_refreshQueue w" "w_iframe w' = w_iframe w" "w_timers w' = w_timers w"
    "w_handlers w' = w_handlers w" "w_env w' = w_env w" "w_adapter w' = w_adapter w" "w_backend w' = w_backend w"
    "w_useNonce w' = w_useNonce w" "w_windows w' = w_windows w" "w_links w' = w_links w" "w_config w' = w_config w"
    "w_next w' = w_next w"
  using createLoginUrl_frame [OF assms] by auto

interpretation default: login_adapter default_login
proof
  fix opts w p w'
  assume "default_login opts w = (Ok p, w')"
  then obtain url w1 where l: "createLoginUrl opts w = (Ok url, w1)"
    and w': "p = length (w_promises w1)" "w' = snd (new_promise (emit (Navigate url) w1))"
    by (auto simp: default_login_def alloc_def new_promise_def emit_def comp_defs split: res.splits prod.splits)
  show "\<exists>w0 url w1. w0 \<in> {w, snd (new_promise w)} \<and> createLoginUrl opts w0 = (Ok url, w1) \<and>
      opened_pages w' = opened_pages w @ [url] \<and> p = length (w_promises w) \<and>
      w_promises w' = w_promises w @ [createNativePromise] \<and>
      w_store w' = w_store w1 \<and> w_jobs w' = w_jobs w \<and> w_xhrs w' = w_xhrs w"
    using createLoginUrl_keeps [OF l] l w'
    by (intro exI [of _ w] exI [of _ url] exI [of _ w1]) (simp add: opened_pages_def new_promise_def emit_def)
qed

interpretation cordova: login_adapter cordova_login
proof
  fix opts w p w'
  assume "cordova_login opts w = (Ok p, w')"
  then obtain url w1 where l: "createLoginUrl opts (snd (new_promise w)) = (Ok url, w1)"
    and w': "p = length (w_promises w)" "w' = cordovaOpenWindow (LoginWindow p) url (createCordovaOptions opts) w1"
    by (auto simp: cordova_login_def alloc_def new_promise_def comp_defs split: res.splits prod.splits)
  show "\<exists>w0 url w1. w0 \<in> {w, snd (new_promise w)} \<and> createLoginUrl opts w0 = (Ok url, w1) \<and>
      opened_pages w' = opened_pages w @ [url] \<and> p = length (w_promises w) \<and>
      w_promises w' = w_promises w @ [createNativePromise] \<and>
      w_store w' = w_store w1 \<and> w_jobs w' = w_jobs w \<and> w_xhrs w' = w_xhrs w"
    using createLoginUrl_keeps [OF l] l w'
    by (intro exI [of _ "snd (new_promise w)"] exI [of _ url] exI [of _ w1])
      (simp add: opened_pages_def new_promise_def emit_def cordovaOpenWindow_def open_window_def)
qed

interpretation native_tab: login_adapter native_login
proof
  fix opts w p w'
  assume "native_login opts w = (Ok p, w')"
  then obtain url w1 where l: "createLoginUrl opts (snd (new_promise w)) = (Ok url, w1)"
    and w': "p = length (w_promises w)" "w' = emit (OpenTab url) (w1\<lparr>w_links := w_links w1 @ [LinkLogin p]\<rparr>)"
    by (auto simp: native_login_def alloc_def new_promise_def comp_defs split: res.splits prod.splits)
  show "\<exists>w0 url w1. w0 \<in> {w, snd (new_promise w)} \<and> createLoginUrl opts w0 = (Ok url, w1) \<and>
      opened_pages w' = opened_pages w @ [url] \<and> p = length (w_promises w) \<and>
      w_promises w' = w_promises w @ [createNativePromise] \<and>
      w_store w' = w_store w1 \<and> w_jobs w' = w_jobs w \<and> w_xhrs w' = w_xhrs w"
    using createLoginUrl_keeps [OF l] l w'
    by (intro exI [of _ "snd (new_promise w)"] exI [of _ url] exI [of _ w1])
      (simp add: opened_pages_def new_promise_def emit_def)
qed

subsection \<open>Properties\<close>

text \<open>In a page, in a Cordova window and in a native browser tab alike, \<open>kc.login\<close> opens exactly one page, the URL
  that \<open>createLoginUrl\<close> made and whose state was stored, sends no request, and returns a new pending promise.\<close>

theorem login_opens_created_url:
  assumes "kc_login opts w = (Ok p, w')" and "w_adapter w \<noteq> Some CustomAdapter"
  shows "\<exists>w0 url w1. w0 \<in> {w, snd (new_promise w)} \<and> createLoginUrl opts w0 = (Ok url, w1) \<and>
    opened_pages w' = opened_pages w @ [url] \<and> w_store w' = w_store w1 \<and> w_xhrs w' = w_xhrs w \<and>
    p = length (w_promises w) \<and> promise_pending p w'"
proof -
  consider "default_login opts w = (Ok p, w')" | "cordova_login opts w = (Ok p, w')" | "native_login opts w = (Ok p, w')"
    using assms by (auto simp: kc_login_def split: option.splits adapter.splits)
  then show ?thesis
  proof cases
    case 1
    show ?thesis using default.login_effect [OF 1] default.login_pending [OF 1] by blast
  next
    case 2
    show ?thesis using cordova.login_effect [OF 2] cordova.login_pending [OF 2] by blast
  next
    case 3
    show ?thesis using native_tab.login_effect [OF 3] native_tab.login_pending [OF 3] by blast
  qed
qed

definition demo_page :: world where
  "demo_page = (new_Keycloak NoConfig [] demo_store demo_env)
     \<lparr>w_adapter := Some DefaultAdapter, w_backend := Some LocalStorage,
      w_kc := (new_kc None)\<lparr>kc_endpoints := Some RealmEndpoints\<rparr>\<rparr>"

lemma demo_page_login: "\<exists>p w'. kc_login None demo_page = (Ok p, w')"
  by (simp add: kc_login_def default_login_def createLoginUrl_def draw_uuid_def adapter_redirectUri_def store_add_def login_base_def
      ep_authorize_def realm_endpoint_def option_field_def alloc_def new_promise_def emit_def comp_defs demo_page_def
      new_Keycloak_def)

theorem login_opens_created_url_witness:
  "\<exists>p w' url. kc_login None demo_page = (Ok p, w') \<and> opened_pages w' = opened_pages demo_page @ [url]"
proof -
  obtain p w' where l: "kc_login None demo_page = (Ok p, w')" using demo_page_login by blast
  have "w_adapter demo_page \<noteq> Some CustomAdapter" by (simp add: demo_page_def)
  then show ?thesis using login_opens_created_url [OF l] l by blast
qed

text \<open>\<open>kc.register\<close> never succeeds with the Cordova adapter: once the URL is made, reading the undeclared
  variable \<open>options\<close> raises a ReferenceError, so no window opens.\<close>

theorem cordova_register_fails:
  assumes "w_adapter w = Some CordovaAdapter"
  shows "\<exists>e w'. kc_register opts w = (Throw e, w') \<and> opened_pages w' = opened_pages w"
proof -
  obtain r w1 where c: "createRegisterUrl None w = (r, w1)" by fastforce
  then have "w_log w1 = w_log w" unfolding createRegisterUrl_def by (rule createLoginUrl_keeps)
  then show ?thesis
    using assms c by (cases r) (simp_all add: kc_register_def cordova_register_def comp_defs opened_pages_def)
qed

theorem cordova_register_fails_witness:
  "\<exists>e w'. kc_register None (demo_page\<lparr>w_adapter := Some CordovaAdapter\<rparr>) = (Throw e, w') \<and>
     opened_pages w' = opened_pages (demo_page\<lparr>w_adapter := Some CordovaAdapter\<rparr>)"
  by (rule cordova_register_fails) simp

end
