(* ===== verification/Token.thy ===== *)
theory Token
  imports Kc_State
begin

section \<open>Tokens\<close>

text \<open>
  keycloak.js 344-356 (\<open>hasRealmRole\<close>, \<open>hasResourceRole\<close>), 408-423
  (\<open>isTokenExpired\<close>), 780-865 (\<open>setToken\<close>, \<open>decodeToken\<close>). An exception inside
  \<open>setToken\<close> leaves the fields assigned before it. The lemmas give the round trip of
  \<open>decodeToken\<close> on the compact serialisation, the fields after \<open>setToken\<close> on each of its
  paths, and the expiry arithmetic.
\<close>

subsection \<open>decodeToken\<close>

definition decode_payload :: "string \<Rightarrow> json res" where
  "decode_payload str0 =
     (let str = replace_first (replace_first str0 ''/-/g'' ''+'') ''/_/g'' ''/'';
          n = length str mod 4 in
      if n = 1 then Throw (Thrown ''Invalid token'')
      else
        (let str = str @ b64_pad (length str);
             str = take (length str + length str mod 4) (str @ ''==='');
             str = replace_all CHR ''_'' CHR ''/'' (replace_all CHR ''-'' CHR ''+'' str) in
         res_bind (atob str) (\<lambda>bs. res_bind (decode_escaped bs) JSON_parse)))"

definition decodeToken :: "string \<Rightarrow> json res" where
  "decodeToken str =
     (case split_on CHR ''.'' str of
        _ # payload # _ \<Rightarrow> decode_payload payload
      | _ \<Rightarrow> Throw TypeError)"

subsection \<open>Roles\<close>

text \<open>\<open>access.roles.indexOf(role) >= 0\<close>: an array is searched for the role, a string for the
  substring, and any other value has no method \<open>indexOf\<close>.\<close>

fun roles_include :: "json option \<Rightarrow> string \<Rightarrow> bool res" where
  "roles_include (Some (JArr vs)) role = Ok (JStr role \<in> set vs)"
| "roles_include (Some (JStr s)) role = Ok (contains s role)"
| "roles_include _ role = Throw TypeError"

definition hasRealmRole :: "kc \<Rightarrow> string \<Rightarrow> bool res" where
  "hasRealmRole k role =
     (if \<not> jtruthy (kc_realmAccess k) then Ok False
      else res_bind (jprop (kc_realmAccess k) ''roles'') (\<lambda>roles. roles_include roles role))"

definition hasResourceRole :: "kc \<Rightarrow> string \<Rightarrow> string option \<Rightarrow> bool res" where
  "hasResourceRole k role resource =
     (if \<not> jtruthy (kc_resourceAccess k) then Ok False
      else
        res_bind (jprop (kc_resourceAccess k)
            (undef_str (if str_truthy resource then resource else kc_clientId k))) (\<lambda>access.
          if \<not> jtruthy access then Ok False
          else res_bind (jprop access ''roles'') (\<lambda>roles. roles_include roles role)))"

subsection \<open>Expiry\<close>

definition expires_in :: "kc \<Rightarrow> jsnum \<Rightarrow> jsnum \<Rightarrow> jsnum" where
  "expires_in k seconds skew =
     js_add (js_sub (opt_number (Option.bind (kc_tokenParsed k) (\<lambda>j. jget j ''exp''))) seconds) skew"

definition isTokenExpired :: "int \<Rightarrow> rat option \<Rightarrow> kc \<Rightarrow> bool res" where
  "isTokenExpired now minValidity k =
     (if \<not> jtruthy (kc_tokenParsed k) \<or> (\<not> str_truthy (kc_refreshToken k) \<and> kc_flow k \<noteq> Some ''implicit'') then
        Throw (Thrown ''Not authenticated'')
      else
        (case kc_timeSkew k of
           None \<Rightarrow> Ok True
         | Some skew \<Rightarrow>
             (let expiresIn = expires_in k (Num (of_int \<lceil>(of_int now :: rat) / 1000\<rceil>)) skew;
                  expiresIn = (case minValidity of
                      None \<Rightarrow> expiresIn
                    | Some m \<Rightarrow> if m = 0 then expiresIn else js_sub expiresIn (Num m)) in
              Ok (js_less expiresIn (Num 0)))))"

subsection \<open>setToken\<close>

definition clear_token_timeout :: "world \<Rightarrow> world" where
  "clear_token_timeout w =
     (case kc_tokenTimeoutHandle (w_kc w) of
        None \<Rightarrow> w
      | Some h \<Rightarrow> upd_kc (\<lambda>k. k\<lparr>kc_tokenTimeoutHandle := None\<rparr>) (clearTimeout h w))"

definition set_refresh_token :: "string option \<Rightarrow> (world, unit) comp" where
  "set_refresh_token t =
     (if str_truthy t then
        comp_bind (comp_do (upd_kc (\<lambda>k. k\<lparr>kc_refreshToken := t\<rparr>))) (\<lambda>_.
        comp_bind (comp_lift (\<lambda>_. decodeToken (undef_str t))) (\<lambda>j.
        comp_do (upd_kc (\<lambda>k. k\<lparr>kc_refreshTokenParsed := Some j\<rparr>))))
      else comp_do (upd_kc (\<lambda>k. k\<lparr>kc_refreshToken := None, kc_refreshTokenParsed := None\<rparr>)))"

definition set_id_token :: "string option \<Rightarrow> (world, unit) comp" where
  "set_id_token t =
     (if str_truthy t then
        comp_bind (comp_do (upd_kc (\<lambda>k. k\<lparr>kc_idToken := t\<rparr>))) (\<lambda>_.
        comp_bind (comp_lift (\<lambda>_. decodeToken (undef_str t))) (\<lambda>j.
        comp_do (upd_kc (\<lambda>k. k\<lparr>kc_idTokenParsed := Some j\<rparr>))))
      else comp_do (upd_kc (\<lambda>k. k\<lparr>kc_idToken := None, kc_idTokenParsed := None\<rparr>)))"

text \<open>The fields taken from the parsed access token, once reading \<open>session_state\<close> has shown that it is an object.\<close>

definition take_claims :: "json \<Rightarrow> json option \<Rightarrow> kc \<Rightarrow> kc" where
  "take_claims j session k =
     k\<lparr>kc_sessionId := session, kc_authenticated := True, kc_subject := jget j ''sub'',
       kc_realmAccess := jget j ''realm_access'', kc_resourceAccess := jget j ''resource_access''\<rparr>"

definition estimate_skew :: "rat option \<Rightarrow> json \<Rightarrow> kc \<Rightarrow> kc" where
  "estimate_skew timeLocal j k =
     (case timeLocal of
        None \<Rightarrow> k
      | Some t \<Rightarrow>
          if t = 0 then k
          else k\<lparr>kc_timeSkew := Some (js_sub (Num (of_int \<lfloor>t / 1000\<rfloor>)) (opt_number (jget j ''iat'')))\<rparr>)"

definition schedule_expiry :: "world \<Rightarrow> world" where
  "schedule_expiry w =
     (case kc_timeSkew (w_kc w) of
        None \<Rightarrow> w
      | Some skew \<Rightarrow>
          if OnTokenExpired \<in> set (w_handlers w) then
            (let expiresIn = js_mul (expires_in (w_kc w) (Num (of_int (e_now (w_env w)) / 1000)) skew) (Num 1000) in
             if js_le expiresIn (Num 0) then call OnTokenExpired VUndef w
             else (let (h, w') = setTimeout TokenExpired expiresIn w in
                   upd_kc (\<lambda>k. k\<lparr>kc_tokenTimeoutHandle := Some h\<rparr>) w'))
          else w)"

definition set_access_token :: "string option \<Rightarrow> rat option \<Rightarrow> (world, unit) comp" where
  "set_access_token t timeLocal =
     (if str_truthy t then
        comp_bind (comp_do (upd_kc (\<lambda>k. k\<lparr>kc_token := t\<rparr>))) (\<lambda>_.
        comp_bind (comp_lift (\<lambda>_. decodeToken (undef_str t))) (\<lambda>j.
        comp_bind (comp_do (upd_kc (\<lambda>k. k\<lparr>kc_tokenParsed := Some j\<rparr>))) (\<lambda>_.
        comp_bind (comp_lift (\<lambda>_. jprop (Some j) ''session_state'')) (\<lambda>session.
        comp_do (\<lambda>w. schedule_expiry (upd_kc (\<lambda>k. estimate_skew timeLocal j (take_claims j session k)) w))))))
      else
        comp_do (upd_kc (\<lambda>k. k\<lparr>kc_token := None, kc_tokenParsed := None, kc_subject := None,
          kc_realmAccess := None, kc_resourceAccess := None, kc_authenticated := False\<rparr>)))"

definition setToken ::
  "string option \<Rightarrow> string option \<Rightarrow> string option \<Rightarrow> rat option \<Rightarrow> (world, unit) comp" where
  "setToken token refreshToken idToken timeLocal =
     comp_bind (comp_do clear_token_timeout) (\<lambda>_.
     comp_bind (set_refresh_token refreshToken) (\<lambda>_.
     comp_bind (set_id_token idToken) (\<lambda>_.
     set_access_token token timeLocal)))"

definition cleared :: "kc \<Rightarrow> kc" where
  "cleared k = k\<lparr>kc_refreshToken := None, kc_refreshTokenParsed := None, kc_idToken := None, kc_idTokenParsed := None,
     kc_token := None, kc_tokenParsed := None, kc_subject := None, kc_realmAccess := None,
     kc_resourceAccess := None, kc_authenticated := False\<rparr>"

subsection \<open>decodeToken reads the compact serialisation\<close>

text \<open>Base64url without padding, as in the three parts of a token.\<close>

definition b64url :: "nat list \<Rightarrow> string" where
  "b64url bs = map (\<lambda>c. if c = CHR ''+'' then CHR ''-'' else if c = CHR ''/'' then CHR ''_'' else c) (b64_nopad bs)"

lemma b64_value_not_url: "b64_value CHR ''-'' = None" "b64_value CHR ''_'' = None" "b64_value CHR ''.'' = None"
  by (simp_all add: b64_value_def)

lemma b64_nopad_no_url:
  assumes "\<forall>b\<in>set bs. b < 256" and "c \<in> set (b64_nopad bs)"
  shows "c \<noteq> CHR ''-'' \<and> c \<noteq> CHR ''_'' \<and> c \<noteq> CHR ''.''"
proof -
  obtain v where "v < 64" and "c = b64_char v" using b64_nopad_chars [OF assms] by blast
  then have "b64_value c = Some v" by (simp add: b64_value_char)
  then show ?thesis using b64_value_not_url by fastforce
qed

lemma b64url_chars:
  assumes "\<forall>b\<in>set bs. b < 256"
  shows "CHR ''/'' \<notin> set (b64url bs)" and "CHR ''.'' \<notin> set (b64url bs)"
  using b64_nopad_no_url [OF assms] by (auto simp: b64url_def)

lemma b64url_back:
  assumes "\<forall>b\<in>set bs. b < 256"
  shows "replace_all CHR ''_'' CHR ''/'' (replace_all CHR ''-'' CHR ''+'' (b64url bs @ b64_pad n)) =
    b64_nopad bs @ b64_pad n"
proof -
  have "replace_all CHR ''_'' CHR ''/'' (replace_all CHR ''-'' CHR ''+'' (b64url bs)) = b64_nopad bs"
    using b64_nopad_no_url [OF assms] by (auto simp: replace_all_def b64url_def map_idI)
  then show ?thesis by (simp add: replace_all_def b64_pad_def)
qed

lemma length_pad_mod: "n mod 4 \<noteq> 1 \<Longrightarrow> (n + length (b64_pad n)) mod 4 = 0"
proof -
  assume "n mod 4 \<noteq> 1"
  then consider "n mod 4 = 0" | "n mod 4 = 2" | "n mod 4 = 3" by linarith
  then show ?thesis
  proof cases
    case 1
    then show ?thesis by (simp add: b64_pad_def)
  next
    case 2
    then show ?thesis by (simp add: b64_pad_def) presburger
  next
    case 3
    then show ?thesis by (simp add: b64_pad_def) presburger
  qed
qed

lemma decode_payload_b64url:
  assumes "utf8_valid (map of_char s)"
  shows "decode_payload (b64url (map of_char s)) = JSON_parse s"
proof -
  let ?bs = "map of_char s :: nat list"
  let ?u = "b64url ?bs"
  have small: "\<forall>b\<in>set ?bs. b < 256" by simp
  have noslash: "replace_first (replace_first ?u ''/-/g'' ''+'') ''/_/g'' ''/'' = ?u"
    using b64url_chars(1) [OF small] by (simp add: replace_first_foreign [of "CHR ''/''"])
  have len: "length ?u = length (b64_nopad ?bs)" by (simp add: b64url_def)
  then have mod1: "length ?u mod 4 \<noteq> 1" using length_b64_nopad_mod [of ?bs] by simp
  have "take (length (?u @ b64_pad (length ?u)) + length (?u @ b64_pad (length ?u)) mod 4)
      ((?u @ b64_pad (length ?u)) @ ''==='') = ?u @ b64_pad (length ?u)"
    using length_pad_mod [OF mod1] by simp
  moreover have "replace_all CHR ''_'' CHR ''/'' (replace_all CHR ''-'' CHR ''+'' (?u @ b64_pad (length ?u))) =
      b64_nopad ?bs @ b64_pad (length (b64_nopad ?bs))"
    using b64url_back [OF small] len by simp
  ultimately have "decode_payload ?u =
      res_bind (atob (b64_nopad ?bs @ b64_pad (length (b64_nopad ?bs))))
        (\<lambda>bs. res_bind (decode_escaped bs) JSON_parse)"
    using mod1 by (simp add: decode_payload_def noslash Let_def)
  then show ?thesis
    using atob_padded [OF small] assms by (simp add: decode_escaped_def comp_def)
qed

lemma decodeToken_compact:
  assumes "CHR ''.'' \<notin> set h" and "utf8_valid (map of_char s)"
  shows "decodeToken (h @ ''.'' @ b64url (map of_char s) @ ''.'' @ sig) = JSON_parse s"
proof -
  have "CHR ''.'' \<notin> set (b64url (map of_char s))" by (rule b64url_chars) simp
  with assms(1) have "split_on CHR ''.'' (h @ CHR ''.'' # b64url (map of_char s) @ CHR ''.'' # sig) =
      h # b64url (map of_char s) # split_on CHR ''.'' sig"
    by (simp add: split_on_append)
  then show ?thesis using decode_payload_b64url [OF assms(2)] by (simp add: decodeToken_def)
qed

lemma utf8_valid_ascii: "\<forall>b\<in>set bs. b < 128 \<Longrightarrow> utf8_valid bs"
  by (induction bs) auto

subsection \<open>Properties\<close>

text \<open>C11. \<open>decodeToken\<close> gives back the claims of a compact token: whatever the header and the signature, a
  payload that is the base64url form of a JSON document of strings and integers, in ASCII, decodes to these members.\<close>

theorem token_roundtrip:
  assumes "CHR ''.'' \<notin> set h" and "\<forall>c\<in>set (JSON_stringify ms). (of_char c :: nat) < 128"
  shows "decodeToken (h @ ''.'' @ b64url (map of_char (JSON_stringify ms)) @ ''.'' @ sig) =
    Ok (JObj (map (\<lambda>m. (fst m, prim_json (snd m))) ms))"
proof -
  have "utf8_valid (map of_char (JSON_stringify ms))" using assms(2) by (intro utf8_valid_ascii) auto
  then show ?thesis using decodeToken_compact [OF assms(1)] JSON_parse_stringify by simp
qed

theorem token_roundtrip_witness:
  "decodeToken (''h'' @ ''.'' @ b64url (map of_char (JSON_stringify [(''sub'', PStr ''u'')])) @ ''.'' @ ''s'') =
     Ok (JObj [(''sub'', JStr ''u'')])"
proof -
  have "list_all (\<lambda>c. (of_char c :: nat) < 128) (JSON_stringify [(''sub'', PStr ''u'')])" by code_simp
  then show ?thesis using token_roundtrip [of "''h''" "[(''sub'', PStr ''u'')]" "''s''"] by (simp add: list_all_iff)
qed

text \<open>C12. With a numeric \<open>exp\<close> claim, a known time skew and a refresh token or the implicit flow, \<open>isTokenExpired(minValidity)\<close> is true exactly
  when less than \<open>minValidity\<close> seconds (none, when it is absent) are left on the server's clock, the local time being rounded up.\<close>

theorem isTokenExpired_iff:
  assumes "kc_tokenParsed k = Some (JObj m)" and "jget (JObj m) ''exp'' = Some (JNum x)"
    and "str_truthy (kc_refreshToken k) \<or> kc_flow k = Some ''implicit''" and "kc_timeSkew k = Some (Num skew)"
  shows "isTokenExpired now minValidity k =
    Ok (x + skew < of_int \<lceil>of_int now / (1000 :: rat)\<rceil> + (case minValidity of None \<Rightarrow> 0 | Some s \<Rightarrow> s))"
  using assms by (auto simp: isTokenExpired_def expires_in_def opt_number_def Let_def split: option.split)

definition demo_kc :: kc where
  "demo_kc = (new_kc None)\<lparr>kc_tokenParsed := Some (JObj [(''exp'', JNum 100)]), kc_refreshToken := Some ''r'',
     kc_timeSkew := Some (Num 0)\<rparr>"

theorem isTokenExpired_iff_witness:
  "isTokenExpired 95000 (Some 5) demo_kc = Ok False \<and> isTokenExpired 95001 (Some 5) demo_kc = Ok True"
proof -
  have c: "\<lceil>(95001 / 1000 :: rat)\<rceil> = 96" by (simp add: ceiling_eq_iff)
  show ?thesis
    using isTokenExpired_iff [of demo_kc "[(''exp'', JNum 100)]" 100 0 95000 "Some 5"]
      isTokenExpired_iff [of demo_kc "[(''exp'', JNum 100)]" 100 0 95001 "Some 5"]
    by (simp add: demo_kc_def str_truthy_def c)
qed

text \<open>A token without an \<open>exp\<close> claim never counts as expired once the time skew is known: the arithmetic
  gives NaN, and NaN is not less than zero.\<close>

theorem isTokenExpired_without_exp:
  assumes "kc_tokenParsed k = Some (JObj m)" and "jget (JObj m) ''exp'' = None"
    and "str_truthy (kc_refreshToken k) \<or> kc_flow k = Some ''implicit''" and "kc_timeSkew k = Some skew"
  shows "isTokenExpired now minValidity k = Ok False"
  using assms by (auto simp: isTokenExpired_def expires_in_def opt_number_def Let_def split: option.split)

theorem isTokenExpired_without_exp_witness:
  "isTokenExpired 95000 (Some 5) (demo_kc\<lparr>kc_tokenParsed := Some (JObj [])\<rparr>) = Ok False"
  by (rule isTokenExpired_without_exp [where m = "[]" and skew = "Num 0"]) (simp_all add: demo_kc_def str_truthy_def)

text \<open>\<open>setToken\<close> with an access token that cannot be decoded raises the decoder's exception and leaves
  the new token in \<open>kc.token\<close>, while the authentication flag and the parsed content are those of before.\<close>

theorem setToken_undecodable:
  assumes "str_truthy t" and "decodeToken (undef_str t) = Throw e"
  shows "\<exists>w'. setToken t None None l w = (Throw e, w') \<and> kc_token (w_kc w') = t \<and>
    kc_authenticated (w_kc w') = kc_authenticated (w_kc w) \<and> kc_tokenParsed (w_kc w') = kc_tokenParsed (w_kc w)"
proof -
  have n: "\<not> str_truthy None" by (simp add: str_truthy_def)
  show ?thesis
    using assms
    by (auto simp: setToken_def set_refresh_token_def set_id_token_def set_access_token_def comp_defs n upd_kc_def
        clear_token_timeout_def clearTimeout_def split: option.split)
qed

theorem setToken_undecodable_witness:
  "\<exists>w'. setToken (Some ''x'') None None None (new_Keycloak NoConfig [] demo_store demo_env) = (Throw TypeError, w') \<and>
     kc_token (w_kc w') = Some ''x''"
  using setToken_undecodable [of "Some ''x''" TypeError] by (simp add: str_truthy_def undef_str_def decodeToken_def) blast

end
