(* ===== verification/Session.thy ===== *)
theory Session
  imports Adapters Token
begin

section \<open>Sessions: callbacks from the server, refresh, and the session iframe\<close>

text \<open>
  keycloak.js 516-524 (\<open>clearToken\<close>), 546-620 (\<open>processCallback\<close>), 425-514
  (\<open>updateToken\<close>), 358-406 (\<open>loadUserProfile\<close>, \<open>loadUserInfo\<close>) and 1059-1146 (the iframe
  that watches the session). The part of \<open>updateToken\<close> that sends the request is
  \<open>refresh_request\<close>, the part that reads the answer is \<open>refresh_response\<close>.

  The fields \<open>access_token\<close>, \<open>refresh_token\<close> and \<open>id_token\<close> of a token response are strings
  or absent (RFC 6749, section 5.1).
\<close>

record response =
  r_status :: int
  r_text :: string
  r_url :: string

text \<open>A value of a JSON document where the source appends it to a string: the claims concerned are
  strings, absent or null.\<close>

definition json_text :: "json option \<Rightarrow> string" where
  "json_text v = (if v = Some JNull then ''null'' else undef_str (json_str v))"

subsection \<open>Losing the session\<close>

definition clearToken :: "(world, unit) comp" where
  "clearToken w =
     (if str_truthy (kc_token (w_kc w)) then
        comp_bind (setToken None None None None) (\<lambda>_.
        comp_bind (comp_do (call OnAuthLogout VUndef)) (\<lambda>_ w.
          if kc_loginRequired (w_kc w) then comp_bind (kc_login None) (\<lambda>_. comp_ret ()) w
          else (Ok (), w))) w
      else (Ok (), w))"

subsection \<open>Requests\<close>

text \<open>The client's authentication of a token request: a header, or a parameter of the body.\<close>

definition client_auth :: "kc \<Rightarrow> ((string \<times> string) list \<times> string) res" where
  "client_auth k =
     (if str_truthy (kc_clientId k) \<and> str_truthy (kc_clientSecret k) then
        res_bind (btoa (undef_str (kc_clientId k) @ '':'' @ undef_str (kc_clientSecret k))) (\<lambda>b.
          Ok ([(''Authorization'', ''Basic '' @ b)], []))
      else Ok ([], ''&client_id='' @ encodeURIComponent (undef_str (kc_clientId k))))"

definition form_header :: "string \<times> string" where
  "form_header = (''Content-type'', ''application/x-www-form-urlencoded'')"

definition get_json :: "string \<Rightarrow> (string \<times> string) list \<Rightarrow> xhr_handler \<Rightarrow> xhr" where
  "get_json url hs h = \<lparr>x_method = ''GET'', x_url = url, x_headers = (''Accept'', ''application/json'') # hs,
     x_body = None, x_withCredentials = False, x_handler = h\<rparr>"

definition post_form :: "string \<Rightarrow> (string \<times> string) list \<Rightarrow> string \<Rightarrow> xhr_handler \<Rightarrow> xhr" where
  "post_form url hs body h = \<lparr>x_method = ''POST'', x_url = url, x_headers = form_header # hs,
     x_body = Some body, x_withCredentials = True, x_handler = h\<rparr>"

definition now_rat :: "world \<Rightarrow> rat" where
  "now_rat w = of_int (e_now (w_env w))"

definition bearer :: "kc \<Rightarrow> string \<times> string" where
  "bearer k = (''Authorization'', ''bearer '' @ undef_str (kc_token k))"

definition loadUserProfile :: "(world, pid) comp" where
  "loadUserProfile w =
     comp_bind alloc (\<lambda>p w.
       (Ok p, send (get_json (undef_str (getRealmUrl (w_kc w)) @ ''/account'') [bearer (w_kc w)] (OnProfile p)) w)) w"

definition loadUserInfo :: "(world, pid) comp" where
  "loadUserInfo =
     comp_bind (comp_lift (\<lambda>w. ep_userinfo (w_kc w))) (\<lambda>url.
     comp_bind alloc (\<lambda>p w.
       (Ok p, send (get_json (undef_str url) [bearer (w_kc w)] (OnUserInfo p)) w)))"

definition profile_response :: "pid \<Rightarrow> response \<Rightarrow> (world, unit) comp" where
  "profile_response p r =
     (if r_status r = 200 then
        comp_bind (comp_lift (\<lambda>_. JSON_parse (r_text r))) (\<lambda>j.
        comp_do (\<lambda>w. setSuccess p (VJson j) (upd_kc (\<lambda>k. k\<lparr>kc_profile := Some j\<rparr>) w)))
      else comp_do (setError p VUndef))"

definition userinfo_response :: "pid \<Rightarrow> response \<Rightarrow> (world, unit) comp" where
  "userinfo_response p r =
     (if r_status r = 200 then
        comp_bind (comp_lift (\<lambda>_. JSON_parse (r_text r))) (\<lambda>j.
        comp_do (\<lambda>w. setSuccess p (VJson j) (upd_kc (\<lambda>k. k\<lparr>kc_userInfo := Some j\<rparr>) w)))
      else comp_do (setError p VUndef))"

subsection \<open>The callback of a login\<close>

definition nonce_differs :: "oauth \<Rightarrow> json option \<Rightarrow> bool" where
  "nonce_differs oa parsed \<longleftrightarrow>
     jtruthy parsed \<and> \<not> js_eq (Option.bind parsed (\<lambda>j. jget j ''nonce'')) (oa_storedNonce oa)"

definition bad_nonce :: "oauth \<Rightarrow> kc \<Rightarrow> bool" where
  "bad_nonce oa k \<longleftrightarrow>
     nonce_differs oa (kc_tokenParsed k) \<or> nonce_differs oa (kc_refreshTokenParsed k) \<or>
     nonce_differs oa (kc_idTokenParsed k)"

definition settle_opt :: "(pid \<Rightarrow> pval \<Rightarrow> world \<Rightarrow> world) \<Rightarrow> pid option \<Rightarrow> pval \<Rightarrow> world \<Rightarrow> world" where
  "settle_opt f p v w = (case p of None \<Rightarrow> w | Some q \<Rightarrow> f q v w)"

text \<open>\<open>authSuccess\<close> updates the variable \<open>timeLocal\<close> of its enclosing call; the new value is the result.\<close>

definition authSuccess ::
  "oauth \<Rightarrow> pid option \<Rightarrow> rat \<Rightarrow> string option \<Rightarrow> string option \<Rightarrow> string option \<Rightarrow> bool \<Rightarrow> (world, rat) comp" where
  "authSuccess oa p timeLocal accessToken refreshToken idToken fulfillPromise w =
     (let t = (timeLocal + now_rat w) / 2 in
      comp_bind (setToken accessToken refreshToken idToken (Some t)) (\<lambda>_ w.
        if w_useNonce w \<and> bad_nonce oa (w_kc w) then
          comp_bind clearToken (\<lambda>_.
          comp_bind (comp_do (settle_opt setError p VUndef)) (\<lambda>_. comp_ret t)) w
        else if fulfillPromise then
          comp_bind (comp_do (\<lambda>w. settle_opt setSuccess p VUndef (call OnAuthSuccess VUndef w))) (\<lambda>_. comp_ret t) w
        else (Ok t, w)) w)"

definition exchange_code :: "oauth \<Rightarrow> pid option \<Rightarrow> rat \<Rightarrow> string \<Rightarrow> (world, unit) comp" where
  "exchange_code oa p timeLocal code =
     comp_bind (comp_lift (\<lambda>w. ep_token (w_kc w))) (\<lambda>url.
     comp_bind (comp_lift (\<lambda>w. client_auth (w_kc w))) (\<lambda>(hs, client).
     comp_do (send (post_form (undef_str url) hs
       (''code='' @ code @ ''&grant_type=authorization_code'' @ client
        @ ''&redirect_uri='' @ json_text (oa_redirectUri oa))
       (OnCode oa p timeLocal)))))"

definition processCallback :: "oauth option \<Rightarrow> pid option \<Rightarrow> (world, unit) comp" where
  "processCallback oauth p w =
     (case oauth of
        None \<Rightarrow> (Throw TypeError, w)
      | Some oa \<Rightarrow>
          (let param = oa_params oa in
           if str_truthy (param ''error'') then
             (if \<not> js_eq (oa_prompt oa) (Some (JStr ''none'')) then
                (let errorData = VErrorData (undef_str (param ''error'')) (param ''error_description'') in
                 (Ok (), settle_opt setError p errorData (call OnAuthError errorData w)))
              else (Ok (), settle_opt setSuccess p VUndef w))
           else
             comp_bind
               (\<lambda>w. if kc_flow (w_kc w) \<noteq> Some ''standard'' \<and>
                       (str_truthy (param ''access_token'') \<or> str_truthy (param ''id_token''))
                    then authSuccess oa p (now_rat w) (param ''access_token'') None (param ''id_token'') True w
                    else (Ok (now_rat w), w))
               (\<lambda>timeLocal w.
                  if kc_flow (w_kc w) \<noteq> Some ''implicit'' \<and> str_truthy (param ''code'')
                  then exchange_code oa p timeLocal (undef_str (param ''code'')) w
                  else (Ok (), w)) w))"

definition token_member :: "json \<Rightarrow> string \<Rightarrow> string option" where
  "token_member j name = json_str (jget j name)"

definition code_response :: "oauth \<Rightarrow> pid option \<Rightarrow> rat \<Rightarrow> response \<Rightarrow> (world, unit) comp" where
  "code_response oa p timeLocal r =
     (if r_status r = 200 then
        comp_bind (comp_lift (\<lambda>_. JSON_parse (r_text r))) (\<lambda>j.
        comp_bind (comp_lift (\<lambda>_. jprop (Some j) ''access_token'')) (\<lambda>_ w.
        comp_bind (authSuccess oa p timeLocal (token_member j ''access_token'') (token_member j ''refresh_token'')
          (token_member j ''id_token'') (kc_flow (w_kc w) = Some ''standard'')) (\<lambda>_. comp_ret ()) w))
      else comp_do (\<lambda>w. settle_opt setError p VUndef (call OnAuthError VUndef w)))"

subsection \<open>The session iframe\<close>

text \<open>\<open>setupCheckLoginIframe\<close>; the message listener it installs is \<open>messageCallback\<close>, and
  \<open>iframe_loaded\<close> is the iframe's \<open>onload\<close>, which settles the promise kept with the iframe.\<close>

definition setupCheckLoginIframe :: "(world, pid) comp" where
  "setupCheckLoginIframe =
     comp_bind alloc (\<lambda>p w.
       if \<not> li_enable (w_iframe w) then (Ok p, setSuccess p VUndef w)
       else if li_iframe (w_iframe w) \<noteq> None then (Ok p, setSuccess p VUndef w)
       else
         comp_bind (comp_do (upd_iframe (\<lambda>l. l\<lparr>li_iframe := Some p\<rparr>))) (\<lambda>_.
         comp_bind (comp_lift (\<lambda>w. ep_checkSessionIframe (w_kc w))) (\<lambda>src.
         comp_bind (comp_do (emit (AppendIframe (undef_str src)))) (\<lambda>_. comp_ret p))) w)"

definition iframe_origin :: "env \<Rightarrow> string \<Rightarrow> string" where
  "iframe_origin e authUrl =
     (if char_at authUrl 0 = ''/'' then getOrigin e
      else (case index_of_from authUrl ''/'' 8 of None \<Rightarrow> [] | Some i \<Rightarrow> substring authUrl 0 i))"

definition schedule_check :: "world \<Rightarrow> world" where
  "schedule_check w = snd (setTimeout CheckIframe (Num (li_interval (w_iframe w) * 1000)) w)"

definition iframe_loaded :: "pid \<Rightarrow> (world, unit) comp" where
  "iframe_loaded p =
     comp_bind (comp_lift (\<lambda>w. ep_authorize (w_kc w))) (\<lambda>url.
       case url of
         None \<Rightarrow> comp_lift (\<lambda>_. Throw TypeError)
       | Some authUrl \<Rightarrow>
           comp_do (\<lambda>w. schedule_check (setSuccess p VUndef
             (upd_iframe (\<lambda>l. l\<lparr>li_iframeOrigin := Some (iframe_origin (w_env w) authUrl)\<rparr>) w))))"

definition checkLoginIframe :: "world \<Rightarrow> pid \<times> world" where
  "checkLoginIframe w =
     (let (p, w) = new_promise w in
      if li_iframe (w_iframe w) \<noteq> None \<and> str_truthy (li_iframeOrigin (w_iframe w)) then
        (let msg = undef_str (kc_clientId (w_kc w)) @ '' '' @ json_text (kc_sessionId (w_kc w));
             w = upd_iframe (\<lambda>l. l\<lparr>li_callbackList := li_callbackList l @ [p]\<rparr>) w in
         (p, if length (li_callbackList (w_iframe w)) = 1
             then emit (PostMessage msg (undef_str (li_iframeOrigin (w_iframe w)))) w else w))
      else (p, setSuccess p VUndef w))"

definition check :: "world \<Rightarrow> world" where
  "check w =
     (let w = snd (checkLoginIframe w) in
      if str_truthy (kc_token (w_kc w)) then schedule_check w else w)"

text \<open>Settling a list of promises from the last to the first.\<close>

definition settle_rev :: "(pid \<Rightarrow> world \<Rightarrow> world) \<Rightarrow> pid list \<Rightarrow> world \<Rightarrow> world" where
  "settle_rev f ps w = foldl (\<lambda>w p. f p w) w (rev ps)"

definition messageCallback :: "string \<Rightarrow> bool \<Rightarrow> string \<Rightarrow> (world, unit) comp" where
  "messageCallback origin from_iframe data w =
     (if Some origin \<noteq> li_iframeOrigin (w_iframe w) \<or> \<not> from_iframe then (Ok (), w)
      else if \<not> (data = ''unchanged'' \<or> data = ''changed'' \<or> data = ''error'') then (Ok (), w)
      else
        comp_bind (if data \<noteq> ''unchanged'' then clearToken else comp_ret ()) (\<lambda>_ w.
          (let callbacks = li_callbackList (w_iframe w);
               w = upd_iframe (\<lambda>l. l\<lparr>li_callbackList := []\<rparr>) w in
           (Ok (), settle_rev (\<lambda>p. if data = ''unchanged'' then setSuccess p VUndef else setError p VUndef) callbacks w))) w)"

subsection \<open>Refreshing the token\<close>

definition refresh_needed :: "int \<Rightarrow> world \<Rightarrow> bool res" where
  "refresh_needed minValidity w =
     (if minValidity = -1 then Ok True
      else if \<not> jtruthy (kc_tokenParsed (w_kc w)) then Ok True
      else isTokenExpired (e_now (w_env w)) (Some (of_int minValidity)) (w_kc w))"

definition refresh_request :: "string \<Rightarrow> (world, unit) comp" where
  "refresh_request url =
     comp_bind (comp_lift (\<lambda>w. client_auth (w_kc w))) (\<lambda>(hs, client) w.
       (Ok (), send (post_form url hs
         (''grant_type=refresh_token&refresh_token='' @ undef_str (kc_refreshToken (w_kc w)) @ client)
         (OnRefresh (now_rat w))) w))"

definition push_refresh :: "string \<Rightarrow> pid \<Rightarrow> (world, unit) comp" where
  "push_refresh url p w =
     (let w = w\<lparr>w_refreshQueue := w_refreshQueue w @ [p]\<rparr> in
      if length (w_refreshQueue w) = 1 then refresh_request url w else (Ok (), w))"

definition update_exec :: "int \<Rightarrow> pid \<Rightarrow> (world, unit) comp" where
  "update_exec minValidity p =
     comp_bind (comp_lift (refresh_needed minValidity)) (\<lambda>needed.
       if \<not> needed then comp_do (setSuccess p (VBool False))
       else comp_bind (comp_lift (\<lambda>w. ep_token (w_kc w))) (\<lambda>url. push_refresh (undef_str url) p))"

definition updateToken :: "int option \<Rightarrow> (world, pid) comp" where
  "updateToken minValidity =
     comp_bind alloc (\<lambda>p w.
       if \<not> str_truthy (kc_refreshToken (w_kc w)) then (Ok p, setError p VUndef w)
       else
         (let m = (case minValidity of None \<Rightarrow> 5 | Some n \<Rightarrow> if n = 0 then 5 else n) in
          if li_enable (w_iframe w) then
            (let (q, w) = checkLoginIframe w in (Ok p, attach q (UpdateExec m p) (SetError p) w))
          else comp_bind (update_exec m p) (\<lambda>_. comp_ret p) w))"

definition drain_refresh :: "(pid \<Rightarrow> world \<Rightarrow> world) \<Rightarrow> world \<Rightarrow> world" where
  "drain_refresh f w = settle_rev f (w_refreshQueue w) (w\<lparr>w_refreshQueue := []\<rparr>)"

definition refresh_response :: "rat \<Rightarrow> response \<Rightarrow> (world, unit) comp" where
  "refresh_response timeLocal r =
     (if r_status r = 200 then
        (\<lambda>w.
          let t = (timeLocal + now_rat w) / 2 in
          comp_bind (comp_lift (\<lambda>_. JSON_parse (r_text r))) (\<lambda>j.
          comp_bind (comp_lift (\<lambda>_. jprop (Some j) ''access_token'')) (\<lambda>_.
          comp_bind (setToken (token_member j ''access_token'') (token_member j ''refresh_token'')
            (token_member j ''id_token'') (Some t)) (\<lambda>_.
          comp_do (\<lambda>w. drain_refresh (\<lambda>p. setSuccess p (VBool True)) (call OnAuthRefreshSuccess VUndef w))))) w)
      else
        comp_bind (if r_status r = 400 then clearToken else comp_ret ()) (\<lambda>_.
        comp_do (\<lambda>w. drain_refresh (\<lambda>p. setError p (VBool True)) (call OnAuthRefreshError VUndef w))))"

end
