(* ===== verification/Init.thy ===== *)
theory Init
  imports Session
begin

section \<open>Initialisation\<close>

text \<open>
  keycloak.js 45-225 (\<open>kc.init\<close> with its inner functions \<open>onLoad\<close> and
  \<open>processInit\<close>), 622-778 (\<open>loadConfig\<close>, \<open>fileLoaded\<close>) and the callbacks these attach to
  promises, which \<open>run_cont\<close> executes.
\<close>

subsection \<open>Configuration\<close>

text \<open>\<open>if (!config) ... else if (typeof config === 'string')\<close>: the empty string counts as no configuration.\<close>

definition config_url :: "config \<Rightarrow> string option" where
  "config_url c =
     (case c of
        NoConfig \<Rightarrow> Some ''keycloak.json''
      | ConfigUrl u \<Rightarrow> Some (if u = [] then ''keycloak.json'' else u)
      | ConfigObject _ \<Rightarrow> None)"

text \<open>The server's URL taken from the first script tag that loads the adapter.\<close>

fun script_base :: "string list \<Rightarrow> string option" where
  "script_base [] = None"
| "script_base (src # srcs) =
     (if contains src ''keycloak.js'' then
        Some (case index_of src ''/js/keycloak.js'' of None \<Rightarrow> [] | Some i \<Rightarrow> take i src)
      else script_base srcs)"

definition well_known :: "string \<Rightarrow> string" where
  "well_known provider =
     (if char_at provider (length provider - 1) = ''/'' then provider @ ''.well-known/openid-configuration''
      else provider @ ''/.well-known/openid-configuration'')"

definition realm_config :: "config_object \<Rightarrow> pid \<Rightarrow> (world, unit) comp" where
  "realm_config c p w =
     (let base = script_base (e_scripts (w_env w));
          url = (if \<not> str_truthy (co_url c) \<and> base \<noteq> None then base else co_url c);
          w = w\<lparr>w_config := ConfigObject (c\<lparr>co_url := url\<rparr>)\<rparr> in
      if \<not> str_truthy (co_realm c) then (Throw (Thrown ''realm missing''), w)
      else
        (Ok (), setSuccess p VUndef
          (upd_kc (\<lambda>k. setupOidcEndoints None (k\<lparr>kc_authServerUrl := url, kc_realm := co_realm c\<rparr>)) w)))"

definition object_config :: "config_object \<Rightarrow> pid \<Rightarrow> (world, unit) comp" where
  "object_config c p =
     (if \<not> str_truthy (co_clientId c) then comp_lift (\<lambda>_. Throw (Thrown ''clientId missing''))
      else
        comp_bind (comp_do (upd_kc (\<lambda>k. k\<lparr>kc_clientId := co_clientId c, kc_clientSecret := co_secret c\<rparr>))) (\<lambda>_.
          case co_oidcProvider c of
            None \<Rightarrow> realm_config c p
          | Some (OidcUrl u) \<Rightarrow>
              if u = [] then realm_config c p
              else comp_do (send (get_json (well_known u) [] (OnOidcConfig p)))
          | Some (OidcObject j) \<Rightarrow>
              if \<not> jtruthy (Some j) then realm_config c p
              else comp_do (\<lambda>w. setSuccess p VUndef (upd_kc (setupOidcEndoints (Some j)) w))))"

definition loadConfig :: "(world, pid) comp" where
  "loadConfig =
     comp_bind alloc (\<lambda>p w.
       comp_bind
         (case config_url (w_config w) of
            Some url \<Rightarrow> comp_do (send (get_json url [] (OnConfigFile p)))
          | None \<Rightarrow> (case w_config w of ConfigObject c \<Rightarrow> object_config c p | _ \<Rightarrow> comp_ret ()))
         (\<lambda>_. comp_ret p) w)"

definition fileLoaded :: "response \<Rightarrow> bool" where
  "fileLoaded r \<longleftrightarrow> r_status r = 0 \<and> r_text r \<noteq> [] \<and> prefix ''file:'' (r_url r)"

definition file_fields :: "json \<Rightarrow> kc \<Rightarrow> kc" where
  "file_fields j k =
     k\<lparr>kc_authServerUrl := json_str (jget j ''auth-server-url''), kc_realm := json_str (jget j ''realm''),
       kc_clientId := json_str (jget j ''resource''),
       kc_clientSecret :=
         (if jtruthy (jget j ''credentials'') then json_str (Option.bind (jget j ''credentials'') (\<lambda>c. jget c ''secret''))
          else None)\<rparr>"

definition config_response :: "pid \<Rightarrow> response \<Rightarrow> (world, unit) comp" where
  "config_response p r =
     (if r_status r = 200 \<or> fileLoaded r then
        comp_bind (comp_lift (\<lambda>_. JSON_parse (r_text r))) (\<lambda>j.
        comp_bind (comp_lift (\<lambda>_. jprop (Some j) ''auth-server-url'')) (\<lambda>_.
        comp_do (\<lambda>w. setSuccess p VUndef (upd_kc (\<lambda>k. setupOidcEndoints None (file_fields j k)) w))))
      else comp_do (setError p VUndef))"

definition oidc_response :: "pid \<Rightarrow> response \<Rightarrow> (world, unit) comp" where
  "oidc_response p r =
     (if r_status r = 200 \<or> fileLoaded r then
        comp_bind (comp_lift (\<lambda>_. JSON_parse (r_text r))) (\<lambda>j.
        comp_do (\<lambda>w. setSuccess p VUndef (upd_kc (setupOidcEndoints (Some j)) w)))
      else comp_do (setError p VUndef))"

subsection \<open>kc.init\<close>

definition choose_adapter :: "init_options option \<Rightarrow> (world, unit) comp" where
  "choose_adapter io w =
     (case Option.bind io io_adapter of
        Some (AdapterName n) \<Rightarrow>
          if n \<in> {''default'', ''cordova'', ''cordova-native''} then
            comp_bind (loadAdapter (Some n)) (\<lambda>a. comp_do (\<lambda>w. w\<lparr>w_adapter := Some a\<rparr>)) w
          else
            comp_bind (loadAdapter (if e_cordova (w_env w) then Some ''cordova'' else None))
              (\<lambda>a. comp_do (\<lambda>w. w\<lparr>w_adapter := Some a\<rparr>)) w
      | Some AdapterObject \<Rightarrow> (Ok (), w\<lparr>w_adapter := Some CustomAdapter\<rparr>)
      | None \<Rightarrow>
          comp_bind (loadAdapter (if e_cordova (w_env w) then Some ''cordova'' else None))
            (\<lambda>a. comp_do (\<lambda>w. w\<lparr>w_adapter := Some a\<rparr>)) w)"

definition response_type :: "string \<Rightarrow> string option" where
  "response_type flow =
     (if flow = ''standard'' then Some ''code''
      else if flow = ''implicit'' then Some ''id_token token''
      else if flow = ''hybrid'' then Some ''code id_token token''
      else None)"

definition apply_iframe_options :: "init_options \<Rightarrow> world \<Rightarrow> world" where
  "apply_iframe_options io w =
     (let w = (case io_useNonce io of None \<Rightarrow> w | Some b \<Rightarrow> w\<lparr>w_useNonce := b\<rparr>);
          w = (case io_checkLoginIframe io of None \<Rightarrow> w | Some b \<Rightarrow> upd_iframe (\<lambda>l. l\<lparr>li_enable := b\<rparr>) w);
          w = (case io_checkLoginIframeInterval io of
                 None \<Rightarrow> w
               | Some t \<Rightarrow> if t = 0 then w else upd_iframe (\<lambda>l. l\<lparr>li_interval := t\<rparr>) w) in
      if io_onLoad io = Some ''login-required'' then upd_kc (\<lambda>k. k\<lparr>kc_loginRequired := True\<rparr>) w else w)"

definition apply_mode :: "init_options \<Rightarrow> (world, unit) comp" where
  "apply_mode io =
     (if str_truthy (io_responseMode io) then
        (if io_responseMode io = Some ''query'' \<or> io_responseMode io = Some ''fragment''
         then comp_do (upd_kc (\<lambda>k. k\<lparr>kc_responseMode := io_responseMode io\<rparr>))
         else comp_lift (\<lambda>_. Throw (Thrown ''Invalid value for responseMode'')))
      else comp_ret ())"

definition apply_flow :: "init_options \<Rightarrow> (world, unit) comp" where
  "apply_flow io =
     (if str_truthy (io_flow io) then
        (case response_type (undef_str (io_flow io)) of
           None \<Rightarrow> comp_lift (\<lambda>_. Throw (Thrown ''Invalid value for flow''))
         | Some rt \<Rightarrow> comp_do (upd_kc (\<lambda>k. k\<lparr>kc_responseType := Some rt, kc_flow := io_flow io\<rparr>)))
      else comp_ret ())"

definition apply_rest :: "init_options \<Rightarrow> kc \<Rightarrow> kc" where
  "apply_rest io k =
     (let k = (case io_timeSkew io of None \<Rightarrow> k | Some t \<Rightarrow> k\<lparr>kc_timeSkew := Some (Num t)\<rparr>) in
      if str_truthy (io_redirectUri io) then k\<lparr>kc_redirectUri := io_redirectUri io\<rparr> else k)"

definition apply_options :: "init_options option \<Rightarrow> (world, unit) comp" where
  "apply_options opts =
     (case opts of
        None \<Rightarrow> comp_ret ()
      | Some io \<Rightarrow>
          comp_bind (comp_do (apply_iframe_options io)) (\<lambda>_.
          comp_bind (apply_mode io) (\<lambda>_.
          comp_bind (apply_flow io) (\<lambda>_.
          comp_do (upd_kc (apply_rest io))))))"

definition default_mode :: "kc \<Rightarrow> kc" where
  "default_mode k =
     (let k = (if \<not> str_truthy (kc_responseMode k) then k\<lparr>kc_responseMode := Some ''fragment''\<rparr> else k) in
      if \<not> str_truthy (kc_responseType k) then k\<lparr>kc_responseType := Some ''code'', kc_flow := Some ''standard''\<rparr> else k)"

definition create_storage :: "world \<Rightarrow> world" where
  "create_storage w =
     (let (b, s) = createCallbackStorage (e_storageAvailable (w_env w)) (w_store w) in
      w\<lparr>w_backend := Some b, w_store := s\<rparr>)"

definition kc_init :: "init_options option \<Rightarrow> (world, pid) comp" where
  "kc_init io =
     comp_bind (comp_do (\<lambda>w. create_storage (upd_kc (\<lambda>k. k\<lparr>kc_authenticated := False\<rparr>) w))) (\<lambda>_.
     comp_bind (choose_adapter io) (\<lambda>_.
     comp_bind (apply_options io) (\<lambda>_.
     comp_bind (comp_do (upd_kc default_mode)) (\<lambda>_.
     comp_bind alloc (\<lambda>promise.
     comp_bind alloc (\<lambda>initPromise.
     comp_bind (comp_do (attach initPromise (InitReady promise) (InitFailed promise))) (\<lambda>_.
     comp_bind loadConfig (\<lambda>configPromise.
     comp_bind (comp_do (attach configPromise (ProcessInit io initPromise) (ConfigFailed promise))) (\<lambda>_.
     comp_ret promise)))))))))"

subsection \<open>The callbacks of init\<close>

definition doLogin :: "bool \<Rightarrow> pid \<Rightarrow> (world, unit) comp" where
  "doLogin prompt initPromise =
     comp_bind (kc_login (Some (if prompt then no_options else no_options\<lparr>o_prompt := Some ''none''\<rparr>))) (\<lambda>p.
     comp_do (attach p (SetSuccess initPromise) (SetError initPromise)))"

definition onLoad :: "init_options \<Rightarrow> pid \<Rightarrow> (world, unit) comp" where
  "onLoad io initPromise w =
     (if io_onLoad io = Some ''check-sso'' then
        (if li_enable (w_iframe w) then
           comp_bind setupCheckLoginIframe (\<lambda>p. comp_do (attach p (CheckSsoReady initPromise) NoCallback)) w
         else doLogin False initPromise w)
      else if io_onLoad io = Some ''login-required'' then doLogin True initPromise w
      else (Throw (Thrown ''Invalid value for onLoad''), w))"

definition init_tokens :: "init_options \<Rightarrow> pid \<Rightarrow> (world, unit) comp" where
  "init_tokens io initPromise =
     comp_bind (setToken (io_token io) (io_refreshToken io) (io_idToken io) None) (\<lambda>_ w.
       if li_enable (w_iframe w) then
         comp_bind setupCheckLoginIframe (\<lambda>p. comp_do (attach p (TokenIframeReady initPromise) NoCallback)) w
       else
         comp_bind (updateToken (Some (-1))) (\<lambda>p.
           comp_do (attach p (TokenUpdated initPromise) (TokenUpdateFailed io initPromise))) w)"

text \<open>The part of \<open>processInit\<close> that runs when there is no valid callback.\<close>

definition start_session :: "init_options option \<Rightarrow> pid \<Rightarrow> (world, unit) comp" where
  "start_session opts initPromise =
     (case opts of
        None \<Rightarrow> comp_do (setSuccess initPromise VUndef)
      | Some io \<Rightarrow>
          if str_truthy (io_token io) \<and> str_truthy (io_refreshToken io) then init_tokens io initPromise
          else if str_truthy (io_onLoad io) then onLoad io initPromise
          else comp_do (setSuccess initPromise VUndef))"

text \<open>\<open>history.replaceState\<close> also changes \<open>location.href\<close>.\<close>

definition replace_state :: "string \<Rightarrow> world \<Rightarrow> world" where
  "replace_state url w = emit (ReplaceState url) (w\<lparr>w_env := (w_env w)\<lparr>e_href := url\<rparr>\<rparr>)"

definition processInit :: "init_options option \<Rightarrow> pid \<Rightarrow> (world, unit) comp" where
  "processInit opts initPromise w =
     comp_bind (parseCallback (e_href (w_env w))) (\<lambda>callback.
     comp_bind (comp_do (case callback of None \<Rightarrow> id | Some oa \<Rightarrow> replace_state (oa_newUrl oa))) (\<lambda>_.
       case callback of
         Some oa \<Rightarrow>
           if oa_valid oa then
             comp_bind setupCheckLoginIframe (\<lambda>p. comp_do (attach p (CallbackReady oa initPromise) (SetError initPromise)))
           else start_session opts initPromise
       | None \<Rightarrow> start_session opts initPromise)) w"

fun run_cont :: "cont \<Rightarrow> pval \<Rightarrow> (world, unit) comp" where
  "run_cont (InitReady p) v =
     comp_do (\<lambda>w. let ready = VBool (kc_authenticated (w_kc w)) in setSuccess p ready (call OnReady ready w))"
| "run_cont (InitFailed p) v = comp_do (setError p v)"
| "run_cont (ProcessInit opts ip) v = processInit opts ip"
| "run_cont (ConfigFailed p) v = comp_do (setError p VUndef)"
| "run_cont (CheckSsoReady ip) v =
     comp_do (\<lambda>w. let (q, w) = checkLoginIframe w in attach q (CheckSsoUnchanged ip) (SetSuccess ip) w)"
| "run_cont (CheckSsoUnchanged ip) v = doLogin False ip"
| "run_cont (SetSuccess p) v = comp_do (setSuccess p VUndef)"
| "run_cont (SetError p) v = comp_do (setError p VUndef)"
| "run_cont (CallbackReady oa ip) v = processCallback (Some oa) (Some ip)"
| "run_cont (TokenIframeReady ip) v =
     comp_do (\<lambda>w. let (q, w) = checkLoginIframe w in attach q (TokenUnchanged ip) (TokenChanged ip) w)"
| "run_cont (TokenUnchanged ip) v = comp_do (\<lambda>w. setSuccess ip VUndef (call OnAuthSuccess VUndef w))"
| "run_cont (TokenChanged ip) v =
     comp_bind (setToken None None None None) (\<lambda>_. comp_do (setSuccess ip VUndef))"
| "run_cont (TokenUpdated ip) v = comp_do (\<lambda>w. setSuccess ip VUndef (call OnAuthSuccess VUndef w))"
| "run_cont (TokenUpdateFailed io ip) v =
     comp_bind (comp_do (call OnAuthError VUndef)) (\<lambda>_.
       if str_truthy (io_onLoad io) then onLoad io ip else comp_do (setError ip VUndef))"
| "run_cont (UpdateExec m p) v = update_exec m p"
| "run_cont NoCallback v = comp_ret ()"

end
