(* ===== verification/Runtime.thy ===== *)
theory Runtime
  imports Init
begin

section \<open>Events\<close>

text \<open>
  The handlers of the opened Cordova windows and universal links (keycloak.js 1231-1391) and
  the event loop. \<open>step\<close> is one turn of it: a call by the application, the first job of the microtask
  queue, or, when that queue is empty, a browser event. An exception ends the handler it was
  raised in; the changes made before it stay.
\<close>

subsection \<open>Cordova windows\<close>

definition is_localhost :: "string \<Rightarrow> bool" where
  "is_localhost url \<longleftrightarrow> index_of url ''http://localhost'' = Some 0"

definition upd_win :: "nat \<Rightarrow> (win \<Rightarrow> win) \<Rightarrow> world \<Rightarrow> world" where
  "upd_win i f w = (if i < length (w_windows w) then w\<lparr>w_windows := (w_windows w)[i := f (w_windows w ! i)]\<rparr> else w)"

definition close_ref :: "nat \<Rightarrow> world \<Rightarrow> world" where
  "close_ref i = upd_win i (\<lambda>x. x\<lparr>win_open := False\<rparr>)"

definition closeBrowser :: "nat \<Rightarrow> world \<Rightarrow> world" where
  "closeBrowser i w = close_ref i (upd_win i (\<lambda>x. x\<lparr>win_closed := True\<rparr>) w)"

definition finish_login :: "nat \<Rightarrow> pid \<Rightarrow> string \<Rightarrow> (world, unit) comp" where
  "finish_login i p url =
     comp_bind (parseCallback url) (\<lambda>oa.
     comp_bind (processCallback oa (Some p)) (\<lambda>_.
     comp_do (\<lambda>w. upd_win i (\<lambda>x. x\<lparr>win_completed := True\<rparr>) (closeBrowser i w))))"

definition win_loadstart :: "nat \<Rightarrow> string \<Rightarrow> (world, unit) comp" where
  "win_loadstart i url w =
     (case win_kind (w_windows w ! i) of
        LoginWindow p \<Rightarrow> if is_localhost url then finish_login i p url w else (Ok (), w)
      | _ \<Rightarrow> if is_localhost url then (Ok (), close_ref i w) else (Ok (), w))"

definition win_loaderror :: "nat \<Rightarrow> string \<Rightarrow> (world, unit) comp" where
  "win_loaderror i url w =
     (case win_kind (w_windows w ! i) of
        LoginWindow p \<Rightarrow>
          if win_completed (w_windows w ! i) then (Ok (), w)
          else if is_localhost url then finish_login i p url w
          else (Ok (), closeBrowser i (setError p VUndef w))
      | LogoutWindow p \<Rightarrow>
          if is_localhost url then (Ok (), close_ref i w)
          else (Ok (), close_ref i (upd_win i (\<lambda>x. x\<lparr>win_error := True\<rparr>) w))
      | _ \<Rightarrow> (Ok (), w))"

definition win_exit :: "nat \<Rightarrow> (world, unit) comp" where
  "win_exit i w =
     (case win_kind (w_windows w ! i) of
        LoginWindow p \<Rightarrow>
          if \<not> win_closed (w_windows w ! i) then (Ok (), setError p (VReason ''closed_by_user'') w) else (Ok (), w)
      | LogoutWindow p \<Rightarrow>
          if win_error (w_windows w ! i) then (Ok (), setError p VUndef w)
          else comp_bind clearToken (\<lambda>_. comp_do (setSuccess p VUndef)) w
      | _ \<Rightarrow> (Ok (), w))"

subsection \<open>Universal links\<close>

text \<open>Unsubscribing removes every subscription of the event name.\<close>

fun link_event :: "link \<Rightarrow> string \<Rightarrow> (world, unit) comp" where
  "link_event (LinkLogin p) url =
     comp_bind (comp_do (\<lambda>w. emit CloseTab (w\<lparr>w_links := []\<rparr>))) (\<lambda>_.
     comp_bind (parseCallback url) (\<lambda>oa. processCallback oa (Some p)))"
| "link_event (LinkLogout p) url =
     comp_bind (comp_do (\<lambda>w. emit CloseTab (w\<lparr>w_links := []\<rparr>))) (\<lambda>_.
     comp_bind clearToken (\<lambda>_. comp_do (setSuccess p VUndef)))"

subsection \<open>Requests and timers\<close>

fun xhr_done :: "xhr_handler \<Rightarrow> response \<Rightarrow> (world, unit) comp" where
  "xhr_done (OnProfile p) r = profile_response p r"
| "xhr_done (OnUserInfo p) r = userinfo_response p r"
| "xhr_done (OnRefresh t) r = refresh_response t r"
| "xhr_done (OnCode oa p t) r = code_response oa p t r"
| "xhr_done (OnConfigFile p) r = config_response p r"
| "xhr_done (OnOidcConfig p) r = oidc_response p r"

fun timer_done :: "timer_kind \<Rightarrow> world \<Rightarrow> world" where
  "timer_done TokenExpired w = call OnTokenExpired VUndef w"
| "timer_done CheckIframe w = check w"

definition take_xhr :: "nat \<Rightarrow> world \<Rightarrow> world" where
  "take_xhr i w = w\<lparr>w_xhrs := filter (\<lambda>(j, _). j \<noteq> i) (w_xhrs w)\<rparr>"

subsection \<open>The event loop\<close>

datatype api_call =
    Init "init_options option"
  | Login "options option"
  | Logout "options option"
  | Register "options option"
  | AccountManagement
  | CreateLoginUrl "options option"
  | CreateRegisterUrl "options option"
  | LoadUserProfile
  | LoadUserInfo
  | UpdateToken "int option"
  | ClearToken

fun run_call :: "api_call \<Rightarrow> world \<Rightarrow> world" where
  "run_call (Init io) w = snd (kc_init io w)"
| "run_call (Login opts) w = snd (kc_login opts w)"
| "run_call (Logout opts) w = snd (kc_logout opts w)"
| "run_call (Register opts) w = snd (kc_register opts w)"
| "run_call AccountManagement w = snd (kc_accountManagement w)"
| "run_call (CreateLoginUrl opts) w = snd (createLoginUrl opts w)"
| "run_call (CreateRegisterUrl opts) w = snd (createRegisterUrl opts w)"
| "run_call LoadUserProfile w = snd (loadUserProfile w)"
| "run_call LoadUserInfo w = snd (loadUserInfo w)"
| "run_call (UpdateToken m) w = snd (updateToken m w)"
| "run_call ClearToken w = snd (clearToken w)"

datatype event =
    Response nat response
  | TimerFires nat
  | IframeLoads
  | Message string bool string
  | WindowLoads nat string
  | WindowFails nat string
  | WindowExits nat
  | LinkOpens nat string
  | TimePasses int

definition run_event :: "event \<Rightarrow> world \<Rightarrow> world" where
  "run_event e w =
     (case e of
        Response i r \<Rightarrow>
          (case map_of (w_xhrs w) i of None \<Rightarrow> w | Some x \<Rightarrow> snd (xhr_done (x_handler x) r (take_xhr i w)))
      | TimerFires i \<Rightarrow>
          (case map_of (w_timers w) i of None \<Rightarrow> w | Some t \<Rightarrow> timer_done (t_kind t) (clearTimeout i w))
      | IframeLoads \<Rightarrow> (case li_iframe (w_iframe w) of None \<Rightarrow> w | Some p \<Rightarrow> snd (iframe_loaded p w))
      | Message origin from data \<Rightarrow>
          (if li_iframe (w_iframe w) = None then w else snd (messageCallback origin from data w))
      | WindowLoads i url \<Rightarrow> if i < length (w_windows w) then snd (win_loadstart i url w) else w
      | WindowFails i url \<Rightarrow> if i < length (w_windows w) then snd (win_loaderror i url w) else w
      | WindowExits i \<Rightarrow> if i < length (w_windows w) then snd (win_exit i w) else w
      | LinkOpens i url \<Rightarrow> if i < length (w_links w) then snd (link_event (w_links w ! i) url w) else w
      | TimePasses t \<Rightarrow> if e_now (w_env w) \<le> t then w\<lparr>w_env := (w_env w)\<lparr>e_now := t\<rparr>\<rparr> else w)"

inductive step :: "world \<Rightarrow> world \<Rightarrow> bool" where
  Call: "step w (run_call c w)"
| Job: "w_jobs w = (c, v) # js \<Longrightarrow> step w (snd (run_cont c v (w\<lparr>w_jobs := js\<rparr>)))"
| Event: "w_jobs w = [] \<Longrightarrow> step w (run_event e w)"

inductive reachable :: "config \<Rightarrow> handler list \<Rightarrow> store \<Rightarrow> env \<Rightarrow> world \<Rightarrow> bool" for c hs st e where
  start: "reachable c hs st e (new_Keycloak c hs st e)"
| step: "reachable c hs st e w \<Longrightarrow> step w w' \<Longrightarrow> reachable c hs st e w'"

end
