(* ===== verification/Invariants.thy ===== *)
theory Invariants
  imports Runtime
begin

section \<open>Invariants of the event loop\<close>

text \<open>
  The part of the state that the session invariants read is \<open>core\<close>: the authentication
  flag, the access token and its content, the refresh requests in flight and the queue of
  callers waiting for one. Most operations leave the core as it is (the lemmas
  \<open>core_...\<close>). The locale \<open>session_step\<close> takes a predicate that is kept by the
  few operations that do change it and shows that then every step of the event loop keeps it;
  \<open>session_invariant\<close> adds that the predicate holds at the start, and so in every reachable state.
\<close>

named_theorems core_simps \<comment> \<open>operations that leave the core as it is\<close>

fun is_refresh :: "xhr_handler \<Rightarrow> bool" where
  "is_refresh (OnRefresh _) = True"
| "is_refresh _ = False"

definition refreshes :: "world \<Rightarrow> (nat \<times> xhr) list" where
  "refreshes w = filter (\<lambda>(_, x). is_refresh (x_handler x)) (w_xhrs w)"

record core_state =
  c_authenticated :: bool
  c_token :: "string option"
  c_parsed :: "json option"
  c_refreshes :: "(nat \<times> xhr) list"
  c_queue :: "pid list"

definition core :: "world \<Rightarrow> core_state" where
  "core w = \<lparr>c_authenticated = kc_authenticated (w_kc w), c_token = kc_token (w_kc w),
     c_parsed = kc_tokenParsed (w_kc w), c_refreshes = refreshes w, c_queue = w_refreshQueue w\<rparr>"

lemmas core_defs = core_def refreshes_def

subsection \<open>Composition\<close>

lemma keeps_bind:
  assumes "I (snd (m w))" and "\<And>x w'. m w = (Ok x, w') \<Longrightarrow> I w' \<Longrightarrow> I (snd (f x w'))"
  shows "I (snd (comp_bind m f w))"
  using assms by (cases "m w") (auto simp: comp_bind_def split: res.split)

lemma core_bind:
  assumes "core (snd (m w)) = core w" and "\<And>x w'. core (snd (f x w')) = core w'"
  shows "core (snd (comp_bind m f w)) = core w"
  by (rule keeps_bind [where I = "\<lambda>w'. core w' = core w"]) (simp_all add: assms)

lemma snd_comp [simp]:
  "snd (comp_ret x w) = w" "snd (comp_lift g w) = w" "snd (comp_do h w) = h w"
  by (simp_all add: comp_ret_def comp_lift_def comp_do_def)

lemma snd_bind_ret [simp]: "snd (comp_bind m (\<lambda>x. comp_ret (f x)) w) = snd (m w)"
  by (simp add: comp_bind_def comp_ret_def split: prod.split res.split)

subsection \<open>Operations that leave the core as it is\<close>

lemma core_fields [core_simps]:
  "core (w\<lparr>w_log := a1\<rparr>) = core w" "core (w\<lparr>w_promises := a2\<rparr>) = core w" "core (w\<lparr>w_jobs := a3\<rparr>) = core w"
  "core (w\<lparr>w_timers := a4\<rparr>) = core w" "core (w\<lparr>w_windows := a5\<rparr>) = core w" "core (w\<lparr>w_links := a6\<rparr>) = core w"
  "core (w\<lparr>w_next := a7\<rparr>) = core w" "core (w\<lparr>w_drawn := a8\<rparr>) = core w" "core (w\<lparr>w_env := a9\<rparr>) = core w"
  "core (w\<lparr>w_store := b1\<rparr>) = core w" "core (w\<lparr>w_backend := b2\<rparr>) = core w" "core (w\<lparr>w_adapter := b3\<rparr>) = core w"
  "core (w\<lparr>w_config := b4\<rparr>) = core w" "core (w\<lparr>w_useNonce := b5\<rparr>) = core w" "core (w\<lparr>w_iframe := b6\<rparr>) = core w"
  by (simp_all add: core_defs)

lemma core_upd_kc:
  "(\<And>k. kc_authenticated (f k) = kc_authenticated k \<and> kc_token (f k) = kc_token k \<and>
     kc_tokenParsed (f k) = kc_tokenParsed k) \<Longrightarrow> core (upd_kc f w) = core w"
  by (simp add: core_defs upd_kc_def)

lemma core_ops [core_simps]:
  "core (upd_iframe f w) = core w" "core (emit e w) = core w" "core (call h v w) = core w"
  "core (snd (new_promise w)) = core w" "core (snd (setTimeout k d w)) = core w" "core (clearTimeout i w) = core w"
  "core (open_window x w) = core w" "core (snd (draw_uuid w)) = core w"
  by (simp_all add: world_ops core_simps)

lemma core_promise [core_simps]:
  "core (setSuccess p v w) = core w" "core (setError p v w) = core w" "core (attach p c1 c2 w) = core w"
  by (simp_all add: promise_ops core_simps split: prod.split)

lemma core_send [core_simps]: "\<not> is_refresh (x_handler x) \<Longrightarrow> core (send x w) = core w"
  by (simp add: send_def core_defs)

lemma core_settle_opt [core_simps]:
  "core (settle_opt setSuccess p v w) = core w" "core (settle_opt setError p v w) = core w"
  by (simp_all add: settle_opt_def core_simps split: option.split)

lemma core_alloc [core_simps]: "core (snd (alloc w)) = core w"
  by (simp add: alloc_def new_promise_def core_simps)

lemma core_createLoginUrl [core_simps]: "core (snd (createLoginUrl opts w)) = core w"
proof -
  obtain r w' where e: "createLoginUrl opts w = (r, w')" by fastforce
  then show ?thesis using createLoginUrl_frame [OF e] by (auto simp: core_simps)
qed

lemma core_createRegisterUrl [core_simps]: "core (snd (createRegisterUrl opts w)) = core w"
  by (simp add: createRegisterUrl_def core_simps)

lemma core_openWindow [core_simps]: "core (cordovaOpenWindow k u s w) = core w"
  by (simp add: cordovaOpenWindow_def core_simps)

lemma core_custom_call [core_simps]: "core (snd (custom_call n w)) = core w"
  unfolding custom_call_def by (intro core_bind) (simp_all add: core_simps)

lemma core_login [core_simps]: "core (snd (kc_login opts w)) = core w"
proof -
  have "core (snd (default_login opts w)) = core w"
    unfolding default_login_def by (intro core_bind) (simp_all add: core_simps)
  moreover have "core (snd (cordova_login opts w)) = core w"
    unfolding cordova_login_def by (intro core_bind) (simp_all add: core_simps)
  moreover have "core (snd (native_login opts w)) = core w"
    unfolding native_login_def by (intro core_bind) (simp_all add: core_simps)
  ultimately show ?thesis by (simp add: kc_login_def core_simps split: option.split adapter.split)
qed

lemma core_logout [core_simps]: "core (snd (kc_logout opts w)) = core w"
proof -
  have "core (snd (default_logout opts w)) = core w"
    unfolding default_logout_def by (intro core_bind) (simp_all add: core_simps)
  moreover have "core (snd (cordova_logout opts w)) = core w"
    unfolding cordova_logout_def by (intro core_bind) (simp_all add: core_simps)
  moreover have "core (snd (native_logout opts w)) = core w"
    unfolding native_logout_def by (intro core_bind) (simp_all add: core_simps)
  ultimately show ?thesis by (simp add: kc_logout_def core_simps split: option.split adapter.split)
qed

lemma core_register [core_simps]: "core (snd (kc_register opts w)) = core w"
proof -
  have "core (snd (default_register opts w)) = core w"
    unfolding default_register_def by (intro core_bind) (simp_all add: core_simps)
  moreover have "core (snd (cordova_register w)) = core w"
    unfolding cordova_register_def by (intro core_bind) (simp_all add: core_simps)
  moreover have "core (snd (native_register opts w)) = core w"
    unfolding native_register_def by (intro core_bind) (simp_all add: core_simps)
  ultimately show ?thesis by (simp add: kc_register_def core_simps split: option.split adapter.split)
qed

lemma core_account [core_simps]: "core (snd (kc_accountManagement w)) = core w"
proof -
  have o: "core (snd (open_account act w)) = core w" if "\<And>u w. core (snd (act u w)) = core w" for act w
    unfolding open_account_def by (intro core_bind) (auto simp: that split: option.split)
  have "core (snd (default_account w)) = core w"
    unfolding default_account_def by (intro o core_bind) (simp_all add: core_simps)
  moreover have "core (snd (cordova_account w)) = core w"
    unfolding cordova_account_def by (intro o core_bind) (simp_all add: core_simps)
  moreover have "core (snd (native_account w)) = core w"
    unfolding native_account_def by (intro o core_bind) (simp_all add: core_simps)
  moreover have "core (snd (comp_bind (custom_call n) (\<lambda>p. comp_ret (Some p)) w)) = core w" for n
    by (intro core_bind) (simp_all add: core_simps)
  ultimately show ?thesis by (simp add: kc_accountManagement_def split: option.split adapter.split)
qed

lemma core_get_json [core_simps]: "x_handler (get_json u hs h) = h" "x_handler (post_form u hs b h) = h"
  by (simp_all add: get_json_def post_form_def)

lemma core_loadUser [core_simps]:
  "core (snd (loadUserProfile w)) = core w" "core (snd (loadUserInfo w)) = core w"
  unfolding loadUserProfile_def loadUserInfo_def by (intro core_bind; simp add: core_simps)+

lemma core_user_response [core_simps]:
  "core (snd (profile_response p r w)) = core w" "core (snd (userinfo_response p r w)) = core w"
  unfolding profile_response_def userinfo_response_def
  by (auto intro!: core_bind simp: core_simps core_upd_kc)

lemma core_exchange_code [core_simps]: "core (snd (exchange_code oa p t c w)) = core w"
  unfolding exchange_code_def
  by (intro core_bind) (auto simp: core_simps intro!: core_bind)

lemma core_setupCheckLoginIframe [core_simps]: "core (snd (setupCheckLoginIframe w)) = core w"
  unfolding setupCheckLoginIframe_def
  by (rule core_bind) (auto simp: core_simps intro!: core_bind)

lemma core_schedule_check [core_simps]: "core (schedule_check w) = core w"
  by (simp add: schedule_check_def core_simps)

lemma core_iframe_loaded [core_simps]: "core (snd (iframe_loaded p w)) = core w"
  unfolding iframe_loaded_def by (rule core_bind) (auto simp: core_simps split: option.split)

lemma core_checkLoginIframe [core_simps]: "core (snd (checkLoginIframe w)) = core w"
  by (simp add: checkLoginIframe_def new_promise_def Let_def core_simps)

lemma core_checked: "checkLoginIframe w = (q, w') \<Longrightarrow> core w' = core w"
  using core_checkLoginIframe [of w] by simp

lemma core_check [core_simps]: "core (check w) = core w"
  by (simp add: check_def Let_def core_simps)

lemma core_settle_rev: "(\<And>p w. core (f p w) = core w) \<Longrightarrow> core (settle_rev f ps w) = core w"
proof -
  assume f: "\<And>p w. core (f p w) = core w"
  have "core (foldl (\<lambda>w p. f p w) w qs) = core w" for qs by (induction qs arbitrary: w) (simp_all add: f)
  then show ?thesis by (simp add: settle_rev_def)
qed

lemma core_loadConfig [core_simps]: "core (snd (loadConfig w)) = core w"
proof -
  have r: "core (snd (realm_config c p w)) = core w" for c p w
    by (auto simp: realm_config_def Let_def core_simps setupOidcEndoints_def intro!: core_upd_kc)
       (simp_all add: core_defs upd_kc_def)
  have o: "core (snd (object_config c p w)) = core w" for c p w
    unfolding object_config_def
    by (auto intro!: core_bind simp: core_simps core_upd_kc r setupOidcEndoints_def
        split: option.split oidc_provider.split)
  show ?thesis
    unfolding loadConfig_def
    by (rule core_bind) (auto intro!: core_bind simp: core_simps o split: option.split config.split)
qed

lemma core_config_response [core_simps]:
  "core (snd (config_response p r w)) = core w" "core (snd (oidc_response p r w)) = core w"
  unfolding config_response_def oidc_response_def
  by (auto intro!: core_bind simp: core_simps core_upd_kc setupOidcEndoints_def file_fields_def)

lemma core_store_get [core_simps]: "core (snd (store_get s w)) = core w"
  by (auto simp: store_get_def core_simps split: option.split prod.split)

lemma core_parseCallback [core_simps]: "core (snd (parseCallback url w)) = core w"
  unfolding parseCallback_def by (rule core_bind) (auto intro!: core_bind simp: core_simps split: option.split)

lemma core_doLogin [core_simps]: "core (snd (doLogin b p w)) = core w"
  unfolding doLogin_def by (rule core_bind) (simp_all add: core_simps)

lemma core_onLoad [core_simps]: "core (snd (onLoad io p w)) = core w"
  by (auto simp: onLoad_def core_simps intro!: core_bind)

lemma core_choose_adapter [core_simps]: "core (snd (choose_adapter io w)) = core w"
proof -
  have l: "core (snd (loadAdapter t w)) = core w" for t w by (simp add: loadAdapter_def core_simps)
  show ?thesis
    by (auto simp: choose_adapter_def core_simps l intro!: core_bind split: option.split adapter_option.split)
qed

lemma core_apply_options [core_simps]: "core (snd (apply_options io w)) = core w"
proof -
  have i: "core (apply_iframe_options o1 w) = core w" for o1 w
    by (auto simp: apply_iframe_options_def Let_def core_simps core_upd_kc split: option.split)
  have m: "core (snd (apply_mode o1 w)) = core w" "core (snd (apply_flow o1 w)) = core w" for o1 w
    by (auto simp: apply_mode_def apply_flow_def core_upd_kc split: option.split)
  have r: "core (upd_kc (apply_rest o1) w) = core w" for o1 w
    by (rule core_upd_kc) (simp add: apply_rest_def Let_def split: option.split)
  show ?thesis
    by (auto simp: apply_options_def i m r intro!: core_bind split: option.split)
qed

lemma core_default_mode [core_simps]: "core (upd_kc default_mode w) = core w"
  by (rule core_upd_kc) (simp add: default_mode_def Let_def)

lemma core_create_storage [core_simps]: "core (create_storage w) = core w"
  by (simp add: create_storage_def core_simps split: prod.split)

lemma core_replace_state [core_simps]: "core (replace_state u w) = core w"
  by (simp add: replace_state_def core_simps)

lemma core_windows [core_simps]:
  "core (upd_win i f w) = core w" "core (close_ref i w) = core w" "core (closeBrowser i w) = core w"
  by (simp_all add: upd_win_def close_ref_def closeBrowser_def core_simps)

lemma core_timer_done [core_simps]: "core (timer_done k w) = core w"
  by (cases k) (simp_all add: core_simps)

subsection \<open>Invariants of the core\<close>

text \<open>
  What an invariant has to be stable under: \<open>setToken\<close> with any arguments and whether or not
  it throws, clearing the authentication flag, joining the refresh queue, dropping a request, and the
  answer to a refresh.
\<close>

locale session_step =
  fixes J :: "core_state \<Rightarrow> bool"
  assumes setToken_ok: "J (core w) \<Longrightarrow> J (core (snd (setToken t r i l w)))"
    and flag_ok: "J (core w) \<Longrightarrow> J (core (upd_kc (\<lambda>k. k\<lparr>kc_authenticated := False\<rparr>) w))"
    and push_ok: "J (core w) \<Longrightarrow> J (core (snd (push_refresh url p w)))"
    and take_ok: "J (core w) \<Longrightarrow> J (core (take_xhr j w))"
    and answer_ok: "J (core w) \<Longrightarrow> map_of (w_xhrs w) j = Some x \<Longrightarrow> x_handler x = OnRefresh lt \<Longrightarrow>
      J (core (snd (refresh_response lt a (take_xhr j w))))"
begin

lemmas bind_ok = keeps_bind [where I = "\<lambda>w. J (core w)"]

lemma clearToken_ok: "J (core w) \<Longrightarrow> J (core (snd (clearToken w)))"
  unfolding clearToken_def
  by (auto intro!: bind_ok setToken_ok simp: core_simps)

lemma authSuccess_ok: "J (core w) \<Longrightarrow> J (core (snd (authSuccess oa p t a r i b w)))"
  unfolding authSuccess_def Let_def
  by (auto intro!: bind_ok setToken_ok clearToken_ok simp: core_simps)

lemma processCallback_ok: "J (core w) \<Longrightarrow> J (core (snd (processCallback oa p w)))"
  unfolding processCallback_def Let_def
  by (auto intro!: bind_ok authSuccess_ok simp: core_simps split: option.split)

lemma code_response_ok: "J (core w) \<Longrightarrow> J (core (snd (code_response oa p t r w)))"
  unfolding code_response_def
  by (auto intro!: bind_ok authSuccess_ok simp: core_simps)

lemma messageCallback_ok: "J (core w) \<Longrightarrow> J (core (snd (messageCallback u b d w)))"
  unfolding messageCallback_def Let_def
  by (auto intro!: bind_ok clearToken_ok
      simp: core_simps core_settle_rev)

lemma update_exec_ok: "J (core w) \<Longrightarrow> J (core (snd (update_exec m p w)))"
  unfolding update_exec_def
  by (auto intro!: bind_ok push_ok simp: core_simps)

lemma updateToken_ok: "J (core w) \<Longrightarrow> J (core (snd (updateToken m w)))"
  unfolding updateToken_def Let_def
  by (auto intro!: bind_ok update_exec_ok simp: core_simps core_checked split: prod.split)

lemma init_tokens_ok: "J (core w) \<Longrightarrow> J (core (snd (init_tokens io p w)))"
  unfolding init_tokens_def
  by (auto intro!: bind_ok setToken_ok updateToken_ok simp: core_simps)

lemma processInit_ok: "J (core w) \<Longrightarrow> J (core (snd (processInit opts p w)))"
proof -
  have s: "J (core (snd (start_session opts p w)))" if "J (core w)" for w
    using that unfolding start_session_def
    by (auto intro!: init_tokens_ok simp: core_simps split: option.split)
  show "J (core w) \<Longrightarrow> J (core (snd (processInit opts p w)))"
    unfolding processInit_def
    by (auto intro!: bind_ok s simp: core_simps split: option.split)
qed

lemma run_cont_ok: "J (core w) \<Longrightarrow> J (core (snd (run_cont c v w)))"
proof (cases c)
  case (TokenChanged p)
  then show "J (core w) \<Longrightarrow> J (core (snd (run_cont c v w)))"
    by (auto intro!: bind_ok setToken_ok simp: core_simps)
next
  case (TokenUpdateFailed io p)
  then show "J (core w) \<Longrightarrow> J (core (snd (run_cont c v w)))"
    by (auto intro!: bind_ok simp: core_simps)
qed (auto intro!: processInit_ok processCallback_ok update_exec_ok
      simp: core_simps core_checked Let_def split: prod.split)

lemma finish_login_ok: "J (core w) \<Longrightarrow> J (core (snd (finish_login i p url w)))"
  unfolding finish_login_def
  by (auto intro!: bind_ok processCallback_ok simp: core_simps)

lemma window_ok:
  "J (core w) \<Longrightarrow> J (core (snd (win_loadstart i url w)))" "J (core w) \<Longrightarrow> J (core (snd (win_loaderror i url w)))"
  "J (core w) \<Longrightarrow> J (core (snd (win_exit i w)))"
  unfolding win_loadstart_def win_loaderror_def win_exit_def
  by (auto intro!: bind_ok finish_login_ok clearToken_ok simp: core_simps
      split: window_kind.split)

lemma link_event_ok: "J (core w) \<Longrightarrow> J (core (snd (link_event l url w)))"
  by (cases l) (auto intro!: bind_ok processCallback_ok clearToken_ok simp: core_simps)

lemma init_ok: "J (core w) \<Longrightarrow> J (core (snd (kc_init io w)))"
  unfolding kc_init_def
  by (auto intro!: bind_ok flag_ok simp: core_simps)

lemma response_ok:
  assumes "J (core w)" and "map_of (w_xhrs w) j = Some x"
  shows "J (core (snd (xhr_done (x_handler x) r (take_xhr j w))))"
  using assms take_ok [OF assms(1), of j]
  by (cases "x_handler x") (auto intro!: answer_ok code_response_ok simp: core_simps)

lemma run_call_ok: "J (core w) \<Longrightarrow> J (core (run_call c w))"
  by (cases c) (auto intro!: init_ok updateToken_ok clearToken_ok simp: core_simps)

lemma run_event_ok: "J (core w) \<Longrightarrow> J (core (run_event e w))"
proof (cases e)
  case (Response i r)
  then show "J (core w) \<Longrightarrow> J (core (run_event e w))" by (auto simp: run_event_def response_ok split: option.split)
qed (auto simp: run_event_def core_simps intro!: messageCallback_ok window_ok link_event_ok split: option.split)

theorem step_ok: "step w w' \<Longrightarrow> J (core w) \<Longrightarrow> J (core w')"
proof (induction rule: step.induct)
  case (Call w c)
  then show ?case by (rule run_call_ok)
next
  case (Job w c v js)
  then show ?case by (intro run_cont_ok) (auto simp: core_simps)
next
  case (Event w e)
  then show ?case by (intro run_event_ok)
qed

theorem steps_ok: "step\<^sup>*\<^sup>* w w' \<Longrightarrow> J (core w) \<Longrightarrow> J (core w')"
  by (induction rule: rtranclp_induct) (auto intro: step_ok)

end

locale session_invariant = session_step +
  assumes start_ok: "J (core (new_Keycloak c hs st e))"
begin

theorem reachable_ok: "reachable c hs st e w \<Longrightarrow> J (core w)"
  by (induction rule: reachable.induct) (auto intro: start_ok step_ok)

end

subsection \<open>How setToken and its callers change the core\<close>

lemma core_clear_timeout [core_simps]: "core (clear_token_timeout w) = core w"
  by (auto simp: clear_token_timeout_def core_simps core_upd_kc split: option.split)

lemma core_set_other_tokens [core_simps]:
  "core (snd (set_refresh_token t w)) = core w" "core (snd (set_id_token t w)) = core w"
  unfolding set_refresh_token_def set_id_token_def
  by (auto intro!: core_bind simp: core_upd_kc)

lemma core_schedule_expiry [core_simps]: "core (schedule_expiry w) = core w"
  by (auto simp: schedule_expiry_def Let_def setTimeout_def core_simps core_upd_kc split: option.split)

lemma setToken_keeps:
  assumes "\<And>w. I (core w) \<Longrightarrow> I (core (snd (set_access_token t l w)))" and "I (core w)"
  shows "I (core (snd (setToken t r i l w)))"
  unfolding setToken_def
  by (intro keeps_bind [where I = "\<lambda>w. I (core w)"]) (simp_all add: core_simps assms)

lemma set_access_token_queue:
  "c_refreshes (core (snd (set_access_token t l w))) = c_refreshes (core w) \<and>
   c_queue (core (snd (set_access_token t l w))) = c_queue (core w)"
  (is "?I (snd (set_access_token t l w))")
proof -
  have "?I (upd_kc f w)" if "?I w" for f w
    using that by (simp add: core_defs upd_kc_def)
  then show ?thesis
    unfolding set_access_token_def by (auto intro!: keeps_bind [where I = ?I] simp: core_simps)
qed

lemma setToken_queue:
  "c_refreshes (core (snd (setToken t r i l w))) = c_refreshes (core w) \<and>
   c_queue (core (snd (setToken t r i l w))) = c_queue (core w)"
  by (rule setToken_keeps) (use set_access_token_queue in auto)

lemma clearToken_queue:
  "c_refreshes (core (snd (clearToken w))) = c_refreshes (core w) \<and> c_queue (core (snd (clearToken w))) = c_queue (core w)"
  (is "?I (snd (clearToken w))")
  unfolding clearToken_def
  by (auto intro!: keeps_bind [where I = ?I] simp: setToken_queue core_simps)

lemma refresh_response_refreshes:
  "c_refreshes (core (snd (refresh_response l r w))) = c_refreshes (core w)" (is "?I (snd (refresh_response l r w))")
proof -
  have d: "c_refreshes (core (drain_refresh (\<lambda>p. setSuccess p v) w)) = c_refreshes (core w)"
    "c_refreshes (core (drain_refresh (\<lambda>p. setError p v) w)) = c_refreshes (core w)" for v w
    by (simp_all add: drain_refresh_def core_settle_rev core_simps) (simp_all add: core_defs)
  show ?thesis
    unfolding refresh_response_def Let_def
    by (auto intro!: keeps_bind [where I = ?I] simp: setToken_queue clearToken_queue core_simps d)
qed

subsection \<open>One refresh at a time\<close>

definition single_flight :: "core_state \<Rightarrow> bool" where
  "single_flight c \<longleftrightarrow> length (c_refreshes c) \<le> 1 \<and> (c_refreshes c \<noteq> [] \<longrightarrow> c_queue c \<noteq> [])"

lemma refreshes_take_xhr: "refreshes (take_xhr j w) = filter (\<lambda>(i, _). i \<noteq> j) (refreshes w)"
  by (simp add: refreshes_def take_xhr_def conj_commute case_prod_beta)

lemma refreshes_take:
  assumes "length (refreshes w) \<le> 1" and "map_of (w_xhrs w) j = Some x" and "is_refresh (x_handler x)"
  shows "refreshes (take_xhr j w) = []"
proof -
  from assms(2,3) have m: "(j, x) \<in> set (refreshes w)" by (auto simp: refreshes_def dest: map_of_SomeD)
  with assms(1) have "refreshes w = [(j, x)]" by (cases "refreshes w") auto
  then show ?thesis by (simp add: refreshes_take_xhr)
qed

lemma push_refresh_core:
  "c_queue (core (snd (push_refresh url p w))) = w_refreshQueue w @ [p]"
  "length (refreshes (snd (push_refresh url p w))) \<le> length (refreshes w) + (if w_refreshQueue w = [] then 1 else 0)"
  by (auto simp: push_refresh_def refresh_request_def comp_defs send_def core_defs Let_def split: res.split)

interpretation refresh: session_invariant single_flight
proof (unfold_locales, goal_cases)
  case (1 w t r i l)
  then show ?case using setToken_queue [of t r i l w] by (simp add: single_flight_def)
next
  case (2 w)
  then show ?case by (simp add: single_flight_def core_defs upd_kc_def)
next
  case (3 w url p)
  then show ?case using push_refresh_core [of url p w] by (auto simp: single_flight_def core_def split: if_splits)
next
  case (4 w j)
  have "length (refreshes (take_xhr j w)) \<le> length (refreshes w)"
    by (simp add: refreshes_take_xhr)
  with 4 show ?case by (auto simp: single_flight_def core_def take_xhr_def)
next
  case (5 w j x lt a)
  then have "refreshes (take_xhr j w) = []"
    by (intro refreshes_take [of w j x]) (auto simp: single_flight_def core_def)
  then show ?case
    using refresh_response_refreshes [of lt a "take_xhr j w"] by (simp add: single_flight_def core_def)
next
  case (6 c hs st e)
  show ?case by (simp add: single_flight_def core_defs new_Keycloak_def)
qed

subsection \<open>Callers left behind\<close>

text \<open>A queue of callers without a request in flight: no step of the event loop sends a request or takes a caller out of
  the queue, because only a caller who finds the queue empty sends one and only an answer empties it.\<close>

definition stuck_queue :: "pid list \<Rightarrow> core_state \<Rightarrow> bool" where
  "stuck_queue q c \<longleftrightarrow> c_refreshes c = [] \<and> q \<noteq> [] \<and> take (length q) (c_queue c) = q"

interpretation stuck: session_step "stuck_queue q" for q
proof (unfold_locales, goal_cases)
  case (1 w t r i l)
  then show ?case using setToken_queue [of t r i l w] by (simp add: stuck_queue_def)
next
  case (2 w)
  then show ?case by (simp add: stuck_queue_def core_defs upd_kc_def)
next
  case (3 w url p)
  then have "w_refreshQueue w \<noteq> []" "length q \<le> length (w_refreshQueue w)"
    by (auto simp: stuck_queue_def core_def dest: arg_cong [of _ _ length])
  with 3 show ?case
    using push_refresh_core [of url p w] by (auto simp: stuck_queue_def core_def)
next
  case (4 w j)
  then show ?case by (simp add: stuck_queue_def core_def refreshes_take_xhr) (simp add: take_xhr_def)
next
  case (5 w j x lt a)
  then have "(j, x) \<in> set (refreshes w)" by (auto simp: refreshes_def dest: map_of_SomeD)
  with 5 show ?case by (simp add: stuck_queue_def core_def)
qed

text \<open>The handler of a refresh answer touches the queue last: when it raises, the queue is as it was.\<close>

lemma refresh_response_throws:
  assumes "refresh_response l r w = (Throw e, w')"
  shows "w_refreshQueue w' = w_refreshQueue w"
proof -
  have s: "w_refreshQueue w2 = w_refreshQueue w1" if "setToken t r' i l' w1 = (x, w2)" for t r' i l' w1 w2 x
    using setToken_queue [of t r' i l' w1] that by (simp add: core_def)
  have c: "w_refreshQueue w2 = w_refreshQueue w1" if "clearToken w1 = (x, w2)" for w1 w2 x
    using clearToken_queue [of w1] that by (simp add: core_def)
  show ?thesis
    using assms by (auto simp: refresh_response_def comp_defs Let_def split: res.splits prod.splits if_splits dest!: s c)
qed

subsection \<open>An authenticated session has a token\<close>

text \<open>The content in \<open>tokenParsed\<close> is always decoded from some token, and it is that of the token held whenever that one
  can be decoded at all.\<close>

definition session_token :: "core_state \<Rightarrow> bool" where
  "session_token c \<longleftrightarrow> (c_authenticated c \<longrightarrow> str_truthy (c_token c) \<and>
     (\<exists>t j. c_parsed c = Some j \<and> decodeToken t = Ok j \<and>
       (\<forall>j'. decodeToken (undef_str (c_token c)) = Ok j' \<longrightarrow> j' = j)))"

lemma set_access_token_session:
  assumes "session_token (core w)"
  shows "session_token (core (snd (set_access_token t l w)))"
proof (cases "str_truthy t")
  case False
  then show ?thesis by (simp add: set_access_token_def session_token_def core_def upd_kc_def)
next
  case t: True
  show ?thesis
  proof (cases "decodeToken (undef_str t)")
    case (Throw e)
    with t assms show ?thesis
      by (simp add: set_access_token_def comp_defs session_token_def core_def upd_kc_def) blast
  next
    case (Ok j)
    show ?thesis
    proof (cases "jprop (Some j) ''session_state''")
      case (Throw e)
      with t assms Ok show ?thesis
        by (auto simp: set_access_token_def comp_defs session_token_def core_def upd_kc_def)
    next
      case (Ok s)
      with t assms \<open>decodeToken (undef_str t) = Ok j\<close> show ?thesis
        by (simp add: set_access_token_def comp_defs core_simps)
          (auto simp: session_token_def core_def upd_kc_def take_claims_def estimate_skew_def split: option.split)
    qed
  qed
qed

lemma setToken_session: "session_token (core w) \<Longrightarrow> session_token (core (snd (setToken t r i l w)))"
  by (rule setToken_keeps [where I = session_token]) (rule set_access_token_session)

lemma clearToken_session: "session_token (core w) \<Longrightarrow> session_token (core (snd (clearToken w)))"
  unfolding clearToken_def
  by (auto intro!: keeps_bind [where I = "\<lambda>w. session_token (core w)"] setToken_session simp: core_simps)

lemma refresh_response_session:
  "session_token (core w) \<Longrightarrow> session_token (core (snd (refresh_response l r w)))"
proof -
  have "session_token (core (drain_refresh (\<lambda>p. setSuccess p v) w)) = session_token (core w)"
    "session_token (core (drain_refresh (\<lambda>p. setError p v) w)) = session_token (core w)" for v w
    by (simp_all add: drain_refresh_def core_settle_rev core_simps) (simp_all add: core_defs session_token_def)
  then show "session_token (core w) \<Longrightarrow> session_token (core (snd (refresh_response l r w)))"
    unfolding refresh_response_def Let_def
    by (auto intro!: keeps_bind [where I = "\<lambda>w. session_token (core w)"] setToken_session clearToken_session simp: core_simps)
qed

interpretation auth: session_invariant session_token
proof (unfold_locales, goal_cases)
  case (1 w t r i l)
  then show ?case by (rule setToken_session)
next
  case (2 w)
  show ?case by (simp add: session_token_def core_def upd_kc_def)
next
  case (3 w url p)
  then show ?case
    by (auto simp: push_refresh_def refresh_request_def comp_defs send_def session_token_def core_def Let_def split: res.split)
next
  case (4 w j)
  then show ?case by (simp add: session_token_def core_def take_xhr_def)
next
  case (5 w j x lt a)
  then have "session_token (core (take_xhr j w))" by (simp add: session_token_def core_def take_xhr_def)
  then show ?case by (rule refresh_response_session)
next
  case (6 c hs st e)
  show ?case by (simp add: session_token_def core_def new_Keycloak_def new_kc_def)
qed

end
