(* ===== verification/Refresh.thy ===== *)
theory Refresh
  imports Invariants
begin

section \<open>Shared requests: the refresh queue and the iframe's callback list\<close>

text \<open>
  \<open>refreshQueue\<close> and \<open>loginIframe.callbackList\<close> follow one pattern: a caller joins a list, the
  first one sends the request, the answer settles everybody and empties the list. The locale
  \<open>shared_request\<close> is that pattern; its client lemma counts the requests of any sequence of calls and
  answers. The rest of the theory says what an answer to a refresh does on each of its branches.
\<close>

subsection \<open>The pattern\<close>

datatype 'k shared_op = Ask 'k | Answer

fun rounds :: "bool \<Rightarrow> 'k shared_op list \<Rightarrow> nat" where
  "rounds busy [] = 0"
| "rounds busy (Ask _ # ops) = (if busy then 0 else 1) + rounds True ops"
| "rounds busy (Answer # ops) = rounds False ops"

fun is_answer :: "'k shared_op \<Rightarrow> bool" where
  "is_answer (Ask _) = False"
| "is_answer Answer = True"

fun run_shared :: "('k \<Rightarrow> 's \<Rightarrow> 's) \<Rightarrow> ('s \<Rightarrow> 's) \<Rightarrow> 'k shared_op list \<Rightarrow> 's \<Rightarrow> 's" where
  "run_shared ask answer [] s = s"
| "run_shared ask answer (Ask k # ops) s = run_shared ask answer ops (ask k s)"
| "run_shared ask answer (Answer # ops) s = run_shared ask answer ops (answer s)"

lemma rounds_bound: "rounds busy ops \<le> (if busy then 0 else 1) + length (filter is_answer ops)"
  by (induction busy ops rule: rounds.induct) auto

locale shared_request =
  fixes ask :: "'k \<Rightarrow> 's \<Rightarrow> 's"
    and answer :: "'s \<Rightarrow> 's"
    and pending :: "'s \<Rightarrow> nat"
    and sent :: "'s \<Rightarrow> nat"
    and ready :: "'s \<Rightarrow> bool"
  assumes ask_pending: "ready s \<Longrightarrow> pending (ask k s) = pending s + 1"
    and ask_sent: "ready s \<Longrightarrow> sent (ask k s) = sent s + (if pending s = 0 then 1 else 0)"
    and ask_ready: "ready s \<Longrightarrow> ready (ask k s)"
    and answer_pending: "ready s \<Longrightarrow> pending (answer s) = 0"
    and answer_sent: "ready s \<Longrightarrow> sent (answer s) = sent s"
    and answer_ready: "ready s \<Longrightarrow> ready (answer s)"
begin

lemma sent_rounds: "ready s \<Longrightarrow> sent (run_shared ask answer ops s) = sent s + rounds (pending s \<noteq> 0) ops"
proof (induction ops arbitrary: s)
  case Nil
  show ?case by simp
next
  case (Cons x ops)
  then show ?case
    by (cases x) (simp_all add: ask_pending ask_sent ask_ready answer_pending answer_sent answer_ready)
qed

lemma sent_bound:
  "ready s \<Longrightarrow> sent (run_shared ask answer ops s) \<le> sent s + 1 + length (filter is_answer ops)"
  using sent_rounds [of s ops] rounds_bound [of "pending s \<noteq> 0" ops] by (auto split: if_splits)

end

subsection \<open>Promises while they are settled\<close>

definition promise_status :: "pid \<Rightarrow> world \<Rightarrow> pval status" where
  "promise_status p w = n_status (w_promises w ! p)"

lemma status_settle:
  "promise_status q (setSuccess p v w) = (if q = p \<and> promise_pending p w then Fulfilled v else promise_status q w)"
  "promise_status q (setError p v w) = (if q = p \<and> promise_pending p w then Rejected v else promise_status q w)"
  by (auto simp: promise_pending_def promise_status_def promise_ops native_defs Let_def nth_list_update
      split: status.splits prod.splits)

lemma pending_settle:
  "promise_pending q (setSuccess p v w) \<longleftrightarrow> promise_pending q w \<and> q \<noteq> p"
  "promise_pending q (setError p v w) \<longleftrightarrow> promise_pending q w \<and> q \<noteq> p"
  by (auto simp: promise_pending_def promise_ops native_defs Let_def nth_list_update split: status.splits prod.splits)

text \<open>Settling a list of promises: every one of them that is pending gets the new status, the rest keep theirs.\<close>

lemma settle_list:
  assumes one: "\<And>p q w. promise_status q (f p w) = (if q = p \<and> promise_pending p w then s else promise_status q w)"
    and keep: "\<And>p q w. promise_pending q (f p w) \<longleftrightarrow> promise_pending q w \<and> q \<noteq> p"
  shows "promise_status q (foldl (\<lambda>w p. f p w) w ps) =
    (if q \<in> set ps \<and> promise_pending q w then s else promise_status q w)"
  by (induction ps arbitrary: w) (auto simp: one keep)

lemma settle_rev_status:
  "promise_status q (settle_rev (\<lambda>p. setSuccess p v) ps w) =
     (if q \<in> set ps \<and> promise_pending q w then Fulfilled v else promise_status q w)"
  "promise_status q (settle_rev (\<lambda>p. setError p v) ps w) =
     (if q \<in> set ps \<and> promise_pending q w then Rejected v else promise_status q w)"
  unfolding settle_rev_def
  using settle_list [where f = "\<lambda>p. setSuccess p v" and s = "Fulfilled v", OF status_settle(1) pending_settle(1)]
    settle_list [where f = "\<lambda>p. setError p v" and s = "Rejected v", OF status_settle(2) pending_settle(2)]
  by simp_all

text \<open>Settling touches the promise heap and the microtask queue only.\<close>

lemma settle_fields [simp]:
  "w_kc (setSuccess p v w) = w_kc w" "w_kc (setError p v w) = w_kc w"
  "w_log (setSuccess p v w) = w_log w" "w_log (setError p v w) = w_log w"
  "w_refreshQueue (setSuccess p v w) = w_refreshQueue w" "w_refreshQueue (setError p v w) = w_refreshQueue w"
  "w_iframe (setSuccess p v w) = w_iframe w" "w_iframe (setError p v w) = w_iframe w"
  "w_xhrs (setSuccess p v w) = w_xhrs w" "w_xhrs (setError p v w) = w_xhrs w"
  by (simp_all add: promise_ops split: prod.split)

lemma settle_rev_keeps:
  assumes "\<And>p w. g (f p w) = g w"
  shows "g (settle_rev f ps w) = g w"
proof -
  have "g (foldl (\<lambda>w p. f p w) w qs) = g w" for qs by (induction qs arbitrary: w) (simp_all add: assms)
  then show ?thesis by (simp add: settle_rev_def)
qed

lemmas settle_rev_fields = settle_rev_keeps [where g = w_kc] settle_rev_keeps [where g = w_log]
  settle_rev_keeps [where g = w_refreshQueue] settle_rev_keeps [where g = w_iframe] settle_rev_keeps [where g = w_xhrs]

subsection \<open>Both lists follow the pattern\<close>

definition ask_refresh :: "string \<times> pid \<Rightarrow> world \<Rightarrow> world" where
  "ask_refresh k w = snd (push_refresh (fst k) (snd k) w)"

interpretation refresh_queue: shared_request
  ask_refresh "drain_refresh (\<lambda>p. setSuccess p v)"
  "\<lambda>w. length (w_refreshQueue w)" "\<lambda>w. length (refreshes w)" "\<lambda>w. \<exists>x. client_auth (w_kc w) = Ok x" for v
  by unfold_locales
    (auto simp: ask_refresh_def push_refresh_def refresh_request_def comp_defs send_def refreshes_def drain_refresh_def Let_def
      settle_rev_fields post_form_def)

definition posts :: "world \<Rightarrow> nat" where
  "posts w = length (filter (\<lambda>e. case e of PostMessage _ _ \<Rightarrow> True | _ \<Rightarrow> False) (w_log w))"

definition iframe_ready :: "string \<Rightarrow> world \<Rightarrow> bool" where
  "iframe_ready u w \<longleftrightarrow> li_iframe (w_iframe w) \<noteq> None \<and> li_iframeOrigin (w_iframe w) = Some u \<and> u \<noteq> []"

definition ask_iframe :: "unit \<Rightarrow> world \<Rightarrow> world" where
  "ask_iframe k w = snd (checkLoginIframe w)"

definition iframe_answers :: "string \<Rightarrow> world \<Rightarrow> world" where
  "iframe_answers u w = snd (messageCallback u True ''unchanged'' w)"

interpretation iframe_list: shared_request
  ask_iframe "iframe_answers u"
  "\<lambda>w. length (li_callbackList (w_iframe w))" posts "iframe_ready u" for u
  by unfold_locales
    (auto simp: ask_iframe_def iframe_answers_def checkLoginIframe_def new_promise_def upd_iframe_def emit_def messageCallback_def comp_defs iframe_ready_def
      posts_def str_truthy_def Let_def settle_rev_fields)

subsection \<open>What setToken and clearToken leave alone\<close>

lemma setToken_field:
  assumes "\<And>f w. g (upd_kc f w) = g w" and "\<And>e w. g (emit e w) = g w"
    and "\<And>k d w. g (snd (setTimeout k d w)) = g w" and "\<And>h w. g (clearTimeout h w) = g w"
  shows "g (snd (setToken t r i l w)) = g w" (is "?I (snd (setToken t r i l w))")
proof -
  note bind = keeps_bind [where I = "\<lambda>w'. g w' = g w" for w]
  have c: "g (clear_token_timeout w) = g w" for w
    by (simp add: clear_token_timeout_def assms split: option.split)
  have s: "g (schedule_expiry w) = g w" for w
    using assms(3) by (auto simp: schedule_expiry_def call_def assms(1,2) Let_def split: option.split prod.split)
      (metis snd_conv)
  have a: "g (snd (set_access_token t l w)) = g w" for w
    unfolding set_access_token_def by (auto intro!: bind simp: assms(1) s)
  have o: "g (snd (set_refresh_token r w)) = g w" "g (snd (set_id_token i w)) = g w" for w
    unfolding set_refresh_token_def set_id_token_def by (auto intro!: bind simp: assms(1))
  show ?thesis
    unfolding setToken_def by (intro bind) (simp_all add: a o c)
qed

lemma setToken_fields:
  "w_promises (snd (setToken t r i l w)) = w_promises w" "w_jobs (snd (setToken t r i l w)) = w_jobs w"
  "w_refreshQueue (snd (setToken t r i l w)) = w_refreshQueue w" "w_xhrs (snd (setToken t r i l w)) = w_xhrs w"
  "w_iframe (snd (setToken t r i l w)) = w_iframe w" "w_useNonce (snd (setToken t r i l w)) = w_useNonce w"
  "w_handlers (snd (setToken t r i l w)) = w_handlers w" "w_store (snd (setToken t r i l w)) = w_store w"
  by (rule setToken_field; simp add: world_ops)+

lemma setToken_None: "setToken None None None None w = (Ok (), upd_kc cleared (clear_token_timeout w))"
proof -
  have [simp]: "\<not> str_truthy None" by (simp add: str_truthy_def)
  have "upd_kc f (upd_kc h w') = upd_kc (f \<circ> h) w'" for f h w' by (simp add: upd_kc_def)
  then show ?thesis
    by (simp add: setToken_def set_refresh_token_def set_id_token_def set_access_token_def comp_defs comp_def)
      (simp add: upd_kc_def cleared_def)
qed

definition signed_out :: "world \<Rightarrow> world" where
  "signed_out w = call OnAuthLogout VUndef (upd_kc cleared (clear_token_timeout w))"

lemma clearToken_cases:
  "\<not> str_truthy (kc_token (w_kc w)) \<Longrightarrow> clearToken w = (Ok (), w)"
  "str_truthy (kc_token (w_kc w)) \<Longrightarrow> \<not> kc_loginRequired (w_kc w) \<Longrightarrow> clearToken w = (Ok (), signed_out w)"
  by (auto simp: clearToken_def setToken_None comp_defs signed_out_def call_def emit_def upd_kc_def cleared_def
      clear_token_timeout_def clearTimeout_def split: option.split)

lemma signed_out_fields [simp]:
  "w_promises (signed_out w) = w_promises w" "w_jobs (signed_out w) = w_jobs w"
  "w_refreshQueue (signed_out w) = w_refreshQueue w" "w_xhrs (signed_out w) = w_xhrs w" "w_iframe (signed_out w) = w_iframe w"
  by (simp_all add: signed_out_def world_ops clear_token_timeout_def split: option.split)

lemma signed_out_kc:
  "kc_authenticated (w_kc (signed_out w)) = False" "kc_token (w_kc (signed_out w)) = None"
  "kc_tokenParsed (w_kc (signed_out w)) = None" "kc_refreshToken (w_kc (signed_out w)) = None"
  "kc_idToken (w_kc (signed_out w)) = None"
  by (simp_all add: signed_out_def world_ops cleared_def clear_token_timeout_def split: option.split)

text \<open>Where a login is required, \<open>clearToken\<close> goes on to start one. That raises only before \<open>init\<close> has chosen the
  adapter and the storage and loaded the configuration.\<close>

definition initialised :: "world \<Rightarrow> bool" where
  "initialised w \<longleftrightarrow> w_adapter w \<noteq> None \<and> w_backend w \<noteq> None \<and> kc_endpoints (w_kc w) \<noteq> None"

lemma initialised_login:
  assumes "initialised w"
  shows "\<exists>p w'. kc_login None w = (Ok p, w')"
proof -
  obtain a b e where w: "w_adapter w = Some a" "w_backend w = Some b" "kc_endpoints (w_kc w) = Some e"
    using assms by (auto simp: initialised_def)
  obtain u where u: "ep_authorize (w_kc w) = Ok u" using w(3) by (cases e) (simp_all add: ep_authorize_def realm_endpoint_def)
  have url: "\<exists>u w1. createLoginUrl None (w\<lparr>w_promises := ps\<rparr>) = (Ok u, w1)" for ps
    using w(1,2) u by (cases a) (simp_all add: createLoginUrl_def draw_uuid_def adapter_redirectUri_def store_add_def
      login_base_def option_field_def comp_defs)
  show ?thesis
    using w(1) url [of "w_promises w"] url [of "w_promises w @ [createNativePromise]"]
    by (cases a) (auto simp: kc_login_def default_login_def cordova_login_def native_login_def custom_call_def alloc_def
      new_promise_def comp_defs emit_def)
qed

text \<open>What a login leaves alone: it makes one promise and opens one page.\<close>

fun is_callback :: "effect \<Rightarrow> bool" where
  "is_callback (Call _ _) = True"
| "is_callback _ = False"

definition callbacks :: "world \<Rightarrow> effect list" where
  "callbacks w = filter is_callback (w_log w)"

definition login_frame :: "world \<Rightarrow> world \<Rightarrow> bool" where
  "login_frame w w' \<longleftrightarrow> w_kc w' = w_kc w \<and> w_refreshQueue w' = w_refreshQueue w \<and> w_xhrs w' = w_xhrs w \<and>
     w_iframe w' = w_iframe w \<and> w_useNonce w' = w_useNonce w \<and> w_jobs w' = w_jobs w \<and>
     callbacks w' = callbacks w \<and> w_promises w' = w_promises w @ [createNativePromise]"

lemma kc_login_frame:
  assumes "kc_login opts w = (Ok p, w')"
  shows "login_frame w w'"
proof -
  have c: "w_kc w2 = w_kc w1 \<and> w_refreshQueue w2 = w_refreshQueue w1 \<and> w_xhrs w2 = w_xhrs w1 \<and> w_iframe w2 = w_iframe w1 \<and>
    w_useNonce w2 = w_useNonce w1 \<and> w_jobs w2 = w_jobs w1 \<and> w_log w2 = w_log w1 \<and> w_promises w2 = w_promises w1"
    if "createLoginUrl opts w1 = (r, w2)" for w1 w2 r
    using createLoginUrl_keeps [OF that] by simp_all
  show ?thesis
    using assms
    by (auto simp: login_frame_def callbacks_def kc_login_def default_login_def cordova_login_def native_login_def custom_call_def
      alloc_def cordovaOpenWindow_def comp_defs world_ops split: option.splits adapter.splits res.splits prod.splits dest!: c)
qed

lemma clearToken_required:
  "str_truthy (kc_token (w_kc w)) \<Longrightarrow> kc_loginRequired (w_kc w) \<Longrightarrow>
     clearToken w = comp_bind (kc_login None) (\<lambda>_. comp_ret ()) (signed_out w)"
  by (auto simp: clearToken_def setToken_None comp_defs signed_out_def call_def emit_def upd_kc_def cleared_def
      clear_token_timeout_def clearTimeout_def split: option.split)

lemma call_fields [simp]:
  "w_promises (call h v w) = w_promises w" "w_kc (call h v w) = w_kc w" "w_refreshQueue (call h v w) = w_refreshQueue w"
  "w_xhrs (call h v w) = w_xhrs w" "w_jobs (call h v w) = w_jobs w" "w_iframe (call h v w) = w_iframe w"
  by (simp_all add: call_def emit_def)

lemma promise_same:
  "w_promises w' = w_promises w \<Longrightarrow> promise_status p w' = promise_status p w"
  "w_promises w' = w_promises w \<Longrightarrow> promise_pending p w' = promise_pending p w"
  by (simp_all add: promise_status_def promise_pending_def)

lemma promise_appended:
  assumes "w_promises w' = w_promises w @ qs" and "p < length (w_promises w)"
  shows "promise_status p w' = promise_status p w" "promise_pending p w' = promise_pending p w"
  using assms by (simp_all add: promise_status_def promise_pending_def nth_append)

text \<open>All of \<open>clearToken\<close>: it returns, forgets the session, and whatever login it starts touches neither the queues nor
  the promises there were.\<close>

lemma clearToken_returns:
  assumes "kc_loginRequired (w_kc w) \<Longrightarrow> initialised w"
  shows "\<exists>w' qs. clearToken w = (Ok (), w') \<and> w_promises w' = w_promises w @ qs \<and>
    w_kc w' = (if str_truthy (kc_token (w_kc w)) then w_kc (signed_out w) else w_kc w) \<and>
    w_refreshQueue w' = w_refreshQueue w \<and> w_xhrs w' = w_xhrs w \<and> w_iframe w' = w_iframe w \<and> w_jobs w' = w_jobs w \<and>
    callbacks w' = (if str_truthy (kc_token (w_kc w)) then callbacks (signed_out w) else callbacks w) \<and>
    (kc_loginRequired (w_kc w) \<and> str_truthy (kc_token (w_kc w)) \<longrightarrow> (\<exists>p. kc_login None (signed_out w) = (Ok p, w')))"
proof (cases "str_truthy (kc_token (w_kc w)) \<and> kc_loginRequired (w_kc w)")
  case True
  have "initialised (signed_out w)"
    using assms True
    by (simp add: initialised_def signed_out_def world_ops cleared_def clear_token_timeout_def split: option.split)
  then obtain p w' where l: "kc_login None (signed_out w) = (Ok p, w')" using initialised_login by blast
  then have "clearToken w = (Ok (), w')" using True clearToken_required [of w] by (simp add: comp_defs)
  then show ?thesis using True l kc_login_frame [OF l] by (auto simp: login_frame_def)
next
  case False
  then show ?thesis using clearToken_cases [of w] by auto
qed

subsection \<open>Draining the queue\<close>

lemma drain_refresh_facts:
  "w_refreshQueue (drain_refresh (\<lambda>p. setSuccess p v) w) = []"
  "w_refreshQueue (drain_refresh (\<lambda>p. setError p v) w) = []"
  "w_kc (drain_refresh (\<lambda>p. setSuccess p v) w) = w_kc w"
  "w_kc (drain_refresh (\<lambda>p. setError p v) w) = w_kc w"
  "promise_status q (drain_refresh (\<lambda>p. setSuccess p v) w) =
     (if q \<in> set (w_refreshQueue w) \<and> promise_pending q w then Fulfilled v else promise_status q w)"
  "promise_status q (drain_refresh (\<lambda>p. setError p v) w) =
     (if q \<in> set (w_refreshQueue w) \<and> promise_pending q w then Rejected v else promise_status q w)"
  by (simp_all add: drain_refresh_def settle_rev_fields settle_rev_status)
    (simp_all add: promise_status_def promise_pending_def)

lemma refresh_response_ok:
  assumes "r_status r = 200" and "JSON_parse (r_text r) = Ok j" and "j \<noteq> JNull"
    and "setToken (token_member j ''access_token'') (token_member j ''refresh_token'') (token_member j ''id_token'')
           (Some ((l + now_rat w) / 2)) w = (Ok (), w1)"
  shows "refresh_response l r w =
    (Ok (), drain_refresh (\<lambda>p. setSuccess p (VBool True)) (call OnAuthRefreshSuccess VUndef w1))"
proof -
  have "jprop (Some j) k = Ok (jget j k)" for k using assms(3) by (cases j) auto
  then show ?thesis using assms by (simp add: refresh_response_def comp_defs Let_def)
qed

lemma refresh_response_failed:
  assumes "r_status r \<noteq> 200" and "r_status r = 400 \<Longrightarrow> clearToken w = (Ok (), w1)"
  shows "refresh_response l r w =
    (Ok (), drain_refresh (\<lambda>p. setError p (VBool True)) (call OnAuthRefreshError VUndef (if r_status r = 400 then w1 else w)))"
  using assms by (cases "r_status r = 400") (simp_all add: refresh_response_def comp_defs)

subsection \<open>Messages from the iframe\<close>

lemma messageCallback_answer:
  assumes "li_iframeOrigin (w_iframe w) = Some u" and "data \<in> {''unchanged'', ''changed'', ''error''}"
    and "data \<noteq> ''unchanged'' \<Longrightarrow> clearToken w = (Ok (), w1) \<and> w_iframe w1 = w_iframe w"
  shows "messageCallback u True data w =
    (Ok (), settle_rev (\<lambda>p. if data = ''unchanged'' then setSuccess p VUndef else setError p VUndef)
       (li_callbackList (w_iframe w)) (upd_iframe (\<lambda>l. l\<lparr>li_callbackList := []\<rparr>) (if data = ''unchanged'' then w else w1)))"
  using assms by (cases "data = ''unchanged''") (auto simp: messageCallback_def comp_defs)

end
