(* ===== verification/Demo.thy ===== *)
theory Demo
  imports Refresh
begin

section \<open>A run of the adapter on concrete data\<close>

text \<open>
  An application configured with an object calls \<open>init\<close> with tokens it kept and with the session
  iframe switched off: the adapter sets the tokens and refreshes them at once. The states on the way
  are computed here; the theorems that need a concrete reachable state use them.
\<close>

lemmas eval_ops = world_ops promise_ops native_defs comp_bind_Ok comp_bind_Throw comp_ret_def comp_lift_def
  comp_do_def alloc_def Let_def undef_str_def str_truthy_def

definition demo_config :: config where
  "demo_config = ConfigObject \<lparr>co_clientId = Some ''app'', co_secret = None, co_oidcProvider = None,
     co_url = Some ''https://kc/auth'', co_realm = Some ''demo''\<rparr>"

definition demo_options :: init_options where
  "demo_options = \<lparr>io_adapter = None, io_useNonce = None, io_checkLoginIframe = Some False, io_checkLoginIframeInterval = None,
     io_onLoad = None, io_responseMode = None, io_flow = None, io_timeSkew = None, io_redirectUri = None,
     io_token = Some ''h.e30.s'', io_refreshToken = Some ''h.e30.s'', io_idToken = None\<rparr>"

definition demo_start :: world where
  "demo_start = new_Keycloak demo_config [] demo_store demo_env"

lemma demo_token: "decodeToken ''h.e30.s'' = Ok (JObj [])"
proof -
  have "b64url (map of_char ''{}'') = ''e30''" by code_simp
  moreover have "JSON_parse ''{}'' = Ok (JObj [])" by code_simp
  ultimately show ?thesis using decodeToken_compact [of "''h''" "''{}''" "''s''"] by simp
qed

subsection \<open>After init\<close>

definition demo_ready :: world where
  "demo_ready = demo_start
     \<lparr>w_kc := (w_kc demo_start)\<lparr>kc_responseMode := Some ''fragment'', kc_responseType := Some ''code'',
        kc_flow := Some ''standard'', kc_authServerUrl := Some ''https://kc/auth'', kc_realm := Some ''demo'',
        kc_clientId := Some ''app'', kc_endpoints := Some RealmEndpoints\<rparr>,
      w_adapter := Some DefaultAdapter, w_backend := Some LocalStorage,
      w_iframe := (w_iframe demo_start)\<lparr>li_enable := False\<rparr>,
      w_promises := [createNativePromise, createNativePromise\<lparr>n_then := [InitReady 0], n_catch := [InitFailed 0]\<rparr>,
        createNativePromise\<lparr>n_success := Some True, n_status := Fulfilled VUndef\<rparr>]\<rparr>"

lemmas demo_world = demo_ready_def demo_start_def demo_config_def demo_store_def demo_env_def new_Keycloak_def new_kc_def

lemmas eval_init = kc_init_def create_storage_def createCallbackStorage_def new_LocalStorage_def removeItem_def
  choose_adapter_def loadAdapter_def apply_options_def apply_iframe_options_def apply_mode_def apply_flow_def
  apply_rest_def default_mode_def loadConfig_def config_url_def object_config_def realm_config_def setupOidcEndoints_def

lemma demo_init:
  "run_call (Init (Some demo_options)) demo_start = demo_ready\<lparr>w_jobs := [(ProcessInit (Some demo_options) 1, VUndef)]\<rparr>"
  by (simp add: demo_world demo_options_def eval_init eval_ops)

subsection \<open>After the tokens are set\<close>

definition demo_signed :: world where
  "demo_signed = demo_ready\<lparr>w_kc := (w_kc demo_ready)\<lparr>kc_authenticated := True, kc_token := Some ''h.e30.s'',
     kc_tokenParsed := Some (JObj []), kc_refreshToken := Some ''h.e30.s'', kc_refreshTokenParsed := Some (JObj [])\<rparr>\<rparr>"

lemma demo_setToken:
  "setToken (Some ''h.e30.s'') (Some ''h.e30.s'') None None demo_ready = (Ok (), demo_signed)"
  by (simp add: setToken_def clear_token_timeout_def set_refresh_token_def set_id_token_def set_access_token_def demo_token
      schedule_expiry_def take_claims_def estimate_skew_def demo_signed_def demo_world eval_ops)

subsection \<open>While the refresh is in flight\<close>

definition demo_request :: xhr where
  "demo_request = post_form ''https://kc/auth/realms/demo/protocol/openid-connect/token'' []
     ''grant_type=refresh_token&refresh_token=h.e30.s&client_id=app'' (OnRefresh 1000000)"

definition demo_refreshing :: world where
  "demo_refreshing = demo_signed\<lparr>w_promises := w_promises demo_signed @ [createNativePromise],
     w_refreshQueue := [3], w_xhrs := [(1, demo_request)], w_next := 2\<rparr>"

lemma demo_updateToken: "updateToken (Some (-1)) demo_signed = (Ok 3, demo_refreshing)"
proof -
  have e: "encodeURIComponent ''demo'' = ''demo''" "encodeURIComponent ''app'' = ''app''" by code_simp+
  show ?thesis
    by (simp add: updateToken_def update_exec_def refresh_needed_def push_refresh_def refresh_request_def client_auth_def
        ep_token_def realm_endpoint_def getRealmUrl_def char_at_def now_rat_def e demo_refreshing_def demo_request_def demo_signed_def
        demo_world eval_ops)
qed

definition demo_session :: world where
  "demo_session = attach 3 (TokenUpdated 1) (TokenUpdateFailed demo_options 1) demo_refreshing"

lemma demo_processInit: "processInit (Some demo_options) 1 demo_ready = (Ok (), demo_session)"
proof -
  have "parseCallback (e_href (w_env demo_ready)) demo_ready = (Ok None, demo_ready)"
    by (simp add: parseCallback_def parseCallbackUrl_def split_callback_url_def flow_params_def demo_world eval_ops)
  moreover have "init_tokens demo_options 1 demo_ready = (Ok (), demo_session)"
  proof -
    have "\<not> li_enable (w_iframe demo_signed)" by (simp add: demo_signed_def demo_world)
    then show ?thesis
      using demo_setToken demo_updateToken
      by (simp add: init_tokens_def demo_options_def demo_session_def comp_bind_Ok comp_do_def)
  qed
  ultimately show ?thesis
    by (simp add: processInit_def start_session_def comp_bind_Ok comp_do_def)
      (simp add: demo_options_def str_truthy_def)
qed

lemma demo_reachable: "reachable demo_config [] demo_store demo_env demo_session"
proof -
  have "reachable demo_config [] demo_store demo_env demo_start"
    unfolding demo_start_def by (rule reachable.start)
  from reachable.step [OF this step.Call, of "Init (Some demo_options)"]
  have "reachable demo_config [] demo_store demo_env
      (demo_ready\<lparr>w_jobs := [(ProcessInit (Some demo_options) 1, VUndef)]\<rparr>)"
    by (simp only: demo_init)
  from reachable.step [OF this step.Job]
  have "reachable demo_config [] demo_store demo_env (snd (processInit (Some demo_options) 1 (demo_ready\<lparr>w_jobs := []\<rparr>)))"
    by simp
  moreover have "demo_ready\<lparr>w_jobs := []\<rparr> = demo_ready" by (simp add: demo_world)
  ultimately show ?thesis using demo_processInit by simp
qed

lemma demo_session_facts:
  "refreshes demo_session = [(1, demo_request)]" "w_refreshQueue demo_session = [3]"
  "kc_authenticated (w_kc demo_session)" "kc_token (w_kc demo_session) = Some ''h.e30.s''"
  by (simp_all add: demo_session_def demo_refreshing_def demo_request_def demo_signed_def demo_world refreshes_def
      post_form_def eval_ops)

end
