(* ===== verification/Login_Flow.thy ===== *)
theory Login_Flow
  imports Demo
begin

section \<open>The login flow end to end\<close>

text \<open>
  From \<open>createLoginUrl\<close> over the redirect back to \<open>parseCallback\<close> and the checks of
  \<open>authSuccess\<close>: the stored state is what the callback finds, once, and a token whose nonce is not
  the stored one ends the session it would have started.
\<close>

subsection \<open>Creating the URL\<close>

definition login_state :: "world \<Rightarrow> string" where
  "login_state w = createUUID (\<lambda>i. e_digits (w_env w) (w_drawn w + i))"

definition login_nonce :: "world \<Rightarrow> string" where
  "login_nonce w = createUUID (\<lambda>i. e_digits (w_env w) (w_drawn w + 36 + i))"

lemma redirectUri_drawn: "adapter_redirectUri opts (w\<lparr>w_drawn := d\<rparr>) = adapter_redirectUri opts w"
  by (simp add: adapter_redirectUri_def default_redirectUri_def cordova_redirectUri_def native_redirectUri_def
      split: option.split adapter.split)

lemma createLoginUrl_Ok:
  assumes "createLoginUrl opts w = (Ok url, w1)"
  shows "\<exists>b uri base. w_backend w = Some b \<and> adapter_redirectUri opts w = Ok uri \<and> login_base opts (w_kc w) = Ok base \<and>
    url = login_url_text base (w_kc w) (w_useNonce w) opts uri (login_state w) (login_nonce w) \<and>
    w1 = w\<lparr>w_drawn := w_drawn w + 36 + 36,
      w_store := storage_add b (e_now (w_env w)) (login_callback_state opts uri (login_state w) (login_nonce w)) (w_store w)\<rparr>"
proof -
  obtain uri where uri: "adapter_redirectUri opts w = Ok uri"
    using assms by (cases "adapter_redirectUri opts w")
      (auto simp: createLoginUrl_def draw_uuid_def comp_defs redirectUri_drawn)
  obtain b where b: "w_backend w = Some b"
    using assms uri by (cases "w_backend w")
      (auto simp: createLoginUrl_def draw_uuid_def comp_defs redirectUri_drawn store_add_def)
  obtain base where base: "login_base opts (w_kc w) = Ok base"
    using assms uri b by (cases "login_base opts (w_kc w)")
      (auto simp: createLoginUrl_def draw_uuid_def comp_defs redirectUri_drawn store_add_def)
  show ?thesis
    using assms uri b base
    by (simp add: createLoginUrl_def draw_uuid_def comp_defs redirectUri_drawn store_add_def login_state_def login_nonce_def)
qed

definition random_digits :: "world \<Rightarrow> bool" where
  "random_digits w \<longleftrightarrow> (\<forall>i. e_digits (w_env w) i < 16)"

lemma login_state_facts:
  assumes "random_digits w"
  shows "plain (login_state w)" "login_state w \<noteq> []" "encodeURIComponent (login_state w) = login_state w"
    "plain (login_nonce w)"
  using assms createUUID_plain createUUID_not_Nil createUUID_unreserved
  by (simp_all add: login_state_def login_nonce_def random_digits_def)

subsection \<open>Coming back\<close>

text \<open>The redirect with which an authorization server answers: its parameters, in any order, in the fragment or in the query of
  the page that was asked for. Names and values are URL-encoded.\<close>

definition param_text :: "(string \<times> string) list \<Rightarrow> string" where
  "param_text ps = join ''&'' (map (\<lambda>(k, v). k @ ''='' @ v) ps)"

definition redirect :: "string option \<Rightarrow> string \<Rightarrow> (string \<times> string) list \<Rightarrow> string \<Rightarrow> string" where
  "redirect mode page ps anchor =
     (if mode = Some ''query'' then page @ ''?'' @ param_text ps @ anchor else page @ ''#'' @ param_text ps)"

definition encoded :: "string \<Rightarrow> bool" where
  "encoded s \<longleftrightarrow> CHR ''&'' \<notin> set s \<and> CHR ''='' \<notin> set s \<and> CHR ''#'' \<notin> set s"

definition redirect_ok :: "string option \<Rightarrow> string \<Rightarrow> (string \<times> string) list \<Rightarrow> string \<Rightarrow> bool" where
  "redirect_ok mode page ps anchor \<longleftrightarrow> mode \<in> {Some ''query'', Some ''fragment''} \<and>
     CHR ''#'' \<notin> set page \<and> (mode = Some ''query'' \<longrightarrow> CHR ''?'' \<notin> set page \<and> (anchor = [] \<or> hd anchor = CHR ''#'')) \<and>
     distinct (map fst ps) \<and> (\<forall>kv \<in> set ps. encoded (fst kv) \<and> encoded (snd kv))"

lemma param_of_pair:
  assumes "encoded k" and "encoded v"
  shows "param_name (k @ ''='' @ v) = k" "param_value (k @ ''='' @ v) = Some v" "CHR ''&'' \<notin> set (k @ ''='' @ v)"
  using assms split_on_append [of "CHR ''=''" k v] split_on_free [of "CHR ''=''" v]
  by (simp_all add: param_name_def param_value_def nth_opt_def encoded_def)

lemma params_of_redirect:
  assumes "distinct (map fst ps)" and "\<forall>kv \<in> set ps. encoded (fst kv) \<and> encoded (snd kv)" and "ps \<noteq> []"
  shows "snd (parseCallbackParams (param_text ps) known) = (\<lambda>k. if k \<in> set known then map_of ps k else None)"
proof
  fix k
  let ?qs = "map (\<lambda>(k, v). k @ ''='' @ v) ps"
  have "split_on CHR ''&'' (param_text ps) = ?qs"
    unfolding param_text_def using assms(2,3) param_of_pair(3) by (intro split_on_join) fastforce+
  moreover have p: "map (\<lambda>p. (param_name p, param_value p)) ?qs = map (\<lambda>(k, v). (k, Some v)) ps"
    using assms(2) param_of_pair by (auto simp: case_prod_beta)
  have "map_of (rev (map (\<lambda>(k, v). (k, Some v)) ps)) = map_of (map (\<lambda>(k, v). (k, Some v)) ps)"
    using assms(1) by (subst map_of_inject_set) (auto simp: case_prod_beta comp_def rev_map [symmetric])
  then have "map_of (rev (map (\<lambda>p. (param_name p, param_value p)) ?qs)) k = map_option Some (map_of ps k)"
    unfolding p by (simp add: map_of_map comp_def)
  then have "last_param k ?qs = map_of ps k" by (cases "map_of ps k") (simp_all add: last_param_def)
  ultimately show "snd (parseCallbackParams (param_text ps) known) k = (if k \<in> set known then map_of ps k else None)"
    using last_param_absent [of k ?qs] by (auto simp: parseCallbackParams_eq collect_params_lookup)
qed

lemma param_text_free:
  assumes "\<forall>kv \<in> set ps. encoded (fst kv) \<and> encoded (snd kv)"
  shows "CHR ''#'' \<notin> set (param_text ps)"
proof -
  have j: "CHR ''#'' \<notin> set (join ''&'' xs)" if "\<forall>x \<in> set xs. CHR ''#'' \<notin> set x" for xs
    using that by (induction "''&''" xs rule: join.induct) auto
  show ?thesis unfolding param_text_def by (rule j) (use assms in \<open>auto simp: encoded_def\<close>)
qed

lemma split_redirect:
  assumes "redirect_ok mode page ps anchor"
  shows "\<exists>new. split_callback_url mode (redirect mode page ps anchor) known = Some (new, snd (parseCallbackParams (param_text ps) known))"
proof (cases "mode = Some ''query''")
  case False
  then have m: "mode = Some ''fragment''" and f: "CHR ''#'' \<notin> set page" using assms by (auto simp: redirect_ok_def)
  have i: "index_of (page @ CHR ''#'' # param_text ps) ''#'' = Some (length page)" by (rule index_of_char_append [OF f])
  show ?thesis using fragment_split [OF i, of known] m by (simp add: redirect_def)
next
  case True
  let ?t = "param_text ps"
  have q: "index_of (page @ CHR ''?'' # ?t @ anchor) ''?'' = Some (length page)"
    using assms True by (intro index_of_char_append) (simp add: redirect_ok_def)
  have free: "CHR ''#'' \<notin> set (page @ CHR ''?'' # ?t)"
    using assms param_text_free [of ps] by (simp add: redirect_ok_def)
  consider (none) "anchor = []" | (some) a where "anchor = CHR ''#'' # a"
    using assms True by (cases anchor) (auto simp: redirect_ok_def)
  then show ?thesis
  proof cases
    case none
    then show ?thesis using True q free
      by (simp add: redirect_def split_callback_url_def substring_def index_of_char_None [THEN iffD2] Let_def)
  next
    case some
    have h: "index_of (page @ CHR ''?'' # ?t @ anchor) ''#'' = Some (length (page @ CHR ''?'' # ?t))"
      using index_of_char_append [OF free, of a] some by simp
    show ?thesis using True q h
      by (simp add: redirect_def split_callback_url_def substring_def Let_def)
  qed
qed

text \<open>What the adapter reads from a redirect that is a response of the flow.\<close>

definition response_params :: "kc \<Rightarrow> (string \<times> string) list \<Rightarrow> string \<Rightarrow> string option" where
  "response_params k ps name =
     (case flow_params (kc_flow k) of
        None \<Rightarrow> None
      | Some known \<Rightarrow> if name \<in> set (known @ error_params) then map_of ps name else None)"

lemma parse_redirect:
  assumes "redirect_ok (kc_responseMode k) page ps anchor" and "is_response (kc_flow k) (response_params k ps)"
  shows "\<exists>new. parseCallbackUrl k (redirect (kc_responseMode k) page ps anchor) =
    Ok (Some \<lparr>oa_params = response_params k ps, oa_newUrl = new, oa_valid = False, oa_redirectUri = None,
      oa_storedNonce = None, oa_prompt = None\<rparr>)"
proof -
  obtain known where known: "flow_params (kc_flow k) = Some known"
    using assms(2) by (auto simp: is_response_def flow_params_def split: if_splits)
  have "response_params k [] = (\<lambda>_. None)" by (rule ext) (simp add: response_params_def known)
  then have "ps \<noteq> []" using assms(2) no_response [of "kc_flow k"] by auto
  then have "snd (parseCallbackParams (param_text ps) (known @ error_params)) = response_params k ps"
    using assms(1) by (simp add: params_of_redirect redirect_ok_def response_params_def [abs_def] known)
  then show ?thesis
    using assms(2) known split_redirect [OF assms(1), of "known @ error_params"] by (auto simp: parseCallbackUrl_def)
qed

lemma complete_recalls:
  assumes "recalls st v"
  shows "complete_oauth oa v = oa\<lparr>oa_valid := True, oa_redirectUri := Some (JStr (cs_redirectUri st)),
    oa_storedNonce := Some (JStr (cs_nonce st)), oa_prompt := map_option JStr (cs_prompt st)\<rparr>"
  using assms by (auto simp: recalls_def complete_oauth_def Let_def)

lemma storable_login:
  assumes "random_digits w" and "\<forall>p. option_field o_prompt opts = Some p \<longrightarrow> CHR '';'' \<notin> set p"
  shows "storable_in b (login_callback_state opts uri (login_state w) (login_nonce w))"
  using assms login_state_facts [OF assms(1)] encodeURIComponent_no_sep [of "CHR '';''" uri]
  by (auto simp: storable_in_def cookie_storable_def login_callback_state_def plain_def split: backend.split)

lemma stored_login_found:
  assumes "parseCallbackUrl (w_kc w) url = Ok (Some oa)" and "oa_params oa ''state'' = Some (cs_state st)"
    and "w_backend w = Some b" and "w_store w = storage_add b t st s" and "store_ok s" and "storable_in b st"
    and "plain (cs_state st)" and "cs_state st \<noteq> []" and "t \<le> e_now (w_env w)" and "e_now (w_env w) < t + 3599000"
  shows "\<exists>w'. parseCallback url w = (Ok (Some (oa\<lparr>oa_valid := True, oa_redirectUri := Some (JStr (cs_redirectUri st)),
    oa_storedNonce := Some (JStr (cs_nonce st)), oa_prompt := map_option JStr (cs_prompt st)\<rparr>)), w')"
proof -
  obtain v where "fst (storage_get b (e_now (w_env w)) (Some (cs_state st)) (w_store w)) = Ok v" "recalls st v"
    using cb.get_add [of s st b t "e_now (w_env w)"] assms(4-10) by auto
  then show ?thesis
    using assms(1-3) by (auto simp: parseCallback_def comp_defs store_get_def complete_recalls split: prod.split)
qed

text \<open>C3. A login is found again by its callback. Let \<open>createLoginUrl\<close> make a login URL, and let a page with the same storage
  (whose keys are distinct and whose cookies are well formed) be reached, within 3599 seconds, through a redirect that carries the state of that login; the redirect is a response of the page's flow
  (standard, implicit or hybrid: an error, or the code or access token of the flow), has its parameters in the place the response mode
  says (fragment or query), in any order and among any others, URL-encoded and none twice, and in query mode a page without a query of
  its own. The random digits are hexadecimal, and no prompt has a semicolon, at which a cookie ends. Then the callback is read as a valid
  response: its nonce, redirect URI and prompt are those of the login, and the parameters of the flow are those of the redirect.\<close>

theorem login_callback_roundtrip:
  assumes "createLoginUrl opts w = (Ok url, w1)" and "random_digits w" and "store_ok (w_store w)"
    and "\<forall>p. option_field o_prompt opts = Some p \<longrightarrow> CHR '';'' \<notin> set p"
    and "w_store w2 = w_store w1" and "w_backend w2 = w_backend w"
    and "e_now (w_env w) \<le> e_now (w_env w2)" and "e_now (w_env w2) < e_now (w_env w) + 3599000"
    and "redirect_ok (kc_responseMode (w_kc w2)) page ps anchor" and "map_of ps ''state'' = Some (login_state w)"
    and "is_response (kc_flow (w_kc w2)) (response_params (w_kc w2) ps)"
  shows "\<exists>oa w3 uri. parseCallback (redirect (kc_responseMode (w_kc w2)) page ps anchor) w2 = (Ok (Some oa), w3) \<and> oa_valid oa \<and>
    oa_storedNonce oa = Some (JStr (login_nonce w)) \<and> adapter_redirectUri opts w = Ok uri \<and>
    oa_redirectUri oa = Some (JStr (encodeURIComponent uri)) \<and>
    oa_prompt oa = map_option JStr (if str_truthy (option_field o_prompt opts) then option_field o_prompt opts else None) \<and>
    oa_params oa = response_params (w_kc w2) ps"
proof -
  obtain b uri base where b: "w_backend w = Some b" and uri: "adapter_redirectUri opts w = Ok uri"
    and w1: "w1 = w\<lparr>w_drawn := w_drawn w + 36 + 36,
      w_store := storage_add b (e_now (w_env w)) (login_callback_state opts uri (login_state w) (login_nonce w)) (w_store w)\<rparr>"
    using createLoginUrl_Ok [OF assms(1)] by blast
  let ?st = "login_callback_state opts uri (login_state w) (login_nonce w)"
  have st: "cs_state ?st = login_state w" "cs_nonce ?st = login_nonce w" "cs_redirectUri ?st = encodeURIComponent uri"
    "cs_prompt ?st = (if str_truthy (option_field o_prompt opts) then option_field o_prompt opts else None)"
    by (simp_all add: login_callback_state_def)
  note facts = login_state_facts [OF assms(2)]
  obtain new where p: "parseCallbackUrl (w_kc w2) (redirect (kc_responseMode (w_kc w2)) page ps anchor) =
      Ok (Some \<lparr>oa_params = response_params (w_kc w2) ps, oa_newUrl = new, oa_valid = False,
        oa_redirectUri = None, oa_storedNonce = None, oa_prompt = None\<rparr>)"
    using parse_redirect [OF assms(9,11)] by blast
  have "response_params (w_kc w2) ps ''state'' = Some (login_state w)"
    using assms(10,11) by (auto simp: response_params_def is_response_def flow_params_def split: if_splits)
  then show ?thesis
    using stored_login_found [OF p, of ?st b "e_now (w_env w)" "w_store w"] assms(3,5-8) b w1 uri st facts
      storable_login [OF assms(2,4), of b uri] by auto
qed

lemma demo_createLoginUrl: "\<exists>url w1. createLoginUrl None demo_ready = (Ok url, w1)"
  by (simp add: createLoginUrl_def draw_uuid_def adapter_redirectUri_def store_add_def login_base_def ep_authorize_def
      realm_endpoint_def option_field_def comp_defs demo_world)

text \<open>The parameters that the server sends for the standard flow.\<close>

definition demo_redirect :: "string \<Rightarrow> string" where
  "demo_redirect state = redirect (Some ''fragment'') ''https://app/'' [(''state'', state), (''session_state'', ''s1''), (''code'', ''c'')] []"

lemma demo_redirect_ok:
  assumes "encoded state" and "state \<noteq> []"
  shows "redirect_ok (kc_responseMode (w_kc demo_ready)) ''https://app/'' [(''state'', state), (''session_state'', ''s1''), (''code'', ''c'')] []"
    "is_response (kc_flow (w_kc demo_ready))
      (response_params (w_kc demo_ready) [(''state'', state), (''session_state'', ''s1''), (''code'', ''c'')])"
    "response_params (w_kc demo_ready) [(''state'', state), (''session_state'', ''s1''), (''code'', ''c'')] ''state'' = Some state"
  using assms
  by (simp_all add: redirect_ok_def encoded_def is_response_def response_params_def flow_params_def str_truthy_def demo_world)

theorem login_callback_roundtrip_witness:
  "\<exists>url w1 oa w3. createLoginUrl None demo_ready = (Ok url, w1) \<and>
     parseCallback (demo_redirect (login_state demo_ready)) (w1\<lparr>w_env := (w_env w1)\<lparr>e_now := 1000007\<rparr>\<rparr>) =
       (Ok (Some oa), w3) \<and> oa_valid oa \<and> oa_storedNonce oa = Some (JStr (login_nonce demo_ready)) \<and> oa_params oa ''code'' = Some ''c''"
proof -
  obtain url w1 where l: "createLoginUrl None demo_ready = (Ok url, w1)" using demo_createLoginUrl by blast
  let ?w2 = "w1\<lparr>w_env := (w_env w1)\<lparr>e_now := 1000007\<rparr>\<rparr>"
  have r: "random_digits demo_ready" by (simp add: random_digits_def demo_world)
  have e: "encoded (login_state demo_ready)" "login_state demo_ready \<noteq> []"
    using login_state_facts [OF r] encodeURIComponent_no_sep [of _ "login_state demo_ready"] by (auto simp: encoded_def)
  have k: "w_kc w1 = w_kc demo_ready" "w_backend w1 = w_backend demo_ready" "w_env w1 = w_env demo_ready"
    using createLoginUrl_keeps [OF l] by simp_all
  have c: "response_params (w_kc demo_ready) [(''state'', login_state demo_ready), (''session_state'', ''s1''), (''code'', ''c'')] ''code'' = Some ''c''"
    by (simp add: response_params_def flow_params_def demo_world)
  have m: "kc_responseMode (w_kc demo_ready) = Some ''fragment''" "e_now (w_env demo_ready) = 1000000" "store_ok (w_store demo_ready)"
    by (simp_all add: store_ok_def area_ok_def jar_ok_def demo_world)
  show ?thesis
    using login_callback_roundtrip [OF l r, of ?w2 "''https://app/''" "[(''state'', login_state demo_ready), (''session_state'', ''s1''), (''code'', ''c'')]" "[]"]
      demo_redirect_ok [OF e] l k c m
    by (auto simp: option_field_def demo_redirect_def)
qed

text \<open>C4. A callback counts once: when the same response URL comes back, now or later, it is not valid any more.\<close>

theorem callback_not_replayed:
  assumes "parseCallback url w = (Ok (Some oa), w1)" and "oa_params oa ''state'' = Some k" and "plain k"
    and "store_ok (w_store w)" and "w2 = w1\<lparr>w_env := e\<rparr>"
  shows "\<exists>oa' w3. parseCallback url w2 = (Ok (Some oa'), w3) \<and> \<not> oa_valid oa'"
proof -
  obtain oa0 where oa0: "parseCallbackUrl (w_kc w) url = Ok (Some oa0)"
    using assms(1) by (auto simp: parseCallback_def comp_defs split: res.splits option.splits)
  obtain b where b: "w_backend w = Some b"
    using assms(1) oa0 by (auto simp: parseCallback_def comp_defs store_get_def split: option.splits)
  obtain v where v: "fst (storage_get b (e_now (w_env w)) (oa_params oa0 ''state'') (w_store w)) = Ok v"
    and oa: "oa = complete_oauth oa0 v"
    and w1: "w1 = w\<lparr>w_store := snd (storage_get b (e_now (w_env w)) (oa_params oa0 ''state'') (w_store w))\<rparr>"
    using assms(1) oa0 b by (auto simp: parseCallback_def comp_defs store_get_def split: res.splits prod.splits)
  have k: "oa_params oa0 ''state'' = Some k" using assms(2) oa by (auto simp: complete_oauth_def Let_def split: if_splits)
  have invalid: "\<not> oa_valid oa0" and "str_truthy (oa_params oa0 ''state'')"
    using oa0 by (auto simp: parseCallbackUrl_def is_response_def split: option.splits if_splits)
  then have "k \<noteq> []" using k by (simp add: str_truthy_def)
  let ?s = "snd (storage_get b (e_now (w_env w)) (Some k) (w_store w))"
  have "store_ok ?s" using cb.get_inv [OF assms(4,3)] .
  moreover have "\<not> store_holds b k ?s" using cb.get_forgets [OF assms(4,3) \<open>k \<noteq> []\<close>] .
  ultimately obtain v' where "fst (storage_get b (e_now e) (Some k) ?s) = Ok v'" "\<not> jtruthy v'"
    using cb.get_absent [of ?s k b "e_now e"] assms(3) by blast
  then show ?thesis
    using oa0 b k w1 assms(5) invalid
    by (auto simp: parseCallback_def comp_defs store_get_def complete_oauth_def split: prod.split)
qed

text \<open>A login that was stored, its callback, and the same callback again.\<close>

definition demo_pending :: world where
  "demo_pending = demo_ready\<lparr>w_store := storage_add LocalStorage 1000000
     \<lparr>cs_state = ''s'', cs_nonce = ''n'', cs_redirectUri = ''u'', cs_prompt = None\<rparr> (w_store demo_ready)\<rparr>"

lemma demo_first_callback:
  "\<exists>oa w1. parseCallback (demo_redirect ''s'') demo_pending = (Ok (Some oa), w1) \<and> oa_valid oa \<and> oa_params oa ''state'' = Some ''s''"
proof -
  let ?ps = "[(''state'', ''s''), (''session_state'', ''s1''), (''code'', ''c'')]"
  have k: "w_kc demo_pending = w_kc demo_ready" "kc_responseMode (w_kc demo_ready) = Some ''fragment''"
    by (simp add: demo_pending_def) (simp add: demo_world)
  have ok: "redirect_ok (Some ''fragment'') ''https://app/'' ?ps []"
    "is_response (kc_flow (w_kc demo_ready)) (response_params (w_kc demo_ready) ?ps)"
    "response_params (w_kc demo_ready) ?ps ''state'' = Some ''s''"
    using demo_redirect_ok [of "''s''"] k(2) by (simp_all add: encoded_def)
  obtain new where p: "parseCallbackUrl (w_kc demo_pending) (demo_redirect ''s'') =
      Ok (Some \<lparr>oa_params = response_params (w_kc demo_ready) ?ps, oa_newUrl = new, oa_valid = False,
        oa_redirectUri = None, oa_storedNonce = None, oa_prompt = None\<rparr>)"
    using parse_redirect [of "w_kc demo_ready" "''https://app/''" ?ps "[]"] ok k by (auto simp: demo_redirect_def)
  have "store_ok (w_store demo_ready)" "plain ''s''"
    by (simp_all add: store_ok_def area_ok_def jar_ok_def plain_def is_ws_def demo_world)
  then show ?thesis
    using stored_login_found [OF p, of "\<lparr>cs_state = ''s'', cs_nonce = ''n'', cs_redirectUri = ''u'', cs_prompt = None\<rparr>"
        LocalStorage 1000000 "w_store demo_ready"] ok(3)
    by (auto simp: demo_pending_def storable_in_def) (auto simp: demo_world)
qed

theorem callback_not_replayed_witness:
  "\<exists>oa oa' w1 w3. parseCallback (demo_redirect ''s'') demo_pending = (Ok (Some oa), w1) \<and> oa_valid oa \<and>
     parseCallback (demo_redirect ''s'') (w1\<lparr>w_env := demo_env\<rparr>) = (Ok (Some oa'), w3) \<and> \<not> oa_valid oa'"
proof -
  obtain oa w1 where c: "parseCallback (demo_redirect ''s'') demo_pending = (Ok (Some oa), w1)" "oa_valid oa"
    and k: "oa_params oa ''state'' = Some ''s''" using demo_first_callback by blast
  have p: "plain ''s''" by (simp add: plain_def is_ws_def)
  have "store_ok (w_store demo_ready)" by (simp add: store_ok_def area_ok_def jar_ok_def demo_world)
  then have "store_ok (w_store demo_pending)"
    using cb.add_inv [of "w_store demo_ready"] p by (simp add: demo_pending_def)
  then show ?thesis using callback_not_replayed [OF c(1) k p _ refl, of demo_env] c by blast
qed

subsection \<open>The nonce\<close>

lemma setToken_setup:
  "kc_loginRequired (w_kc (snd (setToken t r i l w))) = kc_loginRequired (w_kc w) \<and>
   kc_endpoints (w_kc (snd (setToken t r i l w))) = kc_endpoints (w_kc w)" (is "?I w (snd (setToken t r i l w))")
proof -
  note bind = keeps_bind [where I = "?I w" for w]
  have c: "?I w (clear_token_timeout w)" for w
    by (simp add: clear_token_timeout_def world_ops split: option.split)
  have s: "?I w (schedule_expiry w)" for w
    by (simp add: schedule_expiry_def world_ops Let_def split: option.split)
  have e: "kc_loginRequired (estimate_skew l j k) = kc_loginRequired k" "kc_endpoints (estimate_skew l j k) = kc_endpoints k" for j k
    by (simp_all add: estimate_skew_def split: option.split)
  have a: "?I w (snd (set_access_token t l w))" for w
    unfolding set_access_token_def
    by (auto intro!: bind simp: s e upd_kc_def take_claims_def)
  have o: "?I w (snd (set_refresh_token r w))" "?I w (snd (set_id_token i w))" for w
    unfolding set_refresh_token_def set_id_token_def by (auto intro!: bind simp: upd_kc_def)
  show ?thesis unfolding setToken_def by (intro bind) (simp_all add: a o c)
qed

lemma set_access_token_token:
  "set_access_token t l w = (Ok (), w1) \<Longrightarrow> str_truthy t \<Longrightarrow> kc_token (w_kc w1) = t"
  by (auto simp: set_access_token_def comp_defs schedule_expiry_def take_claims_def estimate_skew_def world_ops Let_def
      split: res.splits option.splits if_splits)

lemma setToken_token: "setToken t r i l w = (Ok (), w1) \<Longrightarrow> str_truthy t \<Longrightarrow> kc_token (w_kc w1) = t"
  by (auto simp: setToken_def comp_bind_def comp_do_def split: res.splits prod.splits intro: set_access_token_token)

text \<open>C5. With \<open>useNonce\<close> on, which is the default, a token response that carries an access token but has some token without
  the nonce of the login leads to no session: all tokens are cleared and the login's promise, which is pending, is rejected; of the application's
  callbacks only \<open>onAuthLogout\<close> is called after those of \<open>setToken\<close>, never \<open>onAuthSuccess\<close>. This holds when the tokens can be decoded
  and, in an application that requires a login, after \<open>init\<close> has finished: then a new login is started as well.\<close>

theorem bad_nonce_rejected:
  assumes "setToken a r i (Some ((t + now_rat w) / 2)) w = (Ok (), w1)" and "str_truthy a" and "w_useNonce w"
    and "parsed \<in> {kc_tokenParsed (w_kc w1), kc_refreshTokenParsed (w_kc w1), kc_idTokenParsed (w_kc w1)}" and "jtruthy parsed"
    and "\<not> js_eq (Option.bind parsed (\<lambda>j. jget j ''nonce'')) (oa_storedNonce oa)"
    and "kc_loginRequired (w_kc w) \<Longrightarrow> initialised w" and "promise_pending p w"
  shows "\<exists>w'. authSuccess oa (Some p) t a r i fulfill w = (Ok ((t + now_rat w) / 2), w') \<and>
    \<not> kc_authenticated (w_kc w') \<and> kc_token (w_kc w') = None \<and> kc_refreshToken (w_kc w') = None \<and>
    kc_idToken (w_kc w') = None \<and> promise_status p w' = Rejected VUndef \<and>
    callbacks w' = callbacks (call OnAuthLogout VUndef w1) \<and>
    (kc_loginRequired (w_kc w) \<longrightarrow> (\<exists>q w2. kc_login None (signed_out w1) = (Ok q, w2) \<and> w_log w' = w_log w2))"
proof -
  let ?l = "Some ((t + now_rat w) / 2)"
  have w1: "w1 = snd (setToken a r i ?l w)" by (simp add: assms(1))
  have token: "str_truthy (kc_token (w_kc w1))" using setToken_token [OF assms(1,2)] assms(2) by simp
  have "kc_loginRequired (w_kc w1) = kc_loginRequired (w_kc w)" unfolding w1 by (simp add: setToken_setup)
  moreover have "initialised w1 = initialised w"
    using setToken_field [of w_adapter a r i ?l w] setToken_field [of w_backend a r i ?l w] setToken_setup [of a r i ?l w] w1
    by (simp add: initialised_def world_ops)
  ultimately obtain w2 qs where clear: "clearToken w1 = (Ok (), w2)" "w_promises w2 = w_promises w1 @ qs" "w_kc w2 = w_kc (signed_out w1)"
    "callbacks w2 = callbacks (signed_out w1)" "kc_loginRequired (w_kc w) \<longrightarrow> (\<exists>q. kc_login None (signed_out w1) = (Ok q, w2))"
    using clearToken_returns [of w1] token assms(7) by auto
  have bad: "bad_nonce oa (w_kc w1)" using assms(4-6) by (auto simp: bad_nonce_def nonce_differs_def)
  have "w_useNonce w1" unfolding w1 setToken_fields by (rule assms(3))
  then have "authSuccess oa (Some p) t a r i fulfill w = (Ok ((t + now_rat w) / 2), setError p VUndef w2)"
    using assms(1) bad clear(1) by (simp add: authSuccess_def comp_defs settle_opt_def Let_def)
  moreover have "promise_pending p w2"
    using assms(8) promise_appended(2) [OF clear(2), of p] setToken_fields(1) [of a r i ?l w] w1 by (simp add: promise_pending_def)
  moreover have "callbacks (signed_out w1) = callbacks (call OnAuthLogout VUndef w1)"
    by (simp add: callbacks_def signed_out_def world_ops clear_token_timeout_def split: option.split)
  moreover have "callbacks (setError p VUndef w2) = callbacks w2" by (simp add: callbacks_def)
  ultimately show ?thesis using clear(3-5) by (auto simp: signed_out_kc status_settle)
qed

lemma demo_setToken_timed:
  "\<exists>w1. setToken (Some ''h.e30.s'') (Some ''h.e30.s'') None (Some ((1000000 + now_rat demo_ready) / 2)) demo_ready = (Ok (), w1) \<and>
     kc_tokenParsed (w_kc w1) = Some (JObj [])"
  by (simp add: setToken_def clear_token_timeout_def set_refresh_token_def set_id_token_def set_access_token_def demo_token
      schedule_expiry_def take_claims_def estimate_skew_def demo_world eval_ops)

definition demo_oauth :: oauth where
  "demo_oauth = \<lparr>oa_params = Map.empty, oa_newUrl = [], oa_valid = True, oa_redirectUri = None,
     oa_storedNonce = Some (JStr ''n''), oa_prompt = None\<rparr>"

theorem bad_nonce_rejected_witness:
  "\<exists>t w'. authSuccess demo_oauth (Some 0) 1000000 (Some ''h.e30.s'') (Some ''h.e30.s'') None True demo_ready = (Ok t, w') \<and>
     kc_token (w_kc w') = None \<and> promise_status 0 w' = Rejected VUndef"
proof -
  obtain w1 where w1: "setToken (Some ''h.e30.s'') (Some ''h.e30.s'') None (Some ((1000000 + now_rat demo_ready) / 2)) demo_ready = (Ok (), w1)"
    and parsed: "kc_tokenParsed (w_kc w1) = Some (JObj [])" using demo_setToken_timed by blast
  have "\<not> js_eq (Option.bind (Some (JObj [])) (\<lambda>j. jget j ''nonce'')) (oa_storedNonce demo_oauth)"
    by (simp add: demo_oauth_def js_eq.simps)
  then show ?thesis
    using bad_nonce_rejected [OF w1, of "Some (JObj [])" demo_oauth 0 True] parsed
    by (auto simp: str_truthy_def promise_pending_def native_defs demo_world)
qed

end
