(* ===== verification/Authz.thy ===== *)
theory Authz
  imports Session
begin

section \<open>The authorization client\<close>

text \<open>
  keycloak-authz.js: \<open>KeycloakAuthorization\<close> with \<open>init\<close>, \<open>authorize\<close> and
  \<open>entitlement\<close>. The two request functions only install a function \<open>then\<close> on the client object and
  return that object; the request is sent when \<open>then\<close> is called. The fields of \<open>metadata\<close> and
  \<open>submitRequest\<close> are of the types the documentation gives: booleans and a number.
\<close>

subsection \<open>Data\<close>

record authz_metadata =
  am_includeResourceName :: "bool option"
  am_permissionsLimit :: "int option"

record authz_permission =
  ap_id :: "string option"
  ap_scopes :: "string list option"

record authz_request =
  ar_ticket :: "string option"
  ar_submitRequest :: "bool option"
  ar_metadata :: "authz_metadata option"
  ar_incremental :: "bool option"
  ar_claimToken :: "string option"
  ar_claimTokenFormat :: "string option"
  ar_permissions :: "authz_permission list option"

definition empty_request :: authz_request where
  "empty_request = \<lparr>ar_ticket = None, ar_submitRequest = None, ar_metadata = None, ar_incremental = None,
     ar_claimToken = None, ar_claimTokenFormat = None, ar_permissions = None\<rparr>"

datatype authz_then = AuthorizeThen "authz_request option" | EntitlementThen "string option" "authz_request option"

text \<open>Which of the callbacks of \<open>then\<close> were given.\<close>

record authz_callbacks =
  ac_onGrant :: bool
  ac_onDeny :: bool
  ac_onError :: bool

datatype authz_handler = OnUmaConfig | OnRpt authz_callbacks

record authz_xhr =
  ax_method :: string
  ax_url :: string
  ax_headers :: "(string \<times> string) list"
  ax_body :: "string option"
  ax_handler :: authz_handler

datatype authz_call = Granted "string option" | Denied | Failed

record authz =
  az_rpt :: "string option"
  az_config :: "json option"
  az_then :: "authz_then option"
  az_xhrs :: "authz_xhr list"
  az_calls :: "authz_call list"

subsection \<open>Construction\<close>

definition authz_send :: "authz_xhr \<Rightarrow> authz \<Rightarrow> authz" where
  "authz_send x a = a\<lparr>az_xhrs := az_xhrs a @ [x]\<rparr>"

definition authz_init :: "kc \<Rightarrow> authz \<Rightarrow> authz" where
  "authz_init k a =
     authz_send \<lparr>ax_method = ''GET'',
       ax_url = undef_str (kc_authServerUrl k) @ ''/realms/'' @ undef_str (kc_realm k) @ ''/.well-known/uma2-configuration'',
       ax_headers = [], ax_body = None, ax_handler = OnUmaConfig\<rparr> a"

definition new_KeycloakAuthorization :: "kc \<Rightarrow> authz" where
  "new_KeycloakAuthorization k =
     authz_init k \<lparr>az_rpt = None, az_config = None, az_then = None, az_xhrs = [], az_calls = []\<rparr>"

definition uma_config_response :: "response \<Rightarrow> (authz, unit) comp" where
  "uma_config_response r =
     (if r_status r = 200 then
        comp_bind (comp_lift (\<lambda>_. JSON_parse (r_text r))) (\<lambda>j. comp_do (\<lambda>a. a\<lparr>az_config := Some j\<rparr>))
      else comp_ret ())"

subsection \<open>Requests\<close>

definition authorize :: "authz_request option \<Rightarrow> authz \<Rightarrow> authz" where
  "authorize req a = a\<lparr>az_then := Some (AuthorizeThen req)\<rparr>"

definition entitlement :: "string option \<Rightarrow> authz_request option \<Rightarrow> authz \<Rightarrow> authz" where
  "entitlement server req a = a\<lparr>az_then := Some (EntitlementThen server req)\<rparr>"

definition bool_text :: "bool \<Rightarrow> string" where
  "bool_text b = (if b then ''true'' else ''false'')"

definition uma_grant :: string where
  "uma_grant = ''grant_type=urn:ietf:params:oauth:grant-type:uma-ticket&client_id=''"

definition metadata_params :: "authz_metadata option \<Rightarrow> string" where
  "metadata_params m =
     (case m of
        None \<Rightarrow> []
      | Some d \<Rightarrow>
          (if am_includeResourceName d = Some True then ''&response_include_resource_name='' @ bool_text True else [])
          @ (case am_permissionsLimit d of
               None \<Rightarrow> []
             | Some n \<Rightarrow> if n = 0 then [] else ''&response_permissions_limit='' @ int_str n))"

definition rpt_param :: "string option \<Rightarrow> string" where
  "rpt_param rpt = (if str_truthy rpt then ''&rpt='' @ undef_str rpt else [])"

definition authorize_params :: "kc \<Rightarrow> authz_request \<Rightarrow> string option \<Rightarrow> string" where
  "authorize_params k req rpt =
     uma_grant @ undef_str (kc_clientId k) @ ''&ticket='' @ undef_str (ar_ticket req)
     @ (case ar_submitRequest req of None \<Rightarrow> [] | Some b \<Rightarrow> ''&submit_request='' @ bool_text b)
     @ metadata_params (ar_metadata req)
     @ (if ar_incremental req \<noteq> Some False then rpt_param rpt else [])"

text \<open>The loop over the scopes of a permission: a comma goes in front of a scope unless the text so far ends with its first hash sign.\<close>

definition add_scope :: "string \<Rightarrow> string \<Rightarrow> string" where
  "add_scope permission scope =
     (if index_of permission ''#'' \<noteq> Some (length permission - 1) then permission @ '','' else permission) @ scope"

definition permission_text :: "authz_permission \<Rightarrow> string" where
  "permission_text p =
     (case ap_scopes p of
        Some (s # ss) \<Rightarrow> foldl add_scope (undef_str (ap_id p) @ ''#'') (s # ss)
      | _ \<Rightarrow> undef_str (ap_id p))"

definition claim_params :: "authz_request \<Rightarrow> string" where
  "claim_params req =
     (if str_truthy (ar_claimToken req) then
        ''&claim_token='' @ undef_str (ar_claimToken req)
        @ (if str_truthy (ar_claimTokenFormat req) then ''&claim_token_format='' @ undef_str (ar_claimTokenFormat req) else [])
      else [])"

definition permission_params :: "authz_permission list option \<Rightarrow> string" where
  "permission_params ps =
     foldl (\<lambda>params p. params @ ''&permission='' @ permission_text p) [] (case ps of None \<Rightarrow> [] | Some qs \<Rightarrow> qs)"

definition entitlement_params :: "kc \<Rightarrow> string option \<Rightarrow> authz_request option \<Rightarrow> string option \<Rightarrow> string" where
  "entitlement_params k server request rpt =
     (let req = (case request of None \<Rightarrow> empty_request | Some q \<Rightarrow> q) in
      uma_grant @ undef_str (kc_clientId k) @ claim_params req @ ''&audience='' @ undef_str server
      @ permission_params (ar_permissions req) @ metadata_params (ar_metadata req) @ rpt_param rpt)"

definition token_request :: "kc \<Rightarrow> authz_callbacks \<Rightarrow> json option \<Rightarrow> string \<Rightarrow> authz_xhr" where
  "token_request k cbs url params =
     \<lparr>ax_method = ''POST'', ax_url = json_text url,
      ax_headers = [form_header, (''Authorization'', ''Bearer '' @ undef_str (kc_token k))], ax_body = Some params,
      ax_handler = OnRpt cbs\<rparr>"

text \<open>Calling \<open>then\<close>. Before the configuration has arrived, reading \<open>token_endpoint\<close> is a TypeError.\<close>

definition call_then :: "kc \<Rightarrow> authz_callbacks \<Rightarrow> (authz, unit) comp" where
  "call_then k cbs a =
     (case az_then a of
        None \<Rightarrow> (Throw TypeError, a)
      | Some (AuthorizeThen request) \<Rightarrow>
          (case request of
             None \<Rightarrow> (Ok (), a)
           | Some req \<Rightarrow>
               if \<not> str_truthy (ar_ticket req) then (Ok (), a)
               else
                 comp_bind (comp_lift (\<lambda>a. jprop (az_config a) ''token_endpoint'')) (\<lambda>url.
                 comp_do (\<lambda>a. authz_send (token_request k cbs url (authorize_params k req (az_rpt a))) a)) a)
      | Some (EntitlementThen server request) \<Rightarrow>
          comp_bind (comp_lift (\<lambda>a. jprop (az_config a) ''token_endpoint'')) (\<lambda>url.
          comp_do (\<lambda>a. authz_send (token_request k cbs url (entitlement_params k server request (az_rpt a))) a)) a)"

definition authz_log :: "authz_call \<Rightarrow> authz \<Rightarrow> authz" where
  "authz_log c a = a\<lparr>az_calls := az_calls a @ [c]\<rparr>"

text \<open>The answer. Calling \<open>onGrant\<close> when it is not a function is a TypeError.\<close>

definition rpt_response :: "authz_callbacks \<Rightarrow> response \<Rightarrow> (authz, unit) comp" where
  "rpt_response cbs r =
     (if 200 \<le> r_status r \<and> r_status r < 300 then
        comp_bind (comp_lift (\<lambda>_. JSON_parse (r_text r))) (\<lambda>j.
        comp_bind (comp_lift (\<lambda>_. jprop (Some j) ''access_token'')) (\<lambda>t.
        comp_bind (comp_do (\<lambda>a. a\<lparr>az_rpt := json_str t\<rparr>)) (\<lambda>_ a.
          if ac_onGrant cbs then (Ok (), authz_log (Granted (json_str t)) a) else (Throw TypeError, a))))
      else if r_status r = 403 then comp_do (\<lambda>a. if ac_onDeny cbs then authz_log Denied a else a)
      else comp_do (\<lambda>a. if ac_onError cbs then authz_log Failed a else a))"

subsection \<open>Properties\<close>

text \<open>A permission as the documentation writes it: the resource, a hash sign, and its scopes separated by commas.\<close>

definition permission_spec :: "string \<Rightarrow> string list \<Rightarrow> string" where
  "permission_spec rid scopes = (if scopes = [] then rid else rid @ ''#'' @ join '','' scopes)"

lemma add_scope_later:
  assumes "CHR ''#'' \<notin> set rid" and "t \<noteq> []"
  shows "add_scope (rid @ CHR ''#'' # t) scope = rid @ CHR ''#'' # (t @ '','' @ scope)"
  using index_of_char_append [OF assms(1), of t] assms(2) by (cases t) (simp_all add: add_scope_def)

lemma add_scopes:
  assumes "CHR ''#'' \<notin> set rid" and "t \<noteq> []"
  shows "foldl add_scope (rid @ CHR ''#'' # t) scopes = rid @ CHR ''#'' # join '','' (t # scopes)"
  using assms(2)
proof (induction scopes arbitrary: t)
  case Nil
  show ?case by simp
next
  case (Cons s scopes)
  have "foldl add_scope (rid @ CHR ''#'' # t) (s # scopes) = foldl add_scope (rid @ CHR ''#'' # (t @ '','' @ s)) scopes"
    using add_scope_later [OF assms(1) Cons.prems, of s] by simp
  also have "\<dots> = rid @ CHR ''#'' # join '','' ((t @ '','' @ s) # scopes)" by (rule Cons.IH) simp
  finally show ?case by (cases scopes) (simp_all add: join_Cons_ne)
qed

text \<open>For a resource id without a hash sign and non-empty scopes, the loop that builds a permission parameter gives the
  documented form \<open>id#scope,scope\<close>.\<close>

theorem permission_text_spec:
  assumes "ap_id p = Some rid" and "CHR ''#'' \<notin> set rid" and "ap_scopes p = Some scopes" and "[] \<notin> set scopes"
  shows "permission_text p = permission_spec rid scopes"
proof (cases scopes)
  case Nil
  then show ?thesis using assms by (simp add: permission_text_def permission_spec_def undef_str_def)
next
  case (Cons s ss)
  have "add_scope (rid @ ''#'') s = rid @ CHR ''#'' # s"
    using index_of_char_append [OF assms(2), of "[]"] by (simp add: add_scope_def)
  then show ?thesis
    using assms Cons add_scopes [OF assms(2), of s ss]
    by (auto simp: permission_text_def permission_spec_def undef_str_def)
qed

theorem permission_text_spec_witness:
  "permission_text \<lparr>ap_id = Some ''doc'', ap_scopes = Some [''view'', ''edit'']\<rparr> = ''doc#view,edit''"
  using permission_text_spec [of "\<lparr>ap_id = Some ''doc'', ap_scopes = Some [''view'', ''edit'']\<rparr>" "''doc''" "[''view'', ''edit'']"]
  by (simp add: permission_spec_def)

text \<open>An answer calls at most one of the callbacks of its request, and the requesting party token changes only with a
  successful answer: a denial or a failure keeps the token of before.\<close>

theorem rpt_response_outcome:
  assumes "rpt_response cbs r a = (Ok (), a')"
  shows "if 200 \<le> r_status r \<and> r_status r < 300
    then \<exists>j. JSON_parse (r_text r) = Ok j \<and> az_rpt a' = json_str (jget j ''access_token'') \<and>
      az_calls a' = az_calls a @ [Granted (az_rpt a')]
    else az_rpt a' = az_rpt a \<and>
      az_calls a' = az_calls a @ (if r_status r = 403 then (if ac_onDeny cbs then [Denied] else [])
        else (if ac_onError cbs then [Failed] else []))"
proof (cases "200 \<le> r_status r \<and> r_status r < 300")
  case True
  then obtain j t where j: "JSON_parse (r_text r) = Ok j" "jprop (Some j) ''access_token'' = Ok t"
    and a': "a' = authz_log (Granted (json_str t)) (a\<lparr>az_rpt := json_str t\<rparr>)"
    using assms by (auto simp: rpt_response_def comp_defs split: res.splits if_splits)
  have "t = jget j ''access_token''" using j(2) by (cases j) auto
  then show ?thesis using True j(1) a' by (simp add: authz_log_def)
next
  case False
  then show ?thesis using assms by (auto simp: rpt_response_def comp_defs authz_log_def split: if_splits)
qed

definition demo_authz :: authz where
  "demo_authz = \<lparr>az_rpt = Some ''r0'', az_config = Some (JObj [(''token_endpoint'', JStr ''t'')]), az_then = None, az_xhrs = [],
     az_calls = []\<rparr>"

theorem rpt_response_outcome_witness:
  "\<exists>a'. rpt_response \<lparr>ac_onGrant = True, ac_onDeny = True, ac_onError = False\<rparr> \<lparr>r_status = 403, r_text = [], r_url = []\<rparr> demo_authz =
       (Ok (), a') \<and> az_rpt a' = Some ''r0'' \<and> az_calls a' = [Denied]"
proof -
  let ?c = "\<lparr>ac_onGrant = True, ac_onDeny = True, ac_onError = False\<rparr>"
  obtain a' where r: "rpt_response ?c \<lparr>r_status = 403, r_text = [], r_url = []\<rparr> demo_authz = (Ok (), a')"
    by (simp add: rpt_response_def comp_defs)
  show ?thesis using rpt_response_outcome [OF r] r by (simp add: demo_authz_def)
qed

text \<open>\<open>then\<close> belongs to the client and not to the call that returned it: after a second \<open>authorize\<close> or
  \<open>entitlement\<close>, calling \<open>then\<close> on the result of the first sends the request of the second.\<close>

theorem then_is_shared:
  "call_then k cbs (entitlement server req2 (authorize req1 a)) = call_then k cbs (entitlement server req2 a)"
  by (simp add: entitlement_def authorize_def)

text \<open>A granted token is sent along with the next request, unless that request switches incremental authorization off.\<close>

theorem rpt_is_incremental:
  assumes "az_config a = Some (JObj m)" and "az_rpt a = Some rpt" and "rpt \<noteq> []" and "str_truthy (ar_ticket req)"
  shows "\<exists>x. az_xhrs (snd (call_then k cbs (authorize (Some req) a))) = az_xhrs a @ [x] \<and>
    ax_body x = Some (authorize_params k (req\<lparr>ar_incremental := Some False\<rparr>) None
      @ (if ar_incremental req = Some False then [] else ''&rpt='' @ rpt))"
  using assms
  by (simp add: call_then_def authorize_def comp_defs authz_send_def token_request_def authorize_params_def rpt_param_def
      str_truthy_def undef_str_def)

theorem rpt_is_incremental_witness:
  "\<exists>x. az_xhrs (snd (call_then (new_kc None) \<lparr>ac_onGrant = True, ac_onDeny = True, ac_onError = False\<rparr>
        (authorize (Some (empty_request\<lparr>ar_ticket := Some ''k''\<rparr>)) demo_authz))) = az_xhrs demo_authz @ [x] \<and>
     ax_body x = Some (authorize_params (new_kc None) (empty_request\<lparr>ar_ticket := Some ''k'', ar_incremental := Some False\<rparr>) None
       @ ''&rpt=r0'')"
  using rpt_is_incremental [of demo_authz "[(''token_endpoint'', JStr ''t'')]" "''r0''" "empty_request\<lparr>ar_ticket := Some ''k''\<rparr>"
      "new_kc None" "\<lparr>ac_onGrant = True, ac_onDeny = True, ac_onError = False\<rparr>"]
  by (simp add: demo_authz_def empty_request_def str_truthy_def)

end
