(* ===== verification/Console.thy ===== *)
theory Console
  imports Prelude
begin

section \<open>The admin console: shared services\<close>

text \<open>
  services.js of the admin theme: \<open>Dialog\<close> (5-110), \<open>CopyDialog\<close> (112-138) and \<open>Notifications\<close>
  (140-192), and the vocabulary that the theories of the admin console share. AngularJS itself (\<open>$http\<close>,
  \<open>$resource\<close>, \<open>$modal\<close>, \<open>$timeout\<close>, \<open>$location\<close>, \<open>$route\<close>) is third-party code: a call to it
  is an effect in a log, and the function given to it is a definition of its own that runs on the answer.
\<close>

subsection \<open>Effects of a controller\<close>

datatype 'b ui_effect =
    Request string string "(string \<times> string) list" 'b
  | GoTo string
  | Reload
  | HistoryBack
  | OpenUrl string string
  | Notify string string
  | ConfirmDelete string string
  | Confirm string string
  | ShowMessage string string

subsection \<open>Values that may be undefined or null\<close>

datatype 'a js = Undefined | JsNull | Val 'a

fun js_prop :: "('a \<Rightarrow> 'b) \<Rightarrow> 'a js \<Rightarrow> 'b res" where
  "js_prop f (Val x) = Ok (f x)"
| "js_prop f _ = Throw TypeError"

subsection \<open>Trimming\<close>

text \<open>\<open>s.trim()\<close> on ASCII white space.\<close>

definition white :: "char \<Rightarrow> bool" where
  "white c \<longleftrightarrow> c \<in> {CHR '' '', CHR 0x09, CHR 0x0A, CHR 0x0B, CHR 0x0C, CHR 0x0D}"

definition js_trim :: "string \<Rightarrow> string" where
  "js_trim s = rev (dropWhile white (rev (dropWhile white s)))"

subsection \<open>Splicing\<close>

text \<open>\<open>xs.splice(i, 1)\<close> for an index that was found.\<close>

definition splice1 :: "nat \<Rightarrow> 'a list \<Rightarrow> 'a list" where
  "splice1 i xs = take i xs @ drop (Suc i) xs"

text \<open>\<open>xs.splice(xs.indexOf(x), 1)\<close>: the index -1 of an absent element counts from the end, so the last element goes.\<close>

fun index_in :: "'a \<Rightarrow> 'a list \<Rightarrow> nat option" where
  "index_in x [] = None"
| "index_in x (y # ys) = (if y = x then Some 0 else map_option Suc (index_in x ys))"

definition splice_index_of :: "'a \<Rightarrow> 'a list \<Rightarrow> 'a list" where
  "splice_index_of x xs = (case index_in x xs of Some i \<Rightarrow> splice1 i xs | None \<Rightarrow> butlast xs)"

lemma index_in_None: "index_in x xs = None \<longleftrightarrow> x \<notin> set xs"
  by (induction xs) auto

lemma index_in_Some: "index_in x xs = Some i \<Longrightarrow> i < length xs \<and> xs ! i = x \<and> x \<notin> set (take i xs)"
  by (induction xs arbitrary: i) (auto split: if_splits)

lemma splice1_index_in: "index_in x xs = Some i \<Longrightarrow> splice1 i xs = remove1 x xs"
  by (induction xs arbitrary: i) (auto simp: splice1_def split: if_splits)

subsection \<open>Notifications\<close>

record notifications =
  nt_type :: "string option"
  nt_header :: "string option"
  nt_message :: "string option"
  nt_display :: bool
  nt_scheduled :: "nat option"
  nt_timers :: "nat list"
  nt_next :: nat

definition new_Notifications :: notifications where
  "new_Notifications = \<lparr>nt_type = None, nt_header = None, nt_message = None, nt_display = False, nt_scheduled = None,
     nt_timers = [], nt_next = 1\<rparr>"

definition notification_remove :: "notifications \<Rightarrow> notifications" where
  "notification_remove n =
     (let n = (case nt_scheduled n of
                 None \<Rightarrow> n
               | Some t \<Rightarrow> n\<lparr>nt_timers := filter (\<lambda>x. x \<noteq> t) (nt_timers n), nt_scheduled := None\<rparr>) in
      n\<lparr>nt_type := None, nt_header := None, nt_message := None, nt_display := False\<rparr>)"

definition notification_message :: "string \<Rightarrow> string \<Rightarrow> string \<Rightarrow> notifications \<Rightarrow> notifications" where
  "notification_message type header message n =
     (let n = notification_remove n;
          n = n\<lparr>nt_type := Some type, nt_header := Some header, nt_message := Some message, nt_display := True\<rparr> in
      n\<lparr>nt_scheduled := Some (nt_next n), nt_timers := nt_timers n @ [nt_next n], nt_next := Suc (nt_next n)\<rparr>)"

definition notification_info :: "string \<Rightarrow> notifications \<Rightarrow> notifications" where
  "notification_info = notification_message ''info'' ''Info!''"

definition notification_success :: "string \<Rightarrow> notifications \<Rightarrow> notifications" where
  "notification_success = notification_message ''success'' ''Success!''"

definition notification_error :: "string \<Rightarrow> notifications \<Rightarrow> notifications" where
  "notification_error = notification_message ''danger'' ''Error!''"

definition notification_warn :: "string \<Rightarrow> notifications \<Rightarrow> notifications" where
  "notification_warn = notification_message ''warning'' ''Warning!''"

text \<open>A timeout runs once; its function closes the notification.\<close>

definition notification_timeout :: "nat \<Rightarrow> notifications \<Rightarrow> notifications" where
  "notification_timeout t n = notification_remove (n\<lparr>nt_timers := filter (\<lambda>x. x \<noteq> t) (nt_timers n)\<rparr>)"

inductive notification_step :: "notifications \<Rightarrow> notifications \<Rightarrow> bool" where
  shown: "notification_step n (notification_message type header message n)"
| closed: "notification_step n (notification_remove n)"
| timed_out: "t \<in> set (nt_timers n) \<Longrightarrow> notification_step n (notification_timeout t n)"

inductive notification_reachable :: "notifications \<Rightarrow> bool" where
  fresh: "notification_reachable new_Notifications"
| step: "notification_reachable n \<Longrightarrow> notification_step n n' \<Longrightarrow> notification_reachable n'"

inductive_cases notification_stepE: "notification_step n n'"

definition notification_inv :: "notifications \<Rightarrow> bool" where
  "notification_inv n \<longleftrightarrow>
     (nt_display n \<longleftrightarrow> nt_scheduled n \<noteq> None) \<and> nt_timers n = (case nt_scheduled n of None \<Rightarrow> [] | Some t \<Rightarrow> [t]) \<and>
     (nt_display n \<longleftrightarrow> nt_message n \<noteq> None)"

lemma notification_remove_facts:
  assumes "notification_inv n"
  shows "nt_timers (notification_remove n) = []" "nt_scheduled (notification_remove n) = None"
    "\<not> nt_display (notification_remove n)" "nt_message (notification_remove n) = None"
  using assms by (auto simp: notification_remove_def notification_inv_def Let_def split: option.splits)

lemma notification_inv_message: "notification_inv n \<Longrightarrow> notification_inv (notification_message type header message n)"
  using notification_remove_facts [of n] by (simp add: notification_message_def Let_def) (simp add: notification_inv_def)

lemma notification_inv_remove: "notification_inv n \<Longrightarrow> notification_inv (notification_remove n)"
  by (frule notification_remove_facts) (simp add: notification_inv_def [of "notification_remove n"] notification_remove_facts)

lemma notification_inv_timeout:
  assumes "notification_inv n" and "t \<in> set (nt_timers n)"
  shows "notification_inv (notification_timeout t n)" and "\<not> nt_display (notification_timeout t n)"
  using assms
  by (auto simp: notification_timeout_def notification_remove_def notification_inv_def Let_def split: option.splits)

lemma notification_invariant: "notification_reachable n \<Longrightarrow> notification_inv n"
proof (induction rule: notification_reachable.induct)
  case fresh
  show ?case by (simp add: notification_inv_def new_Notifications_def)
next
  case (step n n')
  from step.hyps(2) step.IH show ?case
    by (auto elim!: notification_stepE simp: notification_inv_message notification_inv_remove notification_inv_timeout)
qed

text \<open>At any time a notification is shown exactly when one timeout is pending, the one that will close it: a new message
  cancels the timeout of the one it replaces, so it is never closed early by an older one.\<close>

theorem notification_one_timeout:
  "notification_reachable n \<Longrightarrow>
     nt_timers n = (if nt_display n then [the (nt_scheduled n)] else []) \<and> (nt_display n \<longleftrightarrow> nt_message n \<noteq> None)"
  using notification_invariant [of n] by (auto simp: notification_inv_def split: option.splits)

theorem notification_one_timeout_witness:
  "length (nt_timers (notification_success ''b'' (notification_error ''a'' new_Notifications))) = 1 \<and>
     nt_message (notification_success ''b'' (notification_error ''a'' new_Notifications)) = Some ''b''"
proof -
  have "notification_reachable (notification_success ''b'' (notification_error ''a'' new_Notifications))"
    unfolding notification_success_def notification_error_def
    by (rule notification_reachable.step [OF notification_reachable.step [OF notification_reachable.fresh notification_step.shown]
          notification_step.shown])
  from notification_one_timeout [OF this] show ?thesis
    by (simp add: notification_success_def notification_error_def notification_message_def Let_def)
qed

subsection \<open>Dialogs\<close>

record dialog_button =
  db_label :: string
  db_class :: string

record dialog =
  dl_title :: string
  dl_message :: string
  dl_ok :: dialog_button
  dl_cancel :: "dialog_button option"
  dl_template :: string

definition cancel_button :: dialog_button where
  "cancel_button = \<lparr>db_label = ''Cancel'', db_class = ''btn btn-default''\<rparr>"

definition danger_button :: "string \<Rightarrow> dialog_button" where
  "danger_button label = \<lparr>db_label = label, db_class = ''btn btn-danger''\<rparr>"

text \<open>\<open>escapeHtml\<close> through a text node: the serialisation of a text node escapes ampersands, angle brackets and the
  no-break space (the bytes C2 A0).\<close>

fun escapeHtml :: "string \<Rightarrow> string" where
  "escapeHtml [] = []"
| "escapeHtml (c # s) =
     (if c = CHR ''&'' then ''&amp;'' @ escapeHtml s
      else if c = CHR ''<'' then ''&lt;'' @ escapeHtml s
      else if c = CHR ''>'' then ''&gt;'' @ escapeHtml s
      else if c = CHR 0xC2 \<and> take 1 s = [CHR 0xA0] then ''&nbsp;'' @ escapeHtml (tl s)
      else c # escapeHtml s)"

definition upper_char :: "char \<Rightarrow> char" where
  "upper_char c = (if 97 \<le> (of_char c :: nat) \<and> (of_char c :: nat) \<le> 122 then char_of (of_char c - 32 :: nat) else c)"

text \<open>\<open>s.charAt(0).toUpperCase() + s.slice(1)\<close>, on a first character that is ASCII.\<close>

definition capitalize :: "string \<Rightarrow> string" where
  "capitalize s = map upper_char (take 1 s) @ drop 1 s"

definition confirmDelete :: "string \<Rightarrow> string \<Rightarrow> dialog" where
  "confirmDelete name type =
     \<lparr>dl_title = ''Delete '' @ escapeHtml (capitalize type),
      dl_message = ''Are you sure you want to permanently delete the '' @ type @ '' '' @ name @ ''?'',
      dl_ok = danger_button ''Delete'', dl_cancel = Some cancel_button, dl_template = ''/templates/kc-modal.html''\<rparr>"

definition confirmGenerateKeys :: "string \<Rightarrow> dialog" where
  "confirmGenerateKeys name =
     \<lparr>dl_title = ''Generate new keys for realm'',
      dl_message = ''Are you sure you want to permanently generate new keys for '' @ name @ ''?'',
      dl_ok = danger_button ''Generate Keys'', dl_cancel = Some cancel_button, dl_template = ''/templates/kc-modal.html''\<rparr>"

definition dialog_confirm :: "string \<Rightarrow> string \<Rightarrow> dialog" where
  "dialog_confirm title message =
     \<lparr>dl_title = title, dl_message = message, dl_ok = danger_button title, dl_cancel = Some cancel_button,
      dl_template = ''/templates/kc-modal.html''\<rparr>"

definition dialog_message :: "string \<Rightarrow> string \<Rightarrow> dialog" where
  "dialog_message title message =
     \<lparr>dl_title = title, dl_message = message, dl_ok = \<lparr>db_label = ''Ok'', db_class = ''btn btn-default''\<rparr>, dl_cancel = None,
      dl_template = ''/templates/kc-modal-message.html''\<rparr>"

text \<open>The name the copy dialog suggests.\<close>

definition copy_dialog_name :: "string \<Rightarrow> string" where
  "copy_dialog_name suggested = ''Copy of '' @ suggested"

text \<open>Escaped text holds no markup: no angle bracket, and every ampersand starts one of the four entities.\<close>

lemma escapeHtml_no_tags: "CHR ''<'' \<notin> set (escapeHtml s) \<and> CHR ''>'' \<notin> set (escapeHtml s)"
  by (induction s rule: escapeHtml.induct) auto

end
