(* ===== verification/Http.thy ===== *)
theory Http
  imports Console Demo
begin

section \<open>The admin console: requests\<close>

text \<open>
  app.js: the interceptors every request of the console goes through. \<open>authInterceptor\<close> (99-120) calls
  \<open>updateToken\<close> of the adapter and adds the token, the transformation at 2035-2044 and \<open>spinnerInterceptor\<close>
  (2052-2078) show a busy sign while requests are under way, and \<open>errorInterceptor\<close> (2080-2106) turns failures into
  navigation and notifications.
\<close>

subsection \<open>The token of a request\<close>

text \<open>The regular expression \<open>/.html$/\<close>: any character, then \<open>html\<close> at the end.\<close>

definition html_url :: "string \<Rightarrow> bool" where
  "html_url url \<longleftrightarrow> 4 < length url \<and> suffix ''html'' url"

text \<open>A request for a template passes; another one waits for the promise of \<open>updateToken\<close>, or forever when nobody is signed in.\<close>

datatype auth_wait = PassThrough | Waiting pid | WaitingForever

definition auth_request :: "string \<Rightarrow> (world, auth_wait) comp" where
  "auth_request url w =
     (if html_url url then (Ok PassThrough, w)
      else if str_truthy (kc_token (w_kc w)) then comp_bind (updateToken (Some 5)) (\<lambda>p. comp_ret (Waiting p)) w
      else (Ok WaitingForever, w))"

text \<open>When the promise is fulfilled the request is sent with the token of that moment; when it is rejected the page is reloaded.\<close>

datatype auth_decision = SendWith "(string \<times> string) list" | ReloadPage | StillWaiting

definition auth_decide :: "(string \<times> string) list option \<Rightarrow> auth_wait \<Rightarrow> world \<Rightarrow> auth_decision" where
  "auth_decide headers a w =
     (case a of
        PassThrough \<Rightarrow> SendWith (case headers of None \<Rightarrow> [] | Some hs \<Rightarrow> hs)
      | WaitingForever \<Rightarrow> StillWaiting
      | Waiting p \<Rightarrow>
          (case promise_status p w of
             Pending \<Rightarrow> StillWaiting
           | Rejected v \<Rightarrow> ReloadPage
           | Fulfilled v \<Rightarrow>
               SendWith (filter (\<lambda>h. fst h \<noteq> ''Authorization'') (case headers of None \<Rightarrow> [] | Some hs \<Rightarrow> hs)
                         @ [(''Authorization'', ''Bearer '' @ undef_str (kc_token (w_kc w)))])))"

lemma alloc_status: "alloc w = (Ok p, w') \<Longrightarrow> p = length (w_promises w) \<and> promise_pending p w' \<and> w_kc w' = w_kc w \<and>
    w_env w' = w_env w \<and> w_iframe w' = w_iframe w \<and> w_xhrs w' = w_xhrs w"
  by (auto simp: alloc_def new_promise_def promise_pending_def createNativePromise_def)

text \<open>With a token that is valid for five more seconds, and the session iframe off, a request of the console is not held up: no
  refresh is sent and the request goes out with the token the user has.\<close>

theorem console_request_sent:
  assumes "\<not> html_url url" and "str_truthy (kc_token (w_kc w))" and "str_truthy (kc_refreshToken (w_kc w))"
    and "\<not> li_enable (w_iframe w)" and "refresh_needed 5 w = Ok False"
  shows "\<exists>a w'. auth_request url w = (Ok a, w') \<and> w_xhrs w' = w_xhrs w \<and>
    auth_decide None a w' = SendWith [(''Authorization'', ''Bearer '' @ undef_str (kc_token (w_kc w)))]"
proof -
  obtain p w1 where a: "alloc w = (Ok p, w1)" by (auto simp: alloc_def new_promise_def)
  note s = alloc_status [OF a]
  have need: "refresh_needed 5 w1 = Ok False" using assms(5) s by (simp add: refresh_needed_def split: if_splits)
  let ?w' = "setSuccess p (VBool False) w1"
  have "auth_request url w = (Ok (Waiting p), ?w')"
    using assms(1-4) s a need
    by (simp add: auth_request_def updateToken_def update_exec_def comp_defs Let_def)
  moreover have "promise_status p ?w' = Fulfilled (VBool False)" using s by (auto simp: status_settle)
  moreover have "w_kc ?w' = w_kc w" "w_xhrs ?w' = w_xhrs w" using s by (simp_all add: promise_ops split_beta)
  ultimately show ?thesis by (intro exI [of _ "Waiting p"] exI [of _ ?w']) (simp add: auth_decide_def)
qed

definition demo_console :: world where
  "demo_console = demo_signed\<lparr>w_kc := (w_kc demo_signed)\<lparr>kc_timeSkew := Some (Num 0)\<rparr>\<rparr>"

theorem console_request_sent_witness:
  "\<exists>a w'. auth_request ''/admin/realms'' demo_console = (Ok a, w') \<and> w_xhrs w' = w_xhrs demo_console \<and>
     auth_decide None a w' = SendWith [(''Authorization'', ''Bearer h.e30.s'')]"
proof -
  have "refresh_needed 5 demo_console = Ok False"
    by (simp add: refresh_needed_def demo_console_def demo_signed_def isTokenExpired_def expires_in_def opt_number_def demo_world eval_ops)
  moreover have "\<not> html_url ''/admin/realms''" by code_simp
  moreover have k: "kc_token (w_kc demo_console) = Some ''h.e30.s''" "kc_refreshToken (w_kc demo_console) = Some ''h.e30.s''"
    "\<not> li_enable (w_iframe demo_console)"
    by (simp_all add: demo_console_def demo_signed_def demo_world)
  ultimately show ?thesis using console_request_sent [of "''/admin/realms''" demo_console] by (simp add: k str_truthy_def undef_str_def)
qed

subsection \<open>The busy sign\<close>

text \<open>\<open>sp_timer\<close> is the variable \<open>loadingTimer\<close>, with \<open>None\<close> for -1; \<open>sp_timeouts\<close> are the timeouts of the browser that
  still have to run.\<close>

record spinner =
  sp_requests :: int
  sp_timer :: "nat option"
  sp_timeouts :: "nat list"
  sp_next :: nat
  sp_shown :: bool

definition new_spinner :: spinner where
  "new_spinner = \<lparr>sp_requests = 0, sp_timer = None, sp_timeouts = [], sp_next = 1, sp_shown = False\<rparr>"

definition spinnerFunction :: "spinner \<Rightarrow> spinner" where
  "spinnerFunction s =
     (let s = (if sp_requests s = 0 then
                 s\<lparr>sp_timer := Some (sp_next s), sp_timeouts := sp_timeouts s @ [sp_next s], sp_next := Suc (sp_next s)\<rparr>
               else s) in
      s\<lparr>sp_requests := sp_requests s + 1\<rparr>)"

definition spinner_timeout :: "nat \<Rightarrow> spinner \<Rightarrow> spinner" where
  "spinner_timeout t s = s\<lparr>sp_timeouts := filter (\<lambda>x. x \<noteq> t) (sp_timeouts s), sp_shown := True, sp_timer := None\<rparr>"

text \<open>The interceptor does the same for a response and for an error, which it passes on.\<close>

definition spinner_response :: "spinner \<Rightarrow> spinner" where
  "spinner_response s =
     (let s = s\<lparr>sp_requests := sp_requests s - 1\<rparr> in
      if sp_requests s = 0 then
        (let s = (case sp_timer s of
                    None \<Rightarrow> s
                  | Some t \<Rightarrow> s\<lparr>sp_timeouts := filter (\<lambda>x. x \<noteq> t) (sp_timeouts s), sp_timer := None\<rparr>) in
         s\<lparr>sp_shown := False\<rparr>)
      else s)"

text \<open>A response belongs to a request under way.\<close>

inductive spinner_step :: "spinner \<Rightarrow> spinner \<Rightarrow> bool" where
  request: "spinner_step s (spinnerFunction s)"
| response: "0 < sp_requests s \<Longrightarrow> spinner_step s (spinner_response s)"
| timeout: "t \<in> set (sp_timeouts s) \<Longrightarrow> spinner_step s (spinner_timeout t s)"

inductive spinner_reachable :: "spinner \<Rightarrow> bool" where
  start: "spinner_reachable new_spinner"
| step: "spinner_reachable s \<Longrightarrow> spinner_step s s' \<Longrightarrow> spinner_reachable s'"

definition spinner_inv :: "spinner \<Rightarrow> bool" where
  "spinner_inv s \<longleftrightarrow>
     0 \<le> sp_requests s \<and> sp_timeouts s = (case sp_timer s of None \<Rightarrow> [] | Some t \<Rightarrow> [t]) \<and>
     (if sp_requests s = 0 then sp_timer s = None \<and> \<not> sp_shown s else sp_shown s \<longleftrightarrow> sp_timer s = None)"

lemma spinner_inv_step: "spinner_step s s' \<Longrightarrow> spinner_inv s \<Longrightarrow> spinner_inv s'"
  by (induction rule: spinner_step.induct)
    (auto simp: spinner_inv_def spinnerFunction_def spinner_response_def spinner_timeout_def Let_def split: option.splits if_splits)

lemma spinner_invariant: "spinner_reachable s \<Longrightarrow> spinner_inv s"
proof (induction rule: spinner_reachable.induct)
  case start
  show ?case by (simp add: spinner_inv_def new_spinner_def)
next
  case (step s s')
  from step.hyps(2) step.IH show ?case by (rule spinner_inv_step)
qed

text \<open>The busy sign is shown only while requests are under way, and no timeout is left that could show it later: as soon as all
  requests are answered it is hidden and its timeout cancelled, and while some are under way it is shown or its one timeout is pending.\<close>

theorem spinner_hidden_when_idle:
  "spinner_reachable s \<Longrightarrow>
     (sp_requests s = 0 \<longrightarrow> \<not> sp_shown s \<and> sp_timeouts s = []) \<and>
     (sp_requests s \<noteq> 0 \<longrightarrow> sp_shown s \<noteq> (length (sp_timeouts s) = 1)) \<and> 0 \<le> sp_requests s"
  using spinner_invariant [of s] by (auto simp: spinner_inv_def split: option.splits if_splits)

theorem spinner_hidden_when_idle_witness:
  "sp_requests (spinnerFunction new_spinner) = 1 \<and> \<not> sp_shown (spinnerFunction new_spinner) \<and>
     sp_shown (spinnerFunction new_spinner) \<noteq> (length (sp_timeouts (spinnerFunction new_spinner)) = 1)"
proof -
  have "spinner_reachable (spinnerFunction new_spinner)"
    by (rule spinner_reachable.step [OF spinner_reachable.start spinner_step.request])
  from spinner_hidden_when_idle [OF this] show ?thesis by (simp add: spinnerFunction_def new_spinner_def)
qed

subsection \<open>Errors\<close>

record error_response =
  er_status :: int
  er_errorMessage :: "string option"
  er_error_description :: "string option"

datatype error_effect = Logout | OpenPath string | ShowError string

text \<open>Status 0 stands for a request without an answer. The response is rejected again in every case.\<close>

definition responseError :: "error_response \<Rightarrow> error_effect" where
  "responseError r =
     (if er_status r = 401 then Logout
      else if er_status r = 403 then OpenPath ''/forbidden''
      else if er_status r = 404 then OpenPath ''/notfound''
      else if er_status r \<noteq> 0 then
        (if str_truthy (er_errorMessage r) then ShowError (undef_str (er_errorMessage r))
         else if str_truthy (er_error_description r) then ShowError (undef_str (er_error_description r))
         else ShowError ''An unexpected server error has occurred'')
      else ShowError ''No response from server.'')"

end
