(* ===== verification/Resources.thy ===== *)
theory Resources
  imports Prelude
begin

section \<open>The admin console: REST resources\<close>

text \<open>
  The \<open>$resource\<close> factories of services.js and authz/authz-services.js, one definition each. It
  holds the arguments of the call: the URL template after \<open>authUrl\<close>, the default parameters
  (the value \<open>@f\<close> means the field \<open>f\<close> of the object that is sent) and the extra actions.
  Where a factory makes an object of several resources or of actions of such resources, there is one
  definition for each field. The three factories whose actions hold functions (\<open>RealmLDAPConnectionTester\<close>,
  \<open>GroupsCount\<close>, \<open>Components\<close>) come first, and without those functions. \<open>$resource\<close> itself
  is a library function: the statements below are about what the console passes to it.
\<close>

record resource_action =
  ra_method :: string
  ra_url :: "string option"
  ra_params :: "(string \<times> string) list"
  ra_isArray :: "bool option"
  ra_responseType :: "string option"

record resource =
  rs_url :: string
  rs_params :: "(string \<times> string) list"
  rs_actions :: "(string \<times> resource_action) list"

definition method_action :: "string \<Rightarrow> resource_action" where
  "method_action method = \<lparr>ra_method = method, ra_url = None, ra_params = [], ra_isArray = None, ra_responseType = None\<rparr>"

subsection \<open>The factories\<close>

definition RealmLDAPConnectionTester :: resource where
  "RealmLDAPConnectionTester =
     \<lparr>rs_url = ''/admin/realms/:realm/testLDAPConnection'',
       rs_params = [(''realm'', ''@realm'')],
       rs_actions = [(''save'', method_action ''POST'')]\<rparr>"

definition GroupsCount :: resource where
  "GroupsCount =
     \<lparr>rs_url = ''/admin/realms/:realm/groups/count'',
       rs_params = [(''realm'', ''@realm'')],
       rs_actions = [(''query'', (method_action ''GET'')\<lparr>ra_isArray := Some False\<rparr>)]\<rparr>"

definition Components :: resource where
  "Components =
     \<lparr>rs_url = ''/admin/realms/:realm/components/:componentId'',
       rs_params = [(''realm'', ''@realm''), (''componentId'', ''@componentId'')],
       rs_actions = [(''update'', method_action ''PUT''), (''save'', method_action ''POST'')]\<rparr>"

definition Realm :: resource where
  "Realm =
    \<lparr>rs_url = ''/admin/realms/:id'',
       rs_params = [(''id'', ''@realm'')],
       rs_actions = [(''update'', method_action ''PUT''),
         (''create'', \<lparr>ra_method = ''POST'', ra_url = None,
           ra_params = [(''id'', '''')], ra_isArray = None, ra_responseType = None\<rparr>)]\<rparr>"

definition RealmKeys :: resource where
  "RealmKeys =
    \<lparr>rs_url = ''/admin/realms/:id/keys'',
       rs_params = [(''id'', ''@realm'')],
       rs_actions = []\<rparr>"

definition RealmEventsConfig :: resource where
  "RealmEventsConfig =
    \<lparr>rs_url = ''/admin/realms/:id/events/config'',
       rs_params = [(''id'', ''@realm'')],
       rs_actions = [(''update'', method_action ''PUT'')]\<rparr>"

definition RealmEvents :: resource where
  "RealmEvents =
    \<lparr>rs_url = ''/admin/realms/:id/events'',
       rs_params = [(''id'', ''@realm'')],
       rs_actions = []\<rparr>"

definition RealmAdminEvents :: resource where
  "RealmAdminEvents =
    \<lparr>rs_url = ''/admin/realms/:id/admin-events'',
       rs_params = [(''id'', ''@realm'')],
       rs_actions = []\<rparr>"

definition BruteForce :: resource where
  "BruteForce =
    \<lparr>rs_url = ''/admin/realms/:realm/attack-detection/brute-force/users'',
       rs_params = [(''realm'', ''@realm'')],
       rs_actions = []\<rparr>"

definition BruteForceUser :: resource where
  "BruteForceUser =
    \<lparr>rs_url = ''/admin/realms/:realm/attack-detection/brute-force/users/:userId'',
       rs_params = [(''realm'', ''@realm''), (''userId'', ''@userId'')],
       rs_actions = []\<rparr>"

definition RequiredActions :: resource where
  "RequiredActions =
    \<lparr>rs_url = ''/admin/realms/:realm/authentication/required-actions/:alias'',
       rs_params = [(''realm'', ''@realm''), (''alias'', ''@alias'')],
       rs_actions = [(''update'', method_action ''PUT'')]\<rparr>"

definition RequiredActionRaisePriority :: resource where
  "RequiredActionRaisePriority =
    \<lparr>rs_url = ''/admin/realms/:realm/authentication/required-actions/:alias/raise-priority'',
       rs_params = [(''realm'', ''@realm''), (''alias'', ''@alias'')],
       rs_actions = []\<rparr>"

definition RequiredActionLowerPriority :: resource where
  "RequiredActionLowerPriority =
    \<lparr>rs_url = ''/admin/realms/:realm/authentication/required-actions/:alias/lower-priority'',
       rs_params = [(''realm'', ''@realm''), (''alias'', ''@alias'')],
       rs_actions = []\<rparr>"

definition UnregisteredRequiredActions :: resource where
  "UnregisteredRequiredActions =
    \<lparr>rs_url = ''/admin/realms/:realm/authentication/unregistered-required-actions'',
       rs_params = [(''realm'', ''@realm'')],
       rs_actions = []\<rparr>"

definition RegisterRequiredAction :: resource where
  "RegisterRequiredAction =
    \<lparr>rs_url = ''/admin/realms/:realm/authentication/register-required-action'',
       rs_params = [(''realm'', ''@realm'')],
       rs_actions = []\<rparr>"

definition RealmSMTPConnectionTester :: resource where
  "RealmSMTPConnectionTester =
    \<lparr>rs_url = ''/admin/realms/:realm/testSMTPConnection/:config'',
       rs_params = [(''realm'', ''@realm''), (''config'', ''@config'')],
       rs_actions = [(''send'', method_action ''POST'')]\<rparr>"

definition ClientInitialAccess :: resource where
  "ClientInitialAccess =
    \<lparr>rs_url = ''/admin/realms/:realm/clients-initial-access/:id'',
       rs_params = [(''realm'', ''@realm''), (''id'', ''@id'')],
       rs_actions = []\<rparr>"

definition ClientProtocolMapper :: resource where
  "ClientProtocolMapper =
    \<lparr>rs_url = ''/admin/realms/:realm/clients/:client/protocol-mappers/models/:id'',
       rs_params = [(''realm'', ''@realm''), (''client'', ''@client''), (''id'', ''@id'')],
       rs_actions = [(''update'', method_action ''PUT'')]\<rparr>"

definition ClientScopeProtocolMapper :: resource where
  "ClientScopeProtocolMapper =
    \<lparr>rs_url = ''/admin/realms/:realm/client-scopes/:clientScope/protocol-mappers/models/:id'',
       rs_params = [(''realm'', ''@realm''), (''clientScope'', ''@clientScope''), (''id'', ''@id'')],
       rs_actions = [(''update'', method_action ''PUT'')]\<rparr>"

definition User :: resource where
  "User =
    \<lparr>rs_url = ''/admin/realms/:realm/users/:userId'',
       rs_params = [(''realm'', ''@realm''), (''userId'', ''@userId'')],
       rs_actions = [(''update'', method_action ''PUT'')]\<rparr>"

definition UserSessionStats :: resource where
  "UserSessionStats =
    \<lparr>rs_url = ''/admin/realms/:realm/users/:user/session-stats'',
       rs_params = [(''realm'', ''@realm''), (''user'', ''@user'')],
       rs_actions = []\<rparr>"

definition UserSessions :: resource where
  "UserSessions =
    \<lparr>rs_url = ''/admin/realms/:realm/users/:user/sessions'',
       rs_params = [(''realm'', ''@realm''), (''user'', ''@user'')],
       rs_actions = []\<rparr>"

definition UserOfflineSessions :: resource where
  "UserOfflineSessions =
    \<lparr>rs_url = ''/admin/realms/:realm/users/:user/offline-sessions/:client'',
       rs_params = [(''realm'', ''@realm''), (''user'', ''@user''), (''client'', ''@client'')],
       rs_actions = []\<rparr>"

definition UserSessionLogout :: resource where
  "UserSessionLogout =
    \<lparr>rs_url = ''/admin/realms/:realm/sessions/:session'',
       rs_params = [(''realm'', ''@realm''), (''session'', ''@session'')],
       rs_actions = []\<rparr>"

definition UserLogout :: resource where
  "UserLogout =
    \<lparr>rs_url = ''/admin/realms/:realm/users/:user/logout'',
       rs_params = [(''realm'', ''@realm''), (''user'', ''@user'')],
       rs_actions = []\<rparr>"

definition UserFederatedIdentities :: resource where
  "UserFederatedIdentities =
    \<lparr>rs_url = ''/admin/realms/:realm/users/:user/federated-identity'',
       rs_params = [(''realm'', ''@realm''), (''user'', ''@user'')],
       rs_actions = []\<rparr>"

definition UserFederatedIdentity :: resource where
  "UserFederatedIdentity =
    \<lparr>rs_url = ''/admin/realms/:realm/users/:user/federated-identity/:provider'',
       rs_params = [(''realm'', ''@realm''), (''user'', ''@user''), (''provider'', ''@provider'')],
       rs_actions = []\<rparr>"

definition UserConsents :: resource where
  "UserConsents =
    \<lparr>rs_url = ''/admin/realms/:realm/users/:user/consents/:client'',
       rs_params = [(''realm'', ''@realm''), (''user'', ''@user''), (''client'', ''@client'')],
       rs_actions = []\<rparr>"

definition UserImpersonation :: resource where
  "UserImpersonation =
    \<lparr>rs_url = ''/admin/realms/:realm/users/:user/impersonation'',
       rs_params = [(''realm'', ''@realm''), (''user'', ''@user'')],
       rs_actions = []\<rparr>"

definition UserCredentials_resetPassword :: resource where
  "UserCredentials_resetPassword =
    \<lparr>rs_url = ''/admin/realms/:realm/users/:userId/reset-password'',
       rs_params = [(''realm'', ''@realm''), (''userId'', ''@userId'')],
       rs_actions = [(''update'', method_action ''PUT'')]\<rparr>"

definition UserCredentials_removeTotp :: resource where
  "UserCredentials_removeTotp =
    \<lparr>rs_url = ''/admin/realms/:realm/users/:userId/remove-totp'',
       rs_params = [(''realm'', ''@realm''), (''userId'', ''@userId'')],
       rs_actions = [(''update'', method_action ''PUT'')]\<rparr>"

definition UserCredentials_disableCredentialTypes :: resource where
  "UserCredentials_disableCredentialTypes =
    \<lparr>rs_url = ''/admin/realms/:realm/users/:userId/disable-credential-types'',
       rs_params = [(''realm'', ''@realm''), (''userId'', ''@userId'')],
       rs_actions = [(''update'', method_action ''PUT'')]\<rparr>"

definition UserExecuteActionsEmail :: resource where
  "UserExecuteActionsEmail =
    \<lparr>rs_url = ''/admin/realms/:realm/users/:userId/execute-actions-email'',
       rs_params = [(''realm'', ''@realm''), (''userId'', ''@userId''), (''lifespan'', ''@lifespan'')],
       rs_actions = [(''update'', method_action ''PUT'')]\<rparr>"

definition RealmRoleMapping :: resource where
  "RealmRoleMapping =
    \<lparr>rs_url = ''/admin/realms/:realm/users/:userId/role-mappings/realm'',
       rs_params = [(''realm'', ''@realm''), (''userId'', ''@userId'')],
       rs_actions = []\<rparr>"

definition CompositeRealmRoleMapping :: resource where
  "CompositeRealmRoleMapping =
    \<lparr>rs_url = ''/admin/realms/:realm/users/:userId/role-mappings/realm/composite'',
       rs_params = [(''realm'', ''@realm''), (''userId'', ''@userId'')],
       rs_actions = []\<rparr>"

definition AvailableRealmRoleMapping :: resource where
  "AvailableRealmRoleMapping =
    \<lparr>rs_url = ''/admin/realms/:realm/users/:userId/role-mappings/realm/available'',
       rs_params = [(''realm'', ''@realm''), (''userId'', ''@userId'')],
       rs_actions = []\<rparr>"

definition ClientRoleMapping :: resource where
  "ClientRoleMapping =
    \<lparr>rs_url = ''/admin/realms/:realm/users/:userId/role-mappings/clients/:client'',
       rs_params = [(''realm'', ''@realm''), (''userId'', ''@userId''), (''client'', ''@client'')],
       rs_actions = []\<rparr>"

definition AvailableClientRoleMapping :: resource where
  "AvailableClientRoleMapping =
    \<lparr>rs_url = ''/admin/realms/:realm/users/:userId/role-mappings/clients/:client/available'',
       rs_params = [(''realm'', ''@realm''), (''userId'', ''@userId''), (''client'', ''@client'')],
       rs_actions = []\<rparr>"

definition CompositeClientRoleMapping :: resource where
  "CompositeClientRoleMapping =
    \<lparr>rs_url = ''/admin/realms/:realm/users/:userId/role-mappings/clients/:client/composite'',
       rs_params = [(''realm'', ''@realm''), (''userId'', ''@userId''), (''client'', ''@client'')],
       rs_actions = []\<rparr>"

definition ClientRealmScopeMapping :: resource where
  "ClientRealmScopeMapping =
    \<lparr>rs_url = ''/admin/realms/:realm/clients/:client/scope-mappings/realm'',
       rs_params = [(''realm'', ''@realm''), (''client'', ''@client'')],
       rs_actions = []\<rparr>"

definition ClientAvailableRealmScopeMapping :: resource where
  "ClientAvailableRealmScopeMapping =
    \<lparr>rs_url = ''/admin/realms/:realm/clients/:client/scope-mappings/realm/available'',
       rs_params = [(''realm'', ''@realm''), (''client'', ''@client'')],
       rs_actions = []\<rparr>"

definition ClientCompositeRealmScopeMapping :: resource where
  "ClientCompositeRealmScopeMapping =
    \<lparr>rs_url = ''/admin/realms/:realm/clients/:client/scope-mappings/realm/composite'',
       rs_params = [(''realm'', ''@realm''), (''client'', ''@client'')],
       rs_actions = []\<rparr>"

definition ClientClientScopeMapping :: resource where
  "ClientClientScopeMapping =
    \<lparr>rs_url = ''/admin/realms/:realm/clients/:client/scope-mappings/clients/:targetClient'',
       rs_params = [(''realm'', ''@realm''), (''client'', ''@client''), (''targetClient'', ''@targetClient'')],
       rs_actions = []\<rparr>"

definition ClientAvailableClientScopeMapping :: resource where
  "ClientAvailableClientScopeMapping =
    \<lparr>rs_url = ''/admin/realms/:realm/clients/:client/scope-mappings/clients/:targetClient/available'',
       rs_params = [(''realm'', ''@realm''), (''client'', ''@client''), (''targetClient'', ''@targetClient'')],
       rs_actions = []\<rparr>"

definition ClientCompositeClientScopeMapping :: resource where
  "ClientCompositeClientScopeMapping =
    \<lparr>rs_url = ''/admin/realms/:realm/clients/:client/scope-mappings/clients/:targetClient/composite'',
       rs_params = [(''realm'', ''@realm''), (''client'', ''@client''), (''targetClient'', ''@targetClient'')],
       rs_actions = []\<rparr>"

definition RealmRoles :: resource where
  "RealmRoles =
    \<lparr>rs_url = ''/admin/realms/:realm/roles'',
       rs_params = [(''realm'', ''@realm'')],
       rs_actions = []\<rparr>"

definition RoleRealmComposites :: resource where
  "RoleRealmComposites =
    \<lparr>rs_url = ''/admin/realms/:realm/roles-by-id/:role/composites/realm'',
       rs_params = [(''realm'', ''@realm''), (''role'', ''@role'')],
       rs_actions = []\<rparr>"

definition RealmPushRevocation :: resource where
  "RealmPushRevocation =
    \<lparr>rs_url = ''/admin/realms/:realm/push-revocation'',
       rs_params = [(''realm'', ''@realm'')],
       rs_actions = []\<rparr>"

definition RealmClearUserCache :: resource where
  "RealmClearUserCache =
    \<lparr>rs_url = ''/admin/realms/:realm/clear-user-cache'',
       rs_params = [(''realm'', ''@realm'')],
       rs_actions = []\<rparr>"

definition RealmClearRealmCache :: resource where
  "RealmClearRealmCache =
    \<lparr>rs_url = ''/admin/realms/:realm/clear-realm-cache'',
       rs_params = [(''realm'', ''@realm'')],
       rs_actions = []\<rparr>"

definition RealmClearKeysCache :: resource where
  "RealmClearKeysCache =
    \<lparr>rs_url = ''/admin/realms/:realm/clear-keys-cache'',
       rs_params = [(''realm'', ''@realm'')],
       rs_actions = []\<rparr>"

definition RealmSessionStats :: resource where
  "RealmSessionStats =
    \<lparr>rs_url = ''/admin/realms/:realm/session-stats'',
       rs_params = [(''realm'', ''@realm'')],
       rs_actions = []\<rparr>"

definition RealmClientSessionStats :: resource where
  "RealmClientSessionStats =
    \<lparr>rs_url = ''/admin/realms/:realm/client-session-stats'',
       rs_params = [(''realm'', ''@realm'')],
       rs_actions = []\<rparr>"

definition RoleClientComposites :: resource where
  "RoleClientComposites =
    \<lparr>rs_url = ''/admin/realms/:realm/roles-by-id/:role/composites/clients/:client'',
       rs_params = [(''realm'', ''@realm''), (''role'', ''@role''), (''client'', ''@client'')],
       rs_actions = []\<rparr>"

definition Role :: resource where
  "Role =
    \<lparr>rs_url = ''/admin/realms/:realm/roles/:role'',
       rs_params = [(''realm'', ''@realm''), (''role'', ''@role'')],
       rs_actions = [(''update'', method_action ''PUT'')]\<rparr>"

definition RoleById :: resource where
  "RoleById =
    \<lparr>rs_url = ''/admin/realms/:realm/roles-by-id/:role'',
       rs_params = [(''realm'', ''@realm''), (''role'', ''@role'')],
       rs_actions = [(''update'', method_action ''PUT'')]\<rparr>"

definition ClientRole :: resource where
  "ClientRole =
    \<lparr>rs_url = ''/admin/realms/:realm/clients/:client/roles/:role'',
       rs_params = [(''realm'', ''@realm''), (''client'', ''@client''), (''role'', ''@role'')],
       rs_actions = [(''update'', method_action ''PUT'')]\<rparr>"

definition ClientDefaultClientScopes :: resource where
  "ClientDefaultClientScopes =
    \<lparr>rs_url = ''/admin/realms/:realm/clients/:client/default-client-scopes/:clientScopeId'',
       rs_params = [(''realm'', ''@realm''), (''client'', ''@client''), (''clientScopeId'', ''@clientScopeId'')],
       rs_actions = [(''update'', method_action ''PUT'')]\<rparr>"

definition ClientOptionalClientScopes :: resource where
  "ClientOptionalClientScopes =
    \<lparr>rs_url = ''/admin/realms/:realm/clients/:client/optional-client-scopes/:clientScopeId'',
       rs_params = [(''realm'', ''@realm''), (''client'', ''@client''), (''clientScopeId'', ''@clientScopeId'')],
       rs_actions = [(''update'', method_action ''PUT'')]\<rparr>"

definition ClientEvaluateProtocolMappers :: resource where
  "ClientEvaluateProtocolMappers =
    \<lparr>rs_url = ''/admin/realms/:realm/clients/:client/evaluate-scopes/protocol-mappers?scope=:scopeParam'',
       rs_params = [(''realm'', ''@realm''), (''client'', ''@client''), (''scopeParam'', ''@scopeParam'')],
       rs_actions = []\<rparr>"

definition ClientEvaluateGrantedRoles :: resource where
  "ClientEvaluateGrantedRoles =
    \<lparr>rs_url = ''/admin/realms/:realm/clients/:client/evaluate-scopes/scope-mappings/:roleContainer/granted?scope=:scopeParam'',
       rs_params = [(''realm'', ''@realm''), (''client'', ''@client''), (''roleContainer'', ''@roleContainer''), (''scopeParam'', ''@scopeParam'')],
       rs_actions = []\<rparr>"

definition ClientEvaluateNotGrantedRoles :: resource where
  "ClientEvaluateNotGrantedRoles =
    \<lparr>rs_url = ''/admin/realms/:realm/clients/:client/evaluate-scopes/scope-mappings/:roleContainer/not-granted?scope=:scopeParam'',
       rs_params = [(''realm'', ''@realm''), (''client'', ''@client''), (''roleContainer'', ''@roleContainer''), (''scopeParam'', ''@scopeParam'')],
       rs_actions = []\<rparr>"

definition ClientProtocolMappersByProtocol :: resource where
  "ClientProtocolMappersByProtocol =
    \<lparr>rs_url = ''/admin/realms/:realm/clients/:client/protocol-mappers/protocol/:protocol'',
       rs_params = [(''realm'', ''@realm''), (''client'', ''@client''), (''protocol'', ''@protocol'')],
       rs_actions = []\<rparr>"

definition ClientScopeProtocolMappersByProtocol :: resource where
  "ClientScopeProtocolMappersByProtocol =
    \<lparr>rs_url = ''/admin/realms/:realm/client-scopes/:clientScope/protocol-mappers/protocol/:protocol'',
       rs_params = [(''realm'', ''@realm''), (''clientScope'', ''@clientScope''), (''protocol'', ''@protocol'')],
       rs_actions = []\<rparr>"

definition ClientScopeRealmScopeMapping :: resource where
  "ClientScopeRealmScopeMapping =
    \<lparr>rs_url = ''/admin/realms/:realm/client-scopes/:clientScope/scope-mappings/realm'',
       rs_params = [(''realm'', ''@realm''), (''clientScope'', ''@clientScope'')],
       rs_actions = []\<rparr>"

definition ClientScopeAvailableRealmScopeMapping :: resource where
  "ClientScopeAvailableRealmScopeMapping =
    \<lparr>rs_url = ''/admin/realms/:realm/client-scopes/:clientScope/scope-mappings/realm/available'',
       rs_params = [(''realm'', ''@realm''), (''clientScope'', ''@clientScope'')],
       rs_actions = []\<rparr>"

definition ClientScopeCompositeRealmScopeMapping :: resource where
  "ClientScopeCompositeRealmScopeMapping =
    \<lparr>rs_url = ''/admin/realms/:realm/client-scopes/:clientScope/scope-mappings/realm/composite'',
       rs_params = [(''realm'', ''@realm''), (''clientScope'', ''@clientScope'')],
       rs_actions = []\<rparr>"

definition ClientScopeClientScopeMapping :: resource where
  "ClientScopeClientScopeMapping =
    \<lparr>rs_url = ''/admin/realms/:realm/client-scopes/:clientScope/scope-mappings/clients/:targetClient'',
       rs_params = [(''realm'', ''@realm''), (''clientScope'', ''@clientScope''), (''targetClient'', ''@targetClient'')],
       rs_actions = []\<rparr>"

definition ClientScopeAvailableClientScopeMapping :: resource where
  "ClientScopeAvailableClientScopeMapping =
    \<lparr>rs_url = ''/admin/realms/:realm/client-scopes/:clientScope/scope-mappings/clients/:targetClient/available'',
       rs_params = [(''realm'', ''@realm''), (''clientScope'', ''@clientScope''), (''targetClient'', ''@targetClient'')],
       rs_actions = []\<rparr>"

definition ClientScopeCompositeClientScopeMapping :: resource where
  "ClientScopeCompositeClientScopeMapping =
    \<lparr>rs_url = ''/admin/realms/:realm/client-scopes/:clientScope/scope-mappings/clients/:targetClient/composite'',
       rs_params = [(''realm'', ''@realm''), (''clientScope'', ''@clientScope''), (''targetClient'', ''@targetClient'')],
       rs_actions = []\<rparr>"

definition ClientSessionStats :: resource where
  "ClientSessionStats =
    \<lparr>rs_url = ''/admin/realms/:realm/clients/:client/session-stats'',
       rs_params = [(''realm'', ''@realm''), (''client'', ''@client'')],
       rs_actions = []\<rparr>"

definition ClientSessionStatsWithUsers :: resource where
  "ClientSessionStatsWithUsers =
    \<lparr>rs_url = ''/admin/realms/:realm/clients/:client/session-stats?users=true'',
       rs_params = [(''realm'', ''@realm''), (''client'', ''@client'')],
       rs_actions = []\<rparr>"

definition ClientSessionCount :: resource where
  "ClientSessionCount =
    \<lparr>rs_url = ''/admin/realms/:realm/clients/:client/session-count'',
       rs_params = [(''realm'', ''@realm''), (''client'', ''@client'')],
       rs_actions = []\<rparr>"

definition ClientUserSessions :: resource where
  "ClientUserSessions =
    \<lparr>rs_url = ''/admin/realms/:realm/clients/:client/user-sessions'',
       rs_params = [(''realm'', ''@realm''), (''client'', ''@client'')],
       rs_actions = []\<rparr>"

definition ClientOfflineSessionCount :: resource where
  "ClientOfflineSessionCount =
    \<lparr>rs_url = ''/admin/realms/:realm/clients/:client/offline-session-count'',
       rs_params = [(''realm'', ''@realm''), (''client'', ''@client'')],
       rs_actions = []\<rparr>"

definition ClientOfflineSessions :: resource where
  "ClientOfflineSessions =
    \<lparr>rs_url = ''/admin/realms/:realm/clients/:client/offline-sessions'',
       rs_params = [(''realm'', ''@realm''), (''client'', ''@client'')],
       rs_actions = []\<rparr>"

definition RealmLogoutAll :: resource where
  "RealmLogoutAll =
    \<lparr>rs_url = ''/admin/realms/:realm/logout-all'',
       rs_params = [(''realm'', ''@realm'')],
       rs_actions = []\<rparr>"

definition ClientPushRevocation :: resource where
  "ClientPushRevocation =
    \<lparr>rs_url = ''/admin/realms/:realm/clients/:client/push-revocation'',
       rs_params = [(''realm'', ''@realm''), (''client'', ''@client'')],
       rs_actions = []\<rparr>"

definition ClientClusterNode :: resource where
  "ClientClusterNode =
    \<lparr>rs_url = ''/admin/realms/:realm/clients/:client/nodes/:node'',
       rs_params = [(''realm'', ''@realm''), (''client'', ''@client'')],
       rs_actions = []\<rparr>"

definition ClientTestNodesAvailable :: resource where
  "ClientTestNodesAvailable =
    \<lparr>rs_url = ''/admin/realms/:realm/clients/:client/test-nodes-available'',
       rs_params = [(''realm'', ''@realm''), (''client'', ''@client'')],
       rs_actions = []\<rparr>"

definition ClientCertificate :: resource where
  "ClientCertificate =
    \<lparr>rs_url = ''/admin/realms/:realm/clients/:client/certificates/:attribute'',
       rs_params = [(''realm'', ''@realm''), (''client'', ''@client''), (''attribute'', ''@attribute'')],
       rs_actions = []\<rparr>"

definition ClientCertificateGenerate :: resource where
  "ClientCertificateGenerate =
    \<lparr>rs_url = ''/admin/realms/:realm/clients/:client/certificates/:attribute/generate'',
       rs_params = [(''realm'', ''@realm''), (''client'', ''@client''), (''attribute'', ''@attribute'')],
       rs_actions = [(''generate'', method_action ''POST'')]\<rparr>"

definition ClientCertificateDownload :: resource where
  "ClientCertificateDownload =
    \<lparr>rs_url = ''/admin/realms/:realm/clients/:client/certificates/:attribute/download'',
       rs_params = [(''realm'', ''@realm''), (''client'', ''@client''), (''attribute'', ''@attribute'')],
       rs_actions = [(''download'', \<lparr>ra_method = ''POST'', ra_url = None,
           ra_params = [], ra_isArray = None, ra_responseType = Some ''arraybuffer''\<rparr>)]\<rparr>"

definition Client :: resource where
  "Client =
    \<lparr>rs_url = ''/admin/realms/:realm/clients/:client'',
       rs_params = [(''realm'', ''@realm''), (''client'', ''@client'')],
       rs_actions = [(''update'', method_action ''PUT'')]\<rparr>"

definition ClientScope :: resource where
  "ClientScope =
    \<lparr>rs_url = ''/admin/realms/:realm/client-scopes/:clientScope'',
       rs_params = [(''realm'', ''@realm''), (''clientScope'', ''@clientScope'')],
       rs_actions = [(''update'', method_action ''PUT'')]\<rparr>"

definition RealmDefaultClientScopes :: resource where
  "RealmDefaultClientScopes =
    \<lparr>rs_url = ''/admin/realms/:realm/default-default-client-scopes/:clientScopeId'',
       rs_params = [(''realm'', ''@realm''), (''clientScopeId'', ''@clientScopeId'')],
       rs_actions = [(''update'', method_action ''PUT'')]\<rparr>"

definition RealmOptionalClientScopes :: resource where
  "RealmOptionalClientScopes =
    \<lparr>rs_url = ''/admin/realms/:realm/default-optional-client-scopes/:clientScopeId'',
       rs_params = [(''realm'', ''@realm''), (''clientScopeId'', ''@clientScopeId'')],
       rs_actions = [(''update'', method_action ''PUT'')]\<rparr>"

definition ClientDescriptionConverter :: resource where
  "ClientDescriptionConverter =
    \<lparr>rs_url = ''/admin/realms/:realm/client-description-converter'',
       rs_params = [(''realm'', ''@realm'')],
       rs_actions = []\<rparr>"

definition ClientInstallation :: resource where
  "ClientInstallation =
    \<lparr>rs_url = ''/admin/realms/:realm/clients/:client/installation/providers/:provider'',
       rs_params = [(''realm'', ''@realm''), (''client'', ''@client''), (''provider'', ''@provider'')],
       rs_actions = []\<rparr>"

definition ClientSecret :: resource where
  "ClientSecret =
    \<lparr>rs_url = ''/admin/realms/:realm/clients/:client/client-secret'',
       rs_params = [(''realm'', ''@realm''), (''client'', ''@client'')],
       rs_actions = [(''update'', method_action ''POST'')]\<rparr>"

definition ClientRegistrationAccessToken :: resource where
  "ClientRegistrationAccessToken =
    \<lparr>rs_url = ''/admin/realms/:realm/clients/:client/registration-access-token'',
       rs_params = [(''realm'', ''@realm''), (''client'', ''@client'')],
       rs_actions = [(''update'', method_action ''POST'')]\<rparr>"

definition ClientOrigins :: resource where
  "ClientOrigins =
    \<lparr>rs_url = ''/admin/realms/:realm/clients/:client/allowed-origins'',
       rs_params = [(''realm'', ''@realm''), (''client'', ''@client'')],
       rs_actions = [(''update'', \<lparr>ra_method = ''PUT'', ra_url = None,
           ra_params = [], ra_isArray = Some True, ra_responseType = None\<rparr>)]\<rparr>"

definition ClientServiceAccountUser :: resource where
  "ClientServiceAccountUser =
    \<lparr>rs_url = ''/admin/realms/:realm/clients/:client/service-account-user'',
       rs_params = [(''realm'', ''@realm''), (''client'', ''@client'')],
       rs_actions = []\<rparr>"

definition IdentityProvider :: resource where
  "IdentityProvider =
    \<lparr>rs_url = ''/admin/realms/:realm/identity-provider/instances/:alias'',
       rs_params = [(''realm'', ''@realm''), (''alias'', ''@alias'')],
       rs_actions = [(''update'', method_action ''PUT'')]\<rparr>"

definition IdentityProviderFactory :: resource where
  "IdentityProviderFactory =
    \<lparr>rs_url = ''/admin/realms/:realm/identity-provider/providers/:provider_id'',
       rs_params = [(''realm'', ''@realm''), (''provider_id'', ''@provider_id'')],
       rs_actions = []\<rparr>"

definition IdentityProviderMapperTypes :: resource where
  "IdentityProviderMapperTypes =
    \<lparr>rs_url = ''/admin/realms/:realm/identity-provider/instances/:alias/mapper-types'',
       rs_params = [(''realm'', ''@realm''), (''alias'', ''@alias'')],
       rs_actions = []\<rparr>"

definition IdentityProviderMappers :: resource where
  "IdentityProviderMappers =
    \<lparr>rs_url = ''/admin/realms/:realm/identity-provider/instances/:alias/mappers'',
       rs_params = [(''realm'', ''@realm''), (''alias'', ''@alias'')],
       rs_actions = []\<rparr>"

definition IdentityProviderMapper :: resource where
  "IdentityProviderMapper =
    \<lparr>rs_url = ''/admin/realms/:realm/identity-provider/instances/:alias/mappers/:mapperId'',
       rs_params = [(''realm'', ''@realm''), (''alias'', ''@alias''), (''mapperId'', ''@mapperId'')],
       rs_actions = [(''update'', method_action ''PUT'')]\<rparr>"

definition AuthenticationFlowExecutions :: resource where
  "AuthenticationFlowExecutions =
    \<lparr>rs_url = ''/admin/realms/:realm/authentication/flows/:alias/executions'',
       rs_params = [(''realm'', ''@realm''), (''alias'', ''@alias'')],
       rs_actions = [(''update'', method_action ''PUT'')]\<rparr>"

definition CreateExecutionFlow :: resource where
  "CreateExecutionFlow =
    \<lparr>rs_url = ''/admin/realms/:realm/authentication/flows/:alias/executions/flow'',
       rs_params = [(''realm'', ''@realm''), (''alias'', ''@alias'')],
       rs_actions = []\<rparr>"

definition CreateExecution :: resource where
  "CreateExecution =
    \<lparr>rs_url = ''/admin/realms/:realm/authentication/flows/:alias/executions/execution'',
       rs_params = [(''realm'', ''@realm''), (''alias'', ''@alias'')],
       rs_actions = []\<rparr>"

definition AuthenticationFlows :: resource where
  "AuthenticationFlows =
    \<lparr>rs_url = ''/admin/realms/:realm/authentication/flows/:flow'',
       rs_params = [(''realm'', ''@realm''), (''flow'', ''@flow'')],
       rs_actions = []\<rparr>"

definition AuthenticationFormProviders :: resource where
  "AuthenticationFormProviders =
    \<lparr>rs_url = ''/admin/realms/:realm/authentication/form-providers'',
       rs_params = [(''realm'', ''@realm'')],
       rs_actions = []\<rparr>"

definition AuthenticationFormActionProviders :: resource where
  "AuthenticationFormActionProviders =
    \<lparr>rs_url = ''/admin/realms/:realm/authentication/form-action-providers'',
       rs_params = [(''realm'', ''@realm'')],
       rs_actions = []\<rparr>"

definition AuthenticatorProviders :: resource where
  "AuthenticatorProviders =
    \<lparr>rs_url = ''/admin/realms/:realm/authentication/authenticator-providers'',
       rs_params = [(''realm'', ''@realm'')],
       rs_actions = []\<rparr>"

definition ClientAuthenticatorProviders :: resource where
  "ClientAuthenticatorProviders =
    \<lparr>rs_url = ''/admin/realms/:realm/authentication/client-authenticator-providers'',
       rs_params = [(''realm'', ''@realm'')],
       rs_actions = []\<rparr>"

definition AuthenticationFlowsCopy :: resource where
  "AuthenticationFlowsCopy =
    \<lparr>rs_url = ''/admin/realms/:realm/authentication/flows/:alias/copy'',
       rs_params = [(''realm'', ''@realm''), (''alias'', ''@alias'')],
       rs_actions = []\<rparr>"

definition AuthenticationConfigDescription :: resource where
  "AuthenticationConfigDescription =
    \<lparr>rs_url = ''/admin/realms/:realm/authentication/config-description/:provider'',
       rs_params = [(''realm'', ''@realm''), (''provider'', ''@provider'')],
       rs_actions = []\<rparr>"

definition PerClientAuthenticationConfigDescription :: resource where
  "PerClientAuthenticationConfigDescription =
    \<lparr>rs_url = ''/admin/realms/:realm/authentication/per-client-config-description'',
       rs_params = [(''realm'', ''@realm'')],
       rs_actions = []\<rparr>"

definition AuthenticationConfig :: resource where
  "AuthenticationConfig =
    \<lparr>rs_url = ''/admin/realms/:realm/authentication/config/:config'',
       rs_params = [(''realm'', ''@realm''), (''config'', ''@config'')],
       rs_actions = [(''update'', method_action ''PUT'')]\<rparr>"

definition AuthenticationExecutionConfig :: resource where
  "AuthenticationExecutionConfig =
    \<lparr>rs_url = ''/admin/realms/:realm/authentication/executions/:execution/config'',
       rs_params = [(''realm'', ''@realm''), (''execution'', ''@execution'')],
       rs_actions = []\<rparr>"

definition AuthenticationExecution :: resource where
  "AuthenticationExecution =
    \<lparr>rs_url = ''/admin/realms/:realm/authentication/executions/:execution'',
       rs_params = [(''realm'', ''@realm''), (''execution'', ''@execution'')],
       rs_actions = [(''update'', method_action ''PUT'')]\<rparr>"

definition AuthenticationExecutionRaisePriority :: resource where
  "AuthenticationExecutionRaisePriority =
    \<lparr>rs_url = ''/admin/realms/:realm/authentication/executions/:execution/raise-priority'',
       rs_params = [(''realm'', ''@realm''), (''execution'', ''@execution'')],
       rs_actions = []\<rparr>"

definition AuthenticationExecutionLowerPriority :: resource where
  "AuthenticationExecutionLowerPriority =
    \<lparr>rs_url = ''/admin/realms/:realm/authentication/executions/:execution/lower-priority'',
       rs_params = [(''realm'', ''@realm''), (''execution'', ''@execution'')],
       rs_actions = []\<rparr>"

definition Group :: resource where
  "Group =
    \<lparr>rs_url = ''/admin/realms/:realm/groups/:groupId'',
       rs_params = [(''realm'', ''@realm''), (''userId'', ''@groupId'')],
       rs_actions = [(''update'', method_action ''PUT'')]\<rparr>"

definition GroupChildren :: resource where
  "GroupChildren =
    \<lparr>rs_url = ''/admin/realms/:realm/groups/:groupId/children'',
       rs_params = [(''realm'', ''@realm''), (''groupId'', ''@groupId'')],
       rs_actions = []\<rparr>"

definition Groups :: resource where
  "Groups =
    \<lparr>rs_url = ''/admin/realms/:realm/groups'',
       rs_params = [(''realm'', ''@realm'')],
       rs_actions = []\<rparr>"

definition GroupRealmRoleMapping :: resource where
  "GroupRealmRoleMapping =
    \<lparr>rs_url = ''/admin/realms/:realm/groups/:groupId/role-mappings/realm'',
       rs_params = [(''realm'', ''@realm''), (''groupId'', ''@groupId'')],
       rs_actions = []\<rparr>"

definition GroupCompositeRealmRoleMapping :: resource where
  "GroupCompositeRealmRoleMapping =
    \<lparr>rs_url = ''/admin/realms/:realm/groups/:groupId/role-mappings/realm/composite'',
       rs_params = [(''realm'', ''@realm''), (''groupId'', ''@groupId'')],
       rs_actions = []\<rparr>"

definition GroupAvailableRealmRoleMapping :: resource where
  "GroupAvailableRealmRoleMapping =
    \<lparr>rs_url = ''/admin/realms/:realm/groups/:groupId/role-mappings/realm/available'',
       rs_params = [(''realm'', ''@realm''), (''groupId'', ''@groupId'')],
       rs_actions = []\<rparr>"

definition GroupClientRoleMapping :: resource where
  "GroupClientRoleMapping =
    \<lparr>rs_url = ''/admin/realms/:realm/groups/:groupId/role-mappings/clients/:client'',
       rs_params = [(''realm'', ''@realm''), (''groupId'', ''@groupId''), (''client'', ''@client'')],
       rs_actions = []\<rparr>"

definition GroupAvailableClientRoleMapping :: resource where
  "GroupAvailableClientRoleMapping =
    \<lparr>rs_url = ''/admin/realms/:realm/groups/:groupId/role-mappings/clients/:client/available'',
       rs_params = [(''realm'', ''@realm''), (''groupId'', ''@groupId''), (''client'', ''@client'')],
       rs_actions = []\<rparr>"

definition GroupCompositeClientRoleMapping :: resource where
  "GroupCompositeClientRoleMapping =
    \<lparr>rs_url = ''/admin/realms/:realm/groups/:groupId/role-mappings/clients/:client/composite'',
       rs_params = [(''realm'', ''@realm''), (''groupId'', ''@groupId''), (''client'', ''@client'')],
       rs_actions = []\<rparr>"

definition GroupMembership :: resource where
  "GroupMembership =
    \<lparr>rs_url = ''/admin/realms/:realm/groups/:groupId/members'',
       rs_params = [(''realm'', ''@realm''), (''groupId'', ''@groupId'')],
       rs_actions = []\<rparr>"

definition RoleMembership :: resource where
  "RoleMembership =
    \<lparr>rs_url = ''/admin/realms/:realm/roles/:role/users'',
       rs_params = [(''realm'', ''@realm''), (''role'', ''@role'')],
       rs_actions = []\<rparr>"

definition UserGroupMembership :: resource where
  "UserGroupMembership =
    \<lparr>rs_url = ''/admin/realms/:realm/users/:userId/groups'',
       rs_params = [(''realm'', ''@realm''), (''userId'', ''@userId'')],
       rs_actions = []\<rparr>"

definition UserGroupMapping :: resource where
  "UserGroupMapping =
    \<lparr>rs_url = ''/admin/realms/:realm/users/:userId/groups/:groupId'',
       rs_params = [(''realm'', ''@realm''), (''userId'', ''@userId''), (''groupId'', ''@groupId'')],
       rs_actions = [(''update'', method_action ''PUT'')]\<rparr>"

definition DefaultGroups :: resource where
  "DefaultGroups =
    \<lparr>rs_url = ''/admin/realms/:realm/default-groups/:groupId'',
       rs_params = [(''realm'', ''@realm''), (''groupId'', ''@groupId'')],
       rs_actions = [(''update'', method_action ''PUT'')]\<rparr>"

definition SubComponentTypes :: resource where
  "SubComponentTypes =
    \<lparr>rs_url = ''/admin/realms/:realm/components/:componentId/sub-component-types'',
       rs_params = [(''realm'', ''@realm''), (''componentId'', ''@componentId'')],
       rs_actions = []\<rparr>"

definition UserStorageOperations_sync :: resource where
  "UserStorageOperations_sync =
    \<lparr>rs_url = ''/admin/realms/:realm/user-storage/:componentId/sync'',
       rs_params = [(''realm'', ''@realm''), (''componentId'', ''@componentId'')],
       rs_actions = []\<rparr>"

definition UserStorageOperations_removeImportedUsers :: resource where
  "UserStorageOperations_removeImportedUsers =
    \<lparr>rs_url = ''/admin/realms/:realm/user-storage/:componentId/remove-imported-users'',
       rs_params = [(''realm'', ''@realm''), (''componentId'', ''@componentId'')],
       rs_actions = []\<rparr>"

definition UserStorageOperations_unlinkUsers :: resource where
  "UserStorageOperations_unlinkUsers =
    \<lparr>rs_url = ''/admin/realms/:realm/user-storage/:componentId/unlink-users'',
       rs_params = [(''realm'', ''@realm''), (''componentId'', ''@componentId'')],
       rs_actions = []\<rparr>"

definition UserStorageOperations_simpleName :: resource where
  "UserStorageOperations_simpleName =
    \<lparr>rs_url = ''/admin/realms/:realm/user-storage/:componentId/name'',
       rs_params = [(''realm'', ''@realm''), (''componentId'', ''@componentId'')],
       rs_actions = []\<rparr>"

definition ClientStorageOperations_simpleName :: resource where
  "ClientStorageOperations_simpleName =
    \<lparr>rs_url = ''/admin/realms/:realm/client-storage/:componentId/name'',
       rs_params = [(''realm'', ''@realm''), (''componentId'', ''@componentId'')],
       rs_actions = []\<rparr>"

definition ClientRegistrationPolicyProviders :: resource where
  "ClientRegistrationPolicyProviders =
    \<lparr>rs_url = ''/admin/realms/:realm/client-registration-policy/providers'',
       rs_params = [(''realm'', ''@realm'')],
       rs_actions = []\<rparr>"

definition LDAPMapperSync :: resource where
  "LDAPMapperSync =
    \<lparr>rs_url = ''/admin/realms/:realm/user-storage/:parentId/mappers/:mapperId/sync'',
       rs_params = [(''realm'', ''@realm''), (''componentId'', ''@componentId''), (''mapperId'', ''@mapperId'')],
       rs_actions = []\<rparr>"

definition ResourceServer :: resource where
  "ResourceServer =
    \<lparr>rs_url = ''/admin/realms/:realm/clients/:client/authz/resource-server'',
       rs_params = [(''realm'', ''@realm''), (''client'', ''@client'')],
       rs_actions = [(''update'', method_action ''PUT''),
         (''import'', \<lparr>ra_method = ''POST'', ra_url = Some ''/admin/realms/:realm/clients/:client/authz/resource-server/import'',
           ra_params = [], ra_isArray = None, ra_responseType = None\<rparr>),
         (''settings'', \<lparr>ra_method = ''GET'', ra_url = Some ''/admin/realms/:realm/clients/:client/authz/resource-server/settings'',
           ra_params = [], ra_isArray = None, ra_responseType = None\<rparr>)]\<rparr>"

definition ResourceServerResource :: resource where
  "ResourceServerResource =
    \<lparr>rs_url = ''/admin/realms/:realm/clients/:client/authz/resource-server/resource/:rsrid'',
       rs_params = [(''realm'', ''@realm''), (''client'', ''@client''), (''rsrid'', ''@rsrid'')],
       rs_actions = [(''update'', method_action ''PUT''),
         (''search'', \<lparr>ra_method = ''GET'', ra_url = Some ''/admin/realms/:realm/clients/:client/authz/resource-server/resource/search'',
           ra_params = [], ra_isArray = None, ra_responseType = None\<rparr>),
         (''scopes'', \<lparr>ra_method = ''GET'', ra_url = Some ''/admin/realms/:realm/clients/:client/authz/resource-server/resource/:rsrid/scopes'',
           ra_params = [], ra_isArray = Some True, ra_responseType = None\<rparr>),
         (''permissions'', \<lparr>ra_method = ''GET'', ra_url = Some ''/admin/realms/:realm/clients/:client/authz/resource-server/resource/:rsrid/permissions'',
           ra_params = [], ra_isArray = Some True, ra_responseType = None\<rparr>)]\<rparr>"

definition ResourceServerScope :: resource where
  "ResourceServerScope =
    \<lparr>rs_url = ''/admin/realms/:realm/clients/:client/authz/resource-server/scope/:id'',
       rs_params = [(''realm'', ''@realm''), (''client'', ''@client''), (''id'', ''@id'')],
       rs_actions = [(''update'', method_action ''PUT''),
         (''search'', \<lparr>ra_method = ''GET'', ra_url = Some ''/admin/realms/:realm/clients/:client/authz/resource-server/scope/search'',
           ra_params = [], ra_isArray = None, ra_responseType = None\<rparr>),
         (''resources'', \<lparr>ra_method = ''GET'', ra_url = Some ''/admin/realms/:realm/clients/:client/authz/resource-server/scope/:id/resources'',
           ra_params = [], ra_isArray = Some True, ra_responseType = None\<rparr>),
         (''permissions'', \<lparr>ra_method = ''GET'', ra_url = Some ''/admin/realms/:realm/clients/:client/authz/resource-server/scope/:id/permissions'',
           ra_params = [], ra_isArray = Some True, ra_responseType = None\<rparr>)]\<rparr>"

definition ResourceServerPolicy :: resource where
  "ResourceServerPolicy =
    \<lparr>rs_url = ''/admin/realms/:realm/clients/:client/authz/resource-server/policy/:type/:id'',
       rs_params = [(''realm'', ''@realm''), (''client'', ''@client''), (''id'', ''@id''), (''type'', ''@type'')],
       rs_actions = [(''update'', method_action ''PUT''),
         (''search'', \<lparr>ra_method = ''GET'', ra_url = Some ''/admin/realms/:realm/clients/:client/authz/resource-server/policy/search'',
           ra_params = [], ra_isArray = None, ra_responseType = None\<rparr>),
         (''associatedPolicies'', \<lparr>ra_method = ''GET'', ra_url = Some ''/admin/realms/:realm/clients/:client/authz/resource-server/policy/:id/associatedPolicies'',
           ra_params = [], ra_isArray = Some True, ra_responseType = None\<rparr>),
         (''dependentPolicies'', \<lparr>ra_method = ''GET'', ra_url = Some ''/admin/realms/:realm/clients/:client/authz/resource-server/policy/:id/dependentPolicies'',
           ra_params = [], ra_isArray = Some True, ra_responseType = None\<rparr>),
         (''scopes'', \<lparr>ra_method = ''GET'', ra_url = Some ''/admin/realms/:realm/clients/:client/authz/resource-server/policy/:id/scopes'',
           ra_params = [], ra_isArray = Some True, ra_responseType = None\<rparr>),
         (''resources'', \<lparr>ra_method = ''GET'', ra_url = Some ''/admin/realms/:realm/clients/:client/authz/resource-server/policy/:id/resources'',
           ra_params = [], ra_isArray = Some True, ra_responseType = None\<rparr>)]\<rparr>"

definition ResourceServerPermission :: resource where
  "ResourceServerPermission =
    \<lparr>rs_url = ''/admin/realms/:realm/clients/:client/authz/resource-server/permission/:type/:id'',
       rs_params = [(''realm'', ''@realm''), (''client'', ''@client''), (''type'', ''@type''), (''id'', ''@id'')],
       rs_actions = [(''update'', method_action ''PUT''),
         (''search'', \<lparr>ra_method = ''GET'', ra_url = Some ''/admin/realms/:realm/clients/:client/authz/resource-server/permission/search'',
           ra_params = [], ra_isArray = None, ra_responseType = None\<rparr>),
         (''searchPolicies'', \<lparr>ra_method = ''GET'', ra_url = Some ''/admin/realms/:realm/clients/:client/authz/resource-server/policy'',
           ra_params = [], ra_isArray = Some True, ra_responseType = None\<rparr>),
         (''associatedPolicies'', \<lparr>ra_method = ''GET'', ra_url = Some ''/admin/realms/:realm/clients/:client/authz/resource-server/policy/:id/associatedPolicies'',
           ra_params = [], ra_isArray = Some True, ra_responseType = None\<rparr>),
         (''dependentPolicies'', \<lparr>ra_method = ''GET'', ra_url = Some ''/admin/realms/:realm/clients/:client/authz/resource-server/policy/:id/dependentPolicies'',
           ra_params = [], ra_isArray = Some True, ra_responseType = None\<rparr>),
         (''scopes'', \<lparr>ra_method = ''GET'', ra_url = Some ''/admin/realms/:realm/clients/:client/authz/resource-server/permission/:id/scopes'',
           ra_params = [], ra_isArray = Some True, ra_responseType = None\<rparr>),
         (''resources'', \<lparr>ra_method = ''GET'', ra_url = Some ''/admin/realms/:realm/clients/:client/authz/resource-server/permission/:id/resources'',
           ra_params = [], ra_isArray = Some True, ra_responseType = None\<rparr>)]\<rparr>"

definition PolicyProvider :: resource where
  "PolicyProvider =
    \<lparr>rs_url = ''/admin/realms/:realm/clients/:client/authz/resource-server/policy/providers'',
       rs_params = [(''realm'', ''@realm''), (''client'', ''@client'')],
       rs_actions = []\<rparr>"

definition RoleManagementPermissions :: resource where
  "RoleManagementPermissions =
    \<lparr>rs_url = ''/admin/realms/:realm/roles-by-id/:role/management/permissions'',
       rs_params = [(''realm'', ''@realm''), (''role'', ''@role'')],
       rs_actions = [(''update'', method_action ''PUT'')]\<rparr>"

definition UsersManagementPermissions :: resource where
  "UsersManagementPermissions =
    \<lparr>rs_url = ''/admin/realms/:realm/users-management-permissions'',
       rs_params = [(''realm'', ''@realm'')],
       rs_actions = [(''update'', method_action ''PUT'')]\<rparr>"

definition ClientManagementPermissions :: resource where
  "ClientManagementPermissions =
    \<lparr>rs_url = ''/admin/realms/:realm/clients/:client/management/permissions'',
       rs_params = [(''realm'', ''@realm''), (''client'', ''@client'')],
       rs_actions = [(''update'', method_action ''PUT'')]\<rparr>"

definition IdentityProviderManagementPermissions :: resource where
  "IdentityProviderManagementPermissions =
    \<lparr>rs_url = ''/admin/realms/:realm/identity-provider/instances/:alias/management/permissions'',
       rs_params = [(''realm'', ''@realm''), (''alias'', ''@alias'')],
       rs_actions = [(''update'', method_action ''PUT'')]\<rparr>"

definition GroupManagementPermissions :: resource where
  "GroupManagementPermissions =
    \<lparr>rs_url = ''/admin/realms/:realm/groups/:group/management/permissions'',
       rs_params = [(''realm'', ''@realm''), (''group'', ''@group'')],
       rs_actions = [(''update'', method_action ''PUT'')]\<rparr>"

definition resources_1 :: "resource list" where
  "resources_1 =
    [RealmLDAPConnectionTester, GroupsCount, Components, Realm,
     RealmKeys, RealmEventsConfig, RealmEvents, RealmAdminEvents,
     BruteForce, BruteForceUser, RequiredActions, RequiredActionRaisePriority,
     RequiredActionLowerPriority, UnregisteredRequiredActions, RegisterRequiredAction, RealmSMTPConnectionTester,
     ClientInitialAccess, ClientProtocolMapper, ClientScopeProtocolMapper, User]"

definition resources_2 :: "resource list" where
  "resources_2 =
    [UserSessionStats, UserSessions, UserOfflineSessions, UserSessionLogout,
     UserLogout, UserFederatedIdentities, UserFederatedIdentity, UserConsents,
     UserImpersonation, UserCredentials_resetPassword, UserCredentials_removeTotp, UserCredentials_disableCredentialTypes,
     RealmRoleMapping, CompositeRealmRoleMapping, AvailableRealmRoleMapping, ClientRoleMapping,
     AvailableClientRoleMapping, CompositeClientRoleMapping, ClientRealmScopeMapping, ClientAvailableRealmScopeMapping]"

definition resources_3 :: "resource list" where
  "resources_3 =
    [ClientCompositeRealmScopeMapping, ClientClientScopeMapping, ClientAvailableClientScopeMapping, ClientCompositeClientScopeMapping,
     RealmRoles, RoleRealmComposites, RealmPushRevocation, RealmClearUserCache,
     RealmClearRealmCache, RealmClearKeysCache, RealmSessionStats, RealmClientSessionStats,
     RoleClientComposites, Role, RoleById, ClientRole,
     ClientDefaultClientScopes, ClientOptionalClientScopes, ClientEvaluateProtocolMappers, ClientEvaluateGrantedRoles]"

definition resources_4 :: "resource list" where
  "resources_4 =
    [ClientEvaluateNotGrantedRoles, ClientProtocolMappersByProtocol, ClientScopeProtocolMappersByProtocol, ClientScopeRealmScopeMapping,
     ClientScopeAvailableRealmScopeMapping, ClientScopeCompositeRealmScopeMapping, ClientScopeClientScopeMapping, ClientScopeAvailableClientScopeMapping,
     ClientScopeCompositeClientScopeMapping, ClientSessionStats, ClientSessionStatsWithUsers, ClientSessionCount,
     ClientUserSessions, ClientOfflineSessionCount, ClientOfflineSessions, RealmLogoutAll,
     ClientPushRevocation, ClientTestNodesAvailable, ClientCertificate, ClientCertificateGenerate]"

definition resources_5 :: "resource list" where
  "resources_5 =
    [ClientCertificateDownload, Client, ClientScope, RealmDefaultClientScopes,
     RealmOptionalClientScopes, ClientDescriptionConverter, ClientInstallation, ClientSecret,
     ClientRegistrationAccessToken, ClientOrigins, ClientServiceAccountUser, IdentityProvider,
     IdentityProviderFactory, IdentityProviderMapperTypes, IdentityProviderMappers, IdentityProviderMapper,
     AuthenticationFlowExecutions, CreateExecutionFlow, CreateExecution, AuthenticationFlows]"

definition resources_6 :: "resource list" where
  "resources_6 =
    [AuthenticationFormProviders, AuthenticationFormActionProviders, AuthenticatorProviders, ClientAuthenticatorProviders,
     AuthenticationFlowsCopy, AuthenticationConfigDescription, PerClientAuthenticationConfigDescription, AuthenticationConfig,
     AuthenticationExecutionConfig, AuthenticationExecution, AuthenticationExecutionRaisePriority, AuthenticationExecutionLowerPriority,
     GroupChildren, Groups, GroupRealmRoleMapping, GroupCompositeRealmRoleMapping,
     GroupAvailableRealmRoleMapping, GroupClientRoleMapping, GroupAvailableClientRoleMapping, GroupCompositeClientRoleMapping]"

definition resources_7 :: "resource list" where
  "resources_7 =
    [GroupMembership, RoleMembership, UserGroupMembership, UserGroupMapping,
     DefaultGroups, SubComponentTypes, UserStorageOperations_sync, UserStorageOperations_removeImportedUsers,
     UserStorageOperations_unlinkUsers, UserStorageOperations_simpleName, ClientStorageOperations_simpleName, ClientRegistrationPolicyProviders,
     ResourceServer, ResourceServerResource, ResourceServerScope, ResourceServerPolicy,
     ResourceServerPermission, PolicyProvider, RoleManagementPermissions, UsersManagementPermissions]"

definition resources_8 :: "resource list" where
  "resources_8 =
    [ClientManagementPermissions, IdentityProviderManagementPermissions, GroupManagementPermissions]"

text \<open>The resources whose defaults do not fit their template; see the properties below.\<close>

definition odd_resources :: "resource list" where
  "odd_resources = [UserExecuteActionsEmail, ClientClusterNode, Group, LDAPMapperSync]"

definition all_resources :: "resource list" where
  "all_resources = resources_1 @ resources_2 @ resources_3 @ resources_4 @ resources_5 @ resources_6 @ resources_7 @ resources_8 @ odd_resources"

subsection \<open>URL templates\<close>

text \<open>The placeholders of a template: a colon and the letters, digits and underscores that follow.\<close>

definition word_char :: "char \<Rightarrow> bool" where
  "word_char c =
     (let n = (of_char c :: nat) in
      97 \<le> n \<and> n \<le> 122 \<or> 65 \<le> n \<and> n \<le> 90 \<or> 48 \<le> n \<and> n \<le> 57 \<or> n = 95)"

fun placeholders :: "string \<Rightarrow> string list" where
  "placeholders [] = []"
| "placeholders (c # s) = (if c = CHR '':'' then takeWhile word_char s # placeholders s else placeholders s)"

text \<open>A resource is declared well when every placeholder of its template has a default, so that an object that is
  sent back finds its own URL, and no default is foreign to the template.\<close>

definition params_match :: "resource \<Rightarrow> bool" where
  "params_match r \<longleftrightarrow>
     list_all (\<lambda>p. p \<in> set (map fst (rs_params r))) (placeholders (rs_url r)) \<and>
     list_all (\<lambda>p. p \<in> set (placeholders (rs_url r))) (map fst (rs_params r))"


lemma resources_1_match: "list_all params_match resources_1"
  by code_simp

lemma resources_2_match: "list_all params_match resources_2"
  by code_simp

lemma resources_3_match: "list_all params_match resources_3"
  by code_simp

lemma resources_4_match: "list_all params_match resources_4"
  by code_simp

lemma resources_5_match: "list_all params_match resources_5"
  by code_simp

lemma resources_6_match: "list_all params_match resources_6"
  by code_simp

lemma resources_7_match: "list_all params_match resources_7"
  by code_simp

lemma resources_8_match: "list_all params_match resources_8"
  by code_simp

lemma odd_mismatch: "list_all (\<lambda>r. \<not> params_match r) odd_resources"
  by code_simp

lemmas resources_match = resources_1_match resources_2_match resources_3_match resources_4_match resources_5_match resources_6_match resources_7_match resources_8_match

text \<open>In every resource of the console but four, the default parameters are exactly the placeholders of the URL
  template. The four are \<open>UserExecuteActionsEmail\<close> (an extra query parameter), \<open>ClientClusterNode\<close> (no
  default for \<open>node\<close>), \<open>Group\<close> (a default for \<open>userId\<close>, none for \<open>groupId\<close>) and \<open>LDAPMapperSync\<close>
  (a default for \<open>componentId\<close>, none for \<open>parentId\<close>).\<close>

theorem resource_params_match: "filter (\<lambda>r. \<not> params_match r) all_resources = odd_resources"
proof -
  have none: "filter (\<lambda>r. \<not> params_match r) rs = []" if "list_all params_match rs" for rs
    using that by (induction rs) auto
  have "filter (\<lambda>r. \<not> params_match r) odd_resources = odd_resources"
    using odd_mismatch by (simp add: list_all_iff filter_id_conv)
  then show ?thesis by (simp add: all_resources_def resources_match [THEN none])
qed

end
