(* ===== verification/Loaders.thy ===== *)
theory Loaders
  imports Resources
begin

section \<open>The admin console: loaders\<close>

text \<open>
  loaders.js. A loader is made by \<open>Loader.get\<close> or \<open>Loader.query\<close> from a resource and a function that
  reads the parameters of the current route; calling it sends one request. \<open>RoleMappingLoader\<close> (378-387) is left
  out: it asks for a service \<open>RoleMapping\<close> that no module declares, and no route uses it.
\<close>

subsection \<open>Loading\<close>

datatype arg = FromRoute string | Text string | Flag bool | Null

type_synonym route_params = "string \<Rightarrow> string option"

text \<open>The value of an argument, with \<open>None\<close> for \<open>undefined\<close>.\<close>

fun arg_value :: "route_params \<Rightarrow> arg \<Rightarrow> arg option" where
  "arg_value env (FromRoute p) = map_option Text (env p)"
| "arg_value env (Text s) = Some (Text s)"
| "arg_value env (Flag b) = Some (Flag b)"
| "arg_value env Null = Some Null"

record loader =
  ld_resource :: resource
  ld_isQuery :: bool
  ld_args :: "(string \<times> arg) list"

record api_request =
  rq_resource :: resource
  rq_isQuery :: bool
  rq_args :: "(string \<times> arg option) list"

definition load_request :: "route_params \<Rightarrow> resource \<Rightarrow> bool \<Rightarrow> (string \<times> arg) list \<Rightarrow> api_request" where
  "load_request env resource query args =
     \<lparr>rq_resource = resource, rq_isQuery = query, rq_args = map (\<lambda>(n, a). (n, arg_value env a)) args\<rparr>"

definition run_loader :: "route_params \<Rightarrow> loader \<Rightarrow> api_request" where
  "run_loader env l = load_request env (ld_resource l) (ld_isQuery l) (ld_args l)"

definition loadComponents_args :: "arg \<Rightarrow> string \<Rightarrow> (string \<times> arg) list" where
  "loadComponents_args parent componentType =
     [(''realm'', FromRoute ''realm''), (''parent'', parent), (''type'', Text componentType)]"

definition loadSubComponentTypes_args :: "arg \<Rightarrow> string \<Rightarrow> (string \<times> arg) list" where
  "loadSubComponentTypes_args parent componentType =
     [(''realm'', FromRoute ''realm''), (''componentId'', parent), (''type'', Text componentType)]"

subsection \<open>The loaders\<close>

definition RealmListLoader :: loader where
  "RealmListLoader =
    \<lparr>ld_resource = Realm, ld_isQuery = False,
       ld_args = []\<rparr>"

definition RealmLoader :: loader where
  "RealmLoader =
    \<lparr>ld_resource = Realm, ld_isQuery = False,
       ld_args = [(''id'', FromRoute ''realm'')]\<rparr>"

definition RealmKeysLoader :: loader where
  "RealmKeysLoader =
    \<lparr>ld_resource = RealmKeys, ld_isQuery = False,
       ld_args = [(''id'', FromRoute ''realm'')]\<rparr>"

definition RealmEventsConfigLoader :: loader where
  "RealmEventsConfigLoader =
    \<lparr>ld_resource = RealmEventsConfig, ld_isQuery = False,
       ld_args = [(''id'', FromRoute ''realm'')]\<rparr>"

definition UserListLoader :: loader where
  "UserListLoader =
    \<lparr>ld_resource = User, ld_isQuery = True,
       ld_args = [(''realm'', FromRoute ''realm'')]\<rparr>"

definition RequiredActionsListLoader :: loader where
  "RequiredActionsListLoader =
    \<lparr>ld_resource = RequiredActions, ld_isQuery = True,
       ld_args = [(''realm'', FromRoute ''realm'')]\<rparr>"

definition UnregisteredRequiredActionsListLoader :: loader where
  "UnregisteredRequiredActionsListLoader =
    \<lparr>ld_resource = UnregisteredRequiredActions, ld_isQuery = True,
       ld_args = [(''realm'', FromRoute ''realm'')]\<rparr>"

definition RealmSessionStatsLoader :: loader where
  "RealmSessionStatsLoader =
    \<lparr>ld_resource = RealmSessionStats, ld_isQuery = False,
       ld_args = [(''realm'', FromRoute ''realm'')]\<rparr>"

definition RealmClientSessionStatsLoader :: loader where
  "RealmClientSessionStatsLoader =
    \<lparr>ld_resource = RealmClientSessionStats, ld_isQuery = True,
       ld_args = [(''realm'', FromRoute ''realm'')]\<rparr>"

definition ClientProtocolMapperLoader :: loader where
  "ClientProtocolMapperLoader =
    \<lparr>ld_resource = ClientProtocolMapper, ld_isQuery = False,
       ld_args = [(''realm'', FromRoute ''realm''),
           (''client'', FromRoute ''client''),
           (''id'', FromRoute ''id'')]\<rparr>"

definition ClientScopeProtocolMapperLoader :: loader where
  "ClientScopeProtocolMapperLoader =
    \<lparr>ld_resource = ClientScopeProtocolMapper, ld_isQuery = False,
       ld_args = [(''realm'', FromRoute ''realm''),
           (''clientScope'', FromRoute ''clientScope''),
           (''id'', FromRoute ''id'')]\<rparr>"

definition UserLoader :: loader where
  "UserLoader =
    \<lparr>ld_resource = User, ld_isQuery = False,
       ld_args = [(''realm'', FromRoute ''realm''), (''userId'', FromRoute ''user'')]\<rparr>"

definition ComponentLoader :: loader where
  "ComponentLoader =
    \<lparr>ld_resource = Components, ld_isQuery = False,
       ld_args = [(''realm'', FromRoute ''realm''), (''componentId'', FromRoute ''componentId'')]\<rparr>"

definition LDAPMapperLoader :: loader where
  "LDAPMapperLoader =
    \<lparr>ld_resource = Components, ld_isQuery = False,
       ld_args = [(''realm'', FromRoute ''realm''), (''componentId'', FromRoute ''mapperId'')]\<rparr>"

definition UserSessionStatsLoader :: loader where
  "UserSessionStatsLoader =
    \<lparr>ld_resource = UserSessionStats, ld_isQuery = False,
       ld_args = [(''realm'', FromRoute ''realm''), (''user'', FromRoute ''user'')]\<rparr>"

definition UserSessionsLoader :: loader where
  "UserSessionsLoader =
    \<lparr>ld_resource = UserSessions, ld_isQuery = True,
       ld_args = [(''realm'', FromRoute ''realm''), (''user'', FromRoute ''user'')]\<rparr>"

definition UserOfflineSessionsLoader :: loader where
  "UserOfflineSessionsLoader =
    \<lparr>ld_resource = UserOfflineSessions, ld_isQuery = True,
       ld_args = [(''realm'', FromRoute ''realm''),
           (''user'', FromRoute ''user''),
           (''client'', FromRoute ''client'')]\<rparr>"

definition UserFederatedIdentityLoader :: loader where
  "UserFederatedIdentityLoader =
    \<lparr>ld_resource = UserFederatedIdentities, ld_isQuery = True,
       ld_args = [(''realm'', FromRoute ''realm''), (''user'', FromRoute ''user'')]\<rparr>"

definition UserConsentsLoader :: loader where
  "UserConsentsLoader =
    \<lparr>ld_resource = UserConsents, ld_isQuery = True,
       ld_args = [(''realm'', FromRoute ''realm''), (''user'', FromRoute ''user'')]\<rparr>"

definition RoleLoader :: loader where
  "RoleLoader =
    \<lparr>ld_resource = RoleById, ld_isQuery = False,
       ld_args = [(''realm'', FromRoute ''realm''), (''role'', FromRoute ''role'')]\<rparr>"

definition RoleListLoader :: loader where
  "RoleListLoader =
    \<lparr>ld_resource = Role, ld_isQuery = True,
       ld_args = [(''realm'', FromRoute ''realm'')]\<rparr>"

definition ClientRoleLoader :: loader where
  "ClientRoleLoader =
    \<lparr>ld_resource = RoleById, ld_isQuery = False,
       ld_args = [(''realm'', FromRoute ''realm''),
           (''client'', FromRoute ''client''),
           (''role'', FromRoute ''role'')]\<rparr>"

definition ClientSessionStatsLoader :: loader where
  "ClientSessionStatsLoader =
    \<lparr>ld_resource = ClientSessionStats, ld_isQuery = False,
       ld_args = [(''realm'', FromRoute ''realm''), (''client'', FromRoute ''client'')]\<rparr>"

definition ClientSessionCountLoader :: loader where
  "ClientSessionCountLoader =
    \<lparr>ld_resource = ClientSessionCount, ld_isQuery = False,
       ld_args = [(''realm'', FromRoute ''realm''), (''client'', FromRoute ''client'')]\<rparr>"

definition ClientOfflineSessionCountLoader :: loader where
  "ClientOfflineSessionCountLoader =
    \<lparr>ld_resource = ClientOfflineSessionCount, ld_isQuery = False,
       ld_args = [(''realm'', FromRoute ''realm''), (''client'', FromRoute ''client'')]\<rparr>"

definition ClientDefaultClientScopesLoader :: loader where
  "ClientDefaultClientScopesLoader =
    \<lparr>ld_resource = ClientDefaultClientScopes, ld_isQuery = True,
       ld_args = [(''realm'', FromRoute ''realm''), (''client'', FromRoute ''client'')]\<rparr>"

definition ClientOptionalClientScopesLoader :: loader where
  "ClientOptionalClientScopesLoader =
    \<lparr>ld_resource = ClientOptionalClientScopes, ld_isQuery = True,
       ld_args = [(''realm'', FromRoute ''realm''), (''client'', FromRoute ''client'')]\<rparr>"

definition ClientRoleListLoader :: loader where
  "ClientRoleListLoader =
    \<lparr>ld_resource = ClientRole, ld_isQuery = True,
       ld_args = [(''realm'', FromRoute ''realm''), (''client'', FromRoute ''client'')]\<rparr>"

definition ClientLoader :: loader where
  "ClientLoader =
    \<lparr>ld_resource = Client, ld_isQuery = False,
       ld_args = [(''realm'', FromRoute ''realm''), (''client'', FromRoute ''client'')]\<rparr>"

definition ClientListLoader :: loader where
  "ClientListLoader =
    \<lparr>ld_resource = Client, ld_isQuery = True,
       ld_args = [(''realm'', FromRoute ''realm'')]\<rparr>"

definition ClientScopeLoader :: loader where
  "ClientScopeLoader =
    \<lparr>ld_resource = ClientScope, ld_isQuery = False,
       ld_args = [(''realm'', FromRoute ''realm''), (''clientScope'', FromRoute ''clientScope'')]\<rparr>"

definition ClientScopeListLoader :: loader where
  "ClientScopeListLoader =
    \<lparr>ld_resource = ClientScope, ld_isQuery = True,
       ld_args = [(''realm'', FromRoute ''realm'')]\<rparr>"

definition RealmDefaultClientScopesLoader :: loader where
  "RealmDefaultClientScopesLoader =
    \<lparr>ld_resource = RealmDefaultClientScopes, ld_isQuery = True,
       ld_args = [(''realm'', FromRoute ''realm'')]\<rparr>"

definition RealmOptionalClientScopesLoader :: loader where
  "RealmOptionalClientScopesLoader =
    \<lparr>ld_resource = RealmOptionalClientScopes, ld_isQuery = True,
       ld_args = [(''realm'', FromRoute ''realm'')]\<rparr>"

definition ClientServiceAccountUserLoader :: loader where
  "ClientServiceAccountUserLoader =
    \<lparr>ld_resource = ClientServiceAccountUser, ld_isQuery = False,
       ld_args = [(''realm'', FromRoute ''realm''), (''client'', FromRoute ''client'')]\<rparr>"

definition IdentityProviderLoader :: loader where
  "IdentityProviderLoader =
    \<lparr>ld_resource = IdentityProvider, ld_isQuery = False,
       ld_args = [(''realm'', FromRoute ''realm''), (''alias'', FromRoute ''alias'')]\<rparr>"

definition IdentityProviderFactoryLoader :: loader where
  "IdentityProviderFactoryLoader =
    \<lparr>ld_resource = IdentityProviderFactory, ld_isQuery = False,
       ld_args = [(''realm'', FromRoute ''realm''), (''provider_id'', FromRoute ''provider_id'')]\<rparr>"

definition IdentityProviderMapperTypesLoader :: loader where
  "IdentityProviderMapperTypesLoader =
    \<lparr>ld_resource = IdentityProviderMapperTypes, ld_isQuery = False,
       ld_args = [(''realm'', FromRoute ''realm''), (''alias'', FromRoute ''alias'')]\<rparr>"

definition IdentityProviderMappersLoader :: loader where
  "IdentityProviderMappersLoader =
    \<lparr>ld_resource = IdentityProviderMappers, ld_isQuery = True,
       ld_args = [(''realm'', FromRoute ''realm''), (''alias'', FromRoute ''alias'')]\<rparr>"

definition IdentityProviderMapperLoader :: loader where
  "IdentityProviderMapperLoader =
    \<lparr>ld_resource = IdentityProviderMapper, ld_isQuery = False,
       ld_args = [(''realm'', FromRoute ''realm''),
           (''alias'', FromRoute ''alias''),
           (''mapperId'', FromRoute ''mapperId'')]\<rparr>"

definition AuthenticationFlowsLoader :: loader where
  "AuthenticationFlowsLoader =
    \<lparr>ld_resource = AuthenticationFlows, ld_isQuery = True,
       ld_args = [(''realm'', FromRoute ''realm''), (''flow'', Text '''')]\<rparr>"

definition AuthenticationFormProvidersLoader :: loader where
  "AuthenticationFormProvidersLoader =
    \<lparr>ld_resource = AuthenticationFormProviders, ld_isQuery = True,
       ld_args = [(''realm'', FromRoute ''realm'')]\<rparr>"

definition AuthenticationFormActionProvidersLoader :: loader where
  "AuthenticationFormActionProvidersLoader =
    \<lparr>ld_resource = AuthenticationFormActionProviders, ld_isQuery = True,
       ld_args = [(''realm'', FromRoute ''realm'')]\<rparr>"

definition AuthenticatorProvidersLoader :: loader where
  "AuthenticatorProvidersLoader =
    \<lparr>ld_resource = AuthenticatorProviders, ld_isQuery = True,
       ld_args = [(''realm'', FromRoute ''realm'')]\<rparr>"

definition ClientAuthenticatorProvidersLoader :: loader where
  "ClientAuthenticatorProvidersLoader =
    \<lparr>ld_resource = ClientAuthenticatorProviders, ld_isQuery = True,
       ld_args = [(''realm'', FromRoute ''realm'')]\<rparr>"

definition AuthenticationFlowLoader :: loader where
  "AuthenticationFlowLoader =
    \<lparr>ld_resource = AuthenticationFlows, ld_isQuery = False,
       ld_args = [(''realm'', FromRoute ''realm''), (''flow'', FromRoute ''flow'')]\<rparr>"

definition AuthenticationConfigDescriptionLoader :: loader where
  "AuthenticationConfigDescriptionLoader =
    \<lparr>ld_resource = AuthenticationConfigDescription, ld_isQuery = False,
       ld_args = [(''realm'', FromRoute ''realm''), (''provider'', FromRoute ''provider'')]\<rparr>"

definition PerClientAuthenticationConfigDescriptionLoader :: loader where
  "PerClientAuthenticationConfigDescriptionLoader =
    \<lparr>ld_resource = PerClientAuthenticationConfigDescription, ld_isQuery = False,
       ld_args = [(''realm'', FromRoute ''realm'')]\<rparr>"

definition AuthenticationConfigLoader :: loader where
  "AuthenticationConfigLoader =
    \<lparr>ld_resource = AuthenticationConfig, ld_isQuery = False,
       ld_args = [(''realm'', FromRoute ''realm''), (''config'', FromRoute ''config'')]\<rparr>"

definition GroupListLoader :: loader where
  "GroupListLoader =
    \<lparr>ld_resource = Groups, ld_isQuery = True,
       ld_args = [(''realm'', FromRoute ''realm'')]\<rparr>"

definition GroupCountLoader :: loader where
  "GroupCountLoader =
    \<lparr>ld_resource = GroupsCount, ld_isQuery = True,
       ld_args = [(''realm'', FromRoute ''realm''), (''top'', Flag True)]\<rparr>"

definition GroupLoader :: loader where
  "GroupLoader =
    \<lparr>ld_resource = Group, ld_isQuery = False,
       ld_args = [(''realm'', FromRoute ''realm''), (''groupId'', FromRoute ''group'')]\<rparr>"

definition ClientInitialAccessLoader :: loader where
  "ClientInitialAccessLoader =
    \<lparr>ld_resource = ClientInitialAccess, ld_isQuery = True,
       ld_args = [(''realm'', FromRoute ''realm'')]\<rparr>"

definition ClientRegistrationPolicyProvidersLoader :: loader where
  "ClientRegistrationPolicyProvidersLoader =
    \<lparr>ld_resource = ClientRegistrationPolicyProviders, ld_isQuery = True,
       ld_args = [(''realm'', FromRoute ''realm'')]\<rparr>"

definition entity_loaders :: "loader list" where
  "entity_loaders =
    [RealmLoader, RealmKeysLoader, RealmEventsConfigLoader, UserListLoader,
     RequiredActionsListLoader, UnregisteredRequiredActionsListLoader, RealmSessionStatsLoader, RealmClientSessionStatsLoader,
     ClientProtocolMapperLoader, ClientScopeProtocolMapperLoader, UserLoader, ComponentLoader,
     LDAPMapperLoader, UserSessionStatsLoader, UserSessionsLoader, UserOfflineSessionsLoader,
     UserFederatedIdentityLoader, UserConsentsLoader, RoleLoader, RoleListLoader,
     ClientRoleLoader, ClientSessionStatsLoader, ClientSessionCountLoader, ClientOfflineSessionCountLoader,
     ClientDefaultClientScopesLoader, ClientOptionalClientScopesLoader, ClientRoleListLoader, ClientLoader,
     ClientListLoader, ClientScopeLoader, ClientScopeListLoader, RealmDefaultClientScopesLoader,
     RealmOptionalClientScopesLoader, ClientServiceAccountUserLoader, IdentityProviderLoader, IdentityProviderFactoryLoader,
     IdentityProviderMapperTypesLoader, IdentityProviderMappersLoader, IdentityProviderMapperLoader, AuthenticationFlowsLoader,
     AuthenticationFormProvidersLoader, AuthenticationFormActionProvidersLoader, AuthenticatorProvidersLoader, ClientAuthenticatorProvidersLoader,
     AuthenticationFlowLoader, AuthenticationConfigDescriptionLoader, PerClientAuthenticationConfigDescriptionLoader, AuthenticationConfigLoader,
     GroupListLoader, GroupCountLoader, GroupLoader, ClientInitialAccessLoader,
     ClientRegistrationPolicyProvidersLoader]"

subsection \<open>What a request leaves open\<close>

text \<open>The placeholders of a resource's template that a request gives no value for.\<close>

definition open_placeholders :: "resource \<Rightarrow> string list \<Rightarrow> string list" where
  "open_placeholders r names = filter (\<lambda>p. p \<notin> set names) (placeholders (rs_url r))"

text \<open>A request for one entity gives them all; a request for a list may leave out the last, the one of an entity of the list.\<close>

definition complete_args :: "resource \<Rightarrow> bool \<Rightarrow> string list \<Rightarrow> bool" where
  "complete_args r query names \<longleftrightarrow>
     (let ps = open_placeholders r names in ps = [] \<or> query \<and> ps = [last (placeholders (rs_url r))])"

definition loader_complete :: "loader \<Rightarrow> bool" where
  "loader_complete l = complete_args (ld_resource l) (ld_isQuery l) (map fst (ld_args l))"

lemma loaders_complete: "list_all loader_complete entity_loaders"
  by code_simp

end
