(* ===== verification/Routes.thy ===== *)
theory Routes
  imports Loaders
begin

section \<open>The admin console: routes\<close>

text \<open>
  The routes of app.js (136-2029) and authz/authz-app.js (23-484), as tables: the path pattern, the template, the
  controller and what is resolved before the controller runs. \<open>XLoader()\<close> and \<open>new XLoader()\<close> are both
  \<open>Load XLoader\<close>: a function that returns an object gives that object under \<open>new\<close> as well.
\<close>

datatype resolve =
    Load loader
  | LoadComponents arg string
  | LoadSubComponentTypes arg string
  | ServerInfoPromise
  | ServerInfoDelay
  | Given arg
  | Object "(string \<times> arg) list"

text \<open>A template is a fixed file, or one whose name holds a parameter of the route.\<close>

datatype template = Template string | TemplateFor string string string

record route =
  rt_path :: string
  rt_template :: template
  rt_controller :: "string option"
  rt_resolve :: "(string \<times> resolve) list"

subsection \<open>The tables\<close>

text \<open>app.js, lines 136 to 276.\<close>

definition routes_1 :: "route list" where
  "routes_1 =
    [\<lparr>rt_path = ''/create/realm'',
       rt_template = Template ''/partials/realm-create.html'', rt_controller = Some ''RealmCreateCtrl'',
       rt_resolve = []\<rparr>,
     \<lparr>rt_path = ''/realms/:realm'',
       rt_template = Template ''/partials/realm-detail.html'', rt_controller = Some ''RealmDetailCtrl'',
       rt_resolve = [(''realm'', Load RealmLoader),
         (''serverInfo'', ServerInfoPromise)]\<rparr>,
     \<lparr>rt_path = ''/realms/:realm/login-settings'',
       rt_template = Template ''/partials/realm-login-settings.html'', rt_controller = Some ''RealmLoginSettingsCtrl'',
       rt_resolve = [(''realm'', Load RealmLoader),
         (''serverInfo'', ServerInfoDelay)]\<rparr>,
     \<lparr>rt_path = ''/realms/:realm/theme-settings'',
       rt_template = Template ''/partials/realm-theme-settings.html'', rt_controller = Some ''RealmThemeCtrl'',
       rt_resolve = [(''realm'', Load RealmLoader),
         (''serverInfo'', ServerInfoPromise)]\<rparr>,
     \<lparr>rt_path = ''/realms/:realm/cache-settings'',
       rt_template = Template ''/partials/realm-cache-settings.html'', rt_controller = Some ''RealmCacheCtrl'',
       rt_resolve = [(''realm'', Load RealmLoader),
         (''serverInfo'', ServerInfoPromise)]\<rparr>,
     \<lparr>rt_path = ''/realms'',
       rt_template = Template ''/partials/realm-list.html'', rt_controller = Some ''RealmListCtrl'',
       rt_resolve = []\<rparr>,
     \<lparr>rt_path = ''/realms/:realm/token-settings'',
       rt_template = Template ''/partials/realm-tokens.html'', rt_controller = Some ''RealmTokenDetailCtrl'',
       rt_resolve = [(''serverInfo'', ServerInfoPromise),
         (''realm'', Load RealmLoader)]\<rparr>,
     \<lparr>rt_path = ''/realms/:realm/client-registration/client-initial-access'',
       rt_template = Template ''/partials/client-initial-access.html'', rt_controller = Some ''ClientInitialAccessCtrl'',
       rt_resolve = [(''realm'', Load RealmLoader),
         (''clientInitialAccess'', Load ClientInitialAccessLoader)]\<rparr>,
     \<lparr>rt_path = ''/realms/:realm/client-registration/client-initial-access/create'',
       rt_template = Template ''/partials/client-initial-access-create.html'', rt_controller = Some ''ClientInitialAccessCreateCtrl'',
       rt_resolve = [(''realm'', Load RealmLoader)]\<rparr>,
     \<lparr>rt_path = ''/realms/:realm/client-registration/client-reg-policies'',
       rt_template = Template ''/partials/client-reg-policies.html'', rt_controller = Some ''ClientRegPoliciesCtrl'',
       rt_resolve = [(''realm'', Load RealmLoader),
         (''policies'', LoadComponents Null ''org.keycloak.services.clientregistration.policy.ClientRegistrationPolicy''),
         (''clientRegistrationPolicyProviders'', Load ClientRegistrationPolicyProvidersLoader)]\<rparr>,
     \<lparr>rt_path = ''/realms/:realm/client-registration/client-reg-policies/create/:componentType/:providerId'',
       rt_template = Template ''/partials/client-reg-policy-detail.html'', rt_controller = Some ''ClientRegPolicyDetailCtrl'',
       rt_resolve = [(''realm'', Load RealmLoader),
         (''instance'', Object [(''providerType'', Text ''org.keycloak.services.clientregistration.policy.ClientRegistrationPolicy''),
           (''subType'', FromRoute ''componentType''),
           (''providerId'', FromRoute ''providerId'')]),
         (''clientRegistrationPolicyProviders'', Load ClientRegistrationPolicyProvidersLoader)]\<rparr>,
     \<lparr>rt_path = ''/realms/:realm/client-registration/client-reg-policies/:provider/:componentId'',
       rt_template = Template ''/partials/client-reg-policy-detail.html'', rt_controller = Some ''ClientRegPolicyDetailCtrl'',
       rt_resolve = [(''realm'', Load RealmLoader),
         (''instance'', Load ComponentLoader),
         (''clientRegistrationPolicyProviders'', Load ClientRegistrationPolicyProvidersLoader)]\<rparr>]"

text \<open>app.js, lines 277 to 412.\<close>

definition routes_2 :: "route list" where
  "routes_2 =
    [\<lparr>rt_path = ''/realms/:realm/keys'',
       rt_template = Template ''/partials/realm-keys.html'', rt_controller = Some ''RealmKeysCtrl'',
       rt_resolve = [(''realm'', Load RealmLoader),
         (''serverInfo'', ServerInfoPromise),
         (''keys'', Load RealmKeysLoader)]\<rparr>,
     \<lparr>rt_path = ''/realms/:realm/keys/passive'',
       rt_template = Template ''/partials/realm-keys-passive.html'', rt_controller = Some ''RealmKeysCtrl'',
       rt_resolve = [(''realm'', Load RealmLoader),
         (''serverInfo'', ServerInfoPromise),
         (''keys'', Load RealmKeysLoader)]\<rparr>,
     \<lparr>rt_path = ''/realms/:realm/keys/disabled'',
       rt_template = Template ''/partials/realm-keys-disabled.html'', rt_controller = Some ''RealmKeysCtrl'',
       rt_resolve = [(''realm'', Load RealmLoader),
         (''serverInfo'', ServerInfoPromise),
         (''keys'', Load RealmKeysLoader)]\<rparr>,
     \<lparr>rt_path = ''/realms/:realm/keys/providers'',
       rt_template = Template ''/partials/realm-keys-providers.html'', rt_controller = Some ''RealmKeysProvidersCtrl'',
       rt_resolve = [(''realm'', Load RealmLoader),
         (''serverInfo'', ServerInfoPromise)]\<rparr>,
     \<lparr>rt_path = ''/create/keys/:realm/providers/:provider'',
       rt_template = Template ''/partials/realm-keys-generic.html'', rt_controller = Some ''GenericKeystoreCtrl'',
       rt_resolve = [(''realm'', Load RealmLoader),
         (''instance'', Object []),
         (''providerId'', Given (FromRoute ''provider'')),
         (''serverInfo'', ServerInfoPromise)]\<rparr>,
     \<lparr>rt_path = ''/realms/:realm/keys/providers/:provider/:componentId'',
       rt_template = Template ''/partials/realm-keys-generic.html'', rt_controller = Some ''GenericKeystoreCtrl'',
       rt_resolve = [(''realm'', Load RealmLoader),
         (''instance'', Load ComponentLoader),
         (''providerId'', Given (FromRoute ''provider'')),
         (''serverInfo'', ServerInfoPromise)]\<rparr>,
     \<lparr>rt_path = ''/realms/:realm/identity-provider-settings'',
       rt_template = Template ''/partials/realm-identity-provider.html'', rt_controller = Some ''RealmIdentityProviderCtrl'',
       rt_resolve = [(''realm'', Load RealmLoader),
         (''serverInfo'', ServerInfoPromise),
         (''instance'', Object []),
         (''providerFactory'', Object []),
         (''authFlows'', Object [])]\<rparr>,
     \<lparr>rt_path = ''/create/identity-provider/:realm/:provider_id'',
       rt_template = TemplateFor ''/partials/realm-identity-provider-'' ''provider_id'' ''.html'', rt_controller = Some ''RealmIdentityProviderCtrl'',
       rt_resolve = [(''realm'', Load RealmLoader),
         (''serverInfo'', ServerInfoPromise),
         (''instance'', Object []),
         (''providerFactory'', Load IdentityProviderFactoryLoader),
         (''authFlows'', Load AuthenticationFlowsLoader)]\<rparr>]"

text \<open>app.js, lines 413 to 551.\<close>

definition routes_3 :: "route list" where
  "routes_3 =
    [\<lparr>rt_path = ''/realms/:realm/identity-provider-settings/provider/:provider_id/:alias'',
       rt_template = TemplateFor ''/partials/realm-identity-provider-'' ''provider_id'' ''.html'', rt_controller = Some ''RealmIdentityProviderCtrl'',
       rt_resolve = [(''realm'', Load RealmLoader),
         (''serverInfo'', ServerInfoPromise),
         (''instance'', Load IdentityProviderLoader),
         (''providerFactory'', Load IdentityProviderFactoryLoader),
         (''authFlows'', Load AuthenticationFlowsLoader)]\<rparr>,
     \<lparr>rt_path = ''/realms/:realm/identity-provider-settings/provider/:provider_id/:alias/export'',
       rt_template = Template ''/partials/realm-identity-provider-export.html'', rt_controller = Some ''RealmIdentityProviderExportCtrl'',
       rt_resolve = [(''realm'', Load RealmLoader),
         (''serverInfo'', ServerInfoPromise),
         (''identityProvider'', Load IdentityProviderLoader),
         (''providerFactory'', Load IdentityProviderFactoryLoader)]\<rparr>,
     \<lparr>rt_path = ''/realms/:realm/identity-provider-mappers/:alias/mappers'',
       rt_template = Template ''/partials/identity-provider-mappers.html'', rt_controller = Some ''IdentityProviderMapperListCtrl'',
       rt_resolve = [(''realm'', Load RealmLoader),
         (''identityProvider'', Load IdentityProviderLoader),
         (''mapperTypes'', Load IdentityProviderMapperTypesLoader),
         (''mappers'', Load IdentityProviderMappersLoader)]\<rparr>,
     \<lparr>rt_path = ''/realms/:realm/identity-provider-mappers/:alias/mappers/:mapperId'',
       rt_template = Template ''/partials/identity-provider-mapper-detail.html'', rt_controller = Some ''IdentityProviderMapperCtrl'',
       rt_resolve = [(''realm'', Load RealmLoader),
         (''identityProvider'', Load IdentityProviderLoader),
         (''mapperTypes'', Load IdentityProviderMapperTypesLoader),
         (''mapper'', Load IdentityProviderMapperLoader)]\<rparr>,
     \<lparr>rt_path = ''/create/identity-provider-mappers/:realm/:alias'',
       rt_template = Template ''/partials/identity-provider-mapper-detail.html'', rt_controller = Some ''IdentityProviderMapperCreateCtrl'',
       rt_resolve = [(''realm'', Load RealmLoader),
         (''identityProvider'', Load IdentityProviderLoader),
         (''mapperTypes'', Load IdentityProviderMapperTypesLoader)]\<rparr>,
     \<lparr>rt_path = ''/realms/:realm/default-roles'',
       rt_template = Template ''/partials/realm-default-roles.html'', rt_controller = Some ''RealmDefaultRolesCtrl'',
       rt_resolve = [(''realm'', Load RealmLoader),
         (''clients'', Load ClientListLoader),
         (''roles'', Load RoleListLoader)]\<rparr>,
     \<lparr>rt_path = ''/realms/:realm/smtp-settings'',
       rt_template = Template ''/partials/realm-smtp.html'', rt_controller = Some ''RealmSMTPSettingsCtrl'',
       rt_resolve = [(''realm'', Load RealmLoader)]\<rparr>,
     \<lparr>rt_path = ''/realms/:realm/events'',
       rt_template = Template ''/partials/realm-events.html'', rt_controller = Some ''RealmEventsCtrl'',
       rt_resolve = [(''realm'', Load RealmLoader),
         (''serverInfo'', ServerInfoPromise)]\<rparr>,
     \<lparr>rt_path = ''/realms/:realm/admin-events'',
       rt_template = Template ''/partials/realm-events-admin.html'', rt_controller = Some ''RealmAdminEventsCtrl'',
       rt_resolve = [(''realm'', Load RealmLoader),
         (''serverInfo'', ServerInfoPromise)]\<rparr>]"

text \<open>app.js, lines 552 to 696.\<close>

definition routes_4 :: "route list" where
  "routes_4 =
    [\<lparr>rt_path = ''/realms/:realm/events-settings'',
       rt_template = Template ''/partials/realm-events-config.html'', rt_controller = Some ''RealmEventsConfigCtrl'',
       rt_resolve = [(''realm'', Load RealmLoader),
         (''serverInfo'', ServerInfoPromise),
         (''eventsConfig'', Load RealmEventsConfigLoader)]\<rparr>,
     \<lparr>rt_path = ''/realms/:realm/partial-import'',
       rt_template = Template ''/partials/partial-import.html'', rt_controller = Some ''RealmImportCtrl'',
       rt_resolve = [(''resourceName'', Given (Text ''users'')),
         (''realm'', Load RealmLoader)]\<rparr>,
     \<lparr>rt_path = ''/realms/:realm/partial-export'',
       rt_template = Template ''/partials/partial-export.html'', rt_controller = Some ''RealmExportCtrl'',
       rt_resolve = [(''realm'', Load RealmLoader)]\<rparr>,
     \<lparr>rt_path = ''/create/user/:realm'',
       rt_template = Template ''/partials/user-detail.html'', rt_controller = Some ''UserDetailCtrl'',
       rt_resolve = [(''realm'', Load RealmLoader),
         (''user'', Object [])]\<rparr>,
     \<lparr>rt_path = ''/realms/:realm/users/:user'',
       rt_template = Template ''/partials/user-detail.html'', rt_controller = Some ''UserDetailCtrl'',
       rt_resolve = [(''realm'', Load RealmLoader),
         (''user'', Load UserLoader)]\<rparr>,
     \<lparr>rt_path = ''/realms/:realm/users/:user/user-attributes'',
       rt_template = Template ''/partials/user-attributes.html'', rt_controller = Some ''UserDetailCtrl'',
       rt_resolve = [(''realm'', Load RealmLoader),
         (''user'', Load UserLoader)]\<rparr>,
     \<lparr>rt_path = ''/realms/:realm/users/:user/user-credentials'',
       rt_template = Template ''/partials/user-credentials.html'', rt_controller = Some ''UserCredentialsCtrl'',
       rt_resolve = [(''realm'', Load RealmLoader),
         (''user'', Load UserLoader)]\<rparr>,
     \<lparr>rt_path = ''/realms/:realm/users/:user/role-mappings'',
       rt_template = Template ''/partials/role-mappings.html'', rt_controller = Some ''UserRoleMappingCtrl'',
       rt_resolve = [(''realm'', Load RealmLoader),
         (''user'', Load UserLoader),
         (''clients'', Load ClientListLoader),
         (''client'', Object [])]\<rparr>,
     \<lparr>rt_path = ''/realms/:realm/users/:user/groups'',
       rt_template = Template ''/partials/user-group-membership.html'', rt_controller = Some ''UserGroupMembershipCtrl'',
       rt_resolve = [(''realm'', Load RealmLoader),
         (''user'', Load UserLoader),
         (''groups'', Load GroupListLoader)]\<rparr>,
     \<lparr>rt_path = ''/realms/:realm/users/:user/sessions'',
       rt_template = Template ''/partials/user-sessions.html'', rt_controller = Some ''UserSessionsCtrl'',
       rt_resolve = [(''realm'', Load RealmLoader),
         (''user'', Load UserLoader),
         (''sessions'', Load UserSessionsLoader)]\<rparr>,
     \<lparr>rt_path = ''/realms/:realm/users/:user/federated-identity'',
       rt_template = Template ''/partials/user-federated-identity-list.html'', rt_controller = Some ''UserFederatedIdentityCtrl'',
       rt_resolve = [(''realm'', Load RealmLoader),
         (''user'', Load UserLoader),
         (''federatedIdentities'', Load UserFederatedIdentityLoader)]\<rparr>]"

text \<open>app.js, lines 697 to 835.\<close>

definition routes_5 :: "route list" where
  "routes_5 =
    [\<lparr>rt_path = ''/create/federated-identity/:realm/:user'',
       rt_template = Template ''/partials/user-federated-identity-detail.html'', rt_controller = Some ''UserFederatedIdentityAddCtrl'',
       rt_resolve = [(''realm'', Load RealmLoader),
         (''user'', Load UserLoader),
         (''federatedIdentities'', Load UserFederatedIdentityLoader)]\<rparr>,
     \<lparr>rt_path = ''/realms/:realm/users/:user/consents'',
       rt_template = Template ''/partials/user-consents.html'', rt_controller = Some ''UserConsentsCtrl'',
       rt_resolve = [(''realm'', Load RealmLoader),
         (''user'', Load UserLoader),
         (''userConsents'', Load UserConsentsLoader)]\<rparr>,
     \<lparr>rt_path = ''/realms/:realm/users/:user/offline-sessions/:client'',
       rt_template = Template ''/partials/user-offline-sessions.html'', rt_controller = Some ''UserOfflineSessionsCtrl'',
       rt_resolve = [(''realm'', Load RealmLoader),
         (''user'', Load UserLoader),
         (''client'', Load ClientLoader),
         (''offlineSessions'', Load UserOfflineSessionsLoader)]\<rparr>,
     \<lparr>rt_path = ''/realms/:realm/users'',
       rt_template = Template ''/partials/user-list.html'', rt_controller = Some ''UserListCtrl'',
       rt_resolve = [(''realm'', Load RealmLoader)]\<rparr>,
     \<lparr>rt_path = ''/create/role/:realm'',
       rt_template = Template ''/partials/role-detail.html'', rt_controller = Some ''RoleDetailCtrl'',
       rt_resolve = [(''realm'', Load RealmLoader),
         (''role'', Object []),
         (''roles'', Load RoleListLoader),
         (''clients'', Load ClientListLoader)]\<rparr>,
     \<lparr>rt_path = ''/realms/:realm/roles/:role'',
       rt_template = Template ''/partials/role-detail.html'', rt_controller = Some ''RoleDetailCtrl'',
       rt_resolve = [(''realm'', Load RealmLoader),
         (''role'', Load RoleLoader),
         (''roles'', Load RoleListLoader),
         (''clients'', Load ClientListLoader)]\<rparr>,
     \<lparr>rt_path = ''/realms/:realm/roles/:role/users'',
       rt_template = Template ''/partials/realm-role-users.html'', rt_controller = Some ''RoleMembersCtrl'',
       rt_resolve = [(''realm'', Load RealmLoader),
         (''role'', Load RoleLoader)]\<rparr>,
     \<lparr>rt_path = ''/realms/:realm/roles'',
       rt_template = Template ''/partials/role-list.html'', rt_controller = Some ''RoleListCtrl'',
       rt_resolve = [(''realm'', Load RealmLoader),
         (''roles'', Load RoleListLoader)]\<rparr>,
     \<lparr>rt_path = ''/realms/:realm/groups'',
       rt_template = Template ''/partials/group-list.html'', rt_controller = Some ''GroupListCtrl'',
       rt_resolve = [(''realm'', Load RealmLoader)]\<rparr>,
     \<lparr>rt_path = ''/create/group/:realm/parent/:parentId'',
       rt_template = Template ''/partials/create-group.html'', rt_controller = Some ''GroupCreateCtrl'',
       rt_resolve = [(''realm'', Load RealmLoader),
         (''parentId'', Given (FromRoute ''parentId''))]\<rparr>]"

text \<open>app.js, lines 836 to 975.\<close>

definition routes_6 :: "route list" where
  "routes_6 =
    [\<lparr>rt_path = ''/realms/:realm/groups/:group'',
       rt_template = Template ''/partials/group-detail.html'', rt_controller = Some ''GroupDetailCtrl'',
       rt_resolve = [(''realm'', Load RealmLoader),
         (''group'', Load GroupLoader)]\<rparr>,
     \<lparr>rt_path = ''/realms/:realm/groups/:group/attributes'',
       rt_template = Template ''/partials/group-attributes.html'', rt_controller = Some ''GroupDetailCtrl'',
       rt_resolve = [(''realm'', Load RealmLoader),
         (''group'', Load GroupLoader)]\<rparr>,
     \<lparr>rt_path = ''/realms/:realm/groups/:group/members'',
       rt_template = Template ''/partials/group-members.html'', rt_controller = Some ''GroupMembersCtrl'',
       rt_resolve = [(''realm'', Load RealmLoader),
         (''group'', Load GroupLoader)]\<rparr>,
     \<lparr>rt_path = ''/realms/:realm/groups/:group/role-mappings'',
       rt_template = Template ''/partials/group-role-mappings.html'', rt_controller = Some ''GroupRoleMappingCtrl'',
       rt_resolve = [(''realm'', Load RealmLoader),
         (''group'', Load GroupLoader),
         (''clients'', Load ClientListLoader),
         (''client'', Object [])]\<rparr>,
     \<lparr>rt_path = ''/realms/:realm/default-groups'',
       rt_template = Template ''/partials/default-groups.html'', rt_controller = Some ''DefaultGroupsCtrl'',
       rt_resolve = [(''realm'', Load RealmLoader),
         (''groups'', Load GroupListLoader)]\<rparr>,
     \<lparr>rt_path = ''/create/role/:realm/clients/:client'',
       rt_template = Template ''/partials/client-role-detail.html'', rt_controller = Some ''ClientRoleDetailCtrl'',
       rt_resolve = [(''realm'', Load RealmLoader),
         (''client'', Load ClientLoader),
         (''role'', Object []),
         (''roles'', Load RoleListLoader),
         (''clients'', Load ClientListLoader)]\<rparr>,
     \<lparr>rt_path = ''/realms/:realm/clients/:client/roles/:role'',
       rt_template = Template ''/partials/client-role-detail.html'', rt_controller = Some ''ClientRoleDetailCtrl'',
       rt_resolve = [(''realm'', Load RealmLoader),
         (''client'', Load ClientLoader),
         (''role'', Load ClientRoleLoader),
         (''roles'', Load RoleListLoader),
         (''clients'', Load ClientListLoader)]\<rparr>,
     \<lparr>rt_path = ''/realms/:realm/clients/:client/mappers'',
       rt_template = Template ''/partials/client-mappers.html'', rt_controller = Some ''ClientProtocolMapperListCtrl'',
       rt_resolve = [(''realm'', Load RealmLoader),
         (''client'', Load ClientLoader),
         (''serverInfo'', ServerInfoPromise)]\<rparr>,
     \<lparr>rt_path = ''/realms/:realm/clients/:client/add-mappers'',
       rt_template = Template ''/partials/client-mappers-add.html'', rt_controller = Some ''AddBuiltinProtocolMapperCtrl'',
       rt_resolve = [(''realm'', Load RealmLoader),
         (''client'', Load ClientLoader),
         (''serverInfo'', ServerInfoPromise)]\<rparr>]"

text \<open>app.js, lines 976 to 1118.\<close>

definition routes_7 :: "route list" where
  "routes_7 =
    [\<lparr>rt_path = ''/realms/:realm/clients/:client/mappers/:id'',
       rt_template = Template ''/partials/client-protocol-mapper-detail.html'', rt_controller = Some ''ClientProtocolMapperCtrl'',
       rt_resolve = [(''realm'', Load RealmLoader),
         (''client'', Load ClientLoader),
         (''serverInfo'', ServerInfoPromise),
         (''mapper'', Load ClientProtocolMapperLoader),
         (''clients'', Load ClientListLoader)]\<rparr>,
     \<lparr>rt_path = ''/create/client/:realm/:client/mappers'',
       rt_template = Template ''/partials/client-protocol-mapper-detail.html'', rt_controller = Some ''ClientProtocolMapperCreateCtrl'',
       rt_resolve = [(''realm'', Load RealmLoader),
         (''serverInfo'', ServerInfoPromise),
         (''client'', Load ClientLoader),
         (''clients'', Load ClientListLoader)]\<rparr>,
     \<lparr>rt_path = ''/realms/:realm/clients/:client/client-scopes/setup-scopes'',
       rt_template = Template ''/partials/client-scopes-setup.html'', rt_controller = Some ''ClientClientScopesSetupCtrl'',
       rt_resolve = [(''realm'', Load RealmLoader),
         (''client'', Load ClientLoader),
         (''clientScopes'', Load ClientScopeListLoader),
         (''serverInfo'', ServerInfoPromise),
         (''clientDefaultClientScopes'', Load ClientDefaultClientScopesLoader),
         (''clientOptionalClientScopes'', Load ClientOptionalClientScopesLoader)]\<rparr>,
     \<lparr>rt_path = ''/realms/:realm/clients/:client/client-scopes/evaluate-scopes'',
       rt_template = Template ''/partials/client-scopes-evaluate.html'', rt_controller = Some ''ClientClientScopesEvaluateCtrl'',
       rt_resolve = [(''realm'', Load RealmLoader),
         (''client'', Load ClientLoader),
         (''clients'', Load ClientListLoader),
         (''clientScopes'', Load ClientScopeListLoader),
         (''clientDefaultClientScopes'', Load ClientDefaultClientScopesLoader),
         (''clientOptionalClientScopes'', Load ClientOptionalClientScopesLoader),
         (''serverInfo'', ServerInfoPromise)]\<rparr>,
     \<lparr>rt_path = ''/realms/:realm/client-scopes/:clientScope/mappers'',
       rt_template = Template ''/partials/client-scope-mappers.html'', rt_controller = Some ''ClientScopeProtocolMapperListCtrl'',
       rt_resolve = [(''realm'', Load RealmLoader),
         (''clientScope'', Load ClientScopeLoader),
         (''serverInfo'', ServerInfoPromise)]\<rparr>,
     \<lparr>rt_path = ''/realms/:realm/client-scopes/:clientScope/add-mappers'',
       rt_template = Template ''/partials/client-scope-mappers-add.html'', rt_controller = Some ''ClientScopeAddBuiltinProtocolMapperCtrl'',
       rt_resolve = [(''realm'', Load RealmLoader),
         (''clientScope'', Load ClientScopeLoader),
         (''serverInfo'', ServerInfoPromise)]\<rparr>,
     \<lparr>rt_path = ''/realms/:realm/client-scopes/:clientScope/mappers/:id'',
       rt_template = Template ''/partials/client-scope-protocol-mapper-detail.html'', rt_controller = Some ''ClientScopeProtocolMapperCtrl'',
       rt_resolve = [(''realm'', Load RealmLoader),
         (''clientScope'', Load ClientScopeLoader),
         (''serverInfo'', ServerInfoPromise),
         (''mapper'', Load ClientScopeProtocolMapperLoader),
         (''clients'', Load ClientListLoader)]\<rparr>]"

text \<open>app.js, lines 1119 to 1262.\<close>

definition routes_8 :: "route list" where
  "routes_8 =
    [\<lparr>rt_path = ''/create/client-scope/:realm/:clientScope/mappers'',
       rt_template = Template ''/partials/client-scope-protocol-mapper-detail.html'', rt_controller = Some ''ClientScopeProtocolMapperCreateCtrl'',
       rt_resolve = [(''realm'', Load RealmLoader),
         (''serverInfo'', ServerInfoPromise),
         (''clientScope'', Load ClientScopeLoader),
         (''clients'', Load ClientListLoader)]\<rparr>,
     \<lparr>rt_path = ''/realms/:realm/clients/:client/sessions'',
       rt_template = Template ''/partials/client-sessions.html'', rt_controller = Some ''ClientSessionsCtrl'',
       rt_resolve = [(''realm'', Load RealmLoader),
         (''client'', Load ClientLoader),
         (''sessionCount'', Load ClientSessionCountLoader)]\<rparr>,
     \<lparr>rt_path = ''/realms/:realm/clients/:client/offline-access'',
       rt_template = Template ''/partials/client-offline-sessions.html'', rt_controller = Some ''ClientOfflineSessionsCtrl'',
       rt_resolve = [(''realm'', Load RealmLoader),
         (''client'', Load ClientLoader),
         (''offlineSessionCount'', Load ClientOfflineSessionCountLoader)]\<rparr>,
     \<lparr>rt_path = ''/realms/:realm/clients/:client/credentials'',
       rt_template = Template ''/partials/client-credentials.html'', rt_controller = Some ''ClientCredentialsCtrl'',
       rt_resolve = [(''realm'', Load RealmLoader),
         (''client'', Load ClientLoader),
         (''clientAuthenticatorProviders'', Load ClientAuthenticatorProvidersLoader),
         (''clientConfigProperties'', Load PerClientAuthenticationConfigDescriptionLoader)]\<rparr>,
     \<lparr>rt_path = ''/realms/:realm/clients/:client/credentials/client-jwt/:keyType/import/:attribute'',
       rt_template = Template ''/partials/client-credentials-jwt-key-import.html'', rt_controller = Some ''ClientCertificateImportCtrl'',
       rt_resolve = [(''realm'', Load RealmLoader),
         (''client'', Load ClientLoader),
         (''callingContext'', Given (Text ''jwt-credentials''))]\<rparr>,
     \<lparr>rt_path = ''/realms/:realm/clients/:client/credentials/client-jwt/:keyType/export/:attribute'',
       rt_template = Template ''/partials/client-credentials-jwt-key-export.html'', rt_controller = Some ''ClientCertificateExportCtrl'',
       rt_resolve = [(''realm'', Load RealmLoader),
         (''client'', Load ClientLoader),
         (''callingContext'', Given (Text ''jwt-credentials''))]\<rparr>,
     \<lparr>rt_path = ''/realms/:realm/clients/:client/identity-provider'',
       rt_template = Template ''/partials/client-identity-provider.html'', rt_controller = Some ''ClientIdentityProviderCtrl'',
       rt_resolve = [(''realm'', Load RealmLoader),
         (''client'', Load ClientLoader)]\<rparr>,
     \<lparr>rt_path = ''/realms/:realm/clients/:client/clustering'',
       rt_template = Template ''/partials/client-clustering.html'', rt_controller = Some ''ClientClusteringCtrl'',
       rt_resolve = [(''realm'', Load RealmLoader),
         (''client'', Load ClientLoader)]\<rparr>,
     \<lparr>rt_path = ''/register-node/realms/:realm/clients/:client/clustering'',
       rt_template = Template ''/partials/client-clustering-node.html'', rt_controller = Some ''ClientClusteringNodeCtrl'',
       rt_resolve = [(''realm'', Load RealmLoader),
         (''client'', Load ClientLoader)]\<rparr>,
     \<lparr>rt_path = ''/realms/:realm/clients/:client/clustering/:node'',
       rt_template = Template ''/partials/client-clustering-node.html'', rt_controller = Some ''ClientClusteringNodeCtrl'',
       rt_resolve = [(''realm'', Load RealmLoader),
         (''client'', Load ClientLoader)]\<rparr>]"

text \<open>app.js, lines 1263 to 1400.\<close>

definition routes_9 :: "route list" where
  "routes_9 =
    [\<lparr>rt_path = ''/realms/:realm/clients/:client/saml/keys'',
       rt_template = Template ''/partials/client-saml-keys.html'', rt_controller = Some ''ClientSamlKeyCtrl'',
       rt_resolve = [(''realm'', Load RealmLoader),
         (''client'', Load ClientLoader)]\<rparr>,
     \<lparr>rt_path = ''/realms/:realm/clients/:client/saml/:keyType/import/:attribute'',
       rt_template = Template ''/partials/client-saml-key-import.html'', rt_controller = Some ''ClientCertificateImportCtrl'',
       rt_resolve = [(''realm'', Load RealmLoader),
         (''client'', Load ClientLoader),
         (''callingContext'', Given (Text ''saml''))]\<rparr>,
     \<lparr>rt_path = ''/realms/:realm/clients/:client/saml/:keyType/export/:attribute'',
       rt_template = Template ''/partials/client-saml-key-export.html'', rt_controller = Some ''ClientCertificateExportCtrl'',
       rt_resolve = [(''realm'', Load RealmLoader),
         (''client'', Load ClientLoader),
         (''callingContext'', Given (Text ''saml''))]\<rparr>,
     \<lparr>rt_path = ''/realms/:realm/clients/:client/roles'',
       rt_template = Template ''/partials/client-role-list.html'', rt_controller = Some ''ClientRoleListCtrl'',
       rt_resolve = [(''realm'', Load RealmLoader),
         (''client'', Load ClientLoader),
         (''roles'', Load ClientRoleListLoader)]\<rparr>,
     \<lparr>rt_path = ''/realms/:realm/clients/:client/revocation'',
       rt_template = Template ''/partials/client-revocation.html'', rt_controller = Some ''ClientRevocationCtrl'',
       rt_resolve = [(''realm'', Load RealmLoader),
         (''client'', Load ClientLoader)]\<rparr>,
     \<lparr>rt_path = ''/realms/:realm/clients/:client/scope-mappings'',
       rt_template = Template ''/partials/client-scope-mappings.html'', rt_controller = Some ''ClientScopeMappingCtrl'',
       rt_resolve = [(''realm'', Load RealmLoader),
         (''client'', Load ClientLoader),
         (''clients'', Load ClientListLoader)]\<rparr>,
     \<lparr>rt_path = ''/realms/:realm/clients/:client/installation'',
       rt_template = Template ''/partials/client-installation.html'', rt_controller = Some ''ClientInstallationCtrl'',
       rt_resolve = [(''realm'', Load RealmLoader),
         (''client'', Load ClientLoader),
         (''serverInfo'', ServerInfoPromise)]\<rparr>,
     \<lparr>rt_path = ''/realms/:realm/clients/:client/service-account-roles'',
       rt_template = Template ''/partials/client-service-account-roles.html'', rt_controller = Some ''UserRoleMappingCtrl'',
       rt_resolve = [(''realm'', Load RealmLoader),
         (''user'', Load ClientServiceAccountUserLoader),
         (''clients'', Load ClientListLoader),
         (''client'', Load ClientLoader)]\<rparr>,
     \<lparr>rt_path = ''/create/client/:realm'',
       rt_template = Template ''/partials/create-client.html'', rt_controller = Some ''CreateClientCtrl'',
       rt_resolve = [(''realm'', Load RealmLoader),
         (''clients'', Load ClientListLoader),
         (''client'', Object []),
         (''flows'', Load AuthenticationFlowsLoader),
         (''serverInfo'', ServerInfoPromise)]\<rparr>]"

text \<open>app.js, lines 1401 to 1540.\<close>

definition routes_10 :: "route list" where
  "routes_10 =
    [\<lparr>rt_path = ''/realms/:realm/clients/:client'',
       rt_template = Template ''/partials/client-detail.html'', rt_controller = Some ''ClientDetailCtrl'',
       rt_resolve = [(''realm'', Load RealmLoader),
         (''clients'', Load ClientListLoader),
         (''client'', Load ClientLoader),
         (''flows'', Load AuthenticationFlowsLoader),
         (''serverInfo'', ServerInfoPromise)]\<rparr>,
     \<lparr>rt_path = ''/create/client-scope/:realm'',
       rt_template = Template ''/partials/client-scope-detail.html'', rt_controller = Some ''ClientScopeDetailCtrl'',
       rt_resolve = [(''realm'', Load RealmLoader),
         (''clientScope'', Object []),
         (''serverInfo'', ServerInfoPromise)]\<rparr>,
     \<lparr>rt_path = ''/realms/:realm/client-scopes/:clientScope'',
       rt_template = Template ''/partials/client-scope-detail.html'', rt_controller = Some ''ClientScopeDetailCtrl'',
       rt_resolve = [(''realm'', Load RealmLoader),
         (''clientScope'', Load ClientScopeLoader),
         (''serverInfo'', ServerInfoPromise)]\<rparr>,
     \<lparr>rt_path = ''/realms/:realm/client-scopes/:clientScope/scope-mappings'',
       rt_template = Template ''/partials/client-scope-scope-mappings.html'', rt_controller = Some ''ClientScopeScopeMappingCtrl'',
       rt_resolve = [(''realm'', Load RealmLoader),
         (''clientScope'', Load ClientScopeLoader),
         (''clients'', Load ClientListLoader)]\<rparr>,
     \<lparr>rt_path = ''/realms/:realm/clients'',
       rt_template = Template ''/partials/client-list.html'', rt_controller = Some ''ClientListCtrl'',
       rt_resolve = [(''realm'', Load RealmLoader),
         (''serverInfo'', ServerInfoPromise)]\<rparr>,
     \<lparr>rt_path = ''/realms/:realm/client-scopes'',
       rt_template = Template ''/partials/client-scope-list.html'', rt_controller = Some ''ClientScopeListCtrl'',
       rt_resolve = [(''realm'', Load RealmLoader),
         (''clientScopes'', Load ClientScopeListLoader),
         (''serverInfo'', ServerInfoPromise)]\<rparr>,
     \<lparr>rt_path = ''/realms/:realm/default-client-scopes'',
       rt_template = Template ''/partials/client-scopes-realm-default.html'', rt_controller = Some ''ClientScopesRealmDefaultCtrl'',
       rt_resolve = [(''realm'', Load RealmLoader),
         (''clientScopes'', Load ClientScopeListLoader),
         (''serverInfo'', ServerInfoPromise),
         (''realmDefaultClientScopes'', Load RealmDefaultClientScopesLoader),
         (''realmOptionalClientScopes'', Load RealmOptionalClientScopesLoader)]\<rparr>,
     \<lparr>rt_path = ''/import/client/:realm'',
       rt_template = Template ''/partials/client-import.html'', rt_controller = Some ''ClientImportCtrl'',
       rt_resolve = [(''realm'', Load RealmLoader),
         (''serverInfo'', ServerInfoPromise)]\<rparr>,
     \<lparr>rt_path = ''/realms/:realm/client-stores'',
       rt_template = Template ''/partials/client-storage-list.html'', rt_controller = Some ''ClientStoresCtrl'',
       rt_resolve = [(''realm'', Load RealmLoader),
         (''serverInfo'', ServerInfoPromise)]\<rparr>]"

text \<open>app.js, lines 1541 to 1675.\<close>

definition routes_11 :: "route list" where
  "routes_11 =
    [\<lparr>rt_path = ''/realms/:realm/client-storage/providers/:provider/:componentId'',
       rt_template = Template ''/partials/client-storage-generic.html'', rt_controller = Some ''GenericClientStorageCtrl'',
       rt_resolve = [(''realm'', Load RealmLoader),
         (''instance'', Load ComponentLoader),
         (''providerId'', Given (FromRoute ''provider'')),
         (''serverInfo'', ServerInfoPromise)]\<rparr>,
     \<lparr>rt_path = ''/create/client-storage/:realm/providers/:provider'',
       rt_template = Template ''/partials/client-storage-generic.html'', rt_controller = Some ''GenericClientStorageCtrl'',
       rt_resolve = [(''realm'', Load RealmLoader),
         (''instance'', Object []),
         (''providerId'', Given (FromRoute ''provider'')),
         (''serverInfo'', ServerInfoPromise)]\<rparr>,
     \<lparr>rt_path = ''/'',
       rt_template = Template ''/partials/home.html'', rt_controller = Some ''HomeCtrl'',
       rt_resolve = []\<rparr>,
     \<lparr>rt_path = ''/mocks/:realm'',
       rt_template = Template ''/partials/realm-detail_mock.html'', rt_controller = Some ''RealmDetailCtrl'',
       rt_resolve = [(''realm'', Load RealmLoader),
         (''serverInfo'', ServerInfoPromise)]\<rparr>,
     \<lparr>rt_path = ''/realms/:realm/sessions/revocation'',
       rt_template = Template ''/partials/session-revocation.html'', rt_controller = Some ''RealmRevocationCtrl'',
       rt_resolve = [(''realm'', Load RealmLoader)]\<rparr>,
     \<lparr>rt_path = ''/realms/:realm/sessions/realm'',
       rt_template = Template ''/partials/session-realm.html'', rt_controller = Some ''RealmSessionStatsCtrl'',
       rt_resolve = [(''realm'', Load RealmLoader),
         (''stats'', Load RealmClientSessionStatsLoader)]\<rparr>,
     \<lparr>rt_path = ''/create/user-storage/:realm/providers/ldap'',
       rt_template = Template ''/partials/user-storage-ldap.html'', rt_controller = Some ''LDAPUserStorageCtrl'',
       rt_resolve = [(''realm'', Load RealmLoader),
         (''instance'', Object []),
         (''providerId'', Given (FromRoute ''provider'')),
         (''serverInfo'', ServerInfoPromise)]\<rparr>,
     \<lparr>rt_path = ''/create/user-storage/:realm/providers/kerberos'',
       rt_template = Template ''/partials/user-storage-kerberos.html'', rt_controller = Some ''GenericUserStorageCtrl'',
       rt_resolve = [(''realm'', Load RealmLoader),
         (''instance'', Object []),
         (''providerId'', Given (Text ''kerberos'')),
         (''serverInfo'', ServerInfoPromise)]\<rparr>,
     \<lparr>rt_path = ''/create/user-storage/:realm/providers/:provider'',
       rt_template = Template ''/partials/user-storage-generic.html'', rt_controller = Some ''GenericUserStorageCtrl'',
       rt_resolve = [(''realm'', Load RealmLoader),
         (''instance'', Object []),
         (''providerId'', Given (FromRoute ''provider'')),
         (''serverInfo'', ServerInfoPromise)]\<rparr>]"

text \<open>app.js, lines 1676 to 1817.\<close>

definition routes_12 :: "route list" where
  "routes_12 =
    [\<lparr>rt_path = ''/realms/:realm/user-storage/providers/ldap/:componentId'',
       rt_template = Template ''/partials/user-storage-ldap.html'', rt_controller = Some ''LDAPUserStorageCtrl'',
       rt_resolve = [(''realm'', Load RealmLoader),
         (''instance'', Load ComponentLoader),
         (''providerId'', Given (FromRoute ''provider'')),
         (''serverInfo'', ServerInfoPromise)]\<rparr>,
     \<lparr>rt_path = ''/realms/:realm/user-storage/providers/kerberos/:componentId'',
       rt_template = Template ''/partials/user-storage-kerberos.html'', rt_controller = Some ''GenericUserStorageCtrl'',
       rt_resolve = [(''realm'', Load RealmLoader),
         (''instance'', Load ComponentLoader),
         (''providerId'', Given (Text ''kerberos'')),
         (''serverInfo'', ServerInfoPromise)]\<rparr>,
     \<lparr>rt_path = ''/realms/:realm/user-storage/providers/:provider/:componentId'',
       rt_template = Template ''/partials/user-storage-generic.html'', rt_controller = Some ''GenericUserStorageCtrl'',
       rt_resolve = [(''realm'', Load RealmLoader),
         (''instance'', Load ComponentLoader),
         (''providerId'', Given (FromRoute ''provider'')),
         (''serverInfo'', ServerInfoPromise)]\<rparr>,
     \<lparr>rt_path = ''/realms/:realm/ldap-mappers/:componentId'',
       rt_template = Template ''/partials/user-storage-ldap-mappers.html'', rt_controller = Some ''LDAPMapperListCtrl'',
       rt_resolve = [(''realm'', Load RealmLoader),
         (''provider'', Load ComponentLoader),
         (''mappers'', LoadComponents (FromRoute ''componentId'') ''org.keycloak.storage.ldap.mappers.LDAPStorageMapper'')]\<rparr>,
     \<lparr>rt_path = ''/create/ldap-mappers/:realm/:componentId'',
       rt_template = Template ''/partials/user-storage-ldap-mapper-detail.html'', rt_controller = Some ''LDAPMapperCreateCtrl'',
       rt_resolve = [(''realm'', Load RealmLoader),
         (''provider'', Load ComponentLoader),
         (''mapperTypes'', LoadSubComponentTypes (FromRoute ''componentId'') ''org.keycloak.storage.ldap.mappers.LDAPStorageMapper''),
         (''clients'', Load ClientListLoader)]\<rparr>,
     \<lparr>rt_path = ''/realms/:realm/ldap-mappers/:componentId/mappers/:mapperId'',
       rt_template = Template ''/partials/user-storage-ldap-mapper-detail.html'', rt_controller = Some ''LDAPMapperCtrl'',
       rt_resolve = [(''realm'', Load RealmLoader),
         (''provider'', Load ComponentLoader),
         (''mapperTypes'', LoadSubComponentTypes (FromRoute ''componentId'') ''org.keycloak.storage.ldap.mappers.LDAPStorageMapper''),
         (''mapper'', Load LDAPMapperLoader),
         (''clients'', Load ClientListLoader)]\<rparr>,
     \<lparr>rt_path = ''/realms/:realm/user-federation'',
       rt_template = Template ''/partials/user-federation.html'', rt_controller = Some ''UserFederationCtrl'',
       rt_resolve = [(''realm'', Load RealmLoader),
         (''serverInfo'', ServerInfoPromise)]\<rparr>,
     \<lparr>rt_path = ''/realms/:realm/defense/headers'',
       rt_template = Template ''/partials/defense-headers.html'', rt_controller = Some ''DefenseHeadersCtrl'',
       rt_resolve = [(''realm'', Load RealmLoader),
         (''serverInfo'', ServerInfoPromise)]\<rparr>,
     \<lparr>rt_path = ''/realms/:realm/defense/brute-force'',
       rt_template = Template ''/partials/brute-force.html'', rt_controller = Some ''RealmBruteForceCtrl'',
       rt_resolve = [(''realm'', Load RealmLoader)]\<rparr>]"

text \<open>app.js, lines 1818 to 1962.\<close>

definition routes_13 :: "route list" where
  "routes_13 =
    [\<lparr>rt_path = ''/realms/:realm/protocols'',
       rt_template = Template ''/partials/protocol-list.html'', rt_controller = Some ''ProtocolListCtrl'',
       rt_resolve = [(''realm'', Load RealmLoader),
         (''serverInfo'', ServerInfoPromise)]\<rparr>,
     \<lparr>rt_path = ''/realms/:realm/authentication/flows'',
       rt_template = Template ''/partials/authentication-flows.html'', rt_controller = Some ''AuthenticationFlowsCtrl'',
       rt_resolve = [(''realm'', Load RealmLoader),
         (''flows'', Load AuthenticationFlowsLoader),
         (''selectedFlow'', Given (Null))]\<rparr>,
     \<lparr>rt_path = ''/realms/:realm/authentication/flow-bindings'',
       rt_template = Template ''/partials/authentication-flow-bindings.html'', rt_controller = Some ''RealmFlowBindingCtrl'',
       rt_resolve = [(''realm'', Load RealmLoader),
         (''flows'', Load AuthenticationFlowsLoader),
         (''serverInfo'', ServerInfoPromise)]\<rparr>,
     \<lparr>rt_path = ''/realms/:realm/authentication/flows/:flow'',
       rt_template = Template ''/partials/authentication-flows.html'', rt_controller = Some ''AuthenticationFlowsCtrl'',
       rt_resolve = [(''realm'', Load RealmLoader),
         (''flows'', Load AuthenticationFlowsLoader),
         (''selectedFlow'', Given (FromRoute ''flow''))]\<rparr>,
     \<lparr>rt_path = ''/realms/:realm/authentication/flows/:flow/create/execution/:topFlow'',
       rt_template = Template ''/partials/create-execution.html'', rt_controller = Some ''CreateExecutionCtrl'',
       rt_resolve = [(''realm'', Load RealmLoader),
         (''topFlow'', Given (FromRoute ''topFlow'')),
         (''parentFlow'', Load AuthenticationFlowLoader),
         (''formActionProviders'', Load AuthenticationFormActionProvidersLoader),
         (''authenticatorProviders'', Load AuthenticatorProvidersLoader),
         (''clientAuthenticatorProviders'', Load ClientAuthenticatorProvidersLoader)]\<rparr>,
     \<lparr>rt_path = ''/realms/:realm/authentication/flows/:flow/create/flow/execution/:topFlow'',
       rt_template = Template ''/partials/create-flow-execution.html'', rt_controller = Some ''CreateExecutionFlowCtrl'',
       rt_resolve = [(''realm'', Load RealmLoader),
         (''topFlow'', Given (FromRoute ''topFlow'')),
         (''parentFlow'', Load AuthenticationFlowLoader),
         (''formProviders'', Load AuthenticationFormProvidersLoader)]\<rparr>,
     \<lparr>rt_path = ''/realms/:realm/authentication/create/flow'',
       rt_template = Template ''/partials/create-flow.html'', rt_controller = Some ''CreateFlowCtrl'',
       rt_resolve = [(''realm'', Load RealmLoader)]\<rparr>,
     \<lparr>rt_path = ''/realms/:realm/authentication/required-actions'',
       rt_template = Template ''/partials/required-actions.html'', rt_controller = Some ''RequiredActionsCtrl'',
       rt_resolve = [(''realm'', Load RealmLoader),
         (''unregisteredRequiredActions'', Load UnregisteredRequiredActionsListLoader)]\<rparr>,
     \<lparr>rt_path = ''/realms/:realm/authentication/password-policy'',
       rt_template = Template ''/partials/password-policy.html'', rt_controller = Some ''RealmPasswordPolicyCtrl'',
       rt_resolve = [(''realm'', Load RealmLoader),
         (''serverInfo'', ServerInfoPromise)]\<rparr>,
     \<lparr>rt_path = ''/realms/:realm/authentication/otp-policy'',
       rt_template = Template ''/partials/otp-policy.html'', rt_controller = Some ''RealmOtpPolicyCtrl'',
       rt_resolve = [(''realm'', Load RealmLoader),
         (''serverInfo'', ServerInfoDelay)]\<rparr>]"

text \<open>app.js, lines 1963 to 2026.\<close>

definition routes_14 :: "route list" where
  "routes_14 =
    [\<lparr>rt_path = ''/realms/:realm/authentication/flows/:flow/config/:provider/:config'',
       rt_template = Template ''/partials/authenticator-config.html'', rt_controller = Some ''AuthenticationConfigCtrl'',
       rt_resolve = [(''realm'', Load RealmLoader),
         (''flow'', Load AuthenticationFlowLoader),
         (''configType'', Load AuthenticationConfigDescriptionLoader),
         (''config'', Load AuthenticationConfigLoader)]\<rparr>,
     \<lparr>rt_path = ''/create/authentication/:realm/flows/:flow/execution/:executionId/provider/:provider'',
       rt_template = Template ''/partials/authenticator-config.html'', rt_controller = Some ''AuthenticationConfigCreateCtrl'',
       rt_resolve = [(''realm'', Load RealmLoader),
         (''flow'', Load AuthenticationFlowLoader),
         (''configType'', Load AuthenticationConfigDescriptionLoader),
         (''execution'', Given (FromRoute ''executionId''))]\<rparr>,
     \<lparr>rt_path = ''/server-info'',
       rt_template = Template ''/partials/server-info.html'', rt_controller = Some ''ServerInfoCtrl'',
       rt_resolve = [(''serverInfo'', ServerInfoPromise)]\<rparr>,
     \<lparr>rt_path = ''/server-info/providers'',
       rt_template = Template ''/partials/server-info-providers.html'', rt_controller = Some ''ServerInfoCtrl'',
       rt_resolve = [(''serverInfo'', ServerInfoPromise)]\<rparr>,
     \<lparr>rt_path = ''/logout'',
       rt_template = Template ''/partials/home.html'', rt_controller = Some ''LogoutCtrl'',
       rt_resolve = []\<rparr>,
     \<lparr>rt_path = ''/notfound'',
       rt_template = Template ''/partials/notfound.html'', rt_controller = None,
       rt_resolve = []\<rparr>,
     \<lparr>rt_path = ''/forbidden'',
       rt_template = Template ''/partials/forbidden.html'', rt_controller = None,
       rt_resolve = []\<rparr>]"

text \<open>authz/authz-app.js, lines 23 to 162.\<close>

definition authz_routes_1 :: "route list" where
  "authz_routes_1 =
    [\<lparr>rt_path = ''/realms/:realm/authz'',
       rt_template = Template ''/partials/authz/resource-server-list.html'', rt_controller = Some ''ResourceServerCtrl'',
       rt_resolve = [(''realm'', Load RealmLoader)]\<rparr>,
     \<lparr>rt_path = ''/realms/:realm/clients/:client/authz/resource-server/create'',
       rt_template = Template ''/partials/authz/resource-server-detail.html'', rt_controller = Some ''ResourceServerDetailCtrl'',
       rt_resolve = [(''realm'', Load RealmLoader),
         (''client'', Load ClientLoader),
         (''clients'', Load ClientListLoader)]\<rparr>,
     \<lparr>rt_path = ''/realms/:realm/clients/:client/authz/resource-server'',
       rt_template = Template ''/partials/authz/resource-server-detail.html'', rt_controller = Some ''ResourceServerDetailCtrl'',
       rt_resolve = [(''realm'', Load RealmLoader),
         (''client'', Load ClientLoader),
         (''clients'', Load ClientListLoader),
         (''serverInfo'', ServerInfoPromise)]\<rparr>,
     \<lparr>rt_path = ''/realms/:realm/clients/:client/authz/resource-server/export-settings'',
       rt_template = Template ''/partials/authz/resource-server-export-settings.html'', rt_controller = Some ''ResourceServerDetailCtrl'',
       rt_resolve = [(''realm'', Load RealmLoader),
         (''client'', Load ClientLoader),
         (''clients'', Load ClientListLoader),
         (''serverInfo'', ServerInfoPromise)]\<rparr>,
     \<lparr>rt_path = ''/realms/:realm/clients/:client/authz/resource-server/evaluate'',
       rt_template = Template ''/partials/authz/policy/resource-server-policy-evaluate.html'', rt_controller = Some ''PolicyEvaluateCtrl'',
       rt_resolve = [(''realm'', Load RealmLoader),
         (''client'', Load ClientLoader),
         (''clients'', Load ClientListLoader),
         (''roles'', Load RoleListLoader)]\<rparr>,
     \<lparr>rt_path = ''/realms/:realm/clients/:client/authz/resource-server/evaluate/result'',
       rt_template = Template ''/partials/authz/policy/resource-server-policy-evaluate-result.html'', rt_controller = Some ''PolicyEvaluateCtrl'',
       rt_resolve = [(''realm'', Load RealmLoader),
         (''client'', Load ClientLoader)]\<rparr>,
     \<lparr>rt_path = ''/realms/:realm/clients/:client/authz/resource-server/resource'',
       rt_template = Template ''/partials/authz/resource-server-resource-list.html'', rt_controller = Some ''ResourceServerResourceCtrl'',
       rt_resolve = [(''realm'', Load RealmLoader),
         (''client'', Load ClientLoader)]\<rparr>,
     \<lparr>rt_path = ''/realms/:realm/clients/:client/authz/resource-server/resource/create'',
       rt_template = Template ''/partials/authz/resource-server-resource-detail.html'', rt_controller = Some ''ResourceServerResourceDetailCtrl'',
       rt_resolve = [(''realm'', Load RealmLoader),
         (''client'', Load ClientLoader)]\<rparr>,
     \<lparr>rt_path = ''/realms/:realm/clients/:client/authz/resource-server/resource/:rsrid'',
       rt_template = Template ''/partials/authz/resource-server-resource-detail.html'', rt_controller = Some ''ResourceServerResourceDetailCtrl'',
       rt_resolve = [(''realm'', Load RealmLoader),
         (''client'', Load ClientLoader)]\<rparr>,
     \<lparr>rt_path = ''/realms/:realm/clients/:client/authz/resource-server/scope'',
       rt_template = Template ''/partials/authz/resource-server-scope-list.html'', rt_controller = Some ''ResourceServerScopeCtrl'',
       rt_resolve = [(''realm'', Load RealmLoader),
         (''client'', Load ClientLoader)]\<rparr>,
     \<lparr>rt_path = ''/realms/:realm/clients/:client/authz/resource-server/scope/create'',
       rt_template = Template ''/partials/authz/resource-server-scope-detail.html'', rt_controller = Some ''ResourceServerScopeDetailCtrl'',
       rt_resolve = [(''realm'', Load RealmLoader),
         (''client'', Load ClientLoader)]\<rparr>]"

text \<open>authz/authz-app.js, lines 162 to 305.\<close>

definition authz_routes_2 :: "route list" where
  "authz_routes_2 =
    [\<lparr>rt_path = ''/realms/:realm/clients/:client/authz/resource-server/scope/:id'',
       rt_template = Template ''/partials/authz/resource-server-scope-detail.html'', rt_controller = Some ''ResourceServerScopeDetailCtrl'',
       rt_resolve = [(''realm'', Load RealmLoader),
         (''client'', Load ClientLoader)]\<rparr>,
     \<lparr>rt_path = ''/realms/:realm/clients/:client/authz/resource-server/permission'',
       rt_template = Template ''/partials/authz/permission/resource-server-permission-list.html'', rt_controller = Some ''ResourceServerPermissionCtrl'',
       rt_resolve = [(''realm'', Load RealmLoader),
         (''client'', Load ClientLoader)]\<rparr>,
     \<lparr>rt_path = ''/realms/:realm/clients/:client/authz/resource-server/policy'',
       rt_template = Template ''/partials/authz/policy/resource-server-policy-list.html'', rt_controller = Some ''ResourceServerPolicyCtrl'',
       rt_resolve = [(''realm'', Load RealmLoader),
         (''client'', Load ClientLoader)]\<rparr>,
     \<lparr>rt_path = ''/realms/:realm/clients/:client/authz/resource-server/policy/rules/create'',
       rt_template = Template ''/partials/authz/policy/provider/resource-server-policy-drools-detail.html'', rt_controller = Some ''ResourceServerPolicyDroolsDetailCtrl'',
       rt_resolve = [(''realm'', Load RealmLoader),
         (''client'', Load ClientLoader)]\<rparr>,
     \<lparr>rt_path = ''/realms/:realm/clients/:client/authz/resource-server/policy/rules/:id'',
       rt_template = Template ''/partials/authz/policy/provider/resource-server-policy-drools-detail.html'', rt_controller = Some ''ResourceServerPolicyDroolsDetailCtrl'',
       rt_resolve = [(''realm'', Load RealmLoader),
         (''client'', Load ClientLoader)]\<rparr>,
     \<lparr>rt_path = ''/realms/:realm/clients/:client/authz/resource-server/permission/resource/create'',
       rt_template = Template ''/partials/authz/permission/provider/resource-server-policy-resource-detail.html'', rt_controller = Some ''ResourceServerPolicyResourceDetailCtrl'',
       rt_resolve = [(''realm'', Load RealmLoader),
         (''client'', Load ClientLoader)]\<rparr>,
     \<lparr>rt_path = ''/realms/:realm/clients/:client/authz/resource-server/permission/resource/:id'',
       rt_template = Template ''/partials/authz/permission/provider/resource-server-policy-resource-detail.html'', rt_controller = Some ''ResourceServerPolicyResourceDetailCtrl'',
       rt_resolve = [(''realm'', Load RealmLoader),
         (''client'', Load ClientLoader)]\<rparr>,
     \<lparr>rt_path = ''/realms/:realm/clients/:client/authz/resource-server/permission/scope/create'',
       rt_template = Template ''/partials/authz/permission/provider/resource-server-policy-scope-detail.html'', rt_controller = Some ''ResourceServerPolicyScopeDetailCtrl'',
       rt_resolve = [(''realm'', Load RealmLoader),
         (''client'', Load ClientLoader)]\<rparr>,
     \<lparr>rt_path = ''/realms/:realm/clients/:client/authz/resource-server/permission/scope/:id'',
       rt_template = Template ''/partials/authz/permission/provider/resource-server-policy-scope-detail.html'', rt_controller = Some ''ResourceServerPolicyScopeDetailCtrl'',
       rt_resolve = [(''realm'', Load RealmLoader),
         (''client'', Load ClientLoader)]\<rparr>,
     \<lparr>rt_path = ''/realms/:realm/clients/:client/authz/resource-server/policy/user/create'',
       rt_template = Template ''/partials/authz/policy/provider/resource-server-policy-user-detail.html'', rt_controller = Some ''ResourceServerPolicyUserDetailCtrl'',
       rt_resolve = [(''realm'', Load RealmLoader),
         (''client'', Load ClientLoader)]\<rparr>,
     \<lparr>rt_path = ''/realms/:realm/clients/:client/authz/resource-server/policy/user/:id'',
       rt_template = Template ''/partials/authz/policy/provider/resource-server-policy-user-detail.html'', rt_controller = Some ''ResourceServerPolicyUserDetailCtrl'',
       rt_resolve = [(''realm'', Load RealmLoader),
         (''client'', Load ClientLoader)]\<rparr>,
     \<lparr>rt_path = ''/realms/:realm/clients/:client/authz/resource-server/policy/client/create'',
       rt_template = Template ''/partials/authz/policy/provider/resource-server-policy-client-detail.html'', rt_controller = Some ''ResourceServerPolicyClientDetailCtrl'',
       rt_resolve = [(''realm'', Load RealmLoader),
         (''client'', Load ClientLoader)]\<rparr>,
     \<lparr>rt_path = ''/realms/:realm/clients/:client/authz/resource-server/policy/client/:id'',
       rt_template = Template ''/partials/authz/policy/provider/resource-server-policy-client-detail.html'', rt_controller = Some ''ResourceServerPolicyClientDetailCtrl'',
       rt_resolve = [(''realm'', Load RealmLoader),
         (''client'', Load ClientLoader)]\<rparr>]"

text \<open>authz/authz-app.js, lines 305 to 448.\<close>

definition authz_routes_3 :: "route list" where
  "authz_routes_3 =
    [\<lparr>rt_path = ''/realms/:realm/clients/:client/authz/resource-server/policy/role/create'',
       rt_template = Template ''/partials/authz/policy/provider/resource-server-policy-role-detail.html'', rt_controller = Some ''ResourceServerPolicyRoleDetailCtrl'',
       rt_resolve = [(''realm'', Load RealmLoader),
         (''client'', Load ClientLoader)]\<rparr>,
     \<lparr>rt_path = ''/realms/:realm/clients/:client/authz/resource-server/policy/role/:id'',
       rt_template = Template ''/partials/authz/policy/provider/resource-server-policy-role-detail.html'', rt_controller = Some ''ResourceServerPolicyRoleDetailCtrl'',
       rt_resolve = [(''realm'', Load RealmLoader),
         (''client'', Load ClientLoader)]\<rparr>,
     \<lparr>rt_path = ''/realms/:realm/clients/:client/authz/resource-server/policy/group/create'',
       rt_template = Template ''/partials/authz/policy/provider/resource-server-policy-group-detail.html'', rt_controller = Some ''ResourceServerPolicyGroupDetailCtrl'',
       rt_resolve = [(''realm'', Load RealmLoader),
         (''client'', Load ClientLoader)]\<rparr>,
     \<lparr>rt_path = ''/realms/:realm/clients/:client/authz/resource-server/policy/group/:id'',
       rt_template = Template ''/partials/authz/policy/provider/resource-server-policy-group-detail.html'', rt_controller = Some ''ResourceServerPolicyGroupDetailCtrl'',
       rt_resolve = [(''realm'', Load RealmLoader),
         (''client'', Load ClientLoader)]\<rparr>,
     \<lparr>rt_path = ''/realms/:realm/clients/:client/authz/resource-server/policy/js/create'',
       rt_template = Template ''/partials/authz/policy/provider/resource-server-policy-js-detail.html'', rt_controller = Some ''ResourceServerPolicyJSDetailCtrl'',
       rt_resolve = [(''realm'', Load RealmLoader),
         (''client'', Load ClientLoader)]\<rparr>,
     \<lparr>rt_path = ''/realms/:realm/clients/:client/authz/resource-server/policy/js/:id'',
       rt_template = Template ''/partials/authz/policy/provider/resource-server-policy-js-detail.html'', rt_controller = Some ''ResourceServerPolicyJSDetailCtrl'',
       rt_resolve = [(''realm'', Load RealmLoader),
         (''client'', Load ClientLoader)]\<rparr>,
     \<lparr>rt_path = ''/realms/:realm/clients/:client/authz/resource-server/policy/time/create'',
       rt_template = Template ''/partials/authz/policy/provider/resource-server-policy-time-detail.html'', rt_controller = Some ''ResourceServerPolicyTimeDetailCtrl'',
       rt_resolve = [(''realm'', Load RealmLoader),
         (''client'', Load ClientLoader)]\<rparr>,
     \<lparr>rt_path = ''/realms/:realm/clients/:client/authz/resource-server/policy/time/:id'',
       rt_template = Template ''/partials/authz/policy/provider/resource-server-policy-time-detail.html'', rt_controller = Some ''ResourceServerPolicyTimeDetailCtrl'',
       rt_resolve = [(''realm'', Load RealmLoader),
         (''client'', Load ClientLoader)]\<rparr>,
     \<lparr>rt_path = ''/realms/:realm/clients/:client/authz/resource-server/policy/aggregate/create'',
       rt_template = Template ''/partials/authz/policy/provider/resource-server-policy-aggregate-detail.html'', rt_controller = Some ''ResourceServerPolicyAggregateDetailCtrl'',
       rt_resolve = [(''realm'', Load RealmLoader),
         (''client'', Load ClientLoader)]\<rparr>,
     \<lparr>rt_path = ''/realms/:realm/clients/:client/authz/resource-server/policy/aggregate/:id'',
       rt_template = Template ''/partials/authz/policy/provider/resource-server-policy-aggregate-detail.html'', rt_controller = Some ''ResourceServerPolicyAggregateDetailCtrl'',
       rt_resolve = [(''realm'', Load RealmLoader),
         (''client'', Load ClientLoader)]\<rparr>,
     \<lparr>rt_path = ''/realms/:realm/roles/:role/permissions'',
       rt_template = Template ''/partials/authz/mgmt/realm-role-permissions.html'', rt_controller = Some ''RealmRolePermissionsCtrl'',
       rt_resolve = [(''realm'', Load RealmLoader),
         (''role'', Load RoleLoader)]\<rparr>,
     \<lparr>rt_path = ''/realms/:realm/clients/:client/roles/:role/permissions'',
       rt_template = Template ''/partials/authz/mgmt/client-role-permissions.html'', rt_controller = Some ''ClientRolePermissionsCtrl'',
       rt_resolve = [(''realm'', Load RealmLoader),
         (''client'', Load ClientLoader),
         (''role'', Load RoleLoader)]\<rparr>,
     \<lparr>rt_path = ''/realms/:realm/users-permissions'',
       rt_template = Template ''/partials/authz/mgmt/users-permissions.html'', rt_controller = Some ''UsersPermissionsCtrl'',
       rt_resolve = [(''realm'', Load RealmLoader)]\<rparr>]"

text \<open>authz/authz-app.js, lines 449 to 484.\<close>

definition authz_routes_4 :: "route list" where
  "authz_routes_4 =
    [\<lparr>rt_path = ''/realms/:realm/clients/:client/permissions'',
       rt_template = Template ''/partials/authz/mgmt/client-permissions.html'', rt_controller = Some ''ClientPermissionsCtrl'',
       rt_resolve = [(''realm'', Load RealmLoader),
         (''client'', Load ClientLoader)]\<rparr>,
     \<lparr>rt_path = ''/realms/:realm/groups/:group/permissions'',
       rt_template = Template ''/partials/authz/mgmt/group-permissions.html'', rt_controller = Some ''GroupPermissionsCtrl'',
       rt_resolve = [(''realm'', Load RealmLoader),
         (''group'', Load GroupLoader)]\<rparr>,
     \<lparr>rt_path = ''/realms/:realm/identity-provider-settings/provider/:provider_id/:alias/permissions'',
       rt_template = Template ''/partials/authz/mgmt/broker-permissions.html'', rt_controller = Some ''IdentityProviderPermissionCtrl'',
       rt_resolve = [(''realm'', Load RealmLoader),
         (''identityProvider'', Load IdentityProviderLoader)]\<rparr>]"

definition all_routes :: "route list" where
  "all_routes = routes_1 @ routes_2 @ routes_3 @ routes_4 @ routes_5 @ routes_6 @ routes_7 @ routes_8 @ routes_9 @ routes_10 @ routes_11 @ routes_12 @ routes_13 @ routes_14 @ authz_routes_1 @ authz_routes_2 @ authz_routes_3 @ authz_routes_4"

text \<open>Any other address: app.js 2027-2029.\<close>

definition otherwise_template :: template where
  "otherwise_template = Template ''/partials/pagenotfound.html''"

subsection \<open>Opening a route\<close>

text \<open>The request a resolve sends; \<open>None\<close> when it sends none.\<close>

fun resolve_request :: "route_params \<Rightarrow> resolve \<Rightarrow> api_request option" where
  "resolve_request env (Load l) = Some (run_loader env l)"
| "resolve_request env (LoadComponents parent type) =
     Some (load_request env Components True (loadComponents_args parent type))"
| "resolve_request env (LoadSubComponentTypes parent type) =
     Some (load_request env SubComponentTypes True (loadSubComponentTypes_args parent type))"
| "resolve_request env _ = None"

definition route_requests :: "route_params \<Rightarrow> route \<Rightarrow> api_request list" where
  "route_requests env r = List.map_filter (\<lambda>(n, e). resolve_request env e) (rt_resolve r)"

text \<open>The route parameters a resolve reads.\<close>

fun arg_reads :: "arg \<Rightarrow> string list" where
  "arg_reads (FromRoute p) = [p]"
| "arg_reads _ = []"

definition args_read :: "(string \<times> arg) list \<Rightarrow> string list" where
  "args_read args = concat (map (arg_reads \<circ> snd) args)"

text \<open>The static check of one resolve: it reads bound parameters only, and the request is complete.\<close>

fun resolve_ok :: "string list \<Rightarrow> resolve \<Rightarrow> bool" where
  "resolve_ok ps (Load l) =
     (list_all (\<lambda>p. p \<in> set ps) (args_read (ld_args l)) \<and> loader_complete l)"
| "resolve_ok ps (LoadComponents parent type) = list_all (\<lambda>p. p \<in> set ps) (args_read (loadComponents_args parent type))"
| "resolve_ok ps (LoadSubComponentTypes parent type) =
     list_all (\<lambda>p. p \<in> set ps) (args_read (loadSubComponentTypes_args parent type))"
| "resolve_ok ps _ = True"

definition route_ok :: "route \<Rightarrow> bool" where
  "route_ok r = list_all (resolve_ok (placeholders (rt_path r)) \<circ> snd) (rt_resolve r)"

lemma routes_1_ok: "list_all route_ok routes_1"
  by code_simp

lemma routes_2_ok: "list_all route_ok routes_2"
  by code_simp

lemma routes_3_ok: "list_all route_ok routes_3"
  by code_simp

lemma routes_4_ok: "list_all route_ok routes_4"
  by code_simp

lemma routes_5_ok: "list_all route_ok routes_5"
  by code_simp

lemma routes_6_ok: "list_all route_ok routes_6"
  by code_simp

lemma routes_7_ok: "list_all route_ok routes_7"
  by code_simp

lemma routes_8_ok: "list_all route_ok routes_8"
  by code_simp

lemma routes_9_ok: "list_all route_ok routes_9"
  by code_simp

lemma routes_10_ok: "list_all route_ok routes_10"
  by code_simp

lemma routes_11_ok: "list_all route_ok routes_11"
  by code_simp

lemma routes_12_ok: "list_all route_ok routes_12"
  by code_simp

lemma routes_13_ok: "list_all route_ok routes_13"
  by code_simp

lemma routes_14_ok: "list_all route_ok routes_14"
  by code_simp

lemma authz_routes_1_ok: "list_all route_ok authz_routes_1"
  by code_simp

lemma authz_routes_2_ok: "list_all route_ok authz_routes_2"
  by code_simp

lemma authz_routes_3_ok: "list_all route_ok authz_routes_3"
  by code_simp

lemma authz_routes_4_ok: "list_all route_ok authz_routes_4"
  by code_simp

lemmas routes_ok = routes_1_ok routes_2_ok routes_3_ok routes_4_ok routes_5_ok routes_6_ok routes_7_ok routes_8_ok routes_9_ok routes_10_ok routes_11_ok routes_12_ok routes_13_ok routes_14_ok authz_routes_1_ok authz_routes_2_ok authz_routes_3_ok authz_routes_4_ok

lemma all_routes_ok: "list_all route_ok all_routes"
  by (simp add: all_routes_def routes_ok)

subsection \<open>Requests of a route\<close>

lemma load_request_bound:
  assumes "list_all (\<lambda>p. p \<in> set ps) (args_read args)" and "\<forall>p\<in>set ps. env p \<noteq> None"
    and "(n, v) \<in> set (rq_args (load_request env res q args))"
  shows "v \<noteq> None"
proof -
  obtain a where a: "(n, a) \<in> set args" and v: "v = arg_value env a"
    using assms(3) by (auto simp: load_request_def)
  show ?thesis
  proof (cases a)
    case (FromRoute p)
    with a have "p \<in> set (args_read args)" by (force simp: args_read_def)
    with assms(1,2) FromRoute v show ?thesis by (auto simp: list_all_iff)
  qed (simp_all add: v)
qed

lemma components_complete:
  "complete_args Components True (map fst (loadComponents_args parent type))"
  "complete_args SubComponentTypes True (map fst (loadSubComponentTypes_args parent type))"
  by code_simp+

lemma load_request_args: "map fst (rq_args (load_request env res q args)) = map fst args"
  by (simp add: load_request_def comp_def case_prod_unfold)

lemma resolve_request_ok:
  assumes "resolve_ok ps e" and "\<forall>p\<in>set ps. env p \<noteq> None" and "resolve_request env e = Some q"
  shows "(\<forall>(n, v)\<in>set (rq_args q). v \<noteq> None) \<and> complete_args (rq_resource q) (rq_isQuery q) (map fst (rq_args q))"
proof -
  obtain res query args where q: "q = load_request env res query args"
    and bound: "list_all (\<lambda>p. p \<in> set ps) (args_read args)" and complete: "complete_args res query (map fst args)"
    using assms(1,3) by (cases e) (auto simp: run_loader_def loader_complete_def components_complete)
  have "v \<noteq> None" if "(n, v) \<in> set (rq_args q)" for n v
    using load_request_bound [OF bound assms(2)] that q by blast
  moreover have "complete_args (rq_resource q) (rq_isQuery q) (map fst (rq_args q))"
    using complete unfolding q load_request_args by (simp add: load_request_def)
  ultimately show ?thesis by blast
qed

text \<open>C18. Opening any page of the console, with the parameters of its path bound, sends only requests whose arguments are
  all defined, and each of them gives a value to every placeholder of its resource's URL, except that a list request may
  leave out the last one.\<close>

theorem route_requests_complete:
  assumes "r \<in> set all_routes" and "\<forall>p\<in>set (placeholders (rt_path r)). env p \<noteq> None"
    and "q \<in> set (route_requests env r)"
  shows "(\<forall>(n, v)\<in>set (rq_args q). v \<noteq> None) \<and> complete_args (rq_resource q) (rq_isQuery q) (map fst (rq_args q))"
proof -
  obtain n e where e: "(n, e) \<in> set (rt_resolve r)" and q: "resolve_request env e = Some q"
    using assms(3) by (auto simp: route_requests_def map_filter_def)
  have "resolve_ok (placeholders (rt_path r)) e"
    using all_routes_ok assms(1) e by (force simp: list_all_iff route_ok_def)
  then show ?thesis by (rule resolve_request_ok [OF _ assms(2) q])
qed

theorem route_requests_complete_witness:
  "\<exists>r q. r \<in> set all_routes \<and> rt_path r = ''/realms/:realm'' \<and> q \<in> set (route_requests (\<lambda>_. Some ''demo'') r) \<and>
     rq_resource q = Realm \<and> complete_args (rq_resource q) (rq_isQuery q) (map fst (rq_args q))"
proof -
  define r where "r = routes_1 ! 1"
  define q where "q = run_loader (\<lambda>_. Some ''demo'') RealmLoader"
  have r: "r \<in> set all_routes" "rt_path r = ''/realms/:realm''" by (simp_all add: r_def all_routes_def routes_1_def)
  have q: "q \<in> set (route_requests (\<lambda>_. Some ''demo'') r)"
    by (simp add: q_def r_def routes_1_def route_requests_def map_filter_simps)
  moreover have "rq_resource q = Realm" by (simp add: q_def run_loader_def load_request_def RealmLoader_def)
  ultimately show ?thesis using r route_requests_complete [OF r(1) _ q] by blast
qed

subsection \<open>Values taken from the route\<close>

fun given_ok :: "string list \<Rightarrow> resolve \<Rightarrow> bool" where
  "given_ok ps (Given a) = list_all (\<lambda>p. p \<in> set ps) (arg_reads a)"
| "given_ok ps (Object args) = list_all (\<lambda>p. p \<in> set ps) (args_read args)"
| "given_ok ps _ = True"

text \<open>The two LDAP pages resolve \<open>providerId\<close> to \<open>undefined\<close>: their paths have no parameter \<open>provider\<close>.\<close>

lemma ldap_provider_unbound:
  "map rt_path (filter (\<lambda>r. \<not> list_all (given_ok (placeholders (rt_path r)) \<circ> snd) (rt_resolve r)) (routes_11 @ routes_12)) =
     [''/create/user-storage/:realm/providers/ldap'', ''/realms/:realm/user-storage/providers/ldap/:componentId'']"
  by code_simp

end
