(* ===== verification/Services.thy ===== *)
theory Services
  imports Console "HOL-Library.Char_ord" "HOL-Library.List_Lexorder" "HOL-Library.Product_Lexorder"
begin

section \<open>The admin console: server information, components, the current realm\<close>

text \<open>
  services.js: \<open>ComponentUtils\<close> (195-256), \<open>ServerInfo\<close> (377-431), \<open>RealmRoleRemover\<close> (488-500),
  \<open>Current\<close> (1326-1347), the filter \<open>removeSelectedPolicies\<close> (1441-1458), the transformation of requests of
  \<open>Components\<close> (1863-1891), and the dialogs of \<open>SelectRoleDialog\<close> (1633-1723).
\<close>

subsection \<open>Component configuration\<close>

text \<open>A configuration maps a name to its values; \<open>None\<close> is \<open>undefined\<close> or \<open>null\<close>.\<close>

type_synonym component_config = "string \<Rightarrow> string list option"

record config_property =
  cp_name :: string
  cp_type :: string
  cp_options :: "string list"
  cp_mvOptions :: "string list option"

definition add_empty :: "string list option \<Rightarrow> string list" where
  "add_empty v =
     (let vs = (case v of None \<Rightarrow> [] | Some vs \<Rightarrow> vs) in
      if vs = [] \<or> last vs \<noteq> [] then vs @ [[]] else vs)"

definition add_empty_step :: "config_property \<Rightarrow> component_config \<Rightarrow> component_config" where
  "add_empty_step prop config =
     (if cp_type prop = ''MultivaluedString'' then config(cp_name prop \<mapsto> add_empty (config (cp_name prop))) else config)"

definition addLastEmptyValueToMultivaluedLists :: "config_property list option \<Rightarrow> component_config \<Rightarrow> component_config" where
  "addLastEmptyValueToMultivaluedLists properties config =
     (case properties of None \<Rightarrow> config | Some ps \<Rightarrow> fold add_empty_step ps config)"

definition drop_empty :: "string list \<Rightarrow> string list" where
  "drop_empty vs = (if vs \<noteq> [] \<and> last vs = [] then butlast vs else vs)"

definition removeLastEmptyValue :: "component_config \<Rightarrow> component_config" where
  "removeLastEmptyValue config = (\<lambda>name. map_option drop_empty (config name))"

definition addMvOptionsToMultivaluedLists :: "config_property list option \<Rightarrow> config_property list option" where
  "addMvOptionsToMultivaluedLists properties =
     map_option (map (\<lambda>prop. if cp_type prop \<noteq> ''MultivaluedList'' then prop
                             else prop\<lparr>cp_mvOptions := Some (cp_options prop)\<rparr>)) properties"

text \<open>What \<open>Components.update\<close> and \<open>Components.save\<close> send of the configuration, if there is one.\<close>

definition components_transformRequest :: "component_config option \<Rightarrow> component_config option" where
  "components_transformRequest config = map_option removeLastEmptyValue config"

definition multivalued :: "config_property list option \<Rightarrow> string set" where
  "multivalued properties =
     (case properties of None \<Rightarrow> {} | Some ps \<Rightarrow> cp_name ` {p \<in> set ps. cp_type p = ''MultivaluedString''})"

lemma add_empty_idem [simp]: "add_empty (Some (add_empty v)) = add_empty v"
  by (auto simp: add_empty_def Let_def split: option.splits)

lemma fold_add_empty:
  "fold add_empty_step ps config name =
     (if name \<in> multivalued (Some ps) then Some (add_empty (config name)) else config name)"
  by (induction ps arbitrary: config) (auto simp: add_empty_step_def multivalued_def)

lemma drop_add_empty: "(\<And>vs. v = Some vs \<Longrightarrow> vs \<noteq> [] \<Longrightarrow> last vs \<noteq> []) \<Longrightarrow> drop_empty (add_empty v) = (case v of None \<Rightarrow> [] | Some vs \<Rightarrow> vs)"
  by (auto simp: drop_empty_def add_empty_def Let_def split: option.splits)

text \<open>The empty input line that the forms add to every multi-valued property is gone from what is saved: when no list of
  the configuration ends with an empty value, saving an unchanged form sends the configuration that was loaded, with
  an empty list for the multi-valued properties it did not have.\<close>

theorem component_config_roundtrip:
  assumes "\<And>name vs. config name = Some vs \<Longrightarrow> vs \<noteq> [] \<Longrightarrow> last vs \<noteq> []"
  shows "components_transformRequest (Some (addLastEmptyValueToMultivaluedLists properties config)) =
    Some (\<lambda>name. if name \<in> multivalued properties \<and> config name = None then Some [] else config name)"
proof -
  have "removeLastEmptyValue (addLastEmptyValueToMultivaluedLists properties config) name =
      (if name \<in> multivalued properties \<and> config name = None then Some [] else config name)" for name
  proof (cases "name \<in> multivalued properties")
    case True
    then show ?thesis
      using drop_add_empty [of "config name"] assms [of name]
      by (cases properties)
        (auto simp: removeLastEmptyValue_def addLastEmptyValueToMultivaluedLists_def fold_add_empty multivalued_def split: option.splits)
  next
    case False
    then show ?thesis
      using assms [of name]
      by (cases properties; cases "config name")
        (auto simp: removeLastEmptyValue_def addLastEmptyValueToMultivaluedLists_def fold_add_empty drop_empty_def)
  qed
  then show ?thesis by (auto simp: components_transformRequest_def)
qed

theorem component_config_roundtrip_witness:
  "\<exists>c. components_transformRequest (Some (addLastEmptyValueToMultivaluedLists
        (Some [\<lparr>cp_name = ''uris'', cp_type = ''MultivaluedString'', cp_options = [], cp_mvOptions = None\<rparr>])
        [''uris'' \<mapsto> [''a'', ''b'']])) = Some c \<and> c ''uris'' = Some [''a'', ''b'']"
proof -
  let ?config = "[''uris'' \<mapsto> [''a'', ''b'']] :: component_config"
  have "?config name = Some vs \<Longrightarrow> vs \<noteq> [] \<Longrightarrow> last vs \<noteq> []" for name vs
    by (auto split: if_splits)
  from component_config_roundtrip [of ?config, OF this] show ?thesis by simp
qed

subsection \<open>Server information\<close>

text \<open>The providers of an SPI with their orders, in the order of the object's keys; the keys of an object are different.
  Strings are compared by character codes, as \<open><\<close> does on ASCII text.\<close>

record server_info =
  si_providers :: "string \<Rightarrow> (string \<times> int) list option"
  si_disabledFeatures :: "string list"

definition provider_order :: "(string \<times> int) list \<Rightarrow> string \<Rightarrow> int" where
  "provider_order providers p = the (map_of providers p)"

text \<open>The comparison function given to \<open>sort\<close>: -1, 0 or 1.\<close>

definition provider_cmp :: "(string \<times> int) list \<Rightarrow> string \<Rightarrow> string \<Rightarrow> int" where
  "provider_cmp providers a b =
     (if provider_order providers a \<noteq> provider_order providers b then
        (let s1 = provider_order providers b; s2 = provider_order providers a in
         if s1 < s2 then -1 else if s1 > s2 then 1 else 0)
      else if a < b then -1 else if a > b then 1 else 0)"

definition listProviderIds :: "server_info \<Rightarrow> string \<Rightarrow> string list res" where
  "listProviderIds info spi =
     (case si_providers info spi of
        None \<Rightarrow> Throw TypeError
      | Some providers \<Rightarrow> Ok (sort_key (\<lambda>p. (- provider_order providers p, p)) (map fst providers)))"

definition featureEnabled :: "server_info \<Rightarrow> string \<Rightarrow> bool" where
  "featureEnabled info feature = (index_in feature (si_disabledFeatures info) = None)"

lemma provider_cmp_key:
  "provider_cmp ps a b < 0 \<longleftrightarrow> (- provider_order ps a, a) < (- provider_order ps b, b)"
  "provider_cmp ps a b \<le> 0 \<longleftrightarrow> (- provider_order ps a, a) \<le> (- provider_order ps b, b)"
  by (auto simp: provider_cmp_def Let_def less_prod_def less_eq_prod_def not_less)

text \<open>The ids of an SPI's providers are listed each once, in the order of the comparison function: higher order first,
  and by name among equal orders.\<close>

theorem listProviderIds_sorted:
  assumes "si_providers info spi = Some providers" and "distinct (map fst providers)"
  shows "\<exists>ids. listProviderIds info spi = Ok ids \<and> set ids = fst ` set providers \<and> distinct ids \<and>
    (\<forall>i j. i < j \<longrightarrow> j < length ids \<longrightarrow> provider_cmp providers (ids ! i) (ids ! j) < 0)"
proof -
  let ?k = "\<lambda>p. (- provider_order providers p, p)"
  let ?ids = "sort_key ?k (map fst providers)"
  have le: "?k (?ids ! i) \<le> ?k (?ids ! j)" if "i < j" "j < length ?ids" for i j
    using sorted_nth_mono [of "map ?k ?ids" i j] that by simp
  have "?k (?ids ! i) < ?k (?ids ! j)" if "i < j" "j < length ?ids" for i j
    using le [OF that] that assms(2) nth_eq_iff_index_eq [of ?ids i j] by (simp add: order.order_iff_strict)
  then show ?thesis using assms by (intro exI [of _ ?ids]) (simp add: listProviderIds_def provider_cmp_key)
qed

theorem listProviderIds_sorted_witness:
  "\<exists>ids. listProviderIds \<lparr>si_providers = [''s'' \<mapsto> [(''a'', 0), (''b'', 10)]], si_disabledFeatures = []\<rparr> ''s'' = Ok ids \<and>
     set ids = {''a'', ''b''} \<and> provider_cmp [(''a'', 0), (''b'', 10)] (ids ! 0) (ids ! 1) < 0"
proof -
  let ?info = "\<lparr>si_providers = [''s'' \<mapsto> [(''a'', 0), (''b'', 10)]], si_disabledFeatures = []\<rparr>"
  obtain ids where ids: "listProviderIds ?info ''s'' = Ok ids" "set ids = {''a'', ''b''}" "distinct ids"
    and cmp: "\<forall>i j. i < j \<longrightarrow> j < length ids \<longrightarrow> provider_cmp [(''a'', 0), (''b'', 10)] (ids ! i) (ids ! j) < 0"
    using listProviderIds_sorted [of ?info "''s''" "[(''a'', 0), (''b'', 10)]"] by auto
  have "length ids = 2" using ids(2) distinct_card [OF ids(3)] by simp
  with ids cmp show ?thesis by auto
qed

subsection \<open>The current realm\<close>

text \<open>On each route change \<open>current.realms\<close> is the result of a new query; its answer picks the last realm of the list whose
  name is the route's.\<close>

record current_realm =
  cr_realms :: "string list"
  cr_realm :: "string option"

definition current_answer :: "string option \<Rightarrow> string list \<Rightarrow> current_realm \<Rightarrow> current_realm" where
  "current_answer param realms current =
     current\<lparr>cr_realms := realms,
       cr_realm := (if str_truthy param then fold (\<lambda>r found. if Some r = param then Some r else found) realms None else None)\<rparr>"

lemma fold_last: "fold (\<lambda>r found. if Some r = param then Some r else found) rs acc = (if param \<in> Some ` set rs then param else acc)"
  by (induction rs arbitrary: acc) auto

lemma current_answer_realm:
  "cr_realm (current_answer param realms current) = (if str_truthy param \<and> the param \<in> set realms then param else None)"
  by (auto simp: current_answer_def fold_last str_truthy_def)

subsection \<open>Policies that can still be added\<close>

record policy_entry =
  pe_id :: string
  pe_multipleSupported :: bool

definition removeSelectedPolicies :: "policy_entry list \<Rightarrow> policy_entry list \<Rightarrow> policy_entry list" where
  "removeSelectedPolicies policies selected =
     fold (\<lambda>policy result.
        if fold (\<lambda>s available. if pe_id policy = pe_id s \<and> \<not> pe_multipleSupported policy then False else available) selected True
        then result @ [policy] else result) policies []"

lemma removeSelectedPolicies_filter:
  "removeSelectedPolicies policies selected =
     filter (\<lambda>p. pe_multipleSupported p \<or> pe_id p \<notin> pe_id ` set selected) policies"
proof -
  have "fold (\<lambda>s available. if pe_id p = pe_id s \<and> \<not> pe_multipleSupported p then False else available) ss b =
      (b \<and> (pe_multipleSupported p \<or> pe_id p \<notin> pe_id ` set ss))" for p :: policy_entry and b and ss :: "policy_entry list"
    by (induction ss arbitrary: b) auto
  moreover have "fold (\<lambda>p result. if P p then result @ [p] else result) ps acc = acc @ filter P ps" for P ps and acc :: "policy_entry list"
    by (induction ps arbitrary: acc) auto
  ultimately show ?thesis by (simp add: removeSelectedPolicies_def)
qed

subsection \<open>Deleting a realm role\<close>

text \<open>The dialog of \<open>RealmRoleRemover.remove\<close>, the request once it is confirmed, and what follows the answer.\<close>

definition remove_realm_role :: "string \<Rightarrow> unit ui_effect list" where
  "remove_realm_role name = [ConfirmDelete name ''role'']"

definition remove_realm_role_confirmed :: "string \<Rightarrow> string \<Rightarrow> unit ui_effect list" where
  "remove_realm_role_confirmed realm role_id = [Request ''DELETE'' ''role.$remove'' [(''realm'', realm), (''role'', role_id)] ()]"

definition remove_realm_role_done :: "string \<Rightarrow> unit ui_effect list" where
  "remove_realm_role_done realm =
     [GoTo (''/realms/'' @ realm @ ''/roles''), Notify ''success'' ''The role has been deleted.'']"

end
