(* ===== verification/Roles.thy ===== *)
theory Roles
  imports Console
begin

section \<open>The admin console: lists of roles\<close>

text \<open>
  services.js \<open>roleControl\<close> (762-935), the editor of a composite role, and controllers/realm.js
  \<open>RealmDefaultRolesCtrl\<close> (571-731), the editor of default roles. Both show two lists and move the
  selected entries from one to the other, each with a loop of its own over \<open>indexOf\<close>, \<open>splice\<close> and
  \<open>push\<close>. The locale below states what these loops have in common.
\<close>

subsection \<open>Moving entries between two lists\<close>

text \<open>A move of one entry that is in the source list and not in the destination takes it out of the one and appends it to the other.\<close>

locale transfer =
  fixes move :: "'a \<Rightarrow> 'a list \<times> 'a list \<Rightarrow> 'a list \<times> 'a list"
  assumes move_one: "x \<in> set src \<Longrightarrow> x \<notin> set dst \<Longrightarrow> move x (src, dst) = (remove1 x src, dst @ [x])"
begin

lemma move_all:
  assumes "distinct (src @ dst)" and "distinct sel" and "set sel \<subseteq> set src"
  shows "fold move sel (src, dst) = (filter (\<lambda>x. x \<notin> set sel) src, dst @ sel)"
  using assms
proof (induction sel arbitrary: src dst)
  case Nil
  show ?case by simp
next
  case (Cons x sel)
  have "move x (src, dst) = (remove1 x src, dst @ [x])"
    using Cons.prems by (intro move_one) auto
  moreover have "fold move sel (remove1 x src, dst @ [x]) = (filter (\<lambda>y. y \<notin> set sel) (remove1 x src), (dst @ [x]) @ sel)"
    using Cons.prems by (intro Cons.IH) (auto simp: distinct_remove1)
  moreover have "filter (\<lambda>y. y \<notin> set sel) (remove1 x src) = filter (\<lambda>y. y \<notin> set (x # sel)) src"
    using Cons.prems(1) by (auto simp: distinct_remove1_removeAll removeAll_filter_not_eq intro: filter_cong)
  ultimately show ?case by simp
qed

lemma move_keeps_partition:
  assumes "distinct (src @ dst)" and "distinct sel" and "set sel \<subseteq> set src" and "fold move sel (src, dst) = (src', dst')"
  shows "distinct (src' @ dst') \<and> set (src' @ dst') = set (src @ dst) \<and> set dst' = set dst \<union> set sel"
proof -
  have "src' = filter (\<lambda>x. x \<notin> set sel) src" "dst' = dst @ sel" using assms(4) move_all [OF assms(1-3)] by simp_all
  with assms(1-3) show ?thesis by auto
qed

end

text \<open>The four loops: find and move, push and remove, push unless present and remove, remove and push unless present.\<close>

definition move_found :: "'a \<Rightarrow> 'a list \<times> 'a list \<Rightarrow> 'a list \<times> 'a list" where
  "move_found x = (\<lambda>(src, dst). case index_in x src of None \<Rightarrow> (src, dst) | Some i \<Rightarrow> (splice1 i src, dst @ [x]))"

definition push_and_remove :: "'a \<Rightarrow> 'a list \<times> 'a list \<Rightarrow> 'a list \<times> 'a list" where
  "push_and_remove x = (\<lambda>(src, dst). (case index_in x src of None \<Rightarrow> src | Some i \<Rightarrow> splice1 i src, dst @ [x]))"

definition push_new_and_remove :: "'a \<Rightarrow> 'a list \<times> 'a list \<Rightarrow> 'a list \<times> 'a list" where
  "push_new_and_remove x =
     (\<lambda>(src, dst). (case index_in x src of None \<Rightarrow> src | Some i \<Rightarrow> splice1 i src,
                    if index_in x dst = None then dst @ [x] else dst))"

lemma splice_found: "(case index_in x src of None \<Rightarrow> src | Some i \<Rightarrow> splice1 i src) = remove1 x src"
  by (auto simp: splice1_index_in remove1_idem index_in_None split: option.splits)

lemma move_found_eq: "move_found x (src, dst) = (if x \<in> set src then (remove1 x src, dst @ [x]) else (src, dst))"
  by (auto simp: move_found_def splice1_index_in index_in_None dest: index_in_Some split: option.splits)

interpretation found: transfer move_found
  by unfold_locales (simp add: move_found_eq)

interpretation pushed: transfer push_and_remove
  by unfold_locales (simp add: push_and_remove_def splice_found)

interpretation pushed_new: transfer push_new_and_remove
  by unfold_locales (simp add: push_new_and_remove_def splice_found index_in_None)

subsection \<open>Default roles of the realm and of a client\<close>

text \<open>Roles are names here; of a realm or client that is saved the model keeps the default roles. \<open>None\<close> stands for a property that is absent or \<open>null\<close>.\<close>

record default_client =
  dc_id :: string
  dc_name :: string
  dc_defaultRoles :: "string list option"

record default_roles =
  dr_realm :: string
  dr_defaultRoles :: "string list"
  dr_availableRealmRoles :: "string list"
  dr_selectedRealmRoles :: "string list"
  dr_selectedRealmDefRoles :: "string list"
  dr_client :: "default_client option"
  dr_availableClientRoles :: "string list option"
  dr_selectedClientRoles :: "string list"
  dr_selectedClientDefRoles :: "string list"

datatype default_roles_body = RealmRoles "string list" | ClientRoles "default_client" | NoBody

definition without_names :: "string list \<Rightarrow> string list \<Rightarrow> string list" where
  "without_names roles assigned = filter (\<lambda>r. index_in r assigned = None) roles"

definition new_default_roles :: "string \<Rightarrow> string list option \<Rightarrow> default_client list \<Rightarrow> string list \<Rightarrow> default_roles" where
  "new_default_roles realm defaults clients roles =
     (let defaults = (case defaults of None \<Rightarrow> [] | Some ds \<Rightarrow> ds) in
      \<lparr>dr_realm = realm, dr_defaultRoles = defaults, dr_availableRealmRoles = without_names roles defaults,
       dr_selectedRealmRoles = [], dr_selectedRealmDefRoles = [],
       dr_client = find (\<lambda>c. dc_name c = ''account'') clients, dr_availableClientRoles = Some [],
       dr_selectedClientRoles = [], dr_selectedClientDefRoles = []\<rparr>)"

definition update_realm :: "default_roles \<Rightarrow> default_roles_body ui_effect" where
  "update_realm s = Request ''PUT'' ''Realm'' [(''id'', dr_realm s)] (RealmRoles (dr_defaultRoles s))"

definition addRealmDefaultRole :: "default_roles \<Rightarrow> default_roles \<times> default_roles_body ui_effect list" where
  "addRealmDefaultRole s =
     (let (available, defaults) = fold push_and_remove (dr_selectedRealmRoles s) (dr_availableRealmRoles s, dr_defaultRoles s);
          s = s\<lparr>dr_availableRealmRoles := available, dr_defaultRoles := defaults, dr_selectedRealmRoles := []\<rparr> in
      (s, [update_realm s]))"

definition deleteRealmDefaultRole :: "default_roles \<Rightarrow> default_roles \<times> default_roles_body ui_effect list" where
  "deleteRealmDefaultRole s =
     (let (defaults, available) = fold push_and_remove (dr_selectedRealmDefRoles s) (dr_defaultRoles s, dr_availableRealmRoles s);
          s = s\<lparr>dr_availableRealmRoles := available, dr_defaultRoles := defaults, dr_selectedRealmDefRoles := []\<rparr> in
      (s, [update_realm s]))"

definition default_changeClient :: "default_roles \<Rightarrow> default_roles \<times> default_roles_body ui_effect list" where
  "default_changeClient s =
     (let s = s\<lparr>dr_selectedClientRoles := [], dr_selectedClientDefRoles := []\<rparr> in
      case dr_client s of
        Some c \<Rightarrow> (s, [Request ''GET'' ''ClientRole'' [(''realm'', dr_realm s), (''client'', dc_id c)] NoBody])
      | None \<Rightarrow> (s\<lparr>dr_availableClientRoles := None\<rparr>, []))"

text \<open>The answer is applied to the client selected when it arrives; without one, reading its fields is a TypeError.\<close>

definition default_client_roles_answer :: "string list \<Rightarrow> (default_roles, unit) comp" where
  "default_client_roles_answer roles s =
     (case dr_client s of
        None \<Rightarrow> (Throw TypeError, s)
      | Some c \<Rightarrow>
          let defaults = (case dc_defaultRoles c of None \<Rightarrow> [] | Some ds \<Rightarrow> ds) in
          (Ok (), s\<lparr>dr_client := Some (c\<lparr>dc_defaultRoles := Some defaults\<rparr>),
                    dr_availableClientRoles := Some (without_names roles defaults)\<rparr>))"

text \<open>The two operations on a client's roles read \<open>client.defaultRoles\<close> and \<open>availableClientRoles\<close> only when something
  is selected; both exist once the answer for the client has arrived. Before, the first round of the loop raises a TypeError:
  at once without default roles, and after its change to them (\<open>f1\<close>) without available roles.\<close>

definition update_client :: "default_roles \<Rightarrow> default_client \<Rightarrow> default_roles_body ui_effect" where
  "update_client s c = Request ''PUT'' ''Client'' [(''realm'', dr_realm s), (''client'', dc_id c)] (ClientRoles c)"

definition with_client_lists ::
  "(string list \<times> string list \<Rightarrow> string list \<times> string list) \<Rightarrow> (string \<Rightarrow> string list \<Rightarrow> string list) \<Rightarrow> string list \<Rightarrow>
     (default_roles, default_roles_body ui_effect list) comp" where
  "with_client_lists f f1 sel s =
     (case dr_client s of
        None \<Rightarrow> (Throw TypeError, s)
      | Some c \<Rightarrow>
          if sel = [] then (Ok [update_client s c], s)
          else
            (case (dr_availableClientRoles s, dc_defaultRoles c) of
               (Some available, Some defaults) \<Rightarrow>
                 let (available, defaults) = f (available, defaults);
                     c = c\<lparr>dc_defaultRoles := Some defaults\<rparr> in
                 (Ok [update_client s c], s\<lparr>dr_availableClientRoles := Some available, dr_client := Some c\<rparr>)
             | (None, Some defaults) \<Rightarrow>
                 (Throw TypeError, s\<lparr>dr_client := Some (c\<lparr>dc_defaultRoles := Some (f1 (hd sel) defaults)\<rparr>)\<rparr>)
             | (_, None) \<Rightarrow> (Throw TypeError, s)))"

definition addClientDefaultRole :: "(default_roles, default_roles_body ui_effect list) comp" where
  "addClientDefaultRole s =
     comp_bind (with_client_lists (fold push_new_and_remove (dr_selectedClientRoles s))
       (\<lambda>r defaults. snd (push_new_and_remove r ([], defaults))) (dr_selectedClientRoles s)) (\<lambda>es.
     comp_bind (comp_do (\<lambda>s. s\<lparr>dr_selectedClientRoles := []\<rparr>)) (\<lambda>_. comp_ret es)) s"

definition rmClientDefaultRole :: "(default_roles, default_roles_body ui_effect list) comp" where
  "rmClientDefaultRole s =
     comp_bind (with_client_lists (prod.swap \<circ> fold push_new_and_remove (dr_selectedClientDefRoles s) \<circ> prod.swap)
       (\<lambda>r defaults. fst (push_new_and_remove r (defaults, []))) (dr_selectedClientDefRoles s)) (\<lambda>es.
     comp_bind (comp_do (\<lambda>s. s\<lparr>dr_selectedClientDefRoles := []\<rparr>)) (\<lambda>_. comp_ret es)) s"

definition default_roles_saved :: "string \<Rightarrow> default_roles_body ui_effect list" where
  "default_roles_saved what =
     [Notify ''success'' (if what = ''realm'' then ''Realm default roles updated.''
                          else ''Your changes have been saved to the client.'')]"

text \<open>Adding default roles and taking them away again moves names between the two lists of the page and loses or doubles
  none: adding puts exactly the selected names at the end of the default roles, and the request sent carries that list.\<close>

theorem default_roles_moved:
  assumes "distinct (dr_availableRealmRoles s @ dr_defaultRoles s)" and "distinct (dr_selectedRealmRoles s)"
    and "set (dr_selectedRealmRoles s) \<subseteq> set (dr_availableRealmRoles s)"
    and "addRealmDefaultRole s = (s', effects)"
  shows "dr_defaultRoles s' = dr_defaultRoles s @ dr_selectedRealmRoles s \<and>
    distinct (dr_availableRealmRoles s' @ dr_defaultRoles s') \<and>
    set (dr_availableRealmRoles s' @ dr_defaultRoles s') = set (dr_availableRealmRoles s @ dr_defaultRoles s) \<and>
    effects = [Request ''PUT'' ''Realm'' [(''id'', dr_realm s)] (RealmRoles (dr_defaultRoles s @ dr_selectedRealmRoles s))] \<and>
    (\<exists>s'' es. deleteRealmDefaultRole (s'\<lparr>dr_selectedRealmDefRoles := dr_selectedRealmRoles s\<rparr>) = (s'', es) \<and>
       dr_defaultRoles s'' = dr_defaultRoles s \<and> set (dr_availableRealmRoles s'') = set (dr_availableRealmRoles s))"
proof -
  let ?sel = "dr_selectedRealmRoles s"
  have add: "fold push_and_remove ?sel (dr_availableRealmRoles s, dr_defaultRoles s) =
      (filter (\<lambda>x. x \<notin> set ?sel) (dr_availableRealmRoles s), dr_defaultRoles s @ ?sel)"
    by (rule pushed.move_all [OF assms(1-3)])
  have s': "s' = s\<lparr>dr_availableRealmRoles := filter (\<lambda>x. x \<notin> set ?sel) (dr_availableRealmRoles s),
      dr_defaultRoles := dr_defaultRoles s @ ?sel, dr_selectedRealmRoles := []\<rparr>"
    and effects: "effects = [update_realm s']"
    using assms(4) by (auto simp: addRealmDefaultRole_def add Let_def)
  have "fold push_and_remove ?sel (dr_defaultRoles s @ ?sel, filter (\<lambda>x. x \<notin> set ?sel) (dr_availableRealmRoles s)) =
      (filter (\<lambda>x. x \<notin> set ?sel) (dr_defaultRoles s @ ?sel), filter (\<lambda>x. x \<notin> set ?sel) (dr_availableRealmRoles s) @ ?sel)"
    using assms(1-3) by (intro pushed.move_all) auto
  moreover have "filter (\<lambda>x. x \<notin> set ?sel) (dr_defaultRoles s @ ?sel) = dr_defaultRoles s"
    using assms(1,3) by (auto simp: filter_id_conv)
  ultimately show ?thesis
    using assms(1-3) by (auto simp: s' effects update_realm_def deleteRealmDefaultRole_def Let_def)
qed

definition demo_default_roles :: default_roles where
  "demo_default_roles =
     (new_default_roles ''demo'' (Some [''a'']) [] [''a'', ''b'', ''c''])\<lparr>dr_selectedRealmRoles := [''c'']\<rparr>"

theorem default_roles_moved_witness:
  "\<exists>s'. addRealmDefaultRole demo_default_roles = (s', [Request ''PUT'' ''Realm'' [(''id'', ''demo'')] (RealmRoles [''a'', ''c''])]) \<and>
     dr_defaultRoles s' = [''a'', ''c''] \<and> distinct (dr_availableRealmRoles s' @ dr_defaultRoles s')"
proof -
  have d: "dr_availableRealmRoles demo_default_roles = [''b'', ''c'']" "dr_defaultRoles demo_default_roles = [''a'']"
    "dr_selectedRealmRoles demo_default_roles = [''c'']" "dr_realm demo_default_roles = ''demo''"
    by (simp_all add: demo_default_roles_def new_default_roles_def without_names_def)
  obtain s' es where a: "addRealmDefaultRole demo_default_roles = (s', es)" by fastforce
  have pre: "distinct (dr_availableRealmRoles demo_default_roles @ dr_defaultRoles demo_default_roles)"
    "distinct (dr_selectedRealmRoles demo_default_roles)"
    "set (dr_selectedRealmRoles demo_default_roles) \<subseteq> set (dr_availableRealmRoles demo_default_roles)"
    by (simp_all add: d)
  have "dr_defaultRoles s' = [''a'', ''c''] \<and> distinct (dr_availableRealmRoles s' @ dr_defaultRoles s') \<and>
      es = [Request ''PUT'' ''Realm'' [(''id'', ''demo'')] (RealmRoles [''a'', ''c''])]"
    using default_roles_moved [OF pre a, unfolded d append.simps] by blast
  with a show ?thesis by blast
qed

end
