(* ===== verification/Composites.thy ===== *)
theory Composites
  imports Roles
begin

section \<open>The admin console: the editor of a composite role\<close>

text \<open>
  services.js \<open>roleControl\<close> (762-935) as a state machine: the scope, one definition for each function of the
  scope and one for each answer, and a step relation in which the user selects, edits and clicks at any time and
  answers arrive in any order. An entry of a list is an object: \<open>re_ref\<close> is its identity, so that equality of
  entries is identity of objects, as in \<open>indexOf\<close>. A query of \<open>$resource\<close> returns an empty array at once and fills
  it when the answer arrives; the scope therefore remembers which query made the array it shows, and the answer to
  another query fills an array that is not shown any more. URLs are given without \<open>authUrl\<close>.

  Lines 920-927 compare an object of the list with an id, which is true only for the id \<open>[object Object]\<close>; that
  loop does nothing for the ids of the server and is not part of the model.
\<close>

subsection \<open>State\<close>

record role_entry =
  re_ref :: nat
  re_id :: string
  re_name :: string

record role_rep =
  rr_id :: "string option"
  rr_name :: string
  rr_description :: "string option"
  rr_composite :: bool

datatype composite_body = RoleBody role_rep | EntriesBody "role_entry list" | EmptyBody

record composite =
  co_realm :: string
  co_role :: role_rep
  co_scopeRole :: role_rep
  co_changed :: bool
  co_compositeSwitch :: bool
  co_compositeSwitchDisabled :: bool
  co_realmRoles :: "role_entry list"
  co_selectedRealmRoles :: "role_entry list"
  co_realmMappings :: "role_entry list"
  co_selectedRealmMappings :: "role_entry list"
  co_clientRoles :: "role_entry list"
  co_selectedClientRoles :: "role_entry list"
  co_clientMappings :: "role_entry list"
  co_selectedClientMappings :: "role_entry list"
  co_compositeClient :: "string option"
  co_rolesQuery :: nat
  co_mappingsQuery :: nat
  co_queries :: nat
  co_effects :: "composite_body ui_effect list"

definition co_do :: "composite_body ui_effect \<Rightarrow> composite \<Rightarrow> composite" where
  "co_do e s = s\<lparr>co_effects := co_effects s @ [e]\<rparr>"

definition co_role_id :: "composite \<Rightarrow> string" where
  "co_role_id s = undef_str (rr_id (co_role s))"

subsection \<open>Construction\<close>

text \<open>The loops that take the first entry with an id out of a list.\<close>

fun remove_id :: "string \<Rightarrow> role_entry list \<Rightarrow> role_entry list" where
  "remove_id i [] = []"
| "remove_id i (r # rs) = (if re_id r = i then rs else r # remove_id i rs)"

definition remove_ids :: "role_entry list \<Rightarrow> role_entry list \<Rightarrow> role_entry list" where
  "remove_ids ms rs = fold (\<lambda>m. remove_id (re_id m)) ms rs"

text \<open>\<open>roles\<close> is the copy that \<open>angular.copy\<close> makes. A role without an id is new: nothing else is set up for it.\<close>

definition new_composite :: "string \<Rightarrow> role_rep \<Rightarrow> role_entry list \<Rightarrow> composite" where
  "new_composite realm role roles =
     (let s = \<lparr>co_realm = realm, co_role = role, co_scopeRole = role, co_changed = False, co_compositeSwitch = False,
               co_compositeSwitchDisabled = False, co_realmRoles = [], co_selectedRealmRoles = [], co_realmMappings = [],
               co_selectedRealmMappings = [], co_clientRoles = [], co_selectedClientRoles = [], co_clientMappings = [],
               co_selectedClientMappings = [], co_compositeClient = None, co_rolesQuery = 0, co_mappingsQuery = 0,
               co_queries = 0, co_effects = []\<rparr> in
      case rr_id role of
        None \<Rightarrow> s
      | Some i \<Rightarrow>
          co_do (Request ''GET'' ''RoleRealmComposites'' [(''realm'', realm), (''role'', i)] EmptyBody)
            (s\<lparr>co_compositeSwitch := rr_composite role, co_compositeSwitchDisabled := rr_composite role,
               co_realmRoles := remove_id i roles\<rparr>))"

definition realm_composites_answer :: "role_entry list \<Rightarrow> composite \<Rightarrow> composite" where
  "realm_composites_answer ms s = s\<lparr>co_realmMappings := ms, co_realmRoles := remove_ids ms (co_realmRoles s)\<rparr>"

subsection \<open>Editing the role\<close>

definition role_watch :: "composite \<Rightarrow> composite" where
  "role_watch s = (if co_scopeRole s \<noteq> co_role s then s\<lparr>co_changed := True\<rparr> else s)"

definition role_update :: "composite \<Rightarrow> composite" where
  "role_update s =
     co_do (Request ''PUT'' ''RoleById'' [(''realm'', co_realm s), (''role'', co_role_id s)] (RoleBody (co_scopeRole s))) s"

definition role_update_done :: "composite \<Rightarrow> composite" where
  "role_update_done s =
     co_do (Notify ''success'' ''Your changes have been saved to the role.'')
       (s\<lparr>co_changed := False, co_role := co_scopeRole s\<rparr>)"

definition role_reset :: "composite \<Rightarrow> composite" where
  "role_reset s = s\<lparr>co_scopeRole := co_role s, co_changed := False\<rparr>"

subsection \<open>Moving roles\<close>

definition composites_url :: "composite \<Rightarrow> string" where
  "composites_url s = ''/admin/realms/'' @ co_realm s @ ''/roles-by-id/'' @ co_role_id s @ ''/composites''"

definition addRealmRole :: "composite \<Rightarrow> composite" where
  "addRealmRole s =
     co_do (Request ''POST'' (composites_url s) [] (EntriesBody (co_selectedRealmRoles s)))
       (s\<lparr>co_compositeSwitchDisabled := True\<rparr>)"

definition addRealmRole_done :: "composite \<Rightarrow> composite" where
  "addRealmRole_done s =
     (let (roles, mappings) = fold move_found (co_selectedRealmRoles s) (co_realmRoles s, co_realmMappings s) in
      co_do (Notify ''success'' ''Role added to composite.'')
        (s\<lparr>co_realmRoles := roles, co_realmMappings := mappings, co_selectedRealmRoles := []\<rparr>))"

definition deleteRealmRole :: "composite \<Rightarrow> composite" where
  "deleteRealmRole s =
     co_do (Request ''DELETE'' (composites_url s) [] (EntriesBody (co_selectedRealmMappings s)))
       (s\<lparr>co_compositeSwitchDisabled := True\<rparr>)"

definition deleteRealmRole_done :: "composite \<Rightarrow> composite" where
  "deleteRealmRole_done s =
     (let (mappings, roles) = fold move_found (co_selectedRealmMappings s) (co_realmMappings s, co_realmRoles s) in
      co_do (Notify ''success'' ''Role removed from composite.'')
        (s\<lparr>co_realmRoles := roles, co_realmMappings := mappings, co_selectedRealmMappings := []\<rparr>))"

definition addClientRole :: "composite \<Rightarrow> composite" where
  "addClientRole s =
     co_do (Request ''POST'' (composites_url s) [] (EntriesBody (co_selectedClientRoles s)))
       (s\<lparr>co_compositeSwitchDisabled := True\<rparr>)"

definition addClientRole_done :: "composite \<Rightarrow> composite" where
  "addClientRole_done s =
     (let (roles, mappings) = fold move_found (co_selectedClientRoles s) (co_clientRoles s, co_clientMappings s) in
      co_do (Notify ''success'' ''Client role added.'')
        (s\<lparr>co_clientRoles := roles, co_clientMappings := mappings, co_selectedClientRoles := []\<rparr>))"

definition deleteClientRole :: "composite \<Rightarrow> composite" where
  "deleteClientRole s =
     co_do (Request ''DELETE'' (composites_url s) [] (EntriesBody (co_selectedClientMappings s)))
       (s\<lparr>co_compositeSwitchDisabled := True\<rparr>)"

definition deleteClientRole_done :: "composite \<Rightarrow> composite" where
  "deleteClientRole_done s =
     (let (mappings, roles) = fold move_found (co_selectedClientMappings s) (co_clientMappings s, co_clientRoles s) in
      co_do (Notify ''success'' ''Client role removed.'')
        (s\<lparr>co_clientRoles := roles, co_clientMappings := mappings, co_selectedClientMappings := []\<rparr>))"

subsection \<open>The roles of a client\<close>

definition changeClient :: "(composite, unit) comp" where
  "changeClient s =
     (case co_compositeClient s of
        None \<Rightarrow> (Throw TypeError, s)
      | Some c \<Rightarrow>
          let q = Suc (co_queries s) in
          (Ok (), co_do (Request ''GET'' ''ClientRole'' [(''realm'', co_realm s), (''client'', c)] EmptyBody)
             (s\<lparr>co_clientRoles := [], co_rolesQuery := q, co_queries := q\<rparr>)))"

definition client_roles_answer :: "nat \<Rightarrow> role_entry list \<Rightarrow> (composite, unit) comp" where
  "client_roles_answer q rs s =
     (let s = (if q = co_rolesQuery s then s\<lparr>co_clientRoles := rs\<rparr> else s) in
      case co_compositeClient s of
        None \<Rightarrow> (Throw TypeError, s)
      | Some c \<Rightarrow>
          let q = Suc (co_queries s) in
          (Ok (), co_do (Request ''GET'' ''RoleClientComposites''
                           [(''realm'', co_realm s), (''role'', co_role_id s), (''client'', c)] EmptyBody)
             (s\<lparr>co_clientMappings := [], co_mappingsQuery := q, co_queries := q\<rparr>)))"

definition client_composites_answer :: "nat \<Rightarrow> role_entry list \<Rightarrow> composite \<Rightarrow> composite" where
  "client_composites_answer q ms s =
     (let s = (if q = co_mappingsQuery s then s\<lparr>co_clientMappings := ms\<rparr> else s) in
      s\<lparr>co_clientRoles := remove_ids (co_clientMappings s) (co_clientRoles s)\<rparr>)"

subsection \<open>Steps\<close>

text \<open>An answer lists entries with different ids. The client is picked from a list that has no empty choice.\<close>

definition different_ids :: "role_entry list \<Rightarrow> bool" where
  "different_ids rs = distinct (map re_id rs)"

inductive composite_step :: "composite \<Rightarrow> composite \<Rightarrow> bool" where
  select: "composite_step s (s\<lparr>co_selectedRealmRoles := a, co_selectedRealmMappings := b, co_selectedClientRoles := c,
      co_selectedClientMappings := d\<rparr>)"
| edit: "composite_step s (role_watch (s\<lparr>co_scopeRole := r\<rparr>))"
| update: "composite_step s (role_update s)"
| updated: "composite_step s (role_update_done s)"
| reset: "composite_step s (role_reset s)"
| add_realm: "composite_step s (addRealmRole s)"
| added_realm: "composite_step s (addRealmRole_done s)"
| delete_realm: "composite_step s (deleteRealmRole s)"
| deleted_realm: "composite_step s (deleteRealmRole_done s)"
| add_client: "composite_step s (addClientRole s)"
| added_client: "composite_step s (addClientRole_done s)"
| delete_client: "composite_step s (deleteClientRole s)"
| deleted_client: "composite_step s (deleteClientRole_done s)"
| realm_answer: "different_ids ms \<Longrightarrow> composite_step s (realm_composites_answer ms s)"
| pick_client: "composite_step s (snd (changeClient (s\<lparr>co_compositeClient := Some c\<rparr>)))"
| roles_answer: "q \<le> co_queries s \<Longrightarrow> 0 < q \<Longrightarrow> different_ids rs \<Longrightarrow> composite_step s (snd (client_roles_answer q rs s))"
| mappings_answer: "different_ids ms \<Longrightarrow> composite_step s (client_composites_answer q ms s)"

inductive composite_reachable :: "composite \<Rightarrow> bool" where
  start: "different_ids roles \<Longrightarrow> composite_reachable (new_composite realm role roles)"
| step: "composite_reachable s \<Longrightarrow> composite_step s s' \<Longrightarrow> composite_reachable s'"

subsection \<open>No role is listed twice\<close>

definition listed_once :: "composite \<Rightarrow> bool" where
  "listed_once s \<longleftrightarrow>
     different_ids (co_realmRoles s @ co_realmMappings s) \<and> different_ids (co_clientRoles s @ co_clientMappings s) \<and>
     (0 < co_queries s \<longrightarrow> co_compositeClient s \<noteq> None)"

lemma remove_id_filter: "different_ids rs \<Longrightarrow> remove_id i rs = filter (\<lambda>r. re_id r \<noteq> i) rs"
proof (induction rs)
  case (Cons r rs)
  have "re_id r \<notin> re_id ` set rs" using Cons.prems by (simp add: different_ids_def)
  then have "\<forall>x\<in>set rs. re_id x \<noteq> re_id r" by (metis imageI)
  then have "filter (\<lambda>x. re_id x \<noteq> re_id r) rs = rs" by (simp add: filter_id_conv)
  with Cons show ?case by (auto simp: different_ids_def)
qed simp

lemma different_ids_filter: "different_ids rs \<Longrightarrow> different_ids (filter P rs)"
  by (simp add: different_ids_def distinct_map_filter)

lemma remove_ids_filter: "different_ids rs \<Longrightarrow> remove_ids ms rs = filter (\<lambda>r. re_id r \<notin> re_id ` set ms) rs"
proof (induction ms arbitrary: rs)
  case Nil
  show ?case by (simp add: remove_ids_def)
next
  case (Cons m ms)
  have "remove_ids (m # ms) rs = remove_ids ms (filter (\<lambda>r. re_id r \<noteq> re_id m) rs)"
    by (simp add: remove_ids_def remove_id_filter [OF Cons.prems])
  also have "\<dots> = filter (\<lambda>r. re_id r \<notin> re_id ` set ms) (filter (\<lambda>r. re_id r \<noteq> re_id m) rs)"
    by (rule Cons.IH [OF different_ids_filter [OF Cons.prems]])
  finally show ?case by (auto intro: filter_cong)
qed

lemma different_ids_append:
  "different_ids (a @ b) \<longleftrightarrow> different_ids a \<and> different_ids b \<and> re_id ` set a \<inter> re_id ` set b = {}"
  by (simp add: different_ids_def)

lemma remove_ids_apart: "different_ids rs \<Longrightarrow> different_ids ms \<Longrightarrow> different_ids (remove_ids ms rs @ ms)"
  by (auto simp: different_ids_append remove_ids_filter different_ids_filter)

lemma different_ids_perm: "different_ids (a @ b) \<longleftrightarrow> different_ids (b @ a)"
  by (auto simp: different_ids_append)

lemma move_found_ids:
  assumes "different_ids (a @ b)" and "fold move_found sel (a, b) = (a', b')"
  shows "different_ids (a' @ b')"
  using assms
proof (induction sel arbitrary: a b)
  case (Cons x sel)
  show ?case
  proof (cases "x \<in> set a")
    case True
    then obtain p t where a: "a = p @ x # t" "x \<notin> set p" by (meson split_list_first)
    have "different_ids (remove1 x a @ b @ [x])"
      using Cons.prems(1) a by (auto simp: different_ids_def remove1_append)
    then show ?thesis using Cons.prems(2) True by (intro Cons.IH [of "remove1 x a" "b @ [x]"]) (simp_all add: move_found_eq)
  next
    case False
    then show ?thesis using Cons.prems by (intro Cons.IH [of a b]) (simp_all add: move_found_eq)
  qed
qed simp

lemma moved_ids:
  assumes "different_ids (a @ b)"
  shows "different_ids (fst (fold move_found sel (a, b)) @ snd (fold move_found sel (a, b)))"
    and "different_ids (snd (fold move_found sel (a, b)) @ fst (fold move_found sel (a, b)))"
proof -
  show 1: "different_ids (fst (fold move_found sel (a, b)) @ snd (fold move_found sel (a, b)))"
    by (rule move_found_ids [OF assms, of sel]) simp
  show "different_ids (snd (fold move_found sel (a, b)) @ fst (fold move_found sel (a, b)))"
    using 1 by (simp only: different_ids_perm)
qed

lemmas composite_ops = role_watch_def role_update_def role_update_done_def role_reset_def addRealmRole_def
  addRealmRole_done_def deleteRealmRole_def deleteRealmRole_done_def addClientRole_def addClientRole_done_def
  deleteClientRole_def deleteClientRole_done_def realm_composites_answer_def client_composites_answer_def co_do_def
  case_prod_unfold Let_def

lemma listed_once_start: "different_ids roles \<Longrightarrow> listed_once (new_composite realm role roles)"
  by (auto simp: listed_once_def new_composite_def co_do_def Let_def different_ids_def remove_id_filter [unfolded different_ids_def]
      distinct_map_filter split: option.split)

lemma listed_once_moves:
  assumes "listed_once s"
  shows "listed_once (addRealmRole_done s)" "listed_once (deleteRealmRole_done s)"
    "listed_once (addClientRole_done s)" "listed_once (deleteClientRole_done s)"
proof -
  have 1: "different_ids (co_realmRoles s @ co_realmMappings s)" "different_ids (co_realmMappings s @ co_realmRoles s)"
    and 2: "different_ids (co_clientRoles s @ co_clientMappings s)" "different_ids (co_clientMappings s @ co_clientRoles s)"
    and c: "0 < co_queries s \<longrightarrow> co_compositeClient s \<noteq> None"
    using assms different_ids_perm by (auto simp: listed_once_def)
  show "listed_once (addRealmRole_done s)" using moved_ids(1) [OF 1(1)] 2(1) c by (simp add: composite_ops listed_once_def)
  show "listed_once (deleteRealmRole_done s)" using moved_ids(2) [OF 1(2)] 2(1) c by (simp add: composite_ops listed_once_def)
  show "listed_once (addClientRole_done s)" using moved_ids(1) [OF 2(1)] 1(1) c by (simp add: composite_ops listed_once_def)
  show "listed_once (deleteClientRole_done s)" using moved_ids(2) [OF 2(2)] 1(1) c by (simp add: composite_ops listed_once_def)
qed

lemma listed_once_answers:
  assumes "listed_once s" and "different_ids rs"
  shows "listed_once (realm_composites_answer rs s)" "listed_once (client_composites_answer q rs s)"
    and "0 < q \<Longrightarrow> q \<le> co_queries s \<Longrightarrow> listed_once (snd (client_roles_answer q rs s))"
proof -
  have ids: "different_ids (co_realmRoles s)" "different_ids (co_clientRoles s)" "different_ids (co_clientMappings s)"
    using assms(1) by (simp_all add: listed_once_def different_ids_append)
  show "listed_once (realm_composites_answer rs s)"
    using assms remove_ids_apart [OF ids(1) assms(2)] by (simp add: listed_once_def composite_ops)
  show "listed_once (client_composites_answer q rs s)"
    using assms remove_ids_apart [OF ids(2) assms(2)] remove_ids_apart [OF ids(2,3)] by (simp add: listed_once_def composite_ops)
  show "listed_once (snd (client_roles_answer q rs s))" if "0 < q" "q \<le> co_queries s"
    using assms ids that
    by (cases "co_compositeClient s") (auto simp: listed_once_def client_roles_answer_def co_do_def Let_def)
qed

lemma listed_once_pick: "listed_once s \<Longrightarrow> listed_once (snd (changeClient (s\<lparr>co_compositeClient := Some c\<rparr>)))"
  by (simp add: listed_once_def changeClient_def co_do_def Let_def different_ids_append)

lemma listed_once_step: "composite_step s s' \<Longrightarrow> listed_once s \<Longrightarrow> listed_once s'"
  by (induction rule: composite_step.induct)
    (simp_all add: listed_once_moves listed_once_answers listed_once_pick,
     simp_all add: listed_once_def role_watch_def role_update_def role_update_done_def role_reset_def addRealmRole_def
       deleteRealmRole_def addClientRole_def deleteClientRole_def co_do_def)

lemma listed_once_reachable: "composite_reachable s \<Longrightarrow> listed_once s"
  by (induction rule: composite_reachable.induct) (auto intro: listed_once_start listed_once_step)

text \<open>C19. Whatever the user selects, edits and clicks and in whatever order the answers arrive, the editor of a composite role
  lists no role twice: neither in both lists of the realm or of the client, nor twice in one of them.\<close>

theorem composite_listed_once:
  "composite_reachable s \<Longrightarrow>
     distinct (map re_id (co_realmRoles s @ co_realmMappings s)) \<and> distinct (map re_id (co_clientRoles s @ co_clientMappings s))"
  using listed_once_reachable [of s] by (simp add: listed_once_def different_ids_def)

definition demo_composite :: composite where
  "demo_composite =
     addRealmRole_done ((new_composite ''demo'' \<lparr>rr_id = Some ''1'', rr_name = ''a'', rr_description = None, rr_composite = False\<rparr>
       [\<lparr>re_ref = 1, re_id = ''1'', re_name = ''a''\<rparr>, \<lparr>re_ref = 2, re_id = ''2'', re_name = ''b''\<rparr>])
         \<lparr>co_selectedRealmRoles := [\<lparr>re_ref = 2, re_id = ''2'', re_name = ''b''\<rparr>], co_selectedRealmMappings := [],
          co_selectedClientRoles := [], co_selectedClientMappings := []\<rparr>)"

theorem composite_listed_once_witness:
  "map re_id (co_realmMappings demo_composite) = [''2''] \<and>
     distinct (map re_id (co_realmRoles demo_composite @ co_realmMappings demo_composite))"
proof -
  have "composite_reachable demo_composite"
    unfolding demo_composite_def
    by (rule composite_reachable.step [OF composite_reachable.step [OF composite_reachable.start composite_step.select]
          composite_step.added_realm]) (simp add: different_ids_def)
  from composite_listed_once [OF this] show ?thesis
    by (simp add: demo_composite_def addRealmRole_done_def new_composite_def move_found_def co_do_def Let_def splice1_def)
qed

end
