(* ===== verification/Mappings.thy ===== *)
theory Mappings
  imports Console
begin

section \<open>The admin console: role mappings of users and groups\<close>

text \<open>
  controllers/users.js \<open>UserRoleMappingCtrl\<close> (1-112) and controllers/groups.js \<open>GroupRoleMappingCtrl\<close>
  (288-397). The two controllers are the same text up to the resources they use, so the model takes the kind of
  the owner as an argument. The page shows six lists. Each is the array that a query returned: it is empty when the
  query is sent and filled when its answer arrives, also when the scope shows another array by then. The model
  keeps all arrays, by the number of the query, and the scope's lists are such numbers; \<open>None\<close> is \<open>null\<close>.
  Entries are role ids. URLs are given without \<open>authUrl\<close>.
\<close>

subsection \<open>State\<close>

datatype owner_kind = UserOwner | GroupOwner

record role_query =
  ry_resource :: string
  ry_params :: "(string \<times> string) list"

record mapping_scope =
  ms_kind :: owner_kind
  ms_realm :: string
  ms_owner :: string
  ms_arrays :: "string list list"
  ms_queries :: "(nat \<times> role_query) list"
  ms_realmMappings :: "nat option"
  ms_realmRoles :: "nat option"
  ms_realmComposite :: "nat option"
  ms_clientMappings :: "nat option"
  ms_clientRoles :: "nat option"
  ms_clientComposite :: "nat option"
  ms_selectedRealmRoles :: "string list"
  ms_selectedRealmMappings :: "string list"
  ms_selectedClientRoles :: "string list"
  ms_selectedClientMappings :: "string list"
  ms_targetClient :: "string option"
  ms_effects :: "string list ui_effect list"

definition shown :: "mapping_scope \<Rightarrow> nat option \<Rightarrow> string list option" where
  "shown s slot = map_option (\<lambda>i. ms_arrays s ! i) slot"

subsection \<open>Queries\<close>

definition kind_prefix :: "owner_kind \<Rightarrow> string" where
  "kind_prefix k = (case k of UserOwner \<Rightarrow> [] | GroupOwner \<Rightarrow> ''Group'')"

definition owner_param :: "mapping_scope \<Rightarrow> (string \<times> string) list" where
  "owner_param s =
     [(''realm'', ms_realm s),
      ((case ms_kind s of UserOwner \<Rightarrow> ''userId'' | GroupOwner \<Rightarrow> ''groupId''), ms_owner s)]"

text \<open>An array literal of the script, and a query: a new empty array, and its number.\<close>

definition new_array :: "mapping_scope \<Rightarrow> nat \<times> mapping_scope" where
  "new_array s = (length (ms_arrays s), s\<lparr>ms_arrays := ms_arrays s @ [[]]\<rparr>)"

definition query_roles :: "string \<Rightarrow> (string \<times> string) list \<Rightarrow> mapping_scope \<Rightarrow> nat \<times> mapping_scope" where
  "query_roles what client s =
     (let q = \<lparr>ry_resource = kind_prefix (ms_kind s) @ what, ry_params = owner_param s @ client\<rparr>;
          (i, s) = new_array s in
      (i, s\<lparr>ms_queries := ms_queries s @ [(i, q)]\<rparr>))"

definition query_answer :: "nat \<Rightarrow> string list \<Rightarrow> mapping_scope \<Rightarrow> mapping_scope" where
  "query_answer i roles s = s\<lparr>ms_arrays := (ms_arrays s)[i := roles]\<rparr>"

definition load_realmMappings :: "mapping_scope \<Rightarrow> mapping_scope" where
  "load_realmMappings s = (let (i, s) = query_roles ''RealmRoleMapping'' [] s in s\<lparr>ms_realmMappings := Some i\<rparr>)"

text \<open>The names of the resources differ in where \<open>Group\<close> stands: \<open>GroupAvailableRealmRoleMapping\<close> for
  \<open>AvailableRealmRoleMapping\<close>, and so on: always in front.\<close>

definition load_realmRoles :: "mapping_scope \<Rightarrow> mapping_scope" where
  "load_realmRoles s = (let (i, s) = query_roles ''AvailableRealmRoleMapping'' [] s in s\<lparr>ms_realmRoles := Some i\<rparr>)"

definition load_realmComposite :: "mapping_scope \<Rightarrow> mapping_scope" where
  "load_realmComposite s = (let (i, s) = query_roles ''CompositeRealmRoleMapping'' [] s in s\<lparr>ms_realmComposite := Some i\<rparr>)"

definition load_clientMappings :: "string \<Rightarrow> mapping_scope \<Rightarrow> mapping_scope" where
  "load_clientMappings c s =
     (let (i, s) = query_roles ''ClientRoleMapping'' [(''client'', c)] s in s\<lparr>ms_clientMappings := Some i\<rparr>)"

definition load_clientRoles :: "string \<Rightarrow> mapping_scope \<Rightarrow> mapping_scope" where
  "load_clientRoles c s =
     (let (i, s) = query_roles ''AvailableClientRoleMapping'' [(''client'', c)] s in s\<lparr>ms_clientRoles := Some i\<rparr>)"

definition load_clientComposite :: "string \<Rightarrow> mapping_scope \<Rightarrow> mapping_scope" where
  "load_clientComposite c s =
     (let (i, s) = query_roles ''CompositeClientRoleMapping'' [(''client'', c)] s in s\<lparr>ms_clientComposite := Some i\<rparr>)"

subsection \<open>Construction\<close>

definition load_realm :: "mapping_scope \<Rightarrow> mapping_scope" where
  "load_realm s = load_realmComposite (load_realmRoles (load_realmMappings s))"

definition new_mappings :: "owner_kind \<Rightarrow> string \<Rightarrow> string \<Rightarrow> mapping_scope" where
  "new_mappings k realm owner =
     load_realm \<lparr>ms_kind = k, ms_realm = realm, ms_owner = owner, ms_arrays = [[], [], [], []], ms_queries = [],
       ms_realmMappings = Some 0, ms_realmRoles = None, ms_realmComposite = None,
       ms_clientMappings = Some 3, ms_clientRoles = Some 1, ms_clientComposite = Some 2,
       ms_selectedRealmRoles = [], ms_selectedRealmMappings = [], ms_selectedClientRoles = [],
       ms_selectedClientMappings = [], ms_targetClient = None, ms_effects = []\<rparr>"

subsection \<open>Operations\<close>

definition ms_do :: "string list ui_effect \<Rightarrow> mapping_scope \<Rightarrow> mapping_scope" where
  "ms_do e s = s\<lparr>ms_effects := ms_effects s @ [e]\<rparr>"

definition mappings_url :: "mapping_scope \<Rightarrow> string" where
  "mappings_url s =
     ''/admin/realms/'' @ ms_realm s @ (case ms_kind s of UserOwner \<Rightarrow> ''/users/'' | GroupOwner \<Rightarrow> ''/groups/'')
     @ ms_owner s @ ''/role-mappings/''"

definition ms_updated :: "mapping_scope \<Rightarrow> mapping_scope" where
  "ms_updated s = ms_do (Notify ''success'' ''Role mappings updated.'') s"

definition ms_addRealmRole :: "mapping_scope \<Rightarrow> mapping_scope" where
  "ms_addRealmRole s =
     (let roles = ms_selectedRealmRoles s in
      ms_do (Request ''POST'' (mappings_url s @ ''realm'') [] roles) (s\<lparr>ms_selectedRealmRoles := []\<rparr>))"

definition ms_deleteRealmRole :: "mapping_scope \<Rightarrow> mapping_scope" where
  "ms_deleteRealmRole s = ms_do (Request ''DELETE'' (mappings_url s @ ''realm'') [] (ms_selectedRealmMappings s)) s"

text \<open>What follows the success of both. The assignment to \<open>selectRealmRoles\<close> (a misspelt \<open>selectedRealmRoles\<close>) is to a field
  that nothing reads.\<close>

definition realm_roles_changed :: "mapping_scope \<Rightarrow> mapping_scope" where
  "realm_roles_changed s =
     (let s = (load_realm s)\<lparr>ms_selectedRealmMappings := []\<rparr>;
          s = (case ms_targetClient s of
                 None \<Rightarrow> s
               | Some c \<Rightarrow>
                   (load_clientMappings c (load_clientRoles c (load_clientComposite c s)))
                     \<lparr>ms_selectedClientRoles := [], ms_selectedClientMappings := []\<rparr>) in
      ms_updated s)"

text \<open>Without a target client reading its id is a TypeError.\<close>

definition ms_addClientRole :: "(mapping_scope, unit) comp" where
  "ms_addClientRole s =
     (case ms_targetClient s of
        None \<Rightarrow> (Throw TypeError, s)
      | Some c \<Rightarrow> (Ok (), ms_do (Request ''POST'' (mappings_url s @ ''clients/'' @ c) [] (ms_selectedClientRoles s)) s))"

definition ms_deleteClientRole :: "(mapping_scope, unit) comp" where
  "ms_deleteClientRole s =
     (case ms_targetClient s of
        None \<Rightarrow> (Throw TypeError, s)
      | Some c \<Rightarrow> (Ok (), ms_do (Request ''DELETE'' (mappings_url s @ ''clients/'' @ c) [] (ms_selectedClientMappings s)) s))"

definition client_roles_changed :: "(mapping_scope, unit) comp" where
  "client_roles_changed s =
     (case ms_targetClient s of
        None \<Rightarrow> (Throw TypeError, s)
      | Some c \<Rightarrow>
          let s = load_clientComposite c (load_clientRoles c (load_clientMappings c s));
              s = s\<lparr>ms_selectedClientRoles := [], ms_selectedClientMappings := []\<rparr> in
          (Ok (), ms_updated (load_realmRoles (load_realmComposite s))))"

definition ms_changeClient :: "mapping_scope \<Rightarrow> mapping_scope" where
  "ms_changeClient s =
     (let s = (case ms_targetClient s of
                 Some c \<Rightarrow> load_clientMappings c (load_clientRoles c (load_clientComposite c s))
               | None \<Rightarrow> s\<lparr>ms_clientRoles := None, ms_clientMappings := None, ms_clientComposite := None\<rparr>) in
      s\<lparr>ms_selectedClientRoles := [], ms_selectedClientMappings := []\<rparr>)"

subsection \<open>Steps\<close>

inductive mapping_step :: "mapping_scope \<Rightarrow> mapping_scope \<Rightarrow> bool" where
  pick: "mapping_step s (s\<lparr>ms_selectedRealmRoles := a, ms_selectedRealmMappings := b, ms_selectedClientRoles := c,
      ms_selectedClientMappings := d\<rparr>)"
| answer: "(i, q) \<in> set (ms_queries s) \<Longrightarrow> mapping_step s (query_answer i roles s)"
| add_realm: "mapping_step s (ms_addRealmRole s)"
| delete_realm: "mapping_step s (ms_deleteRealmRole s)"
| realm_done: "mapping_step s (realm_roles_changed s)"
| add_client: "mapping_step s (snd (ms_addClientRole s))"
| delete_client: "mapping_step s (snd (ms_deleteClientRole s))"
| client_done: "mapping_step s (snd (client_roles_changed s))"
| change_client: "mapping_step s (ms_changeClient (s\<lparr>ms_targetClient := t\<rparr>))"

inductive mapping_reachable :: "owner_kind \<Rightarrow> string \<Rightarrow> string \<Rightarrow> mapping_scope \<Rightarrow> bool" for k realm owner where
  start: "mapping_reachable k realm owner (new_mappings k realm owner)"
| step: "mapping_reachable k realm owner s \<Longrightarrow> mapping_step s s' \<Longrightarrow> mapping_reachable k realm owner s'"

subsection \<open>What the lists show\<close>

text \<open>A list of the page shows the result of a query of the page's owner, for the right resource and the right client.\<close>

definition slot_query :: "mapping_scope \<Rightarrow> string \<Rightarrow> (string \<times> string) list \<Rightarrow> nat option \<Rightarrow> bool" where
  "slot_query s what client slot \<longleftrightarrow>
     (\<exists>i. slot = Some i \<and> i < length (ms_arrays s) \<and>
        (i, \<lparr>ry_resource = kind_prefix (ms_kind s) @ what, ry_params = owner_param s @ client\<rparr>) \<in> set (ms_queries s))"

definition realm_lists_ok :: "mapping_scope \<Rightarrow> bool" where
  "realm_lists_ok s \<longleftrightarrow>
     slot_query s ''RealmRoleMapping'' [] (ms_realmMappings s) \<and>
     slot_query s ''AvailableRealmRoleMapping'' [] (ms_realmRoles s) \<and>
     slot_query s ''CompositeRealmRoleMapping'' [] (ms_realmComposite s)"

definition client_lists_ok :: "mapping_scope \<Rightarrow> bool" where
  "client_lists_ok s \<longleftrightarrow>
     (\<forall>c. ms_targetClient s = Some c \<longrightarrow>
        slot_query s ''ClientRoleMapping'' [(''client'', c)] (ms_clientMappings s) \<and>
        slot_query s ''AvailableClientRoleMapping'' [(''client'', c)] (ms_clientRoles s) \<and>
        slot_query s ''CompositeClientRoleMapping'' [(''client'', c)] (ms_clientComposite s))"

text \<open>Each query has an array of its own.\<close>

definition queries_ok :: "mapping_scope \<Rightarrow> bool" where
  "queries_ok s \<longleftrightarrow> distinct (map fst (ms_queries s)) \<and> (\<forall>i\<in>set (map fst (ms_queries s)). i < length (ms_arrays s))"

definition lists_ok :: "mapping_scope \<Rightarrow> bool" where
  "lists_ok s \<longleftrightarrow> queries_ok s \<and> realm_lists_ok s \<and> client_lists_ok s"

lemmas load_defs = load_realm_def load_realmMappings_def load_realmRoles_def load_realmComposite_def load_clientMappings_def
  load_clientRoles_def load_clientComposite_def query_roles_def new_array_def Let_def

lemmas lists_defs = lists_ok_def queries_ok_def realm_lists_ok_def client_lists_ok_def slot_query_def owner_param_def

lemma lists_ok_load:
  "lists_ok s \<Longrightarrow> lists_ok (load_realm s)" "lists_ok s \<Longrightarrow> lists_ok (load_realmRoles s)"
  "lists_ok s \<Longrightarrow> lists_ok (load_realmComposite s)"
  by (auto simp: lists_defs load_defs less_Suc_eq)

lemma client_lists_load:
  assumes "queries_ok s" and "realm_lists_ok s" and "ms_targetClient s = Some c"
  shows "lists_ok (load_clientMappings c (load_clientRoles c (load_clientComposite c s)))"
    and "lists_ok (load_clientComposite c (load_clientRoles c (load_clientMappings c s)))"
  using assms by (auto simp: lists_defs load_defs less_Suc_eq)

lemma lists_ok_frame:
  assumes "lists_ok s" and "ms_kind s' = ms_kind s" "ms_realm s' = ms_realm s" "ms_owner s' = ms_owner s"
    "length (ms_arrays s') = length (ms_arrays s)" "ms_queries s' = ms_queries s" "ms_realmMappings s' = ms_realmMappings s"
    "ms_realmRoles s' = ms_realmRoles s" "ms_realmComposite s' = ms_realmComposite s"
    "ms_clientMappings s' = ms_clientMappings s" "ms_clientRoles s' = ms_clientRoles s"
    "ms_clientComposite s' = ms_clientComposite s" "ms_targetClient s' = ms_targetClient s"
  shows "lists_ok s'"
  using assms by (simp add: lists_defs)

lemma lists_ok_realm_changed: "lists_ok s \<Longrightarrow> lists_ok (realm_roles_changed s)"
proof -
  assume ok: "lists_ok s"
  let ?s = "(load_realm s)\<lparr>ms_selectedRealmMappings := []\<rparr>"
  have s: "lists_ok ?s" by (rule lists_ok_frame [OF lists_ok_load(1) [OF ok]]) simp_all
  show ?thesis
  proof (cases "ms_targetClient ?s")
    case None
    then show ?thesis
      using s by (simp add: realm_roles_changed_def ms_updated_def ms_do_def) (erule lists_ok_frame; simp)
  next
    case (Some c)
    have "lists_ok (load_clientMappings c (load_clientRoles c (load_clientComposite c ?s)))"
      using s Some by (intro client_lists_load) (simp_all add: lists_ok_def)
    then show ?thesis
      using Some by (simp add: realm_roles_changed_def ms_updated_def ms_do_def Let_def) (erule lists_ok_frame; simp)
  qed
qed

lemma lists_ok_client_changed: "lists_ok s \<Longrightarrow> lists_ok (snd (client_roles_changed s))"
proof (cases "ms_targetClient s")
  case (Some c)
  assume ok: "lists_ok s"
  let ?s = "load_clientComposite c (load_clientRoles c (load_clientMappings c s))"
  have "lists_ok ?s" using ok Some by (intro client_lists_load) (simp_all add: lists_ok_def)
  then have "lists_ok (?s\<lparr>ms_selectedClientRoles := [], ms_selectedClientMappings := []\<rparr>)" by (rule lists_ok_frame) simp_all
  then have "lists_ok (load_realmRoles (load_realmComposite (?s\<lparr>ms_selectedClientRoles := [], ms_selectedClientMappings := []\<rparr>)))"
    by (intro lists_ok_load)
  then show ?thesis
    using Some by (simp add: client_roles_changed_def ms_updated_def ms_do_def Let_def) (erule lists_ok_frame; simp)
qed (simp add: client_roles_changed_def)

lemma lists_ok_change_client:
  assumes "lists_ok s"
  shows "lists_ok (ms_changeClient (s\<lparr>ms_targetClient := t\<rparr>))"
proof (cases t)
  case None
  with assms show ?thesis by (simp add: ms_changeClient_def lists_defs)
next
  case (Some c)
  have "lists_ok (load_clientMappings c (load_clientRoles c (load_clientComposite c (s\<lparr>ms_targetClient := Some c\<rparr>))))"
    using assms by (intro client_lists_load) (simp_all add: lists_defs)
  then show ?thesis using Some by (simp add: ms_changeClient_def Let_def) (erule lists_ok_frame; simp)
qed

lemma lists_ok_step: "mapping_step s s' \<Longrightarrow> lists_ok s \<Longrightarrow> lists_ok s'"
proof (induction rule: mapping_step.induct)
  case (add_client s)
  then show ?case by (auto simp: ms_addClientRole_def ms_do_def elim!: lists_ok_frame split: option.split)
next
  case (delete_client s)
  then show ?case by (auto simp: ms_deleteClientRole_def ms_do_def elim!: lists_ok_frame split: option.split)
qed (simp_all add: lists_ok_realm_changed lists_ok_client_changed lists_ok_change_client,
    (erule lists_ok_frame; simp add: query_answer_def ms_addRealmRole_def ms_deleteRealmRole_def ms_do_def Let_def)+)

lemma lists_ok_start: "lists_ok (new_mappings k realm owner)"
  by (simp add: new_mappings_def lists_defs load_defs)

text \<open>C20. Whatever the order of clicks and answers, every role list on the page of a user or group shows the result of a
  query for that list: of this owner, of this kind, and for the client that is selected now. Late answers of
  earlier queries, for another client say, never show up in it.\<close>

theorem mapping_lists_fresh:
  "mapping_reachable k realm owner s \<Longrightarrow> lists_ok s"
  by (induction rule: mapping_reachable.induct) (auto intro: lists_ok_start lists_ok_step)

theorem mapping_lists_fresh_witness:
  "lists_ok (ms_changeClient ((new_mappings UserOwner ''demo'' ''u'')\<lparr>ms_targetClient := Some ''c''\<rparr>)) \<and>
     ms_clientRoles (ms_changeClient ((new_mappings UserOwner ''demo'' ''u'')\<lparr>ms_targetClient := Some ''c''\<rparr>)) = Some 8"
proof -
  have "mapping_reachable UserOwner ''demo'' ''u''
      (ms_changeClient ((new_mappings UserOwner ''demo'' ''u'')\<lparr>ms_targetClient := Some ''c''\<rparr>))"
    by (rule mapping_reachable.step [OF mapping_reachable.start mapping_step.change_client])
  from mapping_lists_fresh [OF this] show ?thesis
    by (simp add: ms_changeClient_def new_mappings_def load_defs)
qed

end
