(* ===== verification/Paging.thy ===== *)
theory Paging
  imports Console
begin

section \<open>The admin console: paged lists\<close>

text \<open>
  The paged member lists: controllers/groups.js \<open>GroupMembersCtrl\<close> (399-443), controllers/roles.js
  \<open>RoleMembersCtrl\<close> (1-48) and controllers/users.js \<open>UserListCtrl\<close> (231-306). The functions
  \<open>firstPage\<close>, \<open>previousPage\<close>, \<open>nextPage\<close> and \<open>searchQuery\<close> are the same text in the three controllers; the
  resource and its fixed parameters are fields of the scope. A query's array is shown at once, empty, and filled by
  its answer; the answer to an earlier query fills an array that is not shown any more.
\<close>

subsection \<open>The scope\<close>

record pager =
  pg_resource :: string
  pg_params :: "(string \<times> string) list"
  pg_first :: int
  pg_max :: int
  pg_search :: "string option"
  pg_users :: "string list"
  pg_searchLoaded :: bool
  pg_lastSearch :: "string option"
  pg_query :: nat
  pg_sent :: "(int \<times> int \<times> string option) list"
  pg_effects :: "unit ui_effect list"

definition searchQuery :: "pager \<Rightarrow> pager" where
  "searchQuery s =
     s\<lparr>pg_searchLoaded := False, pg_users := [], pg_query := Suc (pg_query s),
       pg_sent := pg_sent s @ [(pg_first s, pg_max s, pg_search s)]\<rparr>"

definition searchQuery_answer :: "nat \<Rightarrow> string list \<Rightarrow> pager \<Rightarrow> pager" where
  "searchQuery_answer q users s =
     (let s = (if q = pg_query s then s\<lparr>pg_users := users\<rparr> else s) in
      s\<lparr>pg_searchLoaded := True, pg_lastSearch := pg_search s\<rparr>)"

definition firstPage :: "pager \<Rightarrow> pager" where
  "firstPage s = searchQuery (s\<lparr>pg_first := 0\<rparr>)"

definition previousPage :: "pager \<Rightarrow> pager" where
  "previousPage s =
     (let s = s\<lparr>pg_first := pg_first s - pg_max s\<rparr>;
          s = (if pg_first s < 0 then s\<lparr>pg_first := 0\<rparr> else s) in
      searchQuery s)"

definition nextPage :: "pager \<Rightarrow> pager" where
  "nextPage s = searchQuery (s\<lparr>pg_first := pg_first s + pg_max s\<rparr>)"

subsection \<open>The three controllers\<close>

definition new_pager :: "string \<Rightarrow> (string \<times> string) list \<Rightarrow> int \<Rightarrow> pager" where
  "new_pager resource params n =
     \<lparr>pg_resource = resource, pg_params = params, pg_first = 0, pg_max = n, pg_search = None, pg_users = [],
      pg_searchLoaded = False, pg_lastSearch = None, pg_query = 0, pg_sent = [], pg_effects = []\<rparr>"

definition GroupMembersCtrl :: "string \<Rightarrow> string \<Rightarrow> pager" where
  "GroupMembersCtrl realm group_id = searchQuery (new_pager ''GroupMembership'' [(''realm'', realm), (''groupId'', group_id)] 5)"

definition RoleMembersCtrl :: "string \<Rightarrow> string \<Rightarrow> pager" where
  "RoleMembersCtrl realm role = searchQuery (new_pager ''RoleMembership'' [(''realm'', realm), (''role'', role)] 5)"

text \<open>\<open>UserSearchState\<close> (services.js 475-481) keeps the query of the user list while the console is open: the list is loaded on
  entry only when a search was made before.\<close>

record user_search_state =
  us_isFirstSearch :: bool
  us_first :: int
  us_max :: int
  us_search :: "string option"

definition UserSearchState :: user_search_state where
  "UserSearchState = \<lparr>us_isFirstSearch = True, us_first = 0, us_max = 20, us_search = None\<rparr>"

definition UserListCtrl_init :: "string \<Rightarrow> user_search_state \<Rightarrow> pager" where
  "UserListCtrl_init realm st =
     (let s = (new_pager ''User'' [(''realm'', realm)] (us_max st))\<lparr>pg_first := us_first st, pg_search := us_search st\<rparr> in
      if us_isFirstSearch st then s else searchQuery s)"

text \<open>The scope's query is the object in \<open>UserSearchState\<close>: what the service holds after the page was used.\<close>

definition user_list_answer :: "nat \<Rightarrow> string list \<Rightarrow> pager \<Rightarrow> user_search_state \<Rightarrow> pager \<times> user_search_state" where
  "user_list_answer q users s st = (searchQuery_answer q users s, st\<lparr>us_isFirstSearch := False\<rparr>)"

definition leave_user_list :: "pager \<Rightarrow> user_search_state \<Rightarrow> user_search_state" where
  "leave_user_list s st = st\<lparr>us_first := pg_first s, us_max := pg_max s, us_search := pg_search s\<rparr>"

definition pg_do :: "unit ui_effect list \<Rightarrow> pager \<Rightarrow> pager" where
  "pg_do es s = s\<lparr>pg_effects := pg_effects s @ es\<rparr>"

definition removeUser :: "string \<Rightarrow> pager \<Rightarrow> pager" where
  "removeUser user s = pg_do [ConfirmDelete user ''user''] s"

definition removeUser_confirmed :: "string \<Rightarrow> string \<Rightarrow> pager \<Rightarrow> pager" where
  "removeUser_confirmed realm user s = pg_do [Request ''DELETE'' ''User'' [(''realm'', realm), (''userId'', user)] ()] s"

definition removeUser_done :: "pager \<Rightarrow> pager" where
  "removeUser_done s =
     (let s = pg_do [Reload] s;
          s = (if length (pg_users s) = 1 \<and> pg_first s > 0 then previousPage s else s) in
      pg_do [Notify ''success'' ''The user has been deleted.''] s)"

definition removeUser_failed :: "pager \<Rightarrow> pager" where
  "removeUser_failed s = pg_do [Notify ''error'' (''User couldn'' @ [CHR 0x27] @ ''t be deleted'')] s"

definition impersonate_done :: "bool \<Rightarrow> string \<Rightarrow> pager \<Rightarrow> pager" where
  "impersonate_done sameRealm redirect s = pg_do [if sameRealm then OpenUrl redirect ''_self'' else OpenUrl redirect ''_blank''] s"

definition unlockUsers_done :: "pager \<Rightarrow> pager" where
  "unlockUsers_done s = pg_do [Notify ''success'' ''Any temporarily locked users are now unlocked.''] s"

subsection \<open>Where a pager can be\<close>

inductive pager_step :: "pager \<Rightarrow> pager \<Rightarrow> bool" where
  first: "pager_step s (firstPage s)"
| previous: "pager_step s (previousPage s)"
| next_page: "pager_step s (nextPage s)"
| search: "pager_step s (searchQuery (s\<lparr>pg_search := t\<rparr>))"
| answered: "pager_step s (searchQuery_answer q users s)"
| removed: "pager_step s (removeUser_done s)"

inductive pager_reachable :: "pager \<Rightarrow> pager \<Rightarrow> bool" for s0 where
  start: "pager_reachable s0 s0"
| step: "pager_reachable s0 s \<Longrightarrow> pager_step s s' \<Longrightarrow> pager_reachable s0 s'"

definition page_ok :: "int \<Rightarrow> int \<Rightarrow> bool" where
  "page_ok n i \<longleftrightarrow> 0 \<le> i \<and> n dvd i"

lemma page_ok_steps: "0 < n \<Longrightarrow> page_ok n i \<Longrightarrow> page_ok n (i + n)" "0 < n \<Longrightarrow> page_ok n i \<Longrightarrow> page_ok n (max 0 (i - n))"
  by (auto simp: page_ok_def max_def)

definition pager_ok :: "int \<Rightarrow> pager \<Rightarrow> bool" where
  "pager_ok n s \<longleftrightarrow> pg_max s = n \<and> page_ok n (pg_first s) \<and> (\<forall>(i, m, t)\<in>set (pg_sent s). m = n \<and> page_ok n i)"

lemma pager_ok_search: "pager_ok n s \<Longrightarrow> pager_ok n (searchQuery s)"
  by (auto simp: pager_ok_def searchQuery_def)

lemma pager_ok_first: "pager_ok n s \<Longrightarrow> page_ok n i \<Longrightarrow> pager_ok n (s\<lparr>pg_first := i\<rparr>)"
  by (simp add: pager_ok_def)

lemma previousPage_eq: "previousPage s = searchQuery (s\<lparr>pg_first := max 0 (pg_first s - pg_max s)\<rparr>)"
  by (auto simp: previousPage_def Let_def max_def)

lemma pager_ok_previous: "0 < n \<Longrightarrow> pager_ok n s \<Longrightarrow> pager_ok n (previousPage s)"
  unfolding previousPage_eq by (intro pager_ok_search pager_ok_first) (auto simp: pager_ok_def intro: page_ok_steps)

lemma pager_ok_do: "pager_ok n (pg_do es s) \<longleftrightarrow> pager_ok n s"
  by (simp add: pager_ok_def pg_do_def)

lemma pager_ok_step:
  assumes "0 < n" and "pager_ok n s" and "pager_step s s'"
  shows "pager_ok n s'"
  using assms(3)
proof (cases rule: pager_step.cases)
  case first
  with assms(2) show ?thesis by (auto simp: firstPage_def page_ok_def intro!: pager_ok_search pager_ok_first)
next
  case previous
  with assms(1,2) show ?thesis by (simp add: pager_ok_previous)
next
  case next_page
  have "page_ok n (pg_first s + pg_max s)" using assms(1,2) by (auto simp: pager_ok_def intro: page_ok_steps)
  with next_page assms(2) show ?thesis by (auto simp: nextPage_def intro!: pager_ok_search pager_ok_first)
next
  case (search t)
  with assms(2) show ?thesis by (auto simp: pager_ok_def searchQuery_def)
next
  case (answered q users)
  with assms(2) show ?thesis by (auto simp: pager_ok_def searchQuery_answer_def Let_def)
next
  case removed
  with assms(1,2) show ?thesis by (simp add: removeUser_done_def Let_def pager_ok_do pager_ok_previous)
qed

text \<open>However the pages of a member list are turned, the list asks for page starts that are not negative and are multiples of
  the page size; and turning one page forward and back shows the same page again.\<close>

theorem pages_aligned:
  assumes "pager_reachable s0 s" and "0 < pg_max s0" and "pg_first s0 = 0" and "pg_sent s0 = []"
  shows "(\<forall>(i, m, t)\<in>set (pg_sent s). m = pg_max s0 \<and> 0 \<le> i \<and> pg_max s0 dvd i) \<and>
    0 \<le> pg_first s \<and> pg_first (previousPage (nextPage s)) = pg_first s"
proof -
  have "pager_ok (pg_max s0) s0" using assms(3,4) by (simp add: pager_ok_def page_ok_def)
  with assms(1,2) have ok: "pager_ok (pg_max s0) s"
    by (induction rule: pager_reachable.induct) (auto intro: pager_ok_step)
  then have "pg_first (previousPage (nextPage s)) = pg_first s"
    by (simp add: previousPage_eq nextPage_def searchQuery_def pager_ok_def page_ok_def)
  with ok show ?thesis by (auto simp: pager_ok_def page_ok_def)
qed

theorem pages_aligned_witness:
  "pg_sent (nextPage (new_pager ''User'' [] 20)) = [(20, 20, None)] \<and> 0 \<le> pg_first (nextPage (new_pager ''User'' [] 20)) \<and>
     pg_first (previousPage (nextPage (nextPage (new_pager ''User'' [] 20)))) = 20"
proof -
  have "pager_reachable (new_pager ''User'' [] 20) (nextPage (new_pager ''User'' [] 20))"
    by (rule pager_reachable.step [OF pager_reachable.start pager_step.next_page])
  from pages_aligned [OF this] show ?thesis by (simp add: new_pager_def nextPage_def searchQuery_def)
qed

end
