(* ===== verification/Group_Pages.thy ===== *)
theory Group_Pages
  imports Console
begin

section \<open>The admin console: groups\<close>

text \<open>
  controllers/groups.js: \<open>GroupListCtrl\<close> (1-167), \<open>GroupCreateCtrl\<close> (169-203), \<open>GroupTabCtrl\<close>
  (205-217), \<open>GroupDetailCtrl\<close> (219-286) and \<open>DefaultGroupsCtrl\<close> (445-503).
\<close>

subsection \<open>The tree of groups\<close>

datatype group_node = GroupNode (gn_id: string) (gn_name: string) (gn_subGroups: "group_node list option")
  (gn_collapsed: bool) (gn_selected: bool)

definition root_node :: "group_node list \<Rightarrow> group_node" where
  "root_node groups = GroupNode ''realm'' ''Groups'' (Some groups) False False"

definition isLeaf :: "group_node \<Rightarrow> bool" where
  "isLeaf node \<longleftrightarrow> gn_id node \<noteq> ''realm'' \<and> (gn_subGroups node = None \<or> gn_subGroups node = Some [])"

text \<open>Once \<open>isLeaf\<close> is false there are subgroups, so the last line of the source is never reached.\<close>

definition getGroupClass :: "group_node \<Rightarrow> string" where
  "getGroupClass node =
     (if gn_id node = ''realm'' then ''pficon pficon-users''
      else if isLeaf node then ''normal''
      else if gn_subGroups node \<noteq> Some [] \<and> gn_collapsed node then ''collapsed''
      else if gn_subGroups node \<noteq> Some [] \<and> \<not> gn_collapsed node then ''expanded''
      else ''collapsed'')"

definition getSelectedClass :: "group_node option \<Rightarrow> group_node \<Rightarrow> string option" where
  "getSelectedClass cutNode node =
     (if gn_selected node then Some ''selected''
      else (case cutNode of None \<Rightarrow> None | Some c \<Rightarrow> if gn_id c = gn_id node then Some ''cut'' else None))"

subsection \<open>The list of groups\<close>

record group_query =
  gq_realm :: string
  gq_first :: int
  gq_max :: int
  gq_search :: "string option"

record group_count =
  gc_realm :: string
  gc_top :: string
  gc_search :: "string option"

datatype group_body = MoveGroup string | NewGroup string | NoGroup

record group_list =
  gl_realm :: string
  gl_groupList :: "group_node list"
  gl_searchTerms :: string
  gl_currentPage :: int
  gl_pageSize :: int
  gl_numberOfPages :: "int option"
  gl_currentNode :: "group_node option"
  gl_cutNode :: "group_node option"
  gl_queries :: "group_query list"
  gl_counts :: "group_count list"
  gl_effects :: "group_body ui_effect list"

definition refreshGroups :: "string option \<Rightarrow> group_list \<Rightarrow> group_list" where
  "refreshGroups search s =
     (let first = gl_currentPage s * gl_pageSize s - gl_pageSize s;
          term = (if search \<noteq> None \<and> search \<noteq> Some [] then search else None) in
      s\<lparr>gl_queries := gl_queries s @ [\<lparr>gq_realm = gl_realm s, gq_first = first, gq_max = gl_pageSize s, gq_search = term\<rparr>],
        gl_counts := gl_counts s @ [\<lparr>gc_realm = gl_realm s, gc_top = ''true'', gc_search = term\<rparr>]\<rparr>)"

definition groups_answer :: "group_node list \<Rightarrow> group_list \<Rightarrow> group_list" where
  "groups_answer groups s = s\<lparr>gl_groupList := [root_node groups]\<rparr>"

definition count_answer :: "int \<Rightarrow> group_list \<Rightarrow> group_list" where
  "count_answer n s = s\<lparr>gl_numberOfPages := Some \<lceil>of_int n / (of_int (gl_pageSize s) :: rat)\<rceil>\<rparr>"

definition new_group_list :: "string \<Rightarrow> group_list" where
  "new_group_list realm =
     refreshGroups None \<lparr>gl_realm = realm, gl_groupList = [root_node []], gl_searchTerms = [], gl_currentPage = 1,
       gl_pageSize = 20, gl_numberOfPages = None, gl_currentNode = None, gl_cutNode = None, gl_queries = [], gl_counts = [],
       gl_effects = []\<rparr>"

text \<open>The watch on \<open>currentPage\<close>.\<close>

definition page_changed :: "int \<Rightarrow> group_list \<Rightarrow> group_list" where
  "page_changed oldValue s = (if gl_currentPage s \<noteq> oldValue then refreshGroups (Some (gl_searchTerms s)) s else s)"

definition clearSearch :: "group_list \<Rightarrow> group_list" where
  "clearSearch s = refreshGroups None (s\<lparr>gl_searchTerms := [], gl_currentPage := 1\<rparr>)"

definition searchGroup :: "group_list \<Rightarrow> group_list" where
  "searchGroup s = refreshGroups (Some (gl_searchTerms s)) (s\<lparr>gl_currentPage := 1\<rparr>)"

definition gl_do :: "group_body ui_effect list \<Rightarrow> group_list \<Rightarrow> group_list" where
  "gl_do es s = s\<lparr>gl_effects := gl_effects s @ es\<rparr>"

definition edit_group :: "group_node \<Rightarrow> group_list \<Rightarrow> group_list" where
  "edit_group selected s =
     (if gn_id selected = ''realm'' then s
      else gl_do [GoTo (''/realms/'' @ gl_realm s @ ''/groups/'' @ gn_id selected)] s)"

definition cut_group :: "group_node \<Rightarrow> group_list \<Rightarrow> group_list" where
  "cut_group selected s = s\<lparr>gl_cutNode := Some selected\<rparr>"

definition isDisabled :: "group_list \<Rightarrow> bool" where
  "isDisabled s = (case gl_currentNode s of None \<Rightarrow> True | Some n \<Rightarrow> gn_id n = ''realm'')"

text \<open>\<open>cutNode\<close> is undefined, not \<open>null\<close>, before anything was cut: then reading its id raises a TypeError.\<close>

definition paste_group :: "group_node js \<Rightarrow> (group_list, unit) comp" where
  "paste_group selected s =
     (if selected = JsNull then (Ok (), s)
      else
        (case selected of
           Val sel \<Rightarrow>
             (case gl_cutNode s of
                None \<Rightarrow> (Throw TypeError, s)
              | Some node \<Rightarrow>
                  if gn_id sel = gn_id node then (Ok (), s)
                  else if gn_id sel = ''realm'' then
                    (Ok (), gl_do [Request ''POST'' ''Groups'' [(''realm'', gl_realm s)] (MoveGroup (gn_id node))] s)
                  else
                    (Ok (), gl_do [Request ''POST'' ''GroupChildren'' [(''realm'', gl_realm s), (''groupId'', gn_id sel)]
                              (MoveGroup (gn_id node))] s))
         | _ \<Rightarrow> (Throw TypeError, s)))"

definition group_moved :: "group_list \<Rightarrow> group_list" where
  "group_moved s = gl_do [Reload, Notify ''success'' ''Group moved.''] s"

definition remove_group :: "group_node js \<Rightarrow> (group_list, unit) comp" where
  "remove_group selected s =
     (case selected of
        JsNull \<Rightarrow> (Ok (), s)
      | Undefined \<Rightarrow> (Throw TypeError, s)
      | Val sel \<Rightarrow> (Ok (), gl_do [ConfirmDelete (gn_name sel) ''group''] s))"

definition remove_group_confirmed :: "group_node \<Rightarrow> group_list \<Rightarrow> group_list" where
  "remove_group_confirmed sel s =
     gl_do [Request ''DELETE'' ''Group'' [(''realm'', gl_realm s), (''groupId'', gn_id sel)] NoGroup] s"

definition group_removed :: "group_list \<Rightarrow> group_list" where
  "group_removed s = gl_do [Reload, Notify ''success'' ''The group has been deleted.''] s"

definition createGroup :: "group_node option \<Rightarrow> group_list \<Rightarrow> group_list" where
  "createGroup selected s =
     gl_do [GoTo (''/create/group/'' @ gl_realm s @ ''/parent/'' @
              (case selected of None \<Rightarrow> ''realm'' | Some sel \<Rightarrow> gn_id sel))] s"

subsection \<open>A new group\<close>

definition create_group_save :: "string \<Rightarrow> string \<Rightarrow> string \<Rightarrow> group_body ui_effect" where
  "create_group_save realm parentId name =
     (if parentId = ''realm'' then Request ''POST'' ''Groups'' [(''realm'', realm)] (NewGroup name)
      else Request ''POST'' ''GroupChildren'' [(''realm'', realm), (''groupId'', parentId)] (NewGroup name))"

text \<open>The id of the new group is what follows the last slash of the \<open>Location\<close> header.\<close>

definition create_group_done :: "string \<Rightarrow> string \<Rightarrow> group_body ui_effect list" where
  "create_group_done realm location =
     [GoTo (''/realms/'' @ realm @ ''/groups/'' @ after_last CHR ''/'' location), Notify ''success'' ''Group Created.'']"

definition create_group_cancel :: "string \<Rightarrow> group_body ui_effect" where
  "create_group_cancel realm = GoTo (''/realms/'' @ realm @ ''/groups'')"

definition tab_removeGroup :: "string \<Rightarrow> group_body ui_effect" where
  "tab_removeGroup name = ConfirmDelete name ''group''"

definition tab_removeGroup_confirmed :: "string \<Rightarrow> string \<Rightarrow> group_body ui_effect" where
  "tab_removeGroup_confirmed realm i = Request ''DELETE'' ''Group'' [(''realm'', realm), (''groupId'', i)] NoGroup"

definition tab_group_removed :: "string \<Rightarrow> group_body ui_effect list" where
  "tab_group_removed realm =
     [GoTo (''/realms/'' @ realm @ ''/groups''), Notify ''success'' ''The group has been deleted.'']"

subsection \<open>Default groups\<close>

record default_groups =
  dg_realm :: string
  dg_defaultGroups :: "group_node list option"
  dg_currentNode :: "group_node option"
  dg_selectedGroup :: "group_node option"

definition addDefaultGroup :: "default_groups \<Rightarrow> group_body ui_effect" where
  "addDefaultGroup s =
     (case dg_currentNode s of
        None \<Rightarrow> Notify ''error'' ''Please select a group to add''
      | Some n \<Rightarrow> Request ''PUT'' ''DefaultGroups'' [(''realm'', dg_realm s), (''groupId'', gn_id n)] NoGroup)"

definition defaultGroup_added :: "group_body ui_effect list" where
  "defaultGroup_added = [Notify ''success'' ''Added default group'', Reload]"

definition removeDefaultGroup :: "default_groups \<Rightarrow> group_body ui_effect res" where
  "removeDefaultGroup s =
     (case dg_selectedGroup s of
        None \<Rightarrow> Throw TypeError
      | Some n \<Rightarrow> Ok (Request ''DELETE'' ''DefaultGroups'' [(''realm'', dg_realm s), (''groupId'', gn_id n)] NoGroup))"

definition defaultGroup_removed :: "group_body ui_effect list" where
  "defaultGroup_removed = [Notify ''success'' ''Removed default group'', Reload]"

subsection \<open>Pages of groups\<close>

definition page_query :: "string option \<Rightarrow> int \<Rightarrow> group_list \<Rightarrow> group_query" where
  "page_query search p s = last (gl_queries (refreshGroups search (s\<lparr>gl_currentPage := p\<rparr>)))"

definition top_count_request :: "string option \<Rightarrow> group_list \<Rightarrow> group_count" where
  "top_count_request search s = last (gl_counts (refreshGroups search s))"

lemma concat_windows: "concat (map (\<lambda>i. take k (drop (i * k) xs)) [0..<m]) = take (m * k) xs"
proof (induction m)
  case (Suc m)
  have "take (Suc m * k) xs = take (m * k) xs @ take k (drop (m * k) xs)" using take_add [of "m * k" k xs] by (simp add: add.commute)
  with Suc show ?case by simp
qed simp

lemma upto_upt: "[1..int m] = map (\<lambda>i. int i + 1) [0..<m]"
  by (rule nth_equalityI) (simp_all add: nth_upto)

text \<open>C39. The pages of the group list make up the list. The server answers a query for the groups of a realm with the top groups
  from the place \<open>first\<close> on, at most \<open>max\<close> of them, and a query for the number of top groups (\<open>top: 'true'\<close>) with their number. Then,
  without a search term, the answers for the pages 1 to \<open>numberOfPages\<close>, one behind the other, are exactly the top groups in their order,
  and none of these pages is empty.\<close>

theorem group_pages_cover:
  assumes "0 < gl_pageSize s" and "search = None \<or> search = Some []"
    and list_answer: "\<And>first m. answer \<lparr>gq_realm = gl_realm s, gq_first = first, gq_max = m, gq_search = None\<rparr> = take (nat m) (drop (nat first) tops)"
    and number_answer: "number \<lparr>gc_realm = gl_realm s, gc_top = ''true'', gc_search = None\<rparr> = int (length tops)"
  shows "\<exists>pages. gl_numberOfPages (count_answer (number (top_count_request search s)) s) = Some pages \<and>
    concat (map (\<lambda>p. answer (page_query search p s)) [1..pages]) = tops \<and>
    (\<forall>p. 1 \<le> p \<and> p \<le> pages \<longrightarrow> answer (page_query search p s) \<noteq> [])"
proof -
  define k where "k = nat (gl_pageSize s)"
  have k: "gl_pageSize s = int k" "0 < k" using assms(1) by (simp_all add: k_def)
  define m where "m = nat \<lceil>of_int (int (length tops)) / (of_int (int k) :: rat)\<rceil>"
  have c: "\<lceil>of_int (int (length tops)) / (of_int (int k) :: rat)\<rceil> = int m"
  proof -
    have "(0 :: rat) \<le> of_int (int (length tops)) / of_int (int k)" by simp
    then have "0 \<le> \<lceil>of_int (int (length tops)) / (of_int (int k) :: rat)\<rceil>" by linarith
    then show ?thesis by (simp add: m_def)
  qed
  have requests: "page_query search p s = \<lparr>gq_realm = gl_realm s, gq_first = (p - 1) * int k, gq_max = int k, gq_search = None\<rparr>"
    "top_count_request search s = \<lparr>gc_realm = gl_realm s, gc_top = ''true'', gc_search = None\<rparr>" for p
    using assms(2) by (auto simp: page_query_def top_count_request_def refreshGroups_def k(1) Let_def algebra_simps)
  have q: "answer (page_query search (int i + 1) s) = take k (drop (i * k) tops)" for i
    by (simp add: requests list_answer nat_mult_distrib)
  have n: "gl_numberOfPages (count_answer (number (top_count_request search s)) s) = Some (int m)"
    using number_answer c by (simp add: requests count_answer_def k(1))
  have "of_int (int (length tops)) / (of_int (int k) :: rat) \<le> of_int (int m)" using c by linarith
  then have "(of_int (int (length tops)) :: rat) \<le> of_int (int (m * k))" using k(2) by (simp add: pos_divide_le_eq)
  then have all: "length tops \<le> m * k" by (simp only: of_int_le_iff of_nat_le_iff)
  have some: "i * k < length tops" if "i < m" for i
  proof -
    have "(of_int (int i) :: rat) < of_int (int (length tops)) / of_int (int k)" using c that by linarith
    then have "(of_int (int (i * k)) :: rat) < of_int (int (length tops))" using k(2) by (simp add: pos_less_divide_eq)
    then show ?thesis by (simp only: of_int_less_iff of_nat_less_iff)
  qed
  have "concat (map (\<lambda>p. answer (page_query search p s)) [1..int m]) = tops"
    using concat_windows [of k tops m] all by (simp add: upto_upt comp_def q)
  moreover have "answer (page_query search p s) \<noteq> []" if "1 \<le> p" "p \<le> int m" for p
  proof -
    have "nat (p - 1) < m" using that by linarith
    then show ?thesis using q [of "nat (p - 1)"] some [of "nat (p - 1)"] that k(2) by simp
  qed
  ultimately show ?thesis using n by blast
qed

text \<open>A server with forty-one top groups.\<close>

definition sample_groups :: "group_node list" where
  "sample_groups = replicate 41 (GroupNode ''g'' ''group'' None True False)"

theorem group_pages_cover_witness:
  "concat (map (\<lambda>p. (\<lambda>q. take (nat (gq_max q)) (drop (nat (gq_first q)) sample_groups)) (page_query None p (new_group_list ''demo''))) [1..3])
     = sample_groups"
proof -
  let ?s = "new_group_list ''demo''"
  have k: "gl_pageSize ?s = 20" by (simp add: new_group_list_def refreshGroups_def Let_def)
  have n: "gl_numberOfPages (count_answer (int (length sample_groups)) ?s) = Some 3"
    by (simp add: count_answer_def sample_groups_def k) (simp add: ceiling_unique)
  show ?thesis
    using group_pages_cover [of ?s None "\<lambda>q. take (nat (gq_max q)) (drop (nat (gq_first q)) sample_groups)" sample_groups
        "\<lambda>c. if gc_top c = ''true'' then int (length sample_groups) else 99"] k n
    by (simp add: top_count_request_def refreshGroups_def Let_def)
qed

end
