(* ===== verification/Splitting.thy ===== *)
theory Splitting
  imports Prelude
begin

section \<open>Splitting a string at a string\<close>

text \<open>
  \<open>s.split(sep)\<close> with a separator of several characters, which the admin console uses for attribute values
  (\<open>"##"\<close>) and for the password policy (\<open>" and "\<close>), with the two round trips with \<open>join\<close>.
\<close>

text \<open>\<open>s.split(sep)\<close> for a separator that is not empty (an empty one gives the characters).\<close>

function split_str :: "string \<Rightarrow> string \<Rightarrow> string list" where
  "split_str sep s =
     (if sep = [] then map (\<lambda>c. [c]) s
      else (case index_of s sep of
              None \<Rightarrow> [s]
            | Some i \<Rightarrow> take i s # split_str sep (drop (i + length sep) s)))"
  by pat_completeness auto
termination
proof (relation "measure (\<lambda>(sep, s). length s)")
  fix sep s :: string and i
  assume a: "sep \<noteq> []" "index_of s sep = Some i"
  then have "prefix sep (drop i s)" by (auto dest: index_of_SomeD)
  with a(1) have "s \<noteq> []" by auto
  with a(1) show "((sep, drop (i + length sep) s), sep, s) \<in> measure (\<lambda>(sep, s). length s)"
    by (cases sep; cases s) auto
qed simp

declare split_str.simps [simp del]

lemma split_str_not_Nil: "sep \<noteq> [] \<Longrightarrow> split_str sep s \<noteq> []"
  by (subst split_str.simps) (simp split: option.split)

lemma join_split_str: "sep \<noteq> [] \<Longrightarrow> join sep (split_str sep s) = s"
proof (induction sep s rule: split_str.induct)
  case (1 sep s)
  show ?case
  proof (cases "index_of s sep")
    case None
    then show ?thesis using "1.prems" by (simp add: split_str.simps [of sep s])
  next
    case (Some i)
    have "join sep (split_str sep s) = take i s @ sep @ drop (i + length sep) s"
      using 1 Some by (simp add: split_str.simps [of sep s] join_Cons_ne split_str_not_Nil)
    moreover have "drop i s = sep @ drop (i + length sep) s"
      using index_of_SomeD [OF Some] by (auto simp: prefix_def) (metis append_eq_conv_conj drop_drop add.commute)
    ultimately show ?thesis by (metis append_take_drop_id)
  qed
qed

text \<open>A text that can stand before the separator: the separator occurs neither in it nor across its end.\<close>

definition sep_free :: "string \<Rightarrow> string \<Rightarrow> bool" where
  "sep_free sep x \<longleftrightarrow> index_of (x @ butlast sep) sep = None"

lemma prefix_append_long: "length p \<le> length a \<Longrightarrow> prefix p (a @ b) \<longleftrightarrow> prefix p a"
  by (auto simp: prefix_append dest: prefix_length_le)

lemma index_of_sep_free:
  assumes "sep \<noteq> []"
  shows "index_of (x @ butlast sep) sep = None \<Longrightarrow> index_of (x @ sep @ y) sep = Some (length x)"
proof (induction x)
  case Nil
  show ?case by (simp add: index_of_prefix)
next
  case (Cons c x)
  have "\<not> prefix sep (c # x @ butlast sep)" and i: "index_of (x @ butlast sep) sep = None"
    using Cons.prems by (auto split: if_splits)
  moreover have "prefix sep ((c # x @ butlast sep) @ [last sep] @ y) \<longleftrightarrow> prefix sep (c # x @ butlast sep)"
    by (rule prefix_append_long) simp
  moreover have "(c # x @ butlast sep) @ [last sep] @ y = c # x @ sep @ y"
    using append_butlast_last_id [OF assms] by (metis append.assoc append_Cons)
  ultimately have "\<not> prefix sep (c # x @ sep @ y)" by metis
  with Cons.IH [OF i] show ?case by simp
qed

lemma sep_free_itself:
  assumes "sep \<noteq> []" and "sep_free sep x"
  shows "index_of x sep = None"
proof -
  have "index_of x sep = None" if "index_of (x @ z) sep = None" for z
    using that
  proof (induction x)
    case Nil
    then show ?case using assms(1) by simp
  next
    case (Cons c x)
    then show ?case by (auto split: if_splits) (metis append_Cons prefix_prefix)
  qed
  with assms(2) show ?thesis by (simp add: sep_free_def)
qed

lemma split_join:
  assumes "sep \<noteq> []"
  shows "xs \<noteq> [] \<Longrightarrow> list_all (sep_free sep) xs \<Longrightarrow> split_str sep (join sep xs) = xs"
proof (induction xs)
  case (Cons x xs)
  show ?case
  proof (cases "xs = []")
    case True
    with assms Cons.prems show ?thesis by (simp add: split_str.simps [of sep x] sep_free_itself)
  next
    case False
    have "index_of (x @ sep @ join sep xs) sep = Some (length x)"
      using Cons.prems assms by (intro index_of_sep_free) (simp_all add: sep_free_def)
    with False Cons assms show ?thesis
      by (simp add: join_Cons_ne split_str.simps [of sep "x @ sep @ join sep xs"])
  qed
qed simp

end
