(* ===== verification/Attributes.thy ===== *)
theory Attributes
  imports Console Splitting
begin

section \<open>The admin console: attributes of groups and users\<close>

text \<open>
  The attribute editors of controllers/groups.js \<open>GroupDetailCtrl\<close> (219-286) and of controllers/users.js
  \<open>UserDetailCtrl\<close> (325-506). The server keeps a list of values for each attribute; the page shows them as one
  line, joined by two hash signs, and splits the line when it saves. A value is a text or a list: none is \<open>null\<close>.
\<close>

subsection \<open>Attributes\<close>

datatype attr_value = AttrText string | AttrList "string list"

type_synonym attributes = "string \<Rightarrow> attr_value option"

fun value_to_list :: "attr_value \<Rightarrow> attr_value" where
  "value_to_list (AttrText s) = AttrList (split_str ''##'' s)"
| "value_to_list (AttrList vs) = AttrList vs"

fun value_to_string :: "attr_value \<Rightarrow> attr_value" where
  "value_to_string (AttrList vs) = AttrText (join ''##'' vs)"
| "value_to_string (AttrText s) = AttrText s"

definition convertAttributeValuesToLists :: "attributes \<Rightarrow> attributes" where
  "convertAttributeValuesToLists attrs = (\<lambda>a. map_option value_to_list (attrs a))"

definition convertAttributeValuesToString :: "attributes \<Rightarrow> attributes" where
  "convertAttributeValuesToString attrs = (\<lambda>a. map_option value_to_string (attrs a))"

subsection \<open>The editor of a group\<close>

record group_rep =
  gr_id :: string
  gr_name :: string
  gr_attributes :: attributes

record group_detail =
  gd_realm :: string
  gd_saved :: group_rep
  gd_group :: group_rep
  gd_changed :: bool
  gd_newAttribute :: "(string \<times> string) option"
  gd_effects :: "group_rep ui_effect list"

definition group_to_string :: "group_rep \<Rightarrow> group_rep" where
  "group_to_string g = g\<lparr>gr_attributes := convertAttributeValuesToString (gr_attributes g)\<rparr>"

definition new_group_detail :: "string \<Rightarrow> group_rep \<Rightarrow> group_detail" where
  "new_group_detail realm g =
     (let g = group_to_string g in
      \<lparr>gd_realm = realm, gd_saved = g, gd_group = g, gd_changed = False, gd_newAttribute = None, gd_effects = []\<rparr>)"

definition group_save :: "group_detail \<Rightarrow> group_detail" where
  "group_save s =
     (let g = (gd_group s)\<lparr>gr_attributes := convertAttributeValuesToLists (gr_attributes (gd_group s))\<rparr> in
      s\<lparr>gd_group := g,
        gd_effects := gd_effects s @ [Request ''PUT'' ''Group'' [(''realm'', gd_realm s), (''groupId'', gr_id g)] g]\<rparr>)"

definition group_saved :: "group_detail \<Rightarrow> group_detail" where
  "group_saved s =
     (let g = group_to_string (gd_group s) in
      s\<lparr>gd_changed := False, gd_group := g, gd_saved := g,
        gd_effects := gd_effects s @ [Notify ''success'' ''Your changes have been saved to the group.'']\<rparr>)"

definition group_reset :: "group_detail \<Rightarrow> group_detail" where
  "group_reset s = s\<lparr>gd_group := gd_saved s, gd_changed := False\<rparr>"

definition group_cancel :: "group_detail \<Rightarrow> group_detail" where
  "group_cancel s = s\<lparr>gd_effects := gd_effects s @ [GoTo (''/realms/'' @ gd_realm s @ ''/groups'')]\<rparr>"

text \<open>Without a new attribute in the form, reading its key is a TypeError.\<close>

definition addAttribute :: "(group_detail, unit) comp" where
  "addAttribute s =
     (case gd_newAttribute s of
        None \<Rightarrow> (Throw TypeError, s)
      | Some (k, v) \<Rightarrow>
          (Ok (), s\<lparr>gd_group := (gd_group s)\<lparr>gr_attributes := (gr_attributes (gd_group s))(k \<mapsto> AttrText v)\<rparr>,
                    gd_newAttribute := None\<rparr>))"

definition removeAttribute :: "string \<Rightarrow> group_detail \<Rightarrow> group_detail" where
  "removeAttribute k s = s\<lparr>gd_group := (gd_group s)\<lparr>gr_attributes := (gr_attributes (gd_group s))(k := None)\<rparr>\<rparr>"

subsection \<open>Properties\<close>

definition server_attributes :: "attributes \<Rightarrow> bool" where
  "server_attributes attrs \<longleftrightarrow> (\<forall>a v. attrs a = Some v \<longrightarrow> (\<exists>vs. v = AttrList vs \<and> vs \<noteq> [] \<and> list_all (sep_free ''##'') vs))"

lemma to_lists_to_string:
  assumes "server_attributes attrs"
  shows "convertAttributeValuesToLists (convertAttributeValuesToString attrs) = attrs"
proof
  fix a
  show "convertAttributeValuesToLists (convertAttributeValuesToString attrs) a = attrs a"
  proof (cases "attrs a")
    case None
    then show ?thesis by (simp add: convertAttributeValuesToLists_def convertAttributeValuesToString_def)
  next
    case (Some v)
    with assms obtain vs where "v = AttrList vs" "vs \<noteq> []" "list_all (sep_free ''##'') vs"
      unfolding server_attributes_def by blast
    with Some split_join [of "''##''" vs] show ?thesis
      by (simp add: convertAttributeValuesToLists_def convertAttributeValuesToString_def)
  qed
qed

text \<open>Opening a group and saving it unchanged sends the attributes the server had, provided every attribute has at least one
  value and no value contains two hash signs in a row or ends with one; and after the save the page shows what it
  showed before.\<close>

theorem group_attributes_roundtrip:
  assumes "server_attributes (gr_attributes g)"
  shows "gd_effects (group_save (new_group_detail realm g)) =
      [Request ''PUT'' ''Group'' [(''realm'', realm), (''groupId'', gr_id g)] g] \<and>
    gd_group (group_saved (group_save (new_group_detail realm g))) = gd_group (new_group_detail realm g)"
  using to_lists_to_string [OF assms]
  by (simp add: group_save_def group_saved_def new_group_detail_def group_to_string_def Let_def)

theorem group_attributes_roundtrip_witness:
  "gd_effects (group_save (new_group_detail ''demo''
      \<lparr>gr_id = ''1'', gr_name = ''g'', gr_attributes = [''k'' \<mapsto> AttrList [''a'', ''b#c'']]\<rparr>)) =
     [Request ''PUT'' ''Group'' [(''realm'', ''demo''), (''groupId'', ''1'')]
       \<lparr>gr_id = ''1'', gr_name = ''g'', gr_attributes = [''k'' \<mapsto> AttrList [''a'', ''b#c'']]\<rparr>]"
proof -
  have "server_attributes [''k'' \<mapsto> AttrList [''a'', ''b#c'']]"
    by (auto simp: server_attributes_def sep_free_def split: if_splits)
  then show ?thesis
    using group_attributes_roundtrip [of "\<lparr>gr_id = ''1'', gr_name = ''g'', gr_attributes = [''k'' \<mapsto> AttrList [''a'', ''b#c'']]\<rparr>" "''demo''"]
    by simp
qed

text \<open>A value that ends with a hash sign moves the cut.\<close>

lemma hash_at_end: "split_str ''##'' (join ''##'' [''a#'', ''b'']) = [''a'', ''#b'']"
  by code_simp

end
