(* ===== verification/Units.thy ===== *)
theory Units
  imports Prelude
begin

section \<open>The admin console: units of time\<close>

text \<open>
  services.js: \<open>TimeUnit\<close> (1349-1394) and \<open>TimeUnit2\<close> (1396-1439), which turn a number of seconds
  into a unit and a count for the input fields of the settings pages, and back. A time is an integer; \<open>None\<close>
  stands for \<open>undefined\<close> and \<open>null\<close>. A remainder is compared with zero only, so its sign does not matter.
\<close>

subsection \<open>TimeUnit\<close>

definition autoUnit :: "int option \<Rightarrow> string" where
  "autoUnit t =
     (if t = None \<or> t = Some 0 then ''Hours''
      else
        (let time = the t;
             unit = ''Seconds'';
             (unit, time) = (if time mod 60 = 0 then (''Minutes'', time div 60) else (unit, time));
             (unit, time) = (if time mod 60 = 0 then (''Hours'', time div 60) else (unit, time));
             (unit, time) = (if time mod 24 = 0 then (''Days'', time div 24) else (unit, time))
         in unit))"

definition toSeconds :: "int \<Rightarrow> string \<Rightarrow> int res" where
  "toSeconds time unit =
     (if unit = ''Seconds'' then Ok time
      else if unit = ''Minutes'' then Ok (time * 60)
      else if unit = ''Hours'' then Ok (time * 3600)
      else if unit = ''Days'' then Ok (time * 86400)
      else Throw (Thrown (''invalid unit '' @ unit)))"

definition toUnit :: "int \<Rightarrow> string \<Rightarrow> int res" where
  "toUnit time unit =
     (if unit = ''Seconds'' then Ok time
      else if unit = ''Minutes'' then Ok \<lceil>of_int time / (60 :: rat)\<rceil>
      else if unit = ''Hours'' then Ok \<lceil>of_int time / (3600 :: rat)\<rceil>
      else if unit = ''Days'' then Ok \<lceil>of_int time / (86400 :: rat)\<rceil>
      else Throw (Thrown (''invalid unit '' @ unit)))"

subsection \<open>TimeUnit2\<close>

record time_value =
  tv_unit :: string
  tv_time :: "int option"

definition asUnit :: "int option \<Rightarrow> time_value" where
  "asUnit t =
     (if t = None \<or> t = Some 0 then \<lparr>tv_unit = ''Minutes'', tv_time = t\<rparr>
      else
        (let time = the t;
             unit = ''Minutes'';
             time = (if time < 60 then 60 else time);
             (unit, time) = (if time mod 60 = 0 then (''Minutes'', time div 60) else (unit, time));
             (unit, time) = (if time mod 60 = 0 then (''Hours'', time div 60) else (unit, time));
             (unit, time) = (if time mod 24 = 0 then (''Days'', time div 24) else (unit, time))
         in \<lparr>tv_unit = unit, tv_time = Some time\<rparr>))"

text \<open>The method \<open>toSeconds\<close> of the value. \<open>None\<close> is what is not a number: \<open>undefined\<close> for another unit, and NaN for a time that
  is \<open>undefined\<close>. A time that is \<open>null\<close>, as an emptied field leaves it, counts as 0 in the multiplication, and is \<open>Some 0\<close> here.\<close>

definition value_toSeconds :: "time_value \<Rightarrow> int option" where
  "value_toSeconds v =
     (case tv_time v of
        None \<Rightarrow> None
      | Some time \<Rightarrow>
          if tv_unit v = ''Minutes'' then Some (time * 60)
          else if tv_unit v = ''Hours'' then Some (time * 3600)
          else if tv_unit v = ''Days'' then Some (time * 86400)
          else None)"

subsection \<open>Properties\<close>

lemma ceiling_exact: "0 < k \<Longrightarrow> \<lceil>of_int (t * k) / (of_int k :: rat)\<rceil> = t"
  by simp

lemma ceiling_exact_iff:
  assumes "0 < k"
  shows "\<lceil>of_int t / (of_int k :: rat)\<rceil> * k = t \<longleftrightarrow> k dvd t"
proof
  assume "\<lceil>of_int t / (of_int k :: rat)\<rceil> * k = t"
  then show "k dvd t" by (metis dvd_triv_right)
next
  assume "k dvd t"
  then obtain m where "t = m * k" by (metis dvdE mult.commute)
  with ceiling_exact [OF assms, of m] show "\<lceil>of_int t / (of_int k :: rat)\<rceil> * k = t" by simp
qed

lemmas ceiling_numeral = ceiling_exact_iff [of 60, simplified] ceiling_exact_iff [of 3600, simplified]
  ceiling_exact_iff [of 86400, simplified]

text \<open>A count entered in a unit is shown again as it was entered: converting to seconds and back gives the
  same count, for each of the four units.\<close>

theorem toUnit_toSeconds:
  "(case toSeconds n unit of Throw e \<Rightarrow> Throw e | Ok s \<Rightarrow> toUnit s unit) =
     (if unit \<in> {''Seconds'', ''Minutes'', ''Hours'', ''Days''} then Ok n else Throw (Thrown (''invalid unit '' @ unit)))"
  using ceiling_exact [of 60 n] ceiling_exact [of 3600 n] ceiling_exact [of 86400 n]
  by (auto simp: toSeconds_def toUnit_def)

lemma div_mod_dvd:
  fixes t :: int
  assumes "k dvd t" and "k \<noteq> 0"
  shows "(t div k) mod m = 0 \<longleftrightarrow> k * m dvd t"
  using assms by (auto elim!: dvdE simp: dvd_eq_mod_eq_0 [symmetric])

lemma dvd_chain:
  fixes t :: int
  shows "3600 dvd t \<Longrightarrow> 60 dvd t" "1440 dvd t \<Longrightarrow> 60 dvd t" "1440 dvd t \<Longrightarrow> 24 dvd t" "86400 dvd t \<Longrightarrow> 3600 dvd t"
  by (erule dvd_trans [rotated], simp)+

lemma autoUnit_cases:
  assumes "t \<noteq> 0"
  shows "autoUnit (Some t) =
    (if 3600 dvd t then (if 86400 dvd t then ''Days'' else ''Hours'')
     else if 60 dvd t then (if 1440 dvd t then ''Days'' else ''Minutes'')
     else if 24 dvd t then ''Days'' else ''Seconds'')"
proof -
  have m: "(t div 60) mod 60 = 0 \<longleftrightarrow> 3600 dvd t" "(t div 60) mod 24 = 0 \<longleftrightarrow> 1440 dvd t" if "60 dvd t"
    using div_mod_dvd [OF that, of 60] div_mod_dvd [OF that, of 24] by simp_all
  have h: "(t div 60 div 60) mod 24 = 0 \<longleftrightarrow> 86400 dvd t" if "3600 dvd t"
    using div_mod_dvd [OF that, of 24] by (simp add: zdiv_zmult2_eq [symmetric])
  consider "\<not> 60 dvd t" | "60 dvd t" "\<not> 3600 dvd t" | "3600 dvd t" by blast
  then show ?thesis
  proof cases
    case 1
    then show ?thesis using assms dvd_chain [of t] by (auto simp: autoUnit_def Let_def dvd_eq_mod_eq_0 [symmetric])
  next
    case 2
    then show ?thesis using assms m by (auto simp: autoUnit_def Let_def dvd_eq_mod_eq_0 [symmetric])
  next
    case 3
    then show ?thesis
      using assms m dvd_chain(1) [OF 3] h by (auto simp: autoUnit_def Let_def dvd_eq_mod_eq_0 [symmetric])
  qed
qed

text \<open>A stored time is shown exactly in the unit chosen for it, unless it is a multiple of 24 seconds that is no whole
  number of minutes, or a multiple of 24 minutes that is no whole number of hours: those are shown, rounded up, as days.\<close>

theorem autoUnit_exact_iff:
  assumes "t \<noteq> 0"
  shows "(case toUnit t (autoUnit (Some t)) of Throw e \<Rightarrow> Throw e | Ok n \<Rightarrow> toSeconds n (autoUnit (Some t))) = Ok t \<longleftrightarrow>
    \<not> (24 dvd t \<and> \<not> 60 dvd t) \<and> \<not> (1440 dvd t \<and> \<not> 3600 dvd t)"
  unfolding autoUnit_cases [OF assms] toUnit_def toSeconds_def
  using dvd_chain [of t] by (auto simp: ceiling_numeral)

theorem autoUnit_exact_iff_witness:
  "(case toUnit 5400 (autoUnit (Some 5400)) of Throw e \<Rightarrow> Throw e | Ok n \<Rightarrow> toSeconds n (autoUnit (Some 5400))) = Ok 5400 \<and>
   (case toUnit 1440 (autoUnit (Some 1440)) of Throw e \<Rightarrow> Throw e | Ok n \<Rightarrow> toSeconds n (autoUnit (Some 1440))) \<noteq> Ok 1440"
  using autoUnit_exact_iff [of 5400] autoUnit_exact_iff [of 1440] by simp

lemma asUnit_cases:
  assumes "60 \<le> t"
  shows "asUnit (Some t) =
    (if 3600 dvd t then (if 86400 dvd t then \<lparr>tv_unit = ''Days'', tv_time = Some (t div 86400)\<rparr>
                         else \<lparr>tv_unit = ''Hours'', tv_time = Some (t div 3600)\<rparr>)
     else if 60 dvd t then (if 1440 dvd t then \<lparr>tv_unit = ''Days'', tv_time = Some (t div 1440)\<rparr>
                            else \<lparr>tv_unit = ''Minutes'', tv_time = Some (t div 60)\<rparr>)
     else if 24 dvd t then \<lparr>tv_unit = ''Days'', tv_time = Some (t div 24)\<rparr>
     else \<lparr>tv_unit = ''Minutes'', tv_time = Some t\<rparr>)"
proof -
  have m: "(t div 60) mod 60 = 0 \<longleftrightarrow> 3600 dvd t" "(t div 60) mod 24 = 0 \<longleftrightarrow> 1440 dvd t" if "60 dvd t"
    using div_mod_dvd [OF that, of 60] div_mod_dvd [OF that, of 24] by simp_all
  have h: "(t div 60 div 60) mod 24 = 0 \<longleftrightarrow> 86400 dvd t" if "3600 dvd t"
    using div_mod_dvd [OF that, of 24] by (simp add: zdiv_zmult2_eq [symmetric])
  have d: "t div 60 div 60 = t div 3600" "t div 60 div 24 = t div 1440" "t div 60 div 60 div 24 = t div 86400"
    by (simp_all add: zdiv_zmult2_eq [symmetric])
  consider "\<not> 60 dvd t" | "60 dvd t" "\<not> 3600 dvd t" | "3600 dvd t" by blast
  then show ?thesis
  proof cases
    case 1
    then show ?thesis using assms dvd_chain [of t] by (auto simp: asUnit_def Let_def dvd_eq_mod_eq_0 [symmetric])
  next
    case 2
    then show ?thesis using assms m d by (auto simp: asUnit_def Let_def dvd_eq_mod_eq_0 [symmetric])
  next
    case 3
    then show ?thesis
      using assms m dvd_chain(1) [OF 3] h d by (auto simp: asUnit_def Let_def dvd_eq_mod_eq_0 [symmetric])
  qed
qed

text \<open>The second service loses more: only whole minutes that are no multiple of 24 minutes short of an hour come back.\<close>

lemma asUnit_exact_iff:
  assumes "t \<noteq> 0"
  shows "value_toSeconds (asUnit (Some t)) = Some t \<longleftrightarrow> 60 \<le> t \<and> 60 dvd t \<and> \<not> (1440 dvd t \<and> \<not> 3600 dvd t)"
proof (cases "60 \<le> t")
  case True
  have "t div 24 * 86400 \<noteq> t" if "24 dvd t" using that True by (auto elim!: dvdE)
  moreover have "t div 1440 * 86400 \<noteq> t" if "1440 dvd t" using that True by (auto elim!: dvdE)
  ultimately show ?thesis
    unfolding asUnit_cases [OF True] using True dvd_chain [of t] by (auto simp: value_toSeconds_def)
next
  case False
  then show ?thesis using assms by (simp add: asUnit_def Let_def value_toSeconds_def)
qed

end
