(* ===== verification/Users.thy ===== *)
theory Users
  imports Attributes Units
begin

section \<open>The admin console: users\<close>

text \<open>
  controllers/users.js: \<open>UserSessionsCtrl\<close> (114-137), \<open>UserFederatedIdentityCtrl\<close> (139-160),
  \<open>UserFederatedIdentityAddCtrl\<close> (162-199), \<open>UserConsentsCtrl\<close> (201-217),
  \<open>UserOfflineSessionsCtrl\<close> (219-228), \<open>UserTabCtrl\<close> (309-323), \<open>UserDetailCtrl\<close> (325-506) without the
  links to the user's storage provider (344-388), and \<open>UserCredentialsCtrl\<close> (508-625).
\<close>

subsection \<open>Sessions and consents\<close>

definition logoutAll :: "string \<Rightarrow> string \<Rightarrow> unit ui_effect" where
  "logoutAll realm user = Request ''POST'' ''UserLogout'' [(''realm'', realm), (''user'', user)] ()"

definition logoutAll_done :: "string \<Rightarrow> string \<Rightarrow> unit ui_effect list" where
  "logoutAll_done realm user =
     [Notify ''success'' ''Logged out user in all clients'',
      Request ''GET'' ''UserSessions'' [(''realm'', realm), (''user'', user)] ()]"

definition logoutSession :: "string \<Rightarrow> string \<Rightarrow> unit ui_effect" where
  "logoutSession realm session = Request ''DELETE'' ''UserSessionLogout'' [(''realm'', realm), (''session'', session)] ()"

definition logoutSession_done :: "string \<Rightarrow> string \<Rightarrow> unit ui_effect list" where
  "logoutSession_done realm user = [Request ''GET'' ''UserSessions'' [(''realm'', realm), (''user'', user)] ()]"

definition logoutSession_updated :: "unit ui_effect list" where
  "logoutSession_updated = [Notify ''success'' ''Logged out session'']"

definition revokeConsent :: "string \<Rightarrow> string \<Rightarrow> string \<Rightarrow> unit ui_effect" where
  "revokeConsent realm user client =
     Request ''DELETE'' ''UserConsents'' [(''realm'', realm), (''user'', user), (''client'', client)] ()"

definition revokeConsent_done :: "string \<Rightarrow> string \<Rightarrow> bool \<Rightarrow> unit ui_effect list" where
  "revokeConsent_done realm user success =
     (if success then
        [Request ''GET'' ''UserConsents'' [(''realm'', realm), (''user'', user)] (),
         Notify ''success'' ''Grant revoked successfully'']
      else [Notify ''error'' (''Grant couldn'' @ [CHR 0x27] @ ''t be revoked'')])"

definition offline_sessions_cancel :: "string \<Rightarrow> string \<Rightarrow> unit ui_effect" where
  "offline_sessions_cancel realm user = GoTo (''/realms/'' @ realm @ ''/users/'' @ user @ ''/consents'')"

definition tab_removeUser :: "string \<Rightarrow> unit ui_effect" where
  "tab_removeUser user = ConfirmDelete user ''user''"

definition tab_removeUser_done :: "string \<Rightarrow> bool \<Rightarrow> unit ui_effect list" where
  "tab_removeUser_done realm success =
     (if success then [GoTo (''/realms/'' @ realm @ ''/users''), Notify ''success'' ''The user has been deleted.'']
      else [Notify ''error'' (''User couldn'' @ [CHR 0x27] @ ''t be deleted'')])"

subsection \<open>Links to identity providers\<close>

record provider_link =
  pl_identityProvider :: string
  pl_userId :: string

definition hasAnyProvidersToCreate :: "string list \<Rightarrow> provider_link list \<Rightarrow> bool" where
  "hasAnyProvidersToCreate providers links \<longleftrightarrow> int (length providers) - int (length links) > 0"

definition removeProviderLink :: "provider_link \<Rightarrow> unit ui_effect" where
  "removeProviderLink link = ConfirmDelete (pl_identityProvider link) ''Identity Provider Link''"

definition removeProviderLink_confirmed :: "string \<Rightarrow> string \<Rightarrow> provider_link \<Rightarrow> unit ui_effect" where
  "removeProviderLink_confirmed realm user link =
     Request ''DELETE'' ''UserFederatedIdentity''
       [(''realm'', realm), (''user'', user), (''provider'', pl_identityProvider link)] ()"

definition providerLink_removed :: "provider_link \<Rightarrow> provider_link list \<Rightarrow> provider_link list \<times> unit ui_effect list" where
  "providerLink_removed link links =
     (splice_index_of link links, [Notify ''success'' ''The provider link has been deleted.''])"

definition getAvailableProvidersToCreate :: "string list \<Rightarrow> provider_link list \<Rightarrow> string list" where
  "getAvailableProvidersToCreate providers links =
     fold (\<lambda>link realmProviders. splice_index_of (pl_identityProvider link) realmProviders) links providers"

definition federated_save :: "string \<Rightarrow> string \<Rightarrow> provider_link \<Rightarrow> provider_link ui_effect" where
  "federated_save realm user link =
     Request ''POST'' ''UserFederatedIdentity''
       [(''realm'', realm), (''user'', user), (''provider'', pl_identityProvider link)] link"

definition federated_saved :: "string \<Rightarrow> string \<Rightarrow> provider_link ui_effect list" where
  "federated_saved realm user =
     [GoTo (''/realms/'' @ realm @ ''/users/'' @ user @ ''/federated-identity''),
      Notify ''success'' ''Provider link has been created.'']"

definition federated_cancel :: "string \<Rightarrow> string \<Rightarrow> provider_link ui_effect" where
  "federated_cancel realm user = GoTo (''/realms/'' @ realm @ ''/users/'' @ user @ ''/federated-identity'')"

lemma splice_index_of_found: "x \<in> set xs \<Longrightarrow> splice_index_of x xs = remove1 x xs"
  by (auto simp: splice_index_of_def splice1_index_in index_in_None split: option.splits)

lemma available_providers:
  assumes "distinct providers" and "distinct (map pl_identityProvider links)"
    and "pl_identityProvider ` set links \<subseteq> set providers"
  shows "getAvailableProvidersToCreate providers links =
    filter (\<lambda>p. p \<notin> pl_identityProvider ` set links) providers"
  using assms unfolding getAvailableProvidersToCreate_def
proof (induction links arbitrary: providers)
  case (Cons l links)
  let ?a = "pl_identityProvider l"
  have "?a \<notin> pl_identityProvider ` set links" using Cons.prems(2) by simp
  then have "pl_identityProvider ` set links \<subseteq> set (remove1 ?a providers)"
    using Cons.prems(1,3) by (auto simp: set_remove1_eq image_iff)
  then have "fold (\<lambda>link. splice_index_of (pl_identityProvider link)) links (remove1 ?a providers) =
      filter (\<lambda>p. p \<notin> pl_identityProvider ` set links) (remove1 ?a providers)"
    using Cons.prems by (intro Cons.IH) auto
  moreover have "\<dots> = filter (\<lambda>p. p \<notin> pl_identityProvider ` set (l # links)) providers"
    using Cons.prems(1) by (auto simp: distinct_remove1_removeAll removeAll_filter_not_eq intro: filter_cong)
  ultimately show ?case using Cons.prems(3) by (simp add: splice_index_of_found)
qed simp

text \<open>A link to a provider that the realm does not have any more takes another provider off the list: the index is -1.\<close>

lemma available_providers_wrong:
  "getAvailableProvidersToCreate [''github'', ''google''] [\<lparr>pl_identityProvider = ''gone'', pl_userId = ''u''\<rparr>] = [''github'']"
  by (simp add: getAvailableProvidersToCreate_def splice_index_of_def)

subsection \<open>The editor of a user\<close>

record user_rep =
  ur_id :: "string option"
  ur_username :: "string option"
  ur_enabled :: bool
  ur_attributes :: attributes

record user_detail =
  ud_realm :: string
  ud_create :: bool
  ud_editUsername :: bool
  ud_saved :: user_rep
  ud_user :: user_rep
  ud_changed :: bool
  ud_effects :: "user_rep ui_effect list"

definition user_to_string :: "user_rep \<Rightarrow> user_rep" where
  "user_to_string u = u\<lparr>ur_attributes := convertAttributeValuesToString (ur_attributes u)\<rparr>"

definition new_user_detail :: "string \<Rightarrow> bool \<Rightarrow> user_rep \<Rightarrow> user_detail" where
  "new_user_detail realm editUsernameAllowed user =
     (let create = (\<not> str_truthy (ur_id user)) in
      if create then
        \<lparr>ud_realm = realm, ud_create = True, ud_editUsername = True, ud_saved = user,
         ud_user = \<lparr>ur_id = None, ur_username = None, ur_enabled = True, ur_attributes = (\<lambda>_. None)\<rparr>,
         ud_changed = False, ud_effects = []\<rparr>
      else
        (let user = user_to_string user in
         \<lparr>ud_realm = realm, ud_create = False, ud_editUsername = editUsernameAllowed, ud_saved = user, ud_user = user,
          ud_changed = False, ud_effects = []\<rparr>))"

definition ud_do :: "user_rep ui_effect list \<Rightarrow> user_detail \<Rightarrow> user_detail" where
  "ud_do es s = s\<lparr>ud_effects := ud_effects s @ es\<rparr>"

definition user_save :: "user_detail \<Rightarrow> user_detail" where
  "user_save s =
     (let u = (ud_user s)\<lparr>ur_attributes := convertAttributeValuesToLists (ur_attributes (ud_user s))\<rparr>;
          s = s\<lparr>ud_user := u\<rparr> in
      if ud_create s then ud_do [Request ''POST'' ''User'' [(''realm'', ud_realm s)] u] s
      else ud_do [Request ''PUT'' ''User'' [(''realm'', ud_realm s), (''userId'', undef_str (ur_id u))] u] s)"

definition user_shown :: "user_detail \<Rightarrow> user_detail" where
  "user_shown s =
     (let u = user_to_string (ud_user s) in s\<lparr>ud_changed := False, ud_user := u, ud_saved := u\<rparr>)"

definition user_created :: "string \<Rightarrow> user_detail \<Rightarrow> user_detail" where
  "user_created location s =
     ud_do [GoTo (''/realms/'' @ ud_realm s @ ''/users/'' @ after_last CHR ''/'' location),
            Notify ''success'' ''The user has been created.''] (user_shown s)"

definition user_updated :: "user_detail \<Rightarrow> user_detail" where
  "user_updated s = ud_do [Notify ''success'' ''Your changes have been saved to the user.''] (user_shown s)"

definition user_reset :: "user_detail \<Rightarrow> user_detail" where
  "user_reset s = s\<lparr>ud_user := ud_saved s, ud_changed := False\<rparr>"

definition user_cancel :: "user_detail \<Rightarrow> user_detail" where
  "user_cancel s = ud_do [GoTo (''/realms/'' @ ud_realm s @ ''/users'')] s"

record required_action =
  ra_alias :: string
  ra_enabled :: bool

definition userReqActionList :: "required_action list \<Rightarrow> required_action list" where
  "userReqActionList actions = fold (\<lambda>a acc. if ra_enabled a then acc @ [a] else acc) actions []"

lemma userReqActionList_filter: "userReqActionList actions = filter ra_enabled actions"
proof -
  have "fold (\<lambda>a acc. if ra_enabled a then acc @ [a] else acc) as acc = acc @ filter ra_enabled as" for as and acc :: "required_action list"
    by (induction as arbitrary: acc) auto
  then show ?thesis by (simp add: userReqActionList_def)
qed

lemma user_attributes_roundtrip:
  assumes "str_truthy (ur_id u)" and "server_attributes (ur_attributes u)"
  shows "ud_effects (user_save (new_user_detail realm e u)) =
    [Request ''PUT'' ''User'' [(''realm'', realm), (''userId'', undef_str (ur_id u))] u]"
  using assms(1) to_lists_to_string [OF assms(2)]
  by (simp add: user_save_def new_user_detail_def user_to_string_def ud_do_def Let_def)

subsection \<open>Credentials\<close>

text \<open>The dialogs are modal: while one is open (\<open>cr_dialog\<close>) the page cannot be edited. Answers arrive at any time, also while
  a dialog is open; \<open>cr_resets\<close> counts the resets that were sent and not answered yet. A password of \<open>None\<close> is sent as null.\<close>

datatype credential_body = Password "string option" bool | Types "string list" | Actions "string list"

datatype credential_dialog = ResetDialog | DisableDialog | EmailDialog

record credentials =
  cr_realm :: string
  cr_user :: string
  cr_password :: "string option"
  cr_confirmPassword :: "string option"
  cr_temporaryPassword :: bool
  cr_pwdChange :: bool
  cr_changed :: bool
  cr_disableable :: "string list"
  cr_emailActions :: "string list"
  cr_emailTimeout :: time_value
  cr_dialog :: "credential_dialog option"
  cr_resets :: nat
  cr_effects :: "credential_body ui_effect list"

definition new_credentials :: "string \<Rightarrow> string \<Rightarrow> int option \<Rightarrow> credentials" where
  "new_credentials realm user lifespan =
     \<lparr>cr_realm = realm, cr_user = user, cr_password = None, cr_confirmPassword = None, cr_temporaryPassword = True,
      cr_pwdChange = False, cr_changed = False, cr_disableable = [], cr_emailActions = [], cr_emailTimeout = asUnit lifespan,
      cr_dialog = None, cr_resets = 0, cr_effects = []\<rparr>"

definition cr_do :: "credential_body ui_effect list \<Rightarrow> credentials \<Rightarrow> credentials" where
  "cr_do es s = s\<lparr>cr_effects := cr_effects s @ es\<rparr>"

text \<open>The watch on the password.\<close>

definition watch_password :: "credentials \<Rightarrow> credentials" where
  "watch_password s = s\<lparr>cr_pwdChange := str_truthy (cr_password s)\<rparr>"

definition passwordAndConfirmPasswordEntered :: "credentials \<Rightarrow> bool" where
  "passwordAndConfirmPasswordEntered s \<longleftrightarrow> str_truthy (cr_password s) \<and> str_truthy (cr_confirmPassword s)"

definition resetPassword :: "credentials \<Rightarrow> credentials" where
  "resetPassword s =
     (if \<not> passwordAndConfirmPasswordEntered s then s
      else if cr_pwdChange s \<and> cr_password s \<noteq> cr_confirmPassword s then
        cr_do [Notify ''error'' ''Password and confirmation does not match.''] s
      else
        cr_do [Confirm ''Change password'' ''Are you sure you want to change the users password?'']
          (s\<lparr>cr_dialog := Some ResetDialog\<rparr>))"

definition user_params :: "credentials \<Rightarrow> (string \<times> string) list" where
  "user_params s = [(''realm'', cr_realm s), (''userId'', cr_user s)]"

definition resetPassword_confirmed :: "credentials \<Rightarrow> credentials" where
  "resetPassword_confirmed s =
     cr_do [Request ''PUT'' ''UserCredentials.resetPassword'' (user_params s)
              (Password (cr_password s) (cr_temporaryPassword s))] (s\<lparr>cr_dialog := None, cr_resets := cr_resets s + 1\<rparr>)"

definition resetPassword_cancelled :: "credentials \<Rightarrow> credentials" where
  "resetPassword_cancelled s = watch_password (s\<lparr>cr_password := None, cr_confirmPassword := None, cr_dialog := None\<rparr>)"

text \<open>The answer to a reset; an error is left to the interceptor of all requests.\<close>

definition resetPassword_done :: "bool \<Rightarrow> credentials \<Rightarrow> credentials" where
  "resetPassword_done success s =
     (if success then
        cr_do [Notify ''success'' ''The password has been reset'', Reload]
          (watch_password (s\<lparr>cr_password := None, cr_confirmPassword := None, cr_resets := cr_resets s - 1\<rparr>))
      else s\<lparr>cr_resets := cr_resets s - 1\<rparr>)"

definition disableCredentialTypes :: "credentials \<Rightarrow> credentials" where
  "disableCredentialTypes s =
     cr_do [Confirm ''Disable credentials'' ''Are you sure you want to disable these users credentials?'']
       (s\<lparr>cr_dialog := Some DisableDialog\<rparr>)"

definition disableCredentialTypes_confirmed :: "credentials \<Rightarrow> credentials" where
  "disableCredentialTypes_confirmed s =
     cr_do [Request ''PUT'' ''UserCredentials.disableCredentialTypes'' (user_params s) (Types (cr_disableable s))]
       (s\<lparr>cr_dialog := None\<rparr>)"

definition sendExecuteActionsEmail :: "credentials \<Rightarrow> credentials" where
  "sendExecuteActionsEmail s =
     (if cr_changed s then
        cr_do [ShowMessage ''Cannot send email'' ''You must save your current changes before you can send an email''] s
      else
        cr_do [Confirm ''Send Email'' ''Are you sure you want to send email to user?''] (s\<lparr>cr_dialog := Some EmailDialog\<rparr>))"

definition lifespan_text :: "int option \<Rightarrow> string" where
  "lifespan_text t = (case t of None \<Rightarrow> ''NaN'' | Some n \<Rightarrow> int_str n)"

definition sendExecuteActionsEmail_confirmed :: "credentials \<Rightarrow> credentials" where
  "sendExecuteActionsEmail_confirmed s =
     cr_do [Request ''PUT'' ''UserExecuteActionsEmail''
              (user_params s @ [(''lifespan'', lifespan_text (value_toSeconds (cr_emailTimeout s)))]) (Actions (cr_emailActions s))]
       (s\<lparr>cr_dialog := None\<rparr>)"

definition sendExecuteActionsEmail_done :: "bool \<Rightarrow> credentials \<Rightarrow> credentials" where
  "sendExecuteActionsEmail_done success s =
     (if success then cr_do [Notify ''success'' ''Email sent to user''] (s\<lparr>cr_emailActions := []\<rparr>)
      else cr_do [Notify ''error'' ''Failed to send email to user''] s)"

definition credentials_reset :: "credentials \<Rightarrow> credentials" where
  "credentials_reset s = s\<lparr>cr_password := Some [], cr_confirmPassword := Some [], cr_pwdChange := False\<rparr>"

inductive credentials_step :: "credentials \<Rightarrow> credentials \<Rightarrow> bool" where
  type_password: "cr_dialog s = None \<Longrightarrow> credentials_step s (watch_password (s\<lparr>cr_password := p\<rparr>))"
| type_confirm: "cr_dialog s = None \<Longrightarrow> credentials_step s (s\<lparr>cr_confirmPassword := p\<rparr>)"
| temporary: "cr_dialog s = None \<Longrightarrow> credentials_step s (s\<lparr>cr_temporaryPassword := b\<rparr>)"
| choose: "cr_dialog s = None \<Longrightarrow> credentials_step s (s\<lparr>cr_disableable := ds, cr_emailActions := es, cr_emailTimeout := t\<rparr>)"
| reset_clicked: "cr_dialog s = None \<Longrightarrow> credentials_step s (resetPassword s)"
| reset_confirmed: "cr_dialog s = Some ResetDialog \<Longrightarrow> credentials_step s (resetPassword_confirmed s)"
| reset_cancelled: "cr_dialog s = Some ResetDialog \<Longrightarrow> credentials_step s (resetPassword_cancelled s)"
| reset_done: "cr_resets s > 0 \<Longrightarrow> credentials_step s (resetPassword_done b s)"
| disable_clicked: "cr_dialog s = None \<Longrightarrow> credentials_step s (disableCredentialTypes s)"
| disable_confirmed: "cr_dialog s = Some DisableDialog \<Longrightarrow> credentials_step s (disableCredentialTypes_confirmed s)"
| email_clicked: "cr_dialog s = None \<Longrightarrow> credentials_step s (sendExecuteActionsEmail s)"
| email_confirmed: "cr_dialog s = Some EmailDialog \<Longrightarrow> credentials_step s (sendExecuteActionsEmail_confirmed s)"
| email_done: "credentials_step s (sendExecuteActionsEmail_done b s)"
| dismissed: "cr_dialog s \<in> {Some DisableDialog, Some EmailDialog} \<Longrightarrow> credentials_step s (s\<lparr>cr_dialog := None\<rparr>)"
| cleared: "cr_dialog s = None \<Longrightarrow> credentials_step s (credentials_reset s)"

inductive credentials_reachable :: "string \<Rightarrow> string \<Rightarrow> credentials \<Rightarrow> bool" for realm user where
  start: "credentials_reachable realm user (new_credentials realm user t)"
| step: "credentials_reachable realm user s \<Longrightarrow> credentials_step s s' \<Longrightarrow> credentials_reachable realm user s'"

text \<open>What happened since the dialog for a new password was last opened.\<close>

definition since_asked :: "credentials \<Rightarrow> credential_body ui_effect list" where
  "since_asked s = takeWhile (\<lambda>e. e \<noteq> Confirm ''Change password'' ''Are you sure you want to change the users password?'') (rev (cr_effects s))"

definition credentials_inv :: "string \<Rightarrow> string \<Rightarrow> credentials \<Rightarrow> bool" where
  "credentials_inv realm user s \<longleftrightarrow>
     cr_realm s = realm \<and> cr_user s = user \<and> (cr_pwdChange s \<longleftrightarrow> str_truthy (cr_password s)) \<and>
     (cr_dialog s = Some ResetDialog \<longrightarrow> cr_confirmPassword s = cr_password s \<and>
       (str_truthy (cr_password s) \<or>
        cr_password s = None \<and> Notify ''success'' ''The password has been reset'' \<in> set (since_asked s)))"

lemmas credentials_ops = watch_password_def resetPassword_def resetPassword_confirmed_def resetPassword_cancelled_def
  resetPassword_done_def disableCredentialTypes_def disableCredentialTypes_confirmed_def sendExecuteActionsEmail_def
  sendExecuteActionsEmail_confirmed_def sendExecuteActionsEmail_done_def credentials_reset_def cr_do_def

lemma credentials_inv_step: "credentials_step s s' \<Longrightarrow> credentials_inv realm user s \<Longrightarrow> credentials_inv realm user s'"
  by (induction rule: credentials_step.induct)
    (auto simp: credentials_inv_def credentials_ops since_asked_def passwordAndConfirmPasswordEntered_def str_truthy_def)

lemma credentials_invariant: "credentials_reachable realm user s \<Longrightarrow> credentials_inv realm user s"
proof (induction rule: credentials_reachable.induct)
  case (start t)
  show ?case by (simp add: credentials_inv_def new_credentials_def str_truthy_def)
next
  case (step s s')
  from step.hyps(2) step.IH show ?case by (rule credentials_inv_step)
qed

text \<open>C21. A password is reset only after it was entered twice alike: whenever the confirmation dialog is open, both fields hold
  the same text, and confirming sends, for the user of the page, exactly what both fields hold. It is a non-empty text, unless an
  earlier reset was answered since the dialog was opened: that answer empties both fields, and null is sent.\<close>

theorem password_reset_checked:
  assumes "credentials_reachable realm user s" and "cr_dialog s = Some ResetDialog"
  shows "cr_confirmPassword s = cr_password s \<and>
    (Notify ''success'' ''The password has been reset'' \<notin> set (since_asked s) \<longrightarrow> (\<exists>p. p \<noteq> [] \<and> cr_password s = Some p)) \<and>
    cr_password s \<noteq> Some [] \<and>
    cr_effects (resetPassword_confirmed s) = cr_effects s @
      [Request ''PUT'' ''UserCredentials.resetPassword'' [(''realm'', realm), (''userId'', user)]
         (Password (cr_password s) (cr_temporaryPassword s))]"
  using credentials_invariant [OF assms(1)] assms(2)
  by (cases "cr_password s")
    (auto simp: credentials_inv_def str_truthy_def resetPassword_confirmed_def cr_do_def user_params_def)

definition demo_credentials :: credentials where
  "demo_credentials =
     resetPassword ((watch_password ((new_credentials ''demo'' ''u'' None)\<lparr>cr_password := Some ''pw''\<rparr>))
       \<lparr>cr_confirmPassword := Some ''pw''\<rparr>)"

lemma demo_credentials_reachable: "credentials_reachable ''demo'' ''u'' demo_credentials"
  unfolding demo_credentials_def
  by (intro credentials_reachable.step [OF credentials_reachable.step [OF credentials_reachable.step
          [OF credentials_reachable.start credentials_step.type_password] credentials_step.type_confirm]
        credentials_step.reset_clicked]) (simp_all add: new_credentials_def watch_password_def)

lemmas eval_credentials = demo_credentials_def new_credentials_def credentials_ops since_asked_def passwordAndConfirmPasswordEntered_def
  str_truthy_def user_params_def

theorem password_reset_checked_witness:
  "cr_dialog demo_credentials = Some ResetDialog \<and> cr_confirmPassword demo_credentials = cr_password demo_credentials \<and>
     (\<exists>p. p \<noteq> [] \<and> cr_password demo_credentials = Some p)"
proof -
  have d: "cr_dialog demo_credentials = Some ResetDialog" "since_asked demo_credentials = []"
    by (simp_all add: eval_credentials)
  show ?thesis using password_reset_checked [OF demo_credentials_reachable d(1)] d by simp
qed

text \<open>The exception happens: with the first reset on its way, the administrator asks for a second one; the answer to the first
  empties both fields behind the dialog, and confirming sets the password to null.\<close>

theorem password_null_sent:
  "\<exists>s. credentials_reachable ''demo'' ''u'' s \<and> cr_dialog s = Some ResetDialog \<and>
     last (cr_effects (resetPassword_confirmed s)) =
       Request ''PUT'' ''UserCredentials.resetPassword'' [(''realm'', ''demo''), (''userId'', ''u'')] (Password None True)"
proof -
  let ?s = "resetPassword_done True (resetPassword (resetPassword_confirmed demo_credentials))"
  have "credentials_reachable ''demo'' ''u'' ?s"
    by (intro credentials_reachable.step [OF credentials_reachable.step [OF credentials_reachable.step
            [OF demo_credentials_reachable credentials_step.reset_confirmed] credentials_step.reset_clicked]
          credentials_step.reset_done]) (simp_all add: eval_credentials)
  moreover have "cr_dialog ?s = Some ResetDialog" by (simp add: eval_credentials)
  moreover have "last (cr_effects (resetPassword_confirmed ?s)) =
      Request ''PUT'' ''UserCredentials.resetPassword'' [(''realm'', ''demo''), (''userId'', ''u'')] (Password None True)"
    by (simp add: eval_credentials)
  ultimately show ?thesis by blast
qed

end
