(* ===== verification/Realm_Settings.thy ===== *)
theory Realm_Settings
  imports Console Splitting
begin

section \<open>The admin console: access to a realm, realm settings, the password policy\<close>

text \<open>
  controllers/realm.js: \<open>getAccess\<close> and \<open>getAccessObject\<close> (1-83), \<open>HomeCtrl\<close> (102-136),
  \<open>genericRealmUpdate\<close> (341-377), which eight settings pages share, and \<open>RealmPasswordPolicyCtrl\<close> (484-569).
\<close>

subsection \<open>Access\<close>

record auth_user =
  au_realm :: string
  au_createRealm :: bool
  au_realm_access :: "(string \<Rightarrow> string list option) option"

text \<open>The user who is signed in and the realm shown now.\<close>

definition getAccess :: "auth_user option \<Rightarrow> string option \<Rightarrow> string \<Rightarrow> bool" where
  "getAccess user current role =
     (case current of
        None \<Rightarrow> False
      | Some realm \<Rightarrow>
          (case user of
             None \<Rightarrow> False
           | Some u \<Rightarrow>
               (case au_realm_access u of
                  None \<Rightarrow> False
                | Some access \<Rightarrow>
                    (case access realm of None \<Rightarrow> False | Some roles \<Rightarrow> index_in role roles \<noteq> None))))"

definition createRealm :: "auth_user option \<Rightarrow> bool" where
  "createRealm user = (case user of None \<Rightarrow> False | Some u \<Rightarrow> au_createRealm u)"

definition manageRealm :: "auth_user option \<Rightarrow> string option \<Rightarrow> bool" where
  "manageRealm user current = getAccess user current ''manage-realm''"

definition manageClients :: "auth_user option \<Rightarrow> string option \<Rightarrow> bool" where
  "manageClients user current = getAccess user current ''manage-clients''"

definition manageUsers :: "auth_user option \<Rightarrow> string option \<Rightarrow> bool" where
  "manageUsers user current = getAccess user current ''manage-users''"

definition manageEvents :: "auth_user option \<Rightarrow> string option \<Rightarrow> bool" where
  "manageEvents user current = getAccess user current ''manage-events''"

definition manageIdentityProviders :: "auth_user option \<Rightarrow> string option \<Rightarrow> bool" where
  "manageIdentityProviders user current = getAccess user current ''manage-identity-providers''"

definition manageAuthorization :: "auth_user option \<Rightarrow> string option \<Rightarrow> bool" where
  "manageAuthorization user current = getAccess user current ''manage-authorization''"

definition impersonation :: "auth_user option \<Rightarrow> string option \<Rightarrow> bool" where
  "impersonation user current = getAccess user current ''impersonation''"

definition viewRealm :: "auth_user option \<Rightarrow> string option \<Rightarrow> bool" where
  "viewRealm user current \<longleftrightarrow>
     getAccess user current ''view-realm'' \<or> getAccess user current ''manage-realm'' \<or> manageRealm user current"

definition viewClients :: "auth_user option \<Rightarrow> string option \<Rightarrow> bool" where
  "viewClients user current \<longleftrightarrow>
     getAccess user current ''view-clients'' \<or> getAccess user current ''manage-clients'' \<or> manageClients user current"

definition viewUsers :: "auth_user option \<Rightarrow> string option \<Rightarrow> bool" where
  "viewUsers user current \<longleftrightarrow>
     getAccess user current ''view-users'' \<or> getAccess user current ''manage-users'' \<or> manageClients user current"

definition viewEvents :: "auth_user option \<Rightarrow> string option \<Rightarrow> bool" where
  "viewEvents user current \<longleftrightarrow>
     getAccess user current ''view-events'' \<or> getAccess user current ''manage-events'' \<or> manageClients user current"

definition viewIdentityProviders :: "auth_user option \<Rightarrow> string option \<Rightarrow> bool" where
  "viewIdentityProviders user current \<longleftrightarrow>
     getAccess user current ''view-identity-providers'' \<or> getAccess user current ''manage-identity-providers'' \<or>
     manageIdentityProviders user current"

definition viewAuthorization :: "auth_user option \<Rightarrow> string option \<Rightarrow> bool" where
  "viewAuthorization user current \<longleftrightarrow>
     getAccess user current ''view-authorization'' \<or> manageAuthorization user current"

definition queryUsers :: "auth_user option \<Rightarrow> string option \<Rightarrow> bool" where
  "queryUsers user current \<longleftrightarrow> getAccess user current ''query-users'' \<or> viewUsers user current"

definition queryGroups :: "auth_user option \<Rightarrow> string option \<Rightarrow> bool" where
  "queryGroups user current \<longleftrightarrow> getAccess user current ''query-groups'' \<or> viewUsers user current"

definition queryClients :: "auth_user option \<Rightarrow> string option \<Rightarrow> bool" where
  "queryClients user current \<longleftrightarrow> getAccess user current ''query-clients'' \<or> viewClients user current"

lemmas access_defs = manageRealm_def manageClients_def manageUsers_def manageEvents_def manageIdentityProviders_def
  manageAuthorization_def impersonation_def viewRealm_def viewClients_def viewUsers_def viewEvents_def viewIdentityProviders_def
  viewAuthorization_def queryUsers_def queryGroups_def queryClients_def

text \<open>Managing gives viewing and viewing gives querying; but managing clients also gives viewing users and events.\<close>

lemma access_implied:
  "manageRealm u r \<Longrightarrow> viewRealm u r" "manageClients u r \<Longrightarrow> viewClients u r" "manageUsers u r \<Longrightarrow> viewUsers u r"
  "manageEvents u r \<Longrightarrow> viewEvents u r" "manageIdentityProviders u r \<Longrightarrow> viewIdentityProviders u r"
  "manageAuthorization u r \<Longrightarrow> viewAuthorization u r" "viewUsers u r \<Longrightarrow> queryUsers u r \<and> queryGroups u r"
  "viewClients u r \<Longrightarrow> queryClients u r" "manageClients u r \<Longrightarrow> viewUsers u r \<and> viewEvents u r"
  by (simp_all add: access_defs)

subsection \<open>The start page\<close>

text \<open>With one realm, or two of which one is the user's own, the start page leads to that realm's first page the user may see; it
  leads to the list of realms otherwise. Without access to any page it stays.\<close>

definition home_realm :: "string \<Rightarrow> string list \<Rightarrow> string option" where
  "home_realm own realms =
     (if length realms = 1 then Some (realms ! 0)
      else if length realms = 2 then
        (if realms ! 0 = own then Some (realms ! 1) else if realms ! 1 = own then Some (realms ! 0) else None)
      else None)"

definition home_url :: "auth_user \<Rightarrow> string list \<Rightarrow> string option" where
  "home_url user realms =
     (case home_realm (au_realm user) realms of
        None \<Rightarrow> Some ''/realms''
      | Some r \<Rightarrow>
          (let u = Some user; c = Some r in
           if viewRealm u c \<or> manageRealm u c then Some (''/realms/'' @ r)
           else if queryClients u c then Some (''/realms/'' @ r @ ''/clients'')
           else if viewIdentityProviders u c then Some (''/realms/'' @ r @ ''/identity-provider-settings'')
           else if queryUsers u c then Some (''/realms/'' @ r @ ''/users'')
           else if queryGroups u c then Some (''/realms/'' @ r @ ''/groups'')
           else if viewEvents u c then Some (''/realms/'' @ r @ ''/events'')
           else None))"

subsection \<open>The shared editor of realm settings\<close>

record 'r realm_update =
  ru_realm :: 'r
  ru_oldCopy :: 'r
  ru_changed :: bool
  ru_effects :: "'r ui_effect list"

definition genericRealmUpdate :: "'r \<Rightarrow> 'r realm_update" where
  "genericRealmUpdate realm = \<lparr>ru_realm = realm, ru_oldCopy = realm, ru_changed = False, ru_effects = []\<rparr>"

definition ru_watch :: "'r realm_update \<Rightarrow> 'r realm_update" where
  "ru_watch s = (if ru_realm s \<noteq> ru_oldCopy s then s\<lparr>ru_changed := True\<rparr> else s)"

text \<open>\<open>name\<close> reads the field \<open>realm\<close> of a realm: the request goes to the name the realm had when the page was opened.\<close>

definition ru_save :: "('r \<Rightarrow> string) \<Rightarrow> 'r realm_update \<Rightarrow> 'r realm_update" where
  "ru_save name s =
     s\<lparr>ru_changed := False,
       ru_effects := ru_effects s @ [Request ''PUT'' ''Realm'' [(''id'', name (ru_oldCopy s))] (ru_realm s)]\<rparr>"

definition ru_saved :: "'r realm_update \<Rightarrow> 'r realm_update" where
  "ru_saved s =
     s\<lparr>ru_effects := ru_effects s @ [Reload, Notify ''success'' ''Your changes have been saved to the realm.'']\<rparr>"

definition ru_reset :: "'r realm_update \<Rightarrow> 'r realm_update" where
  "ru_reset s = s\<lparr>ru_realm := ru_oldCopy s, ru_changed := False\<rparr>"

definition ru_cancel :: "'r realm_update \<Rightarrow> 'r realm_update" where
  "ru_cancel s = s\<lparr>ru_effects := ru_effects s @ [Reload]\<rparr>"

subsection \<open>The password policy\<close>

text \<open>\<open>s.lastIndexOf(c)\<close> for a character, with \<open>None\<close> for -1.\<close>

definition last_index_of :: "char \<Rightarrow> string \<Rightarrow> nat option" where
  "last_index_of c s = map_option (\<lambda>i. length s - 1 - i) (index_in c (rev s))"

record policy =
  po_id :: string
  po_displayName :: string
  po_defaultValue :: "string option"
  po_multipleSupported :: bool
  po_value :: "string option"

text \<open>The token of one policy: its id and its value. A missing closing bracket counts as index -1, which \<open>substring\<close> takes for 0.\<close>

definition policy_token :: "string \<Rightarrow> string \<times> string option" where
  "policy_token token =
     (case index_of token ''('' of
        None \<Rightarrow> (js_trim token, None)
      | Some i \<Rightarrow>
          (substring token 0 i,
           Some (js_trim (substring token (i + 1) (case last_index_of CHR '')'' token of None \<Rightarrow> 0 | Some j \<Rightarrow> j)))))"

definition token_policies :: "policy list \<Rightarrow> string \<Rightarrow> policy list" where
  "token_policies known token =
     (let (i, value) = policy_token token in
      map (\<lambda>p. p\<lparr>po_value := (if str_truthy value then value else po_defaultValue p)\<rparr>) (filter (\<lambda>p. po_id p = i) known))"

definition parse_policy :: "policy list \<Rightarrow> string option \<Rightarrow> policy list" where
  "parse_policy known text =
     (if \<not> str_truthy text then [] else concat (map (token_policies known) (split_str '' and '' (the text))))"

definition print_policy :: "policy \<Rightarrow> string" where
  "print_policy p = po_id p @ ''('' @ undef_str (po_value p) @ '')''"

text \<open>The loop of \<open>toString\<close>, which puts the separator after every policy but the last.\<close>

fun print_loop :: "policy list \<Rightarrow> string" where
  "print_loop [] = []"
| "print_loop (p # ps) = print_policy p @ (if ps \<noteq> [] then '' and '' else []) @ print_loop ps"

definition policy_toString :: "policy list \<Rightarrow> string" where
  "policy_toString ps = print_loop ps"

definition addPolicy :: "policy \<Rightarrow> policy list \<Rightarrow> policy list" where
  "addPolicy p ps = ps @ [p\<lparr>po_value := po_defaultValue p\<rparr>]"

definition removePolicy :: "nat \<Rightarrow> policy list \<Rightarrow> policy list" where
  "removePolicy i ps = splice1 i ps"

definition policy_save :: "string \<Rightarrow> policy list \<Rightarrow> string ui_effect" where
  "policy_save realm ps = Request ''PUT'' ''Realm'' [(''id'', realm)] (policy_toString ps)"

lemma print_loop_join: "print_loop ps = join '' and '' (map print_policy ps)"
  by (induction ps rule: print_loop.induct) (auto simp: join_Cons_ne)

lemma last_index_of_end: "last_index_of c (s @ [c]) = Some (length s)"
  by (simp add: last_index_of_def)

text \<open>A policy of the list \<open>known\<close> with a value that the printed form can carry.\<close>

definition printable :: "policy list \<Rightarrow> policy \<Rightarrow> bool" where
  "printable known p \<longleftrightarrow>
     (\<exists>k v. k \<in> set known \<and> p = k\<lparr>po_value := Some v\<rparr> \<and> v \<noteq> [] \<and> js_trim v = v) \<and>
     CHR ''('' \<notin> set (po_id p) \<and> sep_free '' and '' (print_policy p)"

lemma policy_token_print:
  assumes "CHR ''('' \<notin> set i" and "js_trim v = v"
  shows "policy_token (i @ ''('' @ v @ '')'') = (i, Some v)"
proof -
  have "index_of (i @ CHR ''('' # (v @ '')'')) ''('' = Some (length i)" by (rule index_of_char_append [OF assms(1)])
  moreover have "last_index_of CHR '')'' ((i @ ''('' @ v) @ '')'') = Some (length (i @ ''('' @ v))" by (rule last_index_of_end)
  ultimately show ?thesis using assms(2) by (simp add: policy_token_def substring_def)
qed

lemma filter_unique: "distinct (map f xs) \<Longrightarrow> x \<in> set xs \<Longrightarrow> filter (\<lambda>y. f y = f x) xs = [x]"
proof (induction xs)
  case (Cons y ys)
  show ?case
  proof (cases "x = y")
    case True
    have "\<forall>z\<in>set ys. f z \<noteq> f y" using Cons.prems(1) by (metis distinct.simps(2) imageI list.simps(9) list.set_map)
    then show ?thesis using True by simp
  next
    case False
    then have "f y \<noteq> f x" using Cons.prems by (metis distinct.simps(2) imageI list.simps(9) list.set_map set_ConsD)
    with False Cons show ?thesis by simp
  qed
qed simp

lemma token_policies_print:
  assumes "distinct (map po_id known)" and "printable known p"
  shows "token_policies known (print_policy p) = [p]"
proof -
  obtain k v where k: "k \<in> set known" "p = k\<lparr>po_value := Some v\<rparr>" "v \<noteq> []" "js_trim v = v"
    using assms(2) by (auto simp: printable_def)
  have "policy_token (print_policy p) = (po_id k, Some v)"
    using assms(2) k policy_token_print [of "po_id k" v] by (simp add: print_policy_def printable_def undef_str_def)
  moreover have "filter (\<lambda>q. po_id q = po_id k) known = [k]" by (rule filter_unique [OF assms(1) k(1)])
  ultimately show ?thesis using k(2,3) by (simp add: token_policies_def str_truthy_def)
qed

text \<open>C22. The password policy survives being saved and read again: printing policies of the server's list and parsing the text
  (whose ids are distinct and have no parenthesis) gives the same policies with the same values, provided the values are not empty, carry no surrounding white space and
  neither they nor the ids contain the separator.\<close>

theorem password_policy_roundtrip:
  assumes "distinct (map po_id known)" and "list_all (printable known) ps"
  shows "parse_policy known (Some (policy_toString ps)) = ps"
proof (cases "ps = []")
  case True
  then show ?thesis by (simp add: parse_policy_def policy_toString_def str_truthy_def)
next
  case False
  have "split_str '' and '' (join '' and '' (map print_policy ps)) = map print_policy ps"
    using False assms(2) by (intro split_join) (auto simp: list_all_iff printable_def)
  moreover have "str_truthy (Some (policy_toString ps))"
    using False by (cases ps) (auto simp: policy_toString_def str_truthy_def print_policy_def)
  moreover have "concat (map (token_policies known) (map print_policy ps)) = ps"
    using assms(2) by (induction ps) (simp_all add: token_policies_print [OF assms(1)])
  ultimately show ?thesis by (simp add: parse_policy_def policy_toString_def print_loop_join)
qed

definition demo_policy :: "string \<Rightarrow> policy" where
  "demo_policy i = \<lparr>po_id = i, po_displayName = i, po_defaultValue = None, po_multipleSupported = False, po_value = None\<rparr>"

theorem password_policy_roundtrip_witness:
  "parse_policy [demo_policy ''length'', demo_policy ''digits'']
     (Some (policy_toString [(demo_policy ''digits'')\<lparr>po_value := Some ''2''\<rparr>, (demo_policy ''length'')\<lparr>po_value := Some ''8''\<rparr>])) =
     [(demo_policy ''digits'')\<lparr>po_value := Some ''2''\<rparr>, (demo_policy ''length'')\<lparr>po_value := Some ''8''\<rparr>]"
proof (rule password_policy_roundtrip)
  have sep: "sep_free '' and '' (print_policy ((demo_policy ''digits'')\<lparr>po_value := Some ''2''\<rparr>))"
    "sep_free '' and '' (print_policy ((demo_policy ''length'')\<lparr>po_value := Some ''8''\<rparr>))"
    and trim: "js_trim ''2'' = ''2''" "js_trim ''8'' = ''8''"
    by code_simp+
  have "printable [demo_policy ''length'', demo_policy ''digits''] ((demo_policy ''digits'')\<lparr>po_value := Some ''2''\<rparr>)"
    unfolding printable_def using sep trim
    by (intro conjI exI [of _ "demo_policy ''digits''"] exI [of _ "''2''"]) (simp_all add: demo_policy_def)
  moreover have "printable [demo_policy ''length'', demo_policy ''digits''] ((demo_policy ''length'')\<lparr>po_value := Some ''8''\<rparr>)"
    unfolding printable_def using sep trim
    by (intro conjI exI [of _ "demo_policy ''length''"] exI [of _ "''8''"]) (simp_all add: demo_policy_def)
  ultimately show "list_all (printable [demo_policy ''length'', demo_policy ''digits''])
      [(demo_policy ''digits'')\<lparr>po_value := Some ''2''\<rparr>, (demo_policy ''length'')\<lparr>po_value := Some ''8''\<rparr>]"
    by simp
qed (simp add: demo_policy_def)

text \<open>A policy without a value is saved with the text \<open>undefined\<close>, which is its value when the page is opened again.\<close>

lemma policy_without_value:
  "parse_policy [demo_policy ''notUsername''] (Some (policy_toString (addPolicy (demo_policy ''notUsername'') []))) =
     [(demo_policy ''notUsername'')\<lparr>po_value := Some ''undefined''\<rparr>]"
  by code_simp

end
