(* ===== verification/Filters.thy ===== *)
theory Filters
  imports Console "HOL-Library.Char_ord" "HOL-Library.List_Lexorder"
begin

section \<open>The admin console: filters and the page selector\<close>

text \<open>
  app.js: the filters \<open>remove\<close> (2842-2885), \<open>capitalize\<close> (2887-2898), \<open>toOrderedMapSortedByKey\<close> (2900-2926) and
  \<open>startFrom\<close> (3084-3092), and the page selector with \<open>PagingCtrl\<close> (3016-3050) and \<open>kcValidPage\<close> (3066-3081).
\<close>

subsection \<open>Filters\<close>

text \<open>What to remove: an array of things or one thing. Two elements are the same when the named attribute is equal, or when
  they are equal themselves if no attribute is given; \<open>field\<close> reads an attribute. No element is \<open>null\<close>.\<close>

datatype 'a removal = Many "'a list" | One 'a

definition same_element :: "(string \<Rightarrow> 'a \<Rightarrow> 'b) \<Rightarrow> string option \<Rightarrow> 'a \<Rightarrow> 'a \<Rightarrow> bool" where
  "same_element field attribute x y = (case attribute of None \<Rightarrow> x = y | Some a \<Rightarrow> field a x = field a y)"

fun removed_by :: "(string \<Rightarrow> 'a \<Rightarrow> 'b) \<Rightarrow> string option \<Rightarrow> 'a \<Rightarrow> 'a list \<Rightarrow> bool" where
  "removed_by field attribute e [] = False"
| "removed_by field attribute e (r # rs) = (if same_element field attribute r e then True else removed_by field attribute e rs)"

definition remove_filter ::
  "(string \<Rightarrow> 'a \<Rightarrow> 'b) \<Rightarrow> 'a list option \<Rightarrow> 'a removal option \<Rightarrow> string option \<Rightarrow> 'a list option" where
  "remove_filter field input remove attribute =
     (case input of
        None \<Rightarrow> None
      | Some es \<Rightarrow>
          (case remove of
             None \<Rightarrow> Some es
           | Some (Many rs) \<Rightarrow>
               Some (fold (\<lambda>e out. if removed_by field attribute e rs then out else out @ [e]) es [])
           | Some (One r) \<Rightarrow>
               Some (fold (\<lambda>e out. if same_element field attribute r e then out else out @ [e]) es [])))"

lemma fold_filter: "fold (\<lambda>e out. if P e then out else out @ [e]) es acc = acc @ filter (\<lambda>e. \<not> P e) es"
  by (induction es arbitrary: acc) auto

lemma removed_by_iff: "removed_by field attribute e rs \<longleftrightarrow> (\<exists>r\<in>set rs. same_element field attribute r e)"
  by (induction rs) auto

lemma remove_filter_spec:
  "remove_filter field (Some es) (Some (Many rs)) attribute =
     Some (filter (\<lambda>e. \<not> (\<exists>r\<in>set rs. same_element field attribute r e)) es)"
  "remove_filter field (Some es) (Some (One r)) attribute = Some (filter (\<lambda>e. \<not> same_element field attribute r e) es)"
  by (simp_all add: remove_filter_def fold_filter removed_by_iff)

text \<open>\<open>input.split(/\s+/)\<close> on ASCII white space.\<close>

definition blank :: "char \<Rightarrow> bool" where
  "blank c \<longleftrightarrow> c \<in> {CHR '' '', CHR 0x09, CHR 0x0A, CHR 0x0B, CHR 0x0C, CHR 0x0D}"

function split_blanks :: "string \<Rightarrow> string list" where
  "split_blanks s =
     (let word = takeWhile (\<lambda>c. \<not> blank c) s; rest = dropWhile (\<lambda>c. \<not> blank c) s in
      if rest = [] then [word] else word # split_blanks (dropWhile blank rest))"
  by pat_completeness auto
termination
proof (relation "measure length")
  fix s :: string and word rest
  assume rest: "rest = dropWhile (\<lambda>c. \<not> blank c) s" "rest \<noteq> []"
  from rest(2) obtain c t where "rest = c # t" by (cases rest) auto
  with rest(1) have r: "dropWhile (\<lambda>c. \<not> blank c) s = c # t" by simp
  then have "blank c" using hd_dropWhile [of "\<lambda>c. \<not> blank c" s] by auto
  have "length (dropWhile blank t) \<le> length t" by (rule length_dropWhile_le)
  also have "\<dots> < length s" using r length_dropWhile_le [of "\<lambda>c. \<not> blank c" s] by simp
  finally show "(dropWhile blank rest, s) \<in> measure length"
    using rest(1) r \<open>blank c\<close> by simp
qed simp

declare split_blanks.simps [simp del]

definition capitalize_filter :: "string option \<Rightarrow> string option" where
  "capitalize_filter input =
     (if \<not> str_truthy input then None else Some (join '' '' (map capitalize (split_blanks (the input)))))"

text \<open>An object is the list of its keys and values in the order in which they are visited. The keys are no array indices, which JavaScript
  visits first, whatever the order of insertion.\<close>

definition toOrderedMapSortedByKey :: "(string \<times> 'v) list option \<Rightarrow> (string \<times> 'v) list option" where
  "toOrderedMapSortedByKey input =
     (case input of
        None \<Rightarrow> None
      | Some xs \<Rightarrow> if length xs \<le> 1 then Some xs else Some (map (\<lambda>k. (k, the (map_of xs k))) (sort (map fst xs))))"

text \<open>The result has the values of the object, its keys are sorted, and it depends on nothing but the values.\<close>

lemma toOrdered_spec:
  assumes "distinct (map fst xs)"
  shows "\<exists>ys. toOrderedMapSortedByKey (Some xs) = Some ys \<and> set ys = set xs \<and> sorted (map fst ys) \<and> distinct (map fst ys)"
proof (cases "length xs \<le> 1")
  case True
  then have "xs = [] \<or> (\<exists>x. xs = [x])" by (cases xs) auto
  then show ?thesis using True by (auto simp: toOrderedMapSortedByKey_def)
next
  case False
  have "set (map (\<lambda>k. (k, the (map_of xs k))) (sort (map fst xs))) = set xs"
    using assms by (force simp: image_iff)
  then show ?thesis using False assms by (simp add: toOrderedMapSortedByKey_def o_def)
qed

theorem toOrdered_deterministic:
  assumes "distinct (map fst xs)" and "distinct (map fst ys)" and "set xs = set ys"
  shows "toOrderedMapSortedByKey (Some xs) = toOrderedMapSortedByKey (Some ys)"
proof -
  obtain us vs where u: "toOrderedMapSortedByKey (Some xs) = Some us" "set us = set xs" "sorted (map fst us)" "distinct (map fst us)"
    and v: "toOrderedMapSortedByKey (Some ys) = Some vs" "set vs = set ys" "sorted (map fst vs)" "distinct (map fst vs)"
    using toOrdered_spec [OF assms(1)] toOrdered_spec [OF assms(2)] by blast
  have "inj_on fst (set us \<union> set vs)" using u(2,4) v(2) assms(3) by (simp add: distinct_map)
  moreover have "map fst us = map fst vs"
    by (rule sorted_distinct_set_unique) (use u v assms(3) in simp_all)
  ultimately have "us = vs" by (rule map_inj_on [rotated])
  with u(1) v(1) show ?thesis by simp
qed

text \<open>\<open>input.slice(start)\<close>: a negative start counts from the end.\<close>

definition startFrom :: "'a list option \<Rightarrow> int \<Rightarrow> 'a list" where
  "startFrom input start =
     (case input of
        None \<Rightarrow> []
      | Some xs \<Rightarrow> if start < 0 then drop (length xs - min (length xs) (nat (- start))) xs else drop (nat start) xs)"

subsection \<open>The page selector\<close>

record page_selector =
  ps_currentPage :: int
  ps_currentPageInput :: int
  ps_numberOfPages :: int

definition hasNext :: "page_selector \<Rightarrow> bool" where
  "hasNext s \<longleftrightarrow> ps_currentPage s < ps_numberOfPages s"

definition hasPrevious :: "page_selector \<Rightarrow> bool" where
  "hasPrevious s \<longleftrightarrow> ps_currentPage s > 1"

definition ps_firstPage :: "page_selector \<Rightarrow> page_selector" where
  "ps_firstPage s = (if \<not> hasPrevious s then s else s\<lparr>ps_currentPage := 1, ps_currentPageInput := 1\<rparr>)"

definition ps_lastPage :: "page_selector \<Rightarrow> page_selector" where
  "ps_lastPage s =
     (if \<not> hasNext s then s
      else s\<lparr>ps_currentPage := ps_numberOfPages s, ps_currentPageInput := ps_numberOfPages s\<rparr>)"

definition ps_previousPage :: "page_selector \<Rightarrow> page_selector" where
  "ps_previousPage s =
     (if \<not> hasPrevious s then s
      else s\<lparr>ps_currentPage := ps_currentPage s - 1, ps_currentPageInput := ps_currentPage s - 1\<rparr>)"

definition ps_nextPage :: "page_selector \<Rightarrow> page_selector" where
  "ps_nextPage s =
     (if \<not> hasNext s then s
      else s\<lparr>ps_currentPage := ps_currentPage s + 1, ps_currentPageInput := ps_currentPage s + 1\<rparr>)"

text \<open>Typing a number: the input shows it in any case, the page changes only when there is such a page.\<close>

definition inRange :: "int \<Rightarrow> page_selector \<Rightarrow> page_selector" where
  "inRange viewValue s =
     (let s = s\<lparr>ps_currentPageInput := viewValue\<rparr> in
      if viewValue \<ge> 1 \<and> viewValue \<le> ps_numberOfPages s then s\<lparr>ps_currentPage := viewValue\<rparr> else s)"

datatype page_action = First | Last | Previous | Next | Typed int

fun page_act :: "page_action \<Rightarrow> page_selector \<Rightarrow> page_selector" where
  "page_act First s = ps_firstPage s"
| "page_act Last s = ps_lastPage s"
| "page_act Previous s = ps_previousPage s"
| "page_act Next s = ps_nextPage s"
| "page_act (Typed n) s = inRange n s"

lemmas page_defs = ps_firstPage_def ps_lastPage_def ps_previousPage_def ps_nextPage_def inRange_def hasNext_def hasPrevious_def

lemma page_act_bounds:
  "1 \<le> ps_currentPage s \<Longrightarrow> ps_currentPage s \<le> ps_numberOfPages s \<Longrightarrow>
     1 \<le> ps_currentPage (page_act a s) \<and> ps_currentPage (page_act a s) \<le> ps_numberOfPages s \<and>
     ps_numberOfPages (page_act a s) = ps_numberOfPages s"
  by (cases a) (auto simp: page_defs Let_def)

text \<open>Whatever is clicked or typed, the current page stays one of the pages there are.\<close>

lemma page_selector_bounds:
  assumes "1 \<le> ps_currentPage s" and "ps_currentPage s \<le> ps_numberOfPages s"
  shows "1 \<le> ps_currentPage (fold page_act as s) \<and> ps_currentPage (fold page_act as s) \<le> ps_numberOfPages s"
  using assms
proof (induction as arbitrary: s)
  case (Cons a as)
  with page_act_bounds [OF Cons.prems, of a] Cons.IH [of "page_act a s"] show ?case by simp
qed simp

end
