(* ===== verification/Memberships.thy ===== *)
theory Memberships
  imports Group_Pages
begin

section \<open>The admin console: group memberships of a user\<close>

text \<open>
  controllers/users.js: \<open>removeGroupMember\<close> (918-930) and \<open>UserGroupMembershipCtrl\<close> (931-996). The page
  shows the groups of the user and the tree of the other groups, which the user can join.
\<close>

subsection \<open>Taking groups out of the tree\<close>

text \<open>A node of the tree with its path. The page's \<open>collapsed\<close> and \<open>selected\<close> marks of a node and its id decide its style,
  as in \<open>Group_Pages\<close>; \<open>removeGroupMember\<close> reads only the path and the subgroups.\<close>

datatype path_node = PathNode (pn_id: string) (pn_path: string) (pn_subGroups: "path_node list option")

fun removeGroupMember :: "path_node list \<Rightarrow> string \<Rightarrow> path_node list" where
  "removeGroupMember [] path = []"
| "removeGroupMember (PathNode i p None # gs) path =
     (if path = p then gs else PathNode i p None # removeGroupMember gs path)"
| "removeGroupMember (PathNode i p (Some subs) # gs) path =
     (if path = p then gs
      else PathNode i p (Some (if length subs > 0 then removeGroupMember subs path else subs)) # removeGroupMember gs path)"

text \<open>The paths of a tree, and the tree without every node whose path is in a set, which is what the loop over the
  memberships is for.\<close>

fun paths :: "path_node list \<Rightarrow> string list" where
  "paths [] = []"
| "paths (PathNode i p None # gs) = p # paths gs"
| "paths (PathNode i p (Some subs) # gs) = p # paths subs @ paths gs"

fun prune :: "string set \<Rightarrow> path_node list \<Rightarrow> path_node list" where
  "prune A [] = []"
| "prune A (PathNode i p None # gs) = (if p \<in> A then prune A gs else PathNode i p None # prune A gs)"
| "prune A (PathNode i p (Some subs) # gs) =
     (if p \<in> A then prune A gs else PathNode i p (Some (prune A subs)) # prune A gs)"

lemma set_paths_prune: "set (paths (prune A gs)) \<subseteq> set (paths gs) - A"
  by (induction A gs rule: prune.induct) auto

lemma distinct_paths_prune: "distinct (paths gs) \<Longrightarrow> distinct (paths (prune A gs))"
proof (induction A gs rule: prune.induct)
  case (3 A i p subs gs)
  then show ?case using set_paths_prune [of A subs] set_paths_prune [of A gs] by auto
qed (use set_paths_prune in auto)

lemma prune_absent: "A \<inter> set (paths gs) = {} \<Longrightarrow> prune A gs = gs"
  by (induction A gs rule: prune.induct) (auto simp: Int_Un_distrib)

lemma prune_prune: "prune A (prune B gs) = prune (A \<union> B) gs"
  by (induction B gs rule: prune.induct) auto

lemma prune_empty: "prune {} gs = gs"
  by (rule prune_absent) simp

lemma removeGroupMember_prune: "distinct (paths gs) \<Longrightarrow> removeGroupMember gs path = prune {path} gs"
  by (induction gs path rule: removeGroupMember.induct) (auto intro!: prune_absent [symmetric])

subsection \<open>The page\<close>

record membership_page =
  mp_realm :: string
  mp_user :: string
  mp_groupList :: "path_node list"
  mp_groupMemberships :: "path_node list option"
  mp_selectedGroup :: "path_node option"
  mp_currentNode :: "path_node option"
  mp_effects :: "unit ui_effect list"

definition mp_do :: "unit ui_effect list \<Rightarrow> membership_page \<Rightarrow> membership_page" where
  "mp_do es s = s\<lparr>mp_effects := mp_effects s @ es\<rparr>"

definition new_membership_page :: "string \<Rightarrow> string \<Rightarrow> path_node list \<Rightarrow> membership_page" where
  "new_membership_page realm user groups =
     mp_do [Request ''GET'' ''UserGroupMembership'' [(''realm'', realm), (''userId'', user)] ()]
       \<lparr>mp_realm = realm, mp_user = user, mp_groupList = groups, mp_groupMemberships = None, mp_selectedGroup = None,
        mp_currentNode = None, mp_effects = []\<rparr>"

definition memberships_answer :: "path_node list \<Rightarrow> membership_page \<Rightarrow> membership_page" where
  "memberships_answer data s =
     s\<lparr>mp_groupMemberships := Some data,
       mp_groupList := fold (\<lambda>member groups. removeGroupMember groups (pn_path member)) data (mp_groupList s)\<rparr>"

definition joinGroup :: "membership_page \<Rightarrow> membership_page" where
  "joinGroup s =
     (case mp_currentNode s of
        None \<Rightarrow> mp_do [Notify ''error'' ''Please select a group to add''] s
      | Some node \<Rightarrow>
          mp_do [Request ''PUT'' ''UserGroupMapping''
                   [(''realm'', mp_realm s), (''userId'', mp_user s), (''groupId'', pn_id node)] ()] s)"

definition joinGroup_done :: "membership_page \<Rightarrow> membership_page" where
  "joinGroup_done s = mp_do [Notify ''success'' ''Added group membership'', Reload] s"

definition leaveGroup :: "membership_page \<Rightarrow> membership_page" where
  "leaveGroup s =
     (case mp_selectedGroup s of
        None \<Rightarrow> s
      | Some node \<Rightarrow>
          mp_do [Request ''DELETE'' ''UserGroupMapping''
                   [(''realm'', mp_realm s), (''userId'', mp_user s), (''groupId'', pn_id node)] ()] s)"

definition leaveGroup_done :: "membership_page \<Rightarrow> membership_page" where
  "leaveGroup_done s = mp_do [Notify ''success'' ''Removed group membership'', Reload] s"

lemma remove_all_prune:
  "distinct (paths gs) \<Longrightarrow>
     fold (\<lambda>member groups. removeGroupMember groups (pn_path member)) ms gs = prune (pn_path ` set ms) gs"
proof (induction ms arbitrary: gs)
  case (Cons m ms)
  then show ?case by (simp add: removeGroupMember_prune distinct_paths_prune prune_prune)
qed (simp add: prune_empty)

text \<open>C26. In a realm whose groups have distinct paths, once the answer with the user's groups is there, the tree of groups to join is the realm's tree without these groups:
  the loops, which take out the first match of each list they visit, agree with one pass that drops every group of the user with
  what is below it, and no group of the user is left in the tree.\<close>

theorem joinable_groups:
  assumes "distinct (paths groups)"
  shows "mp_groupList (memberships_answer ms (new_membership_page realm user groups)) = prune (pn_path ` set ms) groups \<and>
    set (paths (mp_groupList (memberships_answer ms (new_membership_page realm user groups)))) \<inter> pn_path ` set ms = {}"
proof -
  have "mp_groupList (memberships_answer ms (new_membership_page realm user groups)) = prune (pn_path ` set ms) groups"
    using remove_all_prune [OF assms] by (simp add: memberships_answer_def new_membership_page_def mp_do_def)
  then show ?thesis using set_paths_prune by auto
qed

definition sample_tree :: "path_node list" where
  "sample_tree = [PathNode ''1'' ''/a'' (Some [PathNode ''2'' ''/a/b'' None, PathNode ''3'' ''/a/c'' (Some [])]), PathNode ''4'' ''/d'' None]"

theorem joinable_groups_witness:
  "distinct (paths sample_tree) \<and>
   mp_groupList (memberships_answer [PathNode ''2'' ''/a/b'' None, PathNode ''4'' ''/d'' None]
     (new_membership_page ''demo'' ''u1'' sample_tree)) = [PathNode ''1'' ''/a'' (Some [PathNode ''3'' ''/a/c'' (Some [])])]"
proof -
  have d: "distinct (paths sample_tree)" by (simp add: sample_tree_def)
  show ?thesis
    using d joinable_groups [OF d, of "[PathNode ''2'' ''/a/b'' None, PathNode ''4'' ''/d'' None]" "''demo''" "''u1''"]
    by (simp add: sample_tree_def)
qed

text \<open>A user of a group cannot join its subgroups on this page: the group leaves the tree with all that is below it.\<close>

lemma subgroups_of_a_membership_hidden:
  "mp_groupList (memberships_answer [PathNode ''1'' ''/a'' None] (new_membership_page ''demo'' ''u1'' sample_tree)) =
     [PathNode ''4'' ''/d'' None]"
  by (simp add: memberships_answer_def new_membership_page_def mp_do_def sample_tree_def)

end
