(* ===== verification/Client_Scopes.thy ===== *)
theory Client_Scopes
  imports Roles
begin

section \<open>The admin console: client scopes\<close>

text \<open>
  controllers/clients.js: \<open>ClientClientScopesSetupCtrl\<close> (2036-2163), the default and optional scopes of a
  client, \<open>ClientScopesRealmDefaultCtrl\<close> (2451-2569), those of the realm, and \<open>ClientClientScopesEvaluateCtrl\<close>
  (2165-2415) without the search of users.
\<close>

subsection \<open>Requests that are counted down\<close>

text \<open>
  The pages below send one request per selected entry, set a counter to the number of requests, and every answer counts
  down; the one that reaches zero reports. The locale states what such a page relies on: a step that is no click keeps
  the counter or is an answer.
\<close>

locale counted =
  fixes counter :: "'s \<Rightarrow> int option" and log :: "'s \<Rightarrow> 'e list" and step :: "'v \<Rightarrow> 's \<Rightarrow> 's"
    and starts :: "'v \<Rightarrow> bool" and answers :: "'v \<Rightarrow> bool" and report :: "'v \<Rightarrow> 'e list"
  assumes keeps: "\<not> starts v \<Longrightarrow> \<not> answers v \<Longrightarrow> counter (step v s) = counter s"
    and answered: "answers v \<Longrightarrow> counter s = Some n \<Longrightarrow>
      counter (step v s) = Some (n - 1) \<and> log (step v s) = log s @ (if n - 1 = 0 then report v else [])"
    and exclusive: "answers v \<Longrightarrow> \<not> starts v"
begin

lemma counter_run:
  assumes "counter s = Some n" and "\<not> list_ex starts vs"
  shows "counter (fold step vs s) = Some (n - int (length (filter answers vs)))"
  using assms
proof (induction vs arbitrary: s n)
  case (Cons v vs)
  show ?case
  proof (cases "answers v")
    case True
    with Cons.prems have "counter (step v s) = Some (n - 1)" by (simp add: answered)
    from Cons.IH [OF this] Cons.prems True show ?thesis by simp
  next
    case False
    with Cons.prems have "counter (step v s) = Some n" by (simp add: keeps)
    from Cons.IH [OF this] Cons.prems False show ?thesis by simp
  qed
qed simp

text \<open>Of the answers that follow a click, in any order and between any other steps, exactly the last one reports.\<close>

lemma last_answer_reports:
  assumes "counter s = Some (int n)" and "\<not> list_ex starts vs" and "answers v"
  shows "log (step v (fold step vs s)) =
    log (fold step vs s) @ (if Suc (length (filter answers vs)) = n then report v else [])"
  using answered [OF assms(3) counter_run [OF assms(1,2)]] by (auto split: if_splits)

end

subsection \<open>State\<close>

text \<open>\<open>toAdd\<close> and \<open>toRemove\<close> are not declared in the script: they are globals, which all pages and all four operations share.
  \<open>None\<close> is a global that was never assigned.\<close>

record scope_rep =
  sr_id :: string
  sr_name :: string
  sr_protocol :: "string option"

record scope_page =
  sp_client :: "(string \<times> string option) option"
  sp_realm :: string
  sp_defaultScopes :: "scope_rep list"
  sp_optionalScopes :: "scope_rep list"
  sp_available :: "scope_rep list"
  sp_selectedDefault :: "scope_rep list"
  sp_selectedDefDefault :: "scope_rep list"
  sp_selectedOptional :: "scope_rep list"
  sp_selectedDefOptional :: "scope_rep list"
  sp_toAdd :: "int option"
  sp_toRemove :: "int option"
  sp_effects :: "unit ui_effect list"

text \<open>The loops over the two assigned lists set a flag; they do not stop at the first match.\<close>

definition not_named :: "scope_rep list \<Rightarrow> string \<Rightarrow> bool \<Rightarrow> bool" where
  "not_named assigned scopeName = fold (\<lambda>a available. if scopeName = sr_name a then False else available) assigned"

definition client_available :: "string option \<Rightarrow> scope_rep list \<Rightarrow> scope_rep list \<Rightarrow> scope_rep list \<Rightarrow> scope_rep list" where
  "client_available protocol defaults optionals scopes =
     fold (\<lambda>c acc.
       let available = True;
           available = (if sr_protocol c \<noteq> protocol then False else available);
           available = not_named defaults (sr_name c) available;
           available = not_named optionals (sr_name c) available in
       if available then acc @ [c] else acc) scopes []"

definition realm_available :: "scope_rep list \<Rightarrow> scope_rep list \<Rightarrow> scope_rep list \<Rightarrow> scope_rep list" where
  "realm_available defaults optionals scopes =
     fold (\<lambda>c acc.
       let available = True;
           available = not_named defaults (sr_name c) available;
           available = not_named optionals (sr_name c) available in
       if available then acc @ [c] else acc) scopes []"

definition blank_page ::
  "(string \<times> string option) option \<Rightarrow> string \<Rightarrow> scope_rep list \<Rightarrow> scope_rep list \<Rightarrow> scope_rep list \<Rightarrow>
   int option \<times> int option \<Rightarrow> scope_page" where
  "blank_page client realm defaults optionals available globals =
     \<lparr>sp_client = client, sp_realm = realm, sp_defaultScopes = defaults, sp_optionalScopes = optionals,
      sp_available = available, sp_selectedDefault = [], sp_selectedDefDefault = [], sp_selectedOptional = [],
      sp_selectedDefOptional = [], sp_toAdd = fst globals, sp_toRemove = snd globals, sp_effects = []\<rparr>"

definition new_client_page ::
  "string \<Rightarrow> string \<Rightarrow> string option \<Rightarrow> scope_rep list \<Rightarrow> scope_rep list \<Rightarrow> scope_rep list \<Rightarrow>
   int option \<times> int option \<Rightarrow> scope_page" where
  "new_client_page realm client protocol scopes defaults optionals globals =
     blank_page (Some (client, protocol)) realm defaults optionals (client_available protocol defaults optionals scopes) globals"

definition new_realm_page ::
  "string \<Rightarrow> scope_rep list \<Rightarrow> scope_rep list \<Rightarrow> scope_rep list \<Rightarrow> int option \<times> int option \<Rightarrow> scope_page" where
  "new_realm_page realm scopes defaults optionals globals =
     blank_page None realm defaults optionals (realm_available defaults optionals scopes) globals"

lemma not_named_eq: "not_named assigned n b \<longleftrightarrow> b \<and> n \<notin> sr_name ` set assigned"
  by (induction assigned arbitrary: b) (auto simp: not_named_def)

lemma fold_collect: "fold (\<lambda>c acc. if P c then acc @ [c] else acc) xs acc = acc @ filter P xs"
  by (induction xs arbitrary: acc) auto

lemma client_available_filter:
  "client_available protocol defaults optionals scopes =
     filter (\<lambda>c. sr_protocol c = protocol \<and> sr_name c \<notin> sr_name ` set (defaults @ optionals)) scopes"
  by (auto simp: client_available_def not_named_eq fold_collect Let_def image_Un intro!: filter_cong)

lemma realm_available_filter:
  "realm_available defaults optionals scopes = filter (\<lambda>c. sr_name c \<notin> sr_name ` set (defaults @ optionals)) scopes"
  by (simp add: realm_available_def not_named_eq fold_collect Let_def image_Un)

subsection \<open>Operations\<close>

definition scope_params :: "scope_page \<Rightarrow> scope_rep \<Rightarrow> (string \<times> string) list" where
  "scope_params s c =
     (''realm'', sp_realm s) # (case sp_client s of None \<Rightarrow> [] | Some (i, _) \<Rightarrow> [(''client'', i)]) @ [(''clientScopeId'', sr_id c)]"

definition page_service :: "string \<Rightarrow> scope_page \<Rightarrow> string" where
  "page_service kind s = (case sp_client s of None \<Rightarrow> ''Realm'' | Some _ \<Rightarrow> ''Client'') @ kind @ ''ClientScopes''"

definition send_scopes :: "string \<Rightarrow> string \<Rightarrow> scope_rep list \<Rightarrow> scope_page \<Rightarrow> scope_page" where
  "send_scopes method kind selected s =
     s\<lparr>sp_effects := sp_effects s @ map (\<lambda>c. Request method (page_service kind s) (scope_params s c) ()) selected\<rparr>"

definition addDefaultClientScope :: "scope_page \<Rightarrow> scope_page" where
  "addDefaultClientScope s =
     send_scopes ''PUT'' ''Default'' (sp_selectedDefault s) (s\<lparr>sp_toAdd := Some (int (length (sp_selectedDefault s)))\<rparr>)"

definition deleteDefaultClientScope :: "scope_page \<Rightarrow> scope_page" where
  "deleteDefaultClientScope s =
     send_scopes ''DELETE'' ''Default'' (sp_selectedDefDefault s) (s\<lparr>sp_toRemove := Some (int (length (sp_selectedDefDefault s)))\<rparr>)"

definition addOptionalClientScope :: "scope_page \<Rightarrow> scope_page" where
  "addOptionalClientScope s =
     send_scopes ''PUT'' ''Optional'' (sp_selectedOptional s) (s\<lparr>sp_toAdd := Some (int (length (sp_selectedOptional s)))\<rparr>)"

definition deleteOptionalClientScope :: "scope_page \<Rightarrow> scope_page" where
  "deleteOptionalClientScope s =
     send_scopes ''DELETE'' ''Optional'' (sp_selectedDefOptional s) (s\<lparr>sp_toRemove := Some (int (length (sp_selectedDefOptional s)))\<rparr>)"

definition updated_message :: "bool \<Rightarrow> bool \<Rightarrow> string" where
  "updated_message client dflt =
     (if client then (if dflt then ''Default scopes updated.'' else ''Optional scopes updated.'')
      else (if dflt then ''Realm default scopes updated.'' else ''Realm optional scopes updated.''))"

definition scopes_report :: "bool \<Rightarrow> bool \<Rightarrow> unit ui_effect list" where
  "scopes_report client dflt = [Reload, Notify ''success'' (updated_message client dflt)]"

text \<open>The functions given to the requests. They exist only after the counter was assigned; reading a global that was never
  assigned would raise, and nothing after it would run.\<close>

definition scope_added :: "bool \<Rightarrow> bool \<Rightarrow> scope_page \<Rightarrow> scope_page" where
  "scope_added client dflt s =
     (case sp_toAdd s of
        None \<Rightarrow> s
      | Some n \<Rightarrow>
          (let s = s\<lparr>sp_toAdd := Some (n - 1)\<rparr> in
           if n - 1 = 0 then s\<lparr>sp_effects := sp_effects s @ scopes_report client dflt\<rparr> else s))"

definition scope_removed :: "bool \<Rightarrow> bool \<Rightarrow> scope_page \<Rightarrow> scope_page" where
  "scope_removed client dflt s =
     (case sp_toRemove s of
        None \<Rightarrow> s
      | Some n \<Rightarrow>
          (let s = s\<lparr>sp_toRemove := Some (n - 1)\<rparr> in
           if n - 1 = 0 then s\<lparr>sp_effects := sp_effects s @ scopes_report client dflt\<rparr> else s))"

subsection \<open>Events\<close>

text \<open>A choice in one of the four lists, a click on one of the four buttons, or the success of a request. A request that
  fails runs none of these functions.\<close>

datatype scope_event =
    Choose "scope_rep list" "scope_rep list" "scope_rep list" "scope_rep list"
  | ClickAdd bool
  | ClickRemove bool
  | Added bool bool
  | Removed bool bool

fun scope_step :: "scope_event \<Rightarrow> scope_page \<Rightarrow> scope_page" where
  "scope_step (Choose a b c d) s =
     s\<lparr>sp_selectedDefault := a, sp_selectedDefDefault := b, sp_selectedOptional := c, sp_selectedDefOptional := d\<rparr>"
| "scope_step (ClickAdd dflt) s = (if dflt then addDefaultClientScope s else addOptionalClientScope s)"
| "scope_step (ClickRemove dflt) s = (if dflt then deleteDefaultClientScope s else deleteOptionalClientScope s)"
| "scope_step (Added client dflt) s = scope_added client dflt s"
| "scope_step (Removed client dflt) s = scope_removed client dflt s"

fun is_add :: "scope_event \<Rightarrow> bool" where
  "is_add (ClickAdd _) = True"
| "is_add _ = False"

fun is_added :: "scope_event \<Rightarrow> bool" where
  "is_added (Added _ _) = True"
| "is_added _ = False"

fun is_remove :: "scope_event \<Rightarrow> bool" where
  "is_remove (ClickRemove _) = True"
| "is_remove _ = False"

fun is_removed :: "scope_event \<Rightarrow> bool" where
  "is_removed (Removed _ _) = True"
| "is_removed _ = False"

fun event_report :: "scope_event \<Rightarrow> unit ui_effect list" where
  "event_report (Added client dflt) = scopes_report client dflt"
| "event_report (Removed client dflt) = scopes_report client dflt"
| "event_report _ = []"

lemmas scope_ops = addDefaultClientScope_def deleteDefaultClientScope_def addOptionalClientScope_def
  deleteOptionalClientScope_def send_scopes_def scope_added_def scope_removed_def

interpretation adds: counted sp_toAdd sp_effects scope_step is_add is_added event_report
proof
  show "sp_toAdd (scope_step v s) = sp_toAdd s" if "\<not> is_add v" "\<not> is_added v" for v s
    using that by (cases v) (auto simp: scope_ops Let_def split: option.splits)
qed (auto simp: scope_ops Let_def elim!: is_added.elims)

interpretation removes: counted sp_toRemove sp_effects scope_step is_remove is_removed event_report
proof
  show "sp_toRemove (scope_step v s) = sp_toRemove s" if "\<not> is_remove v" "\<not> is_removed v" for v s
    using that by (cases v) (auto simp: scope_ops Let_def split: option.splits)
qed (auto simp: scope_ops Let_def elim!: is_removed.elims)

text \<open>When the default scopes are sent, whatever else happens on the page other than a second addition (removals of scopes,
  answers to them, new choices), exactly the answer to the last of the requests reloads the page and reports the update.\<close>

theorem default_scopes_reported:
  assumes "\<not> list_ex is_add vs"
  shows "sp_effects (scope_added True True (fold scope_step vs (addDefaultClientScope s))) =
    sp_effects (fold scope_step vs (addDefaultClientScope s)) @
      (if Suc (length (filter is_added vs)) = length (sp_selectedDefault s)
       then [Reload, Notify ''success'' ''Default scopes updated.''] else [])"
proof -
  have "sp_toAdd (addDefaultClientScope s) = Some (int (length (sp_selectedDefault s)))" by (simp add: scope_ops)
  from adds.last_answer_reports [OF this assms, of "Added True True"]
  show ?thesis by (simp add: scopes_report_def updated_message_def)
qed

definition sample_scope :: "string \<Rightarrow> scope_rep" where
  "sample_scope n = \<lparr>sr_id = n, sr_name = n, sr_protocol = Some ''openid-connect''\<rparr>"

definition sample_page :: scope_page where
  "sample_page =
     scope_step (Choose [sample_scope ''email'', sample_scope ''phone''] [sample_scope ''web''] [sample_scope ''roles''] [])
       (new_client_page ''demo'' ''app'' (Some ''openid-connect'') [sample_scope ''email'', sample_scope ''phone'', sample_scope ''roles'']
          [sample_scope ''web''] [] (None, None))"

theorem default_scopes_reported_witness:
  "\<not> list_ex is_add [ClickRemove True, Added True True, Removed True True] \<and>
   sp_effects (scope_added True True
     (fold scope_step [ClickRemove True, Added True True, Removed True True] (addDefaultClientScope sample_page))) =
   sp_effects (fold scope_step [ClickRemove True, Added True True, Removed True True] (addDefaultClientScope sample_page)) @
     [Reload, Notify ''success'' ''Default scopes updated.'']"
proof -
  have h: "\<not> list_ex is_add [ClickRemove True, Added True True, Removed True True]" by simp
  have "length (sp_selectedDefault sample_page) = 2" by (simp add: sample_page_def)
  then show ?thesis using default_scopes_reported [OF h, of sample_page] by simp
qed

lemma default_scopes_removed_reported:
  assumes "\<not> list_ex is_remove vs"
  shows "sp_effects (scope_removed client True (fold scope_step vs (deleteDefaultClientScope s))) =
    sp_effects (fold scope_step vs (deleteDefaultClientScope s)) @
      (if Suc (length (filter is_removed vs)) = length (sp_selectedDefDefault s) then scopes_report client True else [])"
proof -
  have "sp_toRemove (deleteDefaultClientScope s) = Some (int (length (sp_selectedDefDefault s)))" by (simp add: scope_ops)
  from removes.last_answer_reports [OF this assms, of "Removed client True"]
  show ?thesis by simp
qed

text \<open>The counter is shared: a click on the other button while requests are under way makes the first answer report, with two
  requests still pending.\<close>

lemma shared_counter_reports_early:
  "sp_effects (scope_added True True (addOptionalClientScope (addDefaultClientScope sample_page))) =
     sp_effects (addOptionalClientScope (addDefaultClientScope sample_page)) @ scopes_report True True \<and>
   length (sp_effects (addOptionalClientScope (addDefaultClientScope sample_page))) = 3"
  by (simp add: scope_ops sample_page_def new_client_page_def blank_page_def Let_def)

subsection \<open>Evaluation of scopes\<close>

text \<open>A field that holds the array of a query is modelled by that query, \<open>None\<close> for \<open>null\<close>. The table \<open>mapperTypes\<close> is
  only looked up by the template.\<close>

type_synonym eval_query = "string \<times> (string \<times> string) list"

record evaluation =
  ev_realm :: string
  ev_client :: string
  ev_clientProtocol :: "string option"
  ev_defaultScopes :: "scope_rep list"
  ev_userId :: "string option"
  ev_available :: "scope_rep list"
  ev_assigned :: "scope_rep list"
  ev_selected :: "scope_rep list"
  ev_selectedDef :: "scope_rep list"
  ev_effective :: "scope_rep list"
  ev_scopeParam :: string
  ev_protocolMappers :: "eval_query option"
  ev_grantedRealmRoles :: "eval_query option"
  ev_notGrantedRealmRoles :: "eval_query option"
  ev_grantedClientRoles :: "eval_query option"
  ev_notGrantedClientRoles :: "eval_query option"
  ev_targetClient :: "string option"
  ev_oidcAccessToken :: "string option"
  ev_selectedTab :: nat
  ev_tabCss :: "(string \<times> string \<times> string) option"
  ev_tokenRequests :: "eval_query list"

definition clearEvalResponse :: "evaluation \<Rightarrow> evaluation" where
  "clearEvalResponse s =
     s\<lparr>ev_protocolMappers := None, ev_grantedRealmRoles := None, ev_notGrantedRealmRoles := None,
       ev_grantedClientRoles := None, ev_notGrantedClientRoles := None, ev_targetClient := None,
       ev_oidcAccessToken := None, ev_selectedTab := 0\<rparr>"

definition scope_param :: "scope_rep list \<Rightarrow> string" where
  "scope_param assigned = fold (\<lambda>c p. p @ '' '' @ sr_name c) assigned ''openid''"

definition updateState :: "evaluation \<Rightarrow> evaluation" where
  "updateState s =
     (let s = s\<lparr>ev_scopeParam := scope_param (ev_assigned s)\<rparr>;
          s = s\<lparr>ev_effective := []\<rparr>;
          s = s\<lparr>ev_effective := fold (\<lambda>c acc. acc @ [c]) (ev_defaultScopes s) (ev_effective s)\<rparr>;
          s = s\<lparr>ev_effective := fold (\<lambda>c acc. acc @ [c]) (ev_assigned s) (ev_effective s)\<rparr> in
      clearEvalResponse s)"

definition new_evaluation :: "string \<Rightarrow> string \<Rightarrow> string option \<Rightarrow> scope_rep list \<Rightarrow> scope_rep list \<Rightarrow> evaluation" where
  "new_evaluation realm client protocol optionals defaults =
     updateState
       \<lparr>ev_realm = realm, ev_client = client, ev_clientProtocol = protocol, ev_defaultScopes = defaults, ev_userId = None,
        ev_available = fold (\<lambda>c acc. acc @ [c]) optionals [], ev_assigned = [], ev_selected = [], ev_selectedDef = [],
        ev_effective = [], ev_scopeParam = [], ev_protocolMappers = None, ev_grantedRealmRoles = None,
        ev_notGrantedRealmRoles = None, ev_grantedClientRoles = None, ev_notGrantedClientRoles = None, ev_targetClient = None,
        ev_oidcAccessToken = None, ev_selectedTab = 0, ev_tabCss = None, ev_tokenRequests = []\<rparr>"

definition addAppliedClientScope :: "evaluation \<Rightarrow> evaluation" where
  "addAppliedClientScope s =
     (let (available, assigned) = fold push_and_remove (ev_selected s) (ev_available s, ev_assigned s) in
      updateState (s\<lparr>ev_available := available, ev_assigned := assigned, ev_selected := []\<rparr>))"

definition deleteAppliedClientScope :: "evaluation \<Rightarrow> evaluation" where
  "deleteAppliedClientScope s =
     (let (assigned, available) = fold push_and_remove (ev_selectedDef s) (ev_assigned s, ev_available s) in
      updateState (s\<lparr>ev_available := available, ev_assigned := assigned, ev_selectedDef := []\<rparr>))"

text \<open>The user that the select box gives, by its id: \<open>None\<close> when it was cleared.\<close>

definition selectUser :: "string option \<Rightarrow> evaluation \<Rightarrow> evaluation" where
  "selectUser user s =
     (let s = clearEvalResponse s in
      if \<not> str_truthy user then s\<lparr>ev_userId := Some []\<rparr> else s\<lparr>ev_userId := user\<rparr>)"

definition eval_request :: "string \<Rightarrow> (string \<times> string) list \<Rightarrow> evaluation \<Rightarrow> eval_query" where
  "eval_request service args s =
     (service, [(''realm'', ev_realm s), (''client'', ev_client s)] @ args @ [(''scopeParam'', ev_scopeParam s)])"

definition updateScopeRealmRoles :: "evaluation \<Rightarrow> evaluation" where
  "updateScopeRealmRoles s =
     s\<lparr>ev_grantedRealmRoles := Some (eval_request ''ClientEvaluateGrantedRoles'' [(''roleContainer'', ev_realm s)] s),
       ev_notGrantedRealmRoles := Some (eval_request ''ClientEvaluateNotGrantedRoles'' [(''roleContainer'', ev_realm s)] s)\<rparr>"

definition updateScopeClientRoles :: "evaluation \<Rightarrow> evaluation" where
  "updateScopeClientRoles s =
     (case ev_targetClient s of
        Some c \<Rightarrow>
          s\<lparr>ev_grantedClientRoles := Some (eval_request ''ClientEvaluateGrantedRoles'' [(''roleContainer'', c)] s),
            ev_notGrantedClientRoles := Some (eval_request ''ClientEvaluateNotGrantedRoles'' [(''roleContainer'', c)] s)\<rparr>
      | None \<Rightarrow> s\<lparr>ev_grantedClientRoles := None, ev_notGrantedClientRoles := None\<rparr>)"

definition showTab :: "nat \<Rightarrow> evaluation \<Rightarrow> evaluation" where
  "showTab tab s =
     (let s = s\<lparr>ev_selectedTab := tab\<rparr> in
      if tab = 1 then s\<lparr>ev_tabCss := Some (''active'', [], [])\<rparr>
      else if tab = 2 then s\<lparr>ev_tabCss := Some ([], ''active'', [])\<rparr>
      else if tab = 3 then s\<lparr>ev_tabCss := Some ([], [], ''active'')\<rparr>
      else s)"

definition sendEvaluationRequest :: "evaluation \<Rightarrow> evaluation" where
  "sendEvaluationRequest s =
     (let s = s\<lparr>ev_protocolMappers := Some (eval_request ''ClientEvaluateProtocolMappers'' [] s)\<rparr>;
          s = updateScopeRealmRoles s;
          s = (if ev_clientProtocol s = Some ''openid-connect'' \<and> ev_userId s \<noteq> None \<and> ev_userId s \<noteq> Some [] then
                 s\<lparr>ev_tokenRequests := ev_tokenRequests s @
                     [eval_request ''ClientEvaluateGenerateExampleToken'' [(''userId'', undef_str (ev_userId s))] s]\<rparr>
               else s) in
      showTab 1 s)"

text \<open>The answer with the example token, printed by AngularJS (\<open>pretty\<close>).\<close>

definition token_answer :: "(string \<Rightarrow> string) \<Rightarrow> string option \<Rightarrow> evaluation \<Rightarrow> evaluation" where
  "token_answer pretty data s =
     (if str_truthy data then s\<lparr>ev_oidcAccessToken := map_option pretty data\<rparr> else s\<lparr>ev_oidcAccessToken := None\<rparr>)"

definition isResponseAvailable :: "evaluation \<Rightarrow> bool" where
  "isResponseAvailable s \<longleftrightarrow> ev_protocolMappers s \<noteq> None"

definition isTokenAvailable :: "evaluation \<Rightarrow> bool" where
  "isTokenAvailable s \<longleftrightarrow> ev_oidcAccessToken s \<noteq> None"

text \<open>The page under any sequence of clicks and answers. The select boxes offer the entries of the two lists.\<close>

inductive evaluation_step :: "evaluation \<Rightarrow> evaluation \<Rightarrow> bool" where
  select: "distinct sel \<Longrightarrow> set sel \<subseteq> set (ev_available s) \<Longrightarrow> evaluation_step s (s\<lparr>ev_selected := sel\<rparr>)"
| select_def: "distinct sel \<Longrightarrow> set sel \<subseteq> set (ev_assigned s) \<Longrightarrow> evaluation_step s (s\<lparr>ev_selectedDef := sel\<rparr>)"
| add: "evaluation_step s (addAppliedClientScope s)"
| delete: "evaluation_step s (deleteAppliedClientScope s)"
| user: "evaluation_step s (selectUser u s)"
| send: "evaluation_step s (sendEvaluationRequest s)"
| token: "evaluation_step s (token_answer pretty data s)"
| tab: "evaluation_step s (showTab n s)"
| client: "evaluation_step s (updateScopeClientRoles (s\<lparr>ev_targetClient := c\<rparr>))"

inductive evaluation_reachable :: "string \<Rightarrow> string \<Rightarrow> string option \<Rightarrow> scope_rep list \<Rightarrow> scope_rep list \<Rightarrow> evaluation \<Rightarrow> bool"
  for realm client protocol optionals defaults where
  start: "evaluation_reachable realm client protocol optionals defaults (new_evaluation realm client protocol optionals defaults)"
| step: "evaluation_reachable realm client protocol optionals defaults s \<Longrightarrow> evaluation_step s s' \<Longrightarrow>
    evaluation_reachable realm client protocol optionals defaults s'"

text \<open>Every query shown was sent with the current scope parameter.\<close>

definition current_query :: "string \<Rightarrow> eval_query option \<Rightarrow> bool" where
  "current_query param q \<longleftrightarrow> (case q of None \<Rightarrow> True | Some (service, args) \<Rightarrow> (''scopeParam'', param) \<in> set args)"

lemma current_query_simps [simp]:
  "current_query param None" "current_query (ev_scopeParam s) (Some (eval_request service args s))"
  by (simp_all add: current_query_def eval_request_def)

definition scopes_split :: "scope_rep list \<Rightarrow> evaluation \<Rightarrow> bool" where
  "scopes_split optionals s \<longleftrightarrow>
     distinct (ev_available s @ ev_assigned s) \<and> set (ev_available s @ ev_assigned s) = set optionals \<and>
     distinct (ev_selected s) \<and> set (ev_selected s) \<subseteq> set (ev_available s) \<and>
     distinct (ev_selectedDef s) \<and> set (ev_selectedDef s) \<subseteq> set (ev_assigned s)"

definition state_updated :: "scope_rep list \<Rightarrow> evaluation \<Rightarrow> bool" where
  "state_updated defaults s \<longleftrightarrow>
     ev_defaultScopes s = defaults \<and> ev_effective s = defaults @ ev_assigned s \<and> ev_scopeParam s = scope_param (ev_assigned s)"

definition queries_current :: "evaluation \<Rightarrow> bool" where
  "queries_current s \<longleftrightarrow>
     current_query (ev_scopeParam s) (ev_protocolMappers s) \<and> current_query (ev_scopeParam s) (ev_grantedRealmRoles s) \<and>
     current_query (ev_scopeParam s) (ev_notGrantedRealmRoles s) \<and> current_query (ev_scopeParam s) (ev_grantedClientRoles s) \<and>
     current_query (ev_scopeParam s) (ev_notGrantedClientRoles s)"

definition evaluation_inv :: "scope_rep list \<Rightarrow> scope_rep list \<Rightarrow> evaluation \<Rightarrow> bool" where
  "evaluation_inv optionals defaults s \<longleftrightarrow> scopes_split optionals s \<and> state_updated defaults s \<and> queries_current s"

lemma fold_snoc: "fold (\<lambda>c acc. acc @ [c]) xs acc = acc @ xs"
  by (induction xs arbitrary: acc) auto

lemma updateState_inv:
  assumes "scopes_split optionals s" and "ev_defaultScopes s = defaults"
  shows "evaluation_inv optionals defaults (updateState s)"
  using assms by (simp add: evaluation_inv_def scopes_split_def state_updated_def queries_current_def updateState_def
      clearEvalResponse_def fold_snoc Let_def)

lemma addApplied_inv:
  assumes "evaluation_inv optionals defaults s"
  shows "evaluation_inv optionals defaults (addAppliedClientScope s)"
proof -
  obtain xs ys where m: "fold push_and_remove (ev_selected s) (ev_available s, ev_assigned s) = (xs, ys)" by fastforce
  have i: "scopes_split optionals s" "ev_defaultScopes s = defaults"
    using assms by (simp_all add: evaluation_inv_def state_updated_def)
  with pushed.move_keeps_partition [OF _ _ _ m] have "scopes_split optionals (s\<lparr>ev_available := xs, ev_assigned := ys, ev_selected := []\<rparr>)"
    by (auto simp: scopes_split_def)
  then show ?thesis using i(2) by (simp add: addAppliedClientScope_def m updateState_inv)
qed

lemma deleteApplied_inv:
  assumes "evaluation_inv optionals defaults s"
  shows "evaluation_inv optionals defaults (deleteAppliedClientScope s)"
proof -
  obtain xs ys where m: "fold push_and_remove (ev_selectedDef s) (ev_assigned s, ev_available s) = (xs, ys)" by fastforce
  have i: "scopes_split optionals s" "ev_defaultScopes s = defaults"
    using assms by (simp_all add: evaluation_inv_def state_updated_def)
  then have "distinct (ev_assigned s @ ev_available s)" by (auto simp: scopes_split_def)
  with i pushed.move_keeps_partition [OF _ _ _ m]
  have "scopes_split optionals (s\<lparr>ev_available := ys, ev_assigned := xs, ev_selectedDef := []\<rparr>)"
    by (auto simp: scopes_split_def)
  then show ?thesis using i(2) by (simp add: deleteAppliedClientScope_def m updateState_inv)
qed

text \<open>The other steps leave the lists and the parameter alone, so only the queries matter.\<close>

lemma evaluation_inv_frame:
  assumes "evaluation_inv optionals defaults s"
    and "ev_available s' = ev_available s" "ev_assigned s' = ev_assigned s" "ev_selected s' = ev_selected s"
      "ev_selectedDef s' = ev_selectedDef s" "ev_defaultScopes s' = ev_defaultScopes s" "ev_effective s' = ev_effective s"
      "ev_scopeParam s' = ev_scopeParam s"
    and "queries_current s'"
  shows "evaluation_inv optionals defaults s'"
  using assms by (simp add: evaluation_inv_def scopes_split_def state_updated_def)

lemma queries_current_frame:
  assumes "queries_current s" and "ev_scopeParam s' = ev_scopeParam s"
    and "ev_protocolMappers s' = ev_protocolMappers s" "ev_grantedRealmRoles s' = ev_grantedRealmRoles s"
      "ev_notGrantedRealmRoles s' = ev_notGrantedRealmRoles s" "ev_grantedClientRoles s' = ev_grantedClientRoles s"
      "ev_notGrantedClientRoles s' = ev_notGrantedClientRoles s"
  shows "queries_current s'"
  using assms by (simp add: queries_current_def)

lemmas evaluation_ops = clearEvalResponse_def selectUser_def updateScopeRealmRoles_def updateScopeClientRoles_def showTab_def
  sendEvaluationRequest_def token_answer_def eval_request_def Let_def

lemma selectUser_inv: "evaluation_inv optionals defaults s \<Longrightarrow> evaluation_inv optionals defaults (selectUser u s)"
  by (rule evaluation_inv_frame, assumption) (simp_all add: selectUser_def clearEvalResponse_def queries_current_def Let_def)

lemma showTab_inv: "evaluation_inv optionals defaults s \<Longrightarrow> evaluation_inv optionals defaults (showTab n s)"
  by (rule evaluation_inv_frame, assumption)
    (auto simp: showTab_def evaluation_inv_def Let_def intro: queries_current_frame)

lemma token_answer_inv: "evaluation_inv optionals defaults s \<Longrightarrow> evaluation_inv optionals defaults (token_answer pretty data s)"
  by (rule evaluation_inv_frame, assumption)
    (auto simp: token_answer_def evaluation_inv_def intro: queries_current_frame)

lemma eval_frame:
  "current_query (ev_scopeParam s) (Some (eval_request service args (s\<lparr>ev_protocolMappers := q\<rparr>)))"
  "current_query (ev_scopeParam s) (Some (eval_request service args (s\<lparr>ev_targetClient := c\<rparr>)))"
  by (simp_all add: current_query_def eval_request_def)

lemma client_roles_inv:
  assumes "evaluation_inv optionals defaults s"
  shows "evaluation_inv optionals defaults (updateScopeClientRoles (s\<lparr>ev_targetClient := c\<rparr>))"
proof (rule evaluation_inv_frame [OF assms])
  have "queries_current s" using assms by (simp add: evaluation_inv_def)
  then show "queries_current (updateScopeClientRoles (s\<lparr>ev_targetClient := c\<rparr>))"
    by (cases c) (simp_all add: queries_current_def updateScopeClientRoles_def eval_frame)
qed (simp_all add: updateScopeClientRoles_def split: option.split)

lemma send_inv:
  assumes "evaluation_inv optionals defaults s"
  shows "evaluation_inv optionals defaults (sendEvaluationRequest s)"
proof (rule evaluation_inv_frame [OF assms])
  have "queries_current s" using assms by (simp add: evaluation_inv_def)
  then show "queries_current (sendEvaluationRequest s)"
    by (simp add: queries_current_def sendEvaluationRequest_def updateScopeRealmRoles_def showTab_def eval_frame Let_def)
qed (simp_all add: sendEvaluationRequest_def updateScopeRealmRoles_def showTab_def Let_def)

lemma select_inv:
  assumes "evaluation_inv optionals defaults s" and "distinct sel"
  shows "set sel \<subseteq> set (ev_available s) \<Longrightarrow> evaluation_inv optionals defaults (s\<lparr>ev_selected := sel\<rparr>)"
    and "set sel \<subseteq> set (ev_assigned s) \<Longrightarrow> evaluation_inv optionals defaults (s\<lparr>ev_selectedDef := sel\<rparr>)"
  using assms by (auto simp: evaluation_inv_def scopes_split_def state_updated_def queries_current_def)

lemma evaluation_invariant:
  assumes "evaluation_reachable realm client protocol optionals defaults s" and "distinct optionals"
  shows "evaluation_inv optionals defaults s"
  using assms(1)
proof (induction rule: evaluation_reachable.induct)
  case start
  show ?case unfolding new_evaluation_def using assms(2) by (intro updateState_inv) (simp_all add: scopes_split_def fold_snoc)
next
  case (step s s')
  from step.hyps(2) step.IH show ?case
    by (cases rule: evaluation_step.cases)
      (simp_all only: addApplied_inv deleteApplied_inv selectUser_inv send_inv token_answer_inv showTab_inv client_roles_inv select_inv)
qed

text \<open>C25. On the page that evaluates client scopes, at any time: the optional scopes are split between the available and the
  assigned ones, the effective scopes are the default ones followed by the assigned ones, and the protocol mappers and roles that
  are shown were asked for with the scope parameter of the assigned scopes.\<close>

theorem evaluation_up_to_date:
  assumes "evaluation_reachable realm client protocol optionals defaults s" and "distinct optionals"
  shows "distinct (ev_available s @ ev_assigned s) \<and> set (ev_available s @ ev_assigned s) = set optionals \<and>
    ev_effective s = defaults @ ev_assigned s \<and>
    (\<forall>q \<in> {ev_protocolMappers s, ev_grantedRealmRoles s, ev_notGrantedRealmRoles s, ev_grantedClientRoles s,
            ev_notGrantedClientRoles s}.
       case q of None \<Rightarrow> True | Some (service, args) \<Rightarrow> (''scopeParam'', scope_param (ev_assigned s)) \<in> set args)"
proof -
  from evaluation_invariant [OF assms] have i: "evaluation_inv optionals defaults s" .
  then have p: "ev_scopeParam s = scope_param (ev_assigned s)" by (simp add: evaluation_inv_def state_updated_def)
  from i show ?thesis by (simp add: evaluation_inv_def scopes_split_def state_updated_def queries_current_def current_query_def p)
qed

definition sample_evaluation :: evaluation where
  "sample_evaluation =
     sendEvaluationRequest (addAppliedClientScope
       ((new_evaluation ''demo'' ''app'' (Some ''openid-connect'') [sample_scope ''phone'', sample_scope ''address''] [sample_scope ''email''])
          \<lparr>ev_selected := [sample_scope ''address'']\<rparr>))"

theorem evaluation_up_to_date_witness:
  "ev_effective sample_evaluation = [sample_scope ''email'', sample_scope ''address''] \<and>
   (case ev_protocolMappers sample_evaluation of
      None \<Rightarrow> False
    | Some (service, args) \<Rightarrow> (''scopeParam'', ''openid address'') \<in> set args)"
proof -
  let ?os = "[sample_scope ''phone'', sample_scope ''address'']" and ?ds = "[sample_scope ''email'']"
  let ?n = "new_evaluation ''demo'' ''app'' (Some ''openid-connect'') ?os ?ds"
  note st = evaluation_reachable.step
  have "set [sample_scope ''address''] \<subseteq> set (ev_available ?n)"
    by (simp add: new_evaluation_def updateState_def clearEvalResponse_def fold_snoc Let_def)
  then have "evaluation_step ?n (?n\<lparr>ev_selected := [sample_scope ''address'']\<rparr>)" by (intro evaluation_step.select) simp_all
  then have r: "evaluation_reachable ''demo'' ''app'' (Some ''openid-connect'') ?os ?ds sample_evaluation"
    unfolding sample_evaluation_def
    by (rule st [OF st [OF st [OF evaluation_reachable.start]] evaluation_step.send, OF _ evaluation_step.add])
  have d: "distinct ?os" by (simp add: sample_scope_def)
  have a: "ev_assigned sample_evaluation = [sample_scope ''address'']"
    by (simp add: sample_evaluation_def new_evaluation_def updateState_def fold_snoc addAppliedClientScope_def
        push_and_remove_def splice1_def sample_scope_def evaluation_ops split del: if_split)
  have q: "ev_protocolMappers sample_evaluation \<noteq> None"
    by (simp add: sample_evaluation_def sendEvaluationRequest_def updateScopeRealmRoles_def showTab_def Let_def)
  show ?thesis
    using evaluation_up_to_date [OF r d] q a by (auto simp: scope_param_def sample_scope_def split: option.splits)
qed

text \<open>The example token is the exception: an answer that arrives after the scopes were changed is shown beside no other result.\<close>

lemma late_token_shown:
  "isTokenAvailable (token_answer id (Some ''jwt'') (clearEvalResponse s)) \<and>
   \<not> isResponseAvailable (token_answer id (Some ''jwt'') (clearEvalResponse s))"
  by (simp add: isTokenAvailable_def isResponseAvailable_def token_answer_def clearEvalResponse_def str_truthy_def)

end
