(* ===== verification/Protocol_Mappers.thy ===== *)
theory Protocol_Mappers
  imports Console Json
begin

section \<open>The admin console: protocol mappers\<close>

text \<open>
  controllers/clients.js: the protocol mappers of a client (\<open>AddBuiltinProtocolMapperCtrl\<close> 1781-1841,
  \<open>ClientProtocolMapperListCtrl\<close> 1843-1886, \<open>ClientProtocolMapperCtrl\<close> 1888-1963,
  \<open>ClientProtocolMapperCreateCtrl\<close> 1965-2033) and of a client scope
  (\<open>ClientScopeProtocolMapperListCtrl\<close> 2679-2710, \<open>ClientScopeProtocolMapperCtrl\<close> 2712-2777,
  \<open>ClientScopeProtocolMapperCreateCtrl\<close> 2779-2823, \<open>ClientScopeAddBuiltinProtocolMapperCtrl\<close> 2825-2886). The two
  families are the same text up to the places that the definitions below distinguish by the owner. Protocols of client
  and scope are those after the default \<open>openid-connect\<close> was put in.
\<close>

subsection \<open>Data\<close>

datatype mapper_owner = OfClient string | OfScope string

record mapper_rep =
  mr_id :: "string option"
  mr_name :: "string option"
  mr_protocol :: string
  mr_protocolMapper :: "string option"
  mr_config :: "string \<Rightarrow> json option"
  mr_isChecked :: "bool option"

definition mapper_key :: "mapper_rep \<Rightarrow> string option \<times> string option" where
  "mapper_key m = (mr_name m, mr_protocolMapper m)"

definition owner_protocol :: "string option \<Rightarrow> string" where
  "owner_protocol p = (case p of None \<Rightarrow> ''openid-connect'' | Some q \<Rightarrow> q)"

fun owner_path :: "mapper_owner \<Rightarrow> string" where
  "owner_path (OfClient i) = ''/clients/'' @ i"
| "owner_path (OfScope i) = ''/client-scopes/'' @ i"

fun owner_args :: "mapper_owner \<Rightarrow> (string \<times> string) list" where
  "owner_args (OfClient i) = [(''client'', i)]"
| "owner_args (OfScope i) = [(''clientScope'', i)]"

fun mapper_service :: "mapper_owner \<Rightarrow> string" where
  "mapper_service (OfClient _) = ''ClientProtocolMapper''"
| "mapper_service (OfScope _) = ''ClientScopeProtocolMapper''"

subsection \<open>Adding built-in mappers\<close>

text \<open>
  \<open>serverInfo\<close> is one object for the whole console (\<open>ServerInfo.promise\<close>), and \<open>$scope.mappers\<close> is its array
  of built-in mappers itself. The state is that array, per protocol, and the page of one owner: \<open>bp_shown\<close> says that
  \<open>$scope.mappers\<close> was assigned.
\<close>

record builtin_page =
  bp_builtins :: "string \<Rightarrow> mapper_rep list option"
  bp_realm :: string
  bp_owner :: mapper_owner
  bp_protocol :: string
  bp_shown :: bool
  bp_effects :: "mapper_rep list ui_effect list"

text \<open>The inner loop: the first match is spliced out and the loop stops.\<close>

fun splice_builtin :: "mapper_rep \<Rightarrow> mapper_rep list \<Rightarrow> mapper_rep list" where
  "splice_builtin m [] = []"
| "splice_builtin m (b # bs) =
     (if mr_name b = mr_name m \<and> mr_protocolMapper b = mr_protocolMapper m then bs else b # splice_builtin m bs)"

definition bp_do :: "mapper_rep list ui_effect list \<Rightarrow> builtin_page \<Rightarrow> builtin_page" where
  "bp_do es s = s\<lparr>bp_effects := bp_effects s @ es\<rparr>"

definition new_builtin_page ::
  "(string \<Rightarrow> mapper_rep list option) \<Rightarrow> string \<Rightarrow> mapper_owner \<Rightarrow> string option \<Rightarrow> builtin_page" where
  "new_builtin_page builtins realm owner protocol =
     bp_do [Request ''GET'' (mapper_service owner @ ''sByProtocol'')
              ((''realm'', realm) # owner_args owner @ [(''protocol'', owner_protocol protocol)]) []]
       \<lparr>bp_builtins = builtins, bp_realm = realm, bp_owner = owner, bp_protocol = owner_protocol protocol, bp_shown = False,
        bp_effects = []\<rparr>"

definition builtin_answer :: "mapper_rep list \<Rightarrow> (builtin_page, unit) comp" where
  "builtin_answer clientMappers s =
     (case bp_builtins s (bp_protocol s) of
        None \<Rightarrow> (Throw TypeError, s)
      | Some builtinMappers \<Rightarrow>
          (let left = fold splice_builtin clientMappers builtinMappers;
               left = map (\<lambda>m. m\<lparr>mr_isChecked := Some False\<rparr>) left in
           (Ok (), s\<lparr>bp_builtins := (bp_builtins s)(bp_protocol s \<mapsto> left), bp_shown := True\<rparr>)))"

definition builtin_mappers :: "builtin_page \<Rightarrow> mapper_rep list option" where
  "builtin_mappers s = (if bp_shown s then bp_builtins s (bp_protocol s) else None)"

text \<open>A click on the box of the mapper at a position.\<close>

definition builtin_check :: "nat \<Rightarrow> bool \<Rightarrow> builtin_page \<Rightarrow> builtin_page" where
  "builtin_check i b s =
     (case builtin_mappers s of
        None \<Rightarrow> s
      | Some ms \<Rightarrow>
          if i < length ms then s\<lparr>bp_builtins := (bp_builtins s)(bp_protocol s \<mapsto> ms[i := (ms ! i)\<lparr>mr_isChecked := Some b\<rparr>])\<rparr>
          else s)"

fun collect_checked :: "mapper_rep list \<Rightarrow> mapper_rep list \<times> mapper_rep list" where
  "collect_checked [] = ([], [])"
| "collect_checked (m # ms) =
     (let (toAdd, rest) = collect_checked ms in
      if mr_isChecked m = Some True then
        (let m = m\<lparr>mr_isChecked := None\<rparr> in (m # toAdd, m # rest))
      else (toAdd, m # rest))"

definition builtin_add :: "(builtin_page, unit) comp" where
  "builtin_add s =
     (case builtin_mappers s of
        None \<Rightarrow> (Throw TypeError, s)
      | Some ms \<Rightarrow>
          (let (toAdd, rest) = collect_checked ms;
               s = s\<lparr>bp_builtins := (bp_builtins s)(bp_protocol s \<mapsto> rest)\<rparr> in
           (Ok (), bp_do [Request ''POST'' (''/admin/realms/'' @ bp_realm s @ owner_path (bp_owner s) @ ''/protocol-mappers/add-models'')
                            [] toAdd] s)))"

definition builtin_added :: "bool \<Rightarrow> builtin_page \<Rightarrow> builtin_page" where
  "builtin_added success s =
     bp_do [if success then Notify ''success'' ''Mappers added'' else Notify ''error'' ''Error adding mappers'',
            GoTo (''/realms/'' @ bp_realm s @ owner_path (bp_owner s) @ ''/mappers'')] s"

lemma splice_builtin_filter:
  "distinct (map mapper_key bs) \<Longrightarrow> splice_builtin m bs = filter (\<lambda>b. mapper_key b \<noteq> mapper_key m) bs"
proof (induction bs)
  case (Cons b bs)
  have "filter (\<lambda>c. mapper_key c \<noteq> mapper_key m) bs = bs" if "mapper_key b = mapper_key m"
    using Cons.prems that by (auto simp: filter_id_conv image_iff)
  then show ?case using Cons by (auto simp: mapper_key_def)
qed simp

lemma splice_builtins_filter:
  "distinct (map mapper_key bs) \<Longrightarrow> fold splice_builtin ms bs = filter (\<lambda>b. mapper_key b \<notin> mapper_key ` set ms) bs"
proof (induction ms arbitrary: bs)
  case (Cons m ms)
  then show ?case by (simp add: splice_builtin_filter distinct_map_filter conj_commute)
qed simp

lemma key_unchecked [simp]: "mapper_key (m\<lparr>mr_isChecked := c\<rparr>) = mapper_key m"
  by (simp add: mapper_key_def)

lemma collect_checked_spec:
  "collect_checked ms =
     (map (\<lambda>m. m\<lparr>mr_isChecked := None\<rparr>) (filter (\<lambda>m. mr_isChecked m = Some True) ms),
      map (\<lambda>m. if mr_isChecked m = Some True then m\<lparr>mr_isChecked := None\<rparr> else m) ms)"
  by (induction ms) (auto simp: Let_def)

text \<open>One visit of the page of an owner with the given mappers: what is offered, and the state of \<open>serverInfo\<close> afterwards.\<close>

definition visit :: "string \<Rightarrow> mapper_owner \<times> mapper_rep list \<Rightarrow> (string \<Rightarrow> mapper_rep list option) \<Rightarrow> builtin_page" where
  "visit realm v builtins = snd (builtin_answer (snd v) (new_builtin_page builtins realm (fst v) None))"

definition visits ::
  "string \<Rightarrow> (mapper_owner \<times> mapper_rep list) list \<Rightarrow> (string \<Rightarrow> mapper_rep list option) \<Rightarrow> string \<Rightarrow> mapper_rep list option" where
  "visits realm vs = fold (\<lambda>v builtins. bp_builtins (visit realm v builtins)) vs"

definition offered :: "mapper_rep list \<Rightarrow> mapper_rep list \<Rightarrow> mapper_rep list" where
  "offered ms bs = map (\<lambda>m. m\<lparr>mr_isChecked := Some False\<rparr>) (filter (\<lambda>b. mapper_key b \<notin> mapper_key ` set ms) bs)"

lemma visit_offers:
  assumes "builtins ''openid-connect'' = Some bs" and "distinct (map mapper_key bs)"
  shows "builtin_mappers (visit realm v builtins) = Some (offered (snd v) bs)"
    and "bp_builtins (visit realm v builtins) = builtins(''openid-connect'' \<mapsto> offered (snd v) bs)"
  using assms
  by (simp_all add: visit_def builtin_answer_def new_builtin_page_def bp_do_def owner_protocol_def builtin_mappers_def
      offered_def splice_builtins_filter Let_def)

lemma offered_keys: "map mapper_key (offered ms bs) = filter (\<lambda>k. k \<notin> mapper_key ` set ms) (map mapper_key bs)"
  by (induction bs) (auto simp: offered_def)

lemma offered_offered: "offered ms (offered ms' bs) = offered (ms' @ ms) bs"
  by (induction bs) (auto simp: offered_def image_iff)

lemma visits_offers:
  assumes "builtins ''openid-connect'' = Some bs" and "distinct (map mapper_key bs)" and "vs \<noteq> []"
  shows "visits realm vs builtins ''openid-connect'' = Some (offered (concat (map snd vs)) bs)"
  using assms
proof (induction vs arbitrary: builtins bs)
  case (Cons v vs)
  note o = visit_offers [where builtins = builtins, OF Cons.prems(1,2), of realm v]
  show ?case
  proof (cases "vs = []")
    case True
    then show ?thesis by (simp add: visits_def o)
  next
    case False
    have "visits realm vs (bp_builtins (visit realm v builtins)) ''openid-connect'' =
        Some (offered (concat (map snd vs)) (offered (snd v) bs))"
      using Cons.prems(2) False by (intro Cons.IH) (simp_all add: o offered_keys)
    then show ?thesis by (simp add: visits_def offered_offered)
  qed
qed simp

text \<open>The page that adds built-in mappers takes the mappers of its owner out of the array of \<open>serverInfo\<close>, which all
  these pages share. So the page of an owner with mappers \<open>ms\<close> offers the built-in mappers, none checked, that
  neither this owner nor any client or scope whose page was opened before has.\<close>

theorem builtin_mappers_accumulate:
  assumes "builtins ''openid-connect'' = Some bs" and "distinct (map mapper_key bs)"
  shows "builtin_mappers (visit realm (owner, ms) (visits realm vs builtins)) =
    Some (offered (if vs = [] then ms else concat (map snd vs) @ ms) bs)"
proof (cases "vs = []")
  case True
  then show ?thesis using visit_offers(1) [where builtins = builtins, OF assms, of realm "(owner, ms)"] by (simp add: visits_def)
next
  case False
  have "distinct (map mapper_key (offered (concat (map snd vs)) bs))"
    using assms(2) by (simp add: offered_keys)
  from visit_offers(1) [where builtins = "visits realm vs builtins", OF visits_offers [where builtins = builtins, OF assms False] this, of realm "(owner, ms)"] False
  show ?thesis by (simp add: offered_offered)
qed

definition sample_mapper :: "string \<Rightarrow> mapper_rep" where
  "sample_mapper n = \<lparr>mr_id = None, mr_name = Some n, mr_protocol = ''openid-connect'',
     mr_protocolMapper = Some ''oidc-usermodel-attribute-mapper'', mr_config = (\<lambda>_. None),
     mr_isChecked = None\<rparr>"

text \<open>After the page of a client that has the mapper \<open>email\<close>, it is not offered to a client without any mapper.\<close>

theorem builtin_mappers_accumulate_witness:
  "map_option (map mr_name)
     (builtin_mappers (visit ''demo'' (OfClient ''c2'', [])
        (visits ''demo'' [(OfClient ''c1'', [sample_mapper ''email''])]
           [''openid-connect'' \<mapsto> [sample_mapper ''email'', sample_mapper ''phone'']]))) = Some [Some ''phone'']"
proof -
  let ?bs = "[sample_mapper ''email'', sample_mapper ''phone'']"
  have b: "[''openid-connect'' \<mapsto> ?bs] ''openid-connect'' = Some ?bs" by simp
  have d: "distinct (map mapper_key ?bs)" by (simp add: mapper_key_def sample_mapper_def)
  show ?thesis
    using builtin_mappers_accumulate [where builtins = "[''openid-connect'' \<mapsto> ?bs]", OF b d, of "''demo''" "OfClient ''c2''" "[]" "[(OfClient ''c1'', [sample_mapper ''email''])]"]
    by (simp add: offered_def mapper_key_def sample_mapper_def)
qed

lemma builtin_add_request:
  assumes "builtin_mappers s = Some ms"
  shows "bp_effects (snd (builtin_add s)) = bp_effects s @
    [Request ''POST'' (''/admin/realms/'' @ bp_realm s @ owner_path (bp_owner s) @ ''/protocol-mappers/add-models'') []
      (map (\<lambda>m. m\<lparr>mr_isChecked := None\<rparr>) (filter (\<lambda>m. mr_isChecked m = Some True) ms))]"
  using assms by (simp add: builtin_add_def collect_checked_spec bp_do_def)

subsection \<open>The list of mappers\<close>

definition removeMapper :: "mapper_rep \<Rightarrow> mapper_rep ui_effect" where
  "removeMapper m = ConfirmDelete (undef_str (mr_name m)) ''mapper''"

definition removeMapper_confirmed :: "string \<Rightarrow> mapper_owner \<Rightarrow> mapper_rep \<Rightarrow> mapper_rep option ui_effect" where
  "removeMapper_confirmed realm owner m =
     Request ''DELETE'' (mapper_service owner) ((''realm'', realm) # owner_args owner @ [(''id'', undef_str (mr_id m))]) None"

definition removeMapper_done :: "mapper_rep option ui_effect list" where
  "removeMapper_done = [Notify ''success'' ''The mapper has been deleted.'', Reload]"

text \<open>The switch of a client's list, which saves the client as a whole (\<open>'c\<close> is its type) and takes it as the saved one.\<close>

definition list_changeFlag :: "string \<Rightarrow> string \<Rightarrow> 'c \<Rightarrow> 'c ui_effect" where
  "list_changeFlag realm i client = Request ''PUT'' ''Client'' [(''realm'', realm), (''client'', i)] client"

definition list_flag_changed :: "'c ui_effect list" where
  "list_flag_changed = [Notify ''success'' ''Client updated.'']"

subsection \<open>The editor of a mapper\<close>

text \<open>\<open>me_original\<close> is the variable \<open>mapper\<close> of the controller, \<open>None\<close> is \<open>undefined\<close>.\<close>

record mapper_editor =
  me_realm :: string
  me_owner :: mapper_owner
  me_original :: "mapper_rep option"
  me_mapper :: "mapper_rep option"
  me_changed :: bool
  me_effects :: "mapper_rep option ui_effect list"

definition me_do :: "mapper_rep option ui_effect list \<Rightarrow> mapper_editor \<Rightarrow> mapper_editor" where
  "me_do es s = s\<lparr>me_effects := me_effects s @ es\<rparr>"

definition new_mapper_editor :: "string \<Rightarrow> mapper_owner \<Rightarrow> mapper_rep \<Rightarrow> mapper_editor" where
  "new_mapper_editor realm owner mapper =
     \<lparr>me_realm = realm, me_owner = owner, me_original = Some mapper, me_mapper = Some mapper, me_changed = False, me_effects = []\<rparr>"

text \<open>The watch on \<open>model.mapper\<close>.\<close>

definition watch_mapper :: "mapper_editor \<Rightarrow> mapper_editor" where
  "watch_mapper s = (if me_mapper s \<noteq> me_original s then s\<lparr>me_changed := True\<rparr> else s)"

definition edit_mapper :: "(mapper_rep \<Rightarrow> mapper_rep) \<Rightarrow> mapper_editor \<Rightarrow> mapper_editor" where
  "edit_mapper f s = watch_mapper (s\<lparr>me_mapper := map_option f (me_mapper s)\<rparr>)"

text \<open>The client's page names the mapper by the edited copy, the scope's page by the original.\<close>

definition mapper_save :: "(mapper_editor, unit) comp" where
  "mapper_save s =
     (case (case me_owner s of OfClient _ \<Rightarrow> me_mapper s | OfScope _ \<Rightarrow> me_original s) of
        None \<Rightarrow> (Throw TypeError, s)
      | Some m \<Rightarrow>
          (Ok (), me_do [Request ''PUT'' (mapper_service (me_owner s))
             ((''realm'', me_realm s) # owner_args (me_owner s) @ [(''id'', undef_str (mr_id m))]) (me_mapper s)] s))"

text \<open>The client's page takes its new original from \<open>$scope.mapper\<close>, which is never assigned: the edited mapper is in
  \<open>$scope.model.mapper\<close>. While the request is under way the form can be reset, so that the mapper may be undefined.\<close>

definition mapper_saved :: "(mapper_editor, unit) comp" where
  "mapper_saved s =
     (case me_owner s of
        OfClient _ \<Rightarrow>
          (let s = s\<lparr>me_changed := False, me_original := None\<rparr> in
           (case me_mapper s of
              None \<Rightarrow> (Throw TypeError, s)
            | Some m \<Rightarrow>
                (Ok (), me_do [GoTo (''/realms/'' @ me_realm s @ owner_path (me_owner s) @ ''/mappers/'' @ undef_str (mr_id m)),
                   Notify ''success'' ''Your changes have been saved.''] s)))
      | OfScope _ \<Rightarrow> (Ok (), me_do [Reload, Notify ''success'' ''Your changes have been saved.''] s))"

definition mapper_reset :: "mapper_editor \<Rightarrow> mapper_editor" where
  "mapper_reset s = watch_mapper (s\<lparr>me_mapper := me_original s, me_changed := False\<rparr>)"

definition mapper_cancel :: "mapper_editor \<Rightarrow> mapper_editor" where
  "mapper_cancel s = me_do [HistoryBack] s"

definition mapper_remove :: "(mapper_editor, unit) comp" where
  "mapper_remove s =
     (case me_mapper s of
        None \<Rightarrow> (Throw TypeError, s)
      | Some m \<Rightarrow> (Ok (), me_do [ConfirmDelete (undef_str (mr_name m)) ''mapper''] s))"

definition mapper_remove_confirmed :: "(mapper_editor, unit) comp" where
  "mapper_remove_confirmed s =
     (case me_mapper s of
        None \<Rightarrow> (Throw TypeError, s)
      | Some m \<Rightarrow> (Ok (), me_do [removeMapper_confirmed (me_realm s) (me_owner s) m] s))"

definition mapper_removed :: "mapper_editor \<Rightarrow> mapper_editor" where
  "mapper_removed s =
     me_do [Notify ''success'' ''The mapper has been deleted.'',
            GoTo (''/realms/'' @ me_realm s @ owner_path (me_owner s) @ ''/mappers'')] s"

lemma mapper_reset_restores:
  "me_mapper (mapper_reset (edit_mapper f (new_mapper_editor realm owner m))) = Some m \<and>
   \<not> me_changed (mapper_reset (edit_mapper f (new_mapper_editor realm owner m)))"
  by (simp add: mapper_reset_def edit_mapper_def watch_mapper_def new_mapper_editor_def)

text \<open>After a mapper of a client was saved, a reset empties the form, and removing the mapper raises.\<close>

lemma mapper_reset_after_save:
  "me_mapper (mapper_reset (snd (mapper_saved (new_mapper_editor realm (OfClient c) m)))) = None \<and>
   fst (mapper_remove (mapper_reset (snd (mapper_saved (new_mapper_editor realm (OfClient c) m))))) = Throw TypeError"
  by (simp add: mapper_reset_def watch_mapper_def mapper_saved_def mapper_remove_def new_mapper_editor_def me_do_def)

subsection \<open>A new mapper\<close>

record mapper_property =
  mp_name :: "string option"
  mp_defaultValue :: "json option"

record mapper_type =
  mt_id :: string
  mt_properties :: "mapper_property list option"

text \<open>The configuration that the client's page puts in when the type of the mapper changes; the scope's page does not.\<close>

definition default_config :: "mapper_type option \<Rightarrow> string \<Rightarrow> json option" where
  "default_config t =
     (case t of
        None \<Rightarrow> (\<lambda>_. None)
      | Some t \<Rightarrow>
          (case mt_properties t of
             None \<Rightarrow> (\<lambda>_. None)
           | Some ps \<Rightarrow>
               fold (\<lambda>p config.
                  case mp_name p of
                    None \<Rightarrow> config
                  | Some n \<Rightarrow> if n \<noteq> [] \<and> jtruthy (mp_defaultValue p) then config(n := mp_defaultValue p) else config)
                 ps (\<lambda>_. None)))"

record mapper_creator =
  mc_realm :: string
  mc_owner :: mapper_owner
  mc_mapper :: mapper_rep
  mc_mapperType :: "mapper_type option"
  mc_effects :: "mapper_rep option ui_effect list"

definition choose_mapper_type :: "mapper_type option \<Rightarrow> mapper_creator \<Rightarrow> mapper_creator" where
  "choose_mapper_type t s =
     (let s = s\<lparr>mc_mapperType := t\<rparr> in
      case mc_owner s of
        OfClient _ \<Rightarrow> s\<lparr>mc_mapper := (mc_mapper s)\<lparr>mr_config := default_config t\<rparr>\<rparr>
      | OfScope _ \<Rightarrow> s)"

definition new_mapper_creator :: "string \<Rightarrow> mapper_owner \<Rightarrow> string \<Rightarrow> mapper_type list \<Rightarrow> mapper_creator" where
  "new_mapper_creator realm owner protocol types =
     choose_mapper_type (case types of [] \<Rightarrow> None | t # _ \<Rightarrow> Some t)
       \<lparr>mc_realm = realm, mc_owner = owner,
        mc_mapper = \<lparr>mr_id = None, mr_name = None, mr_protocol = protocol, mr_protocolMapper = None, mr_config = (\<lambda>_. None), mr_isChecked = None\<rparr>,
        mc_mapperType = None, mc_effects = []\<rparr>"

definition mapper_create :: "(mapper_creator, unit) comp" where
  "mapper_create s =
     (case mc_mapperType s of
        None \<Rightarrow> (Throw TypeError, s)
      | Some t \<Rightarrow>
          (let s = s\<lparr>mc_mapper := (mc_mapper s)\<lparr>mr_protocolMapper := Some (mt_id t)\<rparr>\<rparr> in
           (Ok (), s\<lparr>mc_effects := mc_effects s @
              [Request ''POST'' (mapper_service (mc_owner s)) ((''realm'', mc_realm s) # owner_args (mc_owner s)) (Some (mc_mapper s))]\<rparr>)))"

definition mapper_created :: "string \<Rightarrow> mapper_creator \<Rightarrow> mapper_creator" where
  "mapper_created location s =
     s\<lparr>mc_effects := mc_effects s @
        [GoTo (''/realms/'' @ mc_realm s @ owner_path (mc_owner s) @ ''/mappers/'' @ after_last CHR ''/'' location),
         Notify ''success'' ''Mapper has been created.'']\<rparr>"

lemma default_config_fold:
  "fold (\<lambda>p config.
      case mp_name p of
        None \<Rightarrow> config
      | Some n \<Rightarrow> if n \<noteq> [] \<and> jtruthy (mp_defaultValue p) then config(n := mp_defaultValue p) else config) ps config n =
   (case find (\<lambda>p. mp_name p = Some n \<and> n \<noteq> [] \<and> jtruthy (mp_defaultValue p)) (rev ps) of
      None \<Rightarrow> config n
    | Some p \<Rightarrow> mp_defaultValue p)"
  by (induction ps rule: rev_induct) (auto split: option.splits)

text \<open>The default of a property is the last truthy one under its name.\<close>

lemma default_config_lookup:
  "mt_properties t = Some ps \<Longrightarrow>
     default_config (Some t) n =
       (case find (\<lambda>p. mp_name p = Some n \<and> n \<noteq> [] \<and> jtruthy (mp_defaultValue p)) (rev ps) of
          None \<Rightarrow> None
        | Some p \<Rightarrow> mp_defaultValue p)"
  by (simp add: default_config_def default_config_fold)

end
