(* ===== verification/Client_Editor.thy ===== *)
theory Client_Editor
  imports Console "HOL-Library.AList"
begin

section \<open>The admin console: the editor of a client\<close>

text \<open>
  controllers/clients.js: \<open>ClientListCtrl\<close> (779-833), \<open>ClientDetailCtrl\<close> (880-1413) and
  \<open>CreateClientCtrl\<close> (1415-1506). The page of a client edits a copy of it. Thirteen of its settings
  are switches of the page that the copy holds as attributes with the texts \<open>true\<close> and \<open>false\<close>; others are choices
  from lists. Not modelled: the name of the storage provider (969-985), the lists of flows (881-895), the URL for logins that SAML
  starts (1144-1146), the dialog that shows an imported file and the watch on the path. Fields of a client that the page only passes on are left out; a flag that is absent counts as false, as
  the source tests it.
\<close>

subsection \<open>Attributes of a client\<close>

type_synonym attrs = "(string \<times> string js) list"

definition attr :: "string \<Rightarrow> attrs \<Rightarrow> string js" where
  "attr k as = (case map_of as k of None \<Rightarrow> Undefined | Some v \<Rightarrow> v)"

definition set_attr :: "string \<Rightarrow> string js \<Rightarrow> attrs \<Rightarrow> attrs" where
  "set_attr k v as = AList.update k v as"

definition same_attrs :: "attrs \<Rightarrow> attrs \<Rightarrow> bool" where
  "same_attrs as bs \<longleftrightarrow> list_all (\<lambda>k. attr k as = attr k bs) (map fst as @ map fst bs)"

lemma attr_set_attr [simp]: "attr k (set_attr k' v as) = (if k = k' then v else attr k as)"
  by (simp add: attr_def set_attr_def update_conv')

lemma same_attrs_iff: "same_attrs as bs \<longleftrightarrow> (\<forall>k. attr k as = attr k bs)"
proof -
  have "attr k as = attr k bs" if "k \<notin> fst ` set as" "k \<notin> fst ` set bs" for k
    using that by (simp add: attr_def map_of_eq_None_iff [THEN iffD2])
  then show ?thesis by (auto simp: same_attrs_def list_all_iff)
qed

fun js_string :: "string option \<Rightarrow> string js" where
  "js_string None = Undefined"
| "js_string (Some x) = Val x"

fun nullish :: "'a js \<Rightarrow> bool" where
  "nullish (Val _) = False"
| "nullish _ = True"

subsection \<open>Clients and switches\<close>

record client_rep =
  cl_id :: "string option"
  cl_protocol :: "string option"
  cl_bearerOnly :: bool
  cl_publicClient :: bool
  cl_standardFlowEnabled :: bool
  cl_implicitFlowEnabled :: bool
  cl_serviceAccountsEnabled :: bool
  cl_authorizationServicesEnabled :: bool
  cl_redirectUris :: "string list option"
  cl_webOrigins :: "string list option"
  cl_attributes :: "attrs option"

datatype client_flag = ServerSignature | ServerSignatureKeyInfo | AssertionSignature | ClientSignature | Encrypt | AuthnStatement
  | OneTimeUse | ForceNameIdFormat | MultiValuedRoles | ForcePostBinding | ExcludeSessionState | TlsBoundTokens | DisplayOnConsent

fun flag_attr :: "client_flag \<Rightarrow> string" where
  "flag_attr ServerSignature = ''saml.server.signature''"
| "flag_attr ServerSignatureKeyInfo = ''saml.server.signature.keyinfo.ext''"
| "flag_attr AssertionSignature = ''saml.assertion.signature''"
| "flag_attr ClientSignature = ''saml.client.signature''"
| "flag_attr Encrypt = ''saml.encrypt''"
| "flag_attr AuthnStatement = ''saml.authnstatement''"
| "flag_attr OneTimeUse = ''saml.onetimeuse.condition''"
| "flag_attr ForceNameIdFormat = ''saml_force_name_id_format''"
| "flag_attr MultiValuedRoles = ''saml.multivalued.roles''"
| "flag_attr ForcePostBinding = ''saml.force.post.binding''"
| "flag_attr ExcludeSessionState = ''exclude.session.state.from.auth.response''"
| "flag_attr TlsBoundTokens = ''tls.client.certificate.bound.access.tokens''"
| "flag_attr DisplayOnConsent = ''display.on.consent.screen''"

definition all_flags :: "client_flag list" where
  "all_flags = [ServerSignature, ServerSignatureKeyInfo, AssertionSignature, ClientSignature, Encrypt, AuthnStatement, OneTimeUse,
     ForceNameIdFormat, MultiValuedRoles, ForcePostBinding, ExcludeSessionState, TlsBoundTokens, DisplayOnConsent]"

definition signatureAlgorithms :: "string list" where
  "signatureAlgorithms = [''RSA_SHA1'', ''RSA_SHA256'', ''RSA_SHA512'', ''DSA_SHA1'']"

definition nameIdFormats :: "string list" where
  "nameIdFormats = [''username'', ''email'', ''transient'', ''persistent'']"

definition xmlKeyNameTranformers :: "string list" where
  "xmlKeyNameTranformers = [''NONE'', ''KEY_ID'', ''CERT_SUBJECT'']"

definition xmlKeyName_attr :: string where
  "xmlKeyName_attr = ''saml.server.signature.keyinfo.xmlSigKeyInfoKeyNameTransformer''"

subsection \<open>State of the page\<close>

text \<open>\<open>ce_resolved\<close> is the controller's argument \<open>client\<close>, \<open>ce_client\<close> is \<open>$scope.client\<close>: the same object until a file is
  imported.\<close>

record client_editor =
  ce_realm :: string
  ce_protocols :: "string list"
  ce_resolved :: client_rep
  ce_client :: client_rep
  ce_edit :: client_rep
  ce_accessType :: string
  ce_protocol :: "string option"
  ce_signatureAlgorithm :: "string option"
  ce_nameIdFormat :: "string option"
  ce_xmlKeyName :: "string option"
  ce_userInfoAlg :: string
  ce_requestObjectAlg :: string
  ce_requestObjectRequired :: string
  ce_flags :: "client_flag \<Rightarrow> bool"
  ce_newRedirectUri :: "string option"
  ce_newWebOrigin :: "string option"
  ce_importing :: bool
  ce_changed :: bool
  ce_effects :: "client_rep ui_effect list"

definition ce_do :: "client_rep ui_effect list \<Rightarrow> client_editor \<Rightarrow> client_editor" where
  "ce_do es s = s\<lparr>ce_effects := ce_effects s @ es\<rparr>"

subsection \<open>Reading a client\<close>

definition with_attributes :: "client_rep \<Rightarrow> client_rep" where
  "with_attributes c = (case cl_attributes c of None \<Rightarrow> c\<lparr>cl_attributes := Some []\<rparr> | Some _ \<Rightarrow> c)"

definition client_attr :: "string \<Rightarrow> client_rep \<Rightarrow> string js" where
  "client_attr k c = (case cl_attributes c of None \<Rightarrow> Undefined | Some as \<Rightarrow> attr k as)"

definition access_type :: "client_rep \<Rightarrow> string" where
  "access_type c = (if cl_bearerOnly c then ''bearer-only'' else if cl_publicClient c then ''public'' else ''confidential'')"

text \<open>\<open>protocols[protocols.indexOf(p)]\<close>, undefined when the index is -1, and \<open>protocols[0]\<close>.\<close>

definition shown_protocol :: "string list \<Rightarrow> string option \<Rightarrow> string option" where
  "shown_protocol protocols p =
     (if str_truthy p then
        (case p of None \<Rightarrow> None | Some q \<Rightarrow> map_option (\<lambda>i. protocols ! i) (index_in q protocols))
      else (case protocols of [] \<Rightarrow> None | q # _ \<Rightarrow> Some q))"

text \<open>The chains of tests against the entries of a list: a value of the list is taken over, any other leaves the choice as it is.\<close>

definition listed :: "string list \<Rightarrow> string js \<Rightarrow> string option \<Rightarrow> string option" where
  "listed xs v old = (case v of Val x \<Rightarrow> if x \<in> set xs then Some x else old | _ \<Rightarrow> old)"

definition read_flag :: "client_rep \<Rightarrow> client_flag \<Rightarrow> (client_flag \<Rightarrow> bool) \<Rightarrow> client_flag \<Rightarrow> bool" where
  "read_flag c f flags =
     (case client_attr (flag_attr f) c of
        Val v \<Rightarrow> if v \<noteq> [] then flags(f := (v = ''true'')) else flags
      | _ \<Rightarrow> flags)"

definition or_else :: "string \<Rightarrow> string js \<Rightarrow> string" where
  "or_else d v = (case v of Val x \<Rightarrow> x | _ \<Rightarrow> d)"

definition updateProperties :: "client_editor \<Rightarrow> client_editor" where
  "updateProperties s =
     (let c = with_attributes (ce_client s) in
      s\<lparr>ce_client := c,
        ce_accessType := access_type c,
        ce_protocol := shown_protocol (ce_protocols s) (cl_protocol c),
        ce_signatureAlgorithm := listed signatureAlgorithms (client_attr ''saml.signature.algorithm'' c) (ce_signatureAlgorithm s),
        ce_nameIdFormat := listed nameIdFormats (client_attr ''saml_name_id_format'' c) (ce_nameIdFormat s),
        ce_xmlKeyName := listed xmlKeyNameTranformers (client_attr xmlKeyName_attr c) (ce_xmlKeyName s),
        ce_flags := fold (read_flag c) all_flags (ce_flags s),
        ce_userInfoAlg := or_else ''unsigned'' (client_attr ''user.info.response.signature.alg'' c),
        ce_requestObjectAlg := or_else ''any'' (client_attr ''request.object.signature.alg'' c),
        ce_requestObjectRequired := or_else ''not required'' (client_attr ''request.object.required'' c)\<rparr>)"

subsection \<open>Watches\<close>

definition same_client :: "client_rep \<Rightarrow> client_rep \<Rightarrow> bool" where
  "same_client a b \<longleftrightarrow>
     a\<lparr>cl_attributes := None\<rparr> = b\<lparr>cl_attributes := None\<rparr> \<and>
     (case (cl_attributes a, cl_attributes b) of
        (None, None) \<Rightarrow> True | (Some as, Some bs) \<Rightarrow> same_attrs as bs | _ \<Rightarrow> False)"

definition isChanged :: "client_editor \<Rightarrow> bool" where
  "isChanged s \<longleftrightarrow>
     \<not> same_client (ce_client s) (ce_edit s) \<or> str_truthy (ce_newRedirectUri s) \<or> str_truthy (ce_newWebOrigin s)"

definition disable_text :: string where
  "disable_text = ''Are you sure you want to disable authorization ? Once you save your changes, all authorization settings associated with this client will be removed. This operation can not be reverted.''"

definition configureAuthorizationServices :: "client_editor \<Rightarrow> client_editor" where
  "configureAuthorizationServices s =
     (let s = (if cl_authorizationServicesEnabled (ce_edit s) then
                 (let s = (if ce_accessType s = ''public'' then s\<lparr>ce_accessType := ''confidential''\<rparr> else s) in
                  s\<lparr>ce_edit := (ce_edit s)\<lparr>cl_publicClient := False, cl_serviceAccountsEnabled := True\<rparr>\<rparr>)
               else if cl_bearerOnly (ce_edit s) then
                 s\<lparr>ce_edit := (ce_edit s)\<lparr>cl_serviceAccountsEnabled := False\<rparr>\<rparr>
               else s) in
      if cl_authorizationServicesEnabled (ce_client s) \<and> \<not> cl_authorizationServicesEnabled (ce_edit s) then
        ce_do [Confirm ''Disable Authorization Settings'' disable_text] s
      else s)"

definition watch_edit :: "client_editor \<Rightarrow> client_editor" where
  "watch_edit s = configureAuthorizationServices (s\<lparr>ce_changed := isChanged s\<rparr>)"

text \<open>AngularJS runs the watch again when it has changed the client itself; the second run changes nothing more.\<close>

definition digest_edit :: "client_editor \<Rightarrow> client_editor" where
  "digest_edit s = (let s' = watch_edit s in if ce_edit s' \<noteq> ce_edit s then watch_edit s' else s')"

text \<open>The second button of the confirmation.\<close>

definition disable_cancelled :: "client_editor \<Rightarrow> client_editor" where
  "disable_cancelled s = s\<lparr>ce_edit := (ce_edit s)\<lparr>cl_authorizationServicesEnabled := True\<rparr>\<rparr>"

text \<open>The watch on the two texts, and what follows any function that an event of the page runs.\<close>

definition watch_texts :: "client_editor \<Rightarrow> client_editor" where
  "watch_texts s = s\<lparr>ce_changed := isChanged s\<rparr>"

definition after_event :: "client_editor \<Rightarrow> client_editor \<Rightarrow> client_editor" where
  "after_event old s =
     (if ce_edit s \<noteq> ce_edit old then digest_edit s
      else if ce_newRedirectUri s \<noteq> ce_newRedirectUri old \<or> ce_newWebOrigin s \<noteq> ce_newWebOrigin old then watch_texts s
      else s)"

definition new_client_editor :: "string \<Rightarrow> string list \<Rightarrow> client_rep \<Rightarrow> client_editor" where
  "new_client_editor realm protocols client =
     (let s = updateProperties \<lparr>ce_realm = realm, ce_protocols = protocols, ce_resolved = client, ce_client = client, ce_edit = client,
            ce_accessType = [], ce_protocol = None, ce_signatureAlgorithm = None, ce_nameIdFormat = None,
            ce_xmlKeyName = Some ''KEY_ID'', ce_userInfoAlg = [], ce_requestObjectAlg = [], ce_requestObjectRequired = [],
            ce_flags = (\<lambda>_. False), ce_newRedirectUri = None, ce_newWebOrigin = None, ce_importing = False, ce_changed = False,
            ce_effects = []\<rparr> in
      digest_edit (s\<lparr>ce_resolved := ce_client s, ce_edit := ce_client s\<rparr>))"

text \<open>The answer of the converter to an imported file: the copy that is edited is again one of the client that the page was opened with.\<close>

definition import_answer :: "client_rep \<Rightarrow> client_editor \<Rightarrow> client_editor" where
  "import_answer data s =
     (let s = updateProperties (s\<lparr>ce_client := data\<rparr>) in s\<lparr>ce_importing := True, ce_edit := ce_resolved s\<rparr>)"

subsection \<open>Edits\<close>

definition switchChange :: "client_editor \<Rightarrow> client_editor" where
  "switchChange s = s\<lparr>ce_changed := True\<rparr>"

definition set_flag :: "client_flag \<Rightarrow> bool \<Rightarrow> client_editor \<Rightarrow> client_editor" where
  "set_flag f b s = switchChange (s\<lparr>ce_flags := (ce_flags s)(f := b)\<rparr>)"

definition changeAccessType :: "client_editor \<Rightarrow> client_editor" where
  "changeAccessType s =
     (if ce_accessType s = ''confidential'' then s\<lparr>ce_edit := (ce_edit s)\<lparr>cl_bearerOnly := False, cl_publicClient := False\<rparr>\<rparr>
      else if ce_accessType s = ''public'' then s\<lparr>ce_edit := (ce_edit s)\<lparr>cl_bearerOnly := False, cl_publicClient := True\<rparr>\<rparr>
      else if ce_accessType s = ''bearer-only'' then s\<lparr>ce_edit := (ce_edit s)\<lparr>cl_bearerOnly := True, cl_publicClient := False\<rparr>\<rparr>
      else s)"

definition changeProtocol :: "client_editor \<Rightarrow> client_editor" where
  "changeProtocol s =
     (if ce_protocol s = Some ''openid-connect'' then s\<lparr>ce_edit := (ce_edit s)\<lparr>cl_protocol := Some ''openid-connect''\<rparr>\<rparr>
      else if ce_protocol s = Some ''saml'' then s\<lparr>ce_edit := (ce_edit s)\<lparr>cl_protocol := Some ''saml''\<rparr>\<rparr>
      else s)"

text \<open>The attributes of the copy exist since \<open>updateProperties\<close> ran on the client.\<close>

definition edit_attr :: "string \<Rightarrow> string js \<Rightarrow> client_editor \<Rightarrow> client_editor" where
  "edit_attr k v s = s\<lparr>ce_edit := (ce_edit s)\<lparr>cl_attributes := map_option (set_attr k v) (cl_attributes (ce_edit s))\<rparr>\<rparr>"

definition changeAlgorithm :: "client_editor \<Rightarrow> client_editor" where
  "changeAlgorithm s = edit_attr ''saml.signature.algorithm'' (js_string (ce_signatureAlgorithm s)) s"

definition changeNameIdFormat :: "client_editor \<Rightarrow> client_editor" where
  "changeNameIdFormat s = edit_attr ''saml_name_id_format'' (js_string (ce_nameIdFormat s)) s"

definition changeSamlSigKeyNameTranformer :: "client_editor \<Rightarrow> client_editor" where
  "changeSamlSigKeyNameTranformer s = edit_attr xmlKeyName_attr (js_string (ce_xmlKeyName s)) s"

definition changeUserInfoSignedResponseAlg :: "client_editor \<Rightarrow> client_editor" where
  "changeUserInfoSignedResponseAlg s =
     (if ce_userInfoAlg s = ''unsigned'' then edit_attr ''user.info.response.signature.alg'' JsNull s
      else edit_attr ''user.info.response.signature.alg'' (Val (ce_userInfoAlg s)) s)"

definition changeRequestObjectSignatureAlg :: "client_editor \<Rightarrow> client_editor" where
  "changeRequestObjectSignatureAlg s =
     (if ce_requestObjectAlg s = ''any'' then edit_attr ''request.object.signature.alg'' JsNull s
      else edit_attr ''request.object.signature.alg'' (Val (ce_requestObjectAlg s)) s)"

definition changeRequestObjectRequired :: "client_editor \<Rightarrow> client_editor" where
  "changeRequestObjectRequired s =
     (if ce_requestObjectRequired s = ''not required'' then edit_attr ''request.object.required'' JsNull s
      else edit_attr ''request.object.required'' (Val (ce_requestObjectRequired s)) s)"

text \<open>A list that is undefined has no \<open>push\<close>. An index beyond the end removes nothing.\<close>

definition addRedirectUri :: "(client_editor, unit) comp" where
  "addRedirectUri s =
     (case cl_redirectUris (ce_edit s) of
        None \<Rightarrow> (Throw TypeError, s)
      | Some uris \<Rightarrow>
          (Ok (), s\<lparr>ce_edit := (ce_edit s)\<lparr>cl_redirectUris := Some (uris @ [undef_str (ce_newRedirectUri s)])\<rparr>,
                    ce_newRedirectUri := Some []\<rparr>))"

definition addWebOrigin :: "(client_editor, unit) comp" where
  "addWebOrigin s =
     (case cl_webOrigins (ce_edit s) of
        None \<Rightarrow> (Throw TypeError, s)
      | Some uris \<Rightarrow>
          (Ok (), s\<lparr>ce_edit := (ce_edit s)\<lparr>cl_webOrigins := Some (uris @ [undef_str (ce_newWebOrigin s)])\<rparr>,
                    ce_newWebOrigin := Some []\<rparr>))"

definition deleteRedirectUri :: "nat \<Rightarrow> (client_editor, unit) comp" where
  "deleteRedirectUri i s =
     (case cl_redirectUris (ce_edit s) of
        None \<Rightarrow> (Throw TypeError, s)
      | Some uris \<Rightarrow> (Ok (), s\<lparr>ce_edit := (ce_edit s)\<lparr>cl_redirectUris := Some (splice1 i uris)\<rparr>\<rparr>))"

definition deleteWebOrigin :: "nat \<Rightarrow> (client_editor, unit) comp" where
  "deleteWebOrigin i s =
     (case cl_webOrigins (ce_edit s) of
        None \<Rightarrow> (Throw TypeError, s)
      | Some uris \<Rightarrow> (Ok (), s\<lparr>ce_edit := (ce_edit s)\<lparr>cl_webOrigins := Some (splice1 i uris)\<rparr>\<rparr>))"

subsection \<open>Saving\<close>

definition write_flag :: "client_flag \<Rightarrow> client_editor \<Rightarrow> client_editor" where
  "write_flag f s = edit_attr (flag_attr f) (Val (if ce_flags s f then ''true'' else ''false'')) s"

definition needs_redirect_uri :: "client_rep \<Rightarrow> bool" where
  "needs_redirect_uri c \<longleftrightarrow>
     cl_protocol c \<noteq> Some ''saml'' \<and> \<not> cl_bearerOnly c \<and> (cl_standardFlowEnabled c \<or> cl_implicitFlowEnabled c) \<and>
     (cl_redirectUris c = None \<or> cl_redirectUris c = Some [])"

text \<open>The part of \<open>save\<close> that writes the settings into the copy.\<close>

definition write_settings :: "client_editor \<Rightarrow> client_editor" where
  "write_settings s =
     (let s = fold write_flag all_flags s;
          s = s\<lparr>ce_edit := (ce_edit s)\<lparr>cl_protocol := ce_protocol s\<rparr>\<rparr>;
          s = edit_attr ''saml.signature.algorithm'' (js_string (ce_signatureAlgorithm s)) s in
      edit_attr ''saml_name_id_format'' (js_string (ce_nameIdFormat s)) s)"

definition send_client :: "client_editor \<Rightarrow> client_editor" where
  "send_client s =
     (if needs_redirect_uri (ce_edit s) then ce_do [Notify ''error'' ''You must specify at least one redirect uri''] s
      else ce_do [Request ''PUT'' ''Client'' [(''realm'', ce_realm s), (''client'', undef_str (cl_id (ce_resolved s)))] (ce_edit s)] s)"

definition client_save :: "(client_editor, unit) comp" where
  "client_save =
     comp_bind (\<lambda>s. if str_truthy (ce_newRedirectUri s) then addRedirectUri s else (Ok (), s)) (\<lambda>_.
     comp_bind (\<lambda>s. if str_truthy (ce_newWebOrigin s) then addWebOrigin s else (Ok (), s)) (\<lambda>_.
     comp_do (\<lambda>s. send_client (write_settings s))))"

definition client_saved :: "client_editor \<Rightarrow> client_editor" where
  "client_saved s = ce_do [Reload, Notify ''success'' ''Your changes have been saved to the client.''] s"

definition client_reset :: "client_editor \<Rightarrow> client_editor" where
  "client_reset s = ce_do [Reload] s"

definition client_cancel :: "client_editor \<Rightarrow> client_editor" where
  "client_cancel s = ce_do [GoTo (''/realms/'' @ ce_realm s @ ''/clients'')] s"

subsection \<open>Events\<close>

definition set_standardFlow :: "bool \<Rightarrow> client_editor \<Rightarrow> client_editor" where
  "set_standardFlow b s = s\<lparr>ce_edit := (ce_edit s)\<lparr>cl_standardFlowEnabled := b\<rparr>\<rparr>"

definition set_implicitFlow :: "bool \<Rightarrow> client_editor \<Rightarrow> client_editor" where
  "set_implicitFlow b s = s\<lparr>ce_edit := (ce_edit s)\<lparr>cl_implicitFlowEnabled := b\<rparr>\<rparr>"

definition set_serviceAccounts :: "bool \<Rightarrow> client_editor \<Rightarrow> client_editor" where
  "set_serviceAccounts b s = s\<lparr>ce_edit := (ce_edit s)\<lparr>cl_serviceAccountsEnabled := b\<rparr>\<rparr>"

definition set_authorizationServices :: "bool \<Rightarrow> client_editor \<Rightarrow> client_editor" where
  "set_authorizationServices b s = s\<lparr>ce_edit := (ce_edit s)\<lparr>cl_authorizationServicesEnabled := b\<rparr>\<rparr>"

text \<open>The inputs of the page: the choices are entries of the lists that the select boxes show.\<close>

inductive client_event :: "client_editor \<Rightarrow> client_editor \<Rightarrow> bool" where
  flag: "client_event s (set_flag f b s)"
| access: "a \<in> set [''confidential'', ''public'', ''bearer-only''] \<Longrightarrow> client_event s (changeAccessType (s\<lparr>ce_accessType := a\<rparr>))"
| protocol: "p \<in> set (ce_protocols s) \<Longrightarrow> client_event s (changeProtocol (s\<lparr>ce_protocol := Some p\<rparr>))"
| algorithm: "a \<in> set signatureAlgorithms \<Longrightarrow> client_event s (changeAlgorithm (s\<lparr>ce_signatureAlgorithm := Some a\<rparr>))"
| name_id: "a \<in> set nameIdFormats \<Longrightarrow> client_event s (changeNameIdFormat (s\<lparr>ce_nameIdFormat := Some a\<rparr>))"
| key_name: "a \<in> set xmlKeyNameTranformers \<Longrightarrow> client_event s (changeSamlSigKeyNameTranformer (s\<lparr>ce_xmlKeyName := Some a\<rparr>))"
| user_info: "client_event s (changeUserInfoSignedResponseAlg (s\<lparr>ce_userInfoAlg := a\<rparr>))"
| request_alg: "client_event s (changeRequestObjectSignatureAlg (s\<lparr>ce_requestObjectAlg := a\<rparr>))"
| request_required: "client_event s (changeRequestObjectRequired (s\<lparr>ce_requestObjectRequired := a\<rparr>))"
| standard: "client_event s (set_standardFlow b s)"
| implicit: "client_event s (set_implicitFlow b s)"
| service: "client_event s (set_serviceAccounts b s)"
| authz: "client_event s (set_authorizationServices b s)"
| authz_kept: "client_event s (disable_cancelled s)"
| new_redirect: "client_event s (s\<lparr>ce_newRedirectUri := u\<rparr>)"
| new_origin: "client_event s (s\<lparr>ce_newWebOrigin := u\<rparr>)"
| add_redirect: "client_event s (snd (addRedirectUri s))"
| add_origin: "client_event s (snd (addWebOrigin s))"
| delete_redirect: "client_event s (snd (deleteRedirectUri i s))"
| delete_origin: "client_event s (snd (deleteWebOrigin i s))"
| save: "client_event s (snd (client_save s))"
| saved: "client_event s (client_saved s)"

inductive_cases client_eventE: "client_event s s'"

inductive client_reachable :: "string \<Rightarrow> string list \<Rightarrow> client_rep \<Rightarrow> client_editor \<Rightarrow> bool" for realm protocols client where
  opened: "client_reachable realm protocols client (new_client_editor realm protocols client)"
| event: "client_reachable realm protocols client s \<Longrightarrow> client_event s s' \<Longrightarrow>
    client_reachable realm protocols client (after_event s s')"

subsection \<open>The settings and the copy agree\<close>

text \<open>Apart from the switches, the signature algorithm and the format of names, which \<open>save\<close> writes, every setting shown is the one
  that would be read from the copy.\<close>

definition in_step :: "client_editor \<Rightarrow> bool" where
  "in_step s \<longleftrightarrow>
     cl_attributes (ce_edit s) \<noteq> None \<and>
     ce_accessType s = access_type (ce_edit s) \<and>
     ce_xmlKeyName s = listed xmlKeyNameTranformers (client_attr xmlKeyName_attr (ce_edit s)) (Some ''KEY_ID'') \<and>
     ce_userInfoAlg s = or_else ''unsigned'' (client_attr ''user.info.response.signature.alg'' (ce_edit s)) \<and>
     ce_requestObjectAlg s = or_else ''any'' (client_attr ''request.object.signature.alg'' (ce_edit s)) \<and>
     ce_requestObjectRequired s = or_else ''not required'' (client_attr ''request.object.required'' (ce_edit s)) \<and>
     ce_signatureAlgorithm s \<in> insert None (Some ` set signatureAlgorithms) \<and>
     ce_nameIdFormat s \<in> insert None (Some ` set nameIdFormats)"

definition configured :: "client_rep \<Rightarrow> bool" where
  "configured c \<longleftrightarrow>
     (cl_authorizationServicesEnabled c \<longrightarrow> \<not> cl_publicClient c \<and> cl_serviceAccountsEnabled c) \<and>
     (\<not> cl_authorizationServicesEnabled c \<and> cl_bearerOnly c \<longrightarrow> \<not> cl_serviceAccountsEnabled c)"

lemma in_step_frame:
  assumes "in_step s" and "cl_attributes (ce_edit s') = cl_attributes (ce_edit s)"
    and "access_type (ce_edit s') = access_type (ce_edit s)" "ce_accessType s' = ce_accessType s" "ce_xmlKeyName s' = ce_xmlKeyName s"
      "ce_userInfoAlg s' = ce_userInfoAlg s" "ce_requestObjectAlg s' = ce_requestObjectAlg s"
      "ce_requestObjectRequired s' = ce_requestObjectRequired s" "ce_signatureAlgorithm s' = ce_signatureAlgorithm s"
      "ce_nameIdFormat s' = ce_nameIdFormat s"
  shows "in_step s'"
  using assms by (simp add: in_step_def client_attr_def)

lemma client_attr_edit:
  "cl_attributes (ce_edit s) \<noteq> None \<Longrightarrow>
     client_attr k (ce_edit (edit_attr k' v s)) = (if k = k' then v else client_attr k (ce_edit s))"
  by (auto simp: client_attr_def edit_attr_def)

lemma edit_attr_keeps [simp]:
  "access_type (ce_edit (edit_attr k v s)) = access_type (ce_edit s)"
  "cl_attributes (ce_edit (edit_attr k v s)) = None \<longleftrightarrow> cl_attributes (ce_edit s) = None"
  "ce_accessType (edit_attr k v s) = ce_accessType s" "ce_xmlKeyName (edit_attr k v s) = ce_xmlKeyName s"
  "ce_userInfoAlg (edit_attr k v s) = ce_userInfoAlg s" "ce_requestObjectAlg (edit_attr k v s) = ce_requestObjectAlg s"
  "ce_requestObjectRequired (edit_attr k v s) = ce_requestObjectRequired s"
  "ce_signatureAlgorithm (edit_attr k v s) = ce_signatureAlgorithm s" "ce_nameIdFormat (edit_attr k v s) = ce_nameIdFormat s"
  "ce_flags (edit_attr k v s) = ce_flags s" "ce_protocol (edit_attr k v s) = ce_protocol s"
  "ce_protocols (edit_attr k v s) = ce_protocols s" "ce_effects (edit_attr k v s) = ce_effects s"
  "cl_authorizationServicesEnabled (ce_edit (edit_attr k v s)) = cl_authorizationServicesEnabled (ce_edit s)"
  "cl_publicClient (ce_edit (edit_attr k v s)) = cl_publicClient (ce_edit s)"
  "cl_bearerOnly (ce_edit (edit_attr k v s)) = cl_bearerOnly (ce_edit s)"
  "cl_serviceAccountsEnabled (ce_edit (edit_attr k v s)) = cl_serviceAccountsEnabled (ce_edit s)"
  "cl_protocol (ce_edit (edit_attr k v s)) = cl_protocol (ce_edit s)"
  by (simp_all add: edit_attr_def access_type_def)

text \<open>Keys that the reading of the settings in \<open>in_step\<close> depends on.\<close>

definition choice_keys :: "string list" where
  "choice_keys = [xmlKeyName_attr, ''user.info.response.signature.alg'', ''request.object.signature.alg'', ''request.object.required'']"

lemma in_step_edit_attr:
  assumes "in_step s" and "k \<notin> set choice_keys"
  shows "in_step (edit_attr k v s)"
proof -
  have "client_attr j (ce_edit (edit_attr k v s)) = client_attr j (ce_edit s)" if "j \<in> set choice_keys" for j
    using assms that client_attr_edit [of s j k v] by (auto simp: in_step_def)
  then show ?thesis using assms(1) by (simp add: in_step_def choice_keys_def)
qed

lemma in_step_configure: "in_step s \<Longrightarrow> in_step (configureAuthorizationServices s)"
  by (simp add: in_step_def configureAuthorizationServices_def client_attr_def access_type_def ce_do_def Let_def)

lemma configure_configured: "in_step s \<Longrightarrow> configured (ce_edit (configureAuthorizationServices s))"
  by (simp add: configured_def configureAuthorizationServices_def ce_do_def Let_def)

lemma configured_configure:
  assumes "in_step s" and "configured (ce_edit s)"
  shows "ce_edit (configureAuthorizationServices s) = ce_edit s"
    and "ce_accessType (configureAuthorizationServices s) = ce_accessType s"
proof -
  obtain c where c: "ce_edit s = c" by simp
  have "c\<lparr>cl_publicClient := cl_publicClient c, cl_serviceAccountsEnabled := cl_serviceAccountsEnabled c\<rparr> = c"
    and "c\<lparr>cl_serviceAccountsEnabled := cl_serviceAccountsEnabled c\<rparr> = c" by simp_all
  with assms c show "ce_edit (configureAuthorizationServices s) = ce_edit s"
    by (auto simp: configured_def configureAuthorizationServices_def ce_do_def Let_def)
  from assms show "ce_accessType (configureAuthorizationServices s) = ce_accessType s"
    by (simp add: in_step_def configured_def configureAuthorizationServices_def access_type_def ce_do_def Let_def)
qed

lemma in_step_changed [simp]: "in_step (s\<lparr>ce_changed := b\<rparr>) = in_step s"
  by (simp add: in_step_def)

lemma watch_edit_in_step:
  assumes "in_step s"
  shows "in_step (watch_edit s)" and "configured (ce_edit (watch_edit s))"
  using in_step_configure [of "s\<lparr>ce_changed := isChanged s\<rparr>"] configure_configured [of "s\<lparr>ce_changed := isChanged s\<rparr>"] assms
  by (simp_all add: watch_edit_def)

lemma digest_edit_in_step:
  assumes "in_step s"
  shows "in_step (digest_edit s)" and "configured (ce_edit (digest_edit s))"
proof -
  note w = watch_edit_in_step [OF assms]
  show "in_step (digest_edit s)" using w watch_edit_in_step(1) [OF w(1)] by (simp add: digest_edit_def Let_def)
  show "configured (ce_edit (digest_edit s))"
    using w(2) watch_edit_in_step(2) [OF w(1)] by (cases "ce_edit (watch_edit s) = ce_edit s") (simp_all add: digest_edit_def Let_def)
qed

text \<open>The second run of the watch leaves the copy alone.\<close>

lemma watch_edit_stable: "in_step s \<Longrightarrow> ce_edit (watch_edit (watch_edit s)) = ce_edit (watch_edit s)"
  using watch_edit_in_step [of s] configured_configure(1) [of "(watch_edit s)\<lparr>ce_changed := isChanged (watch_edit s)\<rparr>"]
  by (simp add: watch_edit_def [of "watch_edit s"])

text \<open>Every event keeps the settings and the copy in step, before the watches run.\<close>

lemma listed_chosen [simp]: "a \<in> set xs \<Longrightarrow> listed xs (Val a) old = Some a"
  by (simp add: listed_def)

lemma or_else_simps [simp]: "or_else d (Val a) = a" "or_else d JsNull = d" "or_else d Undefined = d"
  by (simp_all add: or_else_def)

lemma choice_keys_distinct:
  "distinct (choice_keys @ [''saml.signature.algorithm'', ''saml_name_id_format''])"
  by (simp add: choice_keys_def xmlKeyName_attr_def)

lemma in_step_choices:
  assumes "in_step s"
  shows "a \<in> set signatureAlgorithms \<Longrightarrow> in_step (changeAlgorithm (s\<lparr>ce_signatureAlgorithm := Some a\<rparr>))"
    and "a \<in> set nameIdFormats \<Longrightarrow> in_step (changeNameIdFormat (s\<lparr>ce_nameIdFormat := Some a\<rparr>))"
proof -
  show "in_step (changeAlgorithm (s\<lparr>ce_signatureAlgorithm := Some a\<rparr>))" if "a \<in> set signatureAlgorithms"
    unfolding changeAlgorithm_def using assms that choice_keys_distinct by (intro in_step_edit_attr) (auto simp: in_step_def)
  show "in_step (changeNameIdFormat (s\<lparr>ce_nameIdFormat := Some a\<rparr>))" if "a \<in> set nameIdFormats"
    unfolding changeNameIdFormat_def using assms that choice_keys_distinct by (intro in_step_edit_attr) (auto simp: in_step_def)
qed

lemma in_step_attr_choices:
  assumes "in_step s"
  shows "a \<in> set xmlKeyNameTranformers \<Longrightarrow> in_step (changeSamlSigKeyNameTranformer (s\<lparr>ce_xmlKeyName := Some a\<rparr>))"
    and "in_step (changeUserInfoSignedResponseAlg (s\<lparr>ce_userInfoAlg := a\<rparr>))"
    and "in_step (changeRequestObjectSignatureAlg (s\<lparr>ce_requestObjectAlg := a\<rparr>))"
    and "in_step (changeRequestObjectRequired (s\<lparr>ce_requestObjectRequired := a\<rparr>))"
  using assms
  by (simp_all add: in_step_def xmlKeyName_attr_def client_attr_edit changeSamlSigKeyNameTranformer_def
      changeUserInfoSignedResponseAlg_def changeRequestObjectSignatureAlg_def changeRequestObjectRequired_def
      del: not_None_eq)

lemma in_step_access:
  "in_step s \<Longrightarrow> a \<in> set [''confidential'', ''public'', ''bearer-only''] \<Longrightarrow> in_step (changeAccessType (s\<lparr>ce_accessType := a\<rparr>))"
  by (auto simp: in_step_def changeAccessType_def access_type_def client_attr_def)

lemma in_step_write_flag: "in_step s \<Longrightarrow> in_step (write_flag f s)"
  unfolding write_flag_def by (rule in_step_edit_attr) (cases f; simp add: choice_keys_def xmlKeyName_attr_def)+

lemma in_step_write_flags: "in_step s \<Longrightarrow> in_step (fold write_flag fs s)"
  by (induction fs arbitrary: s) (simp_all add: in_step_write_flag)

lemma in_step_protocol: "in_step s \<Longrightarrow> in_step (s\<lparr>ce_edit := (ce_edit s)\<lparr>cl_protocol := p\<rparr>\<rparr>)"
  by (rule in_step_frame, assumption) (simp_all add: access_type_def)

lemma in_step_write_settings:
  assumes "in_step s"
  shows "in_step (write_settings s)"
proof -
  let ?s = "fold write_flag all_flags s"
  have k: "''saml.signature.algorithm'' \<notin> set choice_keys" "''saml_name_id_format'' \<notin> set choice_keys"
    using choice_keys_distinct by auto
  have "in_step (?s\<lparr>ce_edit := (ce_edit ?s)\<lparr>cl_protocol := ce_protocol ?s\<rparr>\<rparr>)"
    using assms by (intro in_step_protocol in_step_write_flags)
  then show ?thesis unfolding write_settings_def Let_def by (intro in_step_edit_attr k)
qed

lemma in_step_uris:
  assumes "in_step s"
  shows "in_step (snd (addRedirectUri s))" "in_step (snd (addWebOrigin s))" "in_step (snd (deleteRedirectUri i s))"
    "in_step (snd (deleteWebOrigin i s))"
  by (rule in_step_frame [OF assms];
      simp add: addRedirectUri_def addWebOrigin_def deleteRedirectUri_def deleteWebOrigin_def access_type_def split: option.split)+

lemma in_step_send: "in_step s \<Longrightarrow> in_step (send_client s)"
  by (rule in_step_frame, assumption) (simp_all add: send_client_def ce_do_def)

lemma in_step_save: "in_step s \<Longrightarrow> in_step (snd (client_save s))"
  using in_step_uris(1) [of s] in_step_uris(2) [of s] in_step_uris(2) [of "snd (addRedirectUri s)"]
  by (auto simp: client_save_def comp_bind_def comp_do_def in_step_send in_step_write_settings split: prod.splits res.splits)

lemma in_step_changeProtocol: "in_step s \<Longrightarrow> in_step (changeProtocol (s\<lparr>ce_protocol := p\<rparr>))"
  by (rule in_step_frame, assumption) (simp_all add: changeProtocol_def access_type_def)

lemma in_step_event:
  assumes "client_event s s'" and "in_step s"
  shows "in_step s'"
  using assms(1)
  by (cases rule: client_event.cases)
    (use assms(2) in \<open>auto simp: in_step_choices in_step_attr_choices in_step_access in_step_changeProtocol in_step_uris in_step_save
      set_flag_def switchChange_def set_standardFlow_def set_implicitFlow_def set_serviceAccounts_def
      set_authorizationServices_def disable_cancelled_def client_saved_def ce_do_def access_type_def elim!: in_step_frame\<close>)

lemma after_event_inv:
  assumes "in_step s'" and "configured (ce_edit s)"
  shows "in_step (after_event s s') \<and> configured (ce_edit (after_event s s'))"
  using assms digest_edit_in_step [OF assms(1)] by (auto simp: after_event_def watch_texts_def)

lemma listed_in: "old \<in> insert None (Some ` set xs) \<Longrightarrow> listed xs v old \<in> insert None (Some ` set xs)"
  by (cases v) (auto simp: listed_def)

lemma opened_in_step: "in_step (new_client_editor realm protocols client) \<and> configured (ce_edit (new_client_editor realm protocols client))"
proof -
  have "cl_attributes (with_attributes client) \<noteq> None" by (simp add: with_attributes_def split: option.split)
  then show ?thesis unfolding new_client_editor_def Let_def
    by (intro conjI digest_edit_in_step; simp add: in_step_def updateProperties_def Let_def listed_in [simplified])
qed

lemma client_invariant: "client_reachable realm protocols client s \<Longrightarrow> in_step s \<and> configured (ce_edit s)"
proof (induction rule: client_reachable.induct)
  case opened
  show ?case by (rule opened_in_step)
next
  case (event s s')
  then show ?case by (intro after_event_inv in_step_event [OF event.hyps(2)]) simp_all
qed

subsection \<open>What is saved is what is shown\<close>

lemma flag_attr_inj [simp]: "flag_attr f = flag_attr g \<longleftrightarrow> f = g"
  by (cases f; cases g) simp_all

lemma all_flags_complete: "f \<in> set all_flags"
  by (cases f) (simp_all add: all_flags_def)

lemma write_flag_keeps [simp]:
  "ce_flags (write_flag f s) = ce_flags s" "cl_attributes (ce_edit (write_flag f s)) = None \<longleftrightarrow> cl_attributes (ce_edit s) = None"
  "ce_protocol (write_flag f s) = ce_protocol s"
  by (simp_all add: write_flag_def)

lemma write_flags_attr:
  "cl_attributes (ce_edit s) \<noteq> None \<Longrightarrow>
     client_attr (flag_attr f) (ce_edit (fold write_flag fs s)) =
       (if f \<in> set fs then Val (if ce_flags s f then ''true'' else ''false'') else client_attr (flag_attr f) (ce_edit s))"
proof (induction fs arbitrary: s)
  case (Cons g fs)
  have "client_attr (flag_attr f) (ce_edit (write_flag g s)) =
      (if f = g then Val (if ce_flags s f then ''true'' else ''false'') else client_attr (flag_attr f) (ce_edit s))"
    using Cons.prems by (auto simp: write_flag_def client_attr_edit)
  then show ?case using Cons.IH [of "write_flag g s"] Cons.prems by (auto simp del: not_None_eq)
qed simp

lemma read_flag_other: "f \<noteq> g \<Longrightarrow> read_flag c g flags f = flags f"
  by (simp add: read_flag_def split: js.split)

lemma read_flag_same:
  "read_flag c f flags f = (case client_attr (flag_attr f) c of Val v \<Rightarrow> if v \<noteq> [] then v = ''true'' else flags f | _ \<Rightarrow> flags f)"
  by (simp add: read_flag_def split: js.split)

lemma read_flags:
  "fold (read_flag c) fs flags f =
     (case client_attr (flag_attr f) c of Val v \<Rightarrow> if f \<in> set fs \<and> v \<noteq> [] then v = ''true'' else flags f | _ \<Rightarrow> flags f)"
proof (induction fs arbitrary: flags)
  case (Cons g fs)
  show ?case
    by (cases "g = f") (simp_all add: Cons.IH read_flag_other read_flag_same split: js.split)
qed (simp split: js.split)

text \<open>The parts of the copy that the page reads back.\<close>

lemma write_flags_keeps [simp]:
  "cl_attributes (ce_edit (fold write_flag fs s)) = None \<longleftrightarrow> cl_attributes (ce_edit s) = None"
  "ce_protocol (fold write_flag fs s) = ce_protocol s" "ce_flags (fold write_flag fs s) = ce_flags s"
  "ce_signatureAlgorithm (fold write_flag fs s) = ce_signatureAlgorithm s" "ce_nameIdFormat (fold write_flag fs s) = ce_nameIdFormat s"
  "ce_accessType (fold write_flag fs s) = ce_accessType s" "ce_xmlKeyName (fold write_flag fs s) = ce_xmlKeyName s"
  "ce_userInfoAlg (fold write_flag fs s) = ce_userInfoAlg s" "ce_requestObjectAlg (fold write_flag fs s) = ce_requestObjectAlg s"
  "ce_requestObjectRequired (fold write_flag fs s) = ce_requestObjectRequired s" "ce_effects (fold write_flag fs s) = ce_effects s"
  "cl_authorizationServicesEnabled (ce_edit (fold write_flag fs s)) = cl_authorizationServicesEnabled (ce_edit s)"
  "cl_publicClient (ce_edit (fold write_flag fs s)) = cl_publicClient (ce_edit s)"
  "cl_bearerOnly (ce_edit (fold write_flag fs s)) = cl_bearerOnly (ce_edit s)"
  "cl_serviceAccountsEnabled (ce_edit (fold write_flag fs s)) = cl_serviceAccountsEnabled (ce_edit s)"
  by (induction fs arbitrary: s) (simp_all add: write_flag_def)

lemma flag_attr_other: "flag_attr f \<noteq> ''saml.signature.algorithm''" "flag_attr f \<noteq> ''saml_name_id_format''"
  by (cases f; simp)+

lemma write_settings_facts:
  assumes "in_step s"
  shows "client_attr (flag_attr f) (ce_edit (write_settings s)) = Val (if ce_flags s f then ''true'' else ''false'')"
    and "client_attr ''saml.signature.algorithm'' (ce_edit (write_settings s)) = js_string (ce_signatureAlgorithm s)"
    and "client_attr ''saml_name_id_format'' (ce_edit (write_settings s)) = js_string (ce_nameIdFormat s)"
    and "cl_protocol (ce_edit (write_settings s)) = ce_protocol s"
proof -
  let ?s = "fold write_flag all_flags s"
  let ?t = "?s\<lparr>ce_edit := (ce_edit ?s)\<lparr>cl_protocol := ce_protocol ?s\<rparr>\<rparr>"
  have a: "cl_attributes (ce_edit s) \<noteq> None" using assms by (simp add: in_step_def)
  have t: "client_attr k (ce_edit ?t) = client_attr k (ce_edit ?s)" "cl_attributes (ce_edit ?t) \<noteq> None" for k
    using a by (simp_all add: client_attr_def del: not_None_eq)
  show "client_attr (flag_attr f) (ce_edit (write_settings s)) = Val (if ce_flags s f then ''true'' else ''false'')"
    using t a write_flags_attr [OF a, of f all_flags] flag_attr_other [of f]
    by (simp add: write_settings_def client_attr_edit all_flags_complete Let_def del: not_None_eq)
qed (use assms in \<open>simp_all add: write_settings_def client_attr_edit in_step_def Let_def del: not_None_eq\<close>)

definition same_settings :: "client_editor \<Rightarrow> client_editor \<Rightarrow> bool" where
  "same_settings s t \<longleftrightarrow>
     ce_flags s = ce_flags t \<and> ce_accessType s = ce_accessType t \<and> ce_protocol s = ce_protocol t \<and>
     ce_signatureAlgorithm s = ce_signatureAlgorithm t \<and> ce_nameIdFormat s = ce_nameIdFormat t \<and> ce_xmlKeyName s = ce_xmlKeyName t \<and>
     ce_userInfoAlg s = ce_userInfoAlg t \<and> ce_requestObjectAlg s = ce_requestObjectAlg t \<and>
     ce_requestObjectRequired s = ce_requestObjectRequired t"

lemma same_settings_trans: "same_settings r s \<Longrightarrow> same_settings s t \<Longrightarrow> same_settings r t"
  by (simp add: same_settings_def)

lemma write_settings_same:
  "same_settings (write_settings s) s" "ce_effects (write_settings s) = ce_effects s"
  "configured (ce_edit (write_settings s)) = configured (ce_edit s)"
  by (simp_all add: same_settings_def write_settings_def configured_def Let_def)

text \<open>The texts typed into the two boxes are added first.\<close>

definition uris_added :: "client_editor \<Rightarrow> client_editor \<Rightarrow> bool" where
  "uris_added s t \<longleftrightarrow> same_settings t s \<and> ce_effects t = ce_effects s \<and> configured (ce_edit t) = configured (ce_edit s) \<and>
     (in_step s \<longrightarrow> in_step t)"

lemma uris_added_trans: "uris_added r s \<Longrightarrow> uris_added s t \<Longrightarrow> uris_added r t"
  by (auto simp: uris_added_def intro: same_settings_trans)

lemma uris_added_add: "uris_added s (snd (addRedirectUri s))" "uris_added s (snd (addWebOrigin s))" "uris_added s s"
  using in_step_uris [of s]
  by (auto simp: uris_added_def same_settings_def addRedirectUri_def addWebOrigin_def configured_def split: option.splits)

lemma client_save_cases:
  obtains (threw) t e where "client_save s = (Throw e, t)" "uris_added s t"
    | (sent) t where "client_save s = (Ok (), send_client (write_settings t))" "uris_added s t"
proof -
  define p where "p = (if str_truthy (ce_newRedirectUri s) then addRedirectUri s else (Ok (), s))"
  define t where "t = snd p"
  define q where "q = (if str_truthy (ce_newWebOrigin t) then addWebOrigin t else (Ok (), t))"
  have a: "uris_added s t" using uris_added_add [of s] by (simp add: t_def p_def)
  then have b: "uris_added s (snd q)" using uris_added_trans [OF a] uris_added_add [of t] by (simp add: q_def)
  have "client_save s = (case p of (Throw e, t) \<Rightarrow> (Throw e, t) | (Ok _, t) \<Rightarrow>
      (case q of (Throw e, u) \<Rightarrow> (Throw e, u) | (Ok _, u) \<Rightarrow> (Ok (), send_client (write_settings u))))"
    by (auto simp: client_save_def comp_bind_def comp_do_def p_def q_def t_def split: res.splits prod.splits)
  with a b that show thesis by (cases p; cases q; cases "fst p"; cases "fst q") (auto simp: t_def)
qed

lemma digest_keeps [simp]:
  "ce_flags (digest_edit s) = ce_flags s" "ce_protocol (digest_edit s) = ce_protocol s"
  "ce_signatureAlgorithm (digest_edit s) = ce_signatureAlgorithm s" "ce_nameIdFormat (digest_edit s) = ce_nameIdFormat s"
  by (simp_all add: digest_edit_def watch_edit_def configureAuthorizationServices_def ce_do_def Let_def)

lemma digest_configured:
  assumes "in_step s" and "configured (ce_edit s)"
  shows "ce_edit (digest_edit s) = ce_edit s"
  using configured_configure(1) [of "s\<lparr>ce_changed := isChanged s\<rparr>"] assms by (simp add: digest_edit_def watch_edit_def Let_def)

lemma reopened_edit:
  assumes "cl_attributes c \<noteq> None" and "configured c"
  shows "ce_edit (new_client_editor realm protocols c) = c"
  unfolding new_client_editor_def Let_def
  using assms
  by (subst digest_configured) (auto simp: in_step_def updateProperties_def with_attributes_def Let_def listed_in [simplified] split: option.splits)

lemma reopened_settings:
  assumes "cl_attributes c \<noteq> None"
  shows "ce_flags (new_client_editor realm protocols c) = fold (read_flag c) all_flags (\<lambda>_. False)"
    "ce_protocol (new_client_editor realm protocols c) = shown_protocol protocols (cl_protocol c)"
    "ce_signatureAlgorithm (new_client_editor realm protocols c) =
       listed signatureAlgorithms (client_attr ''saml.signature.algorithm'' c) None"
    "ce_nameIdFormat (new_client_editor realm protocols c) = listed nameIdFormats (client_attr ''saml_name_id_format'' c) None"
  using assms by (auto simp: new_client_editor_def updateProperties_def with_attributes_def Let_def)

lemma listed_js_string: "x \<in> insert None (Some ` set xs) \<Longrightarrow> listed xs (js_string x) None = x"
  by (auto simp: listed_def)

lemma shown_protocol_listed: "p \<in> set protocols \<Longrightarrow> p \<noteq> [] \<Longrightarrow> shown_protocol protocols (Some p) = Some p"
  by (auto simp: shown_protocol_def str_truthy_def index_in_None dest: index_in_Some split: option.splits)
   (metis index_in_None index_in_Some not_None_eq option.simps(9))

lemma sent_body:
  assumes "in_step s" and "configured (ce_edit s)" and "ce_effects (snd (client_save s)) = ce_effects s @ [Request m service ps b]"
  obtains t where "b = ce_edit (write_settings t)" "in_step t" "configured (ce_edit t)" "same_settings t s" "\<not> needs_redirect_uri b"
proof (cases rule: client_save_cases [of s])
  case (threw t e)
  with assms(3) show thesis by (simp add: uris_added_def)
next
  case (sent t)
  with assms(3) have "b = ce_edit (write_settings t)" "\<not> needs_redirect_uri b"
    by (auto simp: uris_added_def send_client_def ce_do_def write_settings_same(2) split: if_splits)
  with sent assms that show thesis by (auto simp: uris_added_def)
qed

text \<open>C23. What is saved is what was shown: whatever was done on the page of a client, when it shows a protocol that the server
  offers and sends the client, opening the page with
  the client that was sent shows the same access type, protocol, algorithms, formats, key name and switches. A client that logs users
  in through the browser is never sent without a redirect URI.\<close>

theorem client_settings_roundtrip:
  assumes "client_reachable realm protocols client s" and "ce_protocol s = Some p" and "p \<in> set protocols" and "p \<noteq> []"
    and "ce_effects (snd (client_save s)) = ce_effects s @ [Request m service ps b]"
  shows "same_settings (new_client_editor realm protocols b) s \<and> \<not> needs_redirect_uri b"
proof -
  from client_invariant [OF assms(1)] have i: "in_step s" "configured (ce_edit s)" by simp_all
  from i assms(5) obtain t where t: "b = ce_edit (write_settings t)" "in_step t" "configured (ce_edit t)" "same_settings t s"
      "\<not> needs_redirect_uri b"
    by (rule sent_body)
  let ?e = "new_client_editor realm protocols b" and ?w = "write_settings t"
  from t(2) have w: "in_step ?w" by (rule in_step_write_settings)
  then have a: "cl_attributes b \<noteq> None" by (simp add: t(1) in_step_def)
  have c: "configured b" using t(3) by (simp add: t(1) write_settings_same(3))
  have e: "ce_edit ?e = ce_edit ?w" using reopened_edit [OF a c] t(1) by simp
  have choices: "ce_accessType ?e = ce_accessType ?w" "ce_xmlKeyName ?e = ce_xmlKeyName ?w" "ce_userInfoAlg ?e = ce_userInfoAlg ?w"
      "ce_requestObjectAlg ?e = ce_requestObjectAlg ?w" "ce_requestObjectRequired ?e = ce_requestObjectRequired ?w"
    using opened_in_step [of realm protocols b] w e by (simp_all add: in_step_def)
  have flags: "ce_flags ?e = ce_flags t"
    by (rule ext, simp only: reopened_settings(1) [OF a] read_flags)
      (simp add: t(1) write_settings_facts(1) [OF t(2)] all_flags_complete)
  have sig: "ce_signatureAlgorithm ?e = ce_signatureAlgorithm t" "ce_nameIdFormat ?e = ce_nameIdFormat t"
    using t(2) by (simp_all only: reopened_settings(3,4) [OF a])
      (simp_all add: t(1) write_settings_facts(2,3) [OF t(2)] in_step_def listed_js_string)
  have "ce_protocol ?e = ce_protocol t"
    using shown_protocol_listed [OF assms(3,4)] assms(2) t(4)
    by (simp only: reopened_settings(2) [OF a]) (simp add: t(1) write_settings_facts(4) [OF t(2)] same_settings_def)
  with choices flags sig have "same_settings ?e t" using write_settings_same(1) [of t] by (simp add: same_settings_def)
  then show ?thesis using t(4,5) same_settings_trans by blast
qed

definition sample_client :: client_rep where
  "sample_client = \<lparr>cl_id = Some ''c1'', cl_protocol = Some ''openid-connect'', cl_bearerOnly = False, cl_publicClient = True,
     cl_standardFlowEnabled = True, cl_implicitFlowEnabled = False, cl_serviceAccountsEnabled = False,
     cl_authorizationServicesEnabled = False, cl_redirectUris = Some [], cl_webOrigins = Some [], cl_attributes = None\<rparr>"

definition sample_editor :: client_editor where
  "sample_editor =
     (let e = new_client_editor ''demo'' [''openid-connect'', ''saml''] sample_client;
          e = after_event e (set_flag TlsBoundTokens True e) in
      after_event e (e\<lparr>ce_newRedirectUri := Some ''https://app/*''\<rparr>))"

lemma write_flags_frame:
  "ce_realm (fold write_flag fs s) = ce_realm s" "ce_resolved (fold write_flag fs s) = ce_resolved s"
  "cl_redirectUris (ce_edit (fold write_flag fs s)) = cl_redirectUris (ce_edit s)"
  by (induction fs arbitrary: s) (simp_all add: write_flag_def edit_attr_def)

lemma send_client_sent:
  "cl_redirectUris (ce_edit s) = Some (u # us) \<Longrightarrow>
     ce_effects (send_client (write_settings s)) = ce_effects s @
       [Request ''PUT'' ''Client'' [(''realm'', ce_realm s), (''client'', undef_str (cl_id (ce_resolved s)))] (ce_edit (write_settings s))]"
  by (simp add: send_client_def needs_redirect_uri_def ce_do_def write_settings_def write_flags_frame edit_attr_def Let_def)

lemma sample_editor_facts:
  "ce_newRedirectUri sample_editor = Some ''https://app/*''" "ce_newWebOrigin sample_editor = None"
  "cl_redirectUris (ce_edit sample_editor) = Some []" "ce_realm sample_editor = ''demo''" "cl_id (ce_resolved sample_editor) = Some ''c1''"
  "ce_protocol sample_editor = Some ''openid-connect''" "ce_flags sample_editor TlsBoundTokens"
  "ce_accessType sample_editor = ''public''"
  by code_simp+

lemma sample_editor_reachable: "client_reachable ''demo'' [''openid-connect'', ''saml''] sample_client sample_editor"
  unfolding sample_editor_def Let_def
  by (intro client_reachable.event client_reachable.opened client_event.flag client_event.new_redirect)

theorem client_settings_roundtrip_witness:
  "\<exists>b. ce_effects (snd (client_save sample_editor)) = ce_effects sample_editor @
        [Request ''PUT'' ''Client'' [(''realm'', ''demo''), (''client'', ''c1'')] b] \<and>
      cl_redirectUris b = Some [''https://app/*''] \<and>
      ce_flags (new_client_editor ''demo'' [''openid-connect'', ''saml''] b) TlsBoundTokens \<and>
      ce_accessType (new_client_editor ''demo'' [''openid-connect'', ''saml''] b) = ''public''"
proof -
  define u where "u = snd (addRedirectUri sample_editor)"
  let ?b = "ce_edit (write_settings u)"
  note f = sample_editor_facts
  have u: "cl_redirectUris (ce_edit u) = Some [''https://app/*'']" "ce_effects u = ce_effects sample_editor"
      "ce_realm u = ''demo''" "cl_id (ce_resolved u) = Some ''c1''"
    by (simp_all add: u_def addRedirectUri_def f undef_str_def)
  have "client_save sample_editor = (Ok (), send_client (write_settings u))"
    by (simp add: client_save_def comp_bind_def comp_do_def u_def f addRedirectUri_def str_truthy_def)
  with send_client_sent [OF u(1)] u have s: "ce_effects (snd (client_save sample_editor)) = ce_effects sample_editor @
      [Request ''PUT'' ''Client'' [(''realm'', ''demo''), (''client'', ''c1'')] ?b]"
    by (simp add: undef_str_def)
  have "cl_redirectUris ?b = Some [''https://app/*'']"
    using u(1) by (simp add: write_settings_def write_flags_frame edit_attr_def Let_def)
  moreover have "same_settings (new_client_editor ''demo'' [''openid-connect'', ''saml''] ?b) sample_editor"
    using client_settings_roundtrip [OF sample_editor_reachable f(6) _ _ s] by simp
  ultimately show ?thesis using s f by (auto simp: same_settings_def)
qed

text \<open>A switch is no part of the comparison: an edit of the copy that is taken back afterwards hides that a switch was changed.\<close>

lemma switch_change_forgotten:
  "ce_changed (after_event t (set_standardFlow True t)) = False \<and> ce_flags (after_event t (set_standardFlow True t)) Encrypt"
  if "s = new_client_editor ''demo'' [''openid-connect'', ''saml''] sample_client"
    and "t = (let u = after_event s (set_flag Encrypt True s) in after_event u (set_standardFlow False u))"
  unfolding that by code_simp

text \<open>Once the administrator has agreed to disable authorization, every further edit asks again.\<close>

lemma disable_asked_again:
  "length (ce_effects t) = 1 \<and> length (ce_effects (after_event t (set_standardFlow False t))) = 2"
  if "s = new_client_editor ''demo'' [''openid-connect''] (sample_client\<lparr>cl_authorizationServicesEnabled := True\<rparr>)"
    and "t = after_event s (set_authorizationServices False s)"
  unfolding that by code_simp

subsection \<open>The watch settles\<close>

lemma watch_edit_configured: "in_step s \<Longrightarrow> configured (ce_edit s) \<Longrightarrow> ce_edit (watch_edit s) = ce_edit s"
  using configured_configure(1) [of "s\<lparr>ce_changed := isChanged s\<rparr>"] by (simp add: watch_edit_def)

lemma watch_edit_iterate:
  assumes "in_step s"
  shows "in_step ((watch_edit ^^ n) (watch_edit s)) \<and> ce_edit ((watch_edit ^^ n) (watch_edit s)) = ce_edit (watch_edit s)"
proof (induction n)
  case 0
  show ?case using watch_edit_in_step [OF assms] by simp
next
  case (Suc n)
  let ?t = "(watch_edit ^^ n) (watch_edit s)"
  have "configured (ce_edit ?t)" using Suc watch_edit_in_step(2) [OF assms] by simp
  with Suc have "ce_edit (watch_edit ?t) = ce_edit ?t" by (simp add: watch_edit_configured)
  with Suc watch_edit_in_step(1) [of ?t] show ?case by simp
qed

text \<open>C24. AngularJS repeats a watch until its value is stable, and gives up with an error after ten rounds. The watch on the edited
  client changes that client itself; after any event on the page the first round already reaches the value that all further
  rounds keep.\<close>

theorem client_watch_settles:
  assumes "client_reachable realm protocols client s" and "client_event s s'" and "0 < n"
  shows "ce_edit ((watch_edit ^^ n) s') = ce_edit (watch_edit s')"
proof -
  have i: "in_step s'" using client_invariant [OF assms(1)] in_step_event [OF assms(2)] by simp
  from assms(3) obtain k where "n = Suc k" by (cases n) auto
  then show ?thesis using watch_edit_iterate [OF i, of k] by (simp add: funpow_swap1)
qed

theorem client_watch_settles_witness:
  "cl_serviceAccountsEnabled (ce_edit ((watch_edit ^^ 10) (set_authorizationServices True sample_editor))) \<and>
   \<not> cl_publicClient (ce_edit ((watch_edit ^^ 10) (set_authorizationServices True sample_editor))) \<and>
   cl_publicClient (ce_edit sample_editor)"
proof -
  have "ce_edit ((watch_edit ^^ 10) (set_authorizationServices True sample_editor)) =
      ce_edit (watch_edit (set_authorizationServices True sample_editor))"
    by (rule client_watch_settles [OF sample_editor_reachable client_event.authz]) simp
  moreover have "cl_publicClient (ce_edit sample_editor)" by code_simp
  ultimately show ?thesis
    by (simp add: watch_edit_def configureAuthorizationServices_def set_authorizationServices_def ce_do_def Let_def)
qed

subsection \<open>A new client\<close>

record client_creator =
  cc_realm :: string
  cc_protocol :: "string option"
  cc_client :: client_rep
  cc_importing :: bool
  cc_changed :: bool
  cc_effects :: "client_rep ui_effect list"

definition empty_client :: client_rep where
  "empty_client = \<lparr>cl_id = None, cl_protocol = None, cl_bearerOnly = False, cl_publicClient = False, cl_standardFlowEnabled = False,
     cl_implicitFlowEnabled = False, cl_serviceAccountsEnabled = False, cl_authorizationServicesEnabled = False,
     cl_redirectUris = Some [], cl_webOrigins = None, cl_attributes = Some []\<rparr>"

definition new_client_creator :: "string \<Rightarrow> string list \<Rightarrow> client_creator" where
  "new_client_creator realm protocols =
     \<lparr>cc_realm = realm, cc_protocol = (case protocols of [] \<Rightarrow> None | p # _ \<Rightarrow> Some p), cc_client = empty_client,
      cc_importing = False, cc_changed = False, cc_effects = []\<rparr>"

definition create_import_answer :: "client_rep \<Rightarrow> client_creator \<Rightarrow> client_creator" where
  "create_import_answer data s =
     (let s = s\<lparr>cc_client := data\<rparr>;
          s = (if str_truthy (cl_protocol data) then s\<lparr>cc_protocol := cl_protocol data\<rparr> else s) in
      s\<lparr>cc_importing := True\<rparr>)"

definition create_changeProtocol :: "client_creator \<Rightarrow> client_creator" where
  "create_changeProtocol s =
     (if cc_protocol s = Some ''openid-connect'' then s\<lparr>cc_client := (cc_client s)\<lparr>cl_protocol := Some ''openid-connect''\<rparr>\<rparr>
      else if cc_protocol s = Some ''saml'' then s\<lparr>cc_client := (cc_client s)\<lparr>cl_protocol := Some ''saml''\<rparr>\<rparr>
      else s)"

text \<open>The watch on the client: \<open>client\<close> is the empty object that the route resolves.\<close>

definition create_watch :: "client_rep \<Rightarrow> client_creator \<Rightarrow> client_creator" where
  "create_watch client s = s\<lparr>cc_changed := (\<not> same_client (cc_client s) client)\<rparr>"

definition create_save :: "client_creator \<Rightarrow> client_creator" where
  "create_save s =
     (let s = s\<lparr>cc_client := (cc_client s)\<lparr>cl_protocol := cc_protocol s\<rparr>\<rparr> in
      s\<lparr>cc_effects := cc_effects s @ [Request ''POST'' ''Client'' [(''realm'', cc_realm s), (''client'', [])] (cc_client s)]\<rparr>)"

definition create_done :: "string \<Rightarrow> client_creator \<Rightarrow> client_creator" where
  "create_done location s =
     s\<lparr>cc_changed := False,
       cc_effects := cc_effects s @ [GoTo (''/realms/'' @ cc_realm s @ ''/clients/'' @ after_last CHR ''/'' location),
         Notify ''success'' ''The client has been created.'']\<rparr>"

text \<open>The protocol that is shown is the one that is sent, also after an import.\<close>

lemma create_sends_shown_protocol:
  "cc_effects (create_save s) = cc_effects s @
     [Request ''POST'' ''Client'' [(''realm'', cc_realm s), (''client'', [])] ((cc_client s)\<lparr>cl_protocol := cc_protocol s\<rparr>)]"
  by (simp add: create_save_def Let_def)

subsection \<open>The list of clients\<close>

record client_list =
  cll_clients :: "string list"
  cll_filtered :: "string list"
  cll_totalItems :: int
  cll_currentPage :: int
  cll_currentPageInput :: int
  cll_numberOfPages :: int
  cll_pageSize :: int

definition new_client_list :: client_list where
  "new_client_list = \<lparr>cll_clients = [], cll_filtered = [], cll_totalItems = 0, cll_currentPage = 1, cll_currentPageInput = 1,
     cll_numberOfPages = 1, cll_pageSize = 20\<rparr>"

definition pages_of :: "int \<Rightarrow> int \<Rightarrow> int" where
  "pages_of n k = \<lceil>of_int n / (of_int k :: rat)\<rceil>"

definition clients_answer :: "string list \<Rightarrow> client_list \<Rightarrow> client_list" where
  "clients_answer clients s =
     s\<lparr>cll_numberOfPages := pages_of (int (length clients)) (cll_pageSize s), cll_clients := clients\<rparr>"

text \<open>The watch on the search; what the filter of AngularJS lets through is the argument \<open>matches\<close>.\<close>

definition search_changed :: "(string \<Rightarrow> bool) \<Rightarrow> client_list \<Rightarrow> client_list" where
  "search_changed matches s =
     (let s = s\<lparr>cll_filtered := filter matches (cll_clients s)\<rparr>;
          s = s\<lparr>cll_totalItems := int (length (cll_filtered s))\<rparr> in
      s\<lparr>cll_numberOfPages := pages_of (cll_totalItems s) (cll_pageSize s), cll_currentPage := 1, cll_currentPageInput := 1\<rparr>)"

definition list_query :: "string \<Rightarrow> unit ui_effect" where
  "list_query realm = Request ''GET'' ''Client'' [(''realm'', realm), (''viewableOnly'', ''true'')] ()"

definition searchClient :: "string \<Rightarrow> string option \<Rightarrow> unit ui_effect" where
  "searchClient realm clientId =
     Request ''GET'' ''Client''
       ([(''realm'', realm), (''viewableOnly'', ''true'')] @ (case clientId of None \<Rightarrow> [] | Some c \<Rightarrow> [(''clientId'', c)])) ()"

definition list_removeClient :: "string \<Rightarrow> unit ui_effect" where
  "list_removeClient clientId = ConfirmDelete clientId ''client''"

definition list_removeClient_confirmed :: "string \<Rightarrow> string \<Rightarrow> unit ui_effect" where
  "list_removeClient_confirmed realm i = Request ''DELETE'' ''Client'' [(''realm'', realm), (''client'', i)] ()"

definition list_client_removed :: "unit ui_effect list" where
  "list_client_removed = [Reload, Notify ''success'' ''The client has been deleted.'']"

record exported_client =
  xc_id :: "string option"
  xc_clientId :: string
  xc_mappers :: "(string option \<times> string) list option"

definition exportClient :: "exported_client \<Rightarrow> exported_client \<times> string" where
  "exportClient c =
     (let copy = c\<lparr>xc_id := None\<rparr>;
          copy = copy\<lparr>xc_mappers := map_option (map (\<lambda>(i, m). (None, m))) (xc_mappers copy)\<rparr> in
      (copy, xc_clientId copy @ ''.json''))"

text \<open>A filtered list needs no more pages than the full one.\<close>

lemma search_pages_bound:
  "0 < cll_pageSize s \<Longrightarrow>
     cll_numberOfPages (search_changed matches s) \<le> cll_numberOfPages (clients_answer (cll_clients s) s)"
  by (simp add: search_changed_def clients_answer_def pages_of_def Let_def ceiling_mono divide_right_mono)

end
