(* ===== verification/Scope_Editor.thy ===== *)
theory Scope_Editor
  imports Client_Editor
begin

section \<open>The admin console: the editor of a client scope\<close>

text \<open>
  controllers/clients.js: \<open>ClientScopeTabCtrl\<close> (2418-2430), \<open>ClientScopeListCtrl\<close> (2434-2449) and
  \<open>ClientScopeDetailCtrl\<close> (2571-2677). Fields of a scope that the page only passes on are left out.
\<close>

subsection \<open>Removing a scope\<close>

definition tab_removeClientScope :: "string \<Rightarrow> unit ui_effect" where
  "tab_removeClientScope name = ConfirmDelete name ''client scope''"

definition removeClientScope_confirmed :: "string \<Rightarrow> string \<Rightarrow> unit ui_effect" where
  "removeClientScope_confirmed realm i = Request ''DELETE'' ''ClientScope'' [(''realm'', realm), (''clientScope'', i)] ()"

definition tab_clientScope_removed :: "string \<Rightarrow> unit ui_effect list" where
  "tab_clientScope_removed realm =
     [GoTo (''/realms/'' @ realm @ ''/client-scopes''), Notify ''success'' ''The client scope has been deleted.'']"

definition list_clientScope_removed :: "unit ui_effect list" where
  "list_clientScope_removed = [Reload, Notify ''success'' ''The client scope been deleted.'']"

subsection \<open>The editor\<close>

record scope_detail =
  sd_id :: "string option"
  sd_name :: "string option"
  sd_protocol :: "string option"
  sd_attributes :: "attrs option"

record scope_editor =
  se_realm :: string
  se_protocols :: "string list"
  se_create :: bool
  se_saved :: scope_detail
  se_scope :: scope_detail
  se_protocol :: "string option"
  se_displayOnConsentScreen :: bool
  se_changed :: bool
  se_effects :: "scope_detail ui_effect list"

definition se_do :: "scope_detail ui_effect list \<Rightarrow> scope_editor \<Rightarrow> scope_editor" where
  "se_do es s = s\<lparr>se_effects := se_effects s @ es\<rparr>"

definition displayed :: "string js \<Rightarrow> bool" where
  "displayed v = (case v of Val x \<Rightarrow> if x \<noteq> [] then x = ''true'' else True | _ \<Rightarrow> True)"

definition scope_updateProperties :: "scope_editor \<Rightarrow> scope_editor" where
  "scope_updateProperties s =
     (let as = (case sd_attributes (se_scope s) of None \<Rightarrow> [] | Some as \<Rightarrow> as) in
      s\<lparr>se_scope := (se_scope s)\<lparr>sd_attributes := Some as\<rparr>,
        se_protocol := shown_protocol (se_protocols s) (sd_protocol (se_scope s)),
        se_displayOnConsentScreen := displayed (attr ''display.on.consent.screen'' as)\<rparr>)"

definition same_scope :: "scope_detail \<Rightarrow> scope_detail \<Rightarrow> bool" where
  "same_scope a b \<longleftrightarrow>
     sd_id a = sd_id b \<and> sd_name a = sd_name b \<and> sd_protocol a = sd_protocol b \<and>
     (case (sd_attributes a, sd_attributes b) of (None, None) \<Rightarrow> True | (Some as, Some bs) \<Rightarrow> same_attrs as bs | _ \<Rightarrow> False)"

definition watch_scope :: "scope_editor \<Rightarrow> scope_editor" where
  "watch_scope s = s\<lparr>se_changed := (\<not> same_scope (se_scope s) (se_saved s))\<rparr>"

definition new_scope_editor :: "string \<Rightarrow> string list \<Rightarrow> scope_detail \<Rightarrow> scope_editor" where
  "new_scope_editor realm protocols scope =
     (let create = (\<not> str_truthy (sd_name scope)) in
      watch_scope (scope_updateProperties
        \<lparr>se_realm = realm, se_protocols = protocols, se_create = create, se_saved = scope,
         se_scope = (if \<not> create then scope else \<lparr>sd_id = None, sd_name = None, sd_protocol = None, sd_attributes = None\<rparr>),
         se_protocol = None, se_displayOnConsentScreen = False, se_changed = False, se_effects = []\<rparr>))"

definition scope_changeProtocol :: "scope_editor \<Rightarrow> scope_editor" where
  "scope_changeProtocol s =
     (if se_protocol s = Some ''openid-connect'' then s\<lparr>se_scope := (se_scope s)\<lparr>sd_protocol := Some ''openid-connect''\<rparr>\<rparr>
      else if se_protocol s = Some ''saml'' then s\<lparr>se_scope := (se_scope s)\<lparr>sd_protocol := Some ''saml''\<rparr>\<rparr>
      else s)"

definition scope_body :: "scope_editor \<Rightarrow> scope_detail" where
  "scope_body s =
     (se_scope s)\<lparr>sd_protocol := se_protocol s,
       sd_attributes := map_option (set_attr ''display.on.consent.screen''
         (Val (if se_displayOnConsentScreen s then ''true'' else ''false''))) (sd_attributes (se_scope s))\<rparr>"

definition scope_save :: "scope_editor \<Rightarrow> scope_editor" where
  "scope_save s =
     (let s = s\<lparr>se_scope := scope_body s\<rparr> in
      if se_create s then
        se_do [Request ''POST'' ''ClientScope'' [(''realm'', se_realm s), (''clientScope'', [])] (se_scope s)] s
      else
        se_do [Request ''PUT'' ''ClientScope'' [(''realm'', se_realm s), (''clientScope'', undef_str (sd_id (se_saved s)))] (se_scope s)] s)"

definition scope_created :: "string \<Rightarrow> scope_editor \<Rightarrow> scope_editor" where
  "scope_created location s =
     se_do [GoTo (''/realms/'' @ se_realm s @ ''/client-scopes/'' @ after_last CHR ''/'' location),
            Notify ''success'' ''The client scope has been created.''] (s\<lparr>se_changed := False\<rparr>)"

definition scope_updated :: "scope_editor \<Rightarrow> scope_editor" where
  "scope_updated s =
     (let s = s\<lparr>se_changed := False, se_saved := se_scope s\<rparr> in
      se_do [GoTo (''/realms/'' @ se_realm s @ ''/client-scopes/'' @ undef_str (sd_id (se_saved s))),
             Notify ''success'' ''Your changes have been saved to the client scope.''] s)"

definition scope_cancel :: "scope_editor \<Rightarrow> scope_editor" where
  "scope_cancel s = se_do [GoTo (''/realms/'' @ se_realm s @ ''/client-scopes'')] s"

lemma same_scope_refl: "same_scope a a"
  by (simp add: same_scope_def same_attrs_iff split: option.split)

text \<open>A scope that was saved is opened with the protocol and the switch it was saved with, and then nothing counts as changed.\<close>

lemma scope_roundtrip:
  assumes "sd_attributes (se_scope s) \<noteq> None" and "str_truthy (sd_name (se_scope s))"
    and "se_protocol s = Some p" and "p \<in> set protocols" and "p \<noteq> []"
  shows "se_protocol (new_scope_editor realm protocols (scope_body s)) = se_protocol s \<and>
    se_displayOnConsentScreen (new_scope_editor realm protocols (scope_body s)) = se_displayOnConsentScreen s \<and>
    \<not> se_changed (new_scope_editor realm protocols (scope_body s))"
proof -
  from assms(1) obtain as where a: "sd_attributes (se_scope s) = Some as" by auto
  show ?thesis using assms(2,3) shown_protocol_listed [OF assms(4,5)]
    by (simp add: new_scope_editor_def scope_updateProperties_def watch_scope_def scope_body_def a displayed_def same_scope_refl Let_def)
qed

text \<open>An existing scope without attributes counts as changed as soon as it is opened: the editor's copy gets empty ones.\<close>

lemma scope_without_attributes_changed:
  "str_truthy (sd_name c) \<Longrightarrow> sd_attributes c = None \<Longrightarrow> se_changed (new_scope_editor realm protocols c)"
  by (simp add: new_scope_editor_def scope_updateProperties_def watch_scope_def same_scope_def Let_def)

end
