(* ===== verification/Authz_Lists.thy ===== *)
theory Authz_Lists
  imports Console
begin

section \<open>The admin console: lists of authorization data\<close>

text \<open>
  authz/authz-controller.js: \<open>ResourceServerResourceCtrl\<close> (147-250), \<open>ResourceServerScopeCtrl\<close> (477-579),
  \<open>ResourceServerPolicyCtrl\<close> (680-784) and \<open>ResourceServerPermissionCtrl\<close> (786-889), four lists with the same
  paging, and the objects \<open>Resources\<close> (82-110), \<open>Policies\<close> (112-145) and \<open>Scopes\<close> (447-475) that delete an entry;
  authz/authz-services.js: the message of \<open>AuthzDialog\<close> (112-129). Entries are pairs of an id and a name.
\<close>

subsection \<open>The lists\<close>

datatype list_kind = ResourceList | ScopeList | PolicyList | PermissionList

record authz_list =
  al_kind :: list_kind
  al_realm :: string
  al_client :: string
  al_first :: int
  al_max :: int
  al_search :: "string option"
  al_items :: "(string \<times> string) list"
  al_searchLoaded :: bool
  al_lastSearch :: "string option"
  al_detailsFilter :: bool
  al_details :: "(string \<times> bool) list"
  al_policyProviders :: "string list"
  al_viewUrl :: "string option"
  al_sent :: "(int \<times> int \<times> string option) list"
  al_effects :: "unit ui_effect list"

fun list_service :: "list_kind \<Rightarrow> string" where
  "list_service ResourceList = ''ResourceServerResource''"
| "list_service ScopeList = ''ResourceServerScope''"
| "list_service PolicyList = ''ResourceServerPolicy''"
| "list_service PermissionList = ''ResourceServerPermission''"

fun list_path :: "list_kind \<Rightarrow> string" where
  "list_path ResourceList = ''resource''"
| "list_path ScopeList = ''scope''"
| "list_path PolicyList = ''policy''"
| "list_path PermissionList = ''permission''"

definition al_do :: "unit ui_effect list \<Rightarrow> authz_list \<Rightarrow> authz_list" where
  "al_do es s = s\<lparr>al_effects := al_effects s @ es\<rparr>"

definition al_url :: "authz_list \<Rightarrow> string \<Rightarrow> string" where
  "al_url s rest = ''/realms/'' @ al_realm s @ ''/clients/'' @ al_client s @ ''/authz/resource-server/'' @ rest"

definition al_params :: "authz_list \<Rightarrow> (string \<times> string) list" where
  "al_params s = [(''realm'', al_realm s), (''client'', al_client s)]"

text \<open>The query is recorded by what changes in it: the first entry, the number of entries and the search.\<close>

definition al_searchQuery :: "authz_list \<Rightarrow> authz_list" where
  "al_searchQuery s = s\<lparr>al_searchLoaded := False, al_sent := al_sent s @ [(al_first s, al_max s, al_search s)]\<rparr>"

definition new_authz_list :: "list_kind \<Rightarrow> string \<Rightarrow> string \<Rightarrow> authz_list" where
  "new_authz_list k realm client =
     (let s = \<lparr>al_kind = k, al_realm = realm, al_client = client, al_first = 0, al_max = 20, al_search = None, al_items = [],
            al_searchLoaded = False, al_lastSearch = None, al_detailsFilter = False, al_details = [], al_policyProviders = [],
            al_viewUrl = None, al_sent = [], al_effects = []\<rparr>;
          s = (if k \<in> {PolicyList, PermissionList} then al_do [Request ''GET'' ''PolicyProvider'' (al_params s) ()] s else s) in
      al_do [Request ''GET'' ''ResourceServer'' (al_params s) ()] s)"

text \<open>Policies are created from the providers of types other than \<open>resource\<close> and \<open>scope\<close>, permissions from these two.\<close>

definition providers_answer :: "string list \<Rightarrow> authz_list \<Rightarrow> authz_list" where
  "providers_answer types s =
     s\<lparr>al_policyProviders := al_policyProviders s @
        (if al_kind s = PolicyList then filter (\<lambda>t. t \<noteq> ''resource'' \<and> t \<noteq> ''scope'') types
         else filter (\<lambda>t. t = ''resource'' \<or> t = ''scope'') types)\<rparr>"

definition list_server_answer :: "authz_list \<Rightarrow> authz_list" where
  "list_server_answer s = al_searchQuery s"

definition list_addPolicy :: "string \<Rightarrow> authz_list \<Rightarrow> authz_list" where
  "list_addPolicy policyType s = al_do [GoTo (al_url s (list_path (al_kind s) @ ''/'' @ policyType @ ''/create''))] s"

definition list_createPolicy :: "string \<Rightarrow> authz_list \<Rightarrow> authz_list" where
  "list_createPolicy i s =
     al_do [GoTo (al_url s (''permission/'' @ list_path (al_kind s) @ ''/create?'' @
              (if al_kind s = ResourceList then ''rsrid='' else ''scpid='') @ i))]
       (s\<lparr>al_viewUrl := Some (al_url s (list_path (al_kind s)))\<rparr>)"

definition al_firstPage :: "authz_list \<Rightarrow> authz_list" where
  "al_firstPage s = al_searchQuery (s\<lparr>al_first := 0\<rparr>)"

definition al_previousPage :: "authz_list \<Rightarrow> authz_list" where
  "al_previousPage s =
     (let s = s\<lparr>al_first := al_first s - al_max s\<rparr>;
          s = (if al_first s < 0 then s\<lparr>al_first := 0\<rparr> else s) in
      al_searchQuery s)"

definition al_nextPage :: "authz_list \<Rightarrow> authz_list" where
  "al_nextPage s = al_searchQuery (s\<lparr>al_first := al_first s + al_max s\<rparr>)"

subsection \<open>Details\<close>

definition details_requests :: "authz_list \<Rightarrow> string \<Rightarrow> unit ui_effect list" where
  "details_requests s i =
     (case al_kind s of
        ResourceList \<Rightarrow> [Request ''GET'' ''ResourceServerResource.scopes'' (al_params s @ [(''rsrid'', i)]) ()]
      | ScopeList \<Rightarrow> [Request ''GET'' ''ResourceServerScope.resources'' (al_params s @ [(''id'', i)]) ()]
      | PolicyList \<Rightarrow> [Request ''GET'' ''ResourceServerPolicy.dependentPolicies'' (al_params s @ [(''id'', i)]) ()]
      | PermissionList \<Rightarrow> [Request ''GET'' ''ResourceServerPermission.associatedPolicies'' (al_params s @ [(''id'', i)]) ()])"

definition loadDetails :: "string \<Rightarrow> authz_list \<Rightarrow> authz_list" where
  "loadDetails i s =
     (case map_of (al_details s) i of
        Some loaded \<Rightarrow> s\<lparr>al_details := (i, \<not> loaded) # al_details s\<rparr>
      | None \<Rightarrow> al_do (details_requests s i) (s\<lparr>al_details := (i, False) # al_details s\<rparr>))"

text \<open>The answer; resources and scopes ask for their permissions next, and only the second answer marks the entry as loaded.\<close>

definition details_answer :: "bool \<Rightarrow> string \<Rightarrow> authz_list \<Rightarrow> authz_list" where
  "details_answer second i s =
     (if \<not> second \<and> al_kind s = ResourceList then
        al_do [Request ''GET'' ''ResourceServerResource.permissions'' (al_params s @ [(''rsrid'', i)]) ()] s
      else if \<not> second \<and> al_kind s = ScopeList then
        al_do [Request ''GET'' ''ResourceServerScope.permissions'' (al_params s @ [(''id'', i)]) ()] s
      else s\<lparr>al_details := (i, True) # al_details s\<rparr>)"

text \<open>\<open>showDetails\<close> reads the event's target first, which raises when there is no event.\<close>

definition showDetails :: "string option \<Rightarrow> string option \<Rightarrow> (authz_list, unit) comp" where
  "showDetails item target s =
     (case target of
        None \<Rightarrow> (Throw TypeError, s)
      | Some t \<Rightarrow>
          if t = ''a'' \<or> t = ''button'' then (Ok (), s)
          else
            (case item of
               Some i \<Rightarrow> (Ok (), loadDetails i s)
             | None \<Rightarrow> (Ok (), fold loadDetails (map fst (al_items s)) s)))"

text \<open>The answer of a query replaces what is shown, whichever query it answers. It brings new objects, without details.\<close>

definition al_answer :: "(string \<times> string) list \<Rightarrow> (authz_list, unit) comp" where
  "al_answer response s =
     (let s = s\<lparr>al_searchLoaded := True, al_lastSearch := al_search s, al_items := response, al_details := []\<rparr> in
      if al_detailsFilter s then showDetails None None s else (Ok (), s))"

subsection \<open>Deleting an entry\<close>

definition list_type :: "list_kind \<Rightarrow> string" where
  "list_type k = (case k of ResourceList \<Rightarrow> ''Resource'' | ScopeList \<Rightarrow> ''Scope'' | PolicyList \<Rightarrow> ''Policy'' | PermissionList \<Rightarrow> ''Permission'')"

definition dependents_request :: "string \<Rightarrow> authz_list \<Rightarrow> authz_list" where
  "dependents_request i s =
     al_do [case al_kind s of
              ResourceList \<Rightarrow> Request ''GET'' ''ResourceServerResource.permissions'' (al_params s @ [(''rsrid'', i)]) ()
            | ScopeList \<Rightarrow> Request ''GET'' ''ResourceServerScope.permissions'' (al_params s @ [(''id'', i)]) ()
            | k \<Rightarrow> Request ''GET'' (list_service k @ ''.dependentPolicies'') (al_params s @ [(''id'', i)]) ()] s"

definition dependents_list :: "string list \<Rightarrow> string" where
  "dependents_list names = fold (\<lambda>n msg. msg @ ''<li><strong>'' @ n @ ''</strong></li>'') names ''<ul>'' @ ''</ul>''"

fun dependents_intro :: "list_kind \<Rightarrow> string" where
  "dependents_intro ResourceList = ''<p>This resource is referenced in some permissions:</p>''"
| "dependents_intro ScopeList = ''<p>This scope is referenced in some permissions:</p>''"
| "dependents_intro _ = ''<p>This policy is being used by other policies:</p>''"

fun dependents_warning :: "list_kind \<Rightarrow> string" where
  "dependents_warning ResourceList =
     ''<p>If you remove this resource, the permissions above will be affected and will not be associated with this resource anymore.</p>''"
| "dependents_warning ScopeList =
     ''<p>If you remove this scope, the permissions above will be affected and will not be associated with this scope anymore.</p>''"
| "dependents_warning _ =
     ''<p>If you remove this policy, the policies above will be affected and will not be associated with this policy anymore.</p>''"

definition dependents_message :: "list_kind \<Rightarrow> bool \<Rightarrow> string list \<Rightarrow> string" where
  "dependents_message k deleteConsent names =
     (if names \<noteq> [] \<and> \<not> deleteConsent then dependents_intro k @ dependents_list names @ dependents_warning k else [])"

text \<open>The dialog of \<open>AuthzDialog\<close> shows this text as trusted HTML.\<close>

definition confirmDeleteWithMsg :: "string \<Rightarrow> string \<Rightarrow> string \<Rightarrow> string \<times> string" where
  "confirmDeleteWithMsg name type msg =
     (''Delete '' @ type,
      msg @ ''Are you sure you want to permanently delete the '' @ type @ '' <strong>'' @ name @ ''</strong> ?'')"

definition dependents_answer :: "bool \<Rightarrow> string \<Rightarrow> string list \<Rightarrow> authz_list \<Rightarrow> authz_list" where
  "dependents_answer deleteConsent name names s =
     (let (title, text) = confirmDeleteWithMsg name (list_type (al_kind s)) (dependents_message (al_kind s) deleteConsent names) in
      al_do [Confirm title text] s)"

definition delete_confirmed :: "string \<Rightarrow> authz_list \<Rightarrow> authz_list" where
  "delete_confirmed i s =
     al_do [Request ''DELETE'' (list_service (al_kind s)) (al_params s @ [(if al_kind s = ResourceList then ''rsrid'' else ''id'', i)]) ()] s"

definition delete_done :: "authz_list \<Rightarrow> authz_list" where
  "delete_done s =
     (let go = GoTo (al_url s (list_path (al_kind s)));
          done = Notify ''success'' (''The '' @ list_path (al_kind s) @ '' has been deleted.'') in
      if al_kind s \<in> {ResourceList, ScopeList} then al_do [go, Reload, done] s else al_do [go, done, Reload] s)"

subsection \<open>What is shown of the lists\<close>

text \<open>The names of an entry and of what depends on it stand in the trusted text as they are. The dialogs of the rest of the
  console escape them (\<open>escapeHtml_no_tags\<close> in Console).\<close>

lemma sublist_dependents: "n \<in> set names \<Longrightarrow> sublist n (dependents_list names)"
proof -
  have "sublist n (fold (\<lambda>n msg. msg @ ''<li><strong>'' @ n @ ''</strong></li>'') names acc)" if "n \<in> set names \<or> sublist n acc" for acc
    using that
  proof (induction names arbitrary: acc)
    case (Cons m names)
    have "sublist n (acc @ ''<li><strong>'' @ m @ ''</strong></li>'')" if "n = m \<or> sublist n acc"
    proof (cases "n = m")
      case True
      then show ?thesis by (metis append_assoc sublist_appendI)
    next
      case False
      with that have "sublist n acc" by simp
      then show ?thesis by (simp add: sublist_append)
    qed
    then show ?case using Cons by auto
  qed simp
  then show "n \<in> set names \<Longrightarrow> sublist n (dependents_list names)" by (simp add: dependents_list_def sublist_append)
qed

lemma sublist_between: "sublist xs ys \<Longrightarrow> sublist xs (as @ ys @ bs)"
  by (metis append_assoc sublist_def)

lemma delete_dialog_unescaped:
  "sublist name (snd (confirmDeleteWithMsg name type msg))"
  "n \<in> set names \<Longrightarrow> sublist n (dependents_message k False names)"
proof -
  show "sublist name (snd (confirmDeleteWithMsg name type msg))"
    unfolding confirmDeleteWithMsg_def snd_conv by (metis append_assoc sublist_appendI)
  assume "n \<in> set names"
  then have "sublist n (dependents_list names)" "names \<noteq> []" by (auto intro: sublist_dependents)
  then show "sublist n (dependents_message k False names)"
    by (simp add: dependents_message_def sublist_between)
qed

text \<open>With the filter for details set, every answer raises.\<close>

lemma details_filter_raises: "al_detailsFilter s \<Longrightarrow> fst (al_answer response s) = Throw TypeError"
  by (simp add: al_answer_def showDetails_def Let_def)

text \<open>Answers are not told apart: the answer to the query of an earlier page replaces that of the page the user is on.\<close>

lemma stale_page_shown:
  "al_items (snd (al_answer page1 (snd (al_answer page2 (al_nextPage s))))) = page1"
  by (simp add: al_answer_def showDetails_def Let_def)

inductive authz_list_step :: "authz_list \<Rightarrow> authz_list \<Rightarrow> bool" where
  first: "authz_list_step s (al_firstPage s)"
| previous: "authz_list_step s (al_previousPage s)"
| next_page: "authz_list_step s (al_nextPage s)"
| search: "authz_list_step s (al_searchQuery (s\<lparr>al_search := t\<rparr>))"
| sized: "n \<in> {5, 10, 20} \<Longrightarrow> authz_list_step s (al_searchQuery (s\<lparr>al_max := n\<rparr>))"
| server: "authz_list_step s (list_server_answer s)"
| answer: "authz_list_step s (snd (al_answer r s))"
| show_details: "authz_list_step s (snd (showDetails i t s))"
| details: "authz_list_step s (details_answer b i s)"

inductive authz_list_reachable :: "authz_list \<Rightarrow> bool" where
  opened: "authz_list_reachable (new_authz_list k realm client)"
| step: "authz_list_reachable s \<Longrightarrow> authz_list_step s s' \<Longrightarrow> authz_list_reachable s'"

definition list_query_ok :: "authz_list \<Rightarrow> bool" where
  "list_query_ok s \<longleftrightarrow>
     0 \<le> al_first s \<and> al_max s \<in> {5, 10, 20} \<and> list_all (\<lambda>(f, m, _). 0 \<le> f \<and> m \<in> {5, 10, 20}) (al_sent s)"

lemma loadDetails_query [simp]:
  "al_first (loadDetails i s) = al_first s" "al_max (loadDetails i s) = al_max s" "al_sent (loadDetails i s) = al_sent s"
  by (simp_all add: loadDetails_def al_do_def split: option.split)

lemma loadDetails_all_query [simp]:
  "al_first (fold loadDetails is s) = al_first s" "al_max (fold loadDetails is s) = al_max s" "al_sent (fold loadDetails is s) = al_sent s"
  by (induction "is" arbitrary: s) simp_all

lemma showDetails_query:
  "al_first (snd (showDetails i t s)) = al_first s" "al_max (snd (showDetails i t s)) = al_max s"
  "al_sent (snd (showDetails i t s)) = al_sent s"
  by (simp_all add: showDetails_def split: option.split)

lemma list_query_ok_search: "list_query_ok s \<Longrightarrow> list_query_ok (al_searchQuery s)"
  by (simp add: list_query_ok_def al_searchQuery_def)

lemma list_query_ok_step: "authz_list_step s s' \<Longrightarrow> list_query_ok s \<Longrightarrow> list_query_ok s'"
  by (induction rule: authz_list_step.induct)
    (auto simp: list_query_ok_def al_firstPage_def al_previousPage_def al_nextPage_def list_server_answer_def al_searchQuery_def
      al_answer_def showDetails_query details_answer_def al_do_def Let_def)

text \<open>However the pages are turned and resized, the lists ask for entries from a position that is not negative.\<close>

theorem authz_list_queries: "authz_list_reachable s \<Longrightarrow> list_query_ok s \<and> al_first (al_previousPage (al_nextPage s)) = al_first s"
proof (induction rule: authz_list_reachable.induct)
  case (opened k realm client)
  show ?case by (simp add: list_query_ok_def new_authz_list_def al_do_def al_previousPage_def al_nextPage_def al_searchQuery_def Let_def)
next
  case (step s s')
  then have "list_query_ok s'" by (auto intro: list_query_ok_step)
  then show ?case by (auto simp: list_query_ok_def al_previousPage_def al_nextPage_def al_searchQuery_def Let_def)
qed

end
