(* ===== verification/Authz_Editors.thy ===== *)
theory Authz_Editors
  imports Console "HOL-Library.AList"
begin

section \<open>The admin console: protected resources, their scopes and the resource server\<close>

text \<open>
  authz/authz-controller.js: \<open>ResourceServerDetailCtrl\<close> (9-80), \<open>ResourceServerResourceDetailCtrl\<close> (252-445) and
  \<open>ResourceServerScopeDetailCtrl\<close> (581-678). Deleting from these pages runs the objects of \<open>Authz_Lists\<close>. The pages check a
  name by a search before they save: the request for the search is one definition, and what happens on its answer another.
\<close>

subsection \<open>A resource\<close>

text \<open>An attribute is a text once it is typed and a list of texts once it is stored.\<close>

datatype attribute_value = AText string | AValues "string list"

record scope_entry =
  se_id :: "string option"
  se_name :: string
  se_text :: "string option"

record authz_resource =
  rs_id :: "string option"
  rs_name :: "string option"
  rs_scopes :: "scope_entry list"
  rs_attributes :: "(string \<times> attribute_value) list"
  rs_uris :: "string list option"

record resource_page =
  rp_realm :: string
  rp_client :: string
  rp_rsrid :: "string option"
  rp_create :: bool
  rp_resource :: authz_resource
  rp_original :: authz_resource
  rp_newUri :: "string option"
  rp_newAttribute :: "(string \<times> string) option"
  rp_changed :: bool
  rp_effects :: "authz_resource option ui_effect list"

definition rp_do :: "authz_resource option ui_effect list \<Rightarrow> resource_page \<Rightarrow> resource_page" where
  "rp_do es s = s\<lparr>rp_effects := rp_effects s @ es\<rparr>"

definition empty_resource :: authz_resource where
  "empty_resource = \<lparr>rs_id = None, rs_name = None, rs_scopes = [], rs_attributes = [], rs_uris = Some []\<rparr>"

definition rp_params :: "resource_page \<Rightarrow> (string \<times> string) list" where
  "rp_params s = [(''realm'', rp_realm s), (''client'', rp_client s)]"

definition rp_url :: "resource_page \<Rightarrow> string \<Rightarrow> string" where
  "rp_url s i = ''/realms/'' @ rp_realm s @ ''/clients/'' @ rp_client s @ ''/authz/resource-server/resource/'' @ i"

definition new_resource_page :: "string \<Rightarrow> string \<Rightarrow> string option \<Rightarrow> resource_page" where
  "new_resource_page realm client rsrid =
     rp_do [Request ''GET'' ''ResourceServer'' [(''realm'', realm), (''client'', client)] None]
       \<lparr>rp_realm = realm, rp_client = client, rp_rsrid = rsrid, rp_create = False, rp_resource = empty_resource,
        rp_original = empty_resource, rp_newUri = None, rp_newAttribute = None, rp_changed = False, rp_effects = []\<rparr>"

definition resource_server_answer :: "resource_page \<Rightarrow> resource_page" where
  "resource_server_answer s =
     (if \<not> str_truthy (rp_rsrid s) then
        s\<lparr>rp_create := True, rp_changed := False, rp_resource := empty_resource, rp_original := empty_resource\<rparr>
      else rp_do [Request ''GET'' ''ResourceServerResource'' (rp_params s @ [(''rsrid'', undef_str (rp_rsrid s))]) None] s)"

text \<open>The stored resource; one without scopes or attributes arrives here with empty ones.\<close>

definition resource_get_answer :: "authz_resource \<Rightarrow> resource_page \<Rightarrow> resource_page" where
  "resource_get_answer data s = s\<lparr>rp_resource := data, rp_original := data, rp_changed := False\<rparr>"

text \<open>\<open>angular.equals\<close> on resources does not look at the order of the attributes.\<close>

definition resource_equals :: "authz_resource \<Rightarrow> authz_resource \<Rightarrow> bool" where
  "resource_equals a b \<longleftrightarrow>
     a\<lparr>rs_attributes := []\<rparr> = b\<lparr>rs_attributes := []\<rparr> \<and>
     list_all (\<lambda>k. map_of (rs_attributes a) k = map_of (rs_attributes b) k) (map fst (rs_attributes a) @ map fst (rs_attributes b))"

definition watch_resource :: "resource_page \<Rightarrow> resource_page" where
  "watch_resource s = (if \<not> resource_equals (rp_resource s) (rp_original s) then s\<lparr>rp_changed := True\<rparr> else s)"

definition watch_newUri :: "resource_page \<Rightarrow> resource_page" where
  "watch_newUri s = (if str_truthy (rp_newUri s) then s\<lparr>rp_changed := True\<rparr> else s)"

definition resource_addAttribute :: "(resource_page, unit) comp" where
  "resource_addAttribute s =
     (case rp_newAttribute s of
        None \<Rightarrow> (Throw TypeError, s)
      | Some (k, v) \<Rightarrow>
          (Ok (), s\<lparr>rp_resource := (rp_resource s)\<lparr>rs_attributes := AList.update k (AText v) (rs_attributes (rp_resource s))\<rparr>,
                    rp_newAttribute := None\<rparr>))"

definition resource_removeAttribute :: "string \<Rightarrow> resource_page \<Rightarrow> resource_page" where
  "resource_removeAttribute k s =
     s\<lparr>rp_resource := (rp_resource s)\<lparr>rs_attributes := AList.delete k (rs_attributes (rp_resource s))\<rparr>\<rparr>"

definition addUri :: "(resource_page, unit) comp" where
  "addUri s =
     (case rs_uris (rp_resource s) of
        None \<Rightarrow> (Throw TypeError, s)
      | Some us \<Rightarrow>
          (Ok (), s\<lparr>rp_resource := (rp_resource s)\<lparr>rs_uris := Some (us @ [undef_str (rp_newUri s)])\<rparr>, rp_newUri := Some []\<rparr>))"

definition deleteUri :: "nat \<Rightarrow> (resource_page, unit) comp" where
  "deleteUri i s =
     (case rs_uris (rp_resource s) of
        None \<Rightarrow> (Throw TypeError, s)
      | Some us \<Rightarrow> (Ok (), s\<lparr>rp_resource := (rp_resource s)\<lparr>rs_uris := Some (splice1 i us)\<rparr>\<rparr>))"

subsection \<open>Saving a resource\<close>

definition drop_texts :: "resource_page \<Rightarrow> resource_page" where
  "drop_texts s =
     s\<lparr>rp_resource := (rp_resource s)\<lparr>rs_scopes := map (\<lambda>x. x\<lparr>se_text := None\<rparr>) (rs_scopes (rp_resource s))\<rparr>\<rparr>"

text \<open>\<open>value.toString().split(',')\<close>: a list is joined with commas first.\<close>

fun split_values :: "attribute_value \<Rightarrow> attribute_value" where
  "split_values (AText v) = AValues (split_on CHR '','' v)"
| "split_values (AValues vs) = AValues (split_on CHR '','' (join '','' vs))"

definition split_attributes :: "resource_page \<Rightarrow> resource_page" where
  "split_attributes s =
     s\<lparr>rp_resource := (rp_resource s)\<lparr>rs_attributes := map (\<lambda>(k, v). (k, split_values v)) (rs_attributes (rp_resource s))\<rparr>\<rparr>"

definition resource_checkName :: "resource_page \<Rightarrow> resource_page" where
  "resource_checkName s =
     (if js_trim (case rs_name (rp_resource s) of None \<Rightarrow> [] | Some n \<Rightarrow> n) = [] then s
      else rp_do [Request ''GET'' ''ResourceServerResource.search''
             (rp_params s @ [(''rsrid'', undef_str (rp_rsrid s)), (''name'', undef_str (rs_name (rp_resource s)))]) None] s)"

definition resource_prepare :: "(resource_page, unit) comp" where
  "resource_prepare s =
     comp_bind (if str_truthy (rp_newUri s) then addUri else comp_ret ())
       (\<lambda>_. comp_do (\<lambda>s. if rp_create s then drop_texts s else split_attributes (drop_texts s))) s"

definition resource_save :: "(resource_page, unit) comp" where
  "resource_save = comp_bind resource_prepare (\<lambda>_. comp_do resource_checkName)"

text \<open>The answer to the search, with the id of the resource found.\<close>

definition resource_name_answer :: "string option \<Rightarrow> resource_page \<Rightarrow> resource_page" where
  "resource_name_answer found s =
     (if str_truthy found \<and> found \<noteq> rs_id (rp_resource s) then
        rp_do [Notify ''error'' ''Name already in use by another resource, please choose another one.''] s
      else if rp_create s then rp_do [Request ''POST'' ''ResourceServerResource'' (rp_params s) (Some (rp_resource s))] s
      else rp_do [Request ''PUT'' ''ResourceServerResource'' (rp_params s @ [(''rsrid'', undef_str (rs_id (rp_resource s)))])
             (Some (rp_resource s))] s)"

definition resource_saved :: "string option \<Rightarrow> resource_page \<Rightarrow> resource_page" where
  "resource_saved i s =
     (if rp_create s then rp_do [GoTo (rp_url s (undef_str i)), Notify ''success'' ''The resource has been created.''] s
      else rp_do [Reload, Notify ''success'' ''The resource has been updated.''] s)"

definition resource_reset :: "resource_page \<Rightarrow> resource_page" where
  "resource_reset s = (if rp_create s then rp_do [GoTo (rp_url s [])] s else rp_do [Reload] s)"

subsection \<open>A scope\<close>

record authz_scope =
  as_id :: "string option"
  as_name :: "string option"
  as_iconUri :: "string option"

record authz_scope_page =
  sp_realm :: string
  sp_client :: string
  sp_id :: "string option"
  sp_create :: bool
  sp_scope :: authz_scope
  sp_data :: authz_scope
  sp_changed :: bool
  sp_effects :: "authz_scope option ui_effect list"

definition sp_do :: "authz_scope option ui_effect list \<Rightarrow> authz_scope_page \<Rightarrow> authz_scope_page" where
  "sp_do es s = s\<lparr>sp_effects := sp_effects s @ es\<rparr>"

definition sp_params :: "authz_scope_page \<Rightarrow> (string \<times> string) list" where
  "sp_params s = [(''realm'', sp_realm s), (''client'', sp_client s)]"

definition sp_url :: "authz_scope_page \<Rightarrow> string \<Rightarrow> string" where
  "sp_url s i = ''/realms/'' @ sp_realm s @ ''/clients/'' @ sp_client s @ ''/authz/resource-server/scope/'' @ i"

definition empty_scope :: authz_scope where
  "empty_scope = \<lparr>as_id = None, as_name = None, as_iconUri = None\<rparr>"

definition new_scope_page :: "string \<Rightarrow> string \<Rightarrow> string option \<Rightarrow> authz_scope_page" where
  "new_scope_page realm client i =
     sp_do [Request ''GET'' ''ResourceServer'' [(''realm'', realm), (''client'', client)] None]
       \<lparr>sp_realm = realm, sp_client = client, sp_id = i, sp_create = False, sp_scope = empty_scope, sp_data = empty_scope,
        sp_changed = False, sp_effects = []\<rparr>"

definition scope_server_answer :: "authz_scope_page \<Rightarrow> authz_scope_page" where
  "scope_server_answer s =
     (if \<not> str_truthy (sp_id s) then s\<lparr>sp_create := True, sp_changed := False, sp_scope := empty_scope, sp_data := empty_scope\<rparr>
      else sp_do [Request ''GET'' ''ResourceServerScope'' (sp_params s @ [(''id'', undef_str (sp_id s))]) None] s)"

definition scope_get_answer :: "authz_scope \<Rightarrow> authz_scope_page \<Rightarrow> authz_scope_page" where
  "scope_get_answer data s = s\<lparr>sp_scope := data, sp_data := data, sp_changed := False\<rparr>"

definition watch_authz_scope :: "authz_scope_page \<Rightarrow> authz_scope_page" where
  "watch_authz_scope s = (if sp_scope s \<noteq> sp_data s then s\<lparr>sp_changed := True\<rparr> else s)"

definition scope_checkName :: "authz_scope_page \<Rightarrow> authz_scope_page" where
  "scope_checkName s =
     (if js_trim (case as_name (sp_scope s) of None \<Rightarrow> [] | Some n \<Rightarrow> n) = [] then s
      else sp_do [Request ''GET'' ''ResourceServerScope.search'' (sp_params s @ [(''name'', undef_str (as_name (sp_scope s)))]) None] s)"

definition scope_name_answer :: "string option \<Rightarrow> authz_scope_page \<Rightarrow> authz_scope_page" where
  "scope_name_answer found s =
     (if str_truthy found \<and> found \<noteq> as_id (sp_scope s) then
        sp_do [Notify ''error'' ''Name already in use by another scope, please choose another one.''] s
      else if sp_create s then sp_do [Request ''POST'' ''ResourceServerScope'' (sp_params s) (Some (sp_scope s))] s
      else sp_do [Request ''PUT'' ''ResourceServerScope'' (sp_params s @ [(''id'', undef_str (as_id (sp_scope s)))]) (Some (sp_scope s))] s)"

definition scope_saved :: "string option \<Rightarrow> authz_scope_page \<Rightarrow> authz_scope_page" where
  "scope_saved i s =
     (if sp_create s then sp_do [GoTo (sp_url s (undef_str i)), Notify ''success'' ''The scope has been created.''] s
      else sp_do [Notify ''success'' ''The scope has been updated.''] (s\<lparr>sp_changed := False\<rparr>))"

definition scope_reset :: "authz_scope_page \<Rightarrow> authz_scope_page" where
  "scope_reset s = (if sp_create s then sp_do [GoTo (sp_url s [])] s else sp_do [Reload] s)"

subsection \<open>The resource server\<close>

text \<open>The settings of a resource server are one value here, whose \<open>clientId\<close> and name the page reads. Reading a file is given the
  parsed content, None when it is not JSON.\<close>

record 'a server_page =
  vp_realm :: string
  vp_client :: string
  vp_server :: 'a
  vp_data :: 'a
  vp_changed :: bool
  vp_importing :: bool
  vp_exportSettings :: bool
  vp_settings :: "string option"
  vp_effects :: "'a option ui_effect list"

definition vp_do :: "'a option ui_effect list \<Rightarrow> 'a server_page \<Rightarrow> 'a server_page" where
  "vp_do es s = s\<lparr>vp_effects := vp_effects s @ es\<rparr>"

definition resource_server_get_answer :: "string \<Rightarrow> string \<Rightarrow> 'a \<Rightarrow> 'a server_page" where
  "resource_server_get_answer realm client data =
     \<lparr>vp_realm = realm, vp_client = client, vp_server = data, vp_data = data, vp_changed = False, vp_importing = False,
      vp_exportSettings = False, vp_settings = None, vp_effects = []\<rparr>"

definition watch_server :: "'a server_page \<Rightarrow> 'a server_page" where
  "watch_server s = (if vp_server s \<noteq> vp_data s then s\<lparr>vp_changed := True\<rparr> else s)"

definition server_save :: "('a \<Rightarrow> string) \<Rightarrow> 'a server_page \<Rightarrow> 'a server_page" where
  "server_save clientId s =
     vp_do [Request ''PUT'' ''ResourceServer'' [(''realm'', vp_realm s), (''client'', clientId (vp_server s))] (Some (vp_server s))] s"

definition server_saved :: "'a server_page \<Rightarrow> 'a server_page" where
  "server_saved s = vp_do [Reload, Notify ''success'' ''The resource server has been created.''] s"

definition server_reset :: "'a server_page \<Rightarrow> 'a server_page" where
  "server_reset s = vp_do [Reload] s"

definition server_export :: "'a server_page \<Rightarrow> 'a server_page" where
  "server_export s =
     vp_do [Request ''GET'' ''ResourceServer.settings'' [(''realm'', vp_realm s), (''client'', vp_client s)] None] (s\<lparr>vp_exportSettings := True\<rparr>)"

definition server_settings_answer :: "string \<Rightarrow> 'a server_page \<Rightarrow> 'a server_page" where
  "server_settings_answer printed s = s\<lparr>vp_settings := Some printed\<rparr>"

definition cancelExport :: "'a server_page \<Rightarrow> 'a server_page" where
  "cancelExport s = s\<lparr>vp_settings := None\<rparr>"

definition server_onFileSelect :: "'a option \<Rightarrow> ('a server_page, unit) comp" where
  "server_onFileSelect content s =
     (case content of
        None \<Rightarrow> (Throw SyntaxError, s)
      | Some v \<Rightarrow> (Ok (), s\<lparr>vp_server := v, vp_importing := True\<rparr>))"

definition server_import :: "'a server_page \<Rightarrow> 'a server_page" where
  "server_import s =
     vp_do [Request ''POST'' ''ResourceServer.import'' [(''realm'', vp_realm s), (''client'', vp_client s)] (Some (vp_server s))] s"

definition server_imported :: "'a server_page \<Rightarrow> 'a server_page" where
  "server_imported s = vp_do [Reload, Notify ''success'' ''The resource server has been updated.''] s"

subsection \<open>What saving changes\<close>

text \<open>An attribute value that splitting leaves alone: a list that is not empty, of values without commas.\<close>

fun storable :: "attribute_value \<Rightarrow> bool" where
  "storable (AText v) \<longleftrightarrow> False"
| "storable (AValues vs) \<longleftrightarrow> vs \<noteq> [] \<and> list_all (\<lambda>v. CHR '','' \<notin> set v) vs"

lemma split_values_storable [simp]: "storable (split_values v)"
  by (cases v) (auto simp: list_all_iff dest: split_on_pieces_free)

lemma split_values_id: "split_values v = v \<longleftrightarrow> storable v"
proof
  show "split_values v = v \<Longrightarrow> storable v" using split_values_storable [of v] by simp
  show "storable v \<Longrightarrow> split_values v = v"
    by (cases v) (auto simp: list_all_iff intro!: split_on_join)
qed

lemma split_attributes_frame [simp]:
  "rp_newUri (split_attributes s) = rp_newUri s" "rp_create (split_attributes s) = rp_create s"
  "rp_newUri (drop_texts s) = rp_newUri s" "rp_create (drop_texts s) = rp_create s"
  by (simp_all add: split_attributes_def drop_texts_def)

lemma drop_texts_twice: "drop_texts (drop_texts s) = drop_texts s"
  by (simp add: drop_texts_def comp_def)

lemma split_attributes_twice:
  "split_attributes (drop_texts (split_attributes (drop_texts s))) = split_attributes (drop_texts s)"
proof -
  have "split_values (split_values v) = split_values v" for v using split_values_id [of "split_values v"] by simp
  then show ?thesis by (simp add: split_attributes_def drop_texts_def comp_def case_prod_unfold)
qed

text \<open>Pressing save twice sends the same resource twice: what the second press prepares is what the first one prepared, errors
  included. A pending address is added once, and the attributes are split once.\<close>

theorem resource_save_twice: "comp_bind resource_prepare (\<lambda>_. resource_prepare) s = resource_prepare s"
proof -
  let ?finish = "\<lambda>s. if rp_create s then drop_texts s else split_attributes (drop_texts s)"
  have again: "resource_prepare (?finish t) = (Ok (), ?finish t)" if "\<not> str_truthy (rp_newUri t)" for t
    using that by (simp add: resource_prepare_def comp_bind_def comp_ret_def comp_do_def drop_texts_twice split_attributes_twice)
  show ?thesis
  proof (cases "str_truthy (rp_newUri s)")
    case False
    then have "resource_prepare s = (Ok (), ?finish s)" by (simp add: resource_prepare_def comp_bind_def comp_ret_def comp_do_def)
    with again [OF False] show ?thesis by (simp add: comp_bind_def)
  next
    case True
    show ?thesis
    proof (cases "rs_uris (rp_resource s)")
      case None
      with True show ?thesis by (simp add: resource_prepare_def comp_bind_def addUri_def)
    next
      case (Some us)
      define t where "t = snd (addUri s)"
      have t: "addUri s = (Ok (), t)" "\<not> str_truthy (rp_newUri t)" using Some by (simp_all add: t_def addUri_def str_truthy_def)
      have "resource_prepare s = (Ok (), ?finish t)" using True t(1) by (simp add: resource_prepare_def comp_bind_def comp_do_def)
      with again [OF t(2)] show ?thesis by (simp add: comp_bind_def)
    qed
  qed
qed

text \<open>The values that an attribute is sent with: the pieces of its values between the commas, and one empty value where it has none.\<close>

definition comma_pieces :: "attribute_value \<Rightarrow> string list" where
  "comma_pieces v = (case v of AText t \<Rightarrow> split_on CHR '','' t | AValues vs \<Rightarrow> if vs = [] then [[]] else concat (map (split_on CHR '','') vs))"

lemma split_on_join_pieces: "vs \<noteq> [] \<Longrightarrow> split_on c (join [c] vs) = concat (map (split_on c) vs)"
proof (induction vs)
  case (Cons v vs)
  then show ?case by (cases vs) (simp_all add: join_Cons_ne split_on_both)
qed simp

lemma split_values_pieces: "split_values v = AValues (comma_pieces v)"
  by (cases v) (simp_all add: comma_pieces_def split_on_join_pieces)

text \<open>C30. Saving a resource under a name that is not blank and that no other resource has sends one search for the name and then one
  request with the resource. A new resource is created with its attributes as they were typed. A stored one is updated with every
  value split at its commas, and with one empty value for an attribute that has none; so its attributes are kept exactly when each
  of them has at least one value and no value has a comma.\<close>

theorem attributes_kept_iff:
  assumes "resource_save s = (Ok (), t)" and "rs_name (rp_resource s) = Some n" and "js_trim n \<noteq> []"
    and "\<not> str_truthy found \<or> found = rs_id (rp_resource s)"
  shows "\<exists>r. rp_effects (resource_name_answer found t) = rp_effects s @
      [Request ''GET'' ''ResourceServerResource.search'' (rp_params s @ [(''rsrid'', undef_str (rp_rsrid s)), (''name'', n)]) None,
       if rp_create s then Request ''POST'' ''ResourceServerResource'' (rp_params s) (Some r)
       else Request ''PUT'' ''ResourceServerResource'' (rp_params s @ [(''rsrid'', undef_str (rs_id (rp_resource s)))]) (Some r)] \<and>
    rs_attributes r =
      (if rp_create s then rs_attributes (rp_resource s)
       else map (\<lambda>(k, v). (k, AValues (comma_pieces v))) (rs_attributes (rp_resource s))) \<and>
    (\<not> rp_create s \<longrightarrow>
       (rs_attributes r = rs_attributes (rp_resource s) \<longleftrightarrow> list_all (storable \<circ> snd) (rs_attributes (rp_resource s))))"
proof -
  let ?split = "map (\<lambda>(k, v). (k, AValues (comma_pieces v))) :: (string \<times> attribute_value) list \<Rightarrow> (string \<times> attribute_value) list"
  have iff: "?split xs = xs \<longleftrightarrow> list_all (storable \<circ> snd) xs" for xs
    by (induction xs) (auto simp: split_values_id split_values_pieces [symmetric])
  have t: "rp_effects t = rp_effects s @
      [Request ''GET'' ''ResourceServerResource.search'' (rp_params s @ [(''rsrid'', undef_str (rp_rsrid s)), (''name'', n)]) None]"
    "rp_create t = rp_create s" "rp_params t = rp_params s" "rs_id (rp_resource t) = rs_id (rp_resource s)"
    "rs_attributes (rp_resource t) =
      (if rp_create s then rs_attributes (rp_resource s) else ?split (rs_attributes (rp_resource s)))"
    using assms(1-3)
    by (auto simp: resource_save_def resource_prepare_def resource_checkName_def addUri_def drop_texts_def split_attributes_def
        split_values_pieces rp_do_def rp_params_def undef_str_def comp_bind_def comp_ret_def comp_do_def split: option.splits if_splits)
  have "\<not> (str_truthy found \<and> found \<noteq> rs_id (rp_resource t))" using assms(4) t(4) by auto
  then have "rp_effects (resource_name_answer found t) = rp_effects t @
      [if rp_create s then Request ''POST'' ''ResourceServerResource'' (rp_params s) (Some (rp_resource t))
       else Request ''PUT'' ''ResourceServerResource'' (rp_params s @ [(''rsrid'', undef_str (rs_id (rp_resource s)))]) (Some (rp_resource t))]"
    using t(2-4) by (simp add: resource_name_answer_def rp_do_def)
  then show ?thesis using t(1,5) iff [of "rs_attributes (rp_resource s)"] by (intro exI [of _ "rp_resource t"]) simp
qed

definition sample_stored_resource :: resource_page where
  "sample_stored_resource = resource_get_answer
     (empty_resource\<lparr>rs_id := Some ''7'', rs_name := Some ''door'', rs_attributes := [(''colour'', AValues [''red,blue'', ''green'']), (''size'', AValues [])]\<rparr>)
     (new_resource_page ''demo'' ''app'' (Some ''7''))"

theorem attributes_kept_iff_witness:
  "\<exists>r. last (rp_effects (resource_name_answer (Some ''7'') (snd (resource_save sample_stored_resource)))) =
      Request ''PUT'' ''ResourceServerResource'' [(''realm'', ''demo''), (''client'', ''app''), (''rsrid'', ''7'')] (Some r) \<and>
    rs_attributes r = [(''colour'', AValues [''red'', ''blue'', ''green'']), (''size'', AValues [[]])]"
proof -
  have s: "rs_name (rp_resource sample_stored_resource) = Some ''door''" "rs_id (rp_resource sample_stored_resource) = Some ''7''"
    "\<not> rp_create sample_stored_resource" "rp_params sample_stored_resource = [(''realm'', ''demo''), (''client'', ''app'')]"
    "rs_attributes (rp_resource sample_stored_resource) = [(''colour'', AValues [''red,blue'', ''green'']), (''size'', AValues [])]"
    by (simp_all add: sample_stored_resource_def resource_get_answer_def new_resource_page_def rp_do_def rp_params_def)
  have save: "resource_save sample_stored_resource = (Ok (), snd (resource_save sample_stored_resource))"
    by (simp add: resource_save_def resource_prepare_def sample_stored_resource_def resource_get_answer_def new_resource_page_def rp_do_def
        str_truthy_def comp_bind_def comp_ret_def comp_do_def)
  have "js_trim ''door'' \<noteq> []" by code_simp
  from attributes_kept_iff [OF save s(1) this, of "Some ''7''"] show ?thesis
    by (auto simp: s comma_pieces_def undef_str_def)
qed

text \<open>The scope's page compares with what it loaded also after a save: the next edit that is taken back leaves it changed.\<close>

lemma scope_changed_after_save:
  "\<not> sp_create s \<Longrightarrow> sp_scope s \<noteq> sp_data s \<Longrightarrow> sp_changed (watch_authz_scope (scope_saved i s))"
  by (simp add: watch_authz_scope_def scope_saved_def sp_do_def)

end
