(* ===== verification/Numbers.thy ===== *)
theory Numbers
  imports Console
begin

section \<open>The admin console: numbers read from texts\<close>

text \<open>\<open>parseInt(s)\<close>; None is NaN.\<close>

definition digit_value :: "char \<Rightarrow> nat option" where
  "digit_value c =
     (let n = (of_char c :: nat) in
      if 48 \<le> n \<and> n \<le> 57 then Some (n - 48)
      else if 97 \<le> n \<and> n \<le> 102 then Some (n - 87)
      else if 65 \<le> n \<and> n \<le> 70 then Some (n - 55) else None)"

definition digits_of :: "nat \<Rightarrow> string \<Rightarrow> nat list" where
  "digits_of base s = map (the \<circ> digit_value) (takeWhile (\<lambda>c. case digit_value c of None \<Rightarrow> False | Some d \<Rightarrow> d < base) s)"

definition parse_number :: "string \<Rightarrow> int option" where
  "parse_number s =
     (let s = dropWhile white s;
          neg = (take 1 s = ''-'');
          s = (if take 1 s = ''-'' \<or> take 1 s = ''+'' then drop 1 s else s);
          base = (if take 2 s = ''0x'' \<or> take 2 s = ''0X'' then 16 else 10);
          ds = digits_of base (if base = 16 then drop 2 s else s) in
      if ds = [] then None
      else Some ((if neg then - 1 else 1) * int (fold (\<lambda>d n. base * n + d) ds 0)))"

subsection \<open>Reading back what was printed\<close>

lemma digit_value_char: "k < 10 \<Longrightarrow> digit_value (digit_char k) = Some k"
proof -
  have "\<forall>k \<in> set [0..<10]. digit_value (''0123456789'' ! k) = Some k" by code_simp
  then show "k < 10 \<Longrightarrow> digit_value (digit_char k) = Some k" by (simp add: digit_char_def)
qed

lemma digit_char_plain: "k < 10 \<Longrightarrow> digit_char k \<notin> {CHR ''-'', CHR ''+'', CHR ''x'', CHR ''X''} \<and> \<not> white (digit_char k)"
proof -
  have "\<forall>k \<in> set [0..<10]. ''0123456789'' ! k \<notin> {CHR ''-'', CHR ''+'', CHR ''x'', CHR ''X''} \<and> \<not> white (''0123456789'' ! k)" by code_simp
  then show "k < 10 \<Longrightarrow> digit_char k \<notin> {CHR ''-'', CHR ''+'', CHR ''x'', CHR ''X''} \<and> \<not> white (digit_char k)"
    by (simp add: digit_char_def)
qed

lemma nat_str_chars: "c \<in> set (nat_str n) \<Longrightarrow> \<exists>k < 10. c = digit_char k"
proof (induction n rule: nat_str.induct)
  case (1 n)
  have "\<exists>k < 10. digit_char (n mod 10) = digit_char k" by (rule exI [of _ "n mod 10"]) simp
  with 1 show ?case by (cases "n < 10") (auto simp: nat_str.simps [of n])
qed

lemma digits_nat_str: "digits_of 10 (nat_str n) = map (the \<circ> digit_value) (nat_str n)"
proof -
  have "takeWhile (\<lambda>c. case digit_value c of None \<Rightarrow> False | Some d \<Rightarrow> d < 10) (nat_str n) = nat_str n"
    unfolding takeWhile_eq_all_conv
  proof
    fix c
    assume "c \<in> set (nat_str n)"
    then obtain k where "k < 10" "c = digit_char k" using nat_str_chars by blast
    then show "case digit_value c of None \<Rightarrow> False | Some d \<Rightarrow> d < 10" by (simp add: digit_value_char)
  qed
  then show ?thesis by (simp only: digits_of_def)
qed

lemma nat_str_value: "fold (\<lambda>d m. 10 * m + d) (map (the \<circ> digit_value) (nat_str n)) 0 = n"
proof (induction n rule: nat_str.induct)
  case (1 n)
  then show ?case by (cases "n < 10") (auto simp: nat_str.simps [of n] digit_value_char)
qed

lemma parse_nat_str:
  assumes "s = nat_str n"
  shows "take 1 s \<noteq> ''-''" "take 1 s \<noteq> ''+''" "take 2 s \<noteq> ''0x''" "take 2 s \<noteq> ''0X''" "dropWhile white s = s"
proof -
  have p: "c \<notin> {CHR ''-'', CHR ''+'', CHR ''x'', CHR ''X''} \<and> \<not> white c" if "c \<in> set s" for c
    using that nat_str_chars [of c n] digit_char_plain assms by auto
  obtain x xs where s: "s = x # xs" using assms by (cases s) (auto dest: sym)
  show "take 1 s \<noteq> ''-''" "take 1 s \<noteq> ''+''" using p [of x] by (auto simp: s)
  show "take 2 s \<noteq> ''0x''" "take 2 s \<noteq> ''0X''" using p by (cases xs; auto simp: s)+
  show "dropWhile white s = s" using p [of x] by (simp add: s)
qed

lemma parse_number_int_str: "parse_number (int_str z) = Some z"
proof (cases "z < 0")
  case True
  have "\<not> white CHR ''-''" by (simp add: white_def)
  with True show ?thesis
    using parse_nat_str [OF refl, of "nat (- z)"]
    by (simp add: parse_number_def int_str_def digits_nat_str nat_str_value Let_def)
next
  case False
  then show ?thesis
    using parse_nat_str [OF refl, of "nat z"] by (simp add: parse_number_def int_str_def digits_nat_str nat_str_value Let_def)
qed

end
