(* ===== verification/Policy_Pages.thy ===== *)
theory Policy_Pages
  imports Numbers "HOL-Library.AList"
begin

section \<open>The admin console: policies and permissions\<close>

text \<open>
  authz/authz-controller.js: the service \<open>PolicyController\<close> (2141-2510), which all pages for policies and
  permissions share, and the delegates that the ten kinds of pages give it (891-2139). A page can send the user to
  another one to create or look at an associated policy; \<open>policyViewState\<close> remembers the draft meanwhile, and the address of the
  first page gets the parameter \<open>back\<close>. What fills and changes the selections of a page is in \<open>Policy_Choices\<close>. Not modelled:
  the formats of the select boxes and the editor for the code of a policy.
\<close>

subsection \<open>Addresses\<close>

text \<open>An address is the part of \<open>window.location.href\<close> from \<open>/realms\<close> on. AngularJS makes the parameters after the question mark
  part of \<open>$route.current.params\<close>.\<close>

definition query_names :: "string \<Rightarrow> string list" where
  "query_names url =
     (case index_of url ''?'' of
        None \<Rightarrow> []
      | Some i \<Rightarrow> map (takeWhile (\<lambda>c. c \<noteq> CHR ''='')) (split_on CHR ''&'' (drop (Suc i) url)))"

definition route_has :: "string \<Rightarrow> string \<Rightarrow> bool" where
  "route_has k url \<longleftrightarrow> k \<in> set (query_names url)"

definition route_value :: "string \<Rightarrow> string \<Rightarrow> string option" where
  "route_value k url =
     (case index_of url ''?'' of
        None \<Rightarrow> None
      | Some i \<Rightarrow>
          map_of (map (\<lambda>q. (takeWhile (\<lambda>c. c \<noteq> CHR ''='') q, drop 1 (dropWhile (\<lambda>c. c \<noteq> CHR ''='') q)))
            (split_on CHR ''&'' (drop (Suc i) url))) k)"

definition isNewAssociatedPolicy :: "string \<Rightarrow> bool" where
  "isNewAssociatedPolicy url \<longleftrightarrow> route_has ''new_policy'' url"

definition isBackNewAssociatedPolicy :: "string \<Rightarrow> bool" where
  "isBackNewAssociatedPolicy url \<longleftrightarrow> route_has ''back'' url"

definition add_back :: "string \<Rightarrow> string" where
  "add_back url =
     (if \<not> contains url ''back=true'' then url @ (if \<not> contains url ''?'' then ''?'' else ''&'') @ ''back=true'' else url)"

definition policy_url :: "string \<Rightarrow> string \<Rightarrow> string \<Rightarrow> string" where
  "policy_url realm client rest = ''/realms/'' @ realm @ ''/clients/'' @ client @ ''/authz/resource-server/'' @ rest"

subsection \<open>Numbers\<close>

text \<open>The other fields of a policy hold texts or numbers.\<close>

datatype field_value = FText string | FNumber "int option"

fun parse_field :: "field_value \<Rightarrow> field_value" where
  "parse_field (FText s) = FNumber (parse_number s)"
| "parse_field (FNumber n) = FNumber n"

fun field_truthy :: "field_value \<Rightarrow> bool" where
  "field_truthy (FText s) \<longleftrightarrow> s \<noteq> []"
| "field_truthy (FNumber n) \<longleftrightarrow> n \<noteq> None \<and> n \<noteq> Some 0"

subsection \<open>Data\<close>

datatype policy_kind = Rules | ResourceP | ScopeP | UserP | ClientP | RoleP | GroupP | JsP | TimeP | Aggregate

fun getPolicyType :: "policy_kind \<Rightarrow> string" where
  "getPolicyType Rules = ''rules''"
| "getPolicyType ResourceP = ''resource''"
| "getPolicyType ScopeP = ''scope''"
| "getPolicyType UserP = ''user''"
| "getPolicyType ClientP = ''client''"
| "getPolicyType RoleP = ''role''"
| "getPolicyType GroupP = ''group''"
| "getPolicyType JsP = ''js''"
| "getPolicyType TimeP = ''time''"
| "getPolicyType Aggregate = ''aggregate''"

fun isPermission :: "policy_kind \<Rightarrow> bool" where
  "isPermission ResourceP = True"
| "isPermission ScopeP = True"
| "isPermission _ = False"

record policy_ref =
  rf_id :: string
  rf_name :: string

datatype scope_choice = ScopeObject string string | ScopeId string

record role_choice =
  rc_id :: string
  rc_containerId :: string
  rc_clientRole :: bool
  rc_required :: bool
  rc_container :: "string option"

record group_choice =
  gch_id :: string
  gch_path :: string
  gch_extendChildren :: bool

record authz_policy =
  pol_id :: "string option"
  pol_type :: string
  pol_name :: "string option"
  pol_description :: "string option"
  pol_logic :: string
  pol_decisionStrategy :: string
  pol_config :: bool
  pol_resourceType :: "string option"
  pol_resources :: "string list option"
  pol_scopes :: "string list option"
  pol_policies :: "string list option"
  pol_users :: "string list option"
  pol_clients :: "string list option"
  pol_roles :: "(string \<times> bool) list option"
  pol_groups :: "group_choice list option"
  pol_fields :: "(string \<times> field_value) list"

text \<open>\<open>policyViewState.state\<close>. \<open>previousPage\<close> is an object whose only field is its name.\<close>

record view_state =
  vs_previousPage :: "string option option"
  vs_policy :: "authz_policy option"
  vs_selectedPolicies :: "policy_ref list option"
  vs_previousUrl :: "string option"
  vs_rootUrl :: "string option"
  vs_newPolicyName :: "string option"
  vs_selectedResource :: "policy_ref option"
  vs_applyToResourceTypeFlag :: bool
  vs_selectedScopes :: "scope_choice list option"
  vs_resourceScopes :: "policy_ref list option"

definition empty_view :: view_state where
  "empty_view = \<lparr>vs_previousPage = None, vs_policy = None, vs_selectedPolicies = None, vs_previousUrl = None, vs_rootUrl = None,
     vs_newPolicyName = None, vs_selectedResource = None, vs_applyToResourceTypeFlag = False, vs_selectedScopes = None,
     vs_resourceScopes = None\<rparr>"

record policy_page =
  pp_realm :: string
  pp_client :: string
  pp_kind :: policy_kind
  pp_url :: string
  pp_policyId :: "string option"
  pp_view :: view_state
  pp_viewUrl :: "string option"
  pp_create :: bool
  pp_policy :: authz_policy
  pp_original :: authz_policy
  pp_selectedPolicies :: "policy_ref list option"
  pp_selectedResource :: "policy_ref option"
  pp_applyToResourceTypeFlag :: bool
  pp_selectedScopes :: "scope_choice list option"
  pp_resourceScopes :: "policy_ref list option"
  pp_selectedUsers :: "policy_ref list"
  pp_selectedClients :: "policy_ref list"
  pp_selectedRoles :: "role_choice list"
  pp_selectedGroups :: "group_choice list option"
  pp_groupsShared :: bool
  pp_loadedUsers :: "policy_ref list"
  pp_loadedClients :: "policy_ref list"
  pp_loadedRoles :: "role_choice list"
  pp_clients :: "policy_ref list option"
  pp_roles :: "role_choice list option"
  pp_roleClient :: "policy_ref option"
  pp_clientRoles :: "role_choice list option"
  pp_changed :: bool
  pp_historyBack :: bool
  pp_effects :: "authz_policy option ui_effect list"

definition pp_do :: "authz_policy option ui_effect list \<Rightarrow> policy_page \<Rightarrow> policy_page" where
  "pp_do es s = s\<lparr>pp_effects := pp_effects s @ es\<rparr>"

text \<open>\<open>$location.url(u)\<close> with \<open>u\<close> undefined only reads the address.\<close>

definition go_url :: "string option \<Rightarrow> authz_policy option ui_effect list" where
  "go_url u = (case u of None \<Rightarrow> [] | Some a \<Rightarrow> [GoTo a])"

subsection \<open>Opening a page\<close>

definition fresh_policy :: "policy_kind \<Rightarrow> authz_policy" where
  "fresh_policy k = \<lparr>pol_id = None, pol_type = getPolicyType k, pol_name = None, pol_description = None, pol_logic = ''POSITIVE'',
     pol_decisionStrategy = ''UNANIMOUS'', pol_config = True, pol_resourceType = None, pol_resources = None, pol_scopes = None,
     pol_policies = None, pol_users = None, pol_clients = None, pol_roles = None, pol_groups = None, pol_fields = []\<rparr>"

text \<open>The remembered state is dropped unless the address says that the user is on the way to or back from an associated policy.
  An address with \<open>new_policy\<close> that is opened first finds no state at all.\<close>

definition init_view :: "string \<Rightarrow> view_state option \<Rightarrow> view_state res" where
  "init_view url view =
     (let view = (if (view = None \<or> \<not> isBackNewAssociatedPolicy url) \<and> \<not> isNewAssociatedPolicy url then Some empty_view else view) in
      case view of
        None \<Rightarrow> Throw TypeError
      | Some v \<Rightarrow> Ok (if vs_previousPage v = None then v\<lparr>vs_previousPage := Some None\<rparr> else v))"

definition delegate_requests :: "string \<Rightarrow> policy_kind \<Rightarrow> authz_policy option ui_effect list" where
  "delegate_requests realm kind =
     (case kind of
        RoleP \<Rightarrow> [Request ''GET'' ''Role'' [(''realm'', realm)] None, Request ''GET'' ''Client'' [(''realm'', realm)] None]
      | GroupP \<Rightarrow> [Request ''GET'' ''Groups'' [(''realm'', realm)] None]
      | _ \<Rightarrow> [])"

definition onInit :: "string \<Rightarrow> string \<Rightarrow> policy_kind \<Rightarrow> string \<Rightarrow> string option \<Rightarrow> string option \<Rightarrow> view_state option \<Rightarrow> policy_page res" where
  "onInit realm client kind url policyId viewUrl view =
     res_bind (init_view url view) (\<lambda>v.
       Ok (pp_do ([Request ''GET'' ''PolicyProvider'' [(''realm'', realm), (''client'', client)] None] @
                  delegate_requests realm kind @
                  [Request ''GET'' ''ResourceServer'' [(''realm'', realm), (''client'', client)] None])
         \<lparr>pp_realm = realm, pp_client = client, pp_kind = kind, pp_url = url, pp_policyId = policyId, pp_view = v, pp_viewUrl = viewUrl,
          pp_create = False, pp_policy = fresh_policy kind, pp_original = fresh_policy kind, pp_selectedPolicies = None,
          pp_selectedResource = None, pp_applyToResourceTypeFlag = False, pp_selectedScopes = None, pp_resourceScopes = None,
          pp_selectedUsers = [], pp_selectedClients = [], pp_selectedRoles = [], pp_selectedGroups = None, pp_groupsShared = False, pp_loadedUsers = [],
          pp_loadedClients = [], pp_loadedRoles = [], pp_clients = None, pp_roles = None, pp_roleClient = None, pp_clientRoles = None, pp_changed = False,
          pp_historyBack = isNewAssociatedPolicy url, pp_effects = []\<rparr>))"

text \<open>The delegates' parts: what they remember and restore, and what they set up for a new policy.\<close>

definition save_resource_state :: "policy_page \<Rightarrow> view_state \<Rightarrow> view_state" where
  "save_resource_state s v =
     v\<lparr>vs_selectedResource := pp_selectedResource s, vs_applyToResourceTypeFlag := pp_applyToResourceTypeFlag s\<rparr>"

definition save_scope_state :: "policy_page \<Rightarrow> view_state \<Rightarrow> view_state" where
  "save_scope_state s v =
     v\<lparr>vs_selectedScopes := pp_selectedScopes s, vs_selectedResource := pp_selectedResource s, vs_resourceScopes := pp_resourceScopes s\<rparr>"

definition onSaveState :: "policy_page \<Rightarrow> view_state \<Rightarrow> view_state" where
  "onSaveState s v =
     (case pp_kind s of ResourceP \<Rightarrow> save_resource_state s v | ScopeP \<Rightarrow> save_scope_state s v | _ \<Rightarrow> v)"

definition restore_resource_state :: "(policy_page, unit) comp" where
  "restore_resource_state s =
     (let v = pp_view s;
          s = s\<lparr>pp_selectedResource := vs_selectedResource v, pp_applyToResourceTypeFlag := vs_applyToResourceTypeFlag v\<rparr> in
      case vs_policy v of
        None \<Rightarrow> (Throw TypeError, s)
      | Some d \<Rightarrow> (Ok (), s\<lparr>pp_policy := (pp_policy s)\<lparr>pol_resourceType := pol_resourceType d\<rparr>\<rparr>))"

definition restore_scope_state :: "policy_page \<Rightarrow> policy_page" where
  "restore_scope_state s =
     (let v = pp_view s in
      s\<lparr>pp_selectedScopes := vs_selectedScopes v, pp_selectedResource := vs_selectedResource v, pp_resourceScopes := vs_resourceScopes v\<rparr>)"

definition onRestoreState :: "(policy_page, unit) comp" where
  "onRestoreState s =
     (case pp_kind s of ResourceP \<Rightarrow> restore_resource_state s | ScopeP \<Rightarrow> (Ok (), restore_scope_state s) | _ \<Rightarrow> (Ok (), s))"

text \<open>For a new policy. The page of rules sets its defaults in the object that the watch compares with, after the
  scope got its copy of it.\<close>

definition id_request :: "policy_page \<Rightarrow> string \<Rightarrow> string \<Rightarrow> string \<Rightarrow> authz_policy option ui_effect" where
  "id_request s service k i = Request ''GET'' service [(''realm'', pp_realm s), (''client'', pp_client s), (k, i)] None"

definition ask_for :: "policy_page \<Rightarrow> string \<Rightarrow> string \<Rightarrow> string \<Rightarrow> authz_policy option ui_effect list" where
  "ask_for s k service param =
     (if str_truthy (route_value k (pp_url s)) then [id_request s service param (undef_str (route_value k (pp_url s)))] else [])"

definition name_page :: "string \<Rightarrow> policy_page \<Rightarrow> policy_page" where
  "name_page n s = s\<lparr>pp_view := (pp_view s)\<lparr>vs_previousPage := Some (Some n)\<rparr>\<rparr>"

definition init_new_rules :: "policy_page \<Rightarrow> policy_page" where
  "init_new_rules s =
     s\<lparr>pp_original := (pp_original s)\<lparr>pol_fields := AList.update ''scannerPeriodUnit'' (FText ''Hours'')
          (AList.update ''scannerPeriod'' (FNumber (Some 1)) (pol_fields (pp_original s)))\<rparr>\<rparr>"

definition init_new_resource :: "policy_page \<Rightarrow> policy_page" where
  "init_new_resource s =
     pp_do (ask_for s ''rsrid'' ''ResourceServerResource'' ''rsrid'')
       ((name_page ''authz-add-resource-permission'' s)\<lparr>pp_selectedResource := None, pp_selectedPolicies := None\<rparr>)"

definition init_new_scope :: "policy_page \<Rightarrow> policy_page" where
  "init_new_scope s = pp_do (ask_for s ''scpid'' ''ResourceServerScope'' ''id'') (name_page ''authz-add-scope-permission'' s)"

definition onInitCreate :: "policy_page \<Rightarrow> policy_page" where
  "onInitCreate s =
     (case pp_kind s of
        Rules \<Rightarrow> init_new_rules s
      | ResourceP \<Rightarrow> init_new_resource s
      | ScopeP \<Rightarrow> init_new_scope s
      | Aggregate \<Rightarrow> name_page ''authz-add-aggregated-policy'' s
      | GroupP \<Rightarrow> s\<lparr>pp_selectedGroups := Some []\<rparr>
      | _ \<Rightarrow> s)"

lemmas delegate_state_defs = onSaveState_def save_resource_state_def save_scope_state_def onRestoreState_def restore_resource_state_def
  restore_scope_state_def onInitCreate_def ask_for_def name_page_def init_new_rules_def init_new_resource_def init_new_scope_def

definition forget_draft :: "policy_page \<Rightarrow> policy_page" where
  "forget_draft s =
     s\<lparr>pp_view := empty_view\<lparr>vs_previousPage := vs_previousPage (pp_view s), vs_rootUrl := vs_rootUrl (pp_view s)\<rparr>\<rparr>"

definition restoreState :: "(policy_page, unit) comp" where
  "restoreState s =
     (case vs_policy (pp_view s) of
        None \<Rightarrow> (Throw TypeError, s)
      | Some d \<Rightarrow>
          (let s = s\<lparr>pp_policy := (pp_policy s)\<lparr>pol_name := pol_name d, pol_description := pol_description d,
                       pol_decisionStrategy := pol_decisionStrategy d, pol_logic := pol_logic d\<rparr>,
                     pp_selectedPolicies := Some (case vs_selectedPolicies (pp_view s) of None \<Rightarrow> [] | Some ps \<Rightarrow> ps),
                     pp_changed := True\<rparr> in
           (Ok (),
            if str_truthy (vs_newPolicyName (pp_view s)) then
              pp_do [Request ''GET'' ''ResourceServerPolicy''
                [(''realm'', pp_realm s), (''client'', pp_client s), (''permission'', ''false''),
                 (''name'', undef_str (vs_newPolicyName (pp_view s))), (''max'', ''20''), (''first'', ''0'')] None] s
            else forget_draft s)))"

definition new_policy_answer :: "policy_ref list \<Rightarrow> policy_page \<Rightarrow> policy_page" where
  "new_policy_answer response s =
     (let added = filter (\<lambda>r. Some (rf_name r) = vs_newPolicyName (pp_view s)) response in
      forget_draft (s\<lparr>pp_selectedPolicies := map_option (\<lambda>ps. ps @ added) (pp_selectedPolicies s)\<rparr>))"

text \<open>The answer with the resource server: without an id in the address the page creates a policy. \<open>viewState\<close> is the address of
  the list of resources or scopes that the user came from.\<close>

definition restore_or :: "(policy_page \<Rightarrow> policy_page) \<Rightarrow> (policy_page, unit) comp" where
  "restore_or init s =
     (if isBackNewAssociatedPolicy (pp_url s) then comp_bind onRestoreState (\<lambda>_. restoreState) s else (Ok (), init s))"

definition server_answer :: "(policy_page, unit) comp" where
  "server_answer s =
     (case pp_policyId s of
        None \<Rightarrow>
          (let s = s\<lparr>pp_create := True, pp_changed := (pp_historyBack s \<or> isBackNewAssociatedPolicy (pp_url s))\<rparr>;
               s = (case pp_viewUrl s of
                      None \<Rightarrow> s
                    | Some u \<Rightarrow> s\<lparr>pp_view := (pp_view s)\<lparr>vs_rootUrl := Some u\<rparr>, pp_viewUrl := None\<rparr>);
               s = s\<lparr>pp_policy := fresh_policy (pp_kind s), pp_original := fresh_policy (pp_kind s)\<rparr> in
           restore_or onInitCreate s)
      | Some i \<Rightarrow>
          (Ok (), pp_do [Request ''GET'' (if isPermission (pp_kind s) then ''ResourceServerPermission'' else ''ResourceServerPolicy'')
             [(''realm'', pp_realm s), (''client'', pp_client s), (''type'', getPolicyType (pp_kind s)), (''id'', i)] None] s))"

text \<open>The answer with a stored policy: the delegates ask for what it refers to. A field of a rule or time policy becomes a number.
  The groups of a stored policy are selected as the same array, until the page is reset; \<open>pp_groupsShared\<close> says whether they are.\<close>

definition time_fields :: "string list" where
  "time_fields = [''dayMonth'', ''dayMonthEnd'', ''month'', ''monthEnd'', ''year'', ''yearEnd'', ''hour'', ''hourEnd'', ''minute'', ''minuteEnd'']"

definition time_numbers :: "(string \<times> field_value) list \<Rightarrow> (string \<times> field_value) list" where
  "time_numbers = map (\<lambda>(k, v). (k, if k \<in> set time_fields \<and> field_truthy v then parse_field v else v))"

definition scanner_number :: "(string \<times> field_value) list \<Rightarrow> (string \<times> field_value) list" where
  "scanner_number f =
     AList.update ''scannerPeriod'' (case map_of f ''scannerPeriod'' of Some v \<Rightarrow> parse_field v | None \<Rightarrow> FNumber None) f"

definition resolveModules :: "policy_page \<Rightarrow> policy_page" where
  "resolveModules s =
     (let s = s\<lparr>pp_policy := (pp_policy s)\<lparr>pol_config := False\<rparr>\<rparr> in
      pp_do [Request ''POST'' ''policy/rules/provider/resolveModules'' [(''realm'', pp_realm s), (''client'', pp_client s)] (Some (pp_policy s))] s)"

definition resolveSessions :: "policy_page \<Rightarrow> policy_page" where
  "resolveSessions s =
     (let s = s\<lparr>pp_policy := (pp_policy s)\<lparr>pol_config := False\<rparr>\<rparr> in
      pp_do [Request ''POST'' ''policy/rules/provider/resolveSessions'' [(''realm'', pp_realm s), (''client'', pp_client s)] (Some (pp_policy s))] s)"

definition realm_requests :: "policy_page \<Rightarrow> string \<Rightarrow> string \<Rightarrow> string list option \<Rightarrow> authz_policy option ui_effect list" where
  "realm_requests s service k ids =
     map (\<lambda>i. Request ''GET'' service [(''realm'', pp_realm s), (k, i)] None) (case ids of None \<Rightarrow> [] | Some is \<Rightarrow> is)"

definition ask_about :: "policy_page \<Rightarrow> string \<Rightarrow> authz_policy option ui_effect" where
  "ask_about s service = id_request s service ''id'' (undef_str (pol_id (pp_policy s)))"

definition init_stored_rules :: "policy_page \<Rightarrow> policy_page" where
  "init_stored_rules s = resolveModules (s\<lparr>pp_policy := (pp_policy s)\<lparr>pol_fields := scanner_number (pol_fields (pp_policy s))\<rparr>\<rparr>)"

definition init_stored_resource :: "policy_page \<Rightarrow> policy_page" where
  "init_stored_resource s =
     pp_do [ask_about s ''ResourceServerPermission.associatedPolicies'']
       (if \<not> str_truthy (pol_resourceType (pp_policy s))
        then pp_do [ask_about s ''ResourceServerPermission.resources''] (s\<lparr>pp_selectedResource := Some \<lparr>rf_id = [], rf_name = []\<rparr>\<rparr>)
        else s\<lparr>pp_applyToResourceTypeFlag := True\<rparr>)"

definition init_stored_scope :: "policy_page \<Rightarrow> policy_page" where
  "init_stored_scope s = pp_do [ask_about s ''ResourceServerPolicy.resources'', ask_about s ''ResourceServerPolicy.associatedPolicies''] s"

definition init_stored_aggregate :: "policy_page \<Rightarrow> policy_page" where
  "init_stored_aggregate s = pp_do [ask_about s ''ResourceServerPolicy.associatedPolicies''] s"

definition init_stored_users :: "policy_page \<Rightarrow> policy_page" where
  "init_stored_users s = pp_do (realm_requests s ''User'' ''userId'' (pol_users (pp_policy s))) (s\<lparr>pp_loadedUsers := []\<rparr>)"

definition init_stored_clients :: "policy_page \<Rightarrow> policy_page" where
  "init_stored_clients s = pp_do (realm_requests s ''Client'' ''client'' (pol_clients (pp_policy s))) (s\<lparr>pp_loadedClients := []\<rparr>)"

definition init_stored_roles :: "policy_page \<Rightarrow> policy_page" where
  "init_stored_roles s =
     pp_do (realm_requests s ''RoleById'' ''role'' (map_option (map fst) (pol_roles (pp_policy s)))) (s\<lparr>pp_loadedRoles := []\<rparr>)"

definition init_stored_groups :: "policy_page \<Rightarrow> policy_page" where
  "init_stored_groups s =
     pp_do (realm_requests s ''Group'' ''groupId'' (map_option (map gch_id) (pol_groups (pp_policy s))))
       (s\<lparr>pp_selectedGroups := pol_groups (pp_policy s), pp_groupsShared := True\<rparr>)"

definition init_stored_time :: "policy_page \<Rightarrow> policy_page" where
  "init_stored_time s = s\<lparr>pp_policy := (pp_policy s)\<lparr>pol_fields := time_numbers (pol_fields (pp_policy s))\<rparr>\<rparr>"

definition onInitUpdate :: "policy_page \<Rightarrow> policy_page" where
  "onInitUpdate s =
     (case pp_kind s of
        Rules \<Rightarrow> init_stored_rules s
      | ResourceP \<Rightarrow> init_stored_resource s
      | ScopeP \<Rightarrow> init_stored_scope s
      | Aggregate \<Rightarrow> init_stored_aggregate s
      | UserP \<Rightarrow> init_stored_users s
      | ClientP \<Rightarrow> init_stored_clients s
      | RoleP \<Rightarrow> init_stored_roles s
      | GroupP \<Rightarrow> init_stored_groups s
      | TimeP \<Rightarrow> init_stored_time s
      | JsP \<Rightarrow> s)"

definition policy_answer :: "authz_policy \<Rightarrow> (policy_page, unit) comp" where
  "policy_answer data s =
     restore_or onInitUpdate
       (s\<lparr>pp_original := data, pp_changed := (pp_historyBack s \<or> isBackNewAssociatedPolicy (pp_url s)), pp_policy := data\<rparr>)"

subsection \<open>Going to an associated policy\<close>

definition remember :: "policy_page \<Rightarrow> policy_page" where
  "remember s =
     (let v = (pp_view s)\<lparr>vs_policy := Some (pp_policy s)\<rparr>;
          v = onSaveState s v;
          v = (case pp_selectedPolicies s of None \<Rightarrow> v | Some ps \<Rightarrow> v\<lparr>vs_selectedPolicies := Some ps\<rparr>) in
      s\<lparr>pp_view := v\<lparr>vs_previousUrl := Some (add_back (pp_url s))\<rparr>\<rparr>)"

definition addAssociatedPolicy :: "string \<Rightarrow> policy_page \<Rightarrow> policy_page" where
  "addAssociatedPolicy policyType s =
     pp_do [GoTo (policy_url (pp_realm s) (pp_client s) (''policy/'' @ policyType @ ''/create?new_policy=true''))] (remember s)"

definition detailPolicy :: "string \<Rightarrow> string \<Rightarrow> policy_page \<Rightarrow> policy_page" where
  "detailPolicy policyType i s =
     pp_do [GoTo (policy_url (pp_realm s) (pp_client s) (''policy/'' @ policyType @ ''/'' @ i @ ''?new_policy=true''))] (remember s)"

text \<open>The loop compares with the list as it is at every turn, and after a splice the next entry is passed over.\<close>

fun removeSelectedPolicy :: "policy_ref list \<Rightarrow> string \<Rightarrow> policy_ref list" where
  "removeSelectedPolicy [] i = []"
| "removeSelectedPolicy (p # ps) i =
     (if rf_id p = i then (case ps of [] \<Rightarrow> [] | q # qs \<Rightarrow> q # removeSelectedPolicy qs i) else p # removeSelectedPolicy ps i)"

definition selectPolicy :: "policy_ref option \<Rightarrow> policy_page \<Rightarrow> policy_page" where
  "selectPolicy r s =
     (case r of
        None \<Rightarrow> s
      | Some p \<Rightarrow>
          if rf_id p = [] then s
          else
            (let ps = (case pp_selectedPolicies s of None \<Rightarrow> [] | Some ps \<Rightarrow> ps) in
             s\<lparr>pp_selectedPolicies := Some (if list_ex (\<lambda>q. rf_id q = rf_id p) ps then ps else ps @ [p])\<rparr>))"

definition applyToResourceType :: "policy_page \<Rightarrow> policy_page" where
  "applyToResourceType s =
     (if pp_applyToResourceTypeFlag s then s\<lparr>pp_selectedResource := None\<rparr>
      else s\<lparr>pp_policy := (pp_policy s)\<lparr>pol_resourceType := None\<rparr>\<rparr>)"

subsection \<open>Saving\<close>

definition checkNameAvailability :: "policy_page \<Rightarrow> policy_page" where
  "checkNameAvailability s =
     (case pol_name (pp_policy s) of
        None \<Rightarrow> s
      | Some n \<Rightarrow>
          if js_trim n = [] then s
          else pp_do [Request ''GET'' ''ResourceServerPolicy.search''
                 [(''realm'', pp_realm s), (''client'', pp_client s), (''name'', n)] None] s)"

text \<open>The answer to the search for the name: the id of the policy that has it, if any.\<close>

definition name_answer :: "string option \<Rightarrow> (policy_page, unit) comp \<Rightarrow> (policy_page, unit) comp" where
  "name_answer found onSuccess s =
     (if str_truthy found \<and> found \<noteq> pol_id (pp_policy s) then
        (Ok (), pp_do [Notify ''error'' ''Name already in use by another policy or permission, please choose another one.''] s)
      else onSuccess s)"

fun scope_choice_id :: "scope_choice \<Rightarrow> string" where
  "scope_choice_id (ScopeObject i n) = i"
| "scope_choice_id (ScopeId i) = i"

definition resource_ids :: "policy_page \<Rightarrow> string list option" where
  "resource_ids s = (case pp_selectedResource s of None \<Rightarrow> None | Some r \<Rightarrow> if rf_id r \<noteq> [] then Some [rf_id r] else None)"

definition selected_ids :: "policy_page \<Rightarrow> string list" where
  "selected_ids s = (case pp_selectedPolicies s of None \<Rightarrow> [] | Some ps \<Rightarrow> map rf_id ps)"

definition role_entries :: "policy_page \<Rightarrow> (string \<times> bool) list" where
  "role_entries s = map (\<lambda>r. (rc_id r, rc_required r)) (pp_selectedRoles s)"

definition set_policy :: "(authz_policy \<Rightarrow> authz_policy) \<Rightarrow> policy_page \<Rightarrow> policy_page" where
  "set_policy f s = s\<lparr>pp_policy := (f (pp_policy s))\<lparr>pol_config := False\<rparr>\<rparr>"

text \<open>What the delegates write into the policy before it is sent. A selection that is null and read raises a TypeError.\<close>

definition create_resource_permission :: "policy_page \<Rightarrow> policy_page" where
  "create_resource_permission s =
     set_policy (\<lambda>p. p\<lparr>pol_resources := resource_ids s, pol_policies := Some (selected_ids s)\<rparr>) s"

definition write_scopes :: "(policy_page, unit) comp" where
  "write_scopes s =
     (case pp_selectedScopes s of
        None \<Rightarrow> (Throw TypeError, s)
      | Some cs \<Rightarrow>
          (Ok (), set_policy (\<lambda>p. p\<lparr>pol_scopes := Some (map scope_choice_id cs), pol_policies := Some (selected_ids s)\<rparr>) s))"

definition create_scope_permission :: "(policy_page, unit) comp" where
  "create_scope_permission s =
     write_scopes (case pp_selectedResource s of
        None \<Rightarrow> s
      | Some r \<Rightarrow> s\<lparr>pp_policy := (pp_policy s)\<lparr>pol_resources := Some [rf_id r]\<rparr>\<rparr>)"

definition create_users_policy :: "policy_page \<Rightarrow> policy_page" where
  "create_users_policy s = set_policy (\<lambda>p. p\<lparr>pol_users := Some (map rf_id (pp_selectedUsers s))\<rparr>) s"

definition create_clients_policy :: "policy_page \<Rightarrow> policy_page" where
  "create_clients_policy s = set_policy (\<lambda>p. p\<lparr>pol_clients := Some (map rf_id (pp_selectedClients s))\<rparr>) s"

definition create_roles_policy :: "policy_page \<Rightarrow> policy_page" where
  "create_roles_policy s = set_policy (\<lambda>p. p\<lparr>pol_roles := Some (role_entries s)\<rparr>) s"

definition create_groups_policy :: "policy_page \<Rightarrow> policy_page" where
  "create_groups_policy s = set_policy (\<lambda>p. p\<lparr>pol_groups := pp_selectedGroups s\<rparr>) (s\<lparr>pp_groupsShared := True\<rparr>)"

definition create_aggregate_policy :: "(policy_page, unit) comp" where
  "create_aggregate_policy s =
     (case pp_selectedPolicies s of
        None \<Rightarrow> (Throw TypeError, s)
      | Some ps \<Rightarrow> (Ok (), set_policy (\<lambda>p. p\<lparr>pol_policies := Some (map rf_id ps)\<rparr>) s))"

definition onCreate :: "(policy_page, unit) comp" where
  "onCreate s =
     (case pp_kind s of
        ResourceP \<Rightarrow> (Ok (), create_resource_permission s)
      | ScopeP \<Rightarrow> create_scope_permission s
      | UserP \<Rightarrow> (Ok (), create_users_policy s)
      | ClientP \<Rightarrow> (Ok (), create_clients_policy s)
      | RoleP \<Rightarrow> (Ok (), create_roles_policy s)
      | GroupP \<Rightarrow> (Ok (), create_groups_policy s)
      | Aggregate \<Rightarrow> create_aggregate_policy s
      | _ \<Rightarrow> (Ok (), set_policy id s))"

definition update_resource_permission :: "(policy_page, unit) comp" where
  "update_resource_permission s =
     create_aggregate_policy (s\<lparr>pp_policy := (pp_policy s)\<lparr>pol_resources := resource_ids s\<rparr>\<rparr>)"

definition update_scope_permission :: "(policy_page, unit) comp" where
  "update_scope_permission s =
     write_scopes (s\<lparr>pp_policy := (pp_policy s)\<lparr>pol_resources :=
        Some (case pp_selectedResource s of None \<Rightarrow> [] | Some r \<Rightarrow> [rf_id r])\<rparr>\<rparr>)"

definition onUpdate :: "(policy_page, unit) comp" where
  "onUpdate s =
     (case pp_kind s of
        ResourceP \<Rightarrow> update_resource_permission s
      | ScopeP \<Rightarrow> update_scope_permission s
      | _ \<Rightarrow> onCreate s)"

definition service_name :: "policy_page \<Rightarrow> string" where
  "service_name s = (if isPermission (pp_kind s) then ''ResourceServerPermission'' else ''ResourceServerPolicy'')"

definition policy_params :: "policy_page \<Rightarrow> (string \<times> string) list" where
  "policy_params s = [(''realm'', pp_realm s), (''client'', pp_client s), (''type'', pol_type (pp_policy s))]"

definition save_new :: "string option \<Rightarrow> (policy_page, unit) comp" where
  "save_new found =
     name_answer found (comp_bind onCreate (\<lambda>_. comp_do (\<lambda>s.
       pp_do [Request ''POST'' (service_name s) (policy_params s) (Some (pp_policy s))] s)))"

definition save_stored :: "string option \<Rightarrow> (policy_page, unit) comp" where
  "save_stored found =
     name_answer found (comp_bind onUpdate (\<lambda>_. comp_do (\<lambda>s.
       pp_do [Request ''PUT'' (service_name s) (policy_params s @ [(''id'', undef_str (pol_id (pp_policy s)))]) (Some (pp_policy s))] s)))"

definition detail_url :: "policy_page \<Rightarrow> string \<Rightarrow> string" where
  "detail_url s i =
     policy_url (pp_realm s) (pp_client s)
       ((if isPermission (pp_kind s) then ''permission/'' else ''policy/'') @ pol_type (pp_policy s) @ ''/'' @ i)"

definition back_with_name :: "policy_page \<Rightarrow> policy_page" where
  "back_with_name s =
     (let s = s\<lparr>pp_view := (pp_view s)\<lparr>vs_newPolicyName := pol_name (pp_policy s)\<rparr>\<rparr> in
      pp_do (go_url (vs_previousUrl (pp_view s))) s)"

definition policy_created :: "string \<Rightarrow> policy_page \<Rightarrow> policy_page" where
  "policy_created i s =
     (if isPermission (pp_kind s) then
        pp_do [Notify ''success'' ''The permission has been created.'']
          (if pp_historyBack s \<or> vs_rootUrl (pp_view s) \<noteq> None then
             (if vs_rootUrl (pp_view s) \<noteq> None then pp_do (go_url (vs_rootUrl (pp_view s))) s else back_with_name s)
           else pp_do [GoTo (detail_url s i)] s)
      else
        pp_do [Notify ''success'' ''The policy has been created.'']
          (if pp_historyBack s then back_with_name s else pp_do [GoTo (detail_url s i)] s))"

definition policy_updated :: "policy_page \<Rightarrow> policy_page" where
  "policy_updated s =
     pp_do [Reload, Notify ''success'' (if isPermission (pp_kind s) then ''The permission has been updated.'' else ''The policy has been updated.'')]
       (if pp_historyBack s then pp_do (go_url (vs_previousUrl (pp_view s))) s
        else pp_do [GoTo (detail_url s (undef_str (pol_id (pp_policy s))))] s)"

definition create_reset :: "policy_page \<Rightarrow> policy_page" where
  "create_reset s =
     (if isPermission (pp_kind s) then
        (if pp_historyBack s \<or> vs_rootUrl (pp_view s) \<noteq> None then
           (if vs_rootUrl (pp_view s) \<noteq> None then pp_do (go_url (vs_rootUrl (pp_view s))) s
            else pp_do (go_url (vs_previousUrl (pp_view s))) s)
         else pp_do [GoTo (policy_url (pp_realm s) (pp_client s) ''permission/'')] s)
      else
        (if pp_historyBack s then pp_do (go_url (vs_previousUrl (pp_view s))) s
         else pp_do [GoTo (policy_url (pp_realm s) (pp_client s) ''policy/'')] s))"

definition update_reset :: "policy_page \<Rightarrow> policy_page" where
  "update_reset s =
     (if pp_historyBack s then pp_do (go_url (vs_previousUrl (pp_view s))) s
      else (onInitUpdate (s\<lparr>pp_policy := pp_original s\<rparr>))\<lparr>pp_groupsShared := False, pp_changed := False\<rparr>)"

text \<open>\<open>angular.equals\<close> on policies does not look at the order of fields.\<close>

definition policy_equals :: "authz_policy \<Rightarrow> authz_policy \<Rightarrow> bool" where
  "policy_equals a b \<longleftrightarrow>
     a\<lparr>pol_fields := []\<rparr> = b\<lparr>pol_fields := []\<rparr> \<and>
     list_all (\<lambda>k. map_of (pol_fields a) k = map_of (pol_fields b) k) (map fst (pol_fields a) @ map fst (pol_fields b))"

text \<open>The watch on the policy, which never takes \<open>changed\<close> back.\<close>

definition watch_policy :: "policy_page \<Rightarrow> policy_page" where
  "watch_policy s = (if \<not> policy_equals (pp_policy s) (pp_original s) then s\<lparr>pp_changed := True\<rparr> else s)"

subsection \<open>The draft survives\<close>

lemma contains_char: "contains s [c] \<longleftrightarrow> c \<in> set s"
  by (simp add: contains_def index_of_char_None)

lemma query_names_append:
  assumes "CHR ''?'' \<notin> set url"
  shows "query_names (url @ ''?'' @ q) = map (takeWhile (\<lambda>c. c \<noteq> CHR ''='')) (split_on CHR ''&'' q)"
  using assms index_of_char_append [of "CHR ''?''" url q] by (simp add: query_names_def)

lemma route_add_back: "\<not> contains url ''back=true'' \<Longrightarrow> isBackNewAssociatedPolicy (add_back url)"
proof (cases "CHR ''?'' \<in> set url")
  case False
  assume "\<not> contains url ''back=true''"
  with False show ?thesis
    using query_names_append [OF False, of "''back=true''"]
    by (simp add: isBackNewAssociatedPolicy_def route_has_def add_back_def contains_char)
next
  case True
  assume nb: "\<not> contains url ''back=true''"
  from True obtain a b where u: "url = a @ CHR ''?'' # b" "CHR ''?'' \<notin> set a" by (meson split_list_first)
  have "add_back url = a @ ''?'' @ (b @ ''&back=true'')" using nb True u by (simp add: add_back_def contains_char)
  then show ?thesis
    using query_names_append [OF u(2), of "b @ ''&back=true''"]
    by (simp add: isBackNewAssociatedPolicy_def route_has_def split_on_both)
qed

text \<open>An address that has \<open>back=true\<close> in it has it as its parameter, as \<open>add_back\<close> itself makes it.\<close>

definition back_url_ok :: "string \<Rightarrow> bool" where
  "back_url_ok url \<longleftrightarrow> (contains url ''back=true'' \<longrightarrow> isBackNewAssociatedPolicy url)"

lemma route_has_back: "back_url_ok url \<Longrightarrow> isBackNewAssociatedPolicy (add_back url)"
  using route_add_back [of url] by (cases "contains url ''back=true''") (simp_all add: back_url_ok_def add_back_def)

definition create_url :: "policy_page \<Rightarrow> policy_kind \<Rightarrow> string" where
  "create_url s k = policy_url (pp_realm s) (pp_client s) (''policy/'' @ getPolicyType k @ ''/create?new_policy=true'')"

lemma create_url_params:
  assumes "CHR ''?'' \<notin> set (pp_realm s @ pp_client s)"
  shows "isNewAssociatedPolicy (create_url s k)" and "\<not> isBackNewAssociatedPolicy (create_url s k)"
proof -
  let ?u = "''/realms/'' @ pp_realm s @ ''/clients/'' @ pp_client s @ ''/authz/resource-server/policy/'' @ getPolicyType k @ ''/create''"
  have "CHR ''?'' \<notin> set ?u" using assms by (cases k) simp_all
  from query_names_append [OF this, of "''new_policy=true''"]
  have "query_names (create_url s k) = [''new_policy'']" by (simp add: create_url_def policy_url_def)
  then show "isNewAssociatedPolicy (create_url s k)" "\<not> isBackNewAssociatedPolicy (create_url s k)"
    by (simp_all add: isNewAssociatedPolicy_def isBackNewAssociatedPolicy_def route_has_def)
qed

text \<open>What a page shows of the policy or permission that is being created.\<close>

definition same_draft :: "policy_page \<Rightarrow> policy_page \<Rightarrow> bool" where
  "same_draft s p \<longleftrightarrow>
     pol_name (pp_policy s) = pol_name (pp_policy p) \<and> pol_description (pp_policy s) = pol_description (pp_policy p) \<and>
     pol_logic (pp_policy s) = pol_logic (pp_policy p) \<and> pol_decisionStrategy (pp_policy s) = pol_decisionStrategy (pp_policy p) \<and>
     (pp_kind p = ResourceP \<longrightarrow> pol_resourceType (pp_policy s) = pol_resourceType (pp_policy p) \<and>
        pp_selectedResource s = pp_selectedResource p \<and> pp_applyToResourceTypeFlag s = pp_applyToResourceTypeFlag p) \<and>
     (pp_kind p = ScopeP \<longrightarrow> pp_selectedScopes s = pp_selectedScopes p \<and> pp_selectedResource s = pp_selectedResource p \<and>
        pp_resourceScopes s = pp_resourceScopes p)"

text \<open>What the remembered state holds of the page that the user leaves.\<close>

definition remembers :: "view_state \<Rightarrow> policy_page \<Rightarrow> bool" where
  "remembers v p \<longleftrightarrow>
     vs_policy v = Some (pp_policy p) \<and> vs_previousUrl v = Some (add_back (pp_url p)) \<and>
     vs_selectedPolicies v = (if pp_selectedPolicies p = None then vs_selectedPolicies (pp_view p) else pp_selectedPolicies p) \<and>
     (pp_kind p = ResourceP \<longrightarrow> vs_selectedResource v = pp_selectedResource p \<and>
        vs_applyToResourceTypeFlag v = pp_applyToResourceTypeFlag p) \<and>
     (pp_kind p = ScopeP \<longrightarrow> vs_selectedScopes v = pp_selectedScopes p \<and> vs_selectedResource v = pp_selectedResource p \<and>
        vs_resourceScopes v = pp_resourceScopes p)"

lemma remembers_addAssociatedPolicy: "remembers (pp_view (addAssociatedPolicy t p)) p"
  by (cases "pp_kind p") (auto simp: remembers_def addAssociatedPolicy_def remember_def delegate_state_defs pp_do_def Let_def split: option.splits)

lemma remembers_frame: "remembers v p \<Longrightarrow> remembers (v\<lparr>vs_previousPage := x\<rparr>) p" "remembers v p \<Longrightarrow> remembers (v\<lparr>vs_newPolicyName := n\<rparr>) p"
  by (simp_all add: remembers_def)

text \<open>The page of the associated policy opens with the remembered state, changed at most in the name of the previous page.\<close>

lemma associated_page:
  assumes "isNewAssociatedPolicy url" and "\<not> isBackNewAssociatedPolicy url" and "remembers v p"
  shows "\<exists>n n1. onInit realm client k url None None (Some v) = Ok n \<and> server_answer n = (Ok (), n1) \<and>
    pp_historyBack n1 \<and> pp_kind n1 = k \<and> remembers (pp_view n1) p \<and> vs_previousPage (pp_view n1) \<noteq> None"
proof -
  obtain x where i: "init_view url (Some v) = Ok (v\<lparr>vs_previousPage := Some x\<rparr>)"
  proof (cases "vs_previousPage v")
    case (Some y)
    then have "init_view url (Some v) = Ok v" using assms(1) by (simp add: init_view_def)
    moreover have "v\<lparr>vs_previousPage := Some y\<rparr> = v" using Some by simp
    ultimately show thesis using that by metis
  qed (use assms(1) that in \<open>simp add: init_view_def\<close>)
  show ?thesis
    using assms remembers_frame(1) [OF assms(3)]
    by (cases k) (auto simp: onInit_def i server_answer_def restore_or_def delegate_state_defs pp_do_def Let_def)
qed

lemma returned_page:
  assumes "isBackNewAssociatedPolicy url" and "remembers v p" and "vs_previousPage v \<noteq> None" and "vs_newPolicyName v = Some nm" and "nm \<noteq> []"
  shows "\<exists>r r1. onInit realm client (pp_kind p) url None None (Some v) = Ok r \<and> server_answer r = (Ok (), r1) \<and>
    same_draft r1 p \<and> vs_newPolicyName (pp_view r1) = Some nm \<and>
    pp_selectedPolicies r1 = Some (case vs_selectedPolicies v of None \<Rightarrow> [] | Some ps \<Rightarrow> ps)"
proof -
  have i: "init_view url (Some v) = Ok v" using assms(1,3) by (auto simp: init_view_def)
  show ?thesis
    using assms
    by (cases "pp_kind p")
      (auto simp: onInit_def i server_answer_def restore_or_def comp_bind_def delegate_state_defs restoreState_def remembers_def
        same_draft_def pp_do_def str_truthy_def Let_def)
qed

lemma draft_answer: "same_draft s p \<Longrightarrow> same_draft (new_policy_answer rs s) p"
  by (simp add: same_draft_def new_policy_answer_def forget_draft_def Let_def)

lemma back_with_name_view:
  assumes "\<not> isPermission (pp_kind q)" and "pp_historyBack q"
  shows "pp_view (policy_created i q) = (pp_view q)\<lparr>vs_newPolicyName := pol_name (pp_policy q)\<rparr>"
    and "vs_previousUrl (pp_view q) = Some u \<Longrightarrow> GoTo u \<in> set (pp_effects (policy_created i q))"
  using assms by (simp_all add: policy_created_def back_with_name_def pp_do_def go_url_def Let_def)

text \<open>The policies that go with the draft: those selected on the page, or, where it selects none, those remembered before.\<close>

definition draft_policies :: "policy_page \<Rightarrow> policy_ref list" where
  "draft_policies p = (case (if pp_selectedPolicies p = None then vs_selectedPolicies (pp_view p) else pp_selectedPolicies p) of
     None \<Rightarrow> [] | Some ps \<Rightarrow> ps)"

text \<open>Whatever was entered on the page of the associated policy, with whatever name it is created, as long as that page was not left
  on the way: the user is sent back to the page \<open>p\<close>, which shows its draft again, and, when the search for the name finds just one
  policy \<open>x\<close> that has it, \<open>x\<close> behind the policies \<open>ps\<close>.\<close>

definition comes_back :: "policy_page \<Rightarrow> policy_ref list \<Rightarrow> policy_page \<Rightarrow> bool" where
  "comes_back p ps n1 \<longleftrightarrow>
     (\<forall>q i x rs. pp_view q = pp_view n1 \<and> pp_kind q = pp_kind n1 \<and> pp_historyBack q = pp_historyBack n1 \<and>
        pol_name (pp_policy q) = Some (rf_name x) \<and> rf_name x \<noteq> [] \<and> filter (\<lambda>r. rf_name r = rf_name x) rs = [x] \<longrightarrow>
      GoTo (add_back (pp_url p)) \<in> set (pp_effects (policy_created i q)) \<and>
      (\<exists>r r1. onInit (pp_realm p) (pp_client p) (pp_kind p) (add_back (pp_url p)) None None (Some (pp_view (policy_created i q))) = Ok r \<and>
        server_answer r = (Ok (), r1) \<and> same_draft (new_policy_answer rs r1) p \<and>
        pp_selectedPolicies (new_policy_answer rs r1) = Some (ps @ [x])))"


definition sample_permission :: policy_page where
  "sample_permission =
     (case onInit ''demo'' ''app'' ScopeP ''/realms/demo/clients/app/authz/resource-server/permission/scope/create'' None None None of
        Ok s \<Rightarrow> (snd (server_answer s))\<lparr>pp_selectedScopes := Some [ScopeId ''view''], pp_policy := (fresh_policy ScopeP)\<lparr>pol_name := Some ''p''\<rparr>\<rparr>)"

lemma sample_permission_facts:
  "pp_url sample_permission = ''/realms/demo/clients/app/authz/resource-server/permission/scope/create''"
  "pp_realm sample_permission = ''demo''" "pp_client sample_permission = ''app''" "pp_selectedPolicies sample_permission = None"
  "vs_selectedPolicies (pp_view sample_permission) = None" "pp_kind sample_permission = ScopeP"
  by code_simp+


text \<open>There is room for one draft only. An associated policy that itself was left to create a third one (an aggregated policy) comes
  back with the state emptied: when it is then created, the user is sent nowhere, and the first draft is gone.\<close>

lemma nested_draft_lost:
  assumes "pp_historyBack s" and "\<not> isPermission (pp_kind s)"
  shows "pp_effects (policy_created i (new_policy_answer rs s)) = pp_effects s @ [Notify ''success'' ''The policy has been created.'']"
    and "vs_policy (pp_view (policy_created i (new_policy_answer rs s))) = None"
  using assms by (simp_all add: policy_created_def new_policy_answer_def forget_draft_def back_with_name_def go_url_def pp_do_def empty_view_def Let_def)

subsection \<open>Checks before saving\<close>

text \<open>A name that belongs to another policy stops the save, and a blank name sends nothing at all.\<close>

lemma name_taken:
  "str_truthy found \<Longrightarrow> found \<noteq> pol_id (pp_policy s) \<Longrightarrow>
     save_new found s = (Ok (), pp_do [Notify ''error'' ''Name already in use by another policy or permission, please choose another one.''] s)"
  by (simp add: save_new_def name_answer_def)

lemma blank_name_ignored: "js_trim (undef_str (pol_name (pp_policy s))) = [] \<Longrightarrow> checkNameAvailability s = s"
  by (auto simp: checkNameAvailability_def undef_str_def split: option.splits)

text \<open>A stored permission on a scope whose resource was changed has no scopes selected: saving it raises before anything is sent.\<close>

definition selectResource :: "policy_page \<Rightarrow> policy_page" where
  "selectResource s =
     (let s = s\<lparr>pp_selectedScopes := None\<rparr> in
      case pp_selectedResource s of
        None \<Rightarrow> s
      | Some r \<Rightarrow>
          pp_do [Request ''GET'' ''ResourceServerResource.scopes''
            [(''realm'', pp_realm s), (''client'', pp_client s), (''rsrid'', rf_id r)] None] s)"

lemma scope_save_without_scopes:
  assumes "pp_kind s = ScopeP" and "\<not> str_truthy found"
  shows "fst (save_stored found (selectResource s)) = Throw TypeError"
    and "pp_effects (snd (save_stored found (selectResource s))) = pp_effects (selectResource s)"
  using assms by (simp_all add: save_stored_def name_answer_def comp_bind_def onUpdate_def update_scope_permission_def write_scopes_def selectResource_def pp_do_def Let_def split: option.split)

lemma removeSelectedPolicy_filter: "distinct (map rf_id ps) \<Longrightarrow> removeSelectedPolicy ps i = filter (\<lambda>p. rf_id p \<noteq> i) ps"
proof (induction ps i rule: removeSelectedPolicy.induct)
  case (2 p ps i)
  show ?case
  proof (cases "rf_id p = i")
    case True
    then have other: "rf_id x \<noteq> i" if "x \<in> set ps" for x using "2.prems" that by (metis distinct.simps(2) image_eqI list.simps(9) set_map)
    then have "filter (\<lambda>p. rf_id p \<noteq> i) ps = ps" by (simp add: filter_id_conv)
    moreover have "removeSelectedPolicy (tl ps) i = tl ps"
      using True "2.prems" "2.IH"(1) [OF True] other by (cases ps) (simp_all add: filter_id_conv)
    ultimately show ?thesis using True by (cases ps) auto
  next
    case False
    then show ?thesis using "2.IH"(2) [OF False] "2.prems" by simp
  qed
qed simp

text \<open>However policies are selected and removed, none is listed twice.\<close>

lemma selectPolicy_distinct:
  "distinct (map rf_id (case pp_selectedPolicies s of None \<Rightarrow> [] | Some ps \<Rightarrow> ps)) \<Longrightarrow>
     distinct (map rf_id (case pp_selectedPolicies (selectPolicy r s) of None \<Rightarrow> [] | Some ps \<Rightarrow> ps))"
  by (auto simp: selectPolicy_def list_ex_iff Let_def split: option.splits)

end
