(* ===== verification/Policy_Choices.thy ===== *)
theory Policy_Choices
  imports Policy_Pages "HOL-Library.Multiset"
begin

section \<open>The admin console: what a policy or permission applies to\<close>

text \<open>
  authz/authz-controller.js, the selections of the pages of \<open>Policy_Pages\<close>: the queries of the select boxes, users (1483-1528), clients
  (1588-1632), roles (1676-1783, 1819-1835), groups (1844-1937), the fields of time policies (2037-2053), and the answers that
  fill the pages of permissions (1023-1061, 1099-1110, 1245-1256, 1259-1359, 1394-1408) and aggregated policies (2093-2111).
  Every answer belongs to the last time the stored policy was shown: answers still on their way when the page is reset are not modelled.
\<close>

subsection \<open>Select boxes\<close>

datatype select_box = UsersBox | ClientsBox | ScopesBox | ResourcesBox | PoliciesBox | PermissionPoliciesBox

text \<open>A blank term is answered at once with nothing; otherwise twenty results are asked for.\<close>

definition box_query :: "string \<Rightarrow> string \<Rightarrow> select_box \<Rightarrow> string \<Rightarrow> authz_policy option ui_effect option" where
  "box_query realm client b term =
     (let named = (\<lambda>service rest. Request ''GET'' service
            ([(''realm'', realm), (''client'', client)] @ rest @ [(''name'', js_trim term), (''max'', ''20''), (''first'', ''0'')]) None);
          search = (\<lambda>service. Request ''GET'' service [(''realm'', realm), (''search'', js_trim term), (''max'', ''20'')] None) in
      if js_trim term = [] then None
      else Some
        (case b of
           UsersBox \<Rightarrow> search ''User''
         | ClientsBox \<Rightarrow> search ''Client''
         | ScopesBox \<Rightarrow> named ''ResourceServerScope'' [(''deep'', ''false'')]
         | ResourcesBox \<Rightarrow> named ''ResourceServerResource'' [(''deep'', ''false'')]
         | PoliciesBox \<Rightarrow> named ''ResourceServerPolicy'' [(''permission'', ''false'')]
         | PermissionPoliciesBox \<Rightarrow> named ''ResourceServerPermission.searchPolicies'' [(''permission'', ''false'')]))"

text \<open>Of the clients in the answer, those are offered whose id contains the term as it was typed.\<close>

definition box_results :: "select_box \<Rightarrow> string \<Rightarrow> policy_ref list \<Rightarrow> policy_ref list" where
  "box_results b term response = (if b = ClientsBox then filter (\<lambda>c. contains (rf_name c) term) response else response)"

subsection \<open>Users and clients\<close>

definition select_ref :: "policy_ref option \<Rightarrow> policy_ref list \<Rightarrow> policy_ref list" where
  "select_ref r xs =
     (case r of
        None \<Rightarrow> xs
      | Some u \<Rightarrow> if rf_id u = [] then xs else if list_ex (\<lambda>x. rf_id x = rf_id u) xs then xs else xs @ [u])"

definition selectPolicyUser :: "policy_ref option \<Rightarrow> policy_page \<Rightarrow> policy_page" where
  "selectPolicyUser r s = s\<lparr>pp_selectedUsers := select_ref r (pp_selectedUsers s)\<rparr>"

definition selectPolicyClient :: "policy_ref option \<Rightarrow> policy_page \<Rightarrow> policy_page" where
  "selectPolicyClient r s = s\<lparr>pp_selectedClients := select_ref r (pp_selectedClients s)\<rparr>"

text \<open>The loop of the users' page goes on after a splice, past the entry that moved up.\<close>

fun remove_same :: "'a list \<Rightarrow> 'a \<Rightarrow> 'a list" where
  "remove_same [] u = []"
| "remove_same (x # xs) u = (if u = x then (case xs of [] \<Rightarrow> [] | y # ys \<Rightarrow> y # remove_same ys u) else x # remove_same xs u)"

definition removeSelectedUser :: "policy_ref \<Rightarrow> policy_page \<Rightarrow> policy_page" where
  "removeSelectedUser u s = s\<lparr>pp_selectedUsers := remove_same (pp_selectedUsers s) u\<rparr>"

definition remove_found :: "'a \<Rightarrow> 'a list \<Rightarrow> 'a list" where
  "remove_found x xs = (case index_in x xs of Some i \<Rightarrow> splice1 i xs | None \<Rightarrow> xs)"

definition removeClient :: "policy_ref \<Rightarrow> policy_page \<Rightarrow> policy_page" where
  "removeClient c s = s\<lparr>pp_selectedClients := remove_found c (pp_selectedClients s)\<rparr>"

definition user_answer :: "policy_ref \<Rightarrow> policy_page \<Rightarrow> policy_page" where
  "user_answer data s = (let us = pp_loadedUsers s @ [data] in s\<lparr>pp_loadedUsers := us, pp_selectedUsers := us\<rparr>)"

definition client_answer :: "policy_ref \<Rightarrow> policy_page \<Rightarrow> policy_page" where
  "client_answer data s = (let cs = pp_loadedClients s @ [data] in s\<lparr>pp_loadedClients := cs, pp_selectedClients := cs\<rparr>)"

text \<open>The watches on the selections of a stored policy set \<open>changed\<close> both ways.\<close>

definition watch_users :: "policy_page \<Rightarrow> policy_page" where
  "watch_users s = s\<lparr>pp_changed := (pp_selectedUsers s \<noteq> pp_loadedUsers s)\<rparr>"

definition watch_clients :: "policy_page \<Rightarrow> policy_page" where
  "watch_clients s = s\<lparr>pp_changed := (pp_selectedClients s \<noteq> pp_loadedClients s)\<rparr>"

text \<open>On the page of a new policy for clients, the watch only sets it.\<close>

definition watch_new_clients :: "policy_page \<Rightarrow> policy_page" where
  "watch_new_clients s = (if pp_selectedClients s \<noteq> [] then s\<lparr>pp_changed := True\<rparr> else s)"

subsection \<open>Roles\<close>

definition selectRole :: "role_choice option \<Rightarrow> policy_page \<Rightarrow> policy_page" where
  "selectRole r s =
     (case r of
        None \<Rightarrow> s
      | Some q \<Rightarrow>
          if rc_id q = [] \<or> list_ex (\<lambda>x. rc_id x = rc_id q) (pp_selectedRoles s) then s
          else s\<lparr>pp_selectedRoles := pp_selectedRoles s @ [q],
                 pp_clientRoles := map_option (filter (\<lambda>x. rc_id x \<noteq> rc_id q)) (pp_clientRoles s)\<rparr>)"

definition removeRole :: "role_choice \<Rightarrow> policy_page \<Rightarrow> policy_page" where
  "removeRole q s =
     (let s = (case (pp_clientRoles s, pp_roleClient s) of
                 (Some rs, Some c) \<Rightarrow> if rf_id c = rc_containerId q then s\<lparr>pp_clientRoles := Some (rs @ [q])\<rparr> else s
               | _ \<Rightarrow> s) in
      s\<lparr>pp_selectedRoles := remove_found q (pp_selectedRoles s)\<rparr>)"

definition selectRoleClient :: "policy_ref option \<Rightarrow> policy_page \<Rightarrow> policy_page" where
  "selectRoleClient c s =
     (let s = s\<lparr>pp_roleClient := c\<rparr> in
      case c of
        None \<Rightarrow> s\<lparr>pp_clientRoles := Some []\<rparr>
      | Some d \<Rightarrow> pp_do [Request ''GET'' ''ClientRole'' [(''realm'', pp_realm s), (''client'', rf_id d)] None] s)"

text \<open>The answer reads the client that is selected by then, and fails on the first role it offers when there is none.\<close>

definition offered_roles_answer :: "role_choice list \<Rightarrow> (policy_page, unit) comp" where
  "offered_roles_answer data s =
     (let free = filter (\<lambda>r. \<not> list_ex (\<lambda>x. rc_id x = rc_id r) (pp_selectedRoles s)) data in
      case pp_roleClient s of
        None \<Rightarrow> if free = [] then (Ok (), s\<lparr>pp_clientRoles := Some []\<rparr>) else (Throw TypeError, s)
      | Some c \<Rightarrow> (Ok (), s\<lparr>pp_clientRoles := Some (map (\<lambda>r. r\<lparr>rc_container := Some (rf_name c)\<rparr>) free)\<rparr>))"

text \<open>The realm roles that are offered; selecting one does not take it out of the list.\<close>

definition realm_roles_answer :: "role_choice list \<Rightarrow> policy_page \<Rightarrow> policy_page" where
  "realm_roles_answer data s = s\<lparr>pp_roles := Some data\<rparr>"

definition role_clients_answer :: "policy_ref list \<Rightarrow> policy_page \<Rightarrow> policy_page" where
  "role_clients_answer data s = s\<lparr>pp_clients := Some data\<rparr>"

definition complete_role :: "(string \<times> bool) list \<Rightarrow> policy_ref list \<Rightarrow> role_choice \<Rightarrow> role_choice" where
  "complete_role roles clients data =
     fold (\<lambda>c d. if rf_id c = rc_containerId d then d\<lparr>rc_container := Some (rf_name c)\<rparr> else d) clients
       (fold (\<lambda>(i, q) d. if i = rc_id d then d\<lparr>rc_required := q\<rparr> else d) roles data)"

definition add_role :: "role_choice \<Rightarrow> policy_page \<Rightarrow> policy_page" where
  "add_role d s = (let rs = pp_loadedRoles s @ [d] in s\<lparr>pp_loadedRoles := rs, pp_selectedRoles := rs\<rparr>)"

definition role_answer :: "(string \<times> bool) list \<Rightarrow> role_choice \<Rightarrow> (policy_page, unit) comp" where
  "role_answer roles data s =
     (case pp_clients s of
        None \<Rightarrow> (Throw TypeError, s)
      | Some cs \<Rightarrow> (Ok (), add_role (complete_role roles cs data) s))"

definition watch_roles :: "policy_page \<Rightarrow> policy_page" where
  "watch_roles s = s\<lparr>pp_changed := (pp_selectedRoles s \<noteq> pp_loadedRoles s)\<rparr>"

definition hasSelectedRealmRole :: "policy_page \<Rightarrow> bool" where
  "hasSelectedRealmRole s = list_ex (\<lambda>r. \<not> rc_clientRole r) (pp_selectedRoles s)"

definition hasSelectedClientRole :: "policy_page \<Rightarrow> bool" where
  "hasSelectedClientRole s = list_ex rc_clientRole (pp_selectedRoles s)"

subsection \<open>Groups\<close>

text \<open>A change of the selected groups is one of the policy's groups when both are the same array.\<close>

definition set_groups :: "group_choice list option \<Rightarrow> policy_page \<Rightarrow> policy_page" where
  "set_groups gs s =
     (let s = s\<lparr>pp_selectedGroups := gs\<rparr> in
      if pp_groupsShared s then s\<lparr>pp_policy := (pp_policy s)\<lparr>pol_groups := gs\<rparr>\<rparr> else s)"

definition selectGroup :: "group_choice \<Rightarrow> (policy_page, unit) comp" where
  "selectGroup g s =
     (case pp_selectedGroups s of
        None \<Rightarrow> (Throw TypeError, s)
      | Some gs \<Rightarrow>
          (Ok (),
           if list_ex (\<lambda>x. gch_id x = gch_id g) gs then s
           else (set_groups (Some (gs @ [\<lparr>gch_id = gch_id g, gch_path = gch_path g, gch_extendChildren = False\<rparr>])) s)
                  \<lparr>pp_changed := True\<rparr>))"

definition extendChildren :: "policy_page \<Rightarrow> policy_page" where
  "extendChildren s = s\<lparr>pp_changed := True\<rparr>"

definition removeGroup :: "group_choice \<Rightarrow> (policy_page, unit) comp" where
  "removeGroup g s =
     (case pp_selectedGroups s of
        None \<Rightarrow> (Throw TypeError, s)
      | Some gs \<Rightarrow>
          (Ok (), if g \<in> set gs then (set_groups (Some (remove_found g gs)) s)\<lparr>pp_changed := True\<rparr> else s))"

definition group_path_answer :: "string \<Rightarrow> string \<Rightarrow> policy_page \<Rightarrow> policy_page" where
  "group_path_answer i path s =
     set_groups (map_option (map (\<lambda>g. if gch_id g = i then g\<lparr>gch_path := path\<rparr> else g)) (pp_selectedGroups s)) s"

definition watch_new_groups :: "policy_page \<Rightarrow> policy_page" where
  "watch_new_groups s = s\<lparr>pp_changed := (pp_selectedGroups s \<noteq> Some [] \<or> isNewAssociatedPolicy (pp_url s))\<rparr>"

text \<open>The watch of a stored policy names a variable that does not exist.\<close>

definition watch_stored_groups :: "(policy_page, unit) comp" where
  "watch_stored_groups s = (if \<not> pp_changed s then (Ok (), s) else (Throw ReferenceError, s))"

subsection \<open>Time\<close>

definition isRequired :: "authz_policy \<Rightarrow> bool" where
  "isRequired p \<longleftrightarrow>
     \<not> list_ex (\<lambda>k. case map_of (pol_fields p) k of None \<Rightarrow> False | Some v \<Rightarrow> field_truthy v)
        [''notOnOrAfter'', ''notBefore'', ''dayMonth'', ''month'', ''year'', ''hour'', ''minute'']"

subsection \<open>Permissions and aggregated policies\<close>

definition associated_answer :: "policy_ref list \<Rightarrow> policy_page \<Rightarrow> policy_page" where
  "associated_answer policies s = s\<lparr>pp_selectedPolicies := Some policies\<rparr>"

definition resource_answer :: "policy_ref list \<Rightarrow> (policy_page, unit) comp" where
  "resource_answer resources s =
     (case resources of
        [] \<Rightarrow> (Throw TypeError, s)
      | r # _ \<Rightarrow> (Ok (), s\<lparr>pp_selectedResource := Some r\<rparr>))"

definition new_resource_answer :: "policy_ref \<Rightarrow> policy_page \<Rightarrow> policy_page" where
  "new_resource_answer data s = s\<lparr>pp_selectedResource := Some data\<rparr>"

definition new_scope_answer :: "policy_ref \<Rightarrow> (policy_page, unit) comp" where
  "new_scope_answer data s =
     (let s = (if pol_scopes (pp_policy s) = None then s\<lparr>pp_selectedScopes := Some []\<rparr> else s) in
      case pp_selectedScopes s of
        None \<Rightarrow> (Throw TypeError, s)
      | Some cs \<Rightarrow> (Ok (), s\<lparr>pp_selectedScopes := Some (cs @ [ScopeObject (rf_id data) (rf_name data)])\<rparr>))"

text \<open>The answers on the page of a stored permission on scopes. The first one decides how the scopes are kept: by their ids when the
  permission names a resource, which is then asked for once for every resource there is, and as objects otherwise.\<close>

definition scope_resources_answer :: "policy_ref list \<Rightarrow> policy_page \<Rightarrow> policy_page" where
  "scope_resources_answer resources s =
     (let scopes = id_request s ''ResourceServerPolicy.scopes'' ''id'' (undef_str (pol_id (pp_policy s))) in
      case resources of
        [] \<Rightarrow> pp_do [scopes] (s\<lparr>pp_selectedResource := None\<rparr>)
      | r # _ \<Rightarrow> pp_do (map (\<lambda>_. id_request s ''ResourceServerResource'' ''rsrid'' (rf_id r)) resources @ [scopes]) s)"

definition scope_resource_get_answer :: "policy_ref \<Rightarrow> policy_page \<Rightarrow> policy_page" where
  "scope_resource_get_answer r s =
     pp_do [Request ''GET'' ''ResourceServerResource''
       [(''realm'', pp_realm s), (''client'', pp_client s), (''_id'', rf_id r), (''deep'', ''false'')] None] s"

definition scope_resource_query_answer :: "policy_ref list \<Rightarrow> (policy_page, unit) comp" where
  "scope_resource_query_answer rs s =
     (case rs of
        [] \<Rightarrow> (Throw TypeError, s)
      | r # _ \<Rightarrow>
          (Ok (), pp_do [id_request s ''ResourceServerResource.scopes'' ''rsrid'' (rf_id r)] (s\<lparr>pp_selectedResource := Some r\<rparr>)))"

definition resource_scopes_answer :: "policy_ref list \<Rightarrow> policy_page \<Rightarrow> policy_page" where
  "resource_scopes_answer scopes s = s\<lparr>pp_resourceScopes := Some scopes\<rparr>"

definition scopes_answer :: "bool \<Rightarrow> policy_ref list \<Rightarrow> policy_page \<Rightarrow> policy_page" where
  "scopes_answer with_resource scopes s =
     s\<lparr>pp_selectedScopes := Some (map (\<lambda>x. if with_resource then ScopeId (rf_id x) else ScopeObject (rf_id x) (rf_name x)) scopes)\<rparr>"

subsection \<open>Answers that arrive one by one\<close>

text \<open>A page that gathers answers in a list of its own and selects a copy of the list after every answer.\<close>

locale gathering =
  fixes answer :: "'a \<Rightarrow> 's \<Rightarrow> 's" and gathered :: "'s \<Rightarrow> 'a list" and chosen :: "'s \<Rightarrow> 'a list"
  assumes gathered_answer: "gathered (answer x s) = gathered s @ [x]"
    and chosen_answer: "chosen (answer x s) = gathered s @ [x]"
begin

lemma gathered_all: "gathered (fold answer xs s) = gathered s @ xs"
  by (induction xs arbitrary: s) (simp_all add: gathered_answer)

lemma chosen_all: "chosen s = gathered s \<Longrightarrow> chosen (fold answer xs s) = gathered s @ xs"
  by (induction xs arbitrary: s) (simp_all add: gathered_answer chosen_answer)

end

interpretation users: gathering user_answer pp_loadedUsers pp_selectedUsers
  by unfold_locales (simp_all add: user_answer_def Let_def)

interpretation clients: gathering client_answer pp_loadedClients pp_selectedClients
  by unfold_locales (simp_all add: client_answer_def Let_def)

interpretation roles: gathering add_role pp_loadedRoles pp_selectedRoles
  by unfold_locales (simp_all add: add_role_def Let_def)

text \<open>The answers leave the rest of the page alone.\<close>

definition same_page :: "policy_page \<Rightarrow> policy_page \<Rightarrow> bool" where
  "same_page s t \<longleftrightarrow> pp_kind s = pp_kind t \<and> pp_policy s = pp_policy t \<and> pp_realm s = pp_realm t \<and> pp_client s = pp_client t \<and>
     pp_clients s = pp_clients t"

lemma same_page_refl [simp]: "same_page s s"
  by (simp add: same_page_def)

lemma answers_same_page:
  "same_page (fold user_answer us s) s" "same_page (fold client_answer cs s) s" "same_page (fold add_role rs s) s"
proof -
  show "same_page (fold user_answer us s) s" by (induction us arbitrary: s) (simp_all add: same_page_def user_answer_def Let_def)
  show "same_page (fold client_answer cs s) s" by (induction cs arbitrary: s) (simp_all add: same_page_def client_answer_def Let_def)
  show "same_page (fold add_role rs s) s" by (induction rs arbitrary: s) (simp_all add: same_page_def add_role_def Let_def)
qed

lemma role_answers:
  "pp_clients s = Some cs \<Longrightarrow> fold (\<lambda>d s. snd (role_answer roles d s)) ds s = fold add_role (map (complete_role roles cs) ds) s"
proof (induction ds arbitrary: s)
  case (Cons d ds)
  then have "pp_clients (add_role (complete_role roles cs d) s) = Some cs" by (simp add: add_role_def Let_def)
  with Cons show ?case by (simp add: role_answer_def)
qed simp

lemma container_fold:
  "rc_id (fold (\<lambda>c d. if rf_id c = rc_containerId d then d\<lparr>rc_container := Some (rf_name c)\<rparr> else d) cs d) = rc_id d"
  "rc_required (fold (\<lambda>c d. if rf_id c = rc_containerId d then d\<lparr>rc_container := Some (rf_name c)\<rparr> else d) cs d) = rc_required d"
  by (induction cs arbitrary: d) simp_all

lemma required_fold:
  "rc_id (fold (\<lambda>(i, q) d. if i = rc_id d then d\<lparr>rc_required := q\<rparr> else d) roles d) = rc_id d"
  "distinct (map fst roles) \<Longrightarrow> (rc_id d, q) \<in> set roles \<Longrightarrow>
     rc_required (fold (\<lambda>(i, q) d. if i = rc_id d then d\<lparr>rc_required := q\<rparr> else d) roles d) = q"
proof -
  show "rc_id (fold (\<lambda>(i, q) d. if i = rc_id d then d\<lparr>rc_required := q\<rparr> else d) roles d) = rc_id d"
    by (induction roles arbitrary: d) auto
  have other: "rc_required (fold (\<lambda>(i, q) d. if i = rc_id d then d\<lparr>rc_required := q\<rparr> else d) roles d) = rc_required d"
    if "rc_id d \<notin> fst ` set roles" for roles d using that by (induction roles arbitrary: d) auto
  show "distinct (map fst roles) \<Longrightarrow> (rc_id d, q) \<in> set roles \<Longrightarrow>
     rc_required (fold (\<lambda>(i, q) d. if i = rc_id d then d\<lparr>rc_required := q\<rparr> else d) roles d) = q"
    by (induction roles arbitrary: d) (auto simp: other image_iff)
qed

lemma complete_role_entry:
  assumes "distinct (map fst roles)" and "rc_id d \<in> fst ` set roles"
  shows "(rc_id (complete_role roles cs d), rc_required (complete_role roles cs d)) = (rc_id d, the (map_of roles (rc_id d)))"
proof -
  from assms(2) obtain q where "(rc_id d, q) \<in> set roles" by auto
  with assms(1) show ?thesis by (simp add: complete_role_def container_fold required_fold)
qed

lemma entries_by_key: "distinct (map fst rs) \<Longrightarrow> map (\<lambda>i. (i, the (map_of rs i))) (map fst rs) = rs"
  unfolding map_map by (rule map_idI) (auto simp: map_of_eq_Some_iff)

subsection \<open>A stored policy is saved as it was\<close>

lemma opened_page:
  assumes "onInit realm client k url i viewUrl view = Ok s"
  shows "pp_kind s = k" "pp_url s = url" "pp_realm s = realm" "pp_client s = client" "pp_selectedUsers s = []" "pp_selectedClients s = []"
    "pp_selectedRoles s = []" "pp_policyId s = i"
  using assms by (cases "init_view url view"; simp add: onInit_def pp_do_def; fastforce)+

lemma save_stored_sends:
  assumes "\<not> str_truthy found \<or> found = pol_id (pp_policy s)" and "onUpdate s = (Ok (), s')"
  shows "last (pp_effects (snd (save_stored found s))) =
    Request ''PUT'' (service_name s') (policy_params s' @ [(''id'', undef_str (pol_id (pp_policy s')))]) (Some (pp_policy s'))"
  using assms by (auto simp: save_stored_def name_answer_def comp_bind_def comp_do_def pp_do_def)

text \<open>C28. A stored policy for roles, opened and saved again, is sent with the roles it had: in whichever order the answers for its roles
  arrive, provided that the list of clients arrived before them, the policy that is sent differs from the stored one at most in the
  order of its roles and in the dropped configuration, and every role is still required or not as it was.\<close>

theorem stored_roles_saved:
  assumes "onInit realm client RoleP url (Some i) viewUrl view = Ok s" and "\<not> isBackNewAssociatedPolicy url"
    and "pol_roles data = Some rs" and "distinct (map fst rs)" and "mset (map rc_id answers) = mset (map fst rs)"
    and "\<not> str_truthy found \<or> found = pol_id data"
  shows "\<exists>rs'. mset rs' = mset rs \<and>
    last (pp_effects (snd (save_stored found
      (fold (\<lambda>d s. snd (role_answer rs d s)) answers (snd (policy_answer data (role_clients_answer cs (snd (server_answer s))))))))) =
    Request ''PUT'' ''ResourceServerPolicy''
      [(''realm'', realm), (''client'', client), (''type'', pol_type data), (''id'', undef_str (pol_id data))]
      (Some (data\<lparr>pol_roles := Some rs', pol_config := False\<rparr>))"
proof -
  note o = opened_page [OF assms(1)]
  define s1 where "s1 = snd (policy_answer data (role_clients_answer cs (snd (server_answer s))))"
  have s1: "pp_kind s1 = RoleP" "pp_policy s1 = data" "pp_realm s1 = realm" "pp_client s1 = client" "pp_clients s1 = Some cs"
      "pp_selectedRoles s1 = []" "pp_loadedRoles s1 = []"
    using o assms(2) by (simp_all add: s1_def policy_answer_def restore_or_def role_clients_answer_def server_answer_def onInitUpdate_def init_stored_roles_def pp_do_def Let_def)
  define s2 where "s2 = fold (\<lambda>d s. snd (role_answer rs d s)) answers s1"
  have s2: "s2 = fold add_role (map (complete_role rs cs) answers) s1" using role_answers [OF s1(5)] by (simp add: s2_def)
  have f: "same_page s2 s1" unfolding s2 by (rule answers_same_page)
  have sel: "pp_selectedRoles s2 = map (complete_role rs cs) answers" using roles.chosen_all [of s1] s1(6,7) by (simp add: s2)
  let ?rs = "map (\<lambda>d. (rc_id d, the (map_of rs (rc_id d)))) answers"
  have "rc_id d \<in> fst ` set rs" if "d \<in> set answers" for d
    using that assms(5) by (metis image_eqI set_map set_mset_mset)
  then have e: "role_entries s2 = ?rs" using complete_role_entry [OF assms(4)] by (simp add: role_entries_def sel)
  have "mset ?rs = image_mset (\<lambda>i. (i, the (map_of rs i))) (mset (map rc_id answers))" by (simp add: multiset.map_comp comp_def)
  also have "\<dots> = mset (map (\<lambda>i. (i, the (map_of rs i))) (map fst rs))" unfolding assms(5) by (simp only: mset_map)
  also have "\<dots> = mset rs" using entries_by_key [OF assms(4)] by simp
  finally have m: "mset ?rs = mset rs" .
  have "onUpdate s2 = (Ok (), set_policy (\<lambda>p. p\<lparr>pol_roles := Some ?rs\<rparr>) s2)"
    using f s1 by (simp add: onUpdate_def onCreate_def create_roles_policy_def same_page_def e)
  from save_stored_sends [OF _ this, of found] m show ?thesis
    using f s1 assms(6) unfolding s1_def [symmetric] s2_def [symmetric]
    by (intro exI [of _ ?rs]) (auto simp: same_page_def service_name_def policy_params_def set_policy_def)
qed

definition sample_role_page :: policy_page where
  "sample_role_page =
     (case onInit ''demo'' ''app'' RoleP ''/realms/demo/clients/app/authz/resource-server/policy/role/7'' (Some ''7'') None None of Ok s \<Rightarrow> s)"

definition sample_role :: "string \<Rightarrow> role_choice" where
  "sample_role i = \<lparr>rc_id = i, rc_containerId = ''c'', rc_clientRole = True, rc_required = False, rc_container = None\<rparr>"

definition sample_role_policy :: authz_policy where
  "sample_role_policy = (fresh_policy RoleP)\<lparr>pol_id := Some ''7'', pol_name := Some ''staff'', pol_roles := Some [(''a'', True), (''b'', False)]\<rparr>"

theorem stored_roles_saved_witness:
  "\<exists>rs'. mset rs' = mset [(''a'', True), (''b'', False)] \<and>
    last (pp_effects (snd (save_stored None
      (fold (\<lambda>d s. snd (role_answer [(''a'', True), (''b'', False)] d s)) [sample_role ''b'', sample_role ''a'']
        (snd (policy_answer sample_role_policy (role_clients_answer [] (snd (server_answer sample_role_page))))))))) =
    Request ''PUT'' ''ResourceServerPolicy''
      [(''realm'', ''demo''), (''client'', ''app''), (''type'', ''role''), (''id'', ''7'')]
      (Some (sample_role_policy\<lparr>pol_roles := Some rs', pol_config := False\<rparr>))"
proof -
  let ?url = "''/realms/demo/clients/app/authz/resource-server/policy/role/7''"
  have o: "onInit ''demo'' ''app'' RoleP ?url (Some ''7'') None None = Ok sample_role_page" by code_simp
  have b: "\<not> isBackNewAssociatedPolicy ?url" by code_simp
  have r: "pol_roles sample_role_policy = Some [(''a'', True), (''b'', False)]" by (simp add: sample_role_policy_def)
  show ?thesis
    using stored_roles_saved [OF o b r, of "[sample_role ''b'', sample_role ''a'']" None "[]"]
    by (simp add: sample_role_def sample_role_policy_def fresh_policy_def str_truthy_def undef_str_def)
qed

text \<open>Before the list of clients is there, the answer for a role raises and the role is not selected. A save then sends the policy
  without it.\<close>

lemma early_role_lost:
  assumes "pp_clients s = None"
  shows "fst (role_answer rs d s) = Throw TypeError" and "role_entries (snd (role_answer rs d s)) = role_entries s"
  using assms by (simp_all add: role_answer_def)

text \<open>The watch on the users takes back what another edit set: after a user was selected and removed again, a policy with a new
  description counts as unchanged.\<close>

lemma changed_taken_back:
  assumes "pp_selectedUsers s = pp_loadedUsers s" and "rf_id u \<noteq> []" and "rf_id u \<notin> rf_id ` set (pp_selectedUsers s)"
  shows "pp_changed (watch_users (selectPolicyUser (Some u) s))"
    and "\<not> pp_changed (watch_users (removeSelectedUser u (watch_users (selectPolicyUser (Some u) s))))"
proof -
  have n: "u \<notin> set (pp_selectedUsers s)" using assms(3) by auto
  have r: "u \<notin> set xs \<Longrightarrow> remove_same (xs @ [u]) u = xs" for xs by (induction xs) auto
  have a: "pp_selectedUsers (selectPolicyUser (Some u) s) = pp_selectedUsers s @ [u]"
    using assms(2,3) by (auto simp: selectPolicyUser_def select_ref_def list_ex_iff image_iff)
  show "pp_changed (watch_users (selectPolicyUser (Some u) s))" using a assms(1) by (simp add: watch_users_def selectPolicyUser_def)
  show "\<not> pp_changed (watch_users (removeSelectedUser u (watch_users (selectPolicyUser (Some u) s))))"
    using a assms(1) r [OF n] by (simp add: watch_users_def removeSelectedUser_def selectPolicyUser_def)
qed

text \<open>A term that ends with a blank is searched for without it, but of the answer nothing is offered unless a client has the blank in
  its id.\<close>

lemma trailing_blank_finds_nothing:
  "list_all (\<lambda>c. CHR '' '' \<notin> set (rf_name c)) response \<Longrightarrow> box_results ClientsBox (term @ '' '') response = []"
proof (induction response)
  case (Cons c cs)
  have "\<not> contains (rf_name c) (term @ '' '')" if "CHR '' '' \<notin> set (rf_name c)"
    using that index_of_foreign [of "CHR '' ''" "term @ '' ''"] by (simp add: contains_def)
  with Cons show ?case by (simp add: box_results_def)
qed (simp add: box_results_def)

text \<open>The page of a new policy for rules counts as changed as soon as it is shown.\<close>

lemma rules_changed_at_once:
  assumes "pp_kind s = Rules" and "pp_policyId s = None" and "\<not> isBackNewAssociatedPolicy (pp_url s)"
  shows "pp_changed (watch_policy (snd (server_answer s)))"
    and "map_of (pol_fields (pp_policy (snd (server_answer s)))) ''scannerPeriod'' = None"
proof -
  have p: "pp_policy (snd (server_answer s)) = fresh_policy Rules"
    "map_of (pol_fields (pp_original (snd (server_answer s)))) ''scannerPeriod'' = Some (FNumber (Some 1))"
    "''scannerPeriod'' \<in> fst ` set (pol_fields (pp_original (snd (server_answer s))))"
    using assms by (cases "pp_viewUrl s"; simp add: server_answer_def restore_or_def onInitCreate_def init_new_rules_def fresh_policy_def)+
  then show "map_of (pol_fields (pp_policy (snd (server_answer s)))) ''scannerPeriod'' = None" by (simp add: fresh_policy_def)
  from p have "\<not> policy_equals (pp_policy (snd (server_answer s))) (pp_original (snd (server_answer s)))"
    by (force simp: policy_equals_def list_all_iff fresh_policy_def)
  then show "pp_changed (watch_policy (snd (server_answer s)))" by (simp add: watch_policy_def)
qed

subsection \<open>Roles are selected or offered\<close>

inductive role_step :: "policy_page \<Rightarrow> policy_page \<Rightarrow> bool" where
  select: "role_step s (selectRole r s)"
| remove: "q \<in> set (pp_selectedRoles s) \<Longrightarrow> role_step s (removeRole q s)"
| of_client: "role_step s (selectRoleClient c s)"
| offered: "distinct (map rc_id data) \<Longrightarrow> role_step s (snd (offered_roles_answer data s))"
| realm_roles: "distinct (map rc_id data) \<Longrightarrow> role_step s (realm_roles_answer data s)"
| clients: "role_step s (role_clients_answer cs s)"

text \<open>The two boxes from which a role is selected.\<close>

definition offered_roles :: "policy_page \<Rightarrow> role_choice list" where
  "offered_roles s = (case pp_clientRoles s of None \<Rightarrow> [] | Some rs \<Rightarrow> rs)"

definition offered_realm_roles :: "policy_page \<Rightarrow> role_choice list" where
  "offered_realm_roles s = (case pp_roles s of None \<Rightarrow> [] | Some rs \<Rightarrow> rs)"

definition roles_apart :: "policy_page \<Rightarrow> bool" where
  "roles_apart s \<longleftrightarrow> distinct (map rc_id (pp_selectedRoles s @ offered_roles s)) \<and> distinct (map rc_id (offered_realm_roles s))"

lemma remove_found_remove1: "remove_found x xs = remove1 x xs"
  using index_in_None [of x xs] by (auto simp: remove_found_def splice1_index_in remove1_idem split: option.split)

lemma remove1_ids: "q \<in> set xs \<Longrightarrow> distinct (map rc_id xs) \<Longrightarrow> set (map rc_id (remove1 q xs)) = set (map rc_id xs) - {rc_id q}"
  by (induction xs) auto

lemma remove1_distinct_ids: "distinct (map rc_id xs) \<Longrightarrow> distinct (map rc_id (remove1 q xs))"
  by (induction xs) (auto dest: in_set_remove1 [THEN iffD1, rotated] notin_set_remove1)

lemma roles_apart_step: "role_step s s' \<Longrightarrow> roles_apart s \<Longrightarrow> roles_apart s'"
proof (induction rule: role_step.induct)
  case (select s r)
  then show ?case
    by (cases r; cases "pp_clientRoles s")
      (auto simp: roles_apart_def offered_roles_def offered_realm_roles_def selectRole_def list_ex_iff distinct_map_filter)
next
  case (remove q s)
  then have d: "distinct (map rc_id (pp_selectedRoles s))" by (simp add: roles_apart_def)
  show ?case
    using remove remove1_ids [OF remove(1) d] remove1_distinct_ids [OF d, of q]
    by (auto simp: roles_apart_def offered_roles_def offered_realm_roles_def removeRole_def remove_found_remove1 Let_def split: option.splits)
next
  case (of_client s c)
  then show ?case by (cases c) (auto simp: roles_apart_def offered_roles_def offered_realm_roles_def selectRoleClient_def pp_do_def Let_def)
next
  case (offered data s)
  then show ?case
    by (auto simp: roles_apart_def offered_roles_def offered_realm_roles_def offered_roles_answer_def list_ex_iff distinct_map_filter comp_def Let_def split: option.splits)
qed (simp_all add: roles_apart_def offered_roles_def offered_realm_roles_def realm_roles_answer_def role_clients_answer_def)

text \<open>C29. However the user selects and removes roles and switches between clients on the page of a new policy for roles, and in
  whatever order the lists arrive, no role is selected twice, no role is offered twice in one box, and no role of the client in the
  box for client roles is selected and offered at once. A realm role stays in its box when it is selected; selecting it again changes nothing.\<close>

theorem roles_never_twice:
  assumes "onInit realm client RoleP url None viewUrl view = Ok s" and "role_step\<^sup>*\<^sup>* s t"
  shows "distinct (map rc_id (pp_selectedRoles t @ offered_roles t)) \<and> distinct (map rc_id (offered_realm_roles t)) \<and>
    offered_realm_roles (selectRole r t) = offered_realm_roles t \<and> selectRole r (selectRole r t) = selectRole r t"
proof -
  have "roles_apart t" using assms(2)
  proof (induction rule: rtranclp_induct)
    case base
    show ?case using assms(1)
      by (cases "init_view url view") (auto simp: onInit_def pp_do_def roles_apart_def offered_roles_def offered_realm_roles_def)
  next
    case (step t u)
    then show ?case using roles_apart_step [of t u] by simp
  qed
  moreover have "offered_realm_roles (selectRole r t) = offered_realm_roles t" "selectRole r (selectRole r t) = selectRole r t"
    by (simp_all add: selectRole_def offered_realm_roles_def list_ex_iff split: option.split)
  ultimately show ?thesis by (simp add: roles_apart_def)
qed

definition sample_new_role_page :: policy_page where
  "sample_new_role_page =
     (case onInit ''demo'' ''app'' RoleP ''/realms/demo/clients/app/authz/resource-server/policy/role/create'' None None None of Ok s \<Rightarrow> s)"

definition sample_choice :: policy_page where
  "sample_choice = selectRole (Some (sample_role ''a'')) (snd (offered_roles_answer [sample_role ''a'', sample_role ''b'']
     (selectRoleClient (Some \<lparr>rf_id = ''c'', rf_name = ''shop''\<rparr>) sample_new_role_page)))"

theorem roles_never_twice_witness:
  "distinct (map rc_id (pp_selectedRoles sample_choice @ offered_roles sample_choice)) \<and>
   map rc_id (pp_selectedRoles sample_choice) = [''a''] \<and> map rc_id (offered_roles sample_choice) = [''b'']"
proof -
  have o: "onInit ''demo'' ''app'' RoleP ''/realms/demo/clients/app/authz/resource-server/policy/role/create'' None None None =
      Ok sample_new_role_page" by code_simp
  have d: "distinct (map rc_id [sample_role ''a'', sample_role ''b''])" by (simp add: sample_role_def)
  have "role_step\<^sup>*\<^sup>* sample_new_role_page sample_choice"
    unfolding sample_choice_def
    by (rule rtranclp.rtrancl_into_rtrancl [OF rtranclp.rtrancl_into_rtrancl [OF r_into_rtranclp [of role_step]]])
      (rule role_step.intros d)+
  from roles_never_twice [OF o this]
  have "distinct (map rc_id (pp_selectedRoles sample_choice @ offered_roles sample_choice))" by blast
  moreover have "map rc_id (pp_selectedRoles sample_choice) = [''a'']" by code_simp
  moreover have "map rc_id (offered_roles sample_choice) = [''b'']" by code_simp
  ultimately show ?thesis by blast
qed

text \<open>A realm role that was selected is still offered in the box for realm roles.\<close>

theorem realm_role_still_offered:
  "rc_id r \<noteq> [] \<Longrightarrow> r \<in> set (offered_realm_roles s) \<Longrightarrow>
     rc_id r \<in> rc_id ` set (pp_selectedRoles (selectRole (Some r) s)) \<and> r \<in> set (offered_realm_roles (selectRole (Some r) s))"
  by (auto simp: selectRole_def offered_realm_roles_def list_ex_iff intro: rev_image_eqI)

end
