(* ===== verification/Authz_Evaluate.thy ===== *)
theory Authz_Evaluate
  imports Console "HOL-Library.AList"
begin

section \<open>The admin console: evaluating policies, and permissions on the console's own data\<close>

text \<open>
  authz/authz-controller.js: \<open>PolicyEvaluateCtrl\<close> (2512-2836), \<open>getManageClientId\<close> (2838-2844) and the six pages that switch
  permissions on roles, users, clients, identity providers and groups on and off (2846-2959). The select boxes of the first page
  send the queries of \<open>Policy_Choices\<close>.
\<close>

subsection \<open>The request\<close>

text \<open>A scope is a name or an object with an id, a name and the text that the select box added.\<close>

datatype eval_scope = EText string | EScope "string option" "string option" "string option"

fun es_id :: "eval_scope \<Rightarrow> string option" where
  "es_id (EText t) = None"
| "es_id (EScope i n t) = i"

fun es_plain :: "eval_scope \<Rightarrow> eval_scope" where
  "es_plain (EText t) = EText t"
| "es_plain (EScope i n t) = (if str_truthy n then EText (undef_str n) else EScope i n t)"

fun es_drop_text :: "eval_scope \<Rightarrow> eval_scope" where
  "es_drop_text (EText t) = EText t"
| "es_drop_text (EScope i n t) = EScope i n None"

record eval_resource =
  er_id :: "string option"
  er_name :: "string option"
  er_type :: "string option"
  er_text :: "string option"
  er_scopes :: "eval_scope list"

record evaluation_request =
  ar_resources :: "eval_resource list"
  ar_attributes :: "(string \<times> string) list"
  ar_roleIds :: "string list"
  ar_userId :: "string option"
  ar_entitlements :: "bool option"

record context_attribute =
  ca_key :: string
  ca_value :: "string option"
  ca_custom :: bool

record evaluate_page =
  ev_realm :: string
  ev_client :: string
  ev_request :: evaluation_request
  ev_newResource :: "eval_resource option"
  ev_newScopes :: "eval_scope list option"
  ev_newContextAttribute :: "context_attribute option"
  ev_applyResourceType :: bool
  ev_scopes :: "eval_scope list"
  ev_result :: "string option"
  ev_showResult :: bool
  ev_showRpt :: bool
  ev_effects :: "evaluation_request option ui_effect list"

definition ev_do :: "evaluation_request option ui_effect list \<Rightarrow> evaluate_page \<Rightarrow> evaluate_page" where
  "ev_do es s = s\<lparr>ev_effects := ev_effects s @ es\<rparr>"

definition empty_eval_resource :: eval_resource where
  "empty_eval_resource = \<lparr>er_id = None, er_name = None, er_type = None, er_text = None, er_scopes = []\<rparr>"

definition new_evaluate_page :: "string \<Rightarrow> string \<Rightarrow> evaluate_page" where
  "new_evaluate_page realm client =
     ev_do [Request ''GET'' ''ResourceServer'' [(''realm'', realm), (''client'', client)] None]
       \<lparr>ev_realm = realm, ev_client = client,
        ev_request = \<lparr>ar_resources = [], ar_attributes = [], ar_roleIds = [], ar_userId = None, ar_entitlements = None\<rparr>,
        ev_newResource = None, ev_newScopes = None, ev_newContextAttribute = None, ev_applyResourceType = False, ev_scopes = [],
        ev_result = None, ev_showResult = False, ev_showRpt = False, ev_effects = []\<rparr>"

definition set_request :: "(evaluation_request \<Rightarrow> evaluation_request) \<Rightarrow> evaluate_page \<Rightarrow> evaluate_page" where
  "set_request f s = s\<lparr>ev_request := f (ev_request s)\<rparr>"

subsection \<open>Attributes of the context\<close>

definition addContextAttribute :: "(evaluate_page, unit) comp" where
  "addContextAttribute s =
     (case ev_newContextAttribute s of
        None \<Rightarrow> (Throw TypeError, s)
      | Some a \<Rightarrow>
          (Ok (),
           if \<not> str_truthy (ca_value a) then ev_do [Notify ''error'' ''You must provide a value to a context attribute.''] s
           else (set_request (\<lambda>r. r\<lparr>ar_attributes := AList.update (ca_key a) (undef_str (ca_value a)) (ar_attributes r)\<rparr>) s)
                  \<lparr>ev_newContextAttribute := None\<rparr>))"

definition removeContextAttribute :: "string \<Rightarrow> evaluate_page \<Rightarrow> evaluate_page" where
  "removeContextAttribute k = set_request (\<lambda>r. r\<lparr>ar_attributes := AList.delete k (ar_attributes r)\<rparr>)"

definition defaultContextAttributes :: "(string \<times> string) list" where
  "defaultContextAttributes =
     [(''custom'', ''Custom Attribute...''), (''kc.identity.authc.method'', ''Authentication Method''), (''kc.realm.name'', ''Realm''),
      (''kc.time.date_time'', ''Date/Time (MM/dd/yyyy hh:mm:ss)''), (''kc.client.network.ip_address'', ''Client IPv4 Address''),
      (''kc.client.network.host'', ''Client Host''), (''kc.client.user_agent'', ''Client/User Agent'')]"

text \<open>An attribute that is looked up is one of the defaults, with its name, or the value of an attribute of the request.\<close>

datatype found_attribute = DefaultAttribute string bool | GivenValue string

definition getContextAttribute :: "string \<Rightarrow> evaluate_page \<Rightarrow> found_attribute option" where
  "getContextAttribute k s =
     (case map_of defaultContextAttributes k of
        Some n \<Rightarrow> Some (DefaultAttribute n (k = ''custom''))
      | None \<Rightarrow> map_option GivenValue (map_of (ar_attributes (ev_request s)) k))"

definition getContextAttributeName :: "string \<Rightarrow> evaluate_page \<Rightarrow> string res" where
  "getContextAttributeName k s =
     (case getContextAttribute k s of
        None \<Rightarrow> Throw TypeError
      | Some (DefaultAttribute n _) \<Rightarrow> Ok n
      | Some (GivenValue _) \<Rightarrow> Ok k)"

definition isDefaultContextAttribute :: "evaluate_page \<Rightarrow> bool res" where
  "isDefaultContextAttribute s =
     (case ev_newContextAttribute s of
        None \<Rightarrow> Ok True
      | Some a \<Rightarrow>
          if ca_custom a then Ok False
          else (case getContextAttribute (ca_key a) s of
                  None \<Rightarrow> Throw TypeError
                | Some (DefaultAttribute _ custom) \<Rightarrow> Ok (\<not> custom)
                | Some (GivenValue _) \<Rightarrow> Ok True))"

subsection \<open>Resources\<close>

definition setApplyToResourceType :: "evaluate_page \<Rightarrow> evaluate_page" where
  "setApplyToResourceType s = (set_request (\<lambda>r. r\<lparr>ar_resources := []\<rparr>) s)\<lparr>ev_newResource := None\<rparr>"

text \<open>Scopes chosen as objects while a resource is chosen are dropped.\<close>

definition chosen_scopes :: "eval_resource \<Rightarrow> eval_scope list option \<Rightarrow> eval_scope list" where
  "chosen_scopes r ns =
     (case ns of
        None \<Rightarrow> []
      | Some [] \<Rightarrow> []
      | Some (x # xs) \<Rightarrow> if er_id r \<noteq> None \<and> str_truthy (es_id x) then [] else x # xs)"

definition addResource :: "evaluate_page \<Rightarrow> evaluate_page" where
  "addResource s =
     (let r = (case ev_newResource s of None \<Rightarrow> empty_eval_resource | Some r \<Rightarrow> r)\<lparr>er_text := None\<rparr>;
          r = r\<lparr>er_scopes := map es_plain (chosen_scopes r (ev_newScopes s))\<rparr> in
      (set_request (\<lambda>q. q\<lparr>ar_resources := ar_resources q @ [r]\<rparr>) s)\<lparr>ev_newResource := None, ev_newScopes := None\<rparr>)"

definition removeResource :: "nat \<Rightarrow> evaluate_page \<Rightarrow> evaluate_page" where
  "removeResource i = set_request (\<lambda>q. q\<lparr>ar_resources := splice1 i (ar_resources q)\<rparr>)"

definition resolveScopes :: "(evaluate_page, unit) comp" where
  "resolveScopes s =
     (case ev_newResource s of
        None \<Rightarrow> (Throw TypeError, s)
      | Some r \<Rightarrow>
          (Ok (),
           if str_truthy (er_id r) then
             ev_do [Request ''GET'' ''ResourceServerResource.scopes''
                 [(''realm'', ev_realm s), (''client'', ev_client s), (''rsrid'', undef_str (er_id r))] None]
               (s\<lparr>ev_newResource := Some (r\<lparr>er_scopes := []\<rparr>), ev_scopes := []\<rparr>)
           else s))"

definition resolved_scopes_answer :: "eval_scope list \<Rightarrow> evaluate_page \<Rightarrow> evaluate_page" where
  "resolved_scopes_answer data s = s\<lparr>ev_scopes := data\<rparr>"

definition evaluate_selectUser :: "string option \<Rightarrow> evaluate_page \<Rightarrow> evaluate_page" where
  "evaluate_selectUser i = set_request (\<lambda>q. q\<lparr>ar_userId := Some (if str_truthy i then undef_str i else [])\<rparr>)"

subsection \<open>Evaluating\<close>

definition post_evaluate :: "evaluate_page \<Rightarrow> evaluate_page" where
  "post_evaluate s =
     ev_do [Request ''POST'' ''authz/resource-server/policy/evaluate'' [(''realm'', ev_realm s), (''client'', ev_client s)] (Some (ev_request s))] s"

definition evaluate_save :: "(evaluate_page, unit) comp" where
  "evaluate_save s =
     (let s = set_request (\<lambda>q. q\<lparr>ar_entitlements := Some False\<rparr>) s in
      if ev_applyResourceType s then
        (let r = (case ev_newResource s of None \<Rightarrow> empty_eval_resource | Some r \<Rightarrow> r);
             s = s\<lparr>ev_newResource := Some r, ev_newScopes := Some (chosen_scopes r (ev_newScopes s))\<rparr>;
             scopes = map es_drop_text (chosen_scopes r (ev_newScopes s)) in
         case ar_resources (ev_request s) of
           [] \<Rightarrow> (Throw TypeError, s)
         | x # xs \<Rightarrow> (Ok (), post_evaluate (set_request (\<lambda>q. q\<lparr>ar_resources := x\<lparr>er_scopes := scopes\<rparr> # xs\<rparr>) s)))
      else (Ok (), post_evaluate s))"

definition evaluate_entitlements :: "evaluate_page \<Rightarrow> evaluate_page" where
  "evaluate_entitlements s = post_evaluate (set_request (\<lambda>q. q\<lparr>ar_entitlements := Some True\<rparr>) s)"

definition reevaluate :: "(evaluate_page, unit) comp" where
  "reevaluate s = (if ar_entitlements (ev_request s) = Some True then (Ok (), evaluate_entitlements s) else evaluate_save s)"

definition showResultTab :: "evaluate_page \<Rightarrow> evaluate_page" where
  "showResultTab s = s\<lparr>ev_showResult := True, ev_showRpt := False\<rparr>"

definition showRequestTab :: "evaluate_page \<Rightarrow> evaluate_page" where
  "showRequestTab s = s\<lparr>ev_showResult := False, ev_showRpt := False\<rparr>"

definition showAuthzData :: "evaluate_page \<Rightarrow> evaluate_page" where
  "showAuthzData s = s\<lparr>ev_showRpt := True\<rparr>"

definition evaluate_answer :: "string \<Rightarrow> evaluate_page \<Rightarrow> evaluate_page" where
  "evaluate_answer data s = showResultTab (s\<lparr>ev_result := Some data\<rparr>)"

text \<open>\<open>reset\<close> copies a variable that is not declared.\<close>

definition evaluate_reset :: "(evaluate_page, unit) comp" where
  "evaluate_reset s = (Throw ReferenceError, s)"

subsection \<open>Permissions on the console's data\<close>

definition getManageClientId :: "string \<Rightarrow> string \<Rightarrow> string" where
  "getManageClientId masterRealm realm = (if realm = masterRealm then ''master-realm'' else ''realm-management'')"

datatype managed = ManagedRole string | ManagedUsers | ManagedClient string | ManagedProvider string | ManagedGroup string

fun managed_service :: "managed \<Rightarrow> string" where
  "managed_service (ManagedRole i) = ''RoleManagementPermissions''"
| "managed_service ManagedUsers = ''UsersManagementPermissions''"
| "managed_service (ManagedClient i) = ''ClientManagementPermissions''"
| "managed_service (ManagedProvider a) = ''IdentityProviderManagementPermissions''"
| "managed_service (ManagedGroup i) = ''GroupManagementPermissions''"

fun managed_params :: "managed \<Rightarrow> (string \<times> string) list" where
  "managed_params (ManagedRole i) = [(''role'', i)]"
| "managed_params ManagedUsers = []"
| "managed_params (ManagedClient i) = [(''client'', i)]"
| "managed_params (ManagedProvider a) = [(''alias'', a)]"
| "managed_params (ManagedGroup i) = [(''group'', i)]"

record permission_page =
  pm_realm :: string
  pm_target :: managed
  pm_enabled :: "bool option"
  pm_watched :: "bool option"
  pm_managementClient :: "string option"
  pm_effects :: "bool option ui_effect list"

definition pm_do :: "bool option ui_effect list \<Rightarrow> permission_page \<Rightarrow> permission_page" where
  "pm_do es s = s\<lparr>pm_effects := pm_effects s @ es\<rparr>"

definition new_permission_page :: "string \<Rightarrow> string \<Rightarrow> managed \<Rightarrow> permission_page" where
  "new_permission_page masterRealm realm m =
     (let permissions = Request ''GET'' (managed_service m) ((''realm'', realm) # managed_params m) None;
          manager = Request ''GET'' ''Client'' [(''realm'', realm), (''clientId'', getManageClientId masterRealm realm)] None in
      pm_do (case m of ManagedGroup _ \<Rightarrow> [manager, permissions] | _ \<Rightarrow> [permissions, manager])
        \<lparr>pm_realm = realm, pm_target = m, pm_enabled = None, pm_watched = None, pm_managementClient = None, pm_effects = []\<rparr>)"

text \<open>The watch starts with the answer, whose value it takes as the old one.\<close>

definition permission_answer :: "bool \<Rightarrow> permission_page \<Rightarrow> permission_page" where
  "permission_answer enabled s = s\<lparr>pm_enabled := Some enabled, pm_watched := Some enabled\<rparr>"

definition manager_answer :: "string list \<Rightarrow> (permission_page, unit) comp" where
  "manager_answer ids s = (case ids of [] \<Rightarrow> (Throw TypeError, s) | i # _ \<Rightarrow> (Ok (), s\<lparr>pm_managementClient := Some i\<rparr>))"

definition permission_switch :: "bool \<Rightarrow> permission_page \<Rightarrow> permission_page" where
  "permission_switch b s = s\<lparr>pm_enabled := Some b\<rparr>"

text \<open>The object that \<open>update\<close> returns at once holds the value that was sent.\<close>

definition permission_digest :: "permission_page \<Rightarrow> permission_page" where
  "permission_digest s =
     (if pm_enabled s \<noteq> pm_watched s then
        pm_do [Request ''PUT'' (managed_service (pm_target s)) ((''realm'', pm_realm s) # managed_params (pm_target s)) (pm_enabled s)]
          (s\<lparr>pm_watched := pm_enabled s\<rparr>)
      else s)"

definition permission_update_answer :: "bool \<Rightarrow> permission_page \<Rightarrow> permission_page" where
  "permission_update_answer enabled s = s\<lparr>pm_enabled := Some enabled\<rparr>"

subsection \<open>What is sent\<close>

text \<open>Evaluating again sends the request of the last evaluation again, unless it was edited in between.\<close>

lemma drop_text_twice [simp]: "es_drop_text (es_drop_text x) = es_drop_text x"
  by (cases x) simp_all

lemma chosen_scopes_twice: "chosen_scopes r (Some (chosen_scopes r ns)) = chosen_scopes r ns"
  by (auto simp: chosen_scopes_def split: option.splits list.splits)

lemma last_post_evaluate [simp]:
  "last (ev_effects (post_evaluate s)) =
     Request ''POST'' ''authz/resource-server/policy/evaluate'' [(''realm'', ev_realm s), (''client'', ev_client s)] (Some (ev_request s))"
  by (simp add: post_evaluate_def ev_do_def)

lemma post_evaluate_frame [simp]:
  "ev_request (post_evaluate s) = ev_request s" "ev_newResource (post_evaluate s) = ev_newResource s"
  "ev_newScopes (post_evaluate s) = ev_newScopes s" "ev_applyResourceType (post_evaluate s) = ev_applyResourceType s"
  "ev_realm (post_evaluate s) = ev_realm s" "ev_client (post_evaluate s) = ev_client s"
  by (simp_all add: post_evaluate_def ev_do_def)

lemma reevaluate_entitlements:
  "fst (reevaluate (evaluate_entitlements s)) = Ok ()"
  "last (ev_effects (snd (reevaluate (evaluate_entitlements s)))) = last (ev_effects (evaluate_entitlements s))"
  by (simp_all add: reevaluate_def evaluate_entitlements_def set_request_def)

text \<open>On the page that evaluates policies, the button to evaluate again repeats the last evaluation of the request: when the
  request could be sent at all, sending it again raises no error and posts exactly the same request, the scopes entered for a
  resource type included.\<close>

theorem reevaluate_repeats:
  assumes "evaluate_save s = (Ok (), t)"
  shows "fst (reevaluate t) = Ok () \<and> last (ev_effects (snd (reevaluate t))) = last (ev_effects t)"
proof -
  have e: "ar_entitlements (ev_request t) = Some False"
    using assms by (auto simp: evaluate_save_def set_request_def Let_def split: if_splits list.splits)
  then have r: "reevaluate t = evaluate_save t" by (simp add: reevaluate_def)
  show ?thesis
  proof (cases "ev_applyResourceType s")
    case False
    then have "t = post_evaluate (set_request (\<lambda>q. q\<lparr>ar_entitlements := Some False\<rparr>) s)" using assms by (simp add: evaluate_save_def set_request_def)
    with False show ?thesis unfolding r by (simp add: evaluate_save_def set_request_def)
  next
    case True
    then show ?thesis
      using assms unfolding r
      by (auto simp: evaluate_save_def set_request_def chosen_scopes_twice Let_def split: list.splits option.splits)
  qed
qed

theorem reevaluate_repeats_witness:
  "fst (reevaluate (snd (evaluate_save (addResource (new_evaluate_page ''demo'' ''app''))))) = Ok ()"
proof -
  let ?s = "addResource (new_evaluate_page ''demo'' ''app'')"
  have "evaluate_save ?s = (Ok (), snd (evaluate_save ?s))"
    by (simp add: evaluate_save_def addResource_def new_evaluate_page_def set_request_def ev_do_def Let_def)
  from reevaluate_repeats [OF this] show ?thesis by (rule conjunct1)
qed

text \<open>Scopes with a name are sent by their name.\<close>

lemma added_scopes_named:
  "x \<in> set (er_scopes (last (ar_resources (ev_request (addResource s))))) \<Longrightarrow> x = EScope i n t \<Longrightarrow> \<not> str_truthy n"
proof -
  have "es_plain y = EScope i n t \<Longrightarrow> \<not> str_truthy n" for y by (cases y) (auto split: if_splits)
  then show "x \<in> set (er_scopes (last (ar_resources (ev_request (addResource s))))) \<Longrightarrow> x = EScope i n t \<Longrightarrow> \<not> str_truthy n"
    by (clarsimp simp: addResource_def set_request_def Let_def) metis
qed

text \<open>A switch that is turned sends one request, however often the watches run, and the answer that confirms it sends none.\<close>

lemma permission_digest_settles:
  "permission_digest (permission_digest s) = permission_digest s"
  "pm_enabled s = Some b \<Longrightarrow> permission_digest (permission_update_answer b (permission_digest s)) = permission_digest s"
  by (auto simp: permission_digest_def permission_update_answer_def pm_do_def)

end
