(* ===== verification/Realm_Times.thy ===== *)
theory Realm_Times
  imports Units Console "HOL-Library.AList"
begin

section \<open>The admin console: times of a realm\<close>

text \<open>
  controllers/realm.js: \<open>RealmTokenDetailCtrl\<close> (1081-1164), \<open>RealmEventsConfigCtrl\<close> (1587-1654) and
  \<open>RealmBruteForceCtrl\<close> (1840-1893), the three pages that show times of a realm in the units of \<open>Units\<close>. Of a
  realm, a page's model has the times it shows; the rest is sent as it was. A time is an integer number of seconds.
\<close>

subsection \<open>Lifespans of tokens\<close>

text \<open>A field of the realm holds a time of \<open>TimeUnit2\<close> on the open page and a number once the page has been saved. None is
  \<open>undefined\<close> or NaN.\<close>

datatype lifespan = Timed time_value | Number "int option"

text \<open>The value edited for one kind of action token: after \<open>resetToDefaultToken\<close> it is an object without \<open>toSeconds\<close>.\<close>

datatype action_value = ActionTime time_value | BareUnit string

record token_page =
  tp_realm :: string
  tp_lifespans :: "(string \<times> lifespan) list"
  tp_oldLifespans :: "(string \<times> lifespan) list"
  tp_attributes :: "(string \<times> int option) list"
  tp_oldAttributes :: "(string \<times> int option) list"
  tp_actionLifespanId :: "string option"
  tp_actionTokenAttribute :: "action_value option"
  tp_changed :: bool
  tp_effects :: "((string \<times> int option) list \<times> (string \<times> int option) list) option ui_effect list"

definition tp_do :: "((string \<times> int option) list \<times> (string \<times> int option) list) option ui_effect list \<Rightarrow> token_page \<Rightarrow> token_page" where
  "tp_do es s = s\<lparr>tp_effects := tp_effects s @ es\<rparr>"

definition token_fields :: "string list" where
  "token_fields = [''accessTokenLifespan'', ''accessTokenLifespanForImplicitFlow'', ''ssoSessionIdleTimeout'', ''ssoSessionMaxLifespan'',
     ''offlineSessionIdleTimeout'', ''offlineSessionMaxLifespan'', ''accessCodeLifespan'', ''accessCodeLifespanLogin'',
     ''accessCodeLifespanUserAction'', ''actionTokenGeneratedByAdminLifespan'', ''actionTokenGeneratedByUserLifespan'']"

text \<open>\<open>stored\<close> gives the times of the realm, undefined ones as None.\<close>

definition new_token_page :: "string \<Rightarrow> (string \<Rightarrow> int option) \<Rightarrow> (string \<times> int option) list \<Rightarrow> token_page" where
  "new_token_page realm stored attributes =
     (let ls = map (\<lambda>k. (k, Timed (asUnit (stored k)))) token_fields in
      \<lparr>tp_realm = realm, tp_lifespans = ls, tp_oldLifespans = ls, tp_attributes = attributes, tp_oldAttributes = attributes,
       tp_actionLifespanId = None, tp_actionTokenAttribute = None, tp_changed = False, tp_effects = []\<rparr>)"

definition watch_token_realm :: "token_page \<Rightarrow> token_page" where
  "watch_token_realm s =
     (if tp_lifespans s \<noteq> tp_oldLifespans s \<or> tp_attributes s \<noteq> tp_oldAttributes s then s\<lparr>tp_changed := True\<rparr> else s)"

definition action_key :: "token_page \<Rightarrow> string" where
  "action_key s = ''actionTokenGeneratedByUserLifespan.'' @ undef_str (tp_actionLifespanId s)"

text \<open>The request passes the realm's name where the parameters are expected, so that it has none.\<close>

definition watch_actionLifespanId :: "token_page \<Rightarrow> token_page" where
  "watch_actionLifespanId s =
     (let v = asUnit (case map_of (tp_attributes s) (action_key s) of None \<Rightarrow> None | Some t \<Rightarrow> t);
          s = s\<lparr>tp_actionTokenAttribute := Some (ActionTime v)\<rparr> in
      if value_toSeconds v = None \<or> value_toSeconds v = Some 0 then tp_do [Request ''GET'' ''Realm'' [] None] s else s)"

definition token_refresh_answer :: "token_page \<Rightarrow> token_page" where
  "token_refresh_answer s = s\<lparr>tp_changed := False\<rparr>"

definition watch_actionTokenAttribute :: "(token_page, unit) comp" where
  "watch_actionTokenAttribute s =
     (case (tp_actionLifespanId s, tp_actionTokenAttribute s) of
        (Some _, Some v) \<Rightarrow>
          (let s = s\<lparr>tp_changed := True\<rparr> in
           case v of
             BareUnit _ \<Rightarrow> (Throw TypeError, s)
           | ActionTime t \<Rightarrow> (Ok (), s\<lparr>tp_attributes := AList.update (action_key s) (value_toSeconds t) (tp_attributes s)\<rparr>))
      | _ \<Rightarrow> (Ok (), s))"

definition resetToDefaultToken :: "token_page \<Rightarrow> token_page" where
  "resetToDefaultToken s =
     s\<lparr>tp_actionTokenAttribute := Some (BareUnit ''Minutes''), tp_attributes := AList.delete (action_key s) (tp_attributes s)\<rparr>"

text \<open>Saving turns the fields into numbers one after the other, in the realm of the page itself.\<close>

fun lifespan_seconds :: "lifespan \<Rightarrow> int option res" where
  "lifespan_seconds (Timed v) = Ok (value_toSeconds v)"
| "lifespan_seconds (Number n) = Throw TypeError"

fun save_lifespans :: "(string \<times> lifespan) list \<Rightarrow> unit res \<times> (string \<times> lifespan) list" where
  "save_lifespans [] = (Ok (), [])"
| "save_lifespans ((k, v) # vs) =
     (case lifespan_seconds v of
        Throw e \<Rightarrow> (Throw e, (k, v) # vs)
      | Ok n \<Rightarrow> (let (r, ws) = save_lifespans vs in (r, (k, Number n) # ws)))"

definition sent_lifespans :: "(string \<times> lifespan) list \<Rightarrow> (string \<times> int option) list" where
  "sent_lifespans ls = map (\<lambda>(k, v). (k, case v of Number n \<Rightarrow> n | Timed _ \<Rightarrow> None)) ls"

definition token_save :: "(token_page, unit) comp" where
  "token_save s =
     (let (r, ls) = save_lifespans (tp_lifespans s); s = s\<lparr>tp_lifespans := ls\<rparr> in
      case r of
        Throw e \<Rightarrow> (Throw e, s)
      | Ok _ \<Rightarrow> (Ok (), tp_do [Request ''PUT'' ''Realm'' [(''id'', tp_realm s)] (Some (sent_lifespans ls, tp_attributes s))] s))"

definition token_saved :: "token_page \<Rightarrow> token_page" where
  "token_saved s = tp_do [Reload, Notify ''success'' ''The changes have been saved to the realm.''] s"

definition token_reset :: "token_page \<Rightarrow> token_page" where
  "token_reset s = tp_do [Reload] s"

subsection \<open>Detection of guessed passwords\<close>

record shown_time =
  st_unit :: string
  st_count :: int

record brute_times =
  bt_waitIncrement :: int
  bt_minimumQuickLoginWait :: int
  bt_maxFailureWait :: int
  bt_maxDeltaTime :: int

record brute_page =
  bp_realm :: string
  bp_waitIncrement :: shown_time
  bp_minimumQuickLoginWait :: shown_time
  bp_maxFailureWait :: shown_time
  bp_maxDeltaTime :: shown_time
  bp_changed :: bool
  bp_effects :: "brute_times ui_effect list"

definition show_time :: "int \<Rightarrow> shown_time res" where
  "show_time t = (let u = autoUnit (Some t) in res_bind (toUnit t u) (\<lambda>n. Ok \<lparr>st_unit = u, st_count = n\<rparr>))"

definition read_time :: "shown_time \<Rightarrow> int res" where
  "read_time v = toSeconds (st_count v) (st_unit v)"

definition new_brute_page :: "string \<Rightarrow> brute_times \<Rightarrow> brute_page res" where
  "new_brute_page realm t =
     res_bind (show_time (bt_waitIncrement t)) (\<lambda>a.
     res_bind (show_time (bt_minimumQuickLoginWait t)) (\<lambda>b.
     res_bind (show_time (bt_maxFailureWait t)) (\<lambda>c.
     res_bind (show_time (bt_maxDeltaTime t)) (\<lambda>d.
       Ok \<lparr>bp_realm = realm, bp_waitIncrement = a, bp_minimumQuickLoginWait = b, bp_maxFailureWait = c, bp_maxDeltaTime = d,
           bp_changed = False, bp_effects = []\<rparr>))))"

definition brute_save :: "brute_page \<Rightarrow> brute_page res" where
  "brute_save s =
     res_bind (read_time (bp_waitIncrement s)) (\<lambda>a.
     res_bind (read_time (bp_minimumQuickLoginWait s)) (\<lambda>b.
     res_bind (read_time (bp_maxFailureWait s)) (\<lambda>c.
     res_bind (read_time (bp_maxDeltaTime s)) (\<lambda>d.
       Ok (s\<lparr>bp_changed := False,
             bp_effects := bp_effects s @ [Request ''PUT'' ''Realm'' [(''id'', bp_realm s)]
               \<lparr>bt_waitIncrement = a, bt_minimumQuickLoginWait = b, bt_maxFailureWait = c, bt_maxDeltaTime = d\<rparr>]\<rparr>)))))"

definition brute_saved :: "brute_page \<Rightarrow> brute_page" where
  "brute_saved s =
     s\<lparr>bp_effects := bp_effects s @ [GoTo (''/realms/'' @ bp_realm s @ ''/defense/brute-force''),
         Notify ''success'' ''Your changes have been saved to the realm.'']\<rparr>"

definition brute_reset :: "brute_page \<Rightarrow> brute_page" where
  "brute_reset s = s\<lparr>bp_effects := bp_effects s @ [Reload]\<rparr>"

subsection \<open>Settings of events\<close>

record 'a events_config =
  ec_expiration :: shown_time
  ec_rest :: 'a

record 'a events_page =
  vc_realm :: string
  vc_config :: "'a events_config"
  vc_oldCopy :: "'a events_config"
  vc_changed :: bool
  vc_effects :: "(int \<times> 'a) option ui_effect list"

definition vc_do :: "(int \<times> 'a) option ui_effect list \<Rightarrow> 'a events_page \<Rightarrow> 'a events_page" where
  "vc_do es s = s\<lparr>vc_effects := vc_effects s @ es\<rparr>"

definition new_events_page :: "string \<Rightarrow> int \<Rightarrow> 'a \<Rightarrow> 'a events_page res" where
  "new_events_page realm expiration rest =
     res_bind (show_time expiration) (\<lambda>v.
       (let c = \<lparr>ec_expiration = v, ec_rest = rest\<rparr> in
        Ok \<lparr>vc_realm = realm, vc_config = c, vc_oldCopy = c, vc_changed = False, vc_effects = []\<rparr>))"

definition watch_events_config :: "'a events_page \<Rightarrow> 'a events_page" where
  "watch_events_config s = (if vc_config s \<noteq> vc_oldCopy s then s\<lparr>vc_changed := True\<rparr> else s)"

definition events_config_save :: "('a events_page, unit) comp" where
  "events_config_save s =
     (let s = s\<lparr>vc_changed := False\<rparr> in
      case read_time (ec_expiration (vc_config s)) of
        Throw e \<Rightarrow> (Throw e, s)
      | Ok t \<Rightarrow> (Ok (), vc_do [Request ''PUT'' ''RealmEventsConfig'' [(''id'', vc_realm s)] (Some (t, ec_rest (vc_config s)))] s))"

definition events_config_saved :: "'a events_page \<Rightarrow> 'a events_page" where
  "events_config_saved s =
     vc_do [GoTo (''/realms/'' @ vc_realm s @ ''/events-settings''), Notify ''success'' ''Your changes have been saved to the realm.''] s"

definition events_config_reset :: "'a events_page \<Rightarrow> 'a events_page" where
  "events_config_reset s = s\<lparr>vc_config := vc_oldCopy s, vc_changed := False\<rparr>"

definition clearEvents :: "bool \<Rightarrow> 'a events_page \<Rightarrow> 'a events_page" where
  "clearEvents admin s = vc_do [ConfirmDelete (vc_realm s) (if admin then ''admin-events'' else ''events'')] s"

definition clearEvents_confirmed :: "bool \<Rightarrow> 'a events_page \<Rightarrow> 'a events_page" where
  "clearEvents_confirmed admin s =
     vc_do [Request ''DELETE'' (if admin then ''RealmAdminEvents'' else ''RealmEvents'') [(''id'', vc_realm s)] None] s"

definition clearEvents_done :: "bool \<Rightarrow> 'a events_page \<Rightarrow> 'a events_page" where
  "clearEvents_done admin s =
     vc_do [Notify ''success'' (if admin then ''The admin events has been cleared.'' else ''The events has been cleared.'')] s"

subsection \<open>Which times survive\<close>

text \<open>A time that the first service shows exactly, and one that the second one does.\<close>

definition exact_time :: "int \<Rightarrow> bool" where
  "exact_time t \<longleftrightarrow> \<not> (24 dvd t \<and> \<not> 60 dvd t) \<and> \<not> (1440 dvd t \<and> \<not> 3600 dvd t)"

definition exact_lifespan :: "int option \<Rightarrow> bool" where
  "exact_lifespan t \<longleftrightarrow>
     (case t of None \<Rightarrow> True | Some n \<Rightarrow> n = 0 \<or> 60 \<le> n \<and> 60 dvd n \<and> \<not> (1440 dvd n \<and> \<not> 3600 dvd n))"

lemma autoUnit_units: "autoUnit t \<in> {''Seconds'', ''Minutes'', ''Hours'', ''Days''}"
  by (auto simp: autoUnit_def Let_def)

lemma shown_time_read:
  "\<exists>v s. show_time t = Ok v \<and> read_time v = Ok s \<and> (s = t \<longleftrightarrow> exact_time t)"
proof (cases "t = 0")
  case True
  then show ?thesis by (simp add: show_time_def read_time_def autoUnit_def toUnit_def toSeconds_def exact_time_def)
next
  case False
  let ?u = "autoUnit (Some t)"
  obtain n where n: "toUnit t ?u = Ok n" using autoUnit_units [of "Some t"] by (auto simp: toUnit_def)
  obtain s where s: "toSeconds n ?u = Ok s" using autoUnit_units [of "Some t"] by (auto simp: toSeconds_def)
  have "s = t \<longleftrightarrow> exact_time t" using autoUnit_exact_iff [OF False] n s by (simp add: exact_time_def)
  then show ?thesis using n s by (simp add: show_time_def read_time_def)
qed

text \<open>The page for guessed passwords, opened and saved without an edit, sends the four times as they were stored exactly when
  each is shown exactly: a multiple of 24 seconds that is no whole number of minutes, or of 24 minutes that is no whole number of
  hours, is stored as days from then on. In every case the page opens and the request is sent.\<close>

theorem brute_times_kept_iff:
  "\<exists>s s' sent. new_brute_page realm t = Ok s \<and> brute_save s = Ok s' \<and>
     bp_effects s' = [Request ''PUT'' ''Realm'' [(''id'', realm)] sent] \<and>
     (sent = t \<longleftrightarrow> list_all exact_time [bt_waitIncrement t, bt_minimumQuickLoginWait t, bt_maxFailureWait t, bt_maxDeltaTime t])"
proof -
  obtain a a' where a: "show_time (bt_waitIncrement t) = Ok a" "read_time a = Ok a'" "a' = bt_waitIncrement t \<longleftrightarrow> exact_time (bt_waitIncrement t)"
    using shown_time_read by blast
  obtain b b' where b: "show_time (bt_minimumQuickLoginWait t) = Ok b" "read_time b = Ok b'"
      "b' = bt_minimumQuickLoginWait t \<longleftrightarrow> exact_time (bt_minimumQuickLoginWait t)" using shown_time_read by blast
  obtain c c' where c: "show_time (bt_maxFailureWait t) = Ok c" "read_time c = Ok c'"
      "c' = bt_maxFailureWait t \<longleftrightarrow> exact_time (bt_maxFailureWait t)" using shown_time_read by blast
  obtain d d' where d: "show_time (bt_maxDeltaTime t) = Ok d" "read_time d = Ok d'" "d' = bt_maxDeltaTime t \<longleftrightarrow> exact_time (bt_maxDeltaTime t)"
    using shown_time_read by blast
  show ?thesis
    using a b c d by (cases t) (simp add: new_brute_page_def brute_save_def)
qed

lemma lifespan_kept_iff: "value_toSeconds (asUnit t) = t \<longleftrightarrow> exact_lifespan t"
proof (cases t)
  case None
  then show ?thesis by (simp add: asUnit_def value_toSeconds_def exact_lifespan_def)
next
  case (Some n)
  then show ?thesis
    using asUnit_exact_iff [of n] by (cases "n = 0") (simp_all add: exact_lifespan_def asUnit_def value_toSeconds_def)
qed

lemma save_lifespans_timed:
  "save_lifespans (map (\<lambda>k. (k, Timed (f k))) ks) = (Ok (), map (\<lambda>k. (k, Number (value_toSeconds (f k)))) ks)"
  by (induction ks) simp_all

lemma token_save_opened:
  "token_save (new_token_page realm stored attributes) =
     (Ok (), tp_do [Request ''PUT'' ''Realm'' [(''id'', realm)] (Some (map (\<lambda>k. (k, value_toSeconds (asUnit (stored k)))) token_fields, attributes))]
       ((new_token_page realm stored attributes)\<lparr>tp_lifespans := map (\<lambda>k. (k, Number (value_toSeconds (asUnit (stored k))))) token_fields\<rparr>))"
  unfolding token_save_def new_token_page_def Let_def
  by (simp add: save_lifespans_timed sent_lifespans_def comp_def del: map_map) (simp add: comp_def)

text \<open>C32. The page for tokens, opened and saved without an edit, sends the stored lifespans exactly when each of them is absent, zero, or a
  whole number of minutes that is no multiple of 24 minutes short of an hour: 90 seconds, for one, are stored as 90 minutes.\<close>

theorem lifespans_kept_iff:
  "\<exists>sent t. token_save (new_token_page realm stored attributes) = (Ok (), t) \<and>
     tp_effects t = [Request ''PUT'' ''Realm'' [(''id'', realm)] (Some (sent, attributes))] \<and>
     (sent = map (\<lambda>k. (k, stored k)) token_fields \<longleftrightarrow> list_all (exact_lifespan \<circ> stored) token_fields)"
proof -
  let ?sent = "map (\<lambda>k. (k, value_toSeconds (asUnit (stored k)))) token_fields"
  have "?sent = map (\<lambda>k. (k, stored k)) token_fields \<longleftrightarrow> list_all (exact_lifespan \<circ> stored) token_fields"
    by (auto simp: list_all_iff lifespan_kept_iff map_eq_conv)
  then show ?thesis unfolding token_save_opened by (auto simp: tp_do_def new_token_page_def Let_def)
qed

lemma ninety_seconds: "value_toSeconds (asUnit (Some 90)) = Some 5400"
  by (simp add: asUnit_def value_toSeconds_def Let_def)

text \<open>When the server refuses the realm, the page holds numbers: saving again raises and sends nothing.\<close>

lemma token_save_again:
  "fst (token_save (snd (token_save (new_token_page realm stored attributes)))) = Throw TypeError"
  by (simp add: token_save_opened) (simp add: token_save_def tp_do_def token_fields_def Let_def)

text \<open>Choosing a kind of action token that has no lifespan of its own writes NaN for it.\<close>

lemma chosen_action_written:
  assumes "tp_actionLifespanId s = Some i" and "map_of (tp_attributes s) (action_key s) = None"
  shows "map_of (tp_attributes (snd (watch_actionTokenAttribute (watch_actionLifespanId s)))) (action_key s) = Some None"
  using assms
  by (simp add: watch_actionLifespanId_def watch_actionTokenAttribute_def action_key_def asUnit_def value_toSeconds_def tp_do_def update_conv Let_def)

text \<open>After the button for the default, the watch calls a method that is not there.\<close>

lemma reset_to_default_raises:
  "tp_actionLifespanId s = Some i \<Longrightarrow> fst (watch_actionTokenAttribute (resetToDefaultToken s)) = Throw TypeError"
  by (simp add: resetToDefaultToken_def watch_actionTokenAttribute_def)

end
