(* ===== verification/Realm_Events.thy ===== *)
theory Realm_Events
  imports Numbers "HOL-Library.AList"
begin

section \<open>The admin console: mail settings, events and revocation of a realm\<close>

text \<open>
  controllers/realm.js: \<open>RealmSessionStatsCtrl\<close> (1336-1353), \<open>RealmRevocationCtrl\<close> (1356-1406), \<open>RealmSMTPSettingsCtrl\<close>
  (1498-1585), \<open>RealmEventsCtrl\<close> (1656-1727) and \<open>RealmAdminEventsCtrl\<close> (1729-1834). Not modelled: the windows that show an event.
\<close>

subsection \<open>Mail settings\<close>

datatype smtp_value = SText string | SBool bool | SNumber "int option"

type_synonym smtp = "(string \<times> smtp_value) list"

definition booleanSmtpAtts :: "string list" where
  "booleanSmtpAtts = [''auth'', ''ssl'', ''starttls'']"

fun to_bool :: "smtp_value \<Rightarrow> smtp_value" where
  "to_bool (SText t) = (if t = ''true'' then SBool True else if t = ''false'' then SBool False else SText t)"
| "to_bool v = v"

fun from_bool :: "smtp_value \<Rightarrow> smtp_value" where
  "from_bool (SBool b) = SText (if b then ''true'' else ''false'')"
| "from_bool v = v"

definition on_booleans :: "(smtp_value \<Rightarrow> smtp_value) \<Rightarrow> smtp \<Rightarrow> smtp" where
  "on_booleans f o' = map (\<lambda>(k, v). (k, if k \<in> set booleanSmtpAtts then f v else v)) o'"

text \<open>\<open>parseInt(v)\<close> and \<open>v && v.toString()\<close>, where v may be undefined. A falsy value is kept: an undefined port as an undefined
  one, which is left out of the request.\<close>

fun port_number :: "smtp_value option \<Rightarrow> smtp_value" where
  "port_number (Some (SText t)) = SNumber (parse_number t)"
| "port_number (Some (SNumber n)) = SNumber n"
| "port_number _ = SNumber None"

fun port_text :: "smtp_value option \<Rightarrow> smtp_value option" where
  "port_text (Some (SNumber (Some n))) = (if n = 0 then Some (SNumber (Some 0)) else Some (SText (int_str n)))"
| "port_text (Some (SBool True)) = Some (SText ''true'')"
| "port_text v = v"

definition set_port :: "smtp_value option \<Rightarrow> smtp \<Rightarrow> smtp" where
  "set_port v o' = (case v of None \<Rightarrow> AList.delete ''port'' o' | Some x \<Rightarrow> AList.update ''port'' x o')"

definition typeObject :: "smtp \<Rightarrow> smtp" where
  "typeObject o' = (let o' = on_booleans to_bool o' in set_port (Some (port_number (map_of o' ''port''))) o')"

definition detypeObject :: "smtp \<Rightarrow> smtp" where
  "detypeObject o' = (let o' = on_booleans from_bool o' in set_port (port_text (map_of o' ''port'')) o')"

text \<open>\<open>mp_edited\<close> is the realm of the page, \<open>mp_opened\<close> the object the page was opened with: they are the same object until the
  page is reset, and the test of the connection reads the second one.\<close>

record mail_page =
  mp_realm :: string
  mp_edited :: "smtp option"
  mp_opened :: "smtp option"
  mp_same :: bool
  mp_oldCopy :: "smtp option"
  mp_changed :: bool
  mp_effects :: "smtp option ui_effect list"

definition mail_do :: "smtp option ui_effect list \<Rightarrow> mail_page \<Rightarrow> mail_page" where
  "mail_do es s = s\<lparr>mp_effects := mp_effects s @ es\<rparr>"

definition new_mail_page :: "string \<Rightarrow> smtp option \<Rightarrow> mail_page" where
  "new_mail_page realm stored =
     (let v = map_option typeObject stored in
      \<lparr>mp_realm = realm, mp_edited = v, mp_opened = v, mp_same = True, mp_oldCopy = v, mp_changed = False, mp_effects = []\<rparr>)"

text \<open>An edit of the page.\<close>

definition mail_edit :: "smtp option \<Rightarrow> mail_page \<Rightarrow> mail_page" where
  "mail_edit v s = s\<lparr>mp_edited := v, mp_opened := (if mp_same s then v else mp_opened s)\<rparr>"

definition watch_mail :: "mail_page \<Rightarrow> mail_page" where
  "watch_mail s = (if mp_edited s \<noteq> mp_oldCopy s then s\<lparr>mp_changed := True\<rparr> else s)"

definition mail_save :: "(mail_page, unit) comp" where
  "mail_save s =
     (case mp_edited s of
        None \<Rightarrow> (Throw TypeError, s)
      | Some v \<Rightarrow> (Ok (), mail_do [Request ''PUT'' ''Realm'' [(''id'', mp_realm s)] (Some (detypeObject v))] (s\<lparr>mp_changed := False\<rparr>)))"

definition mail_saved :: "mail_page \<Rightarrow> mail_page" where
  "mail_saved s =
     mail_do [GoTo (''/realms/'' @ mp_realm s @ ''/smtp-settings''), Notify ''success'' ''Your changes have been saved to the realm.''] s"

definition mail_reset :: "mail_page \<Rightarrow> mail_page" where
  "mail_reset s = s\<lparr>mp_edited := mp_oldCopy s, mp_same := False, mp_changed := False\<rparr>"

definition testConnection :: "mail_page \<Rightarrow> mail_page" where
  "testConnection s = mail_do [Request ''POST'' ''RealmSMTPConnectionTester'' [(''realm'', mp_realm s)] (mp_opened s)] s"

definition test_succeeded :: "mail_page \<Rightarrow> mail_page" where
  "test_succeeded s = mail_do [Notify ''success'' ''SMTP connection successful. E-mail was sent!''] s"

text \<open>The handler of a failure reads \<open>error\<close>; its parameter is called \<open>errorResponse\<close>.\<close>

definition test_failed :: "(mail_page, unit) comp" where
  "test_failed s = (Throw ReferenceError, s)"

subsection \<open>Events\<close>

text \<open>The query of the two lists of events. \<open>first\<close> and \<open>max\<close> are numbers, \<open>max\<close> the text of an input field once it was edited, and None
  for NaN or a field that was deleted; the other fields are texts.\<close>

datatype events_kind = LoginEvents | AdminEvents

record events_query =
  eq_first :: "int option"
  eq_max :: "smtp_value option"
  eq_filters :: "(string \<times> string) list"

record events_list =
  el_kind :: events_kind
  el_realm :: string
  el_query :: events_query
  el_sent :: "events_query list"

definition filter_names :: "events_kind \<Rightarrow> string list" where
  "filter_names k =
     (case k of
        LoginEvents \<Rightarrow> [''type'', ''client'', ''user'', ''dateFrom'', ''dateTo'']
      | AdminEvents \<Rightarrow> [''operationTypes'', ''resourceTypes'', ''resourcePath'', ''authRealm'', ''authClient'', ''authUser'',
          ''authIpAddress'', ''dateFrom'', ''dateTo''])"

definition drop_empty_params :: "events_query \<Rightarrow> events_query" where
  "drop_empty_params q =
     q\<lparr>eq_max := (if eq_max q = Some (SText []) then None else eq_max q), eq_filters := filter (\<lambda>(k, v). v \<noteq> []) (eq_filters q)\<rparr>"

definition queryUpdate :: "events_list \<Rightarrow> events_list" where
  "queryUpdate s = (let q = drop_empty_params (el_query s) in s\<lparr>el_query := q, el_sent := el_sent s @ [q]\<rparr>)"

definition events_update :: "events_list \<Rightarrow> events_list" where
  "events_update s = queryUpdate (s\<lparr>el_query := (el_query s)\<lparr>eq_first := Some 0\<rparr>\<rparr>)"

definition new_events_list :: "events_kind \<Rightarrow> string \<Rightarrow> events_list" where
  "new_events_list k realm =
     events_update \<lparr>el_kind = k, el_realm = realm, el_query = \<lparr>eq_first = Some 0, eq_max = Some (SNumber (Some 5)), eq_filters = []\<rparr>, el_sent = []\<rparr>"

definition events_reset :: "events_list \<Rightarrow> events_list" where
  "events_reset s =
     events_update (s\<lparr>el_query := \<lparr>eq_first = Some 0, eq_max = Some (SNumber (Some 5)),
        eq_filters = fold (\<lambda>k fs. AList.update k [] fs) (filter_names (el_kind s)) (eq_filters (el_query s))\<rparr>\<rparr>)"

definition page_size :: "events_query \<Rightarrow> int option" where
  "page_size q = (case port_number (eq_max q) of SNumber n \<Rightarrow> n | _ \<Rightarrow> None)"

definition nan_op :: "(int \<Rightarrow> int \<Rightarrow> int) \<Rightarrow> int option \<Rightarrow> int option \<Rightarrow> int option" where
  "nan_op f a b = (case (a, b) of (Some x, Some y) \<Rightarrow> Some (f x y) | _ \<Rightarrow> None)"

definition events_firstPage :: "events_list \<Rightarrow> events_list" where
  "events_firstPage s = queryUpdate (s\<lparr>el_query := (el_query s)\<lparr>eq_first := Some 0\<rparr>\<rparr>)"

definition events_previousPage :: "events_list \<Rightarrow> events_list" where
  "events_previousPage s =
     (let first = nan_op (-) (eq_first (el_query s)) (page_size (el_query s));
          first = (case first of Some n \<Rightarrow> if n < 0 then Some 0 else Some n | None \<Rightarrow> None) in
      queryUpdate (s\<lparr>el_query := (el_query s)\<lparr>eq_first := first\<rparr>\<rparr>))"

definition events_nextPage :: "events_list \<Rightarrow> events_list" where
  "events_nextPage s =
     queryUpdate (s\<lparr>el_query := (el_query s)\<lparr>eq_first := nan_op (+) (eq_first (el_query s)) (page_size (el_query s))\<rparr>\<rparr>)"

subsection \<open>Sessions and revocation\<close>

text \<open>The answer of a request that the server passes on to the clients: the addresses that succeeded and those that failed. A list in
  a text is joined with commas.\<close>

record global_result =
  gr_success :: "string list option"
  gr_failed :: "string list option"

definition result_list :: "string list option \<Rightarrow> string list" where
  "result_list r = (case r of None \<Rightarrow> [] | Some xs \<Rightarrow> xs)"

definition logoutAll_answer :: "global_result \<Rightarrow> unit ui_effect list" where
  "logoutAll_answer r =
     (if result_list (gr_failed r) \<noteq> [] then
        [Notify ''error'' ((if result_list (gr_success r) \<noteq> []
             then ''Successfully logout all users under: '' @ join '','' (result_list (gr_success r)) @ '' . '' else []) @
           ''Failed to logout users under: '' @ join '','' (result_list (gr_failed r)) @
           ''. Verify availability of failed hosts and try again'')]
      else [Reload])"

definition pushRevocation_answer :: "global_result \<Rightarrow> unit ui_effect list" where
  "pushRevocation_answer r =
     (if result_list (gr_success r) = [] \<and> result_list (gr_failed r) = [] then
        [Notify ''warn'' ''No push sent. No admin URI configured or no registered cluster nodes available'']
      else if result_list (gr_failed r) \<noteq> [] then
        [Notify ''error'' ((if result_list (gr_success r) \<noteq> []
             then ''Successfully push notBefore to: '' @ join '','' (result_list (gr_success r)) @ '' . '' else []) @
           ''Failed to push notBefore to: '' @ join '','' (result_list (gr_failed r)) @
           ''. Verify availability of failed hosts and try again'')]
      else [Notify ''success'' ''Successfully push notBefore to all configured clients''])"

record revocation_page =
  rv_realm :: string
  rv_notBefore :: int
  rv_shown :: "int option"
  rv_effects :: "int option ui_effect list"

text \<open>What is shown is None for the text \<open>None\<close>, and otherwise the time in milliseconds.\<close>

definition setNotBefore :: "revocation_page \<Rightarrow> revocation_page" where
  "setNotBefore s = s\<lparr>rv_shown := (if rv_notBefore s = 0 then None else Some (rv_notBefore s * 1000))\<rparr>"

definition new_revocation_page :: "string \<Rightarrow> int \<Rightarrow> revocation_page" where
  "new_revocation_page realm t = setNotBefore \<lparr>rv_realm = realm, rv_notBefore = t, rv_shown = None, rv_effects = []\<rparr>"

definition rv_do :: "int option ui_effect list \<Rightarrow> revocation_page \<Rightarrow> revocation_page" where
  "rv_do es s = s\<lparr>rv_effects := rv_effects s @ es\<rparr>"

definition revocation_reset :: "revocation_page \<Rightarrow> revocation_page" where
  "revocation_reset s = rv_do [Request ''GET'' ''Realm'' [(''id'', rv_realm s)] None] s"

definition revocation_answer :: "int \<Rightarrow> revocation_page \<Rightarrow> revocation_page" where
  "revocation_answer t s = setNotBefore (s\<lparr>rv_notBefore := t\<rparr>)"

definition revocation_clear :: "revocation_page \<Rightarrow> revocation_page" where
  "revocation_clear s = rv_do [Request ''PUT'' ''Realm'' [(''id'', rv_realm s)] (Some 0)] s"

definition revocation_cleared :: "revocation_page \<Rightarrow> revocation_page" where
  "revocation_cleared s = revocation_reset (rv_do [Notify ''success'' ''Not Before cleared for realm.''] (s\<lparr>rv_shown := None\<rparr>))"

text \<open>The time is sent in seconds, with the fraction; the model has whole seconds.\<close>

definition setNotBeforeNow :: "int \<Rightarrow> revocation_page \<Rightarrow> revocation_page" where
  "setNotBeforeNow now s = rv_do [Request ''PUT'' ''Realm'' [(''id'', rv_realm s)] (Some (now div 1000))] s"

definition setNotBeforeNow_done :: "revocation_page \<Rightarrow> revocation_page" where
  "setNotBeforeNow_done s = revocation_reset (rv_do [Notify ''success'' ''Not Before set for realm.''] s)"

subsection \<open>What is sent\<close>

lemma map_of_on_booleans: "map_of (on_booleans f o') ''port'' = map_of o' ''port''"
  by (induction o') (auto simp: on_booleans_def booleanSmtpAtts_def)

lemma update_commutes: "on_booleans f (AList.update ''port'' x o') = AList.update ''port'' x (on_booleans f o')"
  by (induction o') (auto simp: on_booleans_def booleanSmtpAtts_def)

lemma update_same: "map_of o' k = Some v \<Longrightarrow> AList.update k v o' = o'"
  by (induction o') (auto split: if_splits)

lemma booleans_back:
  "list_all (\<lambda>(k, v). \<exists>t. v = SText t) o' \<Longrightarrow> on_booleans from_bool (on_booleans to_bool o') = o'"
  by (induction o') (auto simp: on_booleans_def)

lemma detype_type:
  assumes "list_all (\<lambda>(k, v). \<exists>t. v = SText t) o'" and "map_of o' ''port'' = Some (SText (int_str n))" and "n \<noteq> 0"
  shows "detypeObject (typeObject o') = o'"
proof -
  have t: "typeObject o' = AList.update ''port'' (SNumber (Some n)) (on_booleans to_bool o')"
    using assms(2) by (simp add: typeObject_def map_of_on_booleans set_port_def parse_number_int_str Let_def)
  have "on_booleans from_bool (typeObject o') = AList.update ''port'' (SNumber (Some n)) o'"
    by (simp add: t update_commutes booleans_back [OF assms(1)])
  then show ?thesis
    using assms(2,3) by (simp add: detypeObject_def set_port_def update_conv update_same Let_def)
qed

text \<open>Mail settings whose values are texts and whose port is the text of a number other than zero come back from the page as they were
  stored: opened and saved without an edit, they are sent unchanged.\<close>

theorem mail_settings_roundtrip:
  assumes "list_all (\<lambda>(k, v). \<exists>t. v = SText t) stored" and "map_of stored ''port'' = Some (SText (int_str n))" and "n \<noteq> 0"
  shows "\<exists>s. mail_save (new_mail_page realm (Some stored)) = (Ok (), s) \<and>
    mp_effects s = [Request ''PUT'' ''Realm'' [(''id'', realm)] (Some stored)]"
  using detype_type [OF assms] by (simp add: mail_save_def new_mail_page_def mail_do_def Let_def)

theorem mail_settings_roundtrip_witness:
  "\<exists>s. mail_save (new_mail_page ''demo'' (Some [(''host'', SText ''mail''), (''port'', SText ''25''), (''ssl'', SText ''true'')])) = (Ok (), s) \<and>
    mp_effects s = [Request ''PUT'' ''Realm'' [(''id'', ''demo'')] (Some [(''host'', SText ''mail''), (''port'', SText ''25''), (''ssl'', SText ''true'')])]"
proof -
  have p: "int_str 25 = ''25''" by code_simp
  show ?thesis
    by (rule mail_settings_roundtrip [of _ 25]) (simp_all add: p)
qed

text \<open>Without a port the settings are saved with NaN for it. A page that was reset tests what was edited before.\<close>

lemma missing_port: "map_of o' ''port'' = None \<Longrightarrow> map_of (detypeObject (typeObject o')) ''port'' = Some (SNumber None)"
  by (simp add: detypeObject_def typeObject_def map_of_on_booleans set_port_def update_commutes update_conv Let_def)

lemma reset_tests_old:
  "mp_same s \<Longrightarrow> mp_effects (testConnection (mail_reset (mail_edit (Some v) s))) =
     mp_effects s @ [Request ''POST'' ''RealmSMTPConnectionTester'' [(''realm'', mp_realm s)] (Some v)]"
  by (simp add: testConnection_def mail_reset_def mail_edit_def mail_do_def)

text \<open>No query has an empty filter, and \<open>reset\<close> gives the query of a page just opened.\<close>

lemma sent_without_empty: "list_all (\<lambda>(k, v). v \<noteq> []) (eq_filters (last (el_sent (queryUpdate s))))"
  by (auto simp: queryUpdate_def drop_empty_params_def list_all_iff Let_def)

lemma emptied_filters:
  "(\<forall>k v. (k, v) \<in> set fs \<longrightarrow> k \<in> set ks \<or> v = []) \<Longrightarrow> distinct (map fst fs) \<Longrightarrow>
     filter (\<lambda>(k, v). v \<noteq> []) (fold (\<lambda>k fs. AList.update k [] fs) ks fs) = []"
proof (induction ks arbitrary: fs)
  case Nil
  then show ?case by (auto simp: filter_empty_conv)
next
  case (Cons k ks)
  have d: "distinct (map fst (AList.update k [] fs))" using Cons.prems(2) by (rule distinct_update)
  have "j \<in> set ks \<or> v = []" if "(j, v) \<in> set (AList.update k [] fs)" for j v
  proof (cases "j = k")
    case True
    then have "v = []" using that d map_of_is_SomeI [OF d that] by (simp add: update_conv)
    then show ?thesis by simp
  next
    case False
    then have "map_of fs j = Some v" using map_of_is_SomeI [OF d that] by (simp add: update_conv)
    then have "(j, v) \<in> set fs" by (rule map_of_SomeD)
    with Cons.prems(1) False show ?thesis by auto
  qed
  then show ?case using Cons.IH [OF _ d] by simp
qed

lemma events_reset_fresh:
  assumes "distinct (map fst (eq_filters (el_query s)))" and "set (map fst (eq_filters (el_query s))) \<subseteq> set (filter_names (el_kind s))"
  shows "el_query (events_reset s) = el_query (new_events_list (el_kind s) realm)"
proof -
  have "k \<in> set (filter_names (el_kind s))" if "(k, v) \<in> set (eq_filters (el_query s))" for k v
    using assms(2) that by (force simp: image_subset_iff)
  then have "filter (\<lambda>(k, v). v \<noteq> []) (fold (\<lambda>k fs. AList.update k [] fs) (filter_names (el_kind s)) (eq_filters (el_query s))) = []"
    by (intro emptied_filters) (use assms(1) in auto)
  then show ?thesis by (simp add: events_reset_def new_events_list_def events_update_def queryUpdate_def drop_empty_params_def Let_def)
qed

text \<open>Turning pages forth and back returns to where it was, as long as the page size is a positive number; a page size that was cleared makes
  the position NaN for good.\<close>

lemma pages_forth_and_back:
  assumes "eq_first (el_query s) = Some n" and "0 \<le> n" and "page_size (el_query s) = Some m" and "0 < m"
  shows "eq_first (el_query (events_previousPage (events_nextPage s))) = Some n"
proof -
  have "eq_max (el_query s) \<noteq> Some (SText [])"
    using assms(3) by (auto simp: page_size_def parse_number_def digits_of_def)
  then show ?thesis
    using assms
    by (simp add: events_previousPage_def events_nextPage_def queryUpdate_def drop_empty_params_def nan_op_def page_size_def Let_def)
qed

lemma cleared_page_size:
  assumes "eq_max (el_query s) = Some (SText [])"
  shows "eq_first (el_query (events_nextPage (events_update s))) = None"
    and "eq_first (el_query (events_previousPage (events_nextPage (events_update s)))) = None"
  using assms
  by (simp_all add: events_previousPage_def events_nextPage_def events_update_def queryUpdate_def drop_empty_params_def nan_op_def page_size_def Let_def)

end
