(* ===== verification/Realm_Import.thy ===== *)
theory Realm_Import
  imports Console Json
begin

section \<open>The admin console: import into a realm and export\<close>

text \<open>
  controllers/realm.js: \<open>RealmImportCtrl\<close> (2626-2849) and \<open>RealmExportCtrl\<close> (2851-2886). A file is parsed by
  \<open>JSON_parse\<close> of the theory Json. Not modelled: the window that shows the file.
\<close>

subsection \<open>What is in a file\<close>

text \<open>\<open>v.hasOwnProperty(k)\<close>, which raises on null.\<close>

definition own_property :: "json \<Rightarrow> string \<Rightarrow> bool res" where
  "own_property v k = (if v = JNull then Throw TypeError else Ok (jget v k \<noteq> None))"

fun nonempty_array :: "json option \<Rightarrow> bool" where
  "nonempty_array (Some (JArr xs)) \<longleftrightarrow> xs \<noteq> []"
| "nonempty_array _ \<longleftrightarrow> False"

definition hasArray :: "string \<Rightarrow> json \<Rightarrow> bool res" where
  "hasArray k v = res_bind (own_property v k) (\<lambda>b. Ok (b \<and> nonempty_array (jget v k)))"

text \<open>\<open>Object.keys(v).length\<close>\<close>

fun key_count :: "json \<Rightarrow> nat res" where
  "key_count JNull = Throw TypeError"
| "key_count (JObj ms) = Ok (card (set (map fst ms)))"
| "key_count (JArr xs) = Ok (length xs)"
| "key_count (JStr s) = Ok (length s)"
| "key_count _ = Ok 0"

text \<open>\<open>hasRoles\<close> compares the roles with a string, so that null counts as roles.\<close>

definition hasRoles :: "json \<Rightarrow> bool res" where
  "hasRoles v = own_property v ''roles''"

definition hasRealmRoles :: "json \<Rightarrow> bool res" where
  "hasRealmRoles v =
     res_bind (hasRoles v) (\<lambda>b. if b then hasArray ''realm'' (the (jget v ''roles'')) else Ok False)"

definition hasClientRoles :: "json \<Rightarrow> bool res" where
  "hasClientRoles v =
     res_bind (hasRoles v) (\<lambda>b. if b then
       res_bind (own_property (the (jget v ''roles'')) ''client'') (\<lambda>c. if c then
         res_bind (key_count (the (jget (the (jget v ''roles'')) ''client''))) (\<lambda>n. Ok (n > 0)) else Ok False) else Ok False)"

subsection \<open>The page\<close>

record import_page =
  ip_realm :: string
  ip_fileContent :: json
  ip_importUsers :: bool
  ip_importGroups :: bool
  ip_importClients :: bool
  ip_importIdentityProviders :: bool
  ip_importRealmRoles :: bool
  ip_importClientRoles :: bool
  ip_ifResourceExists :: string
  ip_isMultiRealm :: bool
  ip_importing :: bool
  ip_changed :: bool
  ip_results :: "string list option"
  ip_currentPage :: int
  ip_effects :: "json option ui_effect list"

definition ip_do :: "json option ui_effect list \<Rightarrow> import_page \<Rightarrow> import_page" where
  "ip_do es s = s\<lparr>ip_effects := ip_effects s @ es\<rparr>"

definition initial_content :: json where
  "initial_content = JObj [(''enabled'', JBool True)]"

definition new_import_page :: "string \<Rightarrow> import_page" where
  "new_import_page realm =
     \<lparr>ip_realm = realm, ip_fileContent = initial_content, ip_importUsers = False, ip_importGroups = False, ip_importClients = False,
      ip_importIdentityProviders = False, ip_importRealmRoles = False, ip_importClientRoles = False, ip_ifResourceExists = ''FAIL'',
      ip_isMultiRealm = False, ip_importing = False, ip_changed = False, ip_results = None, ip_currentPage = 0, ip_effects = []\<rparr>"

definition set_switch :: "bool res \<Rightarrow> (bool \<Rightarrow> import_page \<Rightarrow> import_page) \<Rightarrow> (import_page, unit) comp" where
  "set_switch r f s = (case r of Throw e \<Rightarrow> (Throw e, s) | Ok b \<Rightarrow> (Ok (), f b s))"

definition setOnOffSwitchDefaults :: "(import_page, unit) comp" where
  "setOnOffSwitchDefaults s =
     (let v = ip_fileContent s in
      comp_bind (set_switch (hasArray ''users'' v) (\<lambda>b s. s\<lparr>ip_importUsers := b\<rparr>)) (\<lambda>_.
      comp_bind (set_switch (hasArray ''groups'' v) (\<lambda>b s. s\<lparr>ip_importGroups := b\<rparr>)) (\<lambda>_.
      comp_bind (set_switch (hasArray ''clients'' v) (\<lambda>b s. s\<lparr>ip_importClients := b\<rparr>)) (\<lambda>_.
      comp_bind (set_switch (hasArray ''identityProviders'' v) (\<lambda>b s. s\<lparr>ip_importIdentityProviders := b\<rparr>)) (\<lambda>_.
      comp_bind (set_switch (hasRealmRoles v) (\<lambda>b s. s\<lparr>ip_importRealmRoles := b\<rparr>)) (\<lambda>_.
      set_switch (hasClientRoles v) (\<lambda>b s. s\<lparr>ip_importClientRoles := b\<rparr>)))))) s)"

text \<open>The operators \<open>&&\<close> and \<open>||\<close> evaluate from the left.\<close>

definition res_and :: "bool \<Rightarrow> bool res \<Rightarrow> bool res" where
  "res_and a b = (if a then b else Ok False)"

fun res_or :: "bool res list \<Rightarrow> bool res" where
  "res_or [] = Ok False"
| "res_or (b # bs) = res_bind b (\<lambda>x. if x then Ok True else res_or bs)"

definition hasResources :: "import_page \<Rightarrow> bool res" where
  "hasResources s =
     (let v = ip_fileContent s in
      res_or [res_and (ip_importUsers s) (hasArray ''users'' v), res_and (ip_importGroups s) (hasArray ''groups'' v),
        res_and (ip_importClients s) (hasArray ''clients'' v), res_and (ip_importIdentityProviders s) (hasArray ''identityProviders'' v),
        res_and (ip_importRealmRoles s) (hasRealmRoles v), res_and (ip_importClientRoles s) (hasClientRoles v)])"

text \<open>\<open>v.length\<close>: None is \<open>undefined\<close>, which makes a sum NaN, also None. A member of an object that is called length is not
  considered.\<close>

fun json_length :: "json \<Rightarrow> int option res" where
  "json_length JNull = Throw TypeError"
| "json_length (JArr xs) = Ok (Some (int (length xs)))"
| "json_length (JStr s) = Ok (Some (int (length s)))"
| "json_length _ = Ok None"

fun sum_lengths :: "json list \<Rightarrow> int option \<Rightarrow> int option res" where
  "sum_lengths [] acc = Ok acc"
| "sum_lengths (v # vs) acc =
     res_bind (json_length v) (\<lambda>n. sum_lengths vs (case (acc, n) of (Some a, Some b) \<Rightarrow> Some (a + b) | _ \<Rightarrow> None))"

text \<open>The loop over the keys of the client roles of a file; the keys of an object are different.\<close>

fun clientRolesCount :: "json \<Rightarrow> int option res" where
  "clientRolesCount (JObj ms) = sum_lengths (map snd ms) (Some 0)"
| "clientRolesCount (JArr xs) = sum_lengths xs (Some 0)"
| "clientRolesCount (JStr s) = Ok (Some (int (length s)))"
| "clientRolesCount _ = Ok (Some 0)"

definition itemCount :: "string \<Rightarrow> import_page \<Rightarrow> int option res" where
  "itemCount section s =
     (let v = ip_fileContent s in
      if \<not> ip_importing s then Ok (Some 0)
      else res_bind (hasRealmRoles v) (\<lambda>r.
        if r \<and> section = ''roles.realm'' then json_length (the (jget (the (jget v ''roles'')) ''realm''))
        else res_bind (hasClientRoles v) (\<lambda>c.
          if c \<and> section = ''roles.client'' then clientRolesCount (the (jget (the (jget v ''roles'')) ''client''))
          else res_bind (own_property v section) (\<lambda>b. if b then json_length (the (jget v section)) else Ok (Some 0)))))"

text \<open>Of a file with several realms, the first one is taken.\<close>

definition first_realm :: "json \<Rightarrow> json" where
  "first_realm v = (case v of JArr (x # xs) \<Rightarrow> x | _ \<Rightarrow> v)"

definition importFile :: "string \<Rightarrow> (import_page, unit) comp" where
  "importFile text s =
     (case JSON_parse text of
        Throw e \<Rightarrow> (Ok (), ip_do [Notify ''error'' ''Unable to parse JSON file.''] s)
      | Ok v \<Rightarrow>
          comp_bind
            (comp_bind (comp_do (\<lambda>s. s\<lparr>ip_isMultiRealm := (case v of JArr (x # y # zs) \<Rightarrow> True | _ \<Rightarrow> ip_isMultiRealm s),
                  ip_fileContent := first_realm v, ip_importing := True\<rparr>)) (\<lambda>_. setOnOffSwitchDefaults))
            (\<lambda>_ s. (let s = s\<lparr>ip_results := None\<rparr> in
               case hasResources s of
                 Throw e \<Rightarrow> (Throw e, s)
               | Ok b \<Rightarrow> (Ok (), if b then s else ip_do [Notify ''error'' ''No resources specified to import.''] s))) s)"

definition watch_fileContent :: "(import_page, unit) comp" where
  "watch_fileContent s =
     setOnOffSwitchDefaults (if ip_fileContent s \<noteq> initial_content then s\<lparr>ip_changed := True\<rparr> else s)"

subsection \<open>Importing\<close>

fun json_put :: "string \<Rightarrow> json \<Rightarrow> json \<Rightarrow> json" where
  "json_put k x (JObj ms) = JObj (filter (\<lambda>m. fst m \<noteq> k) ms @ [(k, x)])"
| "json_put k x v = v"

fun json_delete :: "string \<Rightarrow> json \<Rightarrow> json" where
  "json_delete k (JObj ms) = JObj (filter (\<lambda>m. fst m \<noteq> k) ms)"
| "json_delete k v = v"

definition delete_unless :: "bool \<Rightarrow> string \<Rightarrow> json \<Rightarrow> json" where
  "delete_unless b k v = (if b then v else json_delete k v)"

definition import_json :: "import_page \<Rightarrow> json res" where
  "import_json s =
     (if ip_fileContent s = JNull then Throw TypeError
      else
        (let v = json_put ''ifResourceExists'' (JStr (ip_ifResourceExists s)) (ip_fileContent s);
             v = delete_unless (ip_importUsers s) ''users'' v;
             v = delete_unless (ip_importGroups s) ''groups'' v;
             v = delete_unless (ip_importIdentityProviders s) ''identityProviders'' v;
             v = delete_unless (ip_importClients s) ''clients'' v in
         case jget v ''roles'' of
           None \<Rightarrow> Ok v
         | Some r \<Rightarrow>
             if r = JNull \<and> \<not> (ip_importRealmRoles s \<and> ip_importClientRoles s) then Throw TypeError
             else Ok (json_put ''roles'' (delete_unless (ip_importClientRoles s) ''client'' (delete_unless (ip_importRealmRoles s) ''realm'' r)) v)))"

definition import_save :: "(import_page, unit) comp" where
  "import_save s =
     (case import_json s of
        Throw e \<Rightarrow> (Throw e, s)
      | Ok v \<Rightarrow> (Ok (), ip_do [Request ''POST'' ''partialImport'' [(''realm'', ip_realm s)] (Some v)] (s\<lparr>ip_results := None\<rparr>)))"

definition successMessage :: "import_page \<Rightarrow> int \<Rightarrow> int \<Rightarrow> int \<Rightarrow> string" where
  "successMessage s added skipped overwritten =
     int_str added @ '' records added. '' @
     (if ip_ifResourceExists s = ''SKIP'' then int_str skipped @ '' records skipped.'' else []) @
     (if ip_ifResourceExists s = ''OVERWRITE'' then int_str overwritten @ '' records overwritten.'' else [])"

definition import_done :: "string list \<Rightarrow> int \<Rightarrow> int \<Rightarrow> int \<Rightarrow> import_page \<Rightarrow> import_page" where
  "import_done results added skipped overwritten s =
     ip_do [Notify ''success'' (successMessage s added skipped overwritten)] (s\<lparr>ip_results := Some results\<rparr>)"

definition import_failed :: "string option \<Rightarrow> import_page \<Rightarrow> import_page" where
  "import_failed message s =
     ip_do [Notify ''error'' (if str_truthy message then undef_str message else ''Unexpected error during import'')] s"

definition import_reset :: "import_page \<Rightarrow> import_page" where
  "import_reset s = ip_do [Reload] s"

subsection \<open>The list of results\<close>

definition pageSize :: int where
  "pageSize = 15"

definition hasResults :: "import_page \<Rightarrow> bool" where
  "hasResults s \<longleftrightarrow> ip_results s \<noteq> None \<and> ip_results s \<noteq> Some []"

definition startIndex :: "import_page \<Rightarrow> int" where
  "startIndex s = pageSize * ip_currentPage s"

definition endIndex :: "import_page \<Rightarrow> int" where
  "endIndex s =
     (let n = int (length (the (ip_results s))); e = startIndex s + pageSize in if e > n then n else e)"

text \<open>\<open>xs.slice(a, b)\<close>; an index below zero counts from the end.\<close>

definition js_slice :: "int \<Rightarrow> int \<Rightarrow> 'a list \<Rightarrow> 'a list" where
  "js_slice a b xs =
     (let n = int (length xs); a = (if a < 0 then max 0 (n + a) else a); b = (if b < 0 then max 0 (n + b) else b) in
      take (nat (b - a)) (drop (nat a) xs))"

definition resultsPage :: "import_page \<Rightarrow> string list" where
  "resultsPage s = (if \<not> hasResults s then [] else js_slice (startIndex s) (endIndex s) (the (ip_results s)))"

definition setFirstPage :: "import_page \<Rightarrow> import_page" where
  "setFirstPage s = s\<lparr>ip_currentPage := 0\<rparr>"

definition setNextPage :: "import_page \<Rightarrow> import_page" where
  "setNextPage s = s\<lparr>ip_currentPage := ip_currentPage s + 1\<rparr>"

definition setPreviousPage :: "import_page \<Rightarrow> import_page" where
  "setPreviousPage s = s\<lparr>ip_currentPage := ip_currentPage s - 1\<rparr>"

definition hasNextResults :: "import_page \<Rightarrow> bool" where
  "hasNextResults s \<longleftrightarrow> hasResults s \<and> int (length (the (ip_results s))) > startIndex s + pageSize"

definition hasPreviousResults :: "import_page \<Rightarrow> bool" where
  "hasPreviousResults s \<longleftrightarrow> hasResults s \<and> ip_currentPage s > 0"

subsection \<open>Export\<close>

definition export_params :: "bool \<Rightarrow> bool \<Rightarrow> (string \<times> string) list" where
  "export_params groupsAndRoles clients =
     (if groupsAndRoles then [(''exportGroupsAndRoles'', ''true'')] else []) @ (if clients then [(''exportClients'', ''true'')] else [])"

definition export_download :: "string \<Rightarrow> bool \<Rightarrow> bool \<Rightarrow> json option ui_effect list" where
  "export_download realm groupsAndRoles clients =
     [Request ''POST'' ''partial-export'' ((''realm'', realm) # export_params groupsAndRoles clients) None]"

definition realm_export :: "string \<Rightarrow> bool \<Rightarrow> bool \<Rightarrow> json option ui_effect list" where
  "realm_export realm groupsAndRoles clients =
     (if groupsAndRoles \<or> clients
      then [Confirm ''Export'' (''This operation may make server unresponsive for a while.'' @ [CHR 0x0A, CHR 0x0A] @ ''Are you sure you want to proceed?'')]
      else export_download realm groupsAndRoles clients)"

subsection \<open>What is imported\<close>

lemma map_of_rev_filter:
  fixes ms :: "(string \<times> json) list"
  shows "map_of (rev (filter (\<lambda>m. fst m \<noteq> k) ms)) j = (if j = k then None else map_of (rev ms) j)"
proof -
  have "map_of (filter (\<lambda>m. fst m \<noteq> k) xs) j = (if j = k then None else map_of xs j)" for xs :: "(string \<times> json) list"
    by (induction xs) auto
  then show ?thesis by (simp only: rev_filter)
qed

lemma jget_put [simp]: "jget (json_put k x (JObj ms)) j = (if j = k then Some x else jget (JObj ms) j)"
  using map_of_rev_filter [of k ms j] by auto

lemma jget_delete [simp]: "jget (delete_unless b k (JObj ms)) j = (if j = k \<and> \<not> b then None else jget (JObj ms) j)"
  using map_of_rev_filter [of k ms j] by (auto simp: delete_unless_def)

lemma object_kept: "\<exists>ns. json_put k x (JObj ms) = JObj ns" "\<exists>ns. delete_unless b k (JObj ms) = JObj ns"
  by (simp_all add: delete_unless_def)

text \<open>The parts of a file that can be chosen, and the switch of each.\<close>

definition section_chosen :: "import_page \<Rightarrow> string \<Rightarrow> bool" where
  "section_chosen s k =
     (case map_of [(''users'', ip_importUsers s), (''groups'', ip_importGroups s), (''clients'', ip_importClients s),
        (''identityProviders'', ip_importIdentityProviders s)] k of None \<Rightarrow> True | Some b \<Rightarrow> b)"

text \<open>What the request has for a field of the file.\<close>

definition sent_field :: "import_page \<Rightarrow> string \<Rightarrow> json option" where
  "sent_field s k =
     (if k = ''ifResourceExists'' then Some (JStr (ip_ifResourceExists s))
      else if \<not> section_chosen s k then None
      else if k = ''roles'' then
        map_option (\<lambda>r. delete_unless (ip_importClientRoles s) ''client'' (delete_unless (ip_importRealmRoles s) ''realm'' r))
          (jget (ip_fileContent s) ''roles'')
      else jget (ip_fileContent s) k)"

text \<open>An import sends of the file exactly what was chosen: users, groups, clients and identity providers only when their switch is on, of the
  roles the parts whose switch is on, every other field as it is in the file, and what to do with resources that exist.\<close>

theorem import_sends_chosen:
  assumes "ip_fileContent s = JObj ms" and "jget (JObj ms) ''roles'' \<noteq> Some JNull"
  shows "\<exists>ns. import_save s = (Ok (), ip_do [Request ''POST'' ''partialImport'' [(''realm'', ip_realm s)] (Some (JObj ns))] (s\<lparr>ip_results := None\<rparr>)) \<and>
    (\<forall>k. jget (JObj ns) k = sent_field s k)"
proof -
  define v where "v = delete_unless (ip_importClients s) ''clients'' (delete_unless (ip_importIdentityProviders s) ''identityProviders''
    (delete_unless (ip_importGroups s) ''groups'' (delete_unless (ip_importUsers s) ''users''
      (json_put ''ifResourceExists'' (JStr (ip_ifResourceExists s)) (JObj ms)))))"
  obtain as where as: "json_put ''ifResourceExists'' (JStr (ip_ifResourceExists s)) (JObj ms) = JObj as" using object_kept(1) by blast
  obtain bs where bs: "delete_unless (ip_importUsers s) ''users'' (JObj as) = JObj bs" using object_kept(2) by blast
  obtain cs where cs: "delete_unless (ip_importGroups s) ''groups'' (JObj bs) = JObj cs" using object_kept(2) by blast
  obtain ds where ds: "delete_unless (ip_importIdentityProviders s) ''identityProviders'' (JObj cs) = JObj ds" using object_kept(2) by blast
  obtain es where es: "delete_unless (ip_importClients s) ''clients'' (JObj ds) = JObj es" using object_kept(2) by blast
  have v: "v = JObj es" by (simp only: v_def as bs cs ds es)
  have g: "jget (JObj es) k = (if k = ''ifResourceExists'' then Some (JStr (ip_ifResourceExists s))
      else if section_chosen s k then jget (JObj ms) k else None)" for k
  proof -
    note parts = jget_put [of "''ifResourceExists''" "JStr (ip_ifResourceExists s)" ms k, unfolded as]
      jget_delete [of "ip_importUsers s" "''users''" as k, unfolded bs] jget_delete [of "ip_importGroups s" "''groups''" bs k, unfolded cs]
      jget_delete [of "ip_importIdentityProviders s" "''identityProviders''" cs k, unfolded ds]
      jget_delete [of "ip_importClients s" "''clients''" ds k, unfolded es]
    show ?thesis unfolding section_chosen_def parts(5,4,3,2,1) by (simp del: jget.simps)
  qed
  have r: "jget v ''roles'' = jget (JObj ms) ''roles''" unfolding v g by (simp add: section_chosen_def)
  show ?thesis
  proof (cases "jget (JObj ms) ''roles''")
    case None
    then have "import_json s = Ok (JObj es)"
      using r assms(1) v by (simp add: import_json_def v_def Let_def)
    moreover have "jget (JObj es) k = sent_field s k" for k unfolding g using None assms(1) by (auto simp: sent_field_def)
    ultimately show ?thesis by (auto simp: import_save_def)
  next
    case (Some q)
    let ?q = "delete_unless (ip_importClientRoles s) ''client'' (delete_unless (ip_importRealmRoles s) ''realm'' q)"
    obtain ns where ns: "json_put ''roles'' ?q (JObj es) = JObj ns" using object_kept(1) by blast
    have "q \<noteq> JNull" using Some assms(2) by auto
    then have "import_json s = Ok (JObj ns)"
      using r Some assms(1) v ns by (simp add: import_json_def v_def Let_def)
    moreover have "jget (JObj ns) k = sent_field s k" for k
      unfolding ns [symmetric] jget_put g using Some assms(1) by (auto simp: sent_field_def section_chosen_def)
    ultimately show ?thesis by (auto simp: import_save_def)
  qed
qed

definition sample_import :: import_page where
  "sample_import = (new_import_page ''demo'')
     \<lparr>ip_fileContent := JObj [(''users'', JArr [JObj []]), (''groups'', JArr [JObj []])], ip_importGroups := True\<rparr>"

theorem import_sends_chosen_witness:
  "\<exists>ns. import_save sample_import =
       (Ok (), ip_do [Request ''POST'' ''partialImport'' [(''realm'', ''demo'')] (Some (JObj ns))] (sample_import\<lparr>ip_results := None\<rparr>)) \<and>
     jget (JObj ns) ''users'' = None \<and> jget (JObj ns) ''groups'' = Some (JArr [JObj []])"
proof -
  have c: "ip_fileContent sample_import = JObj [(''users'', JArr [JObj []]), (''groups'', JArr [JObj []])]" "ip_realm sample_import = ''demo''"
    by (simp_all add: sample_import_def new_import_page_def)
  have n: "jget (JObj [(''users'', JArr [JObj []]), (''groups'', JArr [JObj []])]) ''roles'' \<noteq> Some JNull" by simp
  have u: "sent_field sample_import ''users'' = None" "sent_field sample_import ''groups'' = Some (JArr [JObj []])" by code_simp+
  from import_sends_chosen [OF c(1) n] show ?thesis unfolding c(2) using u by metis
qed

text \<open>A file whose roles are null passes the test for roles and raises when its roles are read.\<close>

lemma null_roles_raise: "jget v ''roles'' = Some JNull \<Longrightarrow> v \<noteq> JNull \<Longrightarrow> hasRealmRoles v = Throw TypeError"
  by (simp add: hasRealmRoles_def hasRoles_def own_property_def hasArray_def)

subsection \<open>The pages of results\<close>

lemma slices: "concat (map (\<lambda>i. take k (drop (k * i) xs)) [0..<m]) = take (k * m) xs"
proof (induction m)
  case (Suc m)
  then show ?case by (simp add: take_add [symmetric] add.commute)
qed simp

definition at_page :: "string list \<Rightarrow> nat \<Rightarrow> import_page \<Rightarrow> import_page" where
  "at_page results i s = s\<lparr>ip_results := Some results, ip_currentPage := int i\<rparr>"

lemma resultsPage_at: "results \<noteq> [] \<Longrightarrow> resultsPage (at_page results i s) = take 15 (drop (15 * i) results)"
  by (auto simp: resultsPage_def hasResults_def at_page_def js_slice_def startIndex_def endIndex_def pageSize_def Let_def nat_add_distrib
      nat_mult_distrib min_def)

lemma hasNextResults_at: "results \<noteq> [] \<Longrightarrow> hasNextResults (at_page results i s) \<longleftrightarrow> 15 * i + 15 < length results"
  by (auto simp: hasNextResults_def hasResults_def at_page_def startIndex_def pageSize_def)

text \<open>The pages of an import's results show every result once and in order: from the first page on, as long as there is a next page,
  the pages put together are the list of results.\<close>

theorem result_pages_cover:
  assumes "results \<noteq> []"
  shows "\<exists>n. concat (map (\<lambda>i. resultsPage (at_page results i s)) [0..<Suc n]) = results \<and> \<not> hasNextResults (at_page results n s) \<and>
    list_all (\<lambda>i. hasNextResults (at_page results i s)) [0..<n]"
proof -
  define n where "n = (length results - 1) div 15"
  have l: "length results \<le> 15 * n + 15" "15 * n < length results" using assms unfolding n_def by (cases results; simp; presburger)+
  have "concat (map (\<lambda>i. resultsPage (at_page results i s)) [0..<Suc n]) = take (15 * Suc n) results"
    using slices [of 15 results "Suc n"] by (simp add: resultsPage_at [OF assms] del: upt_Suc)
  also have "\<dots> = results" using l(1) by simp
  finally have "concat (map (\<lambda>i. resultsPage (at_page results i s)) [0..<Suc n]) = results" .
  moreover have "list_all (\<lambda>i. hasNextResults (at_page results i s)) [0..<n]" using l(2) by (auto simp: list_all_iff hasNextResults_at [OF assms])
  moreover have "\<not> hasNextResults (at_page results n s)" using l(1) by (simp add: hasNextResults_at [OF assms])
  ultimately show ?thesis by blast
qed

theorem result_pages_cover_witness:
  "\<exists>n. concat (map (\<lambda>i. resultsPage (at_page [''a'', ''b''] i (new_import_page ''demo''))) [0..<Suc n]) = [''a'', ''b'']"
proof -
  have "[''a'', ''b''] \<noteq> []" by simp
  from result_pages_cover [OF this] show ?thesis by blast
qed

text \<open>A second import does not return to the first page: with fewer results its page may be empty.\<close>

lemma page_kept: "ip_currentPage (import_done r a b c (snd (import_save s))) = ip_currentPage s"
  by (simp add: import_done_def import_save_def ip_do_def split: res.split)

lemma empty_page_shown: "results \<noteq> [] \<Longrightarrow> length results \<le> 15 * i \<Longrightarrow> resultsPage (at_page results i s) = []"
  by (simp add: resultsPage_at)

text \<open>The counts of the roles of a file: of the realm roles their number, of the client roles the sum over the clients.\<close>

lemma sum_lengths_arrays:
  "sum_lengths (map JArr xss) (Some n) = Ok (Some (n + int (length (concat xss))))"
  by (induction xss arbitrary: n) (simp_all add: algebra_simps)

theorem role_counts:
  assumes "ip_importing s" and "jget (ip_fileContent s) ''roles'' = Some (JObj [(''realm'', JArr rs), (''client'', JObj (map (\<lambda>(k, xs). (k, JArr xs)) cs))])"
    and "ip_fileContent s \<noteq> JNull" and "rs \<noteq> []" and "cs \<noteq> []"
  shows "itemCount ''roles.realm'' s = Ok (Some (int (length rs)))"
    and "itemCount ''roles.client'' s = Ok (Some (int (length (concat (map snd cs)))))"
proof -
  have roles: "hasRoles (ip_fileContent s) = Ok True" using assms(2,3) by (simp add: hasRoles_def own_property_def)
  have r: "hasRealmRoles (ip_fileContent s) = Ok True"
    using assms(2,4) roles by (simp add: hasRealmRoles_def hasArray_def own_property_def)
  have c: "hasClientRoles (ip_fileContent s) = Ok True"
    using assms(2,5) roles by (simp add: hasClientRoles_def own_property_def card_gt_0_iff)
  have "map snd (map (\<lambda>(k, xs). (k, JArr xs)) cs) = map JArr (map snd cs)" by auto
  then have sum: "sum_lengths (map snd (map (\<lambda>(k, xs). (k, JArr xs)) cs)) (Some 0) = Ok (Some (int (length (concat (map snd cs)))))"
    by (simp only: sum_lengths_arrays) simp
  show "itemCount ''roles.realm'' s = Ok (Some (int (length rs)))"
    using assms(1,2) r by (simp add: itemCount_def Let_def)
  show "itemCount ''roles.client'' s = Ok (Some (int (length (concat (map snd cs)))))"
    using assms(1,2) r c sum by (simp add: itemCount_def Let_def)
qed

end
