(* ===== verification/Auth_Flows.thy ===== *)
theory Auth_Flows
  imports Console "HOL-Library.AList"
begin

section \<open>The admin console: authentication\<close>

text \<open>
  controllers/realm.js: \<open>RealmFlowBindingCtrl\<close> (1992-2006), \<open>CreateFlowCtrl\<close>, \<open>CreateExecutionFlowCtrl\<close> and
  \<open>CreateExecutionCtrl\<close> (2009-2093), \<open>AuthenticationFlowsCtrl\<close> (2097-2281), \<open>RequiredActionsCtrl\<close> (2283-2348),
  \<open>AuthenticationConfigCtrl\<close> and \<open>AuthenticationConfigCreateCtrl\<close> (2350-2445), and the service \<open>LastFlowSelected\<close> of services.js
  (484-486). The body of a request is the list of its fields.
\<close>

type_synonym flow_effect = "(string \<times> string) list ui_effect"

record flow =
  fl_id :: string
  fl_alias :: string
  fl_providerId :: string

definition flows_url :: "string \<Rightarrow> string \<Rightarrow> string" where
  "flows_url realm rest = ''/realms/'' @ realm @ ''/authentication/flows'' @ rest"

subsection \<open>Binding and creating flows\<close>

definition client_flows :: "flow list \<Rightarrow> flow list" where
  "client_flows flows = filter (\<lambda>f. fl_providerId f = ''client-flow'') flows"

definition other_flows :: "flow list \<Rightarrow> flow list" where
  "other_flows flows = filter (\<lambda>f. fl_providerId f \<noteq> ''client-flow'') flows"

definition createFlow_save :: "string \<Rightarrow> string \<Rightarrow> string \<Rightarrow> string \<Rightarrow> flow_effect list" where
  "createFlow_save realm alias providerId description =
     [Request ''POST'' ''AuthenticationFlows'' [(''realm'', realm), (''flow'', [])]
        [(''alias'', alias), (''providerId'', providerId), (''description'', description), (''topLevel'', ''true''), (''builtIn'', ''false'')]]"

definition createFlow_saved :: "string \<Rightarrow> string \<Rightarrow> flow_effect list" where
  "createFlow_saved realm alias = [GoTo (flows_url realm (''/'' @ alias)), Notify ''success'' ''Flow Created.'']"

definition default_flow_type :: "flow \<Rightarrow> string" where
  "default_flow_type parent = (if fl_providerId parent = ''client-flow'' then ''client-flow'' else ''basic-flow'')"

text \<open>The id of the provider that is selected first; without providers there is none.\<close>

definition first_provider :: "string list \<Rightarrow> string option" where
  "first_provider ids = (case ids of [] \<Rightarrow> None | i # _ \<Rightarrow> Some i)"

definition provider_field :: "string option \<Rightarrow> (string \<times> string) list" where
  "provider_field p = (case p of None \<Rightarrow> [] | Some i \<Rightarrow> [(''provider'', i)])"

definition createExecutionFlow_save :: "string \<Rightarrow> flow \<Rightarrow> string \<Rightarrow> string \<Rightarrow> string \<Rightarrow> string option \<Rightarrow> flow_effect list" where
  "createExecutionFlow_save realm parent alias type description provider =
     [Request ''POST'' ''CreateExecutionFlow'' [(''realm'', realm), (''alias'', fl_alias parent)]
        ([(''alias'', alias), (''type'', type), (''description'', description)] @ provider_field provider)]"

definition execution_providers :: "flow \<Rightarrow> string list \<Rightarrow> string list \<Rightarrow> string list \<Rightarrow> string list" where
  "execution_providers parent formActions clientAuthenticators authenticators =
     (if fl_providerId parent = ''form-flow'' then formActions
      else if fl_providerId parent = ''client-flow'' then clientAuthenticators else authenticators)"

definition createExecution_save :: "string \<Rightarrow> flow \<Rightarrow> string option \<Rightarrow> flow_effect list" where
  "createExecution_save realm parent provider =
     [Request ''POST'' ''CreateExecution'' [(''realm'', realm), (''alias'', fl_alias parent)] (provider_field provider)]"

definition execution_created :: "bool \<Rightarrow> string \<Rightarrow> flow_effect list" where
  "execution_created is_flow realm =
     [GoTo (flows_url realm []), Notify ''success'' (if is_flow then ''Flow Created.'' else ''Execution Created.'')]"

subsection \<open>The page of flows\<close>

text \<open>The aliases of the flows that the realm uses.\<close>

record bindings =
  bi_browser :: "string option"
  bi_registration :: "string option"
  bi_directGrant :: "string option"
  bi_resetCredentials :: "string option"
  bi_clientAuthentication :: "string option"
  bi_docker :: "string option"

record execution =
  xe_id :: string
  xe_displayName :: string
  xe_level :: nat
  xe_requirementChoices :: "string list"
  xe_requirement :: string
  xe_authenticationFlow :: bool
  xe_flowId :: "string option"
  xe_empties :: "nat list"
  xe_preLevels :: "nat list"
  xe_postLevels :: "nat list"

record flows_page =
  fp_realm :: string
  fp_bindings :: bindings
  fp_flows :: "flow list"
  fp_flow :: "flow option"
  fp_executions :: "execution list"
  fp_choicesmax :: nat
  fp_levelmax :: nat
  fp_levelmaxempties :: "nat list"
  fp_effects :: "flow_effect list"

definition fp_do :: "flow_effect list \<Rightarrow> flows_page \<Rightarrow> flows_page" where
  "fp_do es s = s\<lparr>fp_effects := fp_effects s @ es\<rparr>"

text \<open>\<open>LastFlowSelected\<close> remembers the flow across pages: what is selected, and what it remembers then.\<close>

definition select_last :: "string option \<Rightarrow> string option \<Rightarrow> string option \<times> string option" where
  "select_last selected remembered = (case selected of Some a \<Rightarrow> (Some a, Some a) | None \<Rightarrow> (remembered, remembered))"

definition chosen_flow :: "flow list \<Rightarrow> string option \<Rightarrow> flow option" where
  "chosen_flow flows selected =
     (case flows of
        [] \<Rightarrow> None
      | f # _ \<Rightarrow>
          Some (if str_truthy selected then (case find (\<lambda>g. Some (fl_alias g) = selected) flows of None \<Rightarrow> f | Some g \<Rightarrow> g) else f))"

definition selectFlow :: "flow option \<Rightarrow> (flows_page, unit) comp" where
  "selectFlow f s =
     (case f of
        None \<Rightarrow> (Throw TypeError, s)
      | Some g \<Rightarrow> (Ok (), fp_do [GoTo (flows_url (fp_realm s) (''/'' @ fl_alias g))] s))"

definition with_flow :: "(flow \<Rightarrow> flows_page \<Rightarrow> flows_page) \<Rightarrow> (flows_page, unit) comp" where
  "with_flow f s = (case fp_flow s of None \<Rightarrow> (Throw TypeError, s) | Some g \<Rightarrow> (Ok (), f g s))"

definition setupForm :: "(flows_page, unit) comp" where
  "setupForm =
     with_flow (\<lambda>g s. fp_do [Request ''GET'' ''AuthenticationFlowExecutions'' [(''realm'', fp_realm s), (''alias'', fl_alias g)] []] s)"

definition new_flows_page :: "string \<Rightarrow> bindings \<Rightarrow> flow list \<Rightarrow> string option \<Rightarrow> string option \<Rightarrow> unit res \<times> flows_page" where
  "new_flows_page realm bound flows selected remembered =
     (let (selected, _) = select_last selected remembered;
          s = \<lparr>fp_realm = realm, fp_bindings = bound, fp_flows = flows, fp_flow = chosen_flow flows selected, fp_executions = [],
               fp_choicesmax = 0, fp_levelmax = 0, fp_levelmaxempties = [], fp_effects = []\<rparr> in
      if selected = None then selectFlow (case flows of [] \<Rightarrow> None | f # _ \<Rightarrow> Some f) s else setupForm s)"

text \<open>The answer lays out a table: the columns of an execution's choices are filled up to the longest row, and its name is
  indented by its level.\<close>

definition grow :: "('a \<Rightarrow> nat) \<Rightarrow> 'a list \<Rightarrow> nat" where
  "grow f xs = fold (\<lambda>x m. if f x > m then f x else m) xs 0"

definition lay_out :: "nat \<Rightarrow> nat \<Rightarrow> execution \<Rightarrow> execution" where
  "lay_out choicesmax levelmax x =
     x\<lparr>xe_empties := [0..<choicesmax - length (xe_requirementChoices x)], xe_preLevels := [0..<xe_level x],
       xe_postLevels := [xe_level x..<levelmax]\<rparr>"

definition executions_answer :: "execution list \<Rightarrow> flows_page \<Rightarrow> flows_page" where
  "executions_answer data s =
     (let choicesmax = grow (length \<circ> xe_requirementChoices) data; levelmax = grow xe_level data in
      s\<lparr>fp_executions := map (lay_out choicesmax levelmax) data, fp_choicesmax := choicesmax, fp_levelmax := levelmax,
        fp_levelmaxempties := [0..<levelmax]\<rparr>)"

definition copyFlow_confirmed :: "string \<Rightarrow> (flows_page, unit) comp" where
  "copyFlow_confirmed name =
     with_flow (\<lambda>g s. fp_do [Request ''POST'' ''AuthenticationFlowsCopy'' [(''realm'', fp_realm s), (''alias'', fl_alias g)] [(''newName'', name)]] s)"

definition copyFlow_done :: "string \<Rightarrow> flows_page \<Rightarrow> flows_page" where
  "copyFlow_done name s = fp_do [GoTo (flows_url (fp_realm s) (''/'' @ name)), Notify ''success'' ''Flow copied.''] s"

definition deleteFlow :: "(flows_page, unit) comp" where
  "deleteFlow = with_flow (\<lambda>g s. fp_do [ConfirmDelete (fl_alias g) ''flow''] s)"

definition in_use :: "string \<Rightarrow> flow_effect list" where
  "in_use what = [Notify ''error'' (''Cannot remove flow, it is currently being used as the '' @ what @ '' flow.'')]"

definition removeFlow :: "(flows_page, unit) comp" where
  "removeFlow =
     with_flow (\<lambda>g s.
       (let b = fp_bindings s; a = Some (fl_alias g) in
        if bi_browser b = a then fp_do (in_use ''browser'') s
        else if bi_registration b = a then fp_do (in_use ''registration'') s
        else if bi_directGrant b = a then fp_do (in_use ''direct grant'') s
        else if bi_resetCredentials b = a then fp_do (in_use ''reset credentials'') s
        else if bi_clientAuthentication b = a then fp_do (in_use ''client authentication'') s
        else if bi_docker b = a then fp_do (in_use ''docker authentication'') s
        else fp_do [Request ''DELETE'' ''AuthenticationFlows'' [(''realm'', fp_realm s), (''flow'', fl_id g)] []] s))"

definition removeFlow_done :: "(flows_page, unit) comp" where
  "removeFlow_done s =
     (case fp_flows s of
        [] \<Rightarrow> (Throw TypeError, s)
      | f # _ \<Rightarrow> (Ok (), fp_do [GoTo (flows_url (fp_realm s) (''/'' @ fl_alias f)), Notify ''success'' ''Flow removed''] s))"

definition addFlow :: "(flows_page, unit) comp" where
  "addFlow = with_flow (\<lambda>g s. fp_do [GoTo (flows_url (fp_realm s) (''/'' @ fl_id g @ ''/create/flow/execution/'' @ fl_id g))] s)"

definition addSubFlow :: "execution \<Rightarrow> (flows_page, unit) comp" where
  "addSubFlow x =
     with_flow (\<lambda>g s. fp_do [GoTo (flows_url (fp_realm s) (''/'' @ undef_str (xe_flowId x) @ ''/create/flow/execution/'' @ fl_alias g))] s)"

definition addSubFlowExecution :: "execution \<Rightarrow> (flows_page, unit) comp" where
  "addSubFlowExecution x =
     with_flow (\<lambda>g s. fp_do [GoTo (flows_url (fp_realm s) (''/'' @ undef_str (xe_flowId x) @ ''/create/execution/'' @ fl_alias g))] s)"

definition addExecution :: "(flows_page, unit) comp" where
  "addExecution = with_flow (\<lambda>g s. fp_do [GoTo (flows_url (fp_realm s) (''/'' @ fl_id g @ ''/create/execution/'' @ fl_id g))] s)"

definition createFlow :: "flows_page \<Rightarrow> flows_page" where
  "createFlow s = fp_do [GoTo (''/realms/'' @ fp_realm s @ ''/authentication/create/flow'')] s"

text \<open>What is sent of an execution has none of the columns.\<close>

definition bare_execution :: "execution \<Rightarrow> (string \<times> string) list" where
  "bare_execution x =
     [(''id'', xe_id x), (''displayName'', xe_displayName x), (''level'', int_str (int (xe_level x))), (''requirement'', xe_requirement x)] @
     map (\<lambda>c. (''requirementChoices'', c)) (xe_requirementChoices x) @
     (if xe_authenticationFlow x then [(''authenticationFlow'', ''true'')] else []) @
     (case xe_flowId x of None \<Rightarrow> [] | Some i \<Rightarrow> [(''flowId'', i)])"

definition updateExecution :: "execution \<Rightarrow> (flows_page, unit) comp" where
  "updateExecution x =
     with_flow (\<lambda>g s. fp_do [Request ''PUT'' ''AuthenticationFlowExecutions'' [(''realm'', fp_realm s), (''alias'', fl_alias g)] (bare_execution x)] s)"

definition exe_or_flow :: "execution \<Rightarrow> string" where
  "exe_or_flow x = (if xe_authenticationFlow x then ''flow'' else ''execution'')"

definition removeExecution :: "execution \<Rightarrow> flows_page \<Rightarrow> flows_page" where
  "removeExecution x s = fp_do [ConfirmDelete (xe_displayName x) (exe_or_flow x)] s"

definition removeExecution_confirmed :: "execution \<Rightarrow> flows_page \<Rightarrow> flows_page" where
  "removeExecution_confirmed x s =
     fp_do [Request ''DELETE'' ''AuthenticationExecution'' [(''realm'', fp_realm s), (''execution'', xe_id x)] []] s"

definition raisePriority :: "execution \<Rightarrow> flows_page \<Rightarrow> flows_page" where
  "raisePriority x s =
     fp_do [Request ''POST'' ''AuthenticationExecutionRaisePriority'' [(''realm'', fp_realm s), (''execution'', xe_id x)] []] s"

definition lowerPriority :: "execution \<Rightarrow> flows_page \<Rightarrow> flows_page" where
  "lowerPriority x s =
     fp_do [Request ''POST'' ''AuthenticationExecutionLowerPriority'' [(''realm'', fp_realm s), (''execution'', xe_id x)] []] s"

text \<open>Every change of an execution is followed by a message and a new table.\<close>

datatype execution_change = Updated | Removed string | Raised | Lowered

fun change_message :: "execution_change \<Rightarrow> string" where
  "change_message Updated = ''Auth requirement updated''"
| "change_message (Removed what) = ''The '' @ what @ '' was removed.''"
| "change_message Raised = ''Priority raised''"
| "change_message Lowered = ''Priority lowered''"

definition execution_changed :: "execution_change \<Rightarrow> (flows_page, unit) comp" where
  "execution_changed c s = setupForm (fp_do [Notify ''success'' (change_message c)] s)"

subsection \<open>Required actions\<close>

record 'a actions_page =
  rq_realm :: string
  rq_actions :: "(string \<times> 'a) list"
  rq_effects :: "(string \<times> 'a) option ui_effect list"

definition rq_do :: "(string \<times> 'a) option ui_effect list \<Rightarrow> 'a actions_page \<Rightarrow> 'a actions_page" where
  "rq_do es s = s\<lparr>rq_effects := rq_effects s @ es\<rparr>"

definition setupRequiredActionsForm :: "'a actions_page \<Rightarrow> 'a actions_page" where
  "setupRequiredActionsForm s = rq_do [Request ''GET'' ''RequiredActions'' [(''realm'', rq_realm s)] None] s"

definition new_actions_page :: "string \<Rightarrow> 'a actions_page" where
  "new_actions_page realm = setupRequiredActionsForm \<lparr>rq_realm = realm, rq_actions = [], rq_effects = []\<rparr>"

definition actions_answer :: "(string \<times> 'a) list \<Rightarrow> 'a actions_page \<Rightarrow> 'a actions_page" where
  "actions_answer data s = s\<lparr>rq_actions := data\<rparr>"

definition updateRequiredAction :: "string \<times> 'a \<Rightarrow> 'a actions_page \<Rightarrow> 'a actions_page" where
  "updateRequiredAction a s = rq_do [Request ''PUT'' ''RequiredActions'' [(''realm'', rq_realm s), (''alias'', fst a)] (Some a)] s"

definition raiseActionPriority :: "string \<times> 'a \<Rightarrow> 'a actions_page \<Rightarrow> 'a actions_page" where
  "raiseActionPriority a s = rq_do [Request ''POST'' ''RequiredActionRaisePriority'' [(''realm'', rq_realm s), (''alias'', fst a)] None] s"

definition lowerActionPriority :: "string \<times> 'a \<Rightarrow> 'a actions_page \<Rightarrow> 'a actions_page" where
  "lowerActionPriority a s = rq_do [Request ''POST'' ''RequiredActionLowerPriority'' [(''realm'', rq_realm s), (''alias'', fst a)] None] s"

definition action_changed :: "string \<Rightarrow> 'a actions_page \<Rightarrow> 'a actions_page" where
  "action_changed what s = setupRequiredActionsForm (rq_do [Notify ''success'' (''Required action'' @ what)] s)"

text \<open>The dialog offers the actions not registered yet, the first one selected; without one, the request has no body.\<close>

definition register_ok :: "(string \<times> 'a) option \<Rightarrow> 'a actions_page \<Rightarrow> 'a actions_page" where
  "register_ok selected s = rq_do [Request ''POST'' ''RegisterRequiredAction'' [(''realm'', rq_realm s)] selected] s"

definition register_selected :: "(string \<times> 'a) list \<Rightarrow> (string \<times> 'a) option" where
  "register_selected unregistered = (case unregistered of [] \<Rightarrow> None | a # _ \<Rightarrow> Some a)"

definition registered :: "'a actions_page \<Rightarrow> 'a actions_page" where
  "registered s = rq_do [Reload] s"

subsection \<open>Configuration of an authenticator\<close>

record authenticator_config =
  ag_id :: string
  ag_alias :: string
  ag_config :: "(string \<times> string) list"

record config_page =
  gp_realm :: string
  gp_flow :: string
  gp_provider :: string
  gp_config :: authenticator_config
  gp_stored :: authenticator_config
  gp_changed :: bool
  gp_effects :: "authenticator_config option ui_effect list"

definition gp_do :: "authenticator_config option ui_effect list \<Rightarrow> config_page \<Rightarrow> config_page" where
  "gp_do es s = s\<lparr>gp_effects := gp_effects s @ es\<rparr>"

definition new_config_page :: "string \<Rightarrow> string \<Rightarrow> string \<Rightarrow> authenticator_config \<Rightarrow> config_page" where
  "new_config_page realm flow provider c =
     \<lparr>gp_realm = realm, gp_flow = flow, gp_provider = provider, gp_config = c, gp_stored = c, gp_changed = False, gp_effects = []\<rparr>"

definition watch_config :: "config_page \<Rightarrow> config_page" where
  "watch_config s = (if gp_config s \<noteq> gp_stored s then s\<lparr>gp_changed := True\<rparr> else s)"

definition config_save :: "config_page \<Rightarrow> config_page" where
  "config_save s =
     gp_do [Request ''PUT'' ''AuthenticationConfig'' [(''realm'', gp_realm s), (''config'', ag_id (gp_stored s))] (Some (gp_config s))] s"

definition auth_config_url :: "config_page \<Rightarrow> string \<Rightarrow> string" where
  "auth_config_url s i = flows_url (gp_realm s) (''/'' @ gp_flow s @ ''/config/'' @ gp_provider s @ ''/'' @ i)"

definition config_saved :: "config_page \<Rightarrow> config_page" where
  "config_saved s =
     (let s = s\<lparr>gp_changed := False, gp_stored := gp_config s\<rparr> in
      gp_do [GoTo (auth_config_url s (ag_id (gp_stored s))), Notify ''success'' ''Your changes have been saved.''] s)"

definition config_reset :: "config_page \<Rightarrow> config_page" where
  "config_reset s = s\<lparr>gp_config := gp_stored s, gp_changed := False\<rparr>"

definition config_remove :: "config_page \<Rightarrow> config_page" where
  "config_remove s = gp_do [ConfirmDelete (ag_alias (gp_config s)) ''config''] s"

definition config_remove_confirmed :: "config_page \<Rightarrow> config_page" where
  "config_remove_confirmed s =
     gp_do [Request ''DELETE'' ''AuthenticationConfig'' [(''realm'', gp_realm s), (''config'', ag_id (gp_config s))] None] s"

definition config_removed :: "config_page \<Rightarrow> config_page" where
  "config_removed s =
     gp_do [Notify ''success'' ''The config has been deleted.'', GoTo (flows_url (gp_realm s) (''/'' @ gp_flow s))] s"

text \<open>A new configuration has the default of every property that has a name; an absent default is left out.\<close>

definition default_auth_config :: "(string option \<times> string option) list option \<Rightarrow> (string \<times> string option) list" where
  "default_auth_config properties =
     (case properties of
        None \<Rightarrow> []
      | Some ps \<Rightarrow> fold (\<lambda>(n, d) c. if str_truthy n then AList.update (undef_str n) d c else c) ps [])"

definition config_created :: "config_page \<Rightarrow> string \<Rightarrow> config_page" where
  "config_created s location =
     gp_do [GoTo (auth_config_url s (after_last CHR ''/'' location)), Notify ''success'' ''Config has been created.''] s"

subsection \<open>Properties\<close>

lemma grow_from: "fold (\<lambda>x m. if f x > m then f x else m) xs (m :: nat) = fold max (map f xs) m"
  by (induction xs arbitrary: m) (simp_all add: max_def)

lemma grow_upper: "x \<in> set xs \<Longrightarrow> f x \<le> grow f xs"
proof -
  have "m \<le> fold max (map f xs) m \<and> (x \<in> set xs \<longrightarrow> f x \<le> fold max (map f xs) m)" for m
  proof (induction xs arbitrary: m)
    case (Cons y ys)
    from Cons.IH [of "max (f y) m"] show ?case by auto
  qed simp
  then show "x \<in> set xs \<Longrightarrow> f x \<le> grow f xs" by (simp add: grow_def grow_from)
qed

lemma grow_attained: "xs \<noteq> [] \<Longrightarrow> \<exists>x \<in> set xs. f x = grow f xs"
proof -
  have "fold max (map f xs) m = m \<or> (\<exists>x \<in> set xs. f x = fold max (map f xs) m)" for m
  proof (induction xs arbitrary: m)
    case (Cons y ys)
    from Cons.IH [of "max (f y) m"] show ?case by (auto simp: max_def split: if_splits)
  qed simp
  from this [of 0] grow_upper [of _ xs f] show "xs \<noteq> [] \<Longrightarrow> \<exists>x \<in> set xs. f x = grow f xs"
    by (cases xs) (force simp: grow_def grow_from)+
qed

text \<open>All rows have the same columns, and some row needs each of them.\<close>

definition table_aligned :: "flows_page \<Rightarrow> bool" where
  "table_aligned s \<longleftrightarrow>
     list_all (\<lambda>x. length (xe_requirementChoices x) + length (xe_empties x) = fp_choicesmax s \<and>
        length (xe_preLevels x) + length (xe_postLevels x) = fp_levelmax s) (fp_executions s) \<and>
     (fp_executions s = [] \<or> list_ex (\<lambda>x. length (xe_requirementChoices x) = fp_choicesmax s) (fp_executions s) \<and>
        list_ex (\<lambda>x. xe_level x = fp_levelmax s) (fp_executions s))"

text \<open>The table of a flow's executions is a table: every row has as many columns for the choices as the execution with the
  most choices needs, and as many for the levels as the deepest one needs, and no more columns are there than that.\<close>

theorem executions_table: "table_aligned (executions_answer data t)"
proof -
  define s where "s = executions_answer data t"
  let ?c = "grow (length \<circ> xe_requirementChoices) data" and ?l = "grow xe_level data"
  have f: "fp_executions s = map (lay_out ?c ?l) data" "fp_choicesmax s = ?c" "fp_levelmax s = ?l"
    by (simp_all add: s_def executions_answer_def Let_def)
  have "list_all (\<lambda>x. length (xe_requirementChoices x) \<le> ?c \<and> xe_level x \<le> ?l) data"
    using grow_upper [of _ data "length \<circ> xe_requirementChoices"] grow_upper [of _ data xe_level] by (auto simp: list_all_iff)
  moreover have "data = [] \<or> list_ex (\<lambda>x. length (xe_requirementChoices x) = ?c) data \<and> list_ex (\<lambda>x. xe_level x = ?l) data"
    using grow_attained [of data "length \<circ> xe_requirementChoices"] grow_attained [of data xe_level] by (auto simp: list_ex_iff)
  ultimately show ?thesis
    unfolding s_def [symmetric] table_aligned_def f by (auto simp: list_all_iff list_ex_iff lay_out_def)
qed

text \<open>The page of flows as a state machine: everything the user does on it and every answer. A removal runs when its dialog is
  confirmed, so a dialog for the flow that is shown was opened before.\<close>

inductive flows_step :: "flows_page \<Rightarrow> flows_page \<Rightarrow> bool" where
  choose_flow: "f \<in> set (fp_flows s) \<Longrightarrow> flows_step s (snd (selectFlow (Some f) (s\<lparr>fp_flow := Some f\<rparr>)))"
| executions_arrive: "flows_step s (executions_answer data s)"
| copy: "flows_step s (snd (copyFlow_confirmed name s))"
| copied: "flows_step s (copyFlow_done name s)"
| delete: "flows_step s (snd (deleteFlow s))"
| delete_confirmed: "fp_flow s = Some g \<Longrightarrow> ConfirmDelete (fl_alias g) ''flow'' \<in> set (fp_effects s) \<Longrightarrow> flows_step s (snd (removeFlow s))"
| deleted: "flows_step s (snd (removeFlow_done s))"
| add_flow: "flows_step s (snd (addFlow s))"
| add_sub_flow: "flows_step s (snd (addSubFlow x s))"
| add_sub_execution: "flows_step s (snd (addSubFlowExecution x s))"
| add_execution: "flows_step s (snd (addExecution s))"
| create_flow: "flows_step s (createFlow s)"
| update: "flows_step s (snd (updateExecution x s))"
| remove_execution: "flows_step s (removeExecution x s)"
| remove_execution_confirmed: "flows_step s (removeExecution_confirmed x s)"
| raised: "flows_step s (raisePriority x s)"
| lowered: "flows_step s (lowerPriority x s)"
| changed: "flows_step s (snd (execution_changed c s))"

inductive flows_reachable :: "string \<Rightarrow> bindings \<Rightarrow> flow list \<Rightarrow> flows_page \<Rightarrow> bool" for realm bound flows where
  start: "flows_reachable realm bound flows (snd (new_flows_page realm bound flows selected remembered))"
| step: "flows_reachable realm bound flows s \<Longrightarrow> flows_step s t \<Longrightarrow> flows_reachable realm bound flows t"

text \<open>The uses that a realm makes of its flows, in the order in which a removal looks at them.\<close>

definition bound_uses :: "bindings \<Rightarrow> (string \<times> string option) list" where
  "bound_uses b = [(''browser'', bi_browser b), (''registration'', bi_registration b), (''direct grant'', bi_directGrant b),
     (''reset credentials'', bi_resetCredentials b), (''client authentication'', bi_clientAuthentication b),
     (''docker authentication'', bi_docker b)]"

definition flow_deletion :: "string \<Rightarrow> flow \<Rightarrow> flow_effect" where
  "flow_deletion realm g = Request ''DELETE'' ''AuthenticationFlows'' [(''realm'', realm), (''flow'', fl_id g)] []"

definition deletions_unbound :: "string \<Rightarrow> bindings \<Rightarrow> flow list \<Rightarrow> flow_effect list \<Rightarrow> bool" where
  "deletions_unbound realm bound flows es \<longleftrightarrow>
     (\<forall>ps b. Request ''DELETE'' ''AuthenticationFlows'' ps b \<in> set es \<longrightarrow>
        (\<exists>g \<in> set flows. Request ''DELETE'' ''AuthenticationFlows'' ps b = flow_deletion realm g \<and>
           Some (fl_alias g) \<notin> snd ` set (bound_uses bound) \<and> ConfirmDelete (fl_alias g) ''flow'' \<in> set es))"

lemma removeFlow_exact:
  assumes "fp_flow s = Some g"
  shows "removeFlow s = (Ok (), fp_do
    (case find (\<lambda>(_, a). a = Some (fl_alias g)) (bound_uses (fp_bindings s)) of
       Some (what, _) \<Rightarrow> in_use what
     | None \<Rightarrow> [flow_deletion (fp_realm s) g]) s)"
  using assms by (simp add: removeFlow_def with_flow_def bound_uses_def flow_deletion_def Let_def)

text \<open>Effects that delete no flow leave the log fit.\<close>

lemma deletions_append:
  assumes "deletions_unbound realm bound flows es" and "\<forall>ps b. Request ''DELETE'' ''AuthenticationFlows'' ps b \<notin> set es'"
  shows "deletions_unbound realm bound flows (es @ es')"
  using assms unfolding deletions_unbound_def by fastforce

definition flows_inv :: "string \<Rightarrow> bindings \<Rightarrow> flow list \<Rightarrow> flows_page \<Rightarrow> bool" where
  "flows_inv realm bound flows s \<longleftrightarrow> fp_realm s = realm \<and> fp_bindings s = bound \<and> fp_flows s = flows \<and>
     set_option (fp_flow s) \<subseteq> set flows \<and> deletions_unbound realm bound flows (fp_effects s)"

lemma flows_inv_do:
  "flows_inv realm bound flows s \<Longrightarrow> \<forall>ps b. Request ''DELETE'' ''AuthenticationFlows'' ps b \<notin> set es \<Longrightarrow> flows_inv realm bound flows (fp_do es s)"
  by (simp add: flows_inv_def fp_do_def deletions_append)

lemma flows_inv_removeFlow:
  assumes "flows_inv realm bound flows s" and "fp_flow s = Some g" and "ConfirmDelete (fl_alias g) ''flow'' \<in> set (fp_effects s)"
  shows "flows_inv realm bound flows (snd (removeFlow s))"
proof (cases "find (\<lambda>(_, a). a = Some (fl_alias g)) (bound_uses bound)")
  case (Some u)
  then show ?thesis
    using assms(1) by (cases u) (simp add: removeFlow_exact [OF assms(2)] flows_inv_def [of _ _ _ s] flows_inv_do in_use_def)
next
  case None
  then have "Some (fl_alias g) \<notin> snd ` set (bound_uses bound)" by (auto simp: find_None_iff)
  then show ?thesis
    using assms None unfolding flows_inv_def deletions_unbound_def
    by (auto simp: removeFlow_exact [OF assms(2)] fp_do_def flow_deletion_def)
qed

lemmas flows_page_ops = selectFlow_def with_flow_def setupForm_def copyFlow_confirmed_def copyFlow_done_def deleteFlow_def removeFlow_done_def
  addFlow_def addSubFlow_def addSubFlowExecution_def addExecution_def createFlow_def updateExecution_def removeExecution_def
  removeExecution_confirmed_def raisePriority_def lowerPriority_def execution_changed_def

lemma flows_inv_step: "flows_step s t \<Longrightarrow> flows_inv realm bound flows s \<Longrightarrow> flows_inv realm bound flows t"
proof (induction rule: flows_step.induct)
  case (choose_flow f s)
  then have "flows_inv realm bound flows (s\<lparr>fp_flow := Some f\<rparr>)" by (simp add: flows_inv_def)
  then show ?case by (simp add: selectFlow_def flows_inv_do)
next
  case (executions_arrive s data)
  then show ?case by (simp add: flows_inv_def executions_answer_def Let_def)
next
  case (delete_confirmed s g)
  then show ?case by (intro flows_inv_removeFlow)
qed (simp_all add: flows_page_ops flows_inv_do split: option.split list.split)

lemma flows_invariant: "flows_reachable realm bound flows s \<Longrightarrow> flows_inv realm bound flows s"
proof (induction rule: flows_reachable.induct)
  case (start selected remembered)
  have "set_option (chosen_flow flows sel) \<subseteq> set flows" for sel
    by (auto simp: chosen_flow_def find_Some_iff split: list.splits if_splits option.splits)
  then have "flows_inv realm bound flows \<lparr>fp_realm = realm, fp_bindings = bound, fp_flows = flows, fp_flow = chosen_flow flows sel,
      fp_executions = [], fp_choicesmax = 0, fp_levelmax = 0, fp_levelmaxempties = [], fp_effects = []\<rparr>" (is "flows_inv _ _ _ (?s sel)") for sel
    by (simp add: flows_inv_def deletions_unbound_def)
  moreover have "flows_inv realm bound flows (snd (selectFlow f s))" "flows_inv realm bound flows (snd (setupForm s))"
    if "flows_inv realm bound flows s" for f s
    using that by (simp_all add: selectFlow_def setupForm_def with_flow_def flows_inv_do split: option.split)
  ultimately show ?case by (simp add: new_flows_page_def Let_def split: prod.split)
next
  case (step s t)
  then show ?case using flows_inv_step by blast
qed

text \<open>C31. A flow that the realm uses, as far as the page knows, is never removed. Whatever the user does on the page and however the
  answers arrive, every request to delete a flow names a flow of the list whose alias is none of the six that the realm is bound to, and
  it was confirmed for that alias. Confirming the removal of the flow that is shown sends exactly this one request when the flow is not
  bound; otherwise it shows one error message that names the first use of the flow, and sends nothing.\<close>

theorem removeFlow_unbound_iff:
  assumes "flows_reachable realm bound flows s"
  shows "deletions_unbound realm bound flows (fp_effects s) \<and>
    (\<forall>g. fp_flow s = Some g \<longrightarrow> g \<in> set flows \<and> removeFlow s = (Ok (), fp_do
      (case find (\<lambda>(_, a). a = Some (fl_alias g)) (bound_uses bound) of
         Some (what, _) \<Rightarrow> [Notify ''error'' (''Cannot remove flow, it is currently being used as the '' @ what @ '' flow.'')]
       | None \<Rightarrow> [Request ''DELETE'' ''AuthenticationFlows'' [(''realm'', realm), (''flow'', fl_id g)] []]) s))"
proof -
  have "removeFlow s = (Ok (), fp_do
      (case find (\<lambda>(_, a). a = Some (fl_alias g)) (bound_uses bound) of
         Some (what, _) \<Rightarrow> [Notify ''error'' (''Cannot remove flow, it is currently being used as the '' @ what @ '' flow.'')]
       | None \<Rightarrow> [Request ''DELETE'' ''AuthenticationFlows'' [(''realm'', realm), (''flow'', fl_id g)] []]) s)"
    if "fp_flow s = Some g" for g
    using flows_invariant [OF assms] removeFlow_exact [OF that]
    by (simp add: flows_inv_def in_use_def flow_deletion_def cong: option.case_cong)
  then show ?thesis using flows_invariant [OF assms] by (auto simp: flows_inv_def)
qed

definition sample_flows :: flows_page where
  "sample_flows = snd (new_flows_page ''demo''
     \<lparr>bi_browser = Some ''browser'', bi_registration = None, bi_directGrant = None, bi_resetCredentials = None,
      bi_clientAuthentication = None, bi_docker = None\<rparr>
     [\<lparr>fl_id = ''1'', fl_alias = ''browser'', fl_providerId = ''basic-flow''\<rparr>, \<lparr>fl_id = ''2'', fl_alias = ''mine'', fl_providerId = ''basic-flow''\<rparr>]
     (Some ''mine'') None)"

theorem removeFlow_unbound_iff_witness:
  "deletions_unbound ''demo'' (fp_bindings sample_flows) (fp_flows sample_flows) (fp_effects sample_flows) \<and>
   fp_effects (snd (removeFlow sample_flows)) =
     fp_effects sample_flows @ [Request ''DELETE'' ''AuthenticationFlows'' [(''realm'', ''demo''), (''flow'', ''2'')] []]"
proof -
  have r: "flows_reachable ''demo'' (fp_bindings sample_flows) (fp_flows sample_flows) sample_flows"
    using flows_reachable.start [of "''demo''" "fp_bindings sample_flows" "fp_flows sample_flows" "Some ''mine''" None]
    by (simp add: sample_flows_def new_flows_page_def select_last_def setupForm_def with_flow_def fp_do_def chosen_flow_def str_truthy_def Let_def)
  have g: "fp_flow sample_flows = Some \<lparr>fl_id = ''2'', fl_alias = ''mine'', fl_providerId = ''basic-flow''\<rparr>" by code_simp
  have f: "find (\<lambda>(_, a). a = Some ''mine'') (bound_uses (fp_bindings sample_flows)) = None" by code_simp
  show ?thesis using removeFlow_unbound_iff [OF r] by (simp add: g f fp_do_def)
qed

end
