(* ===== verification/Identity_Providers.thy ===== *)
theory Identity_Providers
  imports Console "HOL-Library.AList"
begin

section \<open>The admin console: identity providers and key providers\<close>

text \<open>
  controllers/realm.js: \<open>IdentityProviderTabCtrl\<close> (735-747), \<open>RealmIdentityProviderCtrl\<close> (749-1055),
  \<open>RealmIdentityProviderExportCtrl\<close> (1057-1079), the pages for the mappers of an identity provider (1903-1990), and the pages for
  keys: \<open>RealmKeysCtrl\<close> (1170-1207), \<open>RealmKeysProvidersCtrl\<close> (1209-1245) and \<open>GenericKeystoreCtrl\<close> (1247-1334).
  Not modelled: the upload itself, the windows that show a key, the callback address.
\<close>

subsection \<open>An identity provider\<close>

text \<open>\<open>postBroker\<close> is None when the field is undefined.\<close>

record identity_provider =
  id_alias :: "string option"
  id_providerId :: string
  id_enabled :: bool
  id_authenticateByDefault :: bool
  id_firstBrokerLoginFlowAlias :: "string option"
  id_postBrokerLoginFlowAlias :: "string option"
  id_config :: "(string \<times> string) list"

record provider_type =
  pt_id :: string
  pt_groupName :: string

record provider_page =
  dp_realm :: string
  dp_factory :: string
  dp_provider :: identity_provider
  dp_instance :: "identity_provider option"
  dp_new :: bool
  dp_changed :: bool
  dp_allProviders :: "provider_type list"
  dp_configured :: "string list option"
  dp_files :: nat
  dp_importFile :: bool
  dp_importUrl :: bool
  dp_fromUrl :: string
  dp_effects :: "identity_provider option ui_effect list"

definition dp_do :: "identity_provider option ui_effect list \<Rightarrow> provider_page \<Rightarrow> provider_page" where
  "dp_do es s = s\<lparr>dp_effects := dp_effects s @ es\<rparr>"

text \<open>Social providers that are configured already are taken out of the list, by a loop from its end.\<close>

definition used_social :: "string list option \<Rightarrow> provider_type \<Rightarrow> bool" where
  "used_social configured p \<longleftrightarrow>
     pt_groupName p = ''Social'' \<and> (case configured of None \<Rightarrow> False | Some ids \<Rightarrow> list_ex (\<lambda>i. i = pt_id p) ids)"

fun social_loop :: "string list option \<Rightarrow> nat \<Rightarrow> provider_type list \<Rightarrow> provider_type list" where
  "social_loop configured 0 ps = ps"
| "social_loop configured (Suc i) ps = social_loop configured i (if used_social configured (ps ! i) then splice1 i ps else ps)"

definition removeUsedSocial :: "string list option \<Rightarrow> provider_type list \<Rightarrow> provider_type list" where
  "removeUsedSocial configured ps = social_loop configured (length ps) ps"

definition new_identity_provider :: "string \<Rightarrow> identity_provider" where
  "new_identity_provider factory =
     \<lparr>id_alias = Some factory, id_providerId = factory, id_enabled = True, id_authenticateByDefault = False,
      id_firstBrokerLoginFlowAlias = Some ''first broker login'', id_postBrokerLoginFlowAlias = None, id_config = [(''useJwksUrl'', ''true'')]\<rparr>"

definition with_post_flow :: "identity_provider \<Rightarrow> identity_provider" where
  "with_post_flow p = (if str_truthy (id_postBrokerLoginFlowAlias p) then p else p\<lparr>id_postBrokerLoginFlowAlias := Some []\<rparr>)"

definition is_stored :: "identity_provider option \<Rightarrow> bool" where
  "is_stored i \<longleftrightarrow> (case i of None \<Rightarrow> False | Some p \<Rightarrow> str_truthy (id_alias p))"

definition new_provider_page :: "string \<Rightarrow> string \<Rightarrow> identity_provider option \<Rightarrow> provider_type list \<Rightarrow> string list option \<Rightarrow> provider_page" where
  "new_provider_page realm factory stored all configured =
     \<lparr>dp_realm = realm, dp_factory = factory,
      dp_provider = with_post_flow (if is_stored stored then the stored else new_identity_provider factory),
      dp_instance = stored, dp_new = (\<not> is_stored stored), dp_changed = (\<not> is_stored stored),
      dp_allProviders = removeUsedSocial configured all, dp_configured = configured, dp_files = 0, dp_importFile = False,
      dp_importUrl = False, dp_fromUrl = [], dp_effects = []\<rparr>"

text \<open>The defaults of a new SAML provider.\<close>

definition set_config :: "(string \<times> string) list \<Rightarrow> provider_page \<Rightarrow> provider_page" where
  "set_config data s =
     s\<lparr>dp_provider := (dp_provider s)\<lparr>id_config := fold (\<lambda>(k, v) c. AList.update k v c) data (id_config (dp_provider s))\<rparr>\<rparr>"

definition initSamlProvider :: "provider_page \<Rightarrow> provider_page" where
  "initSamlProvider s =
     (if is_stored (dp_instance s) then s
      else set_config [(''nameIDPolicyFormat'', ''urn:oasis:names:tc:SAML:2.0:nameid-format:persistent''),
             (''signatureAlgorithm'', ''RSA_SHA256''), (''samlXmlKeyNameTranformer'', ''KEY_ID'')] s)"

definition watch_provider :: "provider_page \<Rightarrow> provider_page" where
  "watch_provider s = (if Some (dp_provider s) \<noteq> dp_instance s then s\<lparr>dp_changed := True\<rparr> else s)"

definition idp_onFileSelect :: "nat \<Rightarrow> provider_page \<Rightarrow> provider_page" where
  "idp_onFileSelect n s = s\<lparr>dp_importFile := True, dp_files := n\<rparr>"

definition idp_clearFileSelect :: "provider_page \<Rightarrow> provider_page" where
  "idp_clearFileSelect s = s\<lparr>dp_importUrl := False, dp_importFile := False, dp_files := 0\<rparr>"

definition without_alias :: "provider_page \<Rightarrow> provider_page" where
  "without_alias s = dp_do [Notify ''error'' ''You must specify an alias''] s"

definition has_alias :: "provider_page \<Rightarrow> bool" where
  "has_alias s \<longleftrightarrow> str_truthy (id_alias (dp_provider s))"

definition idp_uploadFile :: "provider_page \<Rightarrow> provider_page" where
  "idp_uploadFile s =
     (if \<not> has_alias s then without_alias s
      else dp_do (replicate (dp_files s) (Request ''POST'' ''identity-provider/import-config''
             [(''realm'', dp_realm s), (''providerId'', dp_factory s)] None)) s)"

definition idp_uploaded :: "(string \<times> string) list \<Rightarrow> provider_page \<Rightarrow> provider_page" where
  "idp_uploaded data s =
     dp_do [Notify ''success'' ''The IDP metadata has been loaded from file.''] (idp_clearFileSelect (set_config data s))"

definition idp_importFrom :: "provider_page \<Rightarrow> provider_page" where
  "idp_importFrom s =
     (if \<not> has_alias s then without_alias s
      else dp_do [Request ''POST'' ''identity-provider/import-config''
             [(''realm'', dp_realm s), (''fromUrl'', dp_fromUrl s), (''providerId'', dp_factory s)] None] s)"

definition idp_imported :: "(string \<times> string) list \<Rightarrow> provider_page \<Rightarrow> provider_page" where
  "idp_imported data s =
     dp_do [Notify ''success'' ''Imported config information from url.'']
       ((set_config data s)\<lparr>dp_fromUrl := [], dp_importUrl := False\<rparr>)"

definition idp_import_failed :: "bool \<Rightarrow> provider_page \<Rightarrow> provider_page" where
  "idp_import_failed from_file s =
     dp_do [Notify ''error'' (if from_file then ''The file can not be uploaded. Please verify the file.''
        else ''Config can not be imported. Please verify the url.'')] s"

definition watch_fromUrl :: "provider_page \<Rightarrow> provider_page" where
  "watch_fromUrl s = s\<lparr>dp_importUrl := (dp_fromUrl s \<noteq> [])\<rparr>"

definition idp_addProvider :: "string \<Rightarrow> provider_page \<Rightarrow> provider_page" where
  "idp_addProvider i s = dp_do [GoTo (''/create/identity-provider/'' @ dp_realm s @ ''/'' @ i)] s"

definition idp_save :: "provider_page \<Rightarrow> provider_page" where
  "idp_save s =
     (if dp_new s then
        (if \<not> has_alias s then without_alias s
         else dp_do [Request ''POST'' ''IdentityProvider'' [(''realm'', dp_realm s), (''alias'', [])] (Some (dp_provider s))] s)
      else dp_do [Request ''PUT'' ''IdentityProvider'' [(''realm'', dp_realm s), (''alias'', undef_str (id_alias (dp_provider s)))]
             (Some (dp_provider s))] s)"

definition idp_saved :: "provider_page \<Rightarrow> provider_page" where
  "idp_saved s =
     (let a = undef_str (id_alias (dp_provider s)) in
      if dp_new s then
        dp_do [GoTo (''/realms/'' @ dp_realm s @ ''/identity-provider-settings/provider/'' @ id_providerId (dp_provider s) @ ''/'' @ a),
               Notify ''success'' (''The '' @ a @ '' provider has been created.'')] s
      else dp_do [Reload, Notify ''success'' (''The '' @ a @ '' provider has been updated.'')] s)"

definition idp_cancel :: "provider_page \<Rightarrow> provider_page" where
  "idp_cancel s = dp_do [if dp_new s then GoTo (''/realms/'' @ dp_realm s @ ''/identity-provider-settings'') else Reload] s"

definition removeIdentityProvider :: "string \<Rightarrow> provider_page \<Rightarrow> provider_page" where
  "removeIdentityProvider alias s = dp_do [ConfirmDelete alias ''provider''] s"

definition removeIdentityProvider_confirmed :: "string \<Rightarrow> provider_page \<Rightarrow> provider_page" where
  "removeIdentityProvider_confirmed alias s =
     dp_do [Request ''DELETE'' ''IdentityProvider'' [(''realm'', dp_realm s), (''alias'', alias)] None] s"

definition removeIdentityProvider_done :: "bool \<Rightarrow> provider_page \<Rightarrow> provider_page" where
  "removeIdentityProvider_done from_tab s =
     dp_do [if from_tab then GoTo (''/realms/'' @ dp_realm s @ ''/identity-provider-settings'') else Reload,
        Notify ''success'' ''The identity provider has been deleted.''] s"

definition export_suffix :: "string \<Rightarrow> string" where
  "export_suffix type = (if type = ''application/xml'' then ''xml'' else if type = ''application/json'' then ''json'' else ''txt'')"

subsection \<open>Mappers of an identity provider\<close>

record 'a idp_mapper =
  im_id :: "string option"
  im_name :: string
  im_alias :: string
  im_type :: "string option"
  im_config :: 'a

record 'a idp_mapper_page =
  jm_realm :: string
  jm_alias :: string
  jm_mapper :: "'a idp_mapper"
  jm_stored :: "'a idp_mapper"
  jm_changed :: bool
  jm_effects :: "'a idp_mapper option ui_effect list"

definition jm_do :: "'a idp_mapper option ui_effect list \<Rightarrow> 'a idp_mapper_page \<Rightarrow> 'a idp_mapper_page" where
  "jm_do es s = s\<lparr>jm_effects := jm_effects s @ es\<rparr>"

definition jm_url :: "'a idp_mapper_page \<Rightarrow> string \<Rightarrow> string" where
  "jm_url s rest = ''/realms/'' @ jm_realm s @ ''/identity-provider-mappers/'' @ jm_alias s @ ''/mappers'' @ rest"

definition watch_idp_mapper :: "'a idp_mapper_page \<Rightarrow> 'a idp_mapper_page" where
  "watch_idp_mapper s = (if jm_mapper s \<noteq> jm_stored s then s\<lparr>jm_changed := True\<rparr> else s)"

definition idp_mapper_update :: "'a idp_mapper_page \<Rightarrow> 'a idp_mapper_page" where
  "idp_mapper_update s =
     jm_do [Request ''PUT'' ''IdentityProviderMapper''
       [(''realm'', jm_realm s), (''alias'', jm_alias s), (''mapperId'', undef_str (im_id (jm_stored s)))] (Some (jm_mapper s))] s"

definition idp_mapper_updated :: "'a idp_mapper_page \<Rightarrow> 'a idp_mapper_page" where
  "idp_mapper_updated s =
     (let s = s\<lparr>jm_changed := False, jm_stored := jm_mapper s\<rparr> in
      jm_do [GoTo (jm_url s (''/'' @ undef_str (im_id (jm_stored s)))), Notify ''success'' ''Your changes have been saved.''] s)"

definition idp_mapper_reset :: "'a idp_mapper_page \<Rightarrow> 'a idp_mapper_page" where
  "idp_mapper_reset s = s\<lparr>jm_mapper := jm_stored s, jm_changed := False\<rparr>"

definition idp_mapper_remove :: "'a idp_mapper_page \<Rightarrow> 'a idp_mapper_page" where
  "idp_mapper_remove s = jm_do [ConfirmDelete (im_name (jm_mapper s)) ''mapper''] s"

definition idp_mapper_remove_confirmed :: "'a idp_mapper_page \<Rightarrow> 'a idp_mapper_page" where
  "idp_mapper_remove_confirmed s =
     jm_do [Request ''DELETE'' ''IdentityProviderMapper''
       [(''realm'', jm_realm s), (''alias'', im_alias (jm_stored s)), (''mapperId'', undef_str (im_id (jm_mapper s)))] None] s"

definition idp_mapper_removed :: "'a idp_mapper_page \<Rightarrow> 'a idp_mapper_page" where
  "idp_mapper_removed s = jm_do [Notify ''success'' ''The mapper has been deleted.'', GoTo (jm_url s [])] s"

text \<open>A new mapper gets its type on saving; without any type this raises.\<close>

definition idp_mapper_create :: "string option \<Rightarrow> ('a idp_mapper_page, unit) comp" where
  "idp_mapper_create type s =
     (case type of
        None \<Rightarrow> (Throw TypeError, s)
      | Some t \<Rightarrow>
          (let s = s\<lparr>jm_mapper := (jm_mapper s)\<lparr>im_type := Some t\<rparr>\<rparr> in
           (Ok (), jm_do [Request ''POST'' ''IdentityProviderMapper'' [(''realm'', jm_realm s), (''alias'', jm_alias s)] (Some (jm_mapper s))] s)))"

definition idp_mapper_created :: "string \<Rightarrow> 'a idp_mapper_page \<Rightarrow> 'a idp_mapper_page" where
  "idp_mapper_created location s =
     jm_do [GoTo (jm_url s (''/'' @ after_last CHR ''/'' location)), Notify ''success'' ''Mapper has been created.''] s"

subsection \<open>Keys\<close>

record key_entry =
  ke_kid :: string
  ke_providerId :: string
  ke_provider :: "string option"

text \<open>The answer names the provider of every key, the last one found, and finds the active key of every type.\<close>

definition name_providers :: "(string \<times> string) list \<Rightarrow> key_entry list \<Rightarrow> key_entry list" where
  "name_providers data keys =
     map (\<lambda>k. fold (\<lambda>(i, n) k. if ke_providerId k = i then k\<lparr>ke_provider := Some n\<rparr> else k) data k) keys"

definition active_keys :: "(string \<times> string) list \<Rightarrow> key_entry list \<Rightarrow> (string \<times> key_entry) list" where
  "active_keys active keys =
     fold (\<lambda>(t, kid) a. fold (\<lambda>k a. if kid = ke_kid k then AList.update t k a else a) keys a) active []"

record key_property =
  kp_name :: string
  kp_defaultValue :: "string option"

record keystore =
  ks_id :: "string option"
  ks_name :: string
  ks_providerId :: string
  ks_config :: "(string \<times> string option list) list"

record keystore_page =
  kg_realm :: string
  kg_realmId :: string
  kg_create :: bool
  kg_instance :: keystore
  kg_stored :: keystore
  kg_changed :: bool
  kg_effects :: "keystore option ui_effect list"

definition kg_do :: "keystore option ui_effect list \<Rightarrow> keystore_page \<Rightarrow> keystore_page" where
  "kg_do es s = s\<lparr>kg_effects := kg_effects s @ es\<rparr>"

text \<open>A property without a value gets its default. The object to compare with gets it too, but for a property that has no default it gets a
  list with \<open>undefined\<close> where the page gets one with an empty text.\<close>

definition fill_default :: "bool \<Rightarrow> key_property \<Rightarrow> keystore \<times> keystore \<Rightarrow> keystore \<times> keystore" where
  "fill_default create p = (\<lambda>(shown, stored).
     if map_of (ks_config shown) (kp_name p) \<noteq> None then (shown, stored)
     else
       (let v = (if str_truthy (kp_defaultValue p) then kp_defaultValue p else Some []) in
        (shown\<lparr>ks_config := AList.update (kp_name p) [v] (ks_config shown)\<rparr>,
         if create then stored else stored\<lparr>ks_config := AList.update (kp_name p) [kp_defaultValue p] (ks_config stored)\<rparr>)))"

definition keystore_defaults :: "bool \<Rightarrow> key_property list \<Rightarrow> keystore \<times> keystore \<Rightarrow> keystore \<times> keystore" where
  "keystore_defaults create ps = fold (fill_default create) ps"

definition new_keystore :: "string \<Rightarrow> keystore" where
  "new_keystore factory = \<lparr>ks_id = None, ks_name = factory, ks_providerId = factory, ks_config = [(''priority'', [Some ''0''])]\<rparr>"

text \<open>None as the factory is a provider that the server does not know: its id or properties cannot be read.\<close>

definition new_keystore_page :: "string \<Rightarrow> string \<Rightarrow> (string \<times> key_property list) option \<Rightarrow> bool \<Rightarrow> keystore \<Rightarrow> keystore_page res" where
  "new_keystore_page realm realmId factory create stored =
     (case factory of
        None \<Rightarrow> Throw TypeError
      | Some (i, ps) \<Rightarrow>
          (let (shown, stored) = keystore_defaults create ps (if create then new_keystore i else stored, stored) in
           Ok \<lparr>kg_realm = realm, kg_realmId = realmId, kg_create = create, kg_instance = shown, kg_stored = stored, kg_changed = False,
               kg_effects = []\<rparr>))"

definition watch_keystore :: "keystore_page \<Rightarrow> keystore_page" where
  "watch_keystore s = (if kg_instance s \<noteq> kg_stored s then s\<lparr>kg_changed := True\<rparr> else s)"

definition keystore_save :: "keystore_page \<Rightarrow> keystore_page" where
  "keystore_save s =
     (let s = s\<lparr>kg_changed := False\<rparr> in
      if kg_create s then kg_do [Request ''POST'' ''Components'' [(''realm'', kg_realm s)] (Some (kg_instance s))] s
      else kg_do [Request ''PUT'' ''Components'' [(''realm'', kg_realm s), (''componentId'', undef_str (ks_id (kg_stored s)))]
             (Some (kg_instance s))] s)"

definition keystore_saved :: "string \<Rightarrow> keystore_page \<Rightarrow> keystore_page" where
  "keystore_saved location s =
     (if kg_create s then
        kg_do [GoTo (''/realms/'' @ kg_realm s @ ''/keys/providers/'' @ ks_providerId (kg_instance s) @ ''/'' @ after_last CHR ''/'' location),
               Notify ''success'' ''The provider has been created.''] s
      else kg_do [Reload, Notify ''success'' ''The provider has been updated.''] s)"

definition keystore_cancel :: "keystore_page \<Rightarrow> keystore_page" where
  "keystore_cancel s = kg_do [if kg_create s then GoTo (''/realms/'' @ kg_realm s @ ''/keys'') else Reload] s"

subsection \<open>Deleting an identity provider\<close>

text \<open>\<open>IdentityProviderTabCtrl\<close>; \<open>current\<close> is the name of the realm that is shown.\<close>

definition tab_removeIdentityProvider :: "provider_page \<Rightarrow> provider_page" where
  "tab_removeIdentityProvider s = dp_do [ConfirmDelete (undef_str (id_alias (dp_provider s))) ''provider''] s"

definition tab_removeIdentityProvider_confirmed :: "string \<Rightarrow> provider_page \<Rightarrow> provider_page" where
  "tab_removeIdentityProvider_confirmed current s =
     dp_do [Request ''DELETE'' ''IdentityProvider'' [(''realm'', current), (''alias'', undef_str (id_alias (dp_provider s)))] None] s"

definition tab_removeIdentityProvider_done :: "string \<Rightarrow> provider_page \<Rightarrow> provider_page" where
  "tab_removeIdentityProvider_done current s =
     dp_do [GoTo (''/realms/'' @ current @ ''/identity-provider-settings''), Notify ''success'' ''The identity provider has been deleted.''] s"

subsection \<open>Properties\<close>

lemma splice1_prefix: "splice1 (length xs) (xs @ y # ys) = xs @ ys"
  by (simp add: splice1_def)

lemma social_loop_filter:
  "i \<le> length ps \<Longrightarrow> social_loop c i ps = filter (\<lambda>p. \<not> used_social c p) (take i ps) @ drop i ps"
proof (induction i arbitrary: ps)
  case (Suc i)
  let ?y = "ps ! i"
  have i: "i < length ps" using Suc.prems by simp
  have p: "take (Suc i) ps = take i ps @ [?y]" "drop i ps = ?y # drop (Suc i) ps"
    using i by (simp_all add: take_Suc_conv_app_nth Cons_nth_drop_Suc)
  show ?case
  proof (cases "used_social c ?y")
    case True
    have s: "splice1 i ps = take i ps @ drop (Suc i) ps" by (simp add: splice1_def)
    have "social_loop c i (splice1 i ps) = filter (\<lambda>p. \<not> used_social c p) (take i ps) @ drop (Suc i) ps"
      using Suc.IH [of "splice1 i ps"] i by (simp add: s)
    with True p show ?thesis by simp
  next
    case False
    with Suc.IH [of ps] i p show ?thesis by simp
  qed
qed simp

text \<open>The loop that takes configured social providers out of the list while it walks over it leaves exactly the others, in their order:
  providers of other groups, and social ones that are not configured.\<close>

theorem removeUsedSocial_filter:
  "removeUsedSocial configured ps = filter (\<lambda>p. \<not> used_social configured p) ps"
  by (simp add: removeUsedSocial_def social_loop_filter)

text \<open>A stored provider without a flow after the first login counts as changed when its page is shown.\<close>

lemma stored_provider_changed:
  assumes "str_truthy (id_alias p)" and "id_postBrokerLoginFlowAlias p = None"
  shows "dp_changed (watch_provider (new_provider_page realm factory (Some p) all configured))"
proof -
  have "with_post_flow p \<noteq> p"
  proof
    assume "with_post_flow p = p"
    then have "id_postBrokerLoginFlowAlias (with_post_flow p) = None" using assms(2) by simp
    then show False using assms(2) by (simp add: with_post_flow_def str_truthy_def)
  qed
  then show ?thesis using assms(1) by (simp add: watch_provider_def new_provider_page_def is_stored_def)
qed

text \<open>So does the page of a stored key provider that lacks a property without a default.\<close>

lemma stored_keystore_changed:
  assumes "map_of (ks_config stored) (kp_name p) = None" and "kp_defaultValue p = None"
    and "new_keystore_page realm realmId (Some (i, [p])) False stored = Ok s"
  shows "kg_changed (watch_keystore s)"
proof -
  have s: "kg_instance s = stored\<lparr>ks_config := AList.update (kp_name p) [Some []] (ks_config stored)\<rparr>"
    "kg_stored s = stored\<lparr>ks_config := AList.update (kp_name p) [None] (ks_config stored)\<rparr>"
    using assms by (auto simp: new_keystore_page_def keystore_defaults_def fill_default_def str_truthy_def)
  have "kg_instance s \<noteq> kg_stored s"
  proof
    assume "kg_instance s = kg_stored s"
    then have "map_of (ks_config (kg_instance s)) (kp_name p) = map_of (ks_config (kg_stored s)) (kp_name p)" by simp
    then show False by (simp add: s update_conv)
  qed
  then show ?thesis by (simp add: watch_keystore_def)
qed

text \<open>Values that are stored are never replaced by defaults.\<close>

lemma keystore_defaults_keep:
  "map_of (ks_config (fst st)) k = Some v \<Longrightarrow> map_of (ks_config (fst (keystore_defaults create ps st))) k = Some v"
proof (induction ps arbitrary: st)
  case (Cons p ps)
  have "map_of (ks_config (fst (fill_default create p st))) k = Some v"
    using Cons.prems by (cases st) (auto simp: fill_default_def update_conv Let_def)
  then show ?case using Cons.IH [of "fill_default create p st"] by (simp add: keystore_defaults_def)
qed (simp add: keystore_defaults_def)

end
