(* ===== verification/Status_Iframe.thy ===== *)
theory Status_Iframe
  imports Refresh Demo "HOL-Library.Multiset"
begin

section \<open>The page in the session iframe\<close>

text \<open>
  login-status-iframe.html, the page that the server puts into the iframe of keycloak.js: \<open>checkState\<close> (23-66),
  \<open>getCookie\<close> (68-78) and \<open>receiveMessage\<close> (80-98). Windows are numbered. An event is a message from a window, the
  answer to a request, or a change of the cookies by the server. The answer to a request is bound to the message that caused
  the request, as the closures of \<open>checkState\<close> are.

  The last part composes the page with \<open>checkLoginIframe\<close> and \<open>messageCallback\<close> of keycloak.js.
\<close>

record init_request =
  iq_clientId :: string
  iq_origin :: string
  iq_source :: nat

record status_frame =
  sf_href :: string
  sf_cookie :: string
  sf_init :: "(string \<times> string) option"
  sf_pending :: "init_request list"
  sf_urls :: "string list"
  sf_posted :: "(nat \<times> string \<times> string) list"

text \<open>A message as the browser delivers it: the data is None when it is not a string.\<close>

record frame_message =
  fm_source :: nat
  fm_origin :: string
  fm_data :: "string option"

definition new_frame :: "string \<Rightarrow> string \<Rightarrow> status_frame" where
  "new_frame href cookie =
     \<lparr>sf_href = href, sf_cookie = cookie, sf_init = None, sf_pending = [], sf_urls = [], sf_posted = []\<rparr>"

fun find_session :: "string list \<Rightarrow> string option" where
  "find_session [] = None"
| "find_session (x # ca) =
     (let c = trim x; name = ''KEYCLOAK_SESSION='' in
      if index_of c name = Some 0 then Some (substring c (length name) (length c)) else find_session ca)"

definition frame_getCookie :: "status_frame \<Rightarrow> string option" where
  "frame_getCookie s = find_session (split_on CHR '';'' (sf_cookie s))"

definition post_result :: "nat \<Rightarrow> string \<Rightarrow> string \<Rightarrow> status_frame \<Rightarrow> status_frame" where
  "post_result source result origin s = s\<lparr>sf_posted := sf_posted s @ [(source, result, origin)]\<rparr>"

definition init_url :: "string \<Rightarrow> string \<Rightarrow> string \<Rightarrow> string" where
  "init_url href clientId origin =
     hd (split_on CHR ''?'' href) @ ''/init'' @ ''?client_id='' @ encodeURIComponent clientId @ ''&origin='' @ encodeURIComponent origin"

text \<open>\<open>c[2]\<close> is undefined when the cookie has fewer than three parts, and then no session state equals it.\<close>

definition cookie_session :: "string \<Rightarrow> string option" where
  "cookie_session cookie = (let c = split_on CHR ''/'' cookie in if 2 < length c then Some (c ! 2) else None)"

definition checkState :: "string \<Rightarrow> string \<Rightarrow> string \<Rightarrow> nat \<Rightarrow> status_frame \<Rightarrow> status_frame" where
  "checkState clientId origin sessionState source s =
     (let cookie = frame_getCookie s in
      if \<not> str_truthy cookie then post_result source ''changed'' origin s
      else (case sf_init s of
              None \<Rightarrow>
                s\<lparr>sf_pending := sf_pending s @ [\<lparr>iq_clientId = clientId, iq_origin = origin, iq_source = source\<rparr>],
                  sf_urls := sf_urls s @ [init_url (sf_href s) clientId origin]\<rparr>
            | Some i \<Rightarrow>
                if clientId = fst i \<and> origin = snd i then
                  (if Some sessionState = cookie_session (undef_str cookie) then post_result source ''unchanged'' origin s
                   else post_result source ''changed'' origin s)
                else post_result source ''error'' origin s))"

definition init_answered :: "init_request \<Rightarrow> nat \<Rightarrow> status_frame \<Rightarrow> status_frame" where
  "init_answered q status s =
     (if status = 204 \<or> status = 1223 then
        post_result (iq_source q) ''unchanged'' (iq_origin q) (s\<lparr>sf_init := Some (iq_clientId q, iq_origin q)\<rparr>)
      else if status = 404 then post_result (iq_source q) ''changed'' (iq_origin q) s
      else post_result (iq_source q) ''error'' (iq_origin q) s)"

definition receiveMessage :: "frame_message \<Rightarrow> status_frame \<Rightarrow> status_frame" where
  "receiveMessage m s =
     (case fm_data m of
        None \<Rightarrow> s
      | Some d \<Rightarrow>
          (let data = split_on CHR '' '' d in
           if length data \<noteq> 2 then s else checkState (data ! 0) (fm_origin m) (data ! 1) (fm_source m) s))"

subsection \<open>Runs of the page\<close>

datatype frame_event =
    Received frame_message
  | Answered nat nat
  | CookieSet string

fun frame_step :: "frame_event \<Rightarrow> status_frame \<Rightarrow> status_frame" where
  "frame_step (Received m) s = receiveMessage m s"
| "frame_step (Answered i status) s =
     (if i < length (sf_pending s)
      then init_answered (sf_pending s ! i) status (s\<lparr>sf_pending := take i (sf_pending s) @ drop (Suc i) (sf_pending s)\<rparr>)
      else s)"
| "frame_step (CookieSet c) s = s\<lparr>sf_cookie := c\<rparr>"

definition frame_run :: "frame_event list \<Rightarrow> status_frame \<Rightarrow> status_frame" where
  "frame_run evs s = fold frame_step evs s"

subsection \<open>Every question is answered once\<close>

text \<open>The questions of a run: where the messages of two words came from.\<close>

definition is_question :: "frame_message \<Rightarrow> bool" where
  "is_question m \<longleftrightarrow> (case fm_data m of None \<Rightarrow> False | Some d \<Rightarrow> length (split_on CHR '' '' d) = 2)"

fun questions :: "frame_event list \<Rightarrow> (nat \<times> string) list" where
  "questions [] = []"
| "questions (Received m # evs) = (if is_question m then (fm_source m, fm_origin m) # questions evs else questions evs)"
| "questions (_ # evs) = questions evs"

definition answers :: "status_frame \<Rightarrow> (nat \<times> string) multiset" where
  "answers s = mset (map (\<lambda>(source, result, origin). (source, origin)) (sf_posted s))"

definition waiting :: "status_frame \<Rightarrow> (nat \<times> string) multiset" where
  "waiting s = mset (map (\<lambda>q. (iq_source q, iq_origin q)) (sf_pending s))"

lemma answers_post [simp]:
  "answers (post_result src r o1 s) = add_mset (src, o1) (answers s)" "waiting (post_result src r o1 s) = waiting s"
  "sf_init (post_result src r o1 s) = sf_init s" "sf_pending (post_result src r o1 s) = sf_pending s"
  by (simp_all add: answers_def waiting_def post_result_def)

lemma receive_balance:
  "answers (receiveMessage m s) + waiting (receiveMessage m s) =
     answers s + waiting s + (if is_question m then {#(fm_source m, fm_origin m)#} else {#})"
  by (auto simp: receiveMessage_def is_question_def checkState_def Let_def answers_def waiting_def post_result_def split: option.split)

lemma mset_without_nth: "i < length xs \<Longrightarrow> mset xs = add_mset (xs ! i) (mset (take i xs @ drop (Suc i) xs))"
  by (metis add_mset_add_single id_take_nth_drop mset.simps(2) mset_append union_mset_add_mset_right)

lemma answered_balance:
  "answers (frame_step (Answered i st) s) + waiting (frame_step (Answered i st) s) = answers s + waiting s"
proof (cases "i < length (sf_pending s)")
  case True
  let ?s = "s\<lparr>sf_pending := take i (sf_pending s) @ drop (Suc i) (sf_pending s)\<rparr>" and ?q = "sf_pending s ! i"
  have "waiting s = add_mset (iq_source ?q, iq_origin ?q) (waiting ?s)"
    using arg_cong [OF mset_without_nth [OF True], of "image_mset (\<lambda>q. (iq_source q, iq_origin q))"]
    by (simp add: waiting_def take_map drop_map)
  moreover have "answers ?s = answers s" "answers (t\<lparr>sf_init := x\<rparr>) = answers t" "waiting (t\<lparr>sf_init := x\<rparr>) = waiting t" for t x
    by (simp_all add: answers_def waiting_def)
  ultimately show ?thesis using True by (auto simp: init_answered_def)
qed simp

lemma run_balance: "answers (frame_run evs s) + waiting (frame_run evs s) = answers s + waiting s + mset (questions evs)"
proof (induction evs arbitrary: s)
  case Nil
  then show ?case by (simp add: frame_run_def)
next
  case (Cons e evs)
  have "answers (frame_step e s) + waiting (frame_step e s) + mset (questions evs) =
      answers s + waiting s + mset (questions (e # evs))"
  proof (cases e)
    case (Answered i st)
    then show ?thesis using answered_balance [of i st s] by simp
  next
    case (Received m)
    then show ?thesis by (simp add: receive_balance)
  next
    case (CookieSet c)
    then show ?thesis by (simp add: answers_def waiting_def)
  qed
  then show ?case using Cons.IH [of "frame_step e s"] by (simp add: frame_run_def)
qed

text \<open>C38. The page in the session iframe answers every question once and only to the window and the origin that asked: in any
  run, the questions received so far are those answered and those whose request to the server is open, each as often as it was
  asked.\<close>

theorem frame_answers_once:
  "answers (frame_run evs (new_frame href cookie)) + waiting (frame_run evs (new_frame href cookie)) = mset (questions evs)"
  using run_balance [of evs "new_frame href cookie"] by (simp add: new_frame_def answers_def waiting_def)

subsection \<open>Who is registered\<close>

definition confirmed :: "nat \<Rightarrow> bool" where
  "confirmed status \<longleftrightarrow> status = 204 \<or> status = 1223"

lemma init_answered_init:
  "sf_init (init_answered q status s) = (if confirmed status then Some (iq_clientId q, iq_origin q) else sf_init s)"
  by (simp add: init_answered_def confirmed_def)

lemma receive_init [simp]: "sf_init (receiveMessage m s) = sf_init s"
  by (auto simp: receiveMessage_def checkState_def Let_def split: option.split)

text \<open>The page trusts a client and an origin only after the server confirmed them: there is a request for this client and
  this origin that the server answered with success.\<close>

theorem frame_init_confirmed:
  assumes "sf_init (frame_run evs (new_frame href cookie)) = Some (clientId, origin)"
  shows "\<exists>before after i status source.
    evs = before @ Answered i status # after \<and> confirmed status \<and>
    i < length (sf_pending (frame_run before (new_frame href cookie))) \<and>
    sf_pending (frame_run before (new_frame href cookie)) ! i =
      \<lparr>iq_clientId = clientId, iq_origin = origin, iq_source = source\<rparr>"
  using assms
proof (induction evs rule: rev_induct)
  case Nil
  then show ?case by (simp add: frame_run_def new_frame_def)
next
  case (snoc e evs)
  let ?s = "frame_run evs (new_frame href cookie)"
  have step: "frame_run (evs @ [e]) (new_frame href cookie) = frame_step e ?s" by (simp add: frame_run_def)
  show ?case
  proof (cases "sf_init (frame_step e ?s) = sf_init ?s")
    case True
    with snoc step obtain before after i status source where "evs = before @ Answered i status # after \<and> confirmed status \<and>
        i < length (sf_pending (frame_run before (new_frame href cookie))) \<and>
        sf_pending (frame_run before (new_frame href cookie)) ! i =
          \<lparr>iq_clientId = clientId, iq_origin = origin, iq_source = source\<rparr>" by auto
    then show ?thesis by (intro exI [of _ before] exI [of _ "after @ [e]"]) auto
  next
    case False
    then obtain i status where e: "e = Answered i status" "i < length (sf_pending ?s)" "confirmed status"
      by (cases e) (auto simp: init_answered_init split: if_splits)
    then have "iq_clientId (sf_pending ?s ! i) = clientId" "iq_origin (sf_pending ?s ! i) = origin"
      using snoc.prems step by (simp_all add: init_answered_init)
    then have "sf_pending ?s ! i = \<lparr>iq_clientId = clientId, iq_origin = origin, iq_source = iq_source (sf_pending ?s ! i)\<rparr>"
      by (cases "sf_pending ?s ! i") simp
    with e show ?thesis by blast
  qed
qed

subsection \<open>With the adapter\<close>

text \<open>A check of keycloak.js with its page in the iframe. \<open>postMessage\<close> delivers a message when the target origin is that of
  the receiving window: \<open>u\<close> is the origin of the iframe, \<open>app\<close> that of the page with keycloak.js, whose window is \<open>me\<close>.\<close>

definition to_frame :: "string \<Rightarrow> string \<Rightarrow> nat \<Rightarrow> effect \<Rightarrow> status_frame \<Rightarrow> status_frame" where
  "to_frame u app me e s =
     (case e of
        PostMessage msg target \<Rightarrow>
          if target = u then receiveMessage \<lparr>fm_source = me, fm_origin = app, fm_data = Some msg\<rparr> s else s
      | _ \<Rightarrow> s)"

definition to_adapter :: "string \<Rightarrow> string \<Rightarrow> nat \<Rightarrow> nat \<times> string \<times> string \<Rightarrow> world \<Rightarrow> world" where
  "to_adapter u app me a w =
     (case a of (source, result, target) \<Rightarrow>
        if source = me \<and> target = app then snd (messageCallback u True result w) else w)"

definition check_exchange :: "string \<Rightarrow> string \<Rightarrow> nat \<Rightarrow> world \<Rightarrow> status_frame \<Rightarrow> world \<times> status_frame" where
  "check_exchange u app me w s =
     (let w1 = snd (checkLoginIframe w);
          s1 = fold (to_frame u app me) (drop (length (w_log w)) (w_log w1)) s in
      (fold (to_adapter u app me) (drop (length (sf_posted s)) (sf_posted s1)) w1, s1))"

definition sent_check :: "world \<Rightarrow> world" where
  "sent_check w = snd (checkLoginIframe w)"

lemma checkLoginIframe_first:
  assumes "iframe_ready u w" and "li_callbackList (w_iframe w) = []"
  shows "w_log (sent_check w) =
      w_log w @ [PostMessage (undef_str (kc_clientId (w_kc w)) @ '' '' @ json_text (kc_sessionId (w_kc w))) u]"
    and "w_kc (sent_check w) = w_kc w"
    and "li_callbackList (w_iframe (sent_check w)) = [length (w_promises w)]"
    and "li_iframeOrigin (w_iframe (sent_check w)) = Some u"
    and "promise_pending (length (w_promises w)) (sent_check w)"
    and "fst (checkLoginIframe w) = length (w_promises w)"
    and "w_adapter (sent_check w) = w_adapter w \<and> w_backend (sent_check w) = w_backend w"
  using assms
  by (simp_all add: sent_check_def checkLoginIframe_def iframe_ready_def new_promise_def upd_iframe_def emit_def Let_def str_truthy_def
      undef_str_def promise_pending_def createNativePromise_def)

lemma receive_two_words:
  assumes "CHR '' '' \<notin> set c" and "CHR '' '' \<notin> set x"
  shows "receiveMessage \<lparr>fm_source = me, fm_origin = app, fm_data = Some (c @ '' '' @ x)\<rparr> s = checkState c app x me s"
  using assms by (simp add: receiveMessage_def split_on_append split_on_free)

text \<open>The answer to a registered client.\<close>

definition session_answer :: "string option \<Rightarrow> string \<Rightarrow> string" where
  "session_answer cookie sessionState =
     (if str_truthy cookie \<and> cookie_session (undef_str cookie) = Some sessionState then ''unchanged'' else ''changed'')"

lemma checkState_registered:
  "sf_init s = Some (c, app) \<Longrightarrow> checkState c app x me s = post_result me (session_answer (frame_getCookie s) x) app s"
  by (auto simp: checkState_def session_answer_def Let_def)

lemma check_exchange_registered:
  assumes "iframe_ready u w" and "li_callbackList (w_iframe w) = []"
    and "kc_clientId (w_kc w) = Some c" and "kc_sessionId (w_kc w) = Some (JStr sid)"
    and "CHR '' '' \<notin> set c" and "CHR '' '' \<notin> set sid" and "sf_init s = Some (c, app)"
  shows "fst (check_exchange u app me w s) = snd (messageCallback u True (session_answer (frame_getCookie s) sid) (sent_check w))"
proof -
  have "w_log (sent_check w) = w_log w @ [PostMessage (c @ '' '' @ sid) u]"
    using checkLoginIframe_first(1) [OF assms(1,2)] assms(3,4) by (simp add: undef_str_def json_text_def json_str_def)
  then show ?thesis
    using assms(5-7) unfolding check_exchange_def sent_check_def [symmetric]
    by (simp add: Let_def to_frame_def to_adapter_def receive_two_words [simplified] checkState_registered post_result_def)
qed

text \<open>C17. The adapter and the page in its iframe notice together that the session changed. The adapter is signed in with a token that names its session, the iframe
  is up and no other check is waiting for an answer; neither the client id nor the session id has a blank in it; the page in the iframe
  has registered this client and the origin of the application; and where a login is required, \<open>init\<close> has finished. Then a check of the
  session is answered: it keeps the user signed in, and fulfils its promise, exactly when the session of the server's cookie is the one
  of the adapter's tokens; with another session, or without the cookie, the tokens are dropped and the promise is rejected, and where a
  login is required a new one is started.\<close>

theorem session_change_noticed:
  assumes "iframe_ready u w" and "li_callbackList (w_iframe w) = []"
    and "kc_clientId (w_kc w) = Some c" and "kc_sessionId (w_kc w) = Some (JStr sid)"
    and "CHR '' '' \<notin> set c" and "CHR '' '' \<notin> set sid" and "sf_init s = Some (c, app)"
    and "str_truthy (kc_token (w_kc w))" and "kc_loginRequired (w_kc w) \<Longrightarrow> initialised w"
  shows "let w' = fst (check_exchange u app me w s); p = fst (checkLoginIframe w) in
    li_callbackList (w_iframe w') = [] \<and>
    (if str_truthy (frame_getCookie s) \<and> cookie_session (undef_str (frame_getCookie s)) = Some sid
     then w_kc w' = w_kc w \<and> promise_status p w' = Fulfilled VUndef
     else kc_token (w_kc w') = None \<and> kc_authenticated (w_kc w') = False \<and> kc_refreshToken (w_kc w') = None \<and>
       promise_status p w' = Rejected VUndef \<and>
       (kc_loginRequired (w_kc w) \<longrightarrow> (\<exists>q w2. kc_login None (signed_out (sent_check w)) = (Ok q, w2) \<and> w_log w' = w_log w2)))"
proof -
  let ?r = "session_answer (frame_getCookie s) sid" and ?w1 = "sent_check w"
  note first = checkLoginIframe_first [OF assms(1,2)]
  have "kc_loginRequired (w_kc ?w1) \<Longrightarrow> initialised ?w1" using assms(9) first(2,7) by (simp add: initialised_def)
  then obtain w2 qs where clear: "clearToken ?w1 = (Ok (), w2)" "w_promises w2 = w_promises ?w1 @ qs"
    "w_kc w2 = w_kc (signed_out ?w1)" "w_iframe w2 = w_iframe ?w1"
    "kc_loginRequired (w_kc w) \<longrightarrow> (\<exists>q. kc_login None (signed_out ?w1) = (Ok q, w2))"
    using clearToken_returns [of ?w1] assms(8) first(2) by auto
  have m: "messageCallback u True ?r ?w1 =
    (Ok (), settle_rev (\<lambda>p. if ?r = ''unchanged'' then setSuccess p VUndef else setError p VUndef)
       (li_callbackList (w_iframe ?w1)) (upd_iframe (\<lambda>l. l\<lparr>li_callbackList := []\<rparr>) (if ?r = ''unchanged'' then ?w1 else w2)))"
    using first(4) clear(1,4) by (intro messageCallback_answer) (auto simp: session_answer_def)
  have "promise_pending (length (w_promises w)) w2"
    using promise_appended(2) [OF clear(2), of "length (w_promises w)"] first(5) by (simp add: promise_pending_def)
  then show ?thesis
    using first clear(3-5) m check_exchange_registered [OF assms(1-7), of me] signed_out_kc [of ?w1]
    by (auto simp: session_answer_def Let_def settle_rev_fields settle_rev_status upd_iframe_def promise_pending_def)
qed

text \<open>A signed-in page that requires a login.\<close>

definition demo_watched :: world where
  "demo_watched = demo_page\<lparr>w_iframe := (w_iframe demo_page)\<lparr>li_iframe := Some 0, li_iframeOrigin := Some ''https://kc'', li_callbackList := []\<rparr>,
     w_kc := (w_kc demo_page)\<lparr>kc_clientId := Some ''app'', kc_sessionId := Some (JStr ''s1''), kc_token := Some ''t'', kc_loginRequired := True\<rparr>\<rparr>"

definition demo_frame :: status_frame where
  "demo_frame = (new_frame ''https://kc/status.html'' ''a=b; KEYCLOAK_SESSION=demo/u1/s2'')\<lparr>sf_init := Some (''app'', ''https://app'')\<rparr>"

theorem session_change_noticed_witness:
  "kc_token (w_kc (fst (check_exchange ''https://kc'' ''https://app'' 7 demo_watched demo_frame))) = None \<and>
   promise_status (fst (checkLoginIframe demo_watched)) (fst (check_exchange ''https://kc'' ''https://app'' 7 demo_watched demo_frame)) =
     Rejected VUndef"
proof -
  have c: "frame_getCookie demo_frame = Some ''demo/u1/s2''" "cookie_session ''demo/u1/s2'' = Some ''s2''" by code_simp+
  have w: "iframe_ready ''https://kc'' demo_watched" "li_callbackList (w_iframe demo_watched) = []"
    "kc_clientId (w_kc demo_watched) = Some ''app''" "kc_sessionId (w_kc demo_watched) = Some (JStr ''s1'')"
    "str_truthy (kc_token (w_kc demo_watched))" "kc_loginRequired (w_kc demo_watched) \<Longrightarrow> initialised demo_watched"
    "sf_init demo_frame = Some (''app'', ''https://app'')"
    by (simp_all add: iframe_ready_def initialised_def demo_watched_def demo_frame_def demo_page_def str_truthy_def)
  show ?thesis
    using session_change_noticed [OF w(1-4) _ _ w(7,5,6), of 7] c by (simp add: Let_def undef_str_def)
qed

lemma length_split_on: "length (split_on c s) = Suc (length (filter ((=) c) s))"
  by (induction c s rule: split_on.induct) (auto split: list.splits)

text \<open>The checks of the timer, one after the other.\<close>

fun check_rounds :: "string \<Rightarrow> string \<Rightarrow> nat \<Rightarrow> nat \<Rightarrow> world \<Rightarrow> status_frame \<Rightarrow> world \<times> status_frame" where
  "check_rounds u app me 0 w s = (w, s)"
| "check_rounds u app me (Suc n) w s = (case check_exchange u app me w s of (w, s) \<Rightarrow> check_rounds u app me n w s)"

lemma blank_message_ignored:
  assumes "CHR '' '' \<in> set c"
  shows "receiveMessage \<lparr>fm_source = me, fm_origin = app, fm_data = Some (c @ '' '' @ x)\<rparr> s = s"
proof -
  have "filter ((=) CHR '' '') c \<noteq> []" using assms by (auto simp: filter_empty_conv)
  then show ?thesis by (simp add: receiveMessage_def length_split_on)
qed

lemma check_exchange_blank:
  assumes "iframe_ready u w" and "kc_clientId (w_kc w) = Some c" and "CHR '' '' \<in> set c"
    and "\<forall>p \<in> set (li_callbackList (w_iframe w)). promise_pending p w"
  shows "\<exists>w'. check_exchange u app me w s = (w', s) \<and> iframe_ready u w' \<and> w_kc w' = w_kc w \<and>
    length (li_callbackList (w_iframe w')) = Suc (length (li_callbackList (w_iframe w))) \<and>
    (\<forall>p \<in> set (li_callbackList (w_iframe w')). promise_pending p w')"
  using assms
  by (auto simp: check_exchange_def checkLoginIframe_def iframe_ready_def new_promise_def upd_iframe_def emit_def Let_def str_truthy_def
      undef_str_def promise_pending_def createNativePromise_def to_frame_def blank_message_ignored [simplified] nth_append)

text \<open>The message of a check is the client id, a blank and the session, and the page only reads messages of two words. With a blank
  in the client id no check is ever answered: each of them leaves its promise pending, and the page as it was.\<close>

theorem blank_client_unanswered:
  assumes "iframe_ready u w" and "li_callbackList (w_iframe w) = []"
    and "kc_clientId (w_kc w) = Some c" and "CHR '' '' \<in> set c"
  shows "case check_rounds u app me n w s of (w', s') \<Rightarrow>
    s' = s \<and> length (li_callbackList (w_iframe w')) = n \<and>
    (\<forall>p \<in> set (li_callbackList (w_iframe w')). promise_pending p w')"
proof -
  have "case check_rounds u app me n w s of (w', s') \<Rightarrow>
      s' = s \<and> length (li_callbackList (w_iframe w')) = n + length (li_callbackList (w_iframe w)) \<and>
      (\<forall>p \<in> set (li_callbackList (w_iframe w')). promise_pending p w')"
    if "iframe_ready u w" "kc_clientId (w_kc w) = Some c" "\<forall>p \<in> set (li_callbackList (w_iframe w)). promise_pending p w" for w
    using that
  proof (induction n arbitrary: w)
    case (Suc n)
    obtain w' where w': "check_exchange u app me w s = (w', s)" "iframe_ready u w'" "w_kc w' = w_kc w"
      "length (li_callbackList (w_iframe w')) = Suc (length (li_callbackList (w_iframe w)))"
      "\<forall>p \<in> set (li_callbackList (w_iframe w')). promise_pending p w'"
      using check_exchange_blank [OF Suc.prems(1,2) assms(4) Suc.prems(3)] by blast
    show ?case using Suc.IH [OF w'(2) _ w'(5)] w'(1,3,4) Suc.prems(2) by simp
  qed simp
  from this [OF assms(1,3)] show ?thesis using assms(2) by simp
qed

end
