(* ===== verification/Scope_Mappings.thy ===== *)
theory Scope_Mappings
  imports Console Resources
begin

section \<open>The admin console: scope mappings of clients and client scopes\<close>

text \<open>
  controllers/clients.js \<open>ClientScopeMappingCtrl\<close> (1508-1609) and \<open>ClientScopeScopeMappingCtrl\<close> (2888-2969): the roles that
  the tokens of a client, or of a client scope, may hold. The second controller is the first without the switch for the full
  scope, with other resources. The page has six lists; as in theory Mappings, a list is the array that a query returned, filled
  when its answer arrives, and the scope holds the number of the array (None is \<open>undefined\<close> or \<open>null\<close>). Entries are role ids.
  URLs are given without \<open>authUrl\<close>.
\<close>

subsection \<open>State\<close>

datatype scope_owner = OfClient | OfClientScope

datatype scope_slot = RealmRoles | RealmAssigned | RealmEffective | ClientRoles | ClientAssigned | ClientEffective

record scoped_client =
  tc_id :: string
  tc_fullScopeAllowed :: bool
  tc_other :: "(string \<times> string) list"

datatype scope_payload = Roles "string list" | SentClient scoped_client

record scope_query =
  sq_resource :: resource
  sq_params :: "(string \<times> string) list"

record scope_mapping_page =
  sm_kind :: scope_owner
  sm_realm :: string
  sm_stored :: scoped_client
  sm_client :: scoped_client
  sm_changed :: bool
  sm_arrays :: "string list list"
  sm_queries :: "(nat \<times> scope_query) list"
  sm_slot :: "scope_slot \<Rightarrow> nat option"
  sm_selectedRealmRoles :: "string list"
  sm_selectedRealmMappings :: "string list"
  sm_selectedClientRoles :: "string list"
  sm_selectedClientMappings :: "string list"
  sm_targetClient :: "string option"
  sm_effects :: "scope_payload ui_effect list"

definition sm_do :: "scope_payload ui_effect \<Rightarrow> scope_mapping_page \<Rightarrow> scope_mapping_page" where
  "sm_do e s = s\<lparr>sm_effects := sm_effects s @ [e]\<rparr>"

subsection \<open>Queries\<close>

fun slot_resource :: "scope_owner \<Rightarrow> scope_slot \<Rightarrow> resource" where
  "slot_resource OfClient RealmRoles = ClientAvailableRealmScopeMapping"
| "slot_resource OfClient RealmAssigned = ClientRealmScopeMapping"
| "slot_resource OfClient RealmEffective = ClientCompositeRealmScopeMapping"
| "slot_resource OfClient ClientRoles = ClientAvailableClientScopeMapping"
| "slot_resource OfClient ClientAssigned = ClientClientScopeMapping"
| "slot_resource OfClient ClientEffective = ClientCompositeClientScopeMapping"
| "slot_resource OfClientScope RealmRoles = ClientScopeAvailableRealmScopeMapping"
| "slot_resource OfClientScope RealmAssigned = ClientScopeRealmScopeMapping"
| "slot_resource OfClientScope RealmEffective = ClientScopeCompositeRealmScopeMapping"
| "slot_resource OfClientScope ClientRoles = ClientScopeAvailableClientScopeMapping"
| "slot_resource OfClientScope ClientAssigned = ClientScopeClientScopeMapping"
| "slot_resource OfClientScope ClientEffective = ClientScopeCompositeClientScopeMapping"

definition scope_owner_params :: "scope_owner \<Rightarrow> string \<Rightarrow> string \<Rightarrow> (string \<times> string) list" where
  "scope_owner_params k realm i =
     [(''realm'', realm), (case k of OfClient \<Rightarrow> ''client'' | OfClientScope \<Rightarrow> ''clientScope'', i)]"

definition slot_request :: "scope_slot \<Rightarrow> (string \<times> string) list \<Rightarrow> scope_mapping_page \<Rightarrow> scope_query" where
  "slot_request slot target s =
     \<lparr>sq_resource = slot_resource (sm_kind s) slot,
      sq_params = scope_owner_params (sm_kind s) (sm_realm s) (tc_id (sm_stored s)) @ target\<rparr>"

definition load_slot :: "(string \<times> string) list \<Rightarrow> scope_slot \<Rightarrow> scope_mapping_page \<Rightarrow> scope_mapping_page" where
  "load_slot target slot s =
     (let i = length (sm_arrays s) in
      s\<lparr>sm_arrays := sm_arrays s @ [[]], sm_queries := sm_queries s @ [(i, slot_request slot target s)],
        sm_slot := (sm_slot s)(slot := Some i)\<rparr>)"

definition slot_answer :: "nat \<Rightarrow> string list \<Rightarrow> scope_mapping_page \<Rightarrow> scope_mapping_page" where
  "slot_answer i roles s = s\<lparr>sm_arrays := (sm_arrays s)[i := roles]\<rparr>"

definition updateRealmRoles :: "scope_mapping_page \<Rightarrow> scope_mapping_page" where
  "updateRealmRoles s = fold (load_slot []) [RealmRoles, RealmAssigned, RealmEffective] s"

definition updateClientRoles :: "scope_mapping_page \<Rightarrow> scope_mapping_page" where
  "updateClientRoles s =
     (case sm_targetClient s of
        Some t \<Rightarrow> fold (load_slot [(''targetClient'', t)]) [ClientRoles, ClientAssigned, ClientEffective] s
      | None \<Rightarrow> s\<lparr>sm_slot := (sm_slot s)(ClientRoles := None, ClientAssigned := None, ClientEffective := None)\<rparr>)"

definition new_scope_mappings :: "scope_owner \<Rightarrow> string \<Rightarrow> scoped_client \<Rightarrow> scope_mapping_page" where
  "new_scope_mappings k realm c =
     updateRealmRoles \<lparr>sm_kind = k, sm_realm = realm, sm_stored = c, sm_client = c, sm_changed = False,
       sm_arrays = [[], [], [], []], sm_queries = [],
       sm_slot = (\<lambda>_. None)(RealmAssigned := Some 0, ClientRoles := Some 1, ClientEffective := Some 2, ClientAssigned := Some 3),
       sm_selectedRealmRoles = [], sm_selectedRealmMappings = [], sm_selectedClientRoles = [], sm_selectedClientMappings = [],
       sm_targetClient = None, sm_effects = []\<rparr>"

subsection \<open>Operations\<close>

definition hideRoleSelector :: "scope_mapping_page \<Rightarrow> bool" where
  "hideRoleSelector s = tc_fullScopeAllowed (sm_client s)"

definition changeFlag :: "scope_mapping_page \<Rightarrow> scope_mapping_page" where
  "changeFlag s =
     sm_do (Request ''PUT'' ''Client'' [(''realm'', sm_realm s), (''client'', tc_id (sm_stored s))] (SentClient (sm_client s))) s"

definition mapping_updated :: "scope_mapping_page \<Rightarrow> scope_mapping_page" where
  "mapping_updated s = sm_do (Notify ''success'' ''Scope mappings updated.'') s"

definition changeFlag_done :: "scope_mapping_page \<Rightarrow> scope_mapping_page" where
  "changeFlag_done s = mapping_updated (updateRealmRoles (s\<lparr>sm_changed := False, sm_stored := sm_client s\<rparr>))"

definition sm_changeClient :: "scope_mapping_page \<Rightarrow> scope_mapping_page" where
  "sm_changeClient s = updateClientRoles s"

definition scope_mappings_url :: "scope_mapping_page \<Rightarrow> string" where
  "scope_mappings_url s =
     ''/admin/realms/'' @ sm_realm s @ (case sm_kind s of OfClient \<Rightarrow> ''/clients/'' | OfClientScope \<Rightarrow> ''/client-scopes/'')
     @ tc_id (sm_stored s) @ ''/scope-mappings/''"

definition sm_addRealmRole :: "scope_mapping_page \<Rightarrow> scope_mapping_page" where
  "sm_addRealmRole s =
     (let roles = sm_selectedRealmRoles s; s = s\<lparr>sm_selectedRealmRoles := []\<rparr> in
      sm_do (Request ''POST'' (scope_mappings_url s @ ''realm'') [] (Roles roles)) s)"

definition sm_deleteRealmRole :: "scope_mapping_page \<Rightarrow> scope_mapping_page" where
  "sm_deleteRealmRole s =
     (let roles = sm_selectedRealmMappings s; s = s\<lparr>sm_selectedRealmMappings := []\<rparr> in
      sm_do (Request ''DELETE'' (scope_mappings_url s @ ''realm'') [] (Roles roles)) s)"

definition scope_realm_changed :: "scope_mapping_page \<Rightarrow> scope_mapping_page" where
  "scope_realm_changed s = mapping_updated (updateRealmRoles s)"

text \<open>Without a target client reading its id is a TypeError; the selection is empty by then.\<close>

definition sm_addClientRole :: "(scope_mapping_page, unit) comp" where
  "sm_addClientRole s =
     (let roles = sm_selectedClientRoles s; s = s\<lparr>sm_selectedClientRoles := []\<rparr> in
      case sm_targetClient s of
        None \<Rightarrow> (Throw TypeError, s)
      | Some t \<Rightarrow> (Ok (), sm_do (Request ''POST'' (scope_mappings_url s @ ''clients/'' @ t) [] (Roles roles)) s))"

definition sm_deleteClientRole :: "(scope_mapping_page, unit) comp" where
  "sm_deleteClientRole s =
     (let roles = sm_selectedClientMappings s; s = s\<lparr>sm_selectedClientMappings := []\<rparr> in
      case sm_targetClient s of
        None \<Rightarrow> (Throw TypeError, s)
      | Some t \<Rightarrow> (Ok (), sm_do (Request ''DELETE'' (scope_mappings_url s @ ''clients/'' @ t) [] (Roles roles)) s))"

definition scope_client_changed :: "scope_mapping_page \<Rightarrow> scope_mapping_page" where
  "scope_client_changed s = mapping_updated (updateClientRoles s)"

subsection \<open>Steps\<close>

text \<open>The page of a client scope has no switch, so that its steps are those without \<open>flag\<close> and \<open>flag_done\<close>.\<close>

inductive scope_map_step :: "scope_mapping_page \<Rightarrow> scope_mapping_page \<Rightarrow> bool" where
  pick: "scope_map_step s (s\<lparr>sm_selectedRealmRoles := a, sm_selectedRealmMappings := b, sm_selectedClientRoles := c,
      sm_selectedClientMappings := d\<rparr>)"
| answer: "(i, q) \<in> set (sm_queries s) \<Longrightarrow> scope_map_step s (slot_answer i roles s)"
| flag: "sm_kind s = OfClient \<Longrightarrow>
    scope_map_step s (changeFlag (s\<lparr>sm_client := (sm_client s)\<lparr>tc_fullScopeAllowed := b\<rparr>\<rparr>))"
| flag_done: "sm_kind s = OfClient \<Longrightarrow> scope_map_step s (changeFlag_done s)"
| add_realm: "scope_map_step s (sm_addRealmRole s)"
| delete_realm: "scope_map_step s (sm_deleteRealmRole s)"
| realm_done: "scope_map_step s (scope_realm_changed s)"
| add_client: "scope_map_step s (snd (sm_addClientRole s))"
| delete_client: "scope_map_step s (snd (sm_deleteClientRole s))"
| client_done: "scope_map_step s (scope_client_changed s)"
| change_client: "scope_map_step s (sm_changeClient (s\<lparr>sm_targetClient := t\<rparr>))"

inductive scope_reachable :: "scope_owner \<Rightarrow> string \<Rightarrow> scoped_client \<Rightarrow> scope_mapping_page \<Rightarrow> bool" for k realm c where
  start: "scope_reachable k realm c (new_scope_mappings k realm c)"
| step: "scope_reachable k realm c s \<Longrightarrow> scope_map_step s s' \<Longrightarrow> scope_reachable k realm c s'"

subsection \<open>What the lists show\<close>

text \<open>The URL that a template and its parameters denote, for values that need no encoding.\<close>

function expand :: "(string \<Rightarrow> string) \<Rightarrow> string \<Rightarrow> string" where
  "expand f [] = []"
| "expand f (c # s) = (if c = CHR '':'' then f (takeWhile word_char s) @ expand f (dropWhile word_char s) else c # expand f s)"
  by pat_completeness auto
termination
  by (relation "measure (\<lambda>(f, s). length s)") (auto simp: less_Suc_eq_le length_dropWhile_le)

definition param :: "(string \<times> string) list \<Rightarrow> string \<Rightarrow> string" where
  "param ps n = undef_str (map_of ps n)"

definition query_url :: "scope_query \<Rightarrow> string" where
  "query_url q = expand (param (sq_params q)) (rs_url (sq_resource q))"

text \<open>The ending of the template of each list.\<close>

fun slot_suffix :: "scope_slot \<Rightarrow> string" where
  "slot_suffix RealmRoles = ''/available''"
| "slot_suffix ClientRoles = ''/available''"
| "slot_suffix RealmAssigned = []"
| "slot_suffix ClientAssigned = []"
| "slot_suffix RealmEffective = ''/composite''"
| "slot_suffix ClientEffective = ''/composite''"

definition realm_slots :: "scope_slot list" where
  "realm_slots = [RealmRoles, RealmAssigned, RealmEffective]"

definition client_slots :: "scope_slot list" where
  "client_slots = [ClientRoles, ClientAssigned, ClientEffective]"

lemma realm_templates_client:
  "list_all (\<lambda>slot. expand f (rs_url (slot_resource OfClient slot)) =
     ''/admin/realms/'' @ f ''realm'' @ ''/clients/'' @ f ''client'' @ ''/scope-mappings/realm'' @ slot_suffix slot) realm_slots"
  by code_simp

lemma realm_templates_scope:
  "list_all (\<lambda>slot. expand f (rs_url (slot_resource OfClientScope slot)) =
     ''/admin/realms/'' @ f ''realm'' @ ''/client-scopes/'' @ f ''clientScope'' @ ''/scope-mappings/realm'' @ slot_suffix slot) realm_slots"
  by code_simp

lemma client_templates_client:
  "list_all (\<lambda>slot. expand f (rs_url (slot_resource OfClient slot)) =
     ''/admin/realms/'' @ f ''realm'' @ ''/clients/'' @ f ''client'' @ ''/scope-mappings/clients/'' @ f ''targetClient'' @ slot_suffix slot)
     client_slots"
  by code_simp

lemma client_templates_scope:
  "list_all (\<lambda>slot. expand f (rs_url (slot_resource OfClientScope slot)) =
     ''/admin/realms/'' @ f ''realm'' @ ''/client-scopes/'' @ f ''clientScope'' @ ''/scope-mappings/clients/'' @ f ''targetClient''
       @ slot_suffix slot) client_slots"
  by code_simp

lemma query_url_realm:
  "slot \<in> set realm_slots \<Longrightarrow> query_url (slot_request slot [] s) = scope_mappings_url s @ ''realm'' @ slot_suffix slot"
  using realm_templates_client realm_templates_scope
  by (cases "sm_kind s") (auto simp: query_url_def slot_request_def list_all_iff scope_owner_params_def param_def undef_str_def
      scope_mappings_url_def)

lemma query_url_client:
  "slot \<in> set client_slots \<Longrightarrow>
     query_url (slot_request slot [(''targetClient'', t)] s) = scope_mappings_url s @ ''clients/'' @ t @ slot_suffix slot"
  using client_templates_client client_templates_scope
  by (cases "sm_kind s") (auto simp: query_url_def slot_request_def list_all_iff scope_owner_params_def param_def undef_str_def
      scope_mappings_url_def)

definition shows_query :: "scope_mapping_page \<Rightarrow> scope_slot \<Rightarrow> (string \<times> string) list \<Rightarrow> bool" where
  "shows_query s slot target \<longleftrightarrow> (\<exists>i. sm_slot s slot = Some i \<and> (i, slot_request slot target s) \<in> set (sm_queries s))"

definition scope_page_ok :: "scope_mapping_page \<Rightarrow> bool" where
  "scope_page_ok s \<longleftrightarrow>
     tc_id (sm_client s) = tc_id (sm_stored s) \<and>
     distinct (map fst (sm_queries s)) \<and> (\<forall>i \<in> fst ` set (sm_queries s). i < length (sm_arrays s)) \<and>
     list_all (\<lambda>slot. shows_query s slot []) realm_slots \<and>
     (\<forall>t. sm_targetClient s = Some t \<longrightarrow> list_all (\<lambda>slot. shows_query s slot [(''targetClient'', t)]) client_slots)"

lemma scope_ok_frame:
  assumes "scope_page_ok s" and "sm_kind s' = sm_kind s" "sm_realm s' = sm_realm s" "tc_id (sm_stored s') = tc_id (sm_stored s)"
    "tc_id (sm_client s') = tc_id (sm_client s)" "length (sm_arrays s') = length (sm_arrays s)" "sm_queries s' = sm_queries s"
    "sm_slot s' = sm_slot s" "sm_targetClient s' = sm_targetClient s"
  shows "scope_page_ok s'"
  using assms by (simp add: scope_page_ok_def shows_query_def slot_request_def)

lemmas load_slot_defs = load_slot_def slot_request_def Let_def

lemma scope_ok_updateRealm: "scope_page_ok s \<Longrightarrow> scope_page_ok (updateRealmRoles s)"
  by (auto simp: scope_page_ok_def shows_query_def updateRealmRoles_def load_slot_defs realm_slots_def client_slots_def less_Suc_eq)

lemma scope_ok_updateClient:
  assumes "scope_page_ok s"
  shows "scope_page_ok (updateClientRoles (s\<lparr>sm_targetClient := t\<rparr>))"
  using assms
  by (cases t)
    (auto simp: scope_page_ok_def shows_query_def updateClientRoles_def load_slot_defs realm_slots_def client_slots_def less_Suc_eq)

lemma scope_ok_effects: "scope_page_ok s \<Longrightarrow> scope_page_ok (sm_do e s)"
  by (erule scope_ok_frame) (simp_all add: sm_do_def)

lemma scope_ok_client_changed: "scope_page_ok s \<Longrightarrow> scope_page_ok (scope_client_changed s)"
  using scope_ok_updateClient [of s "sm_targetClient s"] by (simp add: scope_client_changed_def mapping_updated_def scope_ok_effects)

lemma scope_ok_flag_done:
  assumes "scope_page_ok s"
  shows "scope_page_ok (changeFlag_done s)"
proof -
  have "tc_id (sm_client s) = tc_id (sm_stored s)" using assms by (simp add: scope_page_ok_def)
  then have "scope_page_ok (s\<lparr>sm_changed := False, sm_stored := sm_client s\<rparr>)" by (intro scope_ok_frame [OF assms]) simp_all
  then show ?thesis by (simp add: changeFlag_done_def mapping_updated_def scope_ok_effects scope_ok_updateRealm)
qed

lemma scope_ok_step: "scope_map_step s s' \<Longrightarrow> scope_page_ok s \<Longrightarrow> scope_page_ok s'"
proof (induction rule: scope_map_step.induct)
  case (change_client s t)
  then show ?case by (simp add: sm_changeClient_def scope_ok_updateClient)
next
  case (realm_done s)
  then show ?case by (simp add: scope_realm_changed_def mapping_updated_def scope_ok_effects scope_ok_updateRealm)
next
  case (add_client s)
  then show ?case by (auto simp: sm_addClientRole_def sm_do_def Let_def elim!: scope_ok_frame split: option.split)
next
  case (delete_client s)
  then show ?case by (auto simp: sm_deleteClientRole_def sm_do_def Let_def elim!: scope_ok_frame split: option.split)
qed (simp_all add: scope_ok_client_changed scope_ok_flag_done,
    (erule scope_ok_frame; simp add: slot_answer_def changeFlag_def sm_addRealmRole_def sm_deleteRealmRole_def sm_do_def Let_def)+)

lemma scope_ok_reachable: "scope_reachable k realm c s \<Longrightarrow> scope_page_ok s"
proof (induction rule: scope_reachable.induct)
  case start
  show ?case
    by (simp add: new_scope_mappings_def updateRealmRoles_def scope_page_ok_def shows_query_def load_slot_defs realm_slots_def
        client_slots_def)
qed (rule scope_ok_step)

text \<open>The list shown in a slot holds what the server answered, if it did, to a request for the address \<open>u\<close>.\<close>

definition read_from :: "scope_mapping_page \<Rightarrow> scope_slot \<Rightarrow> string \<Rightarrow> bool" where
  "read_from s slot u \<longleftrightarrow> (\<exists>i q. sm_slot s slot = Some i \<and> i < length (sm_arrays s) \<and> map_of (sm_queries s) i = Some q \<and> query_url q = u)"

lemma shows_read_from:
  assumes "scope_page_ok s" and "shows_query s slot target" and "query_url (slot_request slot target s) = u"
  shows "read_from s slot u"
proof -
  obtain i where i: "sm_slot s slot = Some i" "(i, slot_request slot target s) \<in> set (sm_queries s)"
    using assms(2) by (auto simp: shows_query_def)
  moreover have "distinct (map fst (sm_queries s))" "i < length (sm_arrays s)"
    using assms(1) i(2) by (force simp: scope_page_ok_def)+
  ultimately show ?thesis unfolding read_from_def using assms(3) by (metis map_of_is_SomeI)
qed

text \<open>C33. On the page for the scope of a client or of a client scope, at any time, each list of roles shows what the server
  answered, if it did, for the address of that list: the roles of the realm, and, while a client is selected, the roles of the client that
  is selected now; late answers for a client selected earlier do not show up. The two lists of assigned roles are read from the very
  addresses to which the page writes: adding and removing roles of the realm sends one request each, to the address of the list of
  assigned realm roles, with the roles selected; and the same goes for the roles of the selected client.\<close>

theorem scope_lists_fresh:
  assumes "scope_reachable k realm c s"
  shows "(\<forall>slot \<in> set realm_slots. read_from s slot (scope_mappings_url s @ ''realm'' @ slot_suffix slot)) \<and>
    (\<exists>u. read_from s RealmAssigned u \<and>
      sm_effects (sm_addRealmRole s) = sm_effects s @ [Request ''POST'' u [] (Roles (sm_selectedRealmRoles s))] \<and>
      sm_effects (sm_deleteRealmRole s) = sm_effects s @ [Request ''DELETE'' u [] (Roles (sm_selectedRealmMappings s))]) \<and>
    (\<forall>t. sm_targetClient s = Some t \<longrightarrow>
      (\<forall>slot \<in> set client_slots. read_from s slot (scope_mappings_url s @ ''clients/'' @ t @ slot_suffix slot)) \<and>
      (\<exists>u. read_from s ClientAssigned u \<and>
        sm_effects (snd (sm_addClientRole s)) = sm_effects s @ [Request ''POST'' u [] (Roles (sm_selectedClientRoles s))] \<and>
        sm_effects (snd (sm_deleteClientRole s)) = sm_effects s @ [Request ''DELETE'' u [] (Roles (sm_selectedClientMappings s))]))"
proof -
  note ok = scope_ok_reachable [OF assms]
  have r: "read_from s slot (scope_mappings_url s @ ''realm'' @ slot_suffix slot)" if "slot \<in> set realm_slots" for slot
    using shows_read_from [OF ok, of slot "[]"] ok query_url_realm [OF that, of s] that by (simp add: scope_page_ok_def list_all_iff)
  have c: "read_from s slot (scope_mappings_url s @ ''clients/'' @ t @ slot_suffix slot)"
    if "sm_targetClient s = Some t" "slot \<in> set client_slots" for t slot
    using shows_read_from [OF ok, of slot "[(''targetClient'', t)]"] ok query_url_client [OF that(2), of t s] that
    by (simp add: scope_page_ok_def list_all_iff)
  have "read_from s RealmAssigned (scope_mappings_url s @ ''realm'')" using r [of RealmAssigned] by (simp add: realm_slots_def)
  moreover have "read_from s ClientAssigned (scope_mappings_url s @ ''clients/'' @ t)" if "sm_targetClient s = Some t" for t
    using c [OF that, of ClientAssigned] by (simp add: client_slots_def)
  ultimately show ?thesis
    using r c by (auto simp: sm_addRealmRole_def sm_deleteRealmRole_def sm_addClientRole_def sm_deleteClientRole_def sm_do_def
        scope_mappings_url_def Let_def)
qed

theorem scope_lists_fresh_witness:
  "let s = sm_changeClient ((new_scope_mappings OfClientScope ''demo'' \<lparr>tc_id = ''c1'', tc_fullScopeAllowed = False, tc_other = []\<rparr>)
       \<lparr>sm_targetClient := Some ''c2''\<rparr>) in
   read_from s ClientAssigned ''/admin/realms/demo/client-scopes/c1/scope-mappings/clients/c2''"
proof -
  let ?c = "\<lparr>tc_id = ''c1'', tc_fullScopeAllowed = False, tc_other = []\<rparr> :: scoped_client"
  let ?s = "sm_changeClient ((new_scope_mappings OfClientScope ''demo'' ?c)\<lparr>sm_targetClient := Some ''c2''\<rparr>)"
  have "scope_reachable OfClientScope ''demo'' ?c ?s"
    by (rule scope_reachable.step [OF scope_reachable.start scope_map_step.change_client])
  note fresh = scope_lists_fresh [OF this]
  have "sm_targetClient ?s = Some ''c2''" "scope_mappings_url ?s = ''/admin/realms/demo/client-scopes/c1/scope-mappings/''"
    by (simp_all add: sm_changeClient_def updateClientRoles_def new_scope_mappings_def updateRealmRoles_def load_slot_def Let_def
        scope_mappings_url_def)
  with fresh show ?thesis by (simp add: client_slots_def)
qed

subsection \<open>What is written\<close>

text \<open>A selection is sent once: a second click before the next selection sends no role.\<close>

theorem scope_role_sent_once:
  "sm_effects (sm_addRealmRole (sm_addRealmRole s)) = sm_effects s @
     [Request ''POST'' (scope_mappings_url s @ ''realm'') [] (Roles (sm_selectedRealmRoles s)),
      Request ''POST'' (scope_mappings_url s @ ''realm'') [] (Roles [])]"
  by (simp add: sm_addRealmRole_def sm_do_def Let_def scope_mappings_url_def)

theorem scope_without_target_raises:
  "sm_targetClient s = None \<Longrightarrow>
     sm_addClientRole s = (Throw TypeError, s\<lparr>sm_selectedClientRoles := []\<rparr>) \<and>
     sm_deleteClientRole s = (Throw TypeError, s\<lparr>sm_selectedClientMappings := []\<rparr>)"
  by (simp add: sm_addClientRole_def sm_deleteClientRole_def Let_def)

text \<open>After roles of a client were added or removed, only the lists of this client are asked for again: the list of effective
  roles of the realm, which composite roles of the client may extend, stays as it was; and the other way round.\<close>

theorem effective_roles_not_reloaded:
  "sm_slot (scope_client_changed s) RealmEffective = sm_slot s RealmEffective"
  "sm_slot (scope_realm_changed s) ClientEffective = sm_slot s ClientEffective"
  by (simp_all add: scope_client_changed_def scope_realm_changed_def mapping_updated_def sm_do_def updateClientRoles_def
      updateRealmRoles_def load_slot_def Let_def split: option.split)

text \<open>The answer to a change of the switch leaves the switch as the user has it now.\<close>

theorem flag_done_keeps_switch: "hideRoleSelector (changeFlag_done s) = hideRoleSelector s"
  by (simp add: hideRoleSelector_def changeFlag_done_def mapping_updated_def sm_do_def updateRealmRoles_def load_slot_def Let_def)

end
