(* ===== verification/Client_Credentials.thy ===== *)
theory Client_Credentials
  imports Client_Editor
begin

section \<open>The admin console: credentials and keys of a client\<close>

text \<open>
  controllers/clients.js: \<open>ClientCredentialsCtrl\<close> (45-100) and the controllers of the parts it includes,
  \<open>ClientSecretCtrl\<close> (102-131), \<open>ClientX509Ctrl\<close> (133-173), \<open>ClientSignedJWTCtrl\<close> (175-234) and
  \<open>ClientGenericCredentialsCtrl\<close> (236-265); \<open>ClientSamlKeyCtrl\<close> (354-418), \<open>ClientCertificateImportCtrl\<close> (420-498) and
  \<open>ClientCertificateExportCtrl\<close> (500-579).

  A part of the page has a scope of its own below that of the page. What it reads as \<open>$scope.client\<close> is the page's client until
  it assigns to \<open>$scope.client\<close>, from when on it has a client of its own. Fields of a client that the pages only pass on are
  left out, as are the texts of the console, the watches on the path, and the upload and download themselves.
\<close>

subsection \<open>State\<close>

record cred_client =
  kk_id :: string
  kk_clientAuthenticatorType :: string
  kk_attributes :: attrs
  kk_registrationAccessToken :: "string option"

definition same_cred_client :: "cred_client \<Rightarrow> cred_client \<Rightarrow> bool" where
  "same_cred_client a b \<longleftrightarrow>
     kk_id a = kk_id b \<and> kk_clientAuthenticatorType a = kk_clientAuthenticatorType b \<and>
     same_attrs (kk_attributes a) (kk_attributes b) \<and> kk_registrationAccessToken a = kk_registrationAccessToken b"

record cred_part =
  part_client :: "cred_client option"
  part_clientCopy :: cred_client
  part_changed :: bool
  part_secret :: "string option"
  part_subjectdn :: "string option"
  part_useJwksUrl :: bool
  part_signingKeyInfo :: "string option"

record cred_page =
  kp_realm :: string
  kp_stored :: cred_client
  kp_client :: cred_client
  kp_partial :: string
  kp_configProperties :: "string \<Rightarrow> string list option"
  kp_currentProperties :: "string list option"
  kp_changed :: bool
  kp_part :: cred_part
  kp_effects :: "cred_client option ui_effect list"

definition kp_do :: "cred_client option ui_effect \<Rightarrow> cred_page \<Rightarrow> cred_page" where
  "kp_do e s = s\<lparr>kp_effects := kp_effects s @ [e]\<rparr>"

subsection \<open>The client of a part\<close>

definition part_sees :: "cred_page \<Rightarrow> cred_client" where
  "part_sees s = (case part_client (kp_part s) of Some c \<Rightarrow> c | None \<Rightarrow> kp_client s)"

text \<open>An assignment to a field of what the part sees.\<close>

definition part_edit :: "(cred_client \<Rightarrow> cred_client) \<Rightarrow> cred_page \<Rightarrow> cred_page" where
  "part_edit f s =
     (case part_client (kp_part s) of
        Some c \<Rightarrow> s\<lparr>kp_part := (kp_part s)\<lparr>part_client := Some (f c)\<rparr>\<rparr>
      | None \<Rightarrow> s\<lparr>kp_client := f (kp_client s)\<rparr>)"

definition on_part :: "(cred_part \<Rightarrow> cred_part) \<Rightarrow> cred_page \<Rightarrow> cred_page" where
  "on_part f s = s\<lparr>kp_part := f (kp_part s)\<rparr>"

definition set_client_attr :: "string \<Rightarrow> string js \<Rightarrow> cred_client \<Rightarrow> cred_client" where
  "set_client_attr k v c = c\<lparr>kk_attributes := set_attr k v (kk_attributes c)\<rparr>"

definition kk_attr :: "string \<Rightarrow> cred_client \<Rightarrow> string js" where
  "kk_attr k c = attr k (kk_attributes c)"

definition js_truthy_text :: "string js \<Rightarrow> bool" where
  "js_truthy_text v = (case v of Val x \<Rightarrow> x \<noteq> [] | _ \<Rightarrow> False)"

subsection \<open>The page\<close>

definition updateCurrentPartial :: "string \<Rightarrow> cred_page \<Rightarrow> cred_page" where
  "updateCurrentPartial val s =
     (if val = ''client-secret'' then s\<lparr>kp_partial := ''client-credentials-secret.html''\<rparr>
      else if val = ''client-jwt'' then s\<lparr>kp_partial := ''client-credentials-jwt.html''\<rparr>
      else if val = ''client-secret-jwt'' then s\<lparr>kp_partial := ''client-credentials-secret-jwt.html''\<rparr>
      else if val = ''client-x509'' then s\<lparr>kp_partial := ''client-credentials-x509.html''\<rparr>
      else s\<lparr>kp_currentProperties := kp_configProperties s val, kp_partial := ''client-credentials-generic.html''\<rparr>)"

text \<open>A part is made anew when the name of its template changes: \<open>clientCopy\<close> is a copy of what it sees then.\<close>

definition new_part :: "cred_client \<Rightarrow> cred_part" where
  "new_part c =
     \<lparr>part_client = None, part_clientCopy = c, part_changed = False, part_secret = None, part_subjectdn = None,
      part_useJwksUrl = (js_truthy_text (kk_attr ''use.jwks.url'' c) \<and> kk_attr ''use.jwks.url'' c = Val ''true''),
      part_signingKeyInfo = None\<rparr>"

definition part_requests :: "string \<Rightarrow> cred_page \<Rightarrow> cred_page" where
  "part_requests name s =
     (if name = ''client-credentials-secret.html'' \<or> name = ''client-credentials-secret-jwt.html'' then
        kp_do (Request ''GET'' ''ClientSecret'' [(''realm'', kp_realm s), (''client'', kk_id (kp_client s))] None) s
      else if name = ''client-credentials-jwt.html'' then
        kp_do (Request ''GET'' ''ClientCertificate''
          [(''realm'', kp_realm s), (''client'', kk_id (kp_client s)), (''attribute'', ''jwt.credential'')] None) s
      else s)"

definition include_part :: "cred_page \<Rightarrow> cred_page" where
  "include_part s = part_requests (kp_partial s) (s\<lparr>kp_part := new_part (kp_client s)\<rparr>)"

definition new_cred_page :: "string \<Rightarrow> (string \<Rightarrow> string list option) \<Rightarrow> cred_client \<Rightarrow> cred_page" where
  "new_cred_page realm props c =
     include_part (updateCurrentPartial (kk_clientAuthenticatorType c)
       \<lparr>kp_realm = realm, kp_stored = c, kp_client = c, kp_partial = [], kp_configProperties = props, kp_currentProperties = None,
        kp_changed = False, kp_part = new_part c, kp_effects = []\<rparr>)"

definition send_client_of :: "cred_client \<Rightarrow> cred_page \<Rightarrow> cred_page" where
  "send_client_of c s = kp_do (Request ''PUT'' ''Client'' [(''realm'', kp_realm s), (''client'', kk_id c)] (Some c)) s"

text \<open>The watch on the type of the authenticator.\<close>

definition watch_authenticator :: "cred_page \<Rightarrow> cred_page" where
  "watch_authenticator s =
     (if kk_clientAuthenticatorType (kp_client s) \<noteq> kk_clientAuthenticatorType (kp_stored s) then
        kp_do (Request ''PUT'' ''Client'' [(''realm'', kp_realm s), (''client'', kk_id (kp_stored s))] (Some (kp_client s))) s
      else s)"

definition choose_authenticator :: "string \<Rightarrow> cred_page \<Rightarrow> cred_page" where
  "choose_authenticator t s = watch_authenticator (s\<lparr>kp_client := (kp_client s)\<lparr>kk_clientAuthenticatorType := t\<rparr>\<rparr>)"

definition authenticator_saved :: "cred_page \<Rightarrow> cred_page" where
  "authenticator_saved s =
     (let s' = updateCurrentPartial (kk_clientAuthenticatorType (kp_client s)) (s\<lparr>kp_changed := False, kp_stored := kp_client s\<rparr>) in
      if kp_partial s' = kp_partial s then s' else include_part s')"

definition regenerateRegistrationAccessToken :: "cred_page \<Rightarrow> cred_page" where
  "regenerateRegistrationAccessToken s =
     kp_do (Request ''POST'' ''ClientRegistrationAccessToken'' [(''realm'', kp_realm s), (''client'', kk_id (kp_client s))] None) s"

definition registration_token_answer :: "string option \<Rightarrow> cred_page \<Rightarrow> cred_page" where
  "registration_token_answer r s =
     (case r of
        Some t \<Rightarrow>
          (kp_do (Notify ''success'' ''The registration access token has been updated.'') s)
            \<lparr>kp_client := (kp_client s)\<lparr>kk_registrationAccessToken := Some t\<rparr>\<rparr>
      | None \<Rightarrow> kp_do (Notify ''error'' ''Failed to update the registration access token'') s)"

subsection \<open>Secrets\<close>

definition secret_loaded :: "string \<Rightarrow> cred_page \<Rightarrow> cred_page" where
  "secret_loaded v s = on_part (\<lambda>p. p\<lparr>part_secret := Some v\<rparr>) s"

definition changeSecret :: "cred_page \<Rightarrow> cred_page" where
  "changeSecret s = kp_do (Request ''POST'' ''ClientSecret'' [(''realm'', kp_realm s), (''client'', kk_id (part_sees s))] None) s"

definition secret_answer :: "string option \<Rightarrow> cred_page \<Rightarrow> cred_page" where
  "secret_answer r s =
     (case r of
        Some v \<Rightarrow> on_part (\<lambda>p. p\<lparr>part_secret := Some v\<rparr>) (kp_do (Notify ''success'' ''The secret has been changed.'') s)
      | None \<Rightarrow> on_part (\<lambda>p. p\<lparr>part_secret := Some ''error''\<rparr>)
          (kp_do (Notify ''error'' ''The secret was not changed due to a problem.'') s))"

definition credentials_url :: "cred_page \<Rightarrow> string" where
  "credentials_url s = ''/realms/'' @ kp_realm s @ ''/clients/'' @ kk_id (part_sees s) @ ''/credentials''"

definition secret_cancel :: "cred_page \<Rightarrow> cred_page" where
  "secret_cancel s = kp_do (GoTo (credentials_url s)) s"

subsection \<open>Certificates, signed tokens, other kinds\<close>

definition watch_part :: "cred_page \<Rightarrow> cred_page" where
  "watch_part s =
     (if \<not> same_cred_client (part_sees s) (part_clientCopy (kp_part s)) then on_part (\<lambda>p. p\<lparr>part_changed := True\<rparr>) s else s)"

definition cred_config_saved :: "cred_page \<Rightarrow> cred_page" where
  "cred_config_saved s =
     kp_do (Notify ''success'' ''Client authentication configuration has been saved to the client.'')
       (on_part (\<lambda>p. p\<lparr>part_changed := False, part_clientCopy := part_sees s\<rparr>) s)"

definition subject_dn :: "cred_client \<Rightarrow> string js" where
  "subject_dn c = kk_attr ''x509.subjectdn'' c"

definition x509_save :: "cred_page \<Rightarrow> cred_page" where
  "x509_save s =
     (if \<not> js_truthy_text (subject_dn (part_sees s)) then kp_do (Notify ''error'' ''The SubjectDN must not be empty.'') s
      else send_client_of (part_sees s) s)"

definition x509_save_failed :: "cred_page \<Rightarrow> cred_page" where
  "x509_save_failed s =
     on_part (\<lambda>p. p\<lparr>part_subjectdn := Some ''error''\<rparr>)
       (kp_do (Notify ''error'' ''The SubjectDN was not changed due to a problem.'') s)"

definition x509_reset :: "cred_page \<Rightarrow> cred_page" where
  "x509_reset s =
     kp_do (GoTo (credentials_url s))
       (part_edit (set_client_attr ''x509.subjectdn'' (subject_dn (part_clientCopy (kp_part s)))) s)"

definition jwt_key_loaded :: "string \<Rightarrow> cred_page \<Rightarrow> cred_page" where
  "jwt_key_loaded k s = on_part (\<lambda>p. p\<lparr>part_signingKeyInfo := Some k\<rparr>) s"

definition jwt_switchChange :: "bool \<Rightarrow> cred_page \<Rightarrow> cred_page" where
  "jwt_switchChange b s = on_part (\<lambda>p. p\<lparr>part_changed := True, part_useJwksUrl := b\<rparr>) s"

definition jwt_save :: "cred_page \<Rightarrow> cred_page" where
  "jwt_save s =
     (let s = part_edit (set_client_attr ''use.jwks.url'' (Val (if part_useJwksUrl (kp_part s) then ''true'' else ''false''))) s in
      send_client_of (part_sees s) s)"

definition jwt_importCertificate :: "cred_page \<Rightarrow> cred_page" where
  "jwt_importCertificate s = kp_do (GoTo (credentials_url s @ ''/client-jwt/Signing/import/jwt.credential'')) s"

definition jwt_generateSigningKey :: "cred_page \<Rightarrow> cred_page" where
  "jwt_generateSigningKey s = kp_do (GoTo (credentials_url s @ ''/client-jwt/Signing/export/jwt.credential'')) s"

definition jwt_reset :: "cred_page \<Rightarrow> cred_page" where
  "jwt_reset s = kp_do Reload s"

definition generic_save :: "cred_page \<Rightarrow> cred_page" where
  "generic_save s = send_client_of (part_sees s) s"

definition generic_reset :: "cred_page \<Rightarrow> cred_page" where
  "generic_reset s = on_part (\<lambda>p. p\<lparr>part_client := Some (part_clientCopy p), part_changed := False\<rparr>) s"

subsection \<open>Keys of SAML clients\<close>

record saml_key_page =
  sk_realm :: string
  sk_client :: string
  sk_signingKeyInfo :: "string option"
  sk_encryptionKeyInfo :: "string option"
  sk_effects :: "unit ui_effect list"

datatype saml_key = SigningKey | EncryptionKey

fun key_attribute :: "saml_key \<Rightarrow> string" where
  "key_attribute SigningKey = ''saml.signing''"
| "key_attribute EncryptionKey = ''saml.encryption''"

fun key_word :: "saml_key \<Rightarrow> string" where
  "key_word SigningKey = ''Signing''"
| "key_word EncryptionKey = ''Encryption''"

definition sk_do :: "unit ui_effect \<Rightarrow> saml_key_page \<Rightarrow> saml_key_page" where
  "sk_do e s = s\<lparr>sk_effects := sk_effects s @ [e]\<rparr>"

definition key_params :: "saml_key \<Rightarrow> saml_key_page \<Rightarrow> (string \<times> string) list" where
  "key_params k s = [(''realm'', sk_realm s), (''client'', sk_client s), (''attribute'', key_attribute k)]"

definition new_saml_keys :: "string \<Rightarrow> string \<Rightarrow> saml_key_page" where
  "new_saml_keys realm client =
     (let s = \<lparr>sk_realm = realm, sk_client = client, sk_signingKeyInfo = None, sk_encryptionKeyInfo = None, sk_effects = []\<rparr>;
          s = sk_do (Request ''GET'' ''ClientCertificate'' (key_params SigningKey s) ()) s in
      sk_do (Request ''GET'' ''ClientCertificate'' (key_params EncryptionKey s) ()) s)"

fun set_key :: "saml_key \<Rightarrow> string \<Rightarrow> saml_key_page \<Rightarrow> saml_key_page" where
  "set_key SigningKey v s = s\<lparr>sk_signingKeyInfo := Some v\<rparr>"
| "set_key EncryptionKey v s = s\<lparr>sk_encryptionKeyInfo := Some v\<rparr>"

definition generate_key :: "saml_key \<Rightarrow> saml_key_page \<Rightarrow> saml_key_page" where
  "generate_key k s = sk_do (Request ''POST'' ''ClientCertificateGenerate'' (key_params k s) ()) s"

definition generate_answer :: "saml_key \<Rightarrow> string option \<Rightarrow> saml_key_page \<Rightarrow> saml_key_page" where
  "generate_answer k r s =
     (case r of
        Some v \<Rightarrow> set_key k v (sk_do (Notify ''success'' (key_word k @ '' key has been regenerated.'')) s)
      | None \<Rightarrow> sk_do (Notify ''error'' (key_word k @ '' key was not regenerated.'')) s)"

definition key_page_url :: "string \<Rightarrow> saml_key \<Rightarrow> saml_key_page \<Rightarrow> string" where
  "key_page_url action k s =
     ''/realms/'' @ sk_realm s @ ''/clients/'' @ sk_client s @ ''/saml/'' @ key_word k @ ''/'' @ action @ ''/'' @ key_attribute k"

definition import_key :: "saml_key \<Rightarrow> saml_key_page \<Rightarrow> saml_key_page" where
  "import_key k s = sk_do (GoTo (key_page_url ''import'' k s)) s"

definition export_key :: "saml_key \<Rightarrow> saml_key_page \<Rightarrow> saml_key_page" where
  "export_key k s = sk_do (GoTo (key_page_url ''export'' k s)) s"

subsection \<open>Import and export of key stores\<close>

datatype calling_context = FromSaml | FromJwt

definition certificates_url :: "string \<Rightarrow> string \<Rightarrow> string \<Rightarrow> string" where
  "certificates_url realm client attribute =
     ''/admin/realms/'' @ realm @ ''/clients/'' @ client @ ''/certificates/'' @ attribute"

definition uploadUrl :: "calling_context \<Rightarrow> string \<Rightarrow> string \<Rightarrow> string \<Rightarrow> string" where
  "uploadUrl ctx realm client attribute =
     certificates_url realm client attribute @ (case ctx of FromSaml \<Rightarrow> ''/upload'' | FromJwt \<Rightarrow> ''/upload-certificate'')"

definition redirectLocation :: "calling_context \<Rightarrow> string \<Rightarrow> string \<Rightarrow> string" where
  "redirectLocation ctx realm client =
     ''/realms/'' @ realm @ ''/clients/'' @ client @ (case ctx of FromSaml \<Rightarrow> ''/saml/keys'' | FromJwt \<Rightarrow> ''/credentials'')"

definition import_formats :: "calling_context \<Rightarrow> string list" where
  "import_formats ctx =
     [''JKS'', ''PKCS12'', ''Certificate PEM''] @ (case ctx of FromSaml \<Rightarrow> [] | FromJwt \<Rightarrow> [''Public Key PEM'', ''JSON Web Key Set''])"

record cert_import =
  ci_context :: calling_context
  ci_realm :: string
  ci_client :: string
  ci_attribute :: string
  ci_files :: nat
  ci_uploadKeyFormat :: string
  ci_uploadKeyAlias :: string
  ci_uploadKeyPassword :: string
  ci_uploadStorePassword :: string
  ci_effects :: "unit ui_effect list"

definition new_cert_import :: "calling_context \<Rightarrow> string \<Rightarrow> string \<Rightarrow> string \<Rightarrow> cert_import" where
  "new_cert_import ctx realm client attribute =
     \<lparr>ci_context = ctx, ci_realm = realm, ci_client = client, ci_attribute = attribute, ci_files = 0,
      ci_uploadKeyFormat = import_formats ctx ! 0, ci_uploadKeyAlias = [], ci_uploadKeyPassword = [], ci_uploadStorePassword = [],
      ci_effects = []\<rparr>"

definition hideKeystoreSettings :: "cert_import \<Rightarrow> bool" where
  "hideKeystoreSettings s \<longleftrightarrow>
     ci_uploadKeyFormat s = ''Certificate PEM'' \<or> ci_uploadKeyFormat s = ''Public Key PEM'' \<or>
     ci_uploadKeyFormat s = ''JSON Web Key Set''"

definition cert_uploadFile :: "cert_import \<Rightarrow> cert_import" where
  "cert_uploadFile s =
     s\<lparr>ci_effects := ci_effects s @ replicate (ci_files s)
         (Request ''POST'' (uploadUrl (ci_context s) (ci_realm s) (ci_client s) (ci_attribute s))
            [(''keystoreFormat'', ci_uploadKeyFormat s), (''keyAlias'', ci_uploadKeyAlias s), (''keyPassword'', ci_uploadKeyPassword s),
             (''storePassword'', ci_uploadStorePassword s)] ())\<rparr>"

definition cert_uploaded :: "cert_import \<Rightarrow> cert_import" where
  "cert_uploaded s =
     s\<lparr>ci_effects := ci_effects s @ [Notify ''success'' ''Keystore uploaded successfully.'',
         GoTo (redirectLocation (ci_context s) (ci_realm s) (ci_client s))]\<rparr>"

definition cert_import_cancel :: "cert_import \<Rightarrow> cert_import" where
  "cert_import_cancel s = s\<lparr>ci_effects := ci_effects s @ [GoTo (redirectLocation (ci_context s) (ci_realm s) (ci_client s))]\<rparr>"

record key_store =
  ks_keyAlias :: string
  ks_realmAlias :: string
  ks_realmCertificate :: bool
  ks_format :: string

record cert_export =
  cx_context :: calling_context
  cx_realm :: string
  cx_client :: string
  cx_attribute :: string
  cx_jks :: key_store
  cx_keyInfo :: "string option"
  cx_saved :: "string list"
  cx_effects :: "key_store option ui_effect list"

definition downloadUrl :: "calling_context \<Rightarrow> string \<Rightarrow> string \<Rightarrow> string \<Rightarrow> string" where
  "downloadUrl ctx realm client attribute =
     certificates_url realm client attribute @ (case ctx of FromSaml \<Rightarrow> ''/download'' | FromJwt \<Rightarrow> ''/generate-and-download'')"

definition new_cert_export :: "calling_context \<Rightarrow> string \<Rightarrow> string \<Rightarrow> string \<Rightarrow> string \<Rightarrow> cert_export" where
  "new_cert_export ctx realm client clientId attribute =
     \<lparr>cx_context = ctx, cx_realm = realm, cx_client = client, cx_attribute = attribute,
      cx_jks = \<lparr>ks_keyAlias = clientId, ks_realmAlias = realm, ks_realmCertificate = (ctx = FromSaml), ks_format = ''JKS''\<rparr>,
      cx_keyInfo = None, cx_saved = [],
      cx_effects = [Request ''GET'' ''ClientCertificate'' [(''realm'', realm), (''client'', client), (''attribute'', attribute)] None]\<rparr>"

definition cert_download :: "cert_export \<Rightarrow> cert_export" where
  "cert_download s =
     s\<lparr>cx_effects := cx_effects s @
         [Request ''POST'' (downloadUrl (cx_context s) (cx_realm s) (cx_client s) (cx_attribute s)) [] (Some (cx_jks s))]\<rparr>"

definition store_file :: "cert_export \<Rightarrow> string" where
  "store_file s = ''keystore'' @ (if ks_format (cx_jks s) = ''PKCS12'' then ''.p12'' else ''.jks'')"

definition cert_export_cancel :: "cert_export \<Rightarrow> cert_export" where
  "cert_export_cancel s =
     s\<lparr>cx_effects := cx_effects s @ [GoTo (''/realms/'' @ cx_realm s @ ''/clients/'' @ cx_client s @ ''/credentials'')]\<rparr>"

definition cert_downloaded :: "cert_export \<Rightarrow> cert_export" where
  "cert_downloaded s =
     (let s1 = (if cx_context s = FromJwt
                then s\<lparr>cx_effects := cx_effects s @
                  [GoTo (''/realms/'' @ cx_realm s @ ''/clients/'' @ cx_client s @ ''/credentials''),
                   Notify ''success'' ''New keypair and certificate generated successfully. Download keystore file'']\<rparr>
                else s) in
      s1\<lparr>cx_saved := cx_saved s1 @ [store_file s1]\<rparr>)"

text \<open>The error text of an answer: None when it is not JSON, and Some None when it has no description.\<close>

definition cert_download_failed :: "string option option \<Rightarrow> cert_export \<Rightarrow> cert_export" where
  "cert_download_failed d s =
     s\<lparr>cx_effects := cx_effects s @
         [Notify ''error'' (case d of Some (Some x) \<Rightarrow> if x = [] then ''Error downloading'' else x | _ \<Rightarrow> ''Error downloading'')]\<rparr>"

subsection \<open>The page writes its own client only\<close>

inductive cred_step :: "cred_page \<Rightarrow> cred_page \<Rightarrow> bool" where
  choose: "cred_step s (choose_authenticator t s)"
| saved: "cred_step s (authenticator_saved s)"
| token: "cred_step s (regenerateRegistrationAccessToken s)"
| token_answer: "cred_step s (registration_token_answer r s)"
| secret: "cred_step s (changeSecret s)"
| secret_answer: "cred_step s (secret_answer r s)"
| secret_loaded: "cred_step s (secret_loaded v s)"
| secret_cancel: "cred_step s (secret_cancel s)"
| edit: "cred_step s (watch_part (part_edit (set_client_attr k v) s))"
| x509_save: "cred_step s (x509_save s)"
| x509_failed: "cred_step s (x509_save_failed s)"
| x509_reset: "cred_step s (watch_part (x509_reset s))"
| jwt_loaded: "cred_step s (jwt_key_loaded k s)"
| jwt_switch: "cred_step s (jwt_switchChange b s)"
| jwt_save: "cred_step s (watch_part (jwt_save s))"
| jwt_links: "s' \<in> {jwt_importCertificate s, jwt_generateSigningKey s, jwt_reset s} \<Longrightarrow> cred_step s s'"
| generic_save: "cred_step s (generic_save s)"
| generic_reset: "cred_step s (watch_part (generic_reset s))"
| cred_config_saved: "cred_step s (cred_config_saved s)"

inductive cred_reachable :: "string \<Rightarrow> cred_client \<Rightarrow> cred_page \<Rightarrow> bool" for realm c where
  start: "cred_reachable realm c (new_cred_page realm props c)"
| step: "cred_reachable realm c s \<Longrightarrow> cred_step s s' \<Longrightarrow> cred_reachable realm c s'"

fun own_request :: "string \<Rightarrow> string \<Rightarrow> cred_client option ui_effect \<Rightarrow> bool" where
  "own_request realm i (Request m r ps b) \<longleftrightarrow>
     map_of ps ''realm'' = Some realm \<and> map_of ps ''client'' = Some i \<and> (case b of None \<Rightarrow> True | Some c \<Rightarrow> kk_id c = i)"
| "own_request realm i _ \<longleftrightarrow> True"

definition cred_ok :: "string \<Rightarrow> string \<Rightarrow> cred_page \<Rightarrow> bool" where
  "cred_ok realm i s \<longleftrightarrow>
     kp_realm s = realm \<and> kk_id (kp_client s) = i \<and> kk_id (kp_stored s) = i \<and>
     (\<forall>c. part_client (kp_part s) = Some c \<longrightarrow> kk_id c = i) \<and> kk_id (part_clientCopy (kp_part s)) = i \<and> list_all (own_request realm i) (kp_effects s)"

lemma cred_ok_do: "cred_ok realm i (kp_do e s) \<longleftrightarrow> cred_ok realm i s \<and> own_request realm i e"
  by (auto simp: cred_ok_def kp_do_def part_sees_def)

lemma cred_ok_on_part:
  assumes "\<And>p. part_client (f p) = part_client p" and "\<And>p. part_clientCopy (f p) = part_clientCopy p"
  shows "cred_ok realm i (on_part f s) = cred_ok realm i s"
  using assms by (simp add: cred_ok_def on_part_def part_sees_def)

lemma cred_ok_watch [simp]: "cred_ok realm i (watch_part s) = cred_ok realm i s"
  by (simp add: watch_part_def cred_ok_on_part)

lemma cred_ok_edit: "(\<And>c. kk_id (f c) = kk_id c) \<Longrightarrow> cred_ok realm i s \<Longrightarrow> cred_ok realm i (part_edit f s)"
  by (auto simp: cred_ok_def part_edit_def part_sees_def split: option.split)

lemma kk_id_set_attr [simp]: "kk_id (set_client_attr k v c) = kk_id c"
  by (simp add: set_client_attr_def)

lemma cred_ok_partial [simp]: "cred_ok realm i (updateCurrentPartial v s) = cred_ok realm i s"
  by (auto simp: cred_ok_def updateCurrentPartial_def part_sees_def split: option.split)

lemma cred_ok_include: "cred_ok realm i s \<Longrightarrow> cred_ok realm i (include_part s)"
  by (auto simp: include_part_def part_requests_def cred_ok_do)
    (simp_all add: cred_ok_def part_sees_def new_part_def)

lemma cred_ok_send: "cred_ok realm i s \<Longrightarrow> kk_id c = i \<Longrightarrow> cred_ok realm i (send_client_of c s)"
  by (auto simp: send_client_of_def cred_ok_do) (simp add: cred_ok_def)

lemmas cred_simps = cred_ok_do cred_ok_on_part cred_ok_edit cred_ok_include cred_ok_send

lemma cred_ok_ids:
  assumes "cred_ok realm i s"
  shows "kp_realm s = realm" "kk_id (kp_client s) = i" "kk_id (kp_stored s) = i" "kk_id (part_sees s) = i"
  using assms by (simp_all add: cred_ok_def part_sees_def split: option.split)

lemma cred_ok_saved: "cred_ok realm i s \<Longrightarrow> cred_ok realm i (authenticator_saved s)"
proof -
  assume "cred_ok realm i s"
  then have "cred_ok realm i (s\<lparr>kp_changed := False, kp_stored := kp_client s\<rparr>)"
    by (auto simp: cred_ok_def part_sees_def split: option.split)
  then show ?thesis by (simp add: authenticator_saved_def Let_def cred_ok_include)
qed

lemma cred_ok_watch_authenticator: "cred_ok realm i s \<Longrightarrow> cred_ok realm i (watch_authenticator s)"
  using cred_ok_ids [of realm i s] by (simp add: watch_authenticator_def cred_ok_do)

lemma cred_ok_step: "cred_step s s' \<Longrightarrow> cred_ok realm i s \<Longrightarrow> cred_ok realm i s'"
proof (induction rule: cred_step.induct)
  case (choose s t)
  then have "cred_ok realm i (s\<lparr>kp_client := (kp_client s)\<lparr>kk_clientAuthenticatorType := t\<rparr>\<rparr>)"
    by (auto simp: cred_ok_def part_sees_def split: option.split)
  then show ?case by (simp add: choose_authenticator_def cred_ok_watch_authenticator)
next
  case (token_answer s r)
  then show ?case
    by (auto simp: registration_token_answer_def cred_ok_do split: option.split) (auto simp: cred_ok_def kp_do_def part_sees_def split: option.split)
next
  case (jwt_save s)
  let ?s = "part_edit (set_client_attr ''use.jwks.url'' (Val (if part_useJwksUrl (kp_part s) then ''true'' else ''false''))) s"
  have ok: "cred_ok realm i ?s" using jwt_save by (intro cred_ok_edit) simp_all
  show ?case using cred_ok_send [OF ok cred_ok_ids(4) [OF ok]] by (simp only: jwt_save_def Let_def cred_ok_watch)
next
  case (generic_reset s)
  then show ?case by (simp add: generic_reset_def) (simp add: cred_ok_def on_part_def part_sees_def)
next
  case (cred_config_saved s)
  then show ?case using cred_ok_ids(4) [of realm i s] by (simp add: cred_config_saved_def cred_ok_do) (simp add: cred_ok_def on_part_def)
next
  case (x509_reset s)
  then show ?case by (simp add: x509_reset_def cred_ok_do cred_ok_edit)
next
  case (jwt_links s' s)
  then show ?case by (auto simp: jwt_importCertificate_def jwt_generateSigningKey_def jwt_reset_def cred_ok_do)
qed (auto simp: cred_ok_saved cred_simps cred_ok_ids regenerateRegistrationAccessToken_def changeSecret_def secret_answer_def
      secret_loaded_def secret_cancel_def x509_save_def x509_save_failed_def jwt_key_loaded_def jwt_switchChange_def generic_save_def
    split: option.split)

text \<open>Whatever is done on the page for credentials, and in whatever order the answers arrive, every request names the realm and
  the client of the page, and a client that is sent is that client: no credentials of another client are read or written.\<close>

theorem credentials_of_own_client:
  "cred_reachable realm c s \<Longrightarrow> list_all (own_request realm (kk_id c)) (kp_effects s)"
proof -
  assume "cred_reachable realm c s"
  then have "cred_ok realm (kk_id c) s"
  proof (induction rule: cred_reachable.induct)
    case (start props)
    show ?case unfolding new_cred_page_def
      by (intro cred_ok_include cred_ok_partial [THEN iffD2]) (simp add: cred_ok_def part_sees_def new_part_def)
  qed (rule cred_ok_step)
  then show ?thesis by (simp add: cred_ok_def)
qed

subsection \<open>Edits that are sent\<close>

definition sent_clients :: "cred_page \<Rightarrow> cred_client list" where
  "sent_clients s = concat (map (\<lambda>e. case e of Request _ _ _ (Some c) \<Rightarrow> [c] | _ \<Rightarrow> []) (kp_effects s))"

lemma sent_clients_do:
  "sent_clients (kp_do e s) = sent_clients s @ (case e of Request _ _ _ (Some c) \<Rightarrow> [c] | _ \<Rightarrow> [])"
  by (simp add: sent_clients_def kp_do_def)

text \<open>The part for certificates never sends an empty subject.\<close>

theorem x509_save_guarded:
  "sent_clients (x509_save s) =
     (if js_truthy_text (subject_dn (part_sees s)) then sent_clients s @ [part_sees s] else sent_clients s)"
  by (simp add: x509_save_def send_client_of_def sent_clients_do)

text \<open>But it edits the client of the page: choosing another kind of authenticator sends what was entered and not saved, an empty
  subject too.\<close>

theorem authenticator_change_sends_edits:
  assumes "part_client (kp_part s) = None" and "t \<noteq> kk_clientAuthenticatorType (kp_stored s)"
  shows "sent_clients (choose_authenticator t (part_edit (set_client_attr k v) s)) =
    sent_clients s @ [(set_client_attr k v (kp_client s))\<lparr>kk_clientAuthenticatorType := t\<rparr>]"
  using assms
  by (simp add: choose_authenticator_def watch_authenticator_def sent_clients_do part_edit_def) (simp add: sent_clients_def)

text \<open>A reset of the part for other kinds of authenticators gives the part a copy of its own: the page keeps the edit, which the
  part does not show any more, and sends it when another kind is chosen.\<close>

theorem generic_reset_keeps_edit:
  assumes "part_client (kp_part s) = None" and "t \<noteq> kk_clientAuthenticatorType (kp_stored s)"
  shows "let s' = generic_reset (part_edit (set_client_attr k v) s) in
    part_sees s' = part_clientCopy (kp_part s) \<and>
    sent_clients (choose_authenticator t s') = sent_clients s @ [(set_client_attr k v (kp_client s))\<lparr>kk_clientAuthenticatorType := t\<rparr>]"
  using assms
  by (simp add: choose_authenticator_def watch_authenticator_def sent_clients_do part_edit_def generic_reset_def on_part_def Let_def)
    (simp add: sent_clients_def part_sees_def)

text \<open>The part for signed tokens, opened and saved, sends the attribute it read, where everything but \<open>true\<close> counts as
  \<open>false\<close>, and leaves the other attributes as they were.\<close>

theorem jwt_save_roundtrip:
  assumes "kk_clientAuthenticatorType c = ''client-jwt''"
  shows "\<exists>d. sent_clients (jwt_save (new_cred_page realm props c)) = [d] \<and>
    kk_attr ''use.jwks.url'' d = (if kk_attr ''use.jwks.url'' c = Val ''true'' then Val ''true'' else Val ''false'') \<and>
    (\<forall>k. k \<noteq> ''use.jwks.url'' \<longrightarrow> kk_attr k d = kk_attr k c)"
  using assms
  by (simp add: jwt_save_def Let_def new_cred_page_def include_part_def part_requests_def updateCurrentPartial_def part_edit_def
      new_part_def send_client_of_def sent_clients_do kp_do_def part_sees_def set_client_attr_def kk_attr_def js_truthy_text_def)
    (simp add: sent_clients_def)

text \<open>The pages for key stores come back to the page that led to them, and ask for the realm's certificate for SAML only.\<close>

theorem key_store_pages:
  "redirectLocation FromSaml realm client = ''/realms/'' @ realm @ ''/clients/'' @ client @ ''/saml/keys''"
  "ks_realmCertificate (cx_jks (new_cert_export ctx realm client clientId attribute)) \<longleftrightarrow> ctx = FromSaml"
  "ci_uploadKeyFormat (new_cert_import ctx realm client attribute) \<in> set (import_formats ctx)"
  "hideKeystoreSettings s \<Longrightarrow> ci_uploadKeyFormat s \<in> set (import_formats FromJwt) - {''JKS'', ''PKCS12''}"
  by (auto simp: redirectLocation_def new_cert_export_def new_cert_import_def import_formats_def hideKeystoreSettings_def)

end
