(* ===== verification/Store_Config.thy ===== *)
theory Store_Config
  imports Console "HOL-Library.AList"
begin

section \<open>The admin console: configurations of components\<close>

text \<open>
  What the pages of client storage, user storage and LDAP mappers share: a component has a configuration, an object whose values
  are lists, and a page fills in the values that are missing before it shows it. The locale \<open>config_fill\<close> is the contract of such a
  filling, whatever its defaults are; the pages interpret it.
\<close>

type_synonym 'v component_values = "(string \<times> 'v) list"

record 'v store_instance =
  si_id :: "string option"
  si_name :: string
  si_providerId :: "string option"
  si_providerType :: "string option"
  si_parentId :: string
  si_config :: "'v component_values"

record store_property =
  sp_name :: string
  sp_default :: "string option"

record store_factory =
  sf_id :: string
  sf_properties :: "store_property list option"

definition properties_of :: "'a store_factory_scheme \<Rightarrow> store_property list" where
  "properties_of f = (case sf_properties f of None \<Rightarrow> [] | Some ps \<Rightarrow> ps)"

text \<open>\<open>if (!config[k]) config[k] = v\<close>; a list is never falsy.\<close>

definition set_default :: "string \<Rightarrow> 'v \<Rightarrow> 'v component_values \<Rightarrow> 'v component_values" where
  "set_default k v c = (if map_of c k = None then AList.update k v c else c)"

definition fill_defaults :: "(string \<times> 'v) list \<Rightarrow> 'v component_values \<Rightarrow> 'v component_values" where
  "fill_defaults ds c = fold (\<lambda>(k, v). set_default k v) ds c"

definition put_all :: "(string \<times> 'v) list \<Rightarrow> 'v component_values \<Rightarrow> 'v component_values" where
  "put_all ds c = fold (\<lambda>(k, v). AList.update k v) ds c"

lemma map_of_set_default: "map_of (set_default k v c) = (if map_of c k = None then (map_of c)(k \<mapsto> v) else map_of c)"
  by (simp add: set_default_def update_conv')

lemma fill_defaults_simps [simp]:
  "fill_defaults [] c = c" "fill_defaults ((k, v) # ds) c = fill_defaults ds (set_default k v c)"
  by (simp_all add: fill_defaults_def)

lemma fill_defaults_append: "fill_defaults (ds @ es) c = fill_defaults es (fill_defaults ds c)"
  by (simp add: fill_defaults_def)

lemma fill_defaults_keeps: "map_of c k = Some x \<Longrightarrow> map_of (fill_defaults ds c) k = Some x"
proof (induction ds arbitrary: c)
  case (Cons d ds)
  obtain j v where d: "d = (j, v)" by fastforce
  have "map_of (set_default j v c) k = Some x" using Cons.prems by (auto simp: map_of_set_default)
  then show ?case unfolding d by (simp add: Cons.IH)
qed simp

lemma fill_defaults_dom: "dom (map_of (fill_defaults ds c)) = fst ` set ds \<union> dom (map_of c)"
proof (induction ds arbitrary: c)
  case (Cons d ds)
  obtain j v where d: "d = (j, v)" by fastforce
  have "dom (map_of (set_default j v c)) = insert j (dom (map_of c))" by (auto simp: map_of_set_default)
  then show ?case unfolding d by (auto simp: Cons.IH)
qed simp

lemma fill_defaults_idle: "fst ` set ds \<subseteq> dom (map_of c) \<Longrightarrow> fill_defaults ds c = c"
proof (induction ds)
  case (Cons d ds)
  then show ?case by (cases d) (auto simp: set_default_def)
qed simp

text \<open>The value of a key that was missing is the first default for it.\<close>

lemma fill_defaults_missing:
  "map_of c k = None \<Longrightarrow> map_of (fill_defaults ds c) k = map_of ds k"
proof (induction ds arbitrary: c)
  case (Cons d ds)
  obtain j v where d: "d = (j, v)" by fastforce
  show ?case
  proof (cases "j = k")
    case True
    then have "map_of (set_default j v c) k = Some v" using Cons.prems by (simp add: map_of_set_default)
    then show ?thesis using True unfolding d by (simp add: fill_defaults_keeps)
  next
    case False
    then have "map_of (set_default j v c) k = None" using Cons.prems by (simp add: map_of_set_default)
    then show ?thesis using False unfolding d by (simp add: Cons.IH)
  qed
qed simp

subsection \<open>The contract of a filling\<close>

locale config_fill =
  fixes fill :: "'v component_values \<Rightarrow> 'v component_values" and keys :: "string set"
  assumes fill_keeps: "map_of c k = Some x \<Longrightarrow> map_of (fill c) k = Some x"
    and fill_dom: "dom (map_of (fill c)) = keys \<union> dom (map_of c)"
    and fill_idle: "keys \<subseteq> dom (map_of c) \<Longrightarrow> fill c = c"
begin

lemma fill_fill: "fill (fill c) = fill c"
  by (rule fill_idle) (simp add: fill_dom)

lemma fill_unchanged_iff: "fill c = c \<longleftrightarrow> keys \<subseteq> dom (map_of c)"
  by (metis Un_upper1 fill_dom fill_idle)

lemma fill_filled: "keys \<subseteq> dom (map_of (fill c))"
  by (simp add: fill_dom)

end

lemma fill_defaults_fill: "config_fill (fill_defaults ds) (fst ` set ds)"
  by unfold_locales (auto simp: fill_defaults_keeps fill_defaults_dom fill_defaults_idle)

end
