(* ===== verification/Client_Pages.thy ===== *)
theory Client_Pages
  imports Realm_Events Composites Units Store_Config
begin

section \<open>The admin console: further pages of a client\<close>

text \<open>
  controllers/clients.js: \<open>ClientTabCtrl\<close> (7-19), \<open>ClientRoleListCtrl\<close> (21-43), \<open>ClientIdentityProviderCtrl\<close> (267-352),
  \<open>ClientSessionsCtrl\<close> and \<open>ClientOfflineSessionsCtrl\<close> (581-675), \<open>ClientRoleDetailCtrl\<close> (677-729), \<open>ClientImportCtrl\<close>
  (731-777), \<open>ClientInstallationCtrl\<close> (836-877), \<open>ClientRevocationCtrl\<close> (1611-1664), \<open>ClientClusteringCtrl\<close> (1666-1735),
  \<open>ClientClusteringNodeCtrl\<close> (1737-1779), \<open>ClientStoresCtrl\<close> (2971-3026) and \<open>GenericClientStorageCtrl\<close> (3028-3176).
  Not modelled: the upload and the download of files themselves, the reprinting of JSON, the watches on the path.
\<close>

subsection \<open>Removing clients and roles\<close>

definition removeClient_confirmed :: "string \<Rightarrow> string \<Rightarrow> unit ui_effect list" where
  "removeClient_confirmed realm client = [Request ''DELETE'' ''Client'' [(''realm'', realm), (''client'', client)] ()]"

definition removeClient_done :: "string \<Rightarrow> unit ui_effect list" where
  "removeClient_done realm = [GoTo (''/realms/'' @ realm @ ''/clients''), Notify ''success'' ''The client has been deleted.'']"

definition removeClientRole_confirmed :: "string \<Rightarrow> string \<Rightarrow> unit ui_effect list" where
  "removeClientRole_confirmed realm role = [Request ''DELETE'' ''RoleById'' [(''realm'', realm), (''role'', role)] ()]"

definition removeClientRole_done :: "unit ui_effect list" where
  "removeClientRole_done = [Reload, Notify ''success'' ''The role has been deleted.'']"

text \<open>The editor of a role of a client: \<open>roleControl\<close> does the rest (theory Composites).\<close>

definition client_role_save :: "string \<Rightarrow> bool \<Rightarrow> composite \<Rightarrow> composite" where
  "client_role_save client create s =
     (if create then
        co_do (Request ''POST'' ''ClientRole'' [(''realm'', co_realm s), (''client'', client)] (RoleBody (co_scopeRole s))) s
      else role_update s)"

definition client_role_created :: "string \<Rightarrow> composite \<Rightarrow> composite" where
  "client_role_created client s =
     (let s = s\<lparr>co_changed := False\<rparr> in
      co_do (Request ''GET'' ''ClientRole'' [(''realm'', co_realm s), (''client'', client), (''role'', rr_name (co_scopeRole s))]
        EmptyBody) s)"

definition client_roles_url :: "string \<Rightarrow> composite \<Rightarrow> string" where
  "client_roles_url client s = ''/realms/'' @ co_realm s @ ''/clients/'' @ client @ ''/roles''"

definition client_role_found :: "string \<Rightarrow> string \<Rightarrow> composite \<Rightarrow> composite" where
  "client_role_found client i s =
     co_do (Notify ''success'' ''The role has been created.'') (co_do (GoTo (client_roles_url client s @ ''/'' @ i)) s)"

definition client_role_cancel :: "string \<Rightarrow> composite \<Rightarrow> composite" where
  "client_role_cancel client s = co_do (GoTo (client_roles_url client s)) s"

definition client_role_remove :: "composite \<Rightarrow> composite" where
  "client_role_remove s = co_do (ConfirmDelete (rr_name (co_scopeRole s)) ''role'') s"

definition client_role_remove_confirmed :: "string \<Rightarrow> composite \<Rightarrow> composite" where
  "client_role_remove_confirmed client s =
     co_do (Request ''DELETE'' ''ClientRole''
       [(''realm'', co_realm s), (''client'', client), (''role'', undef_str (rr_id (co_scopeRole s)))] EmptyBody) s"

definition client_role_removed :: "string \<Rightarrow> composite \<Rightarrow> composite" where
  "client_role_removed client s =
     co_do (Notify ''success'' ''The role has been deleted.'') (co_do (GoTo (client_roles_url client s)) s)"

subsection \<open>Identity providers of a client\<close>

datatype retrieve = RtUndefined | RtBool bool | RtText string

record client_provider =
  cv_id :: string
  cv_retrieveToken :: retrieve

type_synonym shown_provider = "(string \<times> retrieve) option"

fun retrieve_text :: "retrieve \<Rightarrow> retrieve" where
  "retrieve_text (RtBool True) = RtText ''true''"
| "retrieve_text r = r"

text \<open>Assigning to an index of an array: holes are None.\<close>

definition array_set :: "nat \<Rightarrow> 'a \<Rightarrow> 'a option list \<Rightarrow> 'a option list" where
  "array_set i x xs =
     (if i < length xs then xs[i := Some x] else xs @ replicate (i - length xs) None @ [Some x])"

fun find_provider :: "string \<Rightarrow> client_provider list \<Rightarrow> (nat \<times> client_provider) option" where
  "find_provider i [] = None"
| "find_provider i (p # ps) = (if cv_id p = i then Some (0, p) else map_option (\<lambda>(n, q). (Suc n, q)) (find_provider i ps))"

definition place_provider ::
  "client_provider list \<Rightarrow> string \<Rightarrow> shown_provider list \<times> string list \<Rightarrow> shown_provider list \<times> string list" where
  "place_provider cs i acc =
     (case acc of (shown, missing) \<Rightarrow>
        (case find_provider i cs of
           Some (n, p) \<Rightarrow> (array_set n (i, cv_retrieveToken p) shown, missing)
         | None \<Rightarrow> (shown, missing @ [i])))"

record idp_choice_page =
  iv_realm :: string
  iv_client :: string
  iv_clientProviders :: "client_provider list"
  iv_identityProviders :: "shown_provider list"
  iv_oldCopy :: "client_provider list"
  iv_changed :: bool
  iv_effects :: "client_provider list ui_effect list"

definition add_missing ::
  "string \<Rightarrow> shown_provider list \<times> client_provider list \<Rightarrow> shown_provider list \<times> client_provider list" where
  "add_missing i acc =
     (case acc of (shown, cs) \<Rightarrow>
        (shown @ [Some (i, RtText ''false'')], cs @ [\<lparr>cv_id = i, cv_retrieveToken = RtText ''false''\<rparr>]))"

definition new_idp_choice :: "string \<Rightarrow> string \<Rightarrow> string list \<Rightarrow> client_provider list option \<Rightarrow> idp_choice_page" where
  "new_idp_choice realm client providers stored =
     (let cs = (case stored of None \<Rightarrow> [] | Some ps \<Rightarrow> map (\<lambda>p. p\<lparr>cv_retrieveToken := retrieve_text (cv_retrieveToken p)\<rparr>) ps);
          (shown, missing) = fold (place_provider cs) providers ([], []);
          (shown, cs) = fold add_missing missing (shown, cs) in
      \<lparr>iv_realm = realm, iv_client = client, iv_clientProviders = cs, iv_identityProviders = shown, iv_oldCopy = cs,
       iv_changed = False, iv_effects = []\<rparr>)"

definition watch_idp_choice :: "idp_choice_page \<Rightarrow> idp_choice_page" where
  "watch_idp_choice s = (if iv_clientProviders s \<noteq> iv_oldCopy s then s\<lparr>iv_changed := True\<rparr> else s)"

definition idp_choice_save :: "idp_choice_page \<Rightarrow> idp_choice_page" where
  "idp_choice_save s =
     s\<lparr>iv_effects := iv_effects s @
         [Request ''PUT'' ''Client'' [(''realm'', iv_realm s), (''client'', iv_client s)] (iv_clientProviders s)]\<rparr>"

definition idp_choice_saved :: "idp_choice_page \<Rightarrow> idp_choice_page" where
  "idp_choice_saved s =
     s\<lparr>iv_changed := False,
       iv_effects := iv_effects s @ [Reload, Notify ''success'' ''Your changes have been saved to the client.'']\<rparr>"

definition idp_choice_reset :: "idp_choice_page \<Rightarrow> idp_choice_page" where
  "idp_choice_reset s = s\<lparr>iv_clientProviders := iv_oldCopy s, iv_changed := False\<rparr>"

subsection \<open>Sessions\<close>

text \<open>Both pages are the same text with \<open>ClientUserSessions\<close> and \<open>ClientOfflineSessions\<close>.\<close>

record session_page =
  sn_resource :: string
  sn_realm :: string
  sn_client :: string
  sn_count :: int
  sn_first :: int
  sn_max :: int
  sn_sessions :: "string list"
  sn_sent :: "int list"

definition new_session_page :: "bool \<Rightarrow> string \<Rightarrow> string \<Rightarrow> int \<Rightarrow> session_page" where
  "new_session_page offline realm client n =
     \<lparr>sn_resource = (if offline then ''ClientOfflineSessions'' else ''ClientUserSessions''), sn_realm = realm, sn_client = client,
      sn_count = n, sn_first = 0, sn_max = 5, sn_sessions = [], sn_sent = []\<rparr>"

definition loadSessions :: "session_page \<Rightarrow> session_page" where
  "loadSessions s = s\<lparr>sn_sent := sn_sent s @ [sn_first s]\<rparr>"

definition sessions_answer :: "string list \<Rightarrow> session_page \<Rightarrow> session_page" where
  "sessions_answer xs s = s\<lparr>sn_sessions := xs\<rparr>"

definition sessions_firstPage :: "session_page \<Rightarrow> session_page" where
  "sessions_firstPage s = loadSessions (s\<lparr>sn_first := 0\<rparr>)"

definition sessions_previousPage :: "session_page \<Rightarrow> session_page" where
  "sessions_previousPage s =
     (let first = sn_first s - sn_max s in loadSessions (s\<lparr>sn_first := (if first < 0 then 0 else first)\<rparr>))"

definition sessions_nextPage :: "session_page \<Rightarrow> session_page" where
  "sessions_nextPage s = loadSessions (s\<lparr>sn_first := sn_first s + sn_max s\<rparr>)"

subsection \<open>Import and installation\<close>

record client_import =
  cm_realm :: string
  cm_files :: "nat option"
  cm_configFormat :: "string option"
  cm_effects :: "unit ui_effect list"

definition new_client_import :: "string \<Rightarrow> client_import" where
  "new_client_import realm = \<lparr>cm_realm = realm, cm_files = Some 0, cm_configFormat = None, cm_effects = []\<rparr>"

definition client_onFileSelect :: "nat \<Rightarrow> client_import \<Rightarrow> client_import" where
  "client_onFileSelect n s = s\<lparr>cm_files := Some n\<rparr>"

definition client_clearFileSelect :: "client_import \<Rightarrow> client_import" where
  "client_clearFileSelect s = s\<lparr>cm_files := None\<rparr>"

text \<open>Without a list of files reading its length raises; without a chosen format reading its id does, if there is a file.\<close>

definition client_uploadFile :: "(client_import, unit) comp" where
  "client_uploadFile s =
     (case cm_files s of
        None \<Rightarrow> (Throw TypeError, s)
      | Some n \<Rightarrow>
          if n = 0 then (Ok (), s)
          else (case cm_configFormat s of
                  None \<Rightarrow> (Throw TypeError, s)
                | Some f \<Rightarrow>
                    (Ok (), s\<lparr>cm_effects := cm_effects s @ replicate n (Request ''POST''
                       (''/admin/realms/'' @ cm_realm s @ ''/client-importers/'' @ f @ ''/upload'') [(''myObj'', [])] ())\<rparr>)))"

definition client_uploaded :: "bool \<Rightarrow> client_import \<Rightarrow> client_import" where
  "client_uploaded ok s =
     s\<lparr>cm_effects := cm_effects s @
         (if ok then [Notify ''success'' ''Uploaded successfully.'', GoTo (''/realms/'' @ cm_realm s @ ''/clients'')]
          else [Notify ''error'' ''The file can not be uploaded. Please verify the file.''])\<rparr>"

record install_format =
  if_id :: string
  if_mediaType :: string
  if_filename :: string

record installation_page =
  ig_realm :: string
  ig_client :: string
  ig_formats :: "install_format list"
  ig_configFormat :: "install_format option"
  ig_installation :: "string option"
  ig_effects :: "unit ui_effect list"

text \<open>The length of the list is read: without formats for the protocol this raises.\<close>

definition new_installation ::
  "string \<Rightarrow> string \<Rightarrow> string option \<Rightarrow> (string \<Rightarrow> install_format list option) \<Rightarrow> installation_page res" where
  "new_installation realm client protocol formats =
     (case formats (if str_truthy protocol then undef_str protocol else ''openid-connect'') of
        None \<Rightarrow> Throw TypeError
      | Some fs \<Rightarrow>
          Ok \<lparr>ig_realm = realm, ig_client = client, ig_formats = fs, ig_configFormat = None, ig_installation = None, ig_effects = []\<rparr>)"

definition changeFormat :: "(installation_page, unit) comp" where
  "changeFormat s =
     (case ig_configFormat s of
        None \<Rightarrow> (Throw TypeError, s)
      | Some f \<Rightarrow>
          (Ok (), s\<lparr>ig_effects := ig_effects s @ [Request ''GET'' ''ClientInstallation''
             [(''realm'', ig_realm s), (''client'', ig_client s), (''provider'', if_id f)] ()]\<rparr>))"

text \<open>The answer is kept as it is, or reprinted when the format chosen by then is JSON.\<close>

definition installation_answer :: "(string \<Rightarrow> string) \<Rightarrow> bool \<Rightarrow> string \<Rightarrow> (installation_page, unit) comp" where
  "installation_answer reprint zipped data s =
     (if zipped then (Ok (), s\<lparr>ig_installation := Some data\<rparr>)
      else (case ig_configFormat s of
              None \<Rightarrow> (Throw TypeError, s)
            | Some f \<Rightarrow>
                (Ok (), s\<lparr>ig_installation := Some (if if_mediaType f = ''application/json'' then reprint data else data)\<rparr>)))"

subsection \<open>Revocation\<close>

record client_revocation =
  cr_realmName :: string
  cr_clientId :: string
  cr_notBefore :: rat
  cr_shown :: "rat option"
  cr_log :: "rat option ui_effect list"

definition client_setNotBefore :: "client_revocation \<Rightarrow> client_revocation" where
  "client_setNotBefore s = s\<lparr>cr_shown := (if cr_notBefore s = 0 then None else Some (cr_notBefore s * 1000))\<rparr>"

definition crv_do :: "rat option ui_effect list \<Rightarrow> client_revocation \<Rightarrow> client_revocation" where
  "crv_do es s = s\<lparr>cr_log := cr_log s @ es\<rparr>"

definition cr_params :: "client_revocation \<Rightarrow> (string \<times> string) list" where
  "cr_params s = [(''realm'', cr_realmName s), (''client'', cr_clientId s)]"

definition new_client_revocation :: "string \<Rightarrow> string \<Rightarrow> rat \<Rightarrow> client_revocation" where
  "new_client_revocation realm client t =
     client_setNotBefore \<lparr>cr_realmName = realm, cr_clientId = client, cr_notBefore = t, cr_shown = None, cr_log = []\<rparr>"

definition client_refresh :: "client_revocation \<Rightarrow> client_revocation" where
  "client_refresh s = crv_do [Request ''GET'' ''Client'' (cr_params s) None] s"

definition client_refreshed :: "rat \<Rightarrow> client_revocation \<Rightarrow> client_revocation" where
  "client_refreshed t s = client_setNotBefore (s\<lparr>cr_notBefore := t\<rparr>)"

definition client_clear :: "client_revocation \<Rightarrow> client_revocation" where
  "client_clear s = crv_do [Request ''PUT'' ''Client'' (cr_params s) (Some 0)] (s\<lparr>cr_notBefore := 0\<rparr>)"

definition client_cleared :: "client_revocation \<Rightarrow> client_revocation" where
  "client_cleared s = client_refresh (crv_do [Notify ''success'' ''Not Before cleared for client.''] (s\<lparr>cr_shown := None\<rparr>))"

definition client_setNotBeforeNow :: "int \<Rightarrow> client_revocation \<Rightarrow> client_revocation" where
  "client_setNotBeforeNow now s =
     (let t = of_int now / 1000 in crv_do [Request ''PUT'' ''Client'' (cr_params s) (Some t)] (s\<lparr>cr_notBefore := t\<rparr>))"

definition client_setNotBeforeNow_done :: "client_revocation \<Rightarrow> client_revocation" where
  "client_setNotBeforeNow_done s = client_refresh (crv_do [Notify ''success'' ''Not Before set for client.''] s)"

definition client_pushRevocation :: "client_revocation \<Rightarrow> client_revocation" where
  "client_pushRevocation s = crv_do [Request ''POST'' ''ClientPushRevocation'' (cr_params s) None] s"

text \<open>What an answer for several addresses is reported as; the two pages differ in their texts.\<close>

definition global_report :: "string \<Rightarrow> string \<Rightarrow> string \<Rightarrow> string \<Rightarrow> string \<Rightarrow> global_result \<Rightarrow> 'a ui_effect" where
  "global_report nothing part failed hint done r =
     (let ok = result_list (gr_success r); bad = result_list (gr_failed r) in
      if ok = [] \<and> bad = [] then Notify ''warn'' nothing
      else if bad \<noteq> [] then
        Notify ''error'' ((if ok \<noteq> [] then part @ join '','' ok @ '' . '' else []) @ failed @ join '','' bad @ hint)
      else Notify ''success'' (done @ join '','' ok))"

definition client_pushed :: "global_result \<Rightarrow> client_revocation \<Rightarrow> client_revocation" where
  "client_pushed r s =
     crv_do [global_report ''No push sent. No admin URI configured or no registered cluster nodes available''
       ''Successfully push notBefore to: '' ''Failed to push notBefore to: '' ''. Verify availability of failed hosts and try again''
       ''Successfully push notBefore to: '' r] s"

subsection \<open>Clustering\<close>

text \<open>The client as this page edits it: the unit is a field that the page adds. A time that is undefined is None.\<close>

record cluster_client =
  uc_timeout :: "int option"
  uc_unit :: "string option"
  uc_nodes :: "(string \<times> int) list option"

record cluster_page =
  up_realm :: string
  up_clientId :: string
  up_client :: cluster_client
  up_oldCopy :: cluster_client
  up_changed :: bool
  up_nodeRegistrations :: "(string \<times> int) list option"
  up_effects :: "cluster_client option ui_effect list"

definition up_do :: "cluster_client option ui_effect list \<Rightarrow> cluster_page \<Rightarrow> cluster_page" where
  "up_do es s = s\<lparr>up_effects := up_effects s @ es\<rparr>"

text \<open>\<open>toUnit\<close> of an undefined time is NaN, which is None again; the unit that is chosen is always known.\<close>

definition shown_timeout :: "int option \<Rightarrow> int option" where
  "shown_timeout t =
     (case t of None \<Rightarrow> None | Some n \<Rightarrow> (case toUnit n (autoUnit t) of Ok m \<Rightarrow> Some m | Throw _ \<Rightarrow> None))"

definition new_cluster_page :: "string \<Rightarrow> string \<Rightarrow> cluster_client \<Rightarrow> cluster_page" where
  "new_cluster_page realm client c =
     \<lparr>up_realm = realm, up_clientId = client,
      up_client = c\<lparr>uc_unit := Some (autoUnit (uc_timeout c)), uc_timeout := shown_timeout (uc_timeout c)\<rparr>,
      up_oldCopy = c, up_changed = False,
      up_nodeRegistrations = map_option (map (\<lambda>(n, t). (n, t * 1000))) (uc_nodes c), up_effects = []\<rparr>"

definition watch_cluster :: "cluster_page \<Rightarrow> cluster_page" where
  "watch_cluster s = (if up_client s \<noteq> up_oldCopy s then s\<lparr>up_changed := True\<rparr> else s)"

definition cluster_save :: "(cluster_page, unit) comp" where
  "cluster_save s =
     (let copy = (up_client s)\<lparr>uc_unit := None\<rparr> in
      case uc_timeout (up_client s) of
        None \<Rightarrow> (Ok (), up_do [Request ''PUT'' ''Client'' [(''realm'', up_realm s), (''client'', up_clientId s)] (Some copy)] s)
      | Some n \<Rightarrow>
          (case toSeconds n (undef_str (uc_unit (up_client s))) of
             Throw e \<Rightarrow> (Throw e, s)
           | Ok t \<Rightarrow> (Ok (), up_do [Request ''PUT'' ''Client'' [(''realm'', up_realm s), (''client'', up_clientId s)]
                       (Some (copy\<lparr>uc_timeout := Some t\<rparr>))] s)))"

definition cluster_saved :: "cluster_page \<Rightarrow> cluster_page" where
  "cluster_saved s = up_do [Reload, Notify ''success'' ''Your changes have been saved to the client.''] s"

definition cluster_reset :: "cluster_page \<Rightarrow> cluster_page" where
  "cluster_reset s = up_do [Reload] s"

definition testNodesAvailable :: "cluster_page \<Rightarrow> cluster_page" where
  "testNodesAvailable s =
     up_do [Request ''GET'' ''ClientTestNodesAvailable'' [(''realm'', up_realm s), (''client'', up_clientId s)] None] s"

definition testNodes_answer :: "global_result \<Rightarrow> cluster_page \<Rightarrow> cluster_page" where
  "testNodes_answer r s =
     up_do [Reload, global_report ''No requests sent. No admin URI configured or no registered cluster nodes available''
       ''Successfully verify availability for '' ''Failed to verify availability for: ''
       ''. Fix or unregister failed cluster nodes and try again'' ''Successfully sent requests to: '' r] s"

definition removeNode :: "string \<Rightarrow> cluster_page \<Rightarrow> cluster_page" where
  "removeNode host s = up_do [ConfirmDelete host ''node''] s"

definition removeNode_confirmed :: "string \<Rightarrow> cluster_page \<Rightarrow> cluster_page" where
  "removeNode_confirmed host s =
     up_do [Request ''DELETE'' ''ClientClusterNode'' [(''realm'', up_realm s), (''client'', up_clientId s), (''node'', host)] None] s"

definition removeNode_done :: "string \<Rightarrow> cluster_page \<Rightarrow> cluster_page" where
  "removeNode_done host s = up_do [Notify ''success'' (''Node '' @ host @ '' unregistered successfully.''), Reload] s"

record node_page =
  nd_realm :: string
  nd_client :: string
  nd_create :: bool
  nd_registered :: bool
  nd_host :: "string option"
  nd_lastRegistration :: "int option"
  nd_effects :: "unit ui_effect list"

definition new_node_page :: "string \<Rightarrow> string \<Rightarrow> (string \<times> int) list option \<Rightarrow> string option \<Rightarrow> node_page res" where
  "new_node_page realm client nodes node =
     (if \<not> str_truthy node then
        Ok \<lparr>nd_realm = realm, nd_client = client, nd_create = True, nd_registered = False, nd_host = None,
            nd_lastRegistration = None, nd_effects = []\<rparr>
      else (case nodes of
              None \<Rightarrow> Throw TypeError
            | Some ns \<Rightarrow>
                (let t = map_of ns (undef_str node); known = (t \<noteq> None \<and> t \<noteq> Some 0) in
                 Ok \<lparr>nd_realm = realm, nd_client = client, nd_create = False, nd_registered = known, nd_host = node,
                     nd_lastRegistration = (if known then map_option (\<lambda>x. x * 1000) t else None), nd_effects = []\<rparr>)))"

text \<open>The object that the calls are given. For \<open>save\<close>, which gets it without another, it is the body, from which the resource takes
  its parameters.\<close>

definition node_params :: "node_page \<Rightarrow> (string \<times> string) list" where
  "node_params s = [(''realm'', nd_realm s), (''client'', nd_client s), (''node'', undef_str (nd_host s))]"

definition node_save :: "node_page \<Rightarrow> node_page" where
  "node_save s = s\<lparr>nd_effects := nd_effects s @ [Request ''POST'' ''ClientClusterNode'' (node_params s) ()]\<rparr>"

definition unregisterNode :: "node_page \<Rightarrow> node_page" where
  "unregisterNode s = s\<lparr>nd_effects := nd_effects s @ [ConfirmDelete (undef_str (nd_host s)) ''node'']\<rparr>"

definition unregisterNode_confirmed :: "node_page \<Rightarrow> node_page" where
  "unregisterNode_confirmed s = s\<lparr>nd_effects := nd_effects s @ [Request ''DELETE'' ''ClientClusterNode'' (node_params s) ()]\<rparr>"

definition node_done :: "bool \<Rightarrow> node_page \<Rightarrow> node_page" where
  "node_done saved s =
     s\<lparr>nd_effects := nd_effects s @
         [Notify ''success'' (''Node '' @ undef_str (nd_host s) @ (if saved then '' registered successfully.'' else '' unregistered successfully.'')),
          GoTo (''/realms/'' @ nd_realm s @ ''/clients/'' @ nd_client s @ ''/clustering'')]\<rparr>"

subsection \<open>Client storage\<close>

definition isProviderEnabled :: "string list store_instance \<Rightarrow> bool" where
  "isProviderEnabled i =
     (case map_of (si_config i) ''enabled'' of None \<Rightarrow> True | Some [] \<Rightarrow> False | Some (v # _) \<Rightarrow> v = ''true'')"

definition getInstancePriority :: "string list store_instance \<Rightarrow> string option" where
  "getInstancePriority i =
     (case map_of (si_config i) ''priority'' of None \<Rightarrow> Some ''0'' | Some [] \<Rightarrow> None | Some (v # _) \<Rightarrow> Some v)"

definition getInstanceLink :: "string \<Rightarrow> string list store_instance \<Rightarrow> string" where
  "getInstanceLink realm i =
     ''/realms/'' @ realm @ ''/client-storage/providers/'' @ undef_str (si_providerId i) @ ''/'' @ undef_str (si_id i)"

record store_list =
  so_realm :: string
  so_realmId :: string
  so_instances :: "string list store_instance list option"
  so_loaded :: bool
  so_effects :: "unit ui_effect list"

definition new_store_list :: "string \<Rightarrow> string \<Rightarrow> store_list" where
  "new_store_list realm realmId =
     \<lparr>so_realm = realm, so_realmId = realmId, so_instances = None, so_loaded = False,
      so_effects = [Request ''GET'' ''Components'' [(''realm'', realm), (''parent'', realmId),
        (''type'', ''org.keycloak.storage.client.ClientStorageProvider'')] ()]\<rparr>"

definition store_list_answer :: "string list store_instance list \<Rightarrow> store_list \<Rightarrow> store_list" where
  "store_list_answer xs s = s\<lparr>so_instances := Some xs, so_loaded := True\<rparr>"

definition store_addProvider :: "string \<Rightarrow> store_list \<Rightarrow> store_list" where
  "store_addProvider p s =
     s\<lparr>so_effects := so_effects s @ [GoTo (''/create/client-storage/'' @ so_realm s @ ''/providers/'' @ p)]\<rparr>"

definition removeInstance :: "string list store_instance \<Rightarrow> store_list \<Rightarrow> store_list" where
  "removeInstance i s = s\<lparr>so_effects := so_effects s @ [ConfirmDelete (si_name i) ''client storage provider'']\<rparr>"

definition removeInstance_confirmed :: "string list store_instance \<Rightarrow> store_list \<Rightarrow> store_list" where
  "removeInstance_confirmed i s =
     s\<lparr>so_effects := so_effects s @
         [Request ''DELETE'' ''Components'' [(''realm'', so_realm s), (''componentId'', undef_str (si_id i))] ()]\<rparr>"

definition removeInstance_done :: "store_list \<Rightarrow> store_list" where
  "removeInstance_done s = s\<lparr>so_effects := so_effects s @ [Reload, Notify ''success'' ''The provider has been deleted.'']\<rparr>"

definition property_default :: "store_property \<Rightarrow> string list" where
  "property_default p = [case sp_default p of None \<Rightarrow> [] | Some d \<Rightarrow> d]"

definition new_store_config :: "store_factory \<Rightarrow> string list component_values" where
  "new_store_config f =
     fold (\<lambda>p. AList.update (sp_name p) (property_default p)) (properties_of f)
       (fold (\<lambda>(k, v). AList.update k v)
         [(''priority'', [''0'']), (''enabled'', [''true'']), (''cachePolicy'', [''DEFAULT'']), (''evictionDay'', [[]]),
          (''evictionHour'', [[]]), (''evictionMinute'', [[]]), (''maxLifespan'', [[]])] [])"

definition filled_store_config :: "store_factory \<Rightarrow> string list component_values \<Rightarrow> string list component_values" where
  "filled_store_config f c =
     fold (\<lambda>p. set_default (sp_name p) [[]]) (properties_of f)
       (fold (\<lambda>(k, v). set_default k v)
         [(''enabled'', [''true'']), (''cachePolicy'', [''DEFAULT'']), (''evictionDay'', [[]]), (''evictionHour'', [[]]),
          (''evictionMinute'', [[]]), (''maxLifespan'', [[]]), (''priority'', [''0''])] c)"

record store_page =
  sr_realm :: string
  sr_create :: bool
  sr_instance :: "string list store_instance"
  sr_stored :: "string list store_instance"
  sr_changed :: bool
  sr_effects :: "string list store_instance ui_effect list"

definition initClientStorageSettings :: "string \<Rightarrow> store_factory \<Rightarrow> string list store_instance \<Rightarrow> string list store_instance" where
  "initClientStorageSettings realmId f i =
     (if \<not> str_truthy (si_providerId i) then
        i\<lparr>si_name := sf_id f, si_providerId := Some (sf_id f),
          si_providerType := Some ''org.keycloak.storage.client.ClientStorageProvider'', si_parentId := realmId,
          si_config := new_store_config f\<rparr>
      else i\<lparr>si_config := filled_store_config f (si_config i)\<rparr>)"

text \<open>The first factory with the id of the route; without one, reading its id raises.\<close>

definition new_store_page :: "string \<Rightarrow> string \<Rightarrow> store_factory list \<Rightarrow> string \<Rightarrow> string list store_instance \<Rightarrow> store_page res" where
  "new_store_page realm realmId factories providerId i =
     (case find (\<lambda>f. sf_id f = providerId) factories of
        None \<Rightarrow> Throw TypeError
      | Some f \<Rightarrow>
          (let j = initClientStorageSettings realmId f i in
           Ok \<lparr>sr_realm = realm, sr_create = (\<not> str_truthy (si_providerId i)), sr_instance = j, sr_stored = j,
               sr_changed = (\<not> str_truthy (si_providerId i)), sr_effects = []\<rparr>))"

definition watch_store :: "store_page \<Rightarrow> store_page" where
  "watch_store s = (if sr_instance s \<noteq> sr_stored s then s\<lparr>sr_changed := True\<rparr> else s)"

definition store_save :: "store_page \<Rightarrow> store_page" where
  "store_save s =
     s\<lparr>sr_changed := False, sr_effects := sr_effects s @
         [if sr_create s then Request ''POST'' ''Components'' [(''realm'', sr_realm s)] (sr_instance s)
          else Request ''PUT'' ''Components'' [(''realm'', sr_realm s), (''componentId'', undef_str (si_id (sr_stored s)))] (sr_instance s)]\<rparr>"

text \<open>The answer to a creation names the place of the new component.\<close>

definition store_saved :: "string \<Rightarrow> store_page \<Rightarrow> store_page" where
  "store_saved location s =
     s\<lparr>sr_effects := sr_effects s @
         (if sr_create s then
            [GoTo (''/realms/'' @ sr_realm s @ ''/client-storage/providers/'' @ undef_str (si_providerId (sr_instance s)) @ ''/''
               @ after_last CHR ''/'' location),
             Notify ''success'' ''The provider has been created.'']
          else [Reload, Notify ''success'' ''The provider has been updated.''])\<rparr>"

definition store_reset :: "store_page \<Rightarrow> store_page" where
  "store_reset s = s\<lparr>sr_effects := sr_effects s @ [Reload]\<rparr>"

definition store_cancel :: "store_page \<Rightarrow> store_page" where
  "store_cancel s =
     s\<lparr>sr_effects := sr_effects s @ [if sr_create s then GoTo (''/realms/'' @ sr_realm s @ ''/client-stores'') else Reload]\<rparr>"

subsection \<open>Properties of the lists\<close>

text \<open>After the selection of files was cleared, an upload raises: the list of files is null then, not empty as at first.\<close>

theorem upload_after_clear_raises: "fst (client_uploadFile (client_clearFileSelect s)) = Throw TypeError"
  by (simp add: client_uploadFile_def client_clearFileSelect_def)

lemma find_provider_Some:
  "find_provider i cs = Some (n, p) \<Longrightarrow> n < length cs \<and> cs ! n = p \<and> cv_id p = i"
  by (induction cs arbitrary: n p) (auto split: if_splits)

lemma find_provider_None: "find_provider i cs = None \<longleftrightarrow> i \<notin> cv_id ` set cs"
  by (induction cs) auto

lemma place_missing: "snd (fold (place_provider cs) ps (shown, missing)) = missing @ filter (\<lambda>i. i \<notin> cv_id ` set cs) ps"
proof (induction ps arbitrary: shown missing)
  case (Cons i ps)
  show ?case
    by (cases "find_provider i cs") (use Cons find_provider_None [of i cs] in \<open>auto simp: place_provider_def\<close>)
qed simp

lemma add_missing_fold:
  "fold add_missing ms (shown, cs) =
     (shown @ map (\<lambda>i. Some (i, RtText ''false'')) ms, cs @ map (\<lambda>i. \<lparr>cv_id = i, cv_retrieveToken = RtText ''false''\<rparr>) ms)"
  by (induction ms arbitrary: shown cs) (auto simp: add_missing_def)

text \<open>The page for the identity providers of a client leaves the client with the providers it had, in their order, and with each
  of the realm's other providers added, in the realm's order and without retrieval of tokens.\<close>

theorem client_providers_completed:
  "map cv_id (iv_clientProviders (new_idp_choice realm client providers (Some stored))) =
     map cv_id stored @ filter (\<lambda>i. i \<notin> cv_id ` set stored) providers"
proof -
  let ?cs = "map (\<lambda>p. p\<lparr>cv_retrieveToken := retrieve_text (cv_retrieveToken p)\<rparr>) stored"
  obtain shown missing where f: "fold (place_provider ?cs) providers ([], []) = (shown, missing)" by fastforce
  have "missing = filter (\<lambda>i. i \<notin> cv_id ` set stored) providers"
    using place_missing [of ?cs providers "[]" "[]"] f by (simp add: image_image)
  then show ?thesis using f by (simp add: new_idp_choice_def add_missing_fold comp_def Let_def)
qed

text \<open>A provider of the client that the realm does not have, at the end of its list, leaves the two lists of the page out of
  step.\<close>

theorem client_providers_out_of_step:
  "let s = new_idp_choice ''r'' ''c'' [''google''] (Some [\<lparr>cv_id = ''gone'', cv_retrieveToken = RtBool True\<rparr>]) in
   iv_identityProviders s = [Some (''google'', RtText ''false'')] \<and> map cv_id (iv_clientProviders s) = [''gone'', ''google'']"
  by code_simp

definition session_ops :: "session_page \<Rightarrow> session_page set" where
  "session_ops s =
     {sessions_firstPage s, sessions_previousPage s, sessions_nextPage s, loadSessions s} \<union> range (\<lambda>xs. sessions_answer xs s)"

inductive session_run :: "session_page \<Rightarrow> session_page \<Rightarrow> bool" for s0 where
  session_start: "session_run s0 s0"
| session_next: "session_run s0 s \<Longrightarrow> s' \<in> session_ops s \<Longrightarrow> session_run s0 s'"

text \<open>The pages of sessions start at multiples of five, and never before the first session.\<close>

theorem session_pages_aligned:
  assumes "session_run (new_session_page offline realm client n) s"
  shows "0 \<le> sn_first s \<and> 5 dvd sn_first s \<and> list_all (\<lambda>f. 0 \<le> f \<and> 5 dvd f) (sn_sent s)"
proof -
  from assms have "sn_max s = 5 \<and> 0 \<le> sn_first s \<and> 5 dvd sn_first s \<and> list_all (\<lambda>f. 0 \<le> f \<and> 5 dvd f) (sn_sent s)"
  proof (induction rule: session_run.induct)
    case session_start
    show ?case by (simp add: new_session_page_def)
  next
    case (session_next s s')
    then show ?case
      by (auto simp: session_ops_def sessions_firstPage_def sessions_previousPage_def sessions_nextPage_def loadSessions_def
          sessions_answer_def Let_def)
  qed
  then show ?thesis by simp
qed

text \<open>Answers are not told apart: the answer for a page that was left replaces the page the user is on.\<close>

theorem session_answers_mixed_up:
  "let s = sessions_answer first (sessions_answer second (sessions_nextPage (loadSessions (new_session_page offline realm client n)))) in
   sn_first s = 5 \<and> sn_sessions s = first"
  by (simp add: sessions_answer_def sessions_nextPage_def loadSessions_def new_session_page_def)

subsection \<open>Properties of the settings\<close>

text \<open>The page for clustering adds the unit of the timeout to the client after it copied it: it counts as changed at once.\<close>

theorem cluster_changed_at_once:
  "uc_unit c = None \<Longrightarrow> up_changed (watch_cluster (new_cluster_page realm client c))"
proof -
  assume "uc_unit c = None"
  then have "uc_unit (up_client (new_cluster_page realm client c)) \<noteq> uc_unit (up_oldCopy (new_cluster_page realm client c))"
    by (simp add: new_cluster_page_def)
  then show ?thesis by (auto simp: watch_cluster_def)
qed

lemma autoUnit_known: "autoUnit t \<in> {''Seconds'', ''Minutes'', ''Hours'', ''Days''}"
  by (simp add: autoUnit_def Let_def)

text \<open>Saved as it is, it sends the stored timeout exactly when that is not one that is shown, rounded up, as days.\<close>

theorem cluster_timeout_kept_iff:
  assumes "uc_timeout c = Some t" and "t \<noteq> 0" and "uc_unit c = None"
  shows "cluster_save (new_cluster_page realm client c) =
      (Ok (), up_do [Request ''PUT'' ''Client'' [(''realm'', realm), (''client'', client)] (Some c)] (new_cluster_page realm client c)) \<longleftrightarrow>
    \<not> (24 dvd t \<and> \<not> 60 dvd t) \<and> \<not> (1440 dvd t \<and> \<not> 3600 dvd t)"
proof -
  obtain m where m: "toUnit t (autoUnit (Some t)) = Ok m"
    using autoUnit_known [of "Some t"] by (auto simp: toUnit_def)
  obtain u where u: "toSeconds m (autoUnit (Some t)) = Ok u"
    using autoUnit_known [of "Some t"] by (auto simp: toSeconds_def)
  have "c\<lparr>uc_unit := None, uc_timeout := Some u\<rparr> = c \<longleftrightarrow> u = t" using assms(1,3) by (cases c) auto
  moreover have "u = t \<longleftrightarrow> \<not> (24 dvd t \<and> \<not> 60 dvd t) \<and> \<not> (1440 dvd t \<and> \<not> 3600 dvd t)"
    using autoUnit_exact_iff [OF assms(2)] m u by simp
  ultimately show ?thesis
    using assms m u by (simp add: cluster_save_def new_cluster_page_def shown_timeout_def undef_str_def up_do_def Let_def)
qed

text \<open>A push or a test is reported as a success exactly when some address answered and none failed.\<close>

theorem global_report_success_iff:
  "(\<exists>text. global_report nothing part failed hint done r = Notify ''success'' text) \<longleftrightarrow>
     result_list (gr_success r) \<noteq> [] \<and> result_list (gr_failed r) = []"
  by (auto simp: global_report_def Let_def)

definition store_defaults :: "store_factory \<Rightarrow> (string \<times> string list) list" where
  "store_defaults f =
     [(''enabled'', [''true'']), (''cachePolicy'', [''DEFAULT'']), (''evictionDay'', [[]]), (''evictionHour'', [[]]),
      (''evictionMinute'', [[]]), (''maxLifespan'', [[]]), (''priority'', [''0''])] @ map (\<lambda>p. (sp_name p, [[]])) (properties_of f)"

lemma filled_as_defaults: "filled_store_config f = fill_defaults (store_defaults f)"
proof
  fix c
  have "fold (\<lambda>p. set_default (sp_name p) [[]]) ps c = fill_defaults (map (\<lambda>p. (sp_name p, [[]])) ps) c" for ps :: "store_property list" and c :: "string list component_values"
    by (induction ps arbitrary: c) auto
  then show "filled_store_config f c = fill_defaults (store_defaults f) c"
    by (simp add: filled_store_config_def store_defaults_def fill_defaults_append)
qed

interpretation client_fill: config_fill "filled_store_config f" "fst ` set (store_defaults f)" for f
  unfolding filled_as_defaults by (rule fill_defaults_fill)

text \<open>Opening a stored provider only fills in what is missing: every value the server has is kept.\<close>

theorem store_values_kept:
  "map_of c k = Some x \<Longrightarrow> map_of (filled_store_config f c) k = Some x"
  by (rule client_fill.fill_keeps)

text \<open>The page is opened as changed for a new provider only.\<close>

theorem store_opened_unchanged:
  "new_store_page realm realmId factories providerId i = Ok s \<Longrightarrow> watch_store s = s \<and> (sr_changed s \<longleftrightarrow> sr_create s)"
  by (auto simp: new_store_page_def watch_store_def Let_def split: option.splits)

text \<open>What is saved is what was shown: a provider that was opened and saved opens with the same settings.\<close>

theorem store_settings_roundtrip:
  assumes "str_truthy (si_providerId i)"
  shows "initClientStorageSettings realmId f (initClientStorageSettings realmId f i) = initClientStorageSettings realmId f i"
  using assms by (simp add: initClientStorageSettings_def client_fill.fill_fill)

end
