(* ===== verification/User_Federation.thy ===== *)
theory User_Federation
  imports Store_Config Numbers Services
begin

section \<open>The admin console: user federation\<close>

text \<open>
  controllers/users.js: \<open>UserFederationCtrl\<close> (627-681), \<open>GenericUserStorageCtrl\<close> (683-911), \<open>LDAPUserStorageCtrl\<close>
  (1001-1343), \<open>LDAPTabCtrl\<close> (1345-1358), \<open>LDAPMapperCtrl\<close> (1371-1454) and \<open>LDAPMapperCreateCtrl\<close> (1456-1510). The two
  storage controllers share most of their text; the page for LDAP extends the record of the other. A value of a configuration is a
  list of texts, where None is \<open>undefined\<close>; a switch that is undefined counts as off. Of \<open>UserDetailCtrl\<close>
  what theory Users leaves out is here.
\<close>

type_synonym cfg = "string option list component_values"

record user_factory = store_factory +
  uf_synchronizable :: bool

datatype store_body =
    NoBody
  | Component "string option list store_instance"
  | LdapTest "(string \<times> string option list option) list"

subsection \<open>The list of providers\<close>

record federation_list =
  ul_realm :: string
  ul_instances :: "string option list store_instance list option"
  ul_instancesLoaded :: bool
  ul_effects :: "unit ui_effect list"

definition user_storage_type :: string where
  "user_storage_type = ''org.keycloak.storage.UserStorageProvider''"

definition ul_do :: "unit ui_effect list \<Rightarrow> federation_list \<Rightarrow> federation_list" where
  "ul_do es s = s\<lparr>ul_effects := ul_effects s @ es\<rparr>"

definition new_federation_list :: "string \<Rightarrow> string \<Rightarrow> federation_list" where
  "new_federation_list realm realmId =
     \<lparr>ul_realm = realm, ul_instances = None, ul_instancesLoaded = False,
      ul_effects = [Request ''GET'' ''Components'' [(''realm'', realm), (''parent'', realmId), (''type'', user_storage_type)] ()]\<rparr>"

definition federation_list_answer :: "string option list store_instance list \<Rightarrow> federation_list \<Rightarrow> federation_list" where
  "federation_list_answer xs s = s\<lparr>ul_instances := Some xs, ul_instancesLoaded := True\<rparr>"

definition user_addProvider :: "string \<Rightarrow> federation_list \<Rightarrow> federation_list" where
  "user_addProvider p s = ul_do [GoTo (''/create/user-storage/'' @ ul_realm s @ ''/providers/'' @ p)] s"

definition user_getInstanceLink :: "string option list store_instance \<Rightarrow> federation_list \<Rightarrow> string" where
  "user_getInstanceLink i s =
     ''/realms/'' @ ul_realm s @ ''/user-storage/providers/'' @ undef_str (si_providerId i) @ ''/'' @ undef_str (si_id i)"

text \<open>The first value of a list, \<open>undefined\<close> when it is empty.\<close>

definition first_value :: "string option list \<Rightarrow> string option" where
  "first_value vs = (case vs of [] \<Rightarrow> None | v # _ \<Rightarrow> v)"

definition user_isProviderEnabled :: "string option list store_instance \<Rightarrow> bool" where
  "user_isProviderEnabled i \<longleftrightarrow>
     (case map_of (si_config i) ''enabled'' of None \<Rightarrow> True | Some vs \<Rightarrow> first_value vs = Some ''true'')"

text \<open>Here the missing priority is only reported on the console, and then read.\<close>

definition user_getInstancePriority :: "string option list store_instance \<Rightarrow> string option res" where
  "user_getInstancePriority i =
     (case map_of (si_config i) ''priority'' of None \<Rightarrow> Throw TypeError | Some vs \<Rightarrow> Ok (first_value vs))"

definition user_removeInstance :: "string option list store_instance \<Rightarrow> federation_list \<Rightarrow> federation_list" where
  "user_removeInstance i s = ul_do [ConfirmDelete (si_name i) ''user storage provider''] s"

definition user_removeInstance_confirmed :: "string option list store_instance \<Rightarrow> federation_list \<Rightarrow> federation_list" where
  "user_removeInstance_confirmed i s =
     ul_do [Request ''DELETE'' ''Components'' [(''realm'', ul_realm s), (''componentId'', undef_str (si_id i))] ()] s"

definition user_removeInstance_done :: "federation_list \<Rightarrow> federation_list" where
  "user_removeInstance_done s = ul_do [Reload, Notify ''success'' ''The provider has been deleted.''] s"

subsection \<open>The page of a provider\<close>

record user_store_page =
  us_realm :: string
  us_create :: bool
  us_instance :: "string option list store_instance"
  us_stored :: "string option list store_instance"
  us_changed :: bool
  us_fullSyncEnabled :: bool
  us_changedSyncEnabled :: bool
  us_showSync :: bool
  us_effects :: "store_body ui_effect list"

definition us_do :: "store_body ui_effect list \<Rightarrow> 'a user_store_page_scheme \<Rightarrow> 'a user_store_page_scheme" where
  "us_do es s = s\<lparr>us_effects := us_effects s @ es\<rparr>"

text \<open>The comparison of a text with zero, for the decimal integers that periods are: another text counts as NaN.\<close>

definition number_of_text :: "string \<Rightarrow> int option" where
  "number_of_text t =
     (let s = js_trim t in
      if s = [] then Some 0
      else if list_all (\<lambda>c. c \<in> set ''0123456789'') (if take 1 s = ''-'' \<or> take 1 s = ''+'' then drop 1 s else s)
      then parse_number s else None)"

definition positive_value :: "string option list option \<Rightarrow> bool" where
  "positive_value v =
     (case Option.bind v first_value of None \<Rightarrow> False | Some t \<Rightarrow> (case number_of_text t of None \<Rightarrow> False | Some n \<Rightarrow> 0 < n))"

definition property_value :: "store_property \<Rightarrow> string option list" where
  "property_value p = [Some (case sp_default p of None \<Rightarrow> [] | Some d \<Rightarrow> d)]"

definition text_values :: "string list \<Rightarrow> string option list" where
  "text_values xs = map Some xs"

definition cache_settings :: "(string \<times> string option list) list" where
  "cache_settings = [(''cachePolicy'', text_values [''DEFAULT'']), (''evictionDay'', text_values [[]]), (''evictionHour'', text_values [[]]),
     (''evictionMinute'', text_values [[]]), (''maxLifespan'', text_values [[]])]"

definition sync_settings :: "(string \<times> string option list) list" where
  "sync_settings = [(''fullSyncPeriod'', text_values [''-1'']), (''changedSyncPeriod'', text_values [''-1''])]"

definition new_user_config :: "user_factory \<Rightarrow> cfg" where
  "new_user_config f =
     put_all (map (\<lambda>p. (sp_name p, property_value p)) (properties_of f))
       (put_all cache_settings
         (put_all (if uf_synchronizable f then sync_settings else [])
           (put_all [(''priority'', text_values [''0'']), (''enabled'', text_values [''true''])] [])))"

definition user_defaults :: "user_factory \<Rightarrow> (string \<times> string option list) list" where
  "user_defaults f =
     (if uf_synchronizable f then sync_settings else []) @ [(''enabled'', text_values [''true''])] @ cache_settings
     @ [(''priority'', text_values [''0''])] @ map (\<lambda>p. (sp_name p, text_values [[]])) (properties_of f)"

definition show_sync :: "cfg \<Rightarrow> bool" where
  "show_sync c = (case map_of c ''importEnabled'' of None \<Rightarrow> True | Some vs \<Rightarrow> first_value vs = Some ''true'')"

definition new_component :: "string \<Rightarrow> string \<Rightarrow> cfg \<Rightarrow> string option list store_instance \<Rightarrow> string option list store_instance" where
  "new_component realmId provider c i =
     i\<lparr>si_name := provider, si_providerId := Some provider, si_providerType := Some user_storage_type, si_parentId := realmId,
       si_config := c\<rparr>"

definition init_user_instance ::
  "string \<Rightarrow> user_factory \<Rightarrow> string option list store_instance \<Rightarrow> string option list store_instance" where
  "init_user_instance realmId f i =
     (if \<not> str_truthy (si_providerId i) then new_component realmId (sf_id f) (new_user_config f) i
      else i\<lparr>si_config := fill_defaults (user_defaults f) (si_config i)\<rparr>)"

definition new_user_store ::
  "string \<Rightarrow> string \<Rightarrow> user_factory list \<Rightarrow> string \<Rightarrow> string option list store_instance \<Rightarrow> user_store_page res" where
  "new_user_store realm realmId factories providerId i =
     (case find (\<lambda>f. sf_id f = providerId) factories of
        None \<Rightarrow> Throw TypeError
      | Some f \<Rightarrow>
          (let create = (\<not> str_truthy (si_providerId i)); j = init_user_instance realmId f i in
           Ok \<lparr>us_realm = realm, us_create = create, us_instance = j, us_stored = j, us_changed = create,
               us_fullSyncEnabled = (\<not> create \<and> positive_value (map_of (si_config i) ''fullSyncPeriod'')),
               us_changedSyncEnabled = (\<not> create \<and> positive_value (map_of (si_config i) ''changedSyncPeriod'')),
               us_showSync = (uf_synchronizable f \<and> show_sync (si_config j)), us_effects = []\<rparr>))"

definition watch_user_store :: "'a user_store_page_scheme \<Rightarrow> 'a user_store_page_scheme" where
  "watch_user_store s = (if us_instance s \<noteq> us_stored s then s\<lparr>us_changed := True\<rparr> else s)"

text \<open>\<open>config[k][0] = v\<close>.\<close>

definition set_first :: "string \<Rightarrow> string option \<Rightarrow> ('a user_store_page_scheme, unit) comp" where
  "set_first k v s =
     (case map_of (si_config (us_instance s)) k of
        None \<Rightarrow> (Throw TypeError, s)
      | Some vs \<Rightarrow>
          (Ok (), s\<lparr>us_instance := (us_instance s)\<lparr>si_config := AList.update k (v # tl vs) (si_config (us_instance s))\<rparr>\<rparr>))"

text \<open>The switches for periodic synchronisation, and the watches on them.\<close>

definition set_fullSync :: "bool \<Rightarrow> ('a user_store_page_scheme, unit) comp" where
  "set_fullSync b s =
     (if b = us_fullSyncEnabled s then (Ok (), s)
      else comp_bind (set_first ''fullSyncPeriod'' (Some (if b then ''604800'' else ''-1''))) (\<lambda>_.
             comp_do (\<lambda>s. s\<lparr>us_changed := True\<rparr>)) (s\<lparr>us_fullSyncEnabled := b\<rparr>))"

definition set_changedSync :: "bool \<Rightarrow> ('a user_store_page_scheme, unit) comp" where
  "set_changedSync b s =
     (if b = us_changedSyncEnabled s then (Ok (), s)
      else comp_bind (set_first ''changedSyncPeriod'' (Some (if b then ''86400'' else ''-1''))) (\<lambda>_.
             comp_do (\<lambda>s. s\<lparr>us_changed := True\<rparr>)) (s\<lparr>us_changedSyncEnabled := b\<rparr>))"

definition user_store_send :: "'a user_store_page_scheme \<Rightarrow> 'a user_store_page_scheme" where
  "user_store_send s =
     us_do [if us_create s then Request ''POST'' ''Components'' [(''realm'', us_realm s)] (Component (us_instance s))
       else Request ''PUT'' ''Components'' [(''realm'', us_realm s), (''componentId'', undef_str (si_id (us_stored s)))]
         (Component (us_instance s))] s"

definition user_store_save :: "user_store_page \<Rightarrow> user_store_page" where
  "user_store_save s = user_store_send (s\<lparr>us_changed := False\<rparr>)"

definition user_store_saved :: "string \<Rightarrow> 'a user_store_page_scheme \<Rightarrow> 'a user_store_page_scheme" where
  "user_store_saved location s =
     (if us_create s then
        us_do [GoTo (''/realms/'' @ us_realm s @ ''/user-storage/providers/'' @ undef_str (si_providerId (us_instance s)) @ ''/''
                 @ after_last CHR ''/'' location),
               Notify ''success'' ''The provider has been created.''] s
      else us_do [Reload, Notify ''success'' ''The provider has been updated.''] s)"

definition user_store_reset :: "'a user_store_page_scheme \<Rightarrow> 'a user_store_page_scheme" where
  "user_store_reset s = us_do [Reload] s"

definition user_store_cancel :: "'a user_store_page_scheme \<Rightarrow> 'a user_store_page_scheme" where
  "user_store_cancel s = us_do [if us_create s then GoTo (''/realms/'' @ us_realm s @ ''/user-federation'') else Reload] s"

datatype store_operation = Sync string | RemoveImported | Unlink

fun operation_request :: "store_operation \<Rightarrow> string \<Rightarrow> string \<Rightarrow> store_body ui_effect" where
  "operation_request (Sync action) realm i =
     Request ''POST'' ''UserStorageOperations.sync'' [(''action'', action), (''realm'', realm), (''componentId'', i)] NoBody"
| "operation_request RemoveImported realm i =
     Request ''POST'' ''UserStorageOperations.removeImportedUsers'' [(''realm'', realm), (''componentId'', i)] NoBody"
| "operation_request Unlink realm i =
     Request ''POST'' ''UserStorageOperations.unlinkUsers'' [(''realm'', realm), (''componentId'', i)] NoBody"

definition user_store_operation :: "store_operation \<Rightarrow> 'a user_store_page_scheme \<Rightarrow> 'a user_store_page_scheme" where
  "user_store_operation o1 s = us_do [operation_request o1 (us_realm s) (undef_str (si_id (us_instance s)))] s"

fun operation_success :: "store_operation \<Rightarrow> string \<Rightarrow> string" where
  "operation_success (Sync _) status = ''Sync of users finished successfully. '' @ status"
| "operation_success RemoveImported status = ''Remove imported users finished successfully. ''"
| "operation_success Unlink status = ''Unlink of users finished successfully. ''"

fun operation_failure :: "store_operation \<Rightarrow> string" where
  "operation_failure (Sync _) = ''Error during sync of users''"
| "operation_failure RemoveImported = ''Error during remove''"
| "operation_failure Unlink = ''Error during unlink''"

text \<open>The status is None when the request failed.\<close>

definition user_store_operation_done ::
  "store_operation \<Rightarrow> string option \<Rightarrow> 'a user_store_page_scheme \<Rightarrow> 'a user_store_page_scheme" where
  "user_store_operation_done o1 status s =
     us_do [Reload, case status of Some st \<Rightarrow> Notify ''success'' (operation_success o1 st)
                                 | None \<Rightarrow> Notify ''error'' (operation_failure o1)] s"

text \<open>What \<open>Components.save\<close> and \<open>Components.update\<close> send of a configuration: without the empty text at the end of a list
  (services.js 219-234 and 1863-1891; theory Services has this for lists of texts).\<close>

definition sent_values :: "string option list \<Rightarrow> string option list" where
  "sent_values vs = (if vs \<noteq> [] \<and> last vs = Some [] then butlast vs else vs)"

definition sent_config :: "cfg \<Rightarrow> cfg" where
  "sent_config c = map (\<lambda>(k, vs). (k, sent_values vs)) c"

subsection \<open>The page of an LDAP provider\<close>

record ldap_page = user_store_page +
  lp_vendorName :: "string option"
  lp_lastVendor :: "string option"

definition ldapVendors :: "string \<Rightarrow> (string \<times> string) list" where
  "ldapVendors profile =
     [(''ad'', ''Active Directory''), (''rhds'', ''Red Hat Directory Server'')] @
     (if profile = ''community'' then [(''tivoli'', ''Tivoli''), (''edirectory'', ''Novell eDirectory''), (''other'', ''Other'')] else [])"

text \<open>The other lists of choices of the page.\<close>

definition authTypes :: "(string \<times> string) list" where
  "authTypes = [(''none'', ''none''), (''simple'', ''simple'')]"

definition searchScopes :: "(string \<times> string) list" where
  "searchScopes = [(''1'', ''One Level''), (''2'', ''Subtree'')]"

definition useTruststoreOptions :: "(string \<times> string) list" where
  "useTruststoreOptions = [(''always'', ''Always''), (''ldapsOnly'', ''Only for ldaps''), (''never'', ''Never'')]"

definition DEFAULT_BATCH_SIZE :: string where
  "DEFAULT_BATCH_SIZE = ''1000''"

definition new_ldap_config :: "user_factory \<Rightarrow> cfg" where
  "new_ldap_config f =
     put_all (map (\<lambda>p. (sp_name p, property_value p)) (properties_of f))
       (put_all [(''batchSizeForSync'', text_values [DEFAULT_BATCH_SIZE])]
         (put_all cache_settings
           (put_all sync_settings
             (put_all [(''enabled'', text_values [''true'']), (''priority'', text_values [''0''])] []))))"

definition ldap_defaults :: "user_factory \<Rightarrow> (string \<times> string option list) list" where
  "ldap_defaults f =
     [(''fullSyncPeriod'', text_values [''-1'']), (''enabled'', text_values [''true'']), (''changedSyncPeriod'', text_values [''-1''])]
     @ cache_settings @ [(''priority'', text_values [''0'']), (''importEnabled'', text_values [''true''])]
     @ map (\<lambda>p. (sp_name p, property_value p)) (properties_of f)"

definition init_ldap_instance ::
  "string \<Rightarrow> user_factory \<Rightarrow> string option list store_instance \<Rightarrow> string option list store_instance" where
  "init_ldap_instance realmId f i =
     (if \<not> str_truthy (si_providerId i) then new_component realmId ''ldap'' (new_ldap_config f) i
      else i\<lparr>si_config := fill_defaults (ldap_defaults f) (si_config i)\<rparr>)"

text \<open>The loop over the vendors; the ids of the list are different.\<close>

definition vendor_name :: "(string \<times> string) list \<Rightarrow> string option \<Rightarrow> string option" where
  "vendor_name vendors v = Option.bind v (map_of vendors)"

definition new_ldap_page ::
  "string \<Rightarrow> string \<Rightarrow> string \<Rightarrow> user_factory list \<Rightarrow> string option list store_instance \<Rightarrow> ldap_page res" where
  "new_ldap_page profile realm realmId factories i =
     (case find (\<lambda>f. sf_id f = ''ldap'') factories of
        None \<Rightarrow> Throw TypeError
      | Some f \<Rightarrow>
          (let create = (\<not> str_truthy (si_providerId i)); j = init_ldap_instance realmId f i in
           case map_of (si_config j) ''vendor'' of
             None \<Rightarrow> Throw TypeError
           | Some vs \<Rightarrow>
               Ok \<lparr>us_realm = realm, us_create = create, us_instance = j, us_stored = j, us_changed = create,
                   us_fullSyncEnabled = (\<not> create \<and> positive_value (map_of (si_config i) ''fullSyncPeriod'')),
                   us_changedSyncEnabled = (\<not> create \<and> positive_value (map_of (si_config i) ''changedSyncPeriod'')),
                   us_showSync = show_sync (si_config j), us_effects = [],
                   lp_vendorName = (if create then None else vendor_name (ldapVendors profile) (first_value vs)),
                   lp_lastVendor = first_value vs\<rparr>))"

definition vendorToUUID :: "string option \<Rightarrow> string option" where
  "vendorToUUID v =
     Option.bind v (map_of [(''rhds'', ''nsuniqueid''), (''tivoli'', ''uniqueidentifier''), (''edirectory'', ''guid''),
       (''ad'', ''objectGUID''), (''other'', ''entryUUID'')])"

definition vendor_username :: "string option \<Rightarrow> string" where
  "vendor_username v = (if v = Some ''ad'' then ''cn'' else ''uid'')"

definition vendor_classes :: "string option \<Rightarrow> string" where
  "vendor_classes v = (if v = Some ''ad'' then ''person, organizationalPerson, user'' else ''inetOrgPerson, organizationalPerson'')"

text \<open>What the watch does once the vendor changed: four assignments.\<close>

definition vendor_changed :: "string option \<Rightarrow> (ldap_page, unit) comp" where
  "vendor_changed v =
     comp_bind (set_first ''usernameLDAPAttribute'' (Some (vendor_username v))) (\<lambda>_.
     comp_bind (set_first ''userObjectClasses'' (Some (vendor_classes v))) (\<lambda>_.
     comp_bind (set_first ''rdnLDAPAttribute'' (Some (vendor_username v))) (\<lambda>_.
       set_first ''uuidLDAPAttribute'' (vendorToUUID v))))"

definition watch_ldap :: "(ldap_page, unit) comp" where
  "watch_ldap s =
     (let s = watch_user_store s in
      case map_of (si_config (us_instance s)) ''vendor'' of
        None \<Rightarrow> (Throw TypeError, s)
      | Some vs \<Rightarrow>
          if first_value vs \<noteq> lp_lastVendor s then vendor_changed (first_value vs) (s\<lparr>lp_lastVendor := first_value vs\<rparr>)
          else (Ok (), s))"

text \<open>\<open>parseInt\<close> of a list joins it with commas; \<open>undefined\<close> is empty there.\<close>

definition list_text :: "string option list \<Rightarrow> string" where
  "list_text vs = join '','' (map (\<lambda>v. case v of None \<Rightarrow> [] | Some t \<Rightarrow> t) vs)"

definition parsed_batch :: "string option list \<Rightarrow> int option" where
  "parsed_batch vs = Option.bind (first_value vs) parse_number"

definition ldap_batch :: "cfg \<Rightarrow> cfg" where
  "ldap_batch c =
     (case map_of c ''batchSizeForSync'' of
        None \<Rightarrow> AList.update ''batchSizeForSync'' (text_values [DEFAULT_BATCH_SIZE]) c
      | Some vs \<Rightarrow>
          if parsed_batch vs = None \<or> parsed_batch vs = Some 0
          then AList.update ''batchSizeForSync'' (text_values [DEFAULT_BATCH_SIZE]) c
          else AList.update ''batchSizeForSync''
                 (Some (case parse_number (list_text vs) of None \<Rightarrow> ''NaN'' | Some n \<Rightarrow> int_str n) # tl vs) c)"

definition ldap_save :: "ldap_page \<Rightarrow> ldap_page" where
  "ldap_save s =
     user_store_send (s\<lparr>us_changed := False, us_instance := (us_instance s)\<lparr>si_config := ldap_batch (si_config (us_instance s))\<rparr>\<rparr>)"

definition initConnectionTest :: "string \<Rightarrow> ldap_page \<Rightarrow> (string \<times> string option list option) list" where
  "initConnectionTest action s =
     (let c = map_of (si_config (us_instance s)) in
      [(''action'', Some [Some action]), (''realm'', Some [Some (us_realm s)]), (''connectionUrl'', c ''connectionUrl''),
       (''bindDn'', c ''bindDn''), (''bindCredential'', c ''bindCredential''), (''useTruststoreSpi'', c ''useTruststoreSpi''),
       (''connectionTimeout'', c ''connectionTimeout''), (''componentId'', map_option (\<lambda>i. [Some i]) (si_id (us_stored s)))])"

definition ldap_test :: "bool \<Rightarrow> ldap_page \<Rightarrow> ldap_page" where
  "ldap_test auth s =
     us_do [Request ''POST'' ''RealmLDAPConnectionTester'' []
       (LdapTest (initConnectionTest (if auth then ''testAuthentication'' else ''testConnection'') s))] s"

definition ldap_tested :: "bool \<Rightarrow> bool \<Rightarrow> ldap_page \<Rightarrow> ldap_page" where
  "ldap_tested auth ok s =
     us_do [if ok then Notify ''success'' (if auth then ''LDAP authentication successful.'' else ''LDAP connection successful.'')
       else Notify ''error'' (if auth then ''LDAP authentication failed. See server.log for details''
         else ''Error when trying to connect to LDAP. See server.log for details.'')] s"

definition removeUserFederation :: "ldap_page \<Rightarrow> ldap_page" where
  "removeUserFederation s = us_do [ConfirmDelete (si_name (us_instance s)) ''ldap provider''] s"

definition removeUserFederation_confirmed :: "ldap_page \<Rightarrow> ldap_page" where
  "removeUserFederation_confirmed s =
     us_do [Request ''DELETE'' ''Components'' [(''realm'', us_realm s), (''componentId'', undef_str (si_id (us_instance s)))] NoBody] s"

definition removeUserFederation_done :: "ldap_page \<Rightarrow> ldap_page" where
  "removeUserFederation_done s =
     us_do [GoTo (''/realms/'' @ us_realm s @ ''/user-federation''), Notify ''success'' ''The provider has been deleted.''] s"

subsection \<open>Mappers of an LDAP provider\<close>

record ldap_mapper_page =
  lm_realm :: string
  lm_provider :: string
  lm_create :: bool
  lm_changed :: bool
  lm_mapperType :: "store_factory option"
  lm_mapper :: "string option list store_instance"
  lm_stored :: "string option list store_instance"
  lm_effects :: "store_body ui_effect list"

definition lm_do :: "store_body ui_effect list \<Rightarrow> ldap_mapper_page \<Rightarrow> ldap_mapper_page" where
  "lm_do es s = s\<lparr>lm_effects := lm_effects s @ es\<rparr>"

definition mapper_defaults :: "store_factory \<Rightarrow> (string \<times> string option list) list" where
  "mapper_defaults f = map (\<lambda>p. (sp_name p, property_value p)) (properties_of f)"

definition new_ldap_mapper_page ::
  "string \<Rightarrow> string \<Rightarrow> store_factory list \<Rightarrow> string option list store_instance \<Rightarrow> ldap_mapper_page res" where
  "new_ldap_mapper_page realm provider types m =
     (case find (\<lambda>f. Some (sf_id f) = si_providerId m) types of
        None \<Rightarrow> Throw TypeError
      | Some f \<Rightarrow>
          (let n = m\<lparr>si_config := fill_defaults (mapper_defaults f) (si_config m)\<rparr> in
           Ok \<lparr>lm_realm = realm, lm_provider = provider, lm_create = False, lm_changed = False, lm_mapperType = Some f,
               lm_mapper = n, lm_stored = n, lm_effects = []\<rparr>))"

definition watch_ldap_mapper :: "ldap_mapper_page \<Rightarrow> ldap_mapper_page" where
  "watch_ldap_mapper s = (if lm_mapper s \<noteq> lm_stored s then s\<lparr>lm_changed := True\<rparr> else s)"

definition ldap_mapper_params :: "ldap_mapper_page \<Rightarrow> (string \<times> string) list" where
  "ldap_mapper_params s = [(''realm'', lm_realm s), (''componentId'', undef_str (si_id (lm_stored s)))]"

definition ldap_mapper_update :: "ldap_mapper_page \<Rightarrow> ldap_mapper_page" where
  "ldap_mapper_update s = lm_do [Request ''PUT'' ''Components'' (ldap_mapper_params s) (Component (lm_mapper s))] s"

definition ldap_mapper_updated :: "ldap_mapper_page \<Rightarrow> ldap_mapper_page" where
  "ldap_mapper_updated s = lm_do [Reload, Notify ''success'' ''The mapper has been updated.''] s"

definition ldap_mapper_reset :: "ldap_mapper_page \<Rightarrow> ldap_mapper_page" where
  "ldap_mapper_reset s = s\<lparr>lm_mapper := lm_stored s, lm_changed := False\<rparr>"

definition ldap_mapper_remove :: "ldap_mapper_page \<Rightarrow> ldap_mapper_page" where
  "ldap_mapper_remove s = lm_do [ConfirmDelete (si_name (lm_mapper s)) ''ldap mapper''] s"

definition ldap_mapper_remove_confirmed :: "ldap_mapper_page \<Rightarrow> ldap_mapper_page" where
  "ldap_mapper_remove_confirmed s = lm_do [Request ''DELETE'' ''Components'' (ldap_mapper_params s) NoBody] s"

definition ldap_mappers_url :: "ldap_mapper_page \<Rightarrow> string" where
  "ldap_mappers_url s = ''/realms/'' @ lm_realm s @ ''/ldap-mappers/'' @ lm_provider s"

definition ldap_mapper_removed :: "ldap_mapper_page \<Rightarrow> ldap_mapper_page" where
  "ldap_mapper_removed s = lm_do [GoTo (ldap_mappers_url s), Notify ''success'' ''The provider has been deleted.''] s"

definition triggerMapperSync :: "string \<Rightarrow> ldap_mapper_page \<Rightarrow> ldap_mapper_page" where
  "triggerMapperSync direction s =
     lm_do [Request ''POST'' ''LDAPMapperSync'' [(''direction'', direction), (''realm'', lm_realm s), (''parentId'', lm_provider s),
       (''mapperId'', undef_str (si_id (lm_mapper s)))] NoBody] s"

text \<open>The answer is the message of an error, or the status.\<close>

definition mapper_synced :: "string + string \<Rightarrow> ldap_mapper_page \<Rightarrow> ldap_mapper_page" where
  "mapper_synced r s =
     lm_do [case r of Inl err \<Rightarrow> Notify ''error'' err | Inr status \<Rightarrow> Notify ''success'' (''Data synced successfully. '' @ status)] s"

definition new_ldap_mapper_create :: "string \<Rightarrow> string \<Rightarrow> ldap_mapper_page" where
  "new_ldap_mapper_create realm provider =
     (let m = \<lparr>si_id = None, si_name = [], si_providerId = None, si_providerType = None, si_parentId = [], si_config = []\<rparr> in
      \<lparr>lm_realm = realm, lm_provider = provider, lm_create = True, lm_changed = True, lm_mapperType = None, lm_mapper = m,
       lm_stored = m, lm_effects = []\<rparr>)"

definition watch_mapperType :: "ldap_mapper_page \<Rightarrow> ldap_mapper_page" where
  "watch_mapperType s =
     (case lm_mapperType s of
        None \<Rightarrow> s
      | Some f \<Rightarrow> s\<lparr>lm_mapper := (lm_mapper s)\<lparr>si_config := fill_defaults (mapper_defaults f) []\<rparr>\<rparr>)"

definition choose_mapperType :: "store_factory option \<Rightarrow> ldap_mapper_page \<Rightarrow> ldap_mapper_page" where
  "choose_mapperType f s = (if f = lm_mapperType s then s else watch_mapperType (s\<lparr>lm_mapperType := f\<rparr>))"

definition ldap_mapper_save :: "ldap_mapper_page \<Rightarrow> ldap_mapper_page" where
  "ldap_mapper_save s =
     (case lm_mapperType s of
        None \<Rightarrow> lm_do [Notify ''error'' ''You need to select mapper type!''] s
      | Some f \<Rightarrow>
          (let m = (lm_mapper s)\<lparr>si_providerId := Some (sf_id f),
                 si_providerType := Some ''org.keycloak.storage.ldap.mappers.LDAPStorageMapper'', si_parentId := lm_provider s\<rparr> in
           lm_do [Request ''POST'' ''Components'' [(''realm'', lm_realm s)] (Component m)] (s\<lparr>lm_mapper := m\<rparr>)))"

definition ldap_mapper_created :: "string \<Rightarrow> ldap_mapper_page \<Rightarrow> ldap_mapper_page" where
  "ldap_mapper_created location s =
     lm_do [GoTo (''/realms/'' @ lm_realm s @ ''/ldap-mappers/'' @ si_parentId (lm_mapper s) @ ''/mappers/'' @ after_last CHR ''/'' location),
       Notify ''success'' ''The mapper has been created.''] s"

definition ldap_mapper_create_reset :: "ldap_mapper_page \<Rightarrow> ldap_mapper_page" where
  "ldap_mapper_create_reset s = lm_do [GoTo (ldap_mappers_url s)] s"

subsection \<open>Where a user comes from\<close>

text \<open>The part of \<open>UserDetailCtrl\<close> (353-425) that shows the providers of a stored user, whether the user is locked out for the time
  being, and the required actions to choose from. The name of a provider is asked for in another way by an administrator who may not see
  the realm, and then the link leads to the page itself.\<close>

record user_origin =
  uo_realm :: string
  uo_user :: string
  uo_viewRealm :: bool
  uo_federationLink :: "(string \<times> string) option"
  uo_originLink :: "(string \<times> string) option"
  uo_temporarilyDisabled :: bool
  uo_reqActions :: "string list option"
  uo_effects :: "unit ui_effect list"

definition link_request :: "bool \<Rightarrow> string \<Rightarrow> string \<Rightarrow> unit ui_effect" where
  "link_request viewRealm realm c =
     Request ''GET'' (if viewRealm then ''Components'' else ''UserStorageOperations.simpleName'') [(''realm'', realm), (''componentId'', c)] ()"

definition user_isDisabled :: "string \<Rightarrow> string \<Rightarrow> unit ui_effect" where
  "user_isDisabled realm user = Request ''GET'' ''BruteForceUser'' [(''realm'', realm), (''userId'', user)] ()"

definition new_user_origin :: "string \<Rightarrow> string \<Rightarrow> bool \<Rightarrow> string option \<Rightarrow> string option \<Rightarrow> user_origin" where
  "new_user_origin realm user viewRealm federationLink origin =
     \<lparr>uo_realm = realm, uo_user = user, uo_viewRealm = viewRealm, uo_federationLink = None, uo_originLink = None,
      uo_temporarilyDisabled = False, uo_reqActions = None,
      uo_effects = (if str_truthy federationLink then [link_request viewRealm realm (the federationLink)] else [])
        @ (if str_truthy origin then [link_request viewRealm realm (the origin)] else [])
        @ [user_isDisabled realm user, Request ''GET'' ''RequiredActions'' [(''realm'', realm)] ()]\<rparr>"

definition storage_link :: "string \<Rightarrow> string \<times> string \<times> string \<Rightarrow> user_origin \<Rightarrow> string \<times> string" where
  "storage_link absUrl = (\<lambda>(name, providerId, i) s.
     (name, if uo_viewRealm s then ''#/realms/'' @ uo_realm s @ ''/user-storage/providers/'' @ providerId @ ''/'' @ i else absUrl))"

definition federationLink_answer :: "string \<Rightarrow> string \<times> string \<times> string \<Rightarrow> user_origin \<Rightarrow> user_origin" where
  "federationLink_answer absUrl link s = s\<lparr>uo_federationLink := Some (storage_link absUrl link s)\<rparr>"

definition originLink_answer :: "string \<Rightarrow> string \<times> string \<times> string \<Rightarrow> user_origin \<Rightarrow> user_origin" where
  "originLink_answer absUrl link s = s\<lparr>uo_originLink := Some (storage_link absUrl link s)\<rparr>"

definition isDisabled_answer :: "bool \<Rightarrow> user_origin \<Rightarrow> user_origin" where
  "isDisabled_answer d s = s\<lparr>uo_temporarilyDisabled := d\<rparr>"

definition unlockUser :: "user_origin \<Rightarrow> user_origin" where
  "unlockUser s =
     s\<lparr>uo_effects := uo_effects s @ [Request ''DELETE'' ''BruteForceUser'' [(''realm'', uo_realm s), (''userId'', uo_user s)] ()]\<rparr>"

definition unlockUser_done :: "user_origin \<Rightarrow> user_origin" where
  "unlockUser_done s = s\<lparr>uo_effects := uo_effects s @ [user_isDisabled (uo_realm s) (uo_user s)]\<rparr>"

definition reqActions_answer :: "(string \<times> bool) list \<Rightarrow> user_origin \<Rightarrow> user_origin" where
  "reqActions_answer xs s = s\<lparr>uo_reqActions := Some (fold (\<lambda>(n, enabled) l. if enabled then l @ [n] else l) xs [])\<rparr>"

lemma reqActions_enabled: "uo_reqActions (reqActions_answer xs s) = Some (map fst (filter snd xs))"
proof -
  have "fold (\<lambda>(n, enabled) l. if enabled then l @ [n] else l) xs acc = acc @ map fst (filter snd xs)" for acc :: "string list"
    by (induction xs arbitrary: acc) auto
  then show ?thesis by (simp add: reqActions_answer_def)
qed

text \<open>An administrator who may not see the realm is not shown its address.\<close>

lemma origin_hidden: "\<not> uo_viewRealm s \<Longrightarrow> snd (storage_link absUrl link s) = absUrl"
  by (simp add: storage_link_def split: prod.split)

subsection \<open>Opening and saving\<close>

interpretation user_fill: config_fill "fill_defaults (user_defaults f)" "fst ` set (user_defaults f)" for f
  by (rule fill_defaults_fill)

interpretation ldap_fill: config_fill "fill_defaults (ldap_defaults f)" "fst ` set (ldap_defaults f)" for f
  by (rule fill_defaults_fill)

interpretation mapper_fill: config_fill "fill_defaults (mapper_defaults f)" "fst ` set (mapper_defaults f)" for f
  by (rule fill_defaults_fill)

text \<open>The pages of stored providers and mappers open with what was saved from them, and are not changed when they open.\<close>

theorem stored_provider_opens_unchanged:
  assumes "str_truthy (si_providerId i)"
  shows "init_user_instance realmId f (init_user_instance realmId f i) = init_user_instance realmId f i"
    and "init_ldap_instance realmId f (init_ldap_instance realmId f i) = init_ldap_instance realmId f i"
    and "new_user_store realm realmId factories p i = Ok s \<Longrightarrow> watch_user_store s = s \<and> \<not> us_changed s"
    and "new_ldap_mapper_page realm p types m = Ok n \<Longrightarrow> watch_ldap_mapper n = n \<and> \<not> lm_changed n"
  using assms
  by (auto simp: init_user_instance_def init_ldap_instance_def user_fill.fill_fill ldap_fill.fill_fill new_user_store_def
      watch_user_store_def new_ldap_mapper_page_def watch_ldap_mapper_def Let_def split: option.splits)

text \<open>A property that a stored provider has no value for is shown empty on the generic page, whatever its default is; the page for LDAP
  shows the default.\<close>

theorem generic_page_ignores_defaults:
  assumes "map_of c (sp_name p) = None" and "properties_of f = [p]"
    and "sp_name p \<notin> fst ` set (sync_settings @ cache_settings @ [(''enabled'', []), (''priority'', []), (''importEnabled'', [])])"
  shows "map_of (fill_defaults (user_defaults f) c) (sp_name p) = Some [Some []]"
    and "map_of (fill_defaults (ldap_defaults f) c) (sp_name p) = Some (property_value p)"
  unfolding fill_defaults_missing [OF assms(1)]
  using assms(2,3) by (auto simp: user_defaults_def ldap_defaults_def cache_settings_def sync_settings_def text_values_def)

text \<open>The way of a value of an LDAP mapper from its page to the server and back. Of the server it is known that a component has no
  entry for a property without values. A value that was cleared comes back as the default of its property.\<close>

theorem mapper_value_after_save:
  assumes server: "\<And>c k. map_of (server c) k = (if map_of c k = Some [] then None else map_of c k)"
  shows "map_of (fill_defaults (mapper_defaults f) (server (sent_config c))) k =
    (case map_of c k of
       None \<Rightarrow> map_of (mapper_defaults f) k
     | Some vs \<Rightarrow> if sent_values vs = [] then map_of (mapper_defaults f) k else Some (sent_values vs))"
proof -
  have sent: "map_of (sent_config c) k = map_option sent_values (map_of c k)"
    unfolding sent_config_def by (induction c) auto
  show ?thesis
  proof (cases "map_of (server (sent_config c)) k")
    case None
    then show ?thesis using sent server by (auto simp: fill_defaults_missing split: option.splits if_splits)
  next
    case (Some x)
    then have "map_of (fill_defaults (mapper_defaults f) (server (sent_config c))) k = Some x" by (rule fill_defaults_keeps)
    with Some show ?thesis using sent server by (auto split: option.splits if_splits)
  qed
qed

text \<open>Switching periodic synchronisation off and on again forgets the period; a switch and the period agree after every use.\<close>

theorem full_sync_switch:
  assumes "map_of (si_config (us_instance s)) ''fullSyncPeriod'' = Some vs" and "b \<noteq> us_fullSyncEnabled s"
  shows "\<exists>s'. set_fullSync b s = (Ok (), s') \<and> us_changed s' \<and> us_fullSyncEnabled s' = b \<and>
    map_of (si_config (us_instance s')) ''fullSyncPeriod'' = Some (Some (if b then ''604800'' else ''-1'') # tl vs) \<and>
    positive_value (map_of (si_config (us_instance s')) ''fullSyncPeriod'') = b"
proof -
  have "int_str 604800 = ''604800''" "int_str (-1) = ''-1''"
    by (simp_all add: int_str_def nat_str.simps digit_char_def)
  then have "parse_number ''604800'' = Some 604800" "parse_number ''-1'' = Some (-1)"
    using parse_number_int_str [of 604800] parse_number_int_str [of "-1"] by simp_all
  moreover have "js_trim ''604800'' = ''604800''" "js_trim ''-1'' = ''-1''" by code_simp+
  ultimately have "number_of_text ''604800'' = Some 604800" "number_of_text ''-1'' = Some (-1)"
    by (simp_all add: number_of_text_def)
  then show ?thesis
    using assms by (auto simp: set_fullSync_def set_first_def comp_defs update_conv' positive_value_def first_value_def)
qed

theorem sync_switch_without_period_raises:
  "map_of (si_config (us_instance s)) ''fullSyncPeriod'' = None \<Longrightarrow> b \<noteq> us_fullSyncEnabled s \<Longrightarrow> fst (set_fullSync b s) = Throw TypeError"
  by (simp add: set_fullSync_def set_first_def comp_defs)

text \<open>The list of providers raises for a provider without a priority, which the page of the provider would show as 0.\<close>

theorem list_raises_without_priority:
  "user_getInstancePriority i = Throw TypeError \<longleftrightarrow> map_of (si_config i) ''priority'' = None"
  by (simp add: user_getInstancePriority_def split: option.split)

subsection \<open>The vendor of an LDAP server\<close>

definition conf :: "'a user_store_page_scheme \<Rightarrow> string \<Rightarrow> string option list option" where
  "conf s = map_of (si_config (us_instance s))"

text \<open>The attributes that a vendor determines.\<close>

definition vendor_keys :: "string list" where
  "vendor_keys = [''usernameLDAPAttribute'', ''userObjectClasses'', ''rdnLDAPAttribute'', ''uuidLDAPAttribute'']"

text \<open>Their values, as a table; an unknown vendor has no attribute for the id.\<close>

definition vendor_row :: "string option \<Rightarrow> (string \<times> string option) list" where
  "vendor_row v =
     (if v = Some ''ad'' then
        [(''usernameLDAPAttribute'', Some ''cn''), (''rdnLDAPAttribute'', Some ''cn''), (''uuidLDAPAttribute'', Some ''objectGUID''),
         (''userObjectClasses'', Some ''person, organizationalPerson, user'')]
      else
        [(''usernameLDAPAttribute'', Some ''uid''), (''rdnLDAPAttribute'', Some ''uid''),
         (''uuidLDAPAttribute'',
          if v = Some ''rhds'' then Some ''nsuniqueid'' else if v = Some ''tivoli'' then Some ''uniqueidentifier''
          else if v = Some ''edirectory'' then Some ''guid'' else if v = Some ''other'' then Some ''entryUUID'' else None),
         (''userObjectClasses'', Some ''inetOrgPerson, organizationalPerson'')])"

definition vendor_value :: "string option \<Rightarrow> string \<Rightarrow> string option" where
  "vendor_value v k = the (map_of (vendor_row v) k)"

lemma vendor_values:
  "vendor_value v ''usernameLDAPAttribute'' = Some (vendor_username v)" "vendor_value v ''rdnLDAPAttribute'' = Some (vendor_username v)"
  "vendor_value v ''userObjectClasses'' = Some (vendor_classes v)" "vendor_value v ''uuidLDAPAttribute'' = vendorToUUID v"
  by (auto simp: vendor_value_def vendor_row_def vendor_username_def vendor_classes_def vendorToUUID_def split: Option.bind_split)

lemma vendor_changed_conf:
  assumes "\<forall>k \<in> set vendor_keys. conf s k \<noteq> None"
  shows "\<exists>s'. vendor_changed v s = (Ok (), s') \<and>
    (\<forall>k. conf s' k = (if k \<in> set vendor_keys then Some (vendor_value v k # tl (the (conf s k))) else conf s k)) \<and>
    lp_lastVendor s' = lp_lastVendor s"
proof -
  have ok: "\<exists>s'. set_first k x s = (Ok (), s') \<and> conf s' = (conf s)(k \<mapsto> x # tl (the (conf s k))) \<and> lp_lastVendor s' = lp_lastVendor s"
    if "conf s k \<noteq> None" for k x and s :: ldap_page
    using that by (auto simp: set_first_def conf_def update_conv')
  obtain s1 where s1: "set_first ''usernameLDAPAttribute'' (Some (vendor_username v)) s = (Ok (), s1)"
    "conf s1 = (conf s)(''usernameLDAPAttribute'' \<mapsto> Some (vendor_username v) # tl (the (conf s ''usernameLDAPAttribute'')))"
    "lp_lastVendor s1 = lp_lastVendor s"
    using ok [of s "''usernameLDAPAttribute''" "Some (vendor_username v)"] assms by (auto simp: vendor_keys_def)
  obtain s2 where s2: "set_first ''userObjectClasses'' (Some (vendor_classes v)) s1 = (Ok (), s2)"
    "conf s2 = (conf s1)(''userObjectClasses'' \<mapsto> Some (vendor_classes v) # tl (the (conf s1 ''userObjectClasses'')))"
    "lp_lastVendor s2 = lp_lastVendor s"
    using ok [of s1 "''userObjectClasses''" "Some (vendor_classes v)"] assms s1 by (auto simp: vendor_keys_def)
  obtain s3 where s3: "set_first ''rdnLDAPAttribute'' (Some (vendor_username v)) s2 = (Ok (), s3)"
    "conf s3 = (conf s2)(''rdnLDAPAttribute'' \<mapsto> Some (vendor_username v) # tl (the (conf s2 ''rdnLDAPAttribute'')))"
    "lp_lastVendor s3 = lp_lastVendor s"
    using ok [of s2 "''rdnLDAPAttribute''" "Some (vendor_username v)"] assms s1 s2 by (auto simp: vendor_keys_def)
  obtain s4 where s4: "set_first ''uuidLDAPAttribute'' (vendorToUUID v) s3 = (Ok (), s4)"
    "conf s4 = (conf s3)(''uuidLDAPAttribute'' \<mapsto> vendorToUUID v # tl (the (conf s3 ''uuidLDAPAttribute'')))"
    "lp_lastVendor s4 = lp_lastVendor s"
    using ok [of s3 "''uuidLDAPAttribute''" "vendorToUUID v"] assms s1 s2 s3 by (auto simp: vendor_keys_def)
  have "vendor_changed v s = (Ok (), s4)" using s1 s2 s3 s4 by (simp add: vendor_changed_def comp_defs)
  then show ?thesis using s1(2) s2(2) s3(2) s4(2,3) by (auto simp: vendor_keys_def vendor_values)
qed

text \<open>C36. When another vendor is chosen on the page of an LDAP provider, the watch sets the four attributes that go with the vendor and
  nothing else of the configuration, and the next round of the digest finds nothing to do: AngularJS comes to rest after two rounds.\<close>

theorem ldap_vendor_watch_settles:
  assumes "conf s ''vendor'' = Some (v # vs)" and "v \<noteq> lp_lastVendor s" and "\<forall>k \<in> set vendor_keys. conf s k \<noteq> None"
  shows "\<exists>s1 s2. watch_ldap s = (Ok (), s1) \<and> watch_ldap s1 = (Ok (), s2) \<and> us_instance s2 = us_instance s1 \<and>
    (\<forall>k. conf s1 k = (if k \<in> set vendor_keys then Some (vendor_value v k # tl (the (conf s k))) else conf s k))"
proof -
  let ?s = "(watch_user_store s)\<lparr>lp_lastVendor := v\<rparr>"
  have w: "conf (watch_user_store s) = conf s" "lp_lastVendor (watch_user_store s) = lp_lastVendor s" for s :: ldap_page
    by (auto simp: watch_user_store_def conf_def)
  have c: "conf ?s = conf s" by (simp add: conf_def watch_user_store_def)
  obtain s1 where s1: "vendor_changed v ?s = (Ok (), s1)" "lp_lastVendor s1 = v"
    "\<forall>k. conf s1 k = (if k \<in> set vendor_keys then Some (vendor_value v k # tl (the (conf s k))) else conf s k)"
    using vendor_changed_conf [of ?s v] assms(3) c by auto
  have first: "watch_ldap s = (Ok (), s1)"
    using s1(1) assms w [of s] by (simp add: watch_ldap_def first_value_def conf_def [symmetric])
  have "conf s1 ''vendor'' = Some (v # vs)" using s1(3) assms(1) by (simp add: vendor_keys_def)
  then have "watch_ldap s1 = (Ok (), watch_user_store s1)"
    using s1(2) w [of s1] by (simp add: watch_ldap_def first_value_def conf_def [symmetric])
  moreover have "us_instance (watch_user_store s1) = us_instance s1" by (simp add: watch_user_store_def)
  ultimately show ?thesis using first s1(3) by blast
qed

definition demo_ldap :: ldap_page where
  "demo_ldap =
     (let i = \<lparr>si_id = None, si_name = ''ldap'', si_providerId = Some ''ldap'', si_providerType = None, si_parentId = ''r'',
            si_config = [(''vendor'', [Some ''ad'']), (''usernameLDAPAttribute'', [Some []]), (''userObjectClasses'', [Some []]),
              (''rdnLDAPAttribute'', [Some []]), (''uuidLDAPAttribute'', [Some []]), (''usersDn'', [Some ''dc=x''])]\<rparr> in
      \<lparr>us_realm = ''demo'', us_create = True, us_instance = i, us_stored = i, us_changed = True, us_fullSyncEnabled = False,
       us_changedSyncEnabled = False, us_showSync = True, us_effects = [], lp_vendorName = None, lp_lastVendor = Some []\<rparr>)"

theorem ldap_vendor_watch_settles_witness:
  "\<exists>s1. watch_ldap demo_ldap = (Ok (), s1) \<and> conf s1 ''uuidLDAPAttribute'' = Some [Some ''objectGUID''] \<and>
     conf s1 ''rdnLDAPAttribute'' = Some [Some ''cn''] \<and> conf s1 ''usersDn'' = Some [Some ''dc=x'']"
proof -
  have c: "conf demo_ldap ''vendor'' = Some [Some ''ad'']" "Some ''ad'' \<noteq> lp_lastVendor demo_ldap"
    "\<forall>k \<in> set vendor_keys. conf demo_ldap k \<noteq> None" "conf demo_ldap ''uuidLDAPAttribute'' = Some [Some []]"
    "conf demo_ldap ''rdnLDAPAttribute'' = Some [Some []]" "conf demo_ldap ''usersDn'' = Some [Some ''dc=x'']"
    by (simp_all add: conf_def demo_ldap_def Let_def vendor_keys_def)
  obtain s1 where "watch_ldap demo_ldap = (Ok (), s1)"
    "\<forall>k. conf s1 k = (if k \<in> set vendor_keys then Some (vendor_value (Some ''ad'') k # tl (the (conf demo_ldap k))) else conf demo_ldap k)"
    using ldap_vendor_watch_settles [OF c(1-3)] by blast
  with c(4-6) show ?thesis
    by (simp add: vendor_keys_def vendor_value_def vendor_row_def)
qed

subsection \<open>The size of a batch\<close>

lemma digits_of_comma: "digits_of b (s @ CHR '','' # t) = digits_of b s"
proof -
  have "digit_value CHR '','' = None" by code_simp
  then have "takeWhile (\<lambda>c. case digit_value c of None \<Rightarrow> False | Some d \<Rightarrow> d < b) (s @ CHR '','' # t) =
      takeWhile (\<lambda>c. case digit_value c of None \<Rightarrow> False | Some d \<Rightarrow> d < b) s"
    by (induction s) auto
  then show ?thesis by (simp only: digits_of_def)
qed

lemma parse_number_comma: "parse_number (s @ CHR '','' # t) = parse_number s"
proof -
  define u where "u = dropWhile white s"
  define strip :: "string \<Rightarrow> string" where "strip x = (if take 1 x = ''-'' \<or> take 1 x = ''+'' then drop 1 x else x)" for x
  define hex :: "string \<Rightarrow> bool" where "hex x \<longleftrightarrow> take 2 x = ''0x'' \<or> take 2 x = ''0X''" for x
  have parse: "parse_number x =
      (let ds = digits_of (if hex (strip (dropWhile white x)) then 16 else 10)
             (if hex (strip (dropWhile white x)) then drop 2 (strip (dropWhile white x)) else strip (dropWhile white x)) in
       if ds = [] then None
       else Some ((if take 1 (dropWhile white x) = ''-'' then - 1 else 1) *
         int (fold (\<lambda>d n. (if hex (strip (dropWhile white x)) then 16 else 10) * n + d) ds 0)))" for x
    unfolding parse_number_def Let_def strip_def [symmetric] hex_def [symmetric] by simp
  have d: "dropWhile white (s @ CHR '','' # t) = u @ CHR '','' # t"
    unfolding u_def by (induction s) (auto simp: white_def)
  have sign: "(take 1 (x @ CHR '','' # t) = ''-'') = (take 1 x = ''-'')" for x :: string by (cases x) auto
  have strip: "strip (x @ CHR '','' # t) = strip x @ CHR '','' # t" for x by (cases x) (auto simp: strip_def)
  have hex: "hex (x @ CHR '','' # t) = hex x" for x by (cases x; cases "tl x") (auto simp: hex_def)
  have drop2: "hex x \<Longrightarrow> drop 2 (x @ CHR '','' # t) = drop 2 x @ CHR '','' # t" for x
    by (cases x; cases "tl x") (auto simp: hex_def)
  show ?thesis unfolding parse d u_def [symmetric] strip hex sign by (simp add: drop2 digits_of_comma del: drop_append)
qed

lemma parse_list_text: "parsed_batch vs = Some n \<Longrightarrow> parse_number (list_text vs) = Some n"
proof (cases vs)
  case (Cons v ws)
  assume "parsed_batch vs = Some n"
  then obtain t where t: "v = Some t" "parse_number t = Some n" by (auto simp: parsed_batch_def first_value_def Cons bind_eq_Some_conv)
  show ?thesis using t by (cases ws) (auto simp: list_text_def Cons parse_number_comma)
qed (simp add: parsed_batch_def first_value_def)

text \<open>Whatever was entered, the batch size that the page of an LDAP provider sends is an integer other than zero, printed in the
  normal way: the number that the text begins with, or a thousand.\<close>

theorem ldap_batch_normal:
  "\<exists>n rest. map_of (ldap_batch c) ''batchSizeForSync'' = Some (Some (int_str n) # rest) \<and> n \<noteq> 0 \<and>
     n = (case Option.bind (map_of c ''batchSizeForSync'') parsed_batch of Some m \<Rightarrow> if m = 0 then 1000 else m | None \<Rightarrow> 1000)"
proof -
  have d: "int_str 1000 = DEFAULT_BATCH_SIZE" by (simp add: int_str_def nat_str.simps digit_char_def DEFAULT_BATCH_SIZE_def)
  show ?thesis
  proof (cases "Option.bind (map_of c ''batchSizeForSync'') parsed_batch")
    case None
    then have "map_of (ldap_batch c) ''batchSizeForSync'' = Some [Some DEFAULT_BATCH_SIZE]"
      by (auto simp: ldap_batch_def text_values_def update_conv' split: option.splits)
    with None d show ?thesis by (intro exI [of _ 1000] exI [of _ "[]"]) simp
  next
    case (Some m)
    then obtain vs where vs: "map_of c ''batchSizeForSync'' = Some vs" "parsed_batch vs = Some m" by (auto simp: bind_eq_Some_conv)
    show ?thesis
    proof (cases "m = 0")
      case True
      then have "map_of (ldap_batch c) ''batchSizeForSync'' = Some [Some DEFAULT_BATCH_SIZE]"
        using vs by (simp add: ldap_batch_def text_values_def update_conv')
      with Some True d show ?thesis by (intro exI [of _ 1000] exI [of _ "[]"]) simp
    next
      case False
      with vs parse_list_text [OF vs(2)] Some show ?thesis
        by (intro exI [of _ m] exI [of _ "tl vs"]) (simp add: ldap_batch_def update_conv')
    qed
  qed
qed

end
