(* ===== verification/Realm_Detail.thy ===== *)
theory Realm_Detail
  imports Realm_Settings
begin

section \<open>The admin console: realms, themes and caches\<close>

text \<open>
  controllers/realm.js: \<open>RealmTabCtrl\<close> (138-148), \<open>RealmDropdownCtrl\<close> (174-181), \<open>RealmCreateCtrl\<close> (183-244),
  \<open>RealmDetailCtrl\<close> (250-339), \<open>RealmLoginSettingsCtrl\<close> (383-392), \<open>RealmThemeCtrl\<close> (401-458) and \<open>RealmCacheCtrl\<close>
  (460-482). A realm is its name and the rest, of any type. Not modelled: the window that shows an imported file.
\<close>

subsection \<open>Creating a realm\<close>

record 'r realm_doc =
  rd_id :: "string option"
  rd_realm :: "string option"
  rd_rest :: 'r

record 'r realm_create =
  rc_realm :: "'r realm_doc"
  rc_oldCopy :: "'r realm_doc"
  rc_changed :: bool
  rc_watchedName :: "string option"
  rc_importing :: bool
  rc_effects :: "'r realm_doc option ui_effect list"

definition new_realm_create :: "'r \<Rightarrow> 'r realm_create" where
  "new_realm_create enabled =
     (let r = \<lparr>rd_id = None, rd_realm = None, rd_rest = enabled\<rparr> in
      \<lparr>rc_realm = r, rc_oldCopy = r, rc_changed = False, rc_watchedName = None, rc_importing = False, rc_effects = []\<rparr>)"

definition realm_importFile :: "'r realm_doc res \<Rightarrow> ('r realm_create, unit) comp" where
  "realm_importFile parsed s =
     (case parsed of
        Throw e \<Rightarrow> (Throw e, s)
      | Ok r \<Rightarrow> (Ok (), s\<lparr>rc_realm := r, rc_importing := True\<rparr>))"

text \<open>The two watches, in their order; \<open>rc_watchedName\<close> is the name the second one saw last.\<close>

definition watch_realm_create :: "'r realm_create \<Rightarrow> 'r realm_create" where
  "watch_realm_create s =
     (let s = (if rc_realm s \<noteq> rc_oldCopy s then s\<lparr>rc_changed := True\<rparr> else s); name = rd_realm (rc_realm s) in
      if name = rc_watchedName s then s
      else s\<lparr>rc_watchedName := name, rc_realm := (rc_realm s)\<lparr>rd_id := name\<rparr>\<rparr>)"

definition realm_create_save :: "'r realm_create \<Rightarrow> 'r realm_create" where
  "realm_create_save s = s\<lparr>rc_effects := rc_effects s @ [Request ''POST'' ''Realm'' [] (Some (rc_realm s))]\<rparr>"

text \<open>The answer for the realm that was sent; its page opens after \<open>refreshPermissions\<close>.\<close>

definition realm_created :: "'r realm_create \<Rightarrow> 'r realm_create" where
  "realm_created s =
     s\<lparr>rc_effects := rc_effects s @ [Notify ''success'' ''The realm has been created.'', Request ''GET'' ''whoami'' [] None]\<rparr>"

definition realm_create_open :: "'r realm_doc \<Rightarrow> 'r realm_create \<Rightarrow> 'r realm_create" where
  "realm_create_open sent s = s\<lparr>rc_effects := rc_effects s @ [GoTo (''/realms/'' @ undef_str (rd_realm sent))]\<rparr>"

definition realm_create_cancel :: "'r realm_create \<Rightarrow> 'r realm_create" where
  "realm_create_cancel s = s\<lparr>rc_effects := rc_effects s @ [GoTo ''/'']\<rparr>"

definition realm_create_reset :: "'r realm_create \<Rightarrow> 'r realm_create" where
  "realm_create_reset s = s\<lparr>rc_effects := rc_effects s @ [Reload]\<rparr>"

subsection \<open>The settings of a realm\<close>

record 'r realm_page =
  rg_realm :: "'r realm_doc"
  rg_realmName :: "string option"
  rg_oldCopy :: "'r realm_doc"
  rg_changed :: bool
  rg_disableRename :: bool
  rg_realms :: "string list"
  rg_current :: "string option"
  rg_tokens :: bool
  rg_effects :: "'r realm_doc option ui_effect list"

definition rg_do :: "'r realm_doc option ui_effect list \<Rightarrow> 'r realm_page \<Rightarrow> 'r realm_page" where
  "rg_do es s = s\<lparr>rg_effects := rg_effects s @ es\<rparr>"

text \<open>The loops that look for the realm among the known ones; names are different.\<close>

definition shown_realm :: "string option \<Rightarrow> string list \<Rightarrow> string option \<Rightarrow> string option" where
  "shown_realm name realms current = (case find (\<lambda>r. Some r = name) realms of None \<Rightarrow> current | Some r \<Rightarrow> Some r)"

definition open_realm_page :: "string \<Rightarrow> string list \<Rightarrow> string option \<Rightarrow> 'r realm_doc \<Rightarrow> 'r realm_page" where
  "open_realm_page masterRealm realms current r =
     \<lparr>rg_realm = r, rg_realmName = rd_realm r, rg_oldCopy = r, rg_changed = False, rg_disableRename = (rd_realm r = Some masterRealm),
      rg_realms = realms, rg_current = shown_realm (rd_realm r) realms current, rg_tokens = True, rg_effects = []\<rparr>"

definition watch_realm :: "'r realm_page \<Rightarrow> 'r realm_page" where
  "watch_realm s =
     (if rg_realm s \<noteq> rg_oldCopy s \<or> rg_realmName s \<noteq> rd_realm (rg_oldCopy s) then s\<lparr>rg_changed := True\<rparr> else s)"

text \<open>What the callbacks of a save know: the realm that was sent, the old name, and whether it changed.\<close>

record 'r realm_saving =
  rv_sent :: "'r realm_doc"
  rv_nameChanged :: bool
  rv_oldName :: "string option"

definition realm_to_send :: "'r realm_page \<Rightarrow> 'r realm_saving" where
  "realm_to_send s =
     \<lparr>rv_sent = (rg_realm s)\<lparr>rd_realm := rg_realmName s\<rparr>, rv_nameChanged = (rg_realmName s \<noteq> rd_realm (rg_oldCopy s)),
      rv_oldName = rd_realm (rg_oldCopy s)\<rparr>"

definition realm_save :: "'r realm_page \<Rightarrow> 'r realm_page" where
  "realm_save s =
     rg_do [Request ''PUT'' ''Realm'' [(''id'', undef_str (rd_realm (rg_oldCopy s)))] (Some (rv_sent (realm_to_send s)))]
       (s\<lparr>rg_changed := False\<rparr>)"

text \<open>\<open>replace\<close> with names that have no \<open>$\<close>, which a replacement would interpret.\<close>

definition ends_with :: "string \<Rightarrow> string \<Rightarrow> bool" where
  "ends_with s suf \<longleftrightarrow> drop (length s - length suf) s = suf"

definition renamed_location :: "string \<Rightarrow> string \<Rightarrow> string \<Rightarrow> string" where
  "renamed_location href old new =
     replace_first (replace_first href (''/'' @ old @ ''/'') (''/'' @ new @ ''/'')) (''/realms/'' @ old) (''/realms/'' @ new)"

definition realm_saved :: "string \<Rightarrow> string \<Rightarrow> string \<Rightarrow> 'r realm_saving \<Rightarrow> 'r realm_page \<Rightarrow> 'r realm_page" where
  "realm_saved masterRealm iss href v s =
     (let s = rg_do [Request ''GET'' ''Realm'' [] None] s; name = undef_str (rd_realm (rv_sent v)) in
      if rv_nameChanged v then
        (if ends_with iss masterRealm then rg_do [Request ''GET'' ''whoami'' [] None] s
         else rg_do [OpenUrl ''replace'' (renamed_location href (undef_str (rv_oldName v)) name)] (s\<lparr>rg_tokens := False\<rparr>))
      else rg_do [GoTo (''/realms/'' @ name), Notify ''success'' ''Your changes have been saved to the realm.''] s)"

text \<open>After a new name the permissions are asked for twice, before the page of the realm opens.\<close>

definition realm_refreshed :: "bool \<Rightarrow> 'r realm_saving \<Rightarrow> 'r realm_page \<Rightarrow> 'r realm_page" where
  "realm_refreshed again v s =
     (if again then rg_do [Request ''GET'' ''whoami'' [] None] s
      else rg_do [Notify ''success'' ''Your changes have been saved to the realm.'',
        GoTo (''/realms/'' @ undef_str (rd_realm (rv_sent v)))] s)"

definition realms_answer :: "'r realm_saving \<Rightarrow> string list \<Rightarrow> 'r realm_page \<Rightarrow> 'r realm_page" where
  "realms_answer v realms s =
     (let s = s\<lparr>rg_realms := realms\<rparr> in
      if list_ex (\<lambda>r. Some r = rd_realm (rv_sent v)) realms
      then s\<lparr>rg_current := rd_realm (rv_sent v), rg_oldCopy := rg_realm s\<rparr> else s)"

definition realm_reset :: "'r realm_page \<Rightarrow> 'r realm_page" where
  "realm_reset s = s\<lparr>rg_realm := rg_oldCopy s, rg_changed := False\<rparr>"

definition realm_cancel :: "'r realm_page \<Rightarrow> 'r realm_page" where
  "realm_cancel s = rg_do [HistoryBack] s"

definition removeRealm :: "('r realm_page, unit) comp" where
  "removeRealm s =
     (case rg_current s of
        None \<Rightarrow> (Throw TypeError, s)
      | Some r \<Rightarrow> (Ok (), rg_do [ConfirmDelete r ''realm''] s))"

definition removeRealm_confirmed :: "('r realm_page, unit) comp" where
  "removeRealm_confirmed s =
     (case rg_current s of
        None \<Rightarrow> (Throw TypeError, s)
      | Some r \<Rightarrow> (Ok (), rg_do [Request ''DELETE'' ''Realm'' [(''id'', r)] None] s))"

definition removeRealm_done :: "'r realm_page \<Rightarrow> 'r realm_page" where
  "removeRealm_done s = rg_do [Request ''GET'' ''Realm'' [] None, Notify ''success'' ''The realm has been deleted.'', GoTo ''/''] s"

definition changeRealm :: "string \<Rightarrow> 'r ui_effect" where
  "changeRealm name = GoTo (''/realms/'' @ name)"

subsection \<open>Login settings\<close>

record login_settings =
  lo_loginWithEmailAllowed :: bool
  lo_duplicateEmailsAllowed :: bool
  lo_registrationEmailAsUsername :: bool

definition watch_loginWithEmail :: "login_settings realm_update \<Rightarrow> login_settings realm_update" where
  "watch_loginWithEmail s =
     (if lo_loginWithEmailAllowed (ru_realm s) then s\<lparr>ru_realm := (ru_realm s)\<lparr>lo_duplicateEmailsAllowed := False\<rparr>\<rparr> else s)"

definition set_loginWithEmail :: "bool \<Rightarrow> login_settings realm_update \<Rightarrow> login_settings realm_update" where
  "set_loginWithEmail b s =
     (let s' = s\<lparr>ru_realm := (ru_realm s)\<lparr>lo_loginWithEmailAllowed := b\<rparr>\<rparr> in
      ru_watch (if b = lo_loginWithEmailAllowed (ru_realm s) then s' else watch_loginWithEmail s'))"

text \<open>The switch for duplicate emails is shown only while it may be used (realm-login-settings.html 55).\<close>

definition set_duplicateEmails :: "bool \<Rightarrow> login_settings realm_update \<Rightarrow> login_settings realm_update" where
  "set_duplicateEmails b s =
     (if lo_loginWithEmailAllowed (ru_realm s) \<or> lo_registrationEmailAsUsername (ru_realm s) then s
      else ru_watch (s\<lparr>ru_realm := (ru_realm s)\<lparr>lo_duplicateEmailsAllowed := b\<rparr>\<rparr>))"

definition new_login_settings :: "login_settings \<Rightarrow> login_settings realm_update" where
  "new_login_settings r = ru_watch (watch_loginWithEmail (genericRealmUpdate r))"

subsection \<open>Themes\<close>

record theme_settings =
  th_internationalizationEnabled :: bool
  th_accountTheme :: "string option"
  th_loginTheme :: "string option"
  th_emailTheme :: "string option"
  th_supportedLocales :: "string list option"
  th_defaultLocale :: "string option"

record theme_page =
  tp_themes :: "string \<Rightarrow> (string \<times> string list option) list"
  tp_realm :: theme_settings
  tp_tags :: "string list"

text \<open>The server information lists themes of every type; a type without a list, on which the source would raise, does not occur.\<close>

definition localeForTheme :: "(string \<times> string list option) list \<Rightarrow> string option \<Rightarrow> string list" where
  "localeForTheme themes name =
     (case find (\<lambda>(n, l). n = (if str_truthy name then undef_str name else ''base'')) themes of
        None \<Rightarrow> []
      | Some (n, l) \<Rightarrow> (case l of None \<Rightarrow> [] | Some ls \<Rightarrow> ls))"

definition common_locales :: "theme_page \<Rightarrow> string list" where
  "common_locales s =
     (let r = tp_realm s; account = localeForTheme (tp_themes s ''account'') (th_accountTheme r);
          login = localeForTheme (tp_themes s ''login'') (th_loginTheme r);
          email = localeForTheme (tp_themes s ''email'') (th_emailTheme r) in
      filter (\<lambda>l. l \<in> set login \<and> l \<in> set email) account)"

text \<open>The loop over the locales of the realm, which it replaces on the way: the bound and the entries are those of the list that the
  realm has by then.\<close>

function locale_loop :: "string list \<Rightarrow> nat \<Rightarrow> string list \<Rightarrow> string list" where
  "locale_loop common i xs =
     (if i < length xs then locale_loop common (Suc i) (if xs ! i \<in> set common then xs else common) else xs)"
  by pat_completeness auto
termination
proof (relation "measures [\<lambda>(common, i, xs). if xs = common then 0 else 1, \<lambda>(common, i, xs). length xs - i]")
  fix common xs :: "string list" and i
  assume i: "i < length xs"
  then have "xs ! i \<notin> set common \<Longrightarrow> xs \<noteq> common" by auto
  with i show "((common, Suc i, if xs ! i \<in> set common then xs else common), common, i, xs)
      \<in> measures [\<lambda>(common, i, xs). if xs = common then 0 else 1, \<lambda>(common, i, xs). length xs - i]"
    by auto
qed simp

declare locale_loop.simps [simp del]

definition next_locales :: "string list \<Rightarrow> string list option \<Rightarrow> string list" where
  "next_locales common locales = (case locales of None \<Rightarrow> common | Some xs \<Rightarrow> locale_loop common 0 xs)"

definition next_default :: "string list \<Rightarrow> string option \<Rightarrow> string" where
  "next_default common d =
     (case d of None \<Rightarrow> ''en'' | Some l \<Rightarrow> if l = [] \<or> l \<notin> set common then ''en'' else l)"

definition updateSupported :: "theme_page \<Rightarrow> theme_page" where
  "updateSupported s =
     (if th_internationalizationEnabled (tp_realm s) then
        (let common = common_locales s; r = tp_realm s in
         s\<lparr>tp_tags := common,
           tp_realm := r\<lparr>th_supportedLocales := Some (next_locales common (th_supportedLocales r)),
             th_defaultLocale := Some (next_default common (th_defaultLocale r))\<rparr>\<rparr>)
      else s)"

definition new_theme_page :: "(string \<Rightarrow> (string \<times> string list option) list) \<Rightarrow> theme_settings \<Rightarrow> theme_page" where
  "new_theme_page themes r = updateSupported \<lparr>tp_themes = themes, tp_realm = r, tp_tags = []\<rparr>"

subsection \<open>Caches\<close>

datatype realm_cache = UserCache | RealmCache | KeysCache

fun cache_resource :: "realm_cache \<Rightarrow> string" where
  "cache_resource UserCache = ''RealmClearUserCache''"
| "cache_resource RealmCache = ''RealmClearRealmCache''"
| "cache_resource KeysCache = ''RealmClearKeysCache''"

fun cache_cleared_text :: "realm_cache \<Rightarrow> string" where
  "cache_cleared_text UserCache = ''User cache cleared''"
| "cache_cleared_text RealmCache = ''Realm cache cleared''"
| "cache_cleared_text KeysCache = ''Public keys cache cleared''"

text \<open>The object that is saved is the body, and \<open>:realm\<close> of the address is read from it.\<close>

definition clear_cache :: "realm_cache \<Rightarrow> string \<Rightarrow> (string \<times> string) list ui_effect" where
  "clear_cache c realm = Request ''POST'' (cache_resource c) [(''realm'', realm)] [(''realm'', realm)]"

definition cache_cleared :: "realm_cache \<Rightarrow> unit ui_effect" where
  "cache_cleared c = Notify ''success'' (cache_cleared_text c)"

subsection \<open>What holds of the pages\<close>

text \<open>A new realm is sent with its name as its id, whatever file was imported in between: the watch has run since the name changed.\<close>

lemma watch_realm_create_id:
  "rd_id (rc_realm s) = rd_realm (rc_realm s) \<or> rd_realm (rc_realm s) \<noteq> rc_watchedName s \<Longrightarrow>
   rd_id (rc_realm (watch_realm_create s)) = rd_realm (rc_realm (watch_realm_create s))"
  by (auto simp: watch_realm_create_def Let_def)

text \<open>The file of a realm whose name was typed already keeps the id of the file.\<close>

theorem imported_id_stays:
  assumes "rd_realm r = rc_watchedName s" and "rd_id r \<noteq> rd_realm r"
  shows "rd_id (rc_realm (watch_realm_create (snd (realm_importFile (Ok r) s)))) = rd_id r"
  using assms by (auto simp: realm_importFile_def watch_realm_create_def Let_def)

text \<open>The loop over the supported locales keeps them when every theme has all of them, and replaces them all otherwise.\<close>

lemma locale_loop_common: "locale_loop common i common = common"
proof (induction "length common - i" arbitrary: i)
  case 0
  then show ?case by (simp add: locale_loop.simps)
next
  case (Suc n)
  then show ?case by (subst locale_loop.simps) simp
qed

lemma locale_loop_from:
  "locale_loop common i xs = (if set (drop i xs) \<subseteq> set common then xs else common)"
proof (induction "length xs - i" arbitrary: i)
  case 0
  then show ?case by (simp add: locale_loop.simps)
next
  case (Suc n)
  then have i: "i < length xs" by simp
  then have d: "drop i xs = xs ! i # drop (Suc i) xs" by (rule Cons_nth_drop_Suc [symmetric])
  have "locale_loop common (Suc i) xs = (if set (drop (Suc i) xs) \<subseteq> set common then xs else common)"
    using Suc by simp
  with i show ?case unfolding d by (subst locale_loop.simps) (auto simp: locale_loop_common)
qed

lemma locale_loop_eq: "locale_loop common 0 xs = (if set xs \<subseteq> set common then xs else common)"
  by (simp add: locale_loop_from)

lemma next_locales_eq:
  "next_locales common locales = (case locales of None \<Rightarrow> common | Some xs \<Rightarrow> if set xs \<subseteq> set common then xs else common)"
  by (simp add: next_locales_def locale_loop_eq split: option.split)

lemma next_locales_again [simp]: "next_locales common (Some (next_locales common locales)) = next_locales common locales"
  by (simp add: next_locales_eq split: option.split)

lemma next_default_again [simp]: "next_default common (Some (next_default common d)) = next_default common d"
  by (simp add: next_default_def split: option.split)

lemma common_locales_updated [simp]: "common_locales (updateSupported s) = common_locales s"
  by (simp add: updateSupported_def common_locales_def Let_def)

lemma updateSupported_fields:
  assumes "th_internationalizationEnabled (tp_realm s)"
  shows "th_supportedLocales (tp_realm (updateSupported s)) = Some (next_locales (common_locales s) (th_supportedLocales (tp_realm s)))"
    and "th_defaultLocale (tp_realm (updateSupported s)) = Some (next_default (common_locales s) (th_defaultLocale (tp_realm s)))"
    and "tp_tags (updateSupported s) = common_locales s"
    and "th_internationalizationEnabled (tp_realm (updateSupported s))"
  using assms by (simp_all add: updateSupported_def Let_def)

lemma updateSupported_again: "updateSupported (updateSupported s) = updateSupported s"
proof (cases "th_internationalizationEnabled (tp_realm s)")
  case True
  show ?thesis
    unfolding updateSupported_def [of "updateSupported s"]
    by (simp add: updateSupported_fields [OF True]) (simp add: updateSupported_def True Let_def)
qed (simp add: updateSupported_def)

text \<open>C37. The locales of a realm on the page of its themes: when internationalisation is on, the locales offered are those that the
  account, login and email themes have in common; the locales of the realm are among them and stay as they are when they all were;
  the default is one of them or English; and doing it again, as the four watches do in a digest, changes nothing.\<close>

theorem theme_locales_settle:
  assumes "th_internationalizationEnabled (tp_realm s)"
  shows "\<exists>ls d. th_supportedLocales (tp_realm (updateSupported s)) = Some ls \<and> th_defaultLocale (tp_realm (updateSupported s)) = Some d \<and>
    set ls \<subseteq> set (common_locales s) \<and> (d \<in> set (common_locales s) \<or> d = ''en'') \<and>
    tp_tags (updateSupported s) = common_locales s \<and>
    (\<forall>xs. th_supportedLocales (tp_realm s) = Some xs \<and> set xs \<subseteq> set (common_locales s) \<longrightarrow> ls = xs) \<and>
    updateSupported (updateSupported s) = updateSupported s"
proof (intro exI conjI)
  let ?c = "common_locales s" and ?r = "tp_realm s"
  show "set (next_locales ?c (th_supportedLocales ?r)) \<subseteq> set ?c" by (auto simp: next_locales_eq split: option.split)
  show "next_default ?c (th_defaultLocale ?r) \<in> set ?c \<or> next_default ?c (th_defaultLocale ?r) = ''en''"
    by (auto simp: next_default_def split: option.split)
  show "\<forall>xs. th_supportedLocales ?r = Some xs \<and> set xs \<subseteq> set ?c \<longrightarrow> next_locales ?c (th_supportedLocales ?r) = xs"
    by (simp add: next_locales_eq)
qed (simp_all add: updateSupported_fields [OF assms] updateSupported_again)

theorem theme_locales_settle_witness:
  "let s = \<lparr>tp_themes = (\<lambda>_. [(''base'', Some [''de'', ''en'']), (''small'', Some [''de''])]),
      tp_realm = \<lparr>th_internationalizationEnabled = True, th_accountTheme = None, th_loginTheme = Some ''small'', th_emailTheme = None,
        th_supportedLocales = Some [''de'', ''en''], th_defaultLocale = Some ''fr''\<rparr>, tp_tags = []\<rparr> in
   th_supportedLocales (tp_realm (updateSupported s)) = Some [''de''] \<and> th_defaultLocale (tp_realm (updateSupported s)) = Some ''en'' \<and>
   updateSupported (updateSupported s) = updateSupported s"
proof -
  let ?s = "\<lparr>tp_themes = (\<lambda>_. [(''base'', Some [''de'', ''en'']), (''small'', Some [''de''])]),
      tp_realm = \<lparr>th_internationalizationEnabled = True, th_accountTheme = None, th_loginTheme = Some ''small'', th_emailTheme = None,
        th_supportedLocales = Some [''de'', ''en''], th_defaultLocale = Some ''fr''\<rparr>, tp_tags = []\<rparr>"
  have c: "common_locales ?s = [''de'']" by (simp add: common_locales_def localeForTheme_def str_truthy_def undef_str_def)
  have "updateSupported (updateSupported ?s) = updateSupported ?s" using theme_locales_settle [of ?s] by auto
  then show ?thesis
    unfolding Let_def using updateSupported_fields [of ?s] by (simp add: c next_locales_eq next_default_def)
qed

text \<open>English becomes the default also where it is not among the locales of the themes.\<close>

theorem default_locale_not_supported:
  assumes "th_internationalizationEnabled (tp_realm s)" and "''en'' \<notin> set (common_locales s)"
    and "th_defaultLocale (tp_realm s) = None"
  shows "th_defaultLocale (tp_realm (updateSupported s)) = Some ''en'' \<and> ''en'' \<notin> set (tp_tags (updateSupported s))"
  using assms by (simp add: updateSupported_fields next_default_def)

text \<open>Resetting the page of a realm does not reset a name that was typed: the page looks unchanged, and a later save renames the realm.\<close>

theorem reset_keeps_new_name:
  assumes "rg_realmName s \<noteq> rd_realm (rg_oldCopy s)"
  shows "\<not> rg_changed (realm_reset s)" and "rg_realm (realm_reset s) = rg_oldCopy s"
    and "rd_realm (rv_sent (realm_to_send (realm_reset s))) = rg_realmName s"
    and "rv_nameChanged (realm_to_send (realm_reset s))"
  using assms by (simp_all add: realm_reset_def realm_to_send_def)

text \<open>A realm that was renamed: with a session of the master realm the page of the new name opens after the permissions were fetched twice;
  with another session the tokens are deleted and the console is loaded anew.\<close>

theorem renamed_realm_opens:
  assumes "rv_nameChanged v"
  shows "ends_with iss masterRealm \<Longrightarrow>
      rg_effects (realm_refreshed False v (realm_refreshed True v (realm_saved masterRealm iss href v s))) = rg_effects s @
        [Request ''GET'' ''Realm'' [] None, Request ''GET'' ''whoami'' [] None, Request ''GET'' ''whoami'' [] None,
         Notify ''success'' ''Your changes have been saved to the realm.'', GoTo (''/realms/'' @ undef_str (rd_realm (rv_sent v)))]"
    and "\<not> ends_with iss masterRealm \<Longrightarrow> \<not> rg_tokens (realm_saved masterRealm iss href v s)"
  using assms by (simp_all add: realm_saved_def realm_refreshed_def rg_do_def Let_def)

text \<open>The issuer of any realm whose name ends with the name of the master realm is taken for it.\<close>

theorem issuer_with_suffix: "ends_with (base @ before @ masterRealm) masterRealm"
  by (simp add: ends_with_def)

text \<open>The address after a new name, and the address for a realm that is named like an earlier part of the path.\<close>

theorem renamed_location_example:
  "renamed_location ''https://h/auth/admin/demo/console/#/realms/demo'' ''demo'' ''new'' = ''https://h/auth/admin/new/console/#/realms/new''"
  by code_simp

theorem renamed_location_path:
  "renamed_location ''https://h/auth/admin/auth/console/#/realms/auth'' ''auth'' ''new'' = ''https://h/new/admin/auth/console/#/realms/new''"
  by code_simp

text \<open>The answer of the list of realms makes what is on the page by then the copy that a reset restores, although it was not sent.\<close>

theorem realms_answer_forgets_edits:
  assumes "Some r = rd_realm (rv_sent v)" and "r \<in> set realms"
  shows "rg_oldCopy (realms_answer v realms (s\<lparr>rg_realm := edited\<rparr>)) = edited"
  using assms by (auto simp: realms_answer_def Let_def list_ex_iff)

subsection \<open>Emails for the login\<close>

text \<open>The states of the page of the login settings.\<close>

inductive login_reach :: "login_settings \<Rightarrow> login_settings realm_update \<Rightarrow> bool" for r where
  login_open: "login_reach r (new_login_settings r)"
| login_with_email: "login_reach r s \<Longrightarrow> login_reach r (set_loginWithEmail b s)"
| login_duplicates: "login_reach r s \<Longrightarrow> login_reach r (set_duplicateEmails b s)"
| login_save: "login_reach r s \<Longrightarrow> login_reach r (ru_save name s)"
| login_saved: "login_reach r s \<Longrightarrow> login_reach r (ru_saved s)"
| login_reset: "login_reach r s \<Longrightarrow> login_reach r (ru_reset s)"

definition emails_agree :: "login_settings \<Rightarrow> bool" where
  "emails_agree r \<longleftrightarrow> \<not> (lo_loginWithEmailAllowed r \<and> lo_duplicateEmailsAllowed r)"

lemmas login_defs = new_login_settings_def set_loginWithEmail_def set_duplicateEmails_def watch_loginWithEmail_def ru_watch_def
  ru_save_def ru_saved_def ru_reset_def genericRealmUpdate_def emails_agree_def Let_def

lemma login_oldCopy: "login_reach r s \<Longrightarrow> ru_oldCopy s = r"
  by (induction rule: login_reach.induct) (auto simp: login_defs)

text \<open>From a realm without both, no use of the page makes one, nor sends one.\<close>

theorem login_emails_agree:
  assumes "login_reach r s" and "emails_agree r"
  shows "emails_agree (ru_realm s) \<and> (\<forall>m n ps r'. Request m n ps r' \<in> set (ru_effects s) \<longrightarrow> emails_agree r')"
  using assms
proof (induction rule: login_reach.induct)
  case (login_with_email s b)
  then show ?case using login_oldCopy [of r s] by (auto simp: login_defs)
next
  case (login_duplicates s b)
  then show ?case using login_oldCopy [of r s] by (auto simp: login_defs)
next
  case (login_reset s)
  then show ?case using login_oldCopy [of r s] by (simp add: ru_reset_def)
qed (auto simp: login_defs)

end
