(* ===== verification/Realm_Registration.thy ===== *)
theory Realm_Registration
  imports Composites Services Units Filters Realm_Settings
begin

section \<open>The admin console: realm roles and the registration of clients\<close>

text \<open>
  controllers/realm.js: \<open>RealmKeysProvidersCtrl\<close> (1209-1245), \<open>RoleTabCtrl\<close> (1409-1422), \<open>RoleListCtrl\<close> (1424-1452),
  \<open>RoleDetailCtrl\<close> (1454-1496, on \<open>roleControl\<close> of Composites), \<open>ClientInitialAccessCtrl\<close> and \<open>ClientInitialAccessCreateCtrl\<close>
  (2447-2500), \<open>ClientRegPoliciesCtrl\<close> (2502-2539) and \<open>ClientRegPolicyDetailCtrl\<close> (2541-2624, on \<open>ComponentUtils\<close> of Services).
  What the filters of AngularJS let through and in which order is an argument of the definitions.
\<close>

subsection \<open>The providers of keys of a realm\<close>

record key_instance =
  ki_id :: string
  ki_name :: string
  ki_providerId :: string
  ki_provider :: "string option"

text \<open>The two loops: an instance gets the provider with its id, the last one if there are several.\<close>

definition link_provider :: "string list \<Rightarrow> key_instance \<Rightarrow> key_instance" where
  "link_provider providers i = fold (\<lambda>p i. if p = ki_providerId i then i\<lparr>ki_provider := Some p\<rparr> else i) providers i"

definition key_providers_answer :: "string list \<Rightarrow> key_instance list \<Rightarrow> key_instance list" where
  "key_providers_answer providers = map (link_provider providers)"

definition query_key_providers :: "string \<Rightarrow> string \<Rightarrow> unit ui_effect" where
  "query_key_providers realm realmId =
     Request ''GET'' ''Components'' [(''realm'', realm), (''parent'', realmId), (''type'', ''org.keycloak.keys.KeyProvider'')] ()"

definition add_key_provider :: "string \<Rightarrow> string \<Rightarrow> unit ui_effect" where
  "add_key_provider realm provider = GoTo (''/create/keys/'' @ realm @ ''/providers/'' @ provider)"

definition remove_key_instance :: "key_instance \<Rightarrow> unit ui_effect" where
  "remove_key_instance i = ConfirmDelete (ki_name i) ''key provider''"

definition remove_key_instance_confirmed :: "string \<Rightarrow> key_instance \<Rightarrow> unit ui_effect" where
  "remove_key_instance_confirmed realm i = Request ''DELETE'' ''Components'' [(''realm'', realm), (''componentId'', ki_id i)] ()"

definition key_instance_removed :: "unit ui_effect list" where
  "key_instance_removed = [Reload, Notify ''success'' ''The provider has been deleted.'']"

subsection \<open>The list of realm roles\<close>

record role_list =
  rl_realm :: string
  rl_roles :: "role_entry list"
  rl_filtered :: "role_entry list"
  rl_totalItems :: int
  rl_pages :: page_selector
  rl_pageSize :: int
  rl_effects :: "unit ui_effect list"

definition page_count :: "int \<Rightarrow> int \<Rightarrow> int" where
  "page_count n k = \<lceil>of_int n / (of_int k :: rat)\<rceil>"

definition new_role_list :: "string \<Rightarrow> role_entry list \<Rightarrow> role_list" where
  "new_role_list realm roles =
     \<lparr>rl_realm = realm, rl_roles = roles, rl_filtered = [], rl_totalItems = 0,
      rl_pages = \<lparr>ps_currentPage = 1, ps_currentPageInput = 1, ps_numberOfPages = page_count (int (length roles)) 20\<rparr>,
      rl_pageSize = 20, rl_effects = []\<rparr>"

text \<open>The watch on the search; \<open>matches\<close> is what \<open>filterFilter\<close> lets through for it.\<close>

definition watch_role_search :: "(role_entry \<Rightarrow> bool) \<Rightarrow> role_list \<Rightarrow> role_list" where
  "watch_role_search matches s =
     (let found = filter matches (rl_roles s) in
      s\<lparr>rl_filtered := found, rl_totalItems := int (length found),
        rl_pages := \<lparr>ps_currentPage = 1, ps_currentPageInput = 1,
          ps_numberOfPages = page_count (int (length found)) (rl_pageSize s)\<rparr>\<rparr>)"

text \<open>The rows of a page (role-list.html 37): the roles that match in the order \<open>ordered\<close>, \<open>startFrom\<close>, \<open>limitTo\<close>.\<close>

definition role_rows :: "(role_entry list \<Rightarrow> role_entry list) \<Rightarrow> (role_entry \<Rightarrow> bool) \<Rightarrow> role_list \<Rightarrow> role_entry list" where
  "role_rows ordered matches s =
     take (nat (rl_pageSize s))
       (startFrom (Some (ordered (filter matches (rl_roles s)))) ((ps_currentPage (rl_pages s) - 1) * rl_pageSize s))"

definition list_removeRole :: "role_entry \<Rightarrow> role_list \<Rightarrow> role_list" where
  "list_removeRole r s = s\<lparr>rl_effects := rl_effects s @ [ConfirmDelete (re_name r) ''role'']\<rparr>"

definition list_removeRole_confirmed :: "role_entry \<Rightarrow> role_list \<Rightarrow> role_list" where
  "list_removeRole_confirmed r s =
     s\<lparr>rl_effects := rl_effects s @ [Request ''DELETE'' ''RoleById'' [(''realm'', rl_realm s), (''role'', re_id r)] ()]\<rparr>"

definition list_role_removed :: "role_list \<Rightarrow> role_list" where
  "list_role_removed s = s\<lparr>rl_effects := rl_effects s @ [Reload, Notify ''success'' ''The role has been deleted.'']\<rparr>"

subsection \<open>The page of a realm role\<close>

text \<open>\<open>removeRole\<close> of the tab: what it does when the dialog is confirmed names \<open>RoleById\<close>, which the controller is not given.\<close>

definition tab_removeRole :: "string \<Rightarrow> unit ui_effect" where
  "tab_removeRole name = ConfirmDelete name ''role''"

definition tab_removeRole_confirmed :: "unit res" where
  "tab_removeRole_confirmed = Throw ReferenceError"

record role_detail =
  rt_editor :: composite
  rt_create :: bool

definition new_role_detail :: "string \<Rightarrow> role_rep \<Rightarrow> role_entry list \<Rightarrow> role_detail" where
  "new_role_detail realm role roles =
     (let create = (rr_name role = []) in \<lparr>rt_editor = (new_composite realm role roles)\<lparr>co_changed := create\<rparr>, rt_create = create\<rparr>)"

definition role_detail_save :: "role_detail \<Rightarrow> role_detail" where
  "role_detail_save s =
     (let e = rt_editor s in
      if rt_create s then s\<lparr>rt_editor := co_do (Request ''POST'' ''Role'' [(''realm'', co_realm e)] (RoleBody (co_scopeRole e))) e\<rparr>
      else s\<lparr>rt_editor := role_update e\<rparr>)"

text \<open>The answer to the creation asks for the new role by the name that the page shows; its answer opens the page.\<close>

definition role_created :: "role_detail \<Rightarrow> role_detail" where
  "role_created s =
     (let e = (rt_editor s)\<lparr>co_changed := False\<rparr> in
      s\<lparr>rt_editor := co_do (Request ''GET'' ''Role'' [(''realm'', co_realm e), (''role'', rr_name (co_scopeRole e))] EmptyBody) e\<rparr>)"

definition role_created_open :: "string \<Rightarrow> role_detail \<Rightarrow> role_detail" where
  "role_created_open i s =
     (let e = rt_editor s in
      s\<lparr>rt_editor := co_do (Notify ''success'' ''The role has been created.'')
        (co_do (GoTo (''/realms/'' @ co_realm e @ ''/roles/'' @ i)) e)\<rparr>)"

definition role_detail_remove :: "role_detail \<Rightarrow> unit ui_effect list" where
  "role_detail_remove s = remove_realm_role (rr_name (co_scopeRole (rt_editor s)))"

definition role_detail_cancel :: "role_detail \<Rightarrow> role_detail" where
  "role_detail_cancel s = (let e = rt_editor s in s\<lparr>rt_editor := co_do (GoTo (''/realms/'' @ co_realm e @ ''/roles'')) e\<rparr>)"

subsection \<open>Initial access tokens\<close>

definition remove_initial_access :: "string \<Rightarrow> unit ui_effect" where
  "remove_initial_access i = ConfirmDelete i ''initial access token''"

definition remove_initial_access_confirmed :: "string \<Rightarrow> string \<Rightarrow> unit ui_effect" where
  "remove_initial_access_confirmed realm i = Request ''DELETE'' ''ClientInitialAccess'' [(''realm'', realm), (''id'', i)] ()"

definition initial_access_removed :: "unit ui_effect list" where
  "initial_access_removed = [Notify ''success'' ''The initial access token was deleted.'', Reload]"

record initial_access =
  ia_realm :: string
  ia_unit :: string
  ia_expiration :: int
  ia_count :: int
  ia_id :: "string option"
  ia_token :: "string option"
  ia_effects :: "(int \<times> int) ui_effect list"

definition new_initial_access :: "string \<Rightarrow> initial_access res" where
  "new_initial_access realm =
     res_bind (toUnit 0 ''Days'') (\<lambda>n.
       Ok \<lparr>ia_realm = realm, ia_unit = ''Days'', ia_expiration = n, ia_count = 1, ia_id = None, ia_token = None, ia_effects = []\<rparr>)"

text \<open>The body is the time in seconds and how many clients may use the token.\<close>

definition initial_access_save :: "(initial_access, unit) comp" where
  "initial_access_save s =
     (case toSeconds (ia_expiration s) (ia_unit s) of
        Throw e \<Rightarrow> (Throw e, s)
      | Ok n \<Rightarrow> (Ok (), s\<lparr>ia_effects := ia_effects s @ [Request ''POST'' ''ClientInitialAccess'' [(''realm'', ia_realm s)] (n, ia_count s)]\<rparr>))"

definition initial_access_saved :: "string \<Rightarrow> string \<Rightarrow> initial_access \<Rightarrow> initial_access" where
  "initial_access_saved i token s = s\<lparr>ia_id := Some i, ia_token := Some token\<rparr>"

definition initial_access_list :: "string \<Rightarrow> 'b ui_effect" where
  "initial_access_list realm = GoTo (''/realms/'' @ realm @ ''/client-registration/client-initial-access'')"

definition initial_access_cancel :: "initial_access \<Rightarrow> initial_access" where
  "initial_access_cancel s = s\<lparr>ia_effects := ia_effects s @ [initial_access_list (ia_realm s)]\<rparr>"

text \<open>\<open>done\<close> asks first, since the token is not shown again; the texts are keys of the translation.\<close>

definition initial_access_done :: "initial_access \<Rightarrow> initial_access" where
  "initial_access_done s =
     s\<lparr>ia_effects := ia_effects s @ [Confirm ''initial-access-token.confirm.title'' ''initial-access-token.confirm.text'']\<rparr>"

subsection \<open>Policies for the registration of clients\<close>

record reg_policy =
  gp_id :: string
  gp_name :: string
  gp_providerId :: string
  gp_subType :: "string option"

record reg_policies =
  gs_anonPolicies :: "reg_policy list"
  gs_authPolicies :: "reg_policy list"

fun sort_policies :: "reg_policy list \<Rightarrow> (reg_policies, unit) comp" where
  "sort_policies [] s = (Ok (), s)"
| "sort_policies (p # ps) s =
     (if gp_subType p = Some ''anonymous'' then sort_policies ps (s\<lparr>gs_anonPolicies := gs_anonPolicies s @ [p]\<rparr>)
      else if gp_subType p = Some ''authenticated'' then sort_policies ps (s\<lparr>gs_authPolicies := gs_authPolicies s @ [p]\<rparr>)
      else (Throw (Thrown ''subType is required for clientRegistration policy component!''), s))"

definition new_reg_policies :: "reg_policy list \<Rightarrow> unit res \<times> reg_policies" where
  "new_reg_policies ps = sort_policies ps \<lparr>gs_anonPolicies = [], gs_authPolicies = []\<rparr>"

definition add_reg_provider :: "string \<Rightarrow> string \<Rightarrow> string \<Rightarrow> unit ui_effect" where
  "add_reg_provider realm authType provider =
     GoTo (''/realms/'' @ realm @ ''/client-registration/client-reg-policies/create/'' @ authType @ ''/'' @ provider)"

definition reg_getInstanceLink :: "string \<Rightarrow> reg_policy \<Rightarrow> string" where
  "reg_getInstanceLink realm p = ''/realms/'' @ realm @ ''/client-registration/client-reg-policies/'' @ gp_providerId p @ ''/'' @ gp_id p"

definition remove_reg_policy :: "reg_policy \<Rightarrow> unit ui_effect" where
  "remove_reg_policy p = ConfirmDelete (gp_name p) ''client registration policy''"

definition remove_reg_policy_confirmed :: "string \<Rightarrow> reg_policy \<Rightarrow> unit ui_effect" where
  "remove_reg_policy_confirmed realm p = Request ''DELETE'' ''Components'' [(''realm'', realm), (''componentId'', gp_id p)] ()"

definition reg_policy_removed :: "unit ui_effect list" where
  "reg_policy_removed = [Reload, Notify ''success'' ''The policy has been deleted.'']"

subsection \<open>The page of a policy\<close>

text \<open>\<open>defaultValue\<close> is a list of texts for the two types with several values and a text for the others.\<close>

record reg_property = config_property +
  rp_defaultText :: "string option"
  rp_defaultList :: "string list option"

definition toDefaultValue :: "reg_property \<Rightarrow> string list" where
  "toDefaultValue p =
     (if cp_type p = ''MultivaluedString'' \<or> cp_type p = ''MultivaluedList'' then
        (case rp_defaultList p of Some vs \<Rightarrow> vs | None \<Rightarrow> [])
      else [if str_truthy (rp_defaultText p) then the (rp_defaultText p) else []])"

record reg_type =
  gt_id :: string
  gt_properties :: "reg_property list option"

record reg_instance =
  gi_id :: "string option"
  gi_name :: "string option"
  gi_providerId :: string
  gi_parentId :: "string option"
  gi_config :: component_config

record reg_page =
  gd_realm :: string
  gd_type :: reg_type
  gd_properties :: "config_property list option"
  gd_create :: bool
  gd_instance :: reg_instance
  gd_oldCopy :: reg_instance
  gd_changed :: bool
  gd_effects :: "reg_instance option ui_effect list"

definition policy_defaults :: "reg_property list \<Rightarrow> component_config" where
  "policy_defaults ps = fold (\<lambda>p c. c(cp_name p \<mapsto> toDefaultValue p)) ps Map.empty"

definition base_properties :: "reg_type \<Rightarrow> config_property list option" where
  "base_properties t = map_option (map config_property.truncate) (gt_properties t)"

text \<open>The first provider with the id of the instance; without one its properties cannot be read.\<close>

definition new_reg_page :: "string \<Rightarrow> string \<Rightarrow> reg_type list \<Rightarrow> reg_instance \<Rightarrow> reg_page res" where
  "new_reg_page realm realmId types i =
     (case find (\<lambda>t. gt_id t = gi_providerId i) types of
        None \<Rightarrow> Throw TypeError
      | Some t \<Rightarrow>
          (let create = \<not> str_truthy (gi_name i);
               i = (if create then i\<lparr>gi_name := Some (gi_providerId i), gi_parentId := Some realmId,
                      gi_config := (case gt_properties t of None \<Rightarrow> Map.empty | Some ps \<Rightarrow> policy_defaults ps)\<rparr> else i);
               i = i\<lparr>gi_config := addLastEmptyValueToMultivaluedLists (base_properties t) (gi_config i)\<rparr> in
           Ok \<lparr>gd_realm = realm, gd_type = t, gd_properties = addMvOptionsToMultivaluedLists (base_properties t), gd_create = create, gd_instance = i,
               gd_oldCopy = i, gd_changed = False, gd_effects = []\<rparr>))"

definition watch_reg_page :: "reg_page \<Rightarrow> reg_page" where
  "watch_reg_page s = (if gd_instance s \<noteq> gd_oldCopy s then s\<lparr>gd_changed := True\<rparr> else s)"

definition gd_do :: "reg_instance option ui_effect list \<Rightarrow> reg_page \<Rightarrow> reg_page" where
  "gd_do es s = s\<lparr>gd_effects := gd_effects s @ es\<rparr>"

definition reg_reset :: "reg_page \<Rightarrow> reg_page" where
  "reg_reset s = gd_do [Reload] s"

text \<open>The transformation of the request works on the instance of the page itself.\<close>

definition reg_save :: "reg_page \<Rightarrow> reg_page" where
  "reg_save s =
     (let i = (gd_instance s)\<lparr>gi_config := removeLastEmptyValue (gi_config (gd_instance s))\<rparr>;
          s = s\<lparr>gd_changed := False, gd_instance := i\<rparr> in
      if gd_create s then gd_do [Request ''POST'' ''Components'' [(''realm'', gd_realm s)] (Some i)] s
      else gd_do [Request ''PUT'' ''Components'' [(''realm'', gd_realm s), (''componentId'', undef_str (gi_id i))] (Some i)] s)"

definition reg_saved :: "string \<Rightarrow> reg_page \<Rightarrow> reg_page" where
  "reg_saved location s =
     (if gd_create s then
        gd_do [GoTo (''/realms/'' @ gd_realm s @ ''/client-registration/client-reg-policies/'' @ gi_providerId (gd_instance s) @ ''/'' @
                 after_last CHR ''/'' location),
               Notify ''success'' ''The policy has been created.''] s
      else gd_do [Reload, Notify ''success'' ''The policy has been updated.''] s)"

subsection \<open>What holds of the pages\<close>

text \<open>An instance is linked with its provider exactly when the server knows it.\<close>

lemma fold_link: "fold (\<lambda>p i. if p = ki_providerId i then i\<lparr>ki_provider := Some p\<rparr> else i) ps i =
   (if ki_providerId i \<in> set ps then i\<lparr>ki_provider := Some (ki_providerId i)\<rparr> else i)"
  by (induction ps arbitrary: i) auto

theorem key_providers_linked:
  "key_providers_answer providers is =
     map (\<lambda>i. if ki_providerId i \<in> set providers then i\<lparr>ki_provider := Some (ki_providerId i)\<rparr> else i) is"
  by (simp add: key_providers_answer_def link_provider_def fold_link)

text \<open>The pages of a list put together.\<close>

lemma concat_pages: "concat (map (\<lambda>i. take k (drop (i * k) xs)) [0..<n]) = take (n * k) xs"
proof (induction n)
  case (Suc n)
  have "take (n * k) xs @ take k (drop (n * k) xs) = take (n * k + k) xs" by (simp add: take_add)
  then show ?case by (simp add: Suc.IH add.commute)
qed simp

lemma page_count_enough:
  assumes "0 < k"
  shows "n \<le> nat (page_count (int n) (int k)) * k"
proof -
  have "(of_nat n :: rat) \<le> of_int (page_count (int n) (int k)) * of_nat k"
    using assms ceiling_divide_upper [of "of_nat k :: rat" "of_nat n"] by (simp add: page_count_def mult.commute)
  then have "(of_int (int n) :: rat) \<le> of_int (page_count (int n) (int k) * int k)" by simp
  then have "int n \<le> page_count (int n) (int k) * int k" by linarith
  moreover have "0 \<le> page_count (int n) (int k)"
    using ceiling_mono [of 0 "(of_nat n :: rat) / of_nat k"] by (simp add: page_count_def)
  ultimately show ?thesis by (metis nat_le_iff nat_mult_distrib nat_int of_nat_mult zero_le_imp_eq_int)
qed

text \<open>The rows of all the pages of the list of roles, in their order, are the roles that match the search in the order of the list: none
  is missing and none is shown twice, for every order that has as many roles as there are.\<close>

theorem role_pages_complete:
  assumes "\<And>rs. length (ordered rs) = length (rs :: role_entry list)"
    and s: "s = watch_role_search matches (new_role_list realm roles)"
  shows "concat (map (\<lambda>i. role_rows ordered matches (s\<lparr>rl_pages := (rl_pages s)\<lparr>ps_currentPage := 1 + int i\<rparr>\<rparr>))
      [0..<nat (ps_numberOfPages (rl_pages s))]) = ordered (filter matches roles)"
proof -
  let ?xs = "ordered (filter matches roles)"
  have "role_rows ordered matches (s\<lparr>rl_pages := (rl_pages s)\<lparr>ps_currentPage := 1 + int i\<rparr>\<rparr>) = take 20 (drop (i * 20) ?xs)" for i
    by (simp add: s role_rows_def watch_role_search_def new_role_list_def startFrom_def Let_def nat_mult_distrib)
  moreover have "ps_numberOfPages (rl_pages s) = page_count (int (length ?xs)) 20"
    by (simp add: s watch_role_search_def new_role_list_def Let_def assms(1))
  ultimately show ?thesis
    using page_count_enough [of 20 "length ?xs"] by (simp add: concat_pages)
qed

text \<open>A role is created once and then edited: what is saved is the role on the page, by \<open>POST\<close> or by \<open>PUT\<close> to its id.\<close>

theorem role_detail_save_sends:
  "co_effects (rt_editor (role_detail_save s)) = co_effects (rt_editor s) @
     [if rt_create s then Request ''POST'' ''Role'' [(''realm'', co_realm (rt_editor s))] (RoleBody (co_scopeRole (rt_editor s)))
      else Request ''PUT'' ''RoleById'' [(''realm'', co_realm (rt_editor s)), (''role'', co_role_id (rt_editor s))]
             (RoleBody (co_scopeRole (rt_editor s)))]"
  by (simp add: role_detail_save_def role_update_def co_do_def Let_def)

text \<open>A token that is created on the page as it opens never expires by itself; another expiration is sent in seconds.\<close>

theorem initial_access_expiration:
  assumes "new_initial_access realm = Ok s"
  shows "ia_effects (snd (initial_access_save (s\<lparr>ia_expiration := n\<rparr>))) =
      [Request ''POST'' ''ClientInitialAccess'' [(''realm'', realm)] (n * 86400, 1)]"
    and "ia_expiration s = 0"
  using assms by (auto simp: new_initial_access_def toUnit_def toSeconds_def initial_access_save_def)

text \<open>The policies are sorted by who registers a client; a policy that does not say so stops the page.\<close>

lemma sort_policies_spec:
  "sort_policies ps s =
     (case find (\<lambda>p. gp_subType p \<noteq> Some ''anonymous'' \<and> gp_subType p \<noteq> Some ''authenticated'') ps of
        None \<Rightarrow> (Ok (), s\<lparr>gs_anonPolicies := gs_anonPolicies s @ filter (\<lambda>p. gp_subType p = Some ''anonymous'') ps,
                        gs_authPolicies := gs_authPolicies s @ filter (\<lambda>p. gp_subType p = Some ''authenticated'') ps\<rparr>)
      | Some _ \<Rightarrow> (Throw (Thrown ''subType is required for clientRegistration policy component!''), snd (sort_policies ps s)))"
  by (induction ps s rule: sort_policies.induct) (auto split: option.splits)

theorem reg_policies_sorted:
  "new_reg_policies ps =
     (Ok (), \<lparr>gs_anonPolicies = filter (\<lambda>p. gp_subType p = Some ''anonymous'') ps,
              gs_authPolicies = filter (\<lambda>p. gp_subType p = Some ''authenticated'') ps\<rparr>) \<longleftrightarrow>
   (\<forall>p \<in> set ps. gp_subType p \<in> {Some ''anonymous'', Some ''authenticated''})"
  unfolding new_reg_policies_def by (subst sort_policies_spec) (auto split: option.split simp: find_None_iff find_Some_iff)

lemma drop_add_empty_some: "drop_empty (add_empty (Some v)) = drop_empty v"
  by (auto simp: drop_empty_def add_empty_def)

lemma policy_defaults_get: "distinct (map cp_name ps) \<Longrightarrow> p \<in> set ps \<Longrightarrow> policy_defaults ps (cp_name p) = Some (toDefaultValue p)"
proof (induction ps rule: rev_induct)
  case (snoc q ps)
  show ?case
  proof (cases "p = q")
    case False
    with snoc.prems have "p \<in> set ps" by auto
    moreover from this have "cp_name p \<in> cp_name ` set ps" by (rule imageI)
    with snoc.prems(1) have "cp_name p \<noteq> cp_name q" by auto
    ultimately show ?thesis using snoc by (simp add: policy_defaults_def)
  qed (simp add: policy_defaults_def)
qed simp

text \<open>A new policy that is saved as it is sends the default of every property, without an empty text at the end; a property without default is
  sent without a value.\<close>

theorem new_policy_sends_defaults:
  assumes "new_reg_page realm realmId types i = Ok s" and "gd_create s" and "gt_properties (gd_type s) = Some ps"
    and "distinct (map cp_name ps)" and "p \<in> set ps"
  shows "gi_config (gd_instance (reg_save s)) (cp_name p) = Some (drop_empty (toDefaultValue p))"
proof -
  have c: "gi_config (gd_instance s) = addLastEmptyValueToMultivaluedLists (base_properties (gd_type s)) (policy_defaults ps)"
    using assms(1-3) by (auto simp: new_reg_page_def Let_def split: option.splits if_splits)
  have "gi_config (gd_instance (reg_save s)) (cp_name p) = map_option drop_empty (gi_config (gd_instance s) (cp_name p))"
    by (simp add: reg_save_def gd_do_def removeLastEmptyValue_def Let_def)
  then show ?thesis
    using assms(3) policy_defaults_get [OF assms(4,5)]
    by (simp add: c addLastEmptyValueToMultivaluedLists_def base_properties_def fold_add_empty drop_add_empty_some)
qed

text \<open>A stored policy that is saved as it was opened sends the configuration it had.\<close>

theorem stored_policy_roundtrip:
  assumes "new_reg_page realm realmId types i = Ok s" and "str_truthy (gi_name i)"
    and "\<And>name vs. gi_config i name = Some vs \<Longrightarrow> vs \<noteq> [] \<Longrightarrow> last vs \<noteq> []"
  shows "gi_config (gd_instance (reg_save s)) =
    (\<lambda>name. if name \<in> multivalued (base_properties (gd_type s)) \<and> gi_config i name = None then Some [] else gi_config i name)"
    and "watch_reg_page s = s"
proof -
  have c: "gi_config (gd_instance s) = addLastEmptyValueToMultivaluedLists (base_properties (gd_type s)) (gi_config i)"
    using assms(1,2) by (auto simp: new_reg_page_def Let_def split: option.splits if_splits)
  have "Some (gi_config (gd_instance (reg_save s))) = components_transformRequest (Some (gi_config (gd_instance s)))"
    by (simp add: reg_save_def gd_do_def components_transformRequest_def Let_def)
  with component_config_roundtrip [of "gi_config i" "base_properties (gd_type s)"] assms(3)
  show "gi_config (gd_instance (reg_save s)) =
    (\<lambda>name. if name \<in> multivalued (base_properties (gd_type s)) \<and> gi_config i name = None then Some [] else gi_config i name)"
    by (simp add: c)
  show "watch_reg_page s = s"
    using assms(1) by (auto simp: new_reg_page_def watch_reg_page_def Let_def split: option.splits)
qed

end
