(* ===== verification/Startup.thy ===== *)
theory Startup
  imports Realm_Settings
begin

section \<open>The admin console: startup and permissions\<close>

text \<open>
  app.js 1-97: what happens from the loading of the page to the start of the AngularJS application. The adapter signs the user in
  (\<open>init\<close> with \<open>login-required\<close>, whose outcome is an event here), then the messages are loaded, then the permissions
  (\<open>whoami\<close>), then the application starts. \<open>refreshPermissions\<close> is used again by the pages of realms. An answer with
  status 200 carries the parsed body or the exception of \<open>JSON.parse\<close>; a request is answered once.
\<close>

subsection \<open>State\<close>

text \<open>What \<open>refreshPermissions\<close> does with its answer: start the application, or a callback of a page. No call passes an error callback.\<close>

datatype perm_use = StartConsole | PageCallback nat

datatype su_request = GetMessages string | GetWhoami string perm_use

datatype 'm su_answer = Status200 "'m res" | OtherStatus nat

datatype su_effect = ReloadWindow | Bootstrap | CallPage nat

record 'm startup =
  su_token :: "string option"
  su_authz :: bool
  su_locale :: string
  su_resourceBundle :: "'m option"
  su_user :: "auth_user option"
  su_loggedIn :: bool
  su_hasAnyAccess :: bool
  su_requests :: "su_request list"
  su_effects :: "su_effect list"

definition page_loaded :: "'m startup" where
  "page_loaded = \<lparr>su_token = None, su_authz = False, su_locale = ''en'', su_resourceBundle = None, su_user = None, su_loggedIn = False,
     su_hasAnyAccess = False, su_requests = [], su_effects = []\<rparr>"

subsection \<open>Operations\<close>

definition su_do :: "su_effect \<Rightarrow> 'm startup \<Rightarrow> 'm startup" where
  "su_do e s = s\<lparr>su_effects := su_effects s @ [e]\<rparr>"

definition su_send :: "su_request \<Rightarrow> 'm startup \<Rightarrow> 'm startup" where
  "su_send r s = s\<lparr>su_requests := su_requests s @ [r]\<rparr>"

definition hasAnyAccess :: "auth_user \<Rightarrow> bool" where
  "hasAnyAccess user \<longleftrightarrow> au_realm_access user \<noteq> None"

text \<open>The token that is sent is the one of the moment, whether there is one or not.\<close>

definition refreshPermissions :: "perm_use \<Rightarrow> 'm startup \<Rightarrow> 'm startup" where
  "refreshPermissions use s = su_send (GetWhoami (''bearer '' @ undef_str (su_token s)) use) s"

definition loadResourceBundle :: "'m startup \<Rightarrow> 'm startup" where
  "loadResourceBundle s = su_send (GetMessages (''messages.json?lang='' @ su_locale s)) s"

text \<open>\<open>init\<close> succeeded with a token and, unless the flow gave none, an ID token with its claim \<open>locale\<close>.\<close>

definition init_succeeded :: "string \<Rightarrow> string option option \<Rightarrow> ('m startup, unit) comp" where
  "init_succeeded token idToken s =
     (let s = s\<lparr>su_token := Some token, su_authz := True\<rparr> in
      case idToken of
        None \<Rightarrow> (Throw TypeError, s)
      | Some l \<Rightarrow> (Ok (), loadResourceBundle (if str_truthy l then s\<lparr>su_locale := the l\<rparr> else s)))"

definition init_failed :: "'m startup \<Rightarrow> 'm startup" where
  "init_failed s = su_do ReloadWindow s"

definition onAuthLogout :: "'m startup \<Rightarrow> 'm startup" where
  "onAuthLogout s = su_do ReloadWindow s"

text \<open>The messages arrive. No error callback is passed: another status does nothing.\<close>

definition messages_answer :: "'m su_answer \<Rightarrow> ('m startup, unit) comp" where
  "messages_answer a s =
     (case a of
        OtherStatus _ \<Rightarrow> (Ok (), s)
      | Status200 (Throw e) \<Rightarrow> (Throw e, s)
      | Status200 (Ok m) \<Rightarrow> (Ok (), refreshPermissions StartConsole (s\<lparr>su_resourceBundle := Some m\<rparr>)))"

definition use_permissions :: "perm_use \<Rightarrow> 'm startup \<Rightarrow> 'm startup" where
  "use_permissions use s = su_do (case use of StartConsole \<Rightarrow> Bootstrap | PageCallback n \<Rightarrow> CallPage n) s"

text \<open>The permissions arrive; with another status the missing error callback is called.\<close>

definition whoami_answer :: "perm_use \<Rightarrow> auth_user su_answer \<Rightarrow> ('m startup, unit) comp" where
  "whoami_answer use a s =
     (case a of
        OtherStatus _ \<Rightarrow> (Throw TypeError, s)
      | Status200 (Throw e) \<Rightarrow> (Throw e, s)
      | Status200 (Ok u) \<Rightarrow> (Ok (), use_permissions use (s\<lparr>su_user := Some u, su_loggedIn := True, su_hasAnyAccess := hasAnyAccess u\<rparr>)))"

lemmas startup_defs = page_loaded_def su_do_def su_send_def refreshPermissions_def loadResourceBundle_def init_succeeded_def
  init_failed_def onAuthLogout_def messages_answer_def use_permissions_def whoami_answer_def Let_def

subsection \<open>Every order of events\<close>

text \<open>\<open>init\<close> ends once; after that answers arrive in any order, tokens are refreshed, the user is signed out elsewhere, and, once
  the application runs, pages ask for the permissions again.\<close>

inductive startup_step :: "'m startup \<Rightarrow> 'm startup \<Rightarrow> bool" where
  step_init: "\<not> su_authz s \<Longrightarrow> startup_step s (snd (init_succeeded token idToken s))"
| step_init_failed: "\<not> su_authz s \<Longrightarrow> startup_step s (init_failed s)"
| step_messages: "su_requests s = xs @ GetMessages u # ys \<Longrightarrow>
    startup_step s (snd (messages_answer a (s\<lparr>su_requests := xs @ ys\<rparr>)))"
| step_whoami: "su_requests s = xs @ GetWhoami t use # ys \<Longrightarrow>
    startup_step s (snd (whoami_answer use a (s\<lparr>su_requests := xs @ ys\<rparr>)))"
| step_token: "startup_step s (s\<lparr>su_token := token\<rparr>)"
| step_logout: "startup_step s (onAuthLogout s)"
| step_page: "Bootstrap \<in> set (su_effects s) \<Longrightarrow> startup_step s (refreshPermissions (PageCallback n) s)"

inductive_cases startup_stepE: "startup_step s s'"

inductive startup_reach :: "'m startup \<Rightarrow> bool" where
  reach_loaded: "startup_reach page_loaded"
| reach_step: "startup_reach s \<Longrightarrow> startup_step s s' \<Longrightarrow> startup_reach s'"

subsection \<open>What holds of every startup\<close>

fun starts_console :: "su_request \<Rightarrow> bool" where
  "starts_console (GetMessages u) = True"
| "starts_console (GetWhoami t use) = (use = StartConsole)"

text \<open>How many times the application has been started or may still be started.\<close>

definition start_chances :: "'m startup \<Rightarrow> nat" where
  "start_chances s =
     (if su_authz s then 0 else 1) + length (filter starts_console (su_requests s)) + count_list (su_effects s) Bootstrap"

definition startup_ok :: "'m startup \<Rightarrow> bool" where
  "startup_ok s \<longleftrightarrow>
     start_chances s \<le> 1 \<and>
     (\<forall>t. GetWhoami t StartConsole \<in> set (su_requests s) \<longrightarrow> su_resourceBundle s \<noteq> None) \<and>
     (su_requests s \<noteq> [] \<longrightarrow> su_authz s) \<and>
     (Bootstrap \<in> set (su_effects s) \<longrightarrow> su_authz s \<and> su_resourceBundle s \<noteq> None \<and> su_user s \<noteq> None \<and> su_loggedIn s)"

lemma count_list_append_single: "count_list (xs @ [x]) y = count_list xs y + (if x = y then 1 else 0)"
  by (induction xs) auto

lemma startup_step_ok:
  assumes "startup_step s s'" and "startup_ok s"
  shows "startup_ok s'"
  using assms
proof (induction rule: startup_step.induct)
  case (step_messages s xs u ys a)
  then show ?case
    by (auto simp: startup_ok_def start_chances_def startup_defs count_list_append_single split: su_answer.splits res.splits)
next
  case (step_whoami s xs t use ys a)
  then show ?case
    by (auto simp: startup_ok_def start_chances_def startup_defs count_list_append_single split: su_answer.splits res.splits perm_use.splits)
qed (auto simp: startup_ok_def start_chances_def startup_defs count_list_append_single split: option.splits)

lemma startup_reach_ok: "startup_reach s \<Longrightarrow> startup_ok s"
proof (induction rule: startup_reach.induct)
  case reach_loaded
  show ?case by (simp add: startup_ok_def start_chances_def page_loaded_def)
qed (rule startup_step_ok)

text \<open>C34. In whatever order the events of a page come, the application is started at most once, and only after the user has signed in,
  the messages have been loaded and the permissions of the user have been read.\<close>

theorem console_started_once:
  assumes "startup_reach s"
  shows "count_list (su_effects s) Bootstrap \<le> 1 \<and>
    (Bootstrap \<in> set (su_effects s) \<longrightarrow> su_authz s \<and> su_resourceBundle s \<noteq> None \<and> su_user s \<noteq> None \<and> su_loggedIn s)"
  using startup_reach_ok [OF assms] by (auto simp: startup_ok_def start_chances_def)

text \<open>The way to the application when nothing fails.\<close>

definition demo_user :: auth_user where
  "demo_user = \<lparr>au_realm = ''master'', au_createRealm = True, au_realm_access = Some [''master'' \<mapsto> [''manage-realm'']]\<rparr>"

lemma startup_run:
  fixes token :: string and lang :: "string option" and m :: 'm and u :: auth_user
  defines "s1 \<equiv> snd (init_succeeded token (Some lang) (page_loaded :: 'm startup))"
  defines "s2 \<equiv> snd (messages_answer (Status200 (Ok m)) (s1\<lparr>su_requests := []\<rparr>))"
  defines "s3 \<equiv> snd (whoami_answer StartConsole (Status200 (Ok u)) (s2\<lparr>su_requests := []\<rparr>))"
  shows "startup_reach s3" and "su_effects s3 = [Bootstrap]" and "su_user s3 = Some u" and "su_resourceBundle s3 = Some m"
    and "su_hasAnyAccess s3 = hasAnyAccess u" and "su_locale s3 = (if str_truthy lang then the lang else ''en'')"
proof -
  have "startup_reach s1"
    unfolding s1_def by (rule reach_step [OF reach_loaded step_init]) (simp add: page_loaded_def)
  moreover have "\<exists>x. su_requests s1 = [] @ GetMessages x # []" by (simp add: s1_def startup_defs)
  ultimately have "startup_reach s2"
    unfolding s2_def using step_messages [of s1 "[]" _ "[]" "Status200 (Ok m)"] by (auto intro: reach_step)
  moreover have "\<exists>x. su_requests s2 = [] @ GetWhoami x StartConsole # []" by (simp add: s2_def startup_defs)
  ultimately show "startup_reach s3"
    unfolding s3_def using step_whoami [of s2 "[]" _ StartConsole "[]" "Status200 (Ok u)"] by (auto intro: reach_step)
qed (simp_all add: s1_def s2_def s3_def startup_defs)

theorem console_started_once_witness:
  "\<exists>s :: nat startup. startup_reach s \<and> count_list (su_effects s) Bootstrap = 1 \<and> su_authz s \<and> su_user s = Some demo_user"
proof -
  obtain s :: "nat startup" where s: "startup_reach s" "su_effects s = [Bootstrap]" "su_user s = Some demo_user"
    using startup_run(1-3) [where token = "''t''" and lang = None and m = "0 :: nat" and u = demo_user] by blast
  from console_started_once [OF s(1)] s show ?thesis by auto
qed

subsection \<open>Failing requests\<close>

lemma start_chances_step: "startup_step s s' \<Longrightarrow> start_chances s' \<le> start_chances s"
proof (induction rule: startup_step.induct)
  case (step_messages s xs u ys a)
  then show ?case
    by (auto simp: start_chances_def startup_defs count_list_append_single split: su_answer.splits res.splits)
next
  case (step_whoami s xs t use ys a)
  then show ?case
    by (auto simp: start_chances_def startup_defs count_list_append_single split: su_answer.splits res.splits perm_use.splits)
qed (auto simp: start_chances_def startup_defs count_list_append_single split: option.splits)

lemma start_chances_steps: "startup_step\<^sup>*\<^sup>* s s' \<Longrightarrow> start_chances s' \<le> start_chances s"
  by (induction rule: rtranclp_induct) (auto dest: start_chances_step)

lemma no_chance_no_start: "start_chances s = 0 \<Longrightarrow> startup_step\<^sup>*\<^sup>* s s' \<Longrightarrow> Bootstrap \<notin> set (su_effects s')"
  using start_chances_steps [of s s'] by (auto simp: start_chances_def count_list_0_iff)

text \<open>Failing answers are not retried: when the messages or the first permissions cannot be read, the application is never started,
  whatever happens on the page later. The user sees an empty page.\<close>

theorem failed_answer_blocks_console:
  assumes "startup_reach s" and "su_requests s = xs @ r # ys"
    and "(\<exists>u. r = GetMessages u \<and> s1 = snd (messages_answer (OtherStatus n) (s\<lparr>su_requests := xs @ ys\<rparr>))) \<or>
         (\<exists>t. r = GetWhoami t StartConsole \<and> s1 = snd (whoami_answer StartConsole (OtherStatus n) (s\<lparr>su_requests := xs @ ys\<rparr>)))"
    and "startup_step\<^sup>*\<^sup>* s1 s2"
  shows "Bootstrap \<notin> set (su_effects s2)"
proof (rule no_chance_no_start [OF _ assms(4)])
  have "start_chances s \<le> 1" using startup_reach_ok [OF assms(1)] by (simp add: startup_ok_def)
  then show "start_chances s1 = 0"
    using assms(2,3) by (auto simp: start_chances_def messages_answer_def whoami_answer_def split: if_splits)
qed

text \<open>Without an ID token the handler of the login raises and the messages are not even asked for.\<close>

theorem no_id_token_raises:
  "init_succeeded token None s = (Throw TypeError, s\<lparr>su_token := Some token, su_authz := True\<rparr>)"
  by (simp add: init_succeeded_def)

end
