(* ===== verification/Directives.thy ===== *)
theory Directives
  imports Services Numbers "HOL-Library.AList"
begin

section \<open>The admin console: directives\<close>

text \<open>
  app.js, the directives that have behaviour of their own: the save button \<open>kcSave\<close> (2324-2369), the switches (2147-2277),
  \<open>kcEnter\<close> (2310-2322), \<open>kcReset\<close> (2371-2389), \<open>kcReadOnly\<close> (2431-2472), \<open>kcOpen\<close> (2977-2991), the dialogs that choose a role and the
  editors of configurations (2618-2819), and the table of directives that are only a template (2474-2616). Not modelled: classes,
  colours and sizes of elements, and the reading of files.
\<close>

subsection \<open>The save button\<close>

text \<open>What a click finds: \<open>changed\<close> if the scope itself has it, the name of the form around the button, and whether that form is valid.\<close>

record save_click =
  sc_changed :: "bool option"
  sc_form :: "string option"
  sc_valid :: bool

datatype save_result = NotChanged | Prevented | Saved | Rejected_Fields | NoForm

record save_button =
  sb_disabled :: bool
  sb_timers :: "int list"

definition new_save_button :: save_button where
  "new_save_button = \<lparr>sb_disabled = False, sb_timers = []\<rparr>"

definition clickDelay :: int where
  "clickDelay = 500"

definition kcSave_click :: "int \<Rightarrow> save_click \<Rightarrow> save_button \<Rightarrow> save_result \<times> save_button" where
  "kcSave_click now c s =
     (if sc_changed c = Some False then (NotChanged, s)
      else if sb_disabled s then (Prevented, s)
      else
        (if \<not> str_truthy (sc_form c) then NoForm else if sc_valid c then Saved else Rejected_Fields,
         s\<lparr>sb_disabled := True, sb_timers := sb_timers s @ [now + clickDelay]\<rparr>))"

definition kcSave_timer :: "int \<Rightarrow> save_button \<Rightarrow> save_button" where
  "kcSave_timer due s = s\<lparr>sb_disabled := False, sb_timers := remove1 due (sb_timers s)\<rparr>"

text \<open>A button in time: the clock, the button, and when \<open>save\<close> was called, latest last. A timer runs at the time it is due or later.\<close>

record save_run =
  sr_now :: int
  sr_button :: save_button
  sr_saves :: "int list"

inductive save_step :: "save_run \<Rightarrow> save_run \<Rightarrow> bool" where
  step_wait: "sr_now s \<le> t \<Longrightarrow> save_step s (s\<lparr>sr_now := t\<rparr>)"
| step_click: "kcSave_click (sr_now s) c (sr_button s) = (r, b) \<Longrightarrow>
    save_step s (s\<lparr>sr_button := b, sr_saves := sr_saves s @ (if r = Saved then [sr_now s] else [])\<rparr>)"
| step_timer: "due \<in> set (sb_timers (sr_button s)) \<Longrightarrow> due \<le> sr_now s \<Longrightarrow>
    save_step s (s\<lparr>sr_button := kcSave_timer due (sr_button s)\<rparr>)"

inductive save_reach :: "save_run \<Rightarrow> bool" where
  save_start: "save_reach \<lparr>sr_now = t, sr_button = new_save_button, sr_saves = []\<rparr>"
| save_more: "save_reach s \<Longrightarrow> save_step s s' \<Longrightarrow> save_reach s'"

definition save_ok :: "save_run \<Rightarrow> bool" where
  "save_ok s \<longleftrightarrow>
     sorted_wrt (\<lambda>a b. a + clickDelay \<le> b) (sr_saves s) \<and>
     (if sb_disabled (sr_button s)
      then \<exists>due. sb_timers (sr_button s) = [due] \<and> (\<forall>t \<in> set (sr_saves s). t + clickDelay \<le> due)
      else sb_timers (sr_button s) = [] \<and> (\<forall>t \<in> set (sr_saves s). t + clickDelay \<le> sr_now s))"

lemma save_step_ok:
  assumes "save_step s s'" and "save_ok s"
  shows "save_ok s'"
  using assms
proof (induction rule: save_step.induct)
  case (step_wait s t)
  then show ?case by (force simp: save_ok_def)
next
  case (step_click s c r b)
  then show ?case
    by (auto simp: save_ok_def kcSave_click_def sorted_wrt_append clickDelay_def split: if_splits) (drule (1) bspec, linarith)+
next
  case (step_timer due s)
  then show ?case by (force simp: save_ok_def kcSave_timer_def split: if_splits)
qed

lemma save_reach_ok: "save_reach s \<Longrightarrow> save_ok s"
proof (induction rule: save_reach.induct)
  case (save_start t)
  show ?case by (simp add: save_ok_def new_save_button_def)
qed (rule save_step_ok)

text \<open>C35. However often and whenever the save button of a form is clicked, two calls of \<open>save\<close> are at least half a second apart: a double
  click submits the form once.\<close>

theorem saves_apart:
  assumes "save_reach s" and "i < j" and "j < length (sr_saves s)"
  shows "sr_saves s ! i + 500 \<le> sr_saves s ! j"
  using save_reach_ok [OF assms(1)] assms(2,3)
  by (auto simp: save_ok_def sorted_wrt_iff_nth_less clickDelay_def)

text \<open>The button works again once the timer has run, and a form without changes is not saved; a click on an invalid form counts as well.\<close>

theorem save_button_again:
  assumes "save_reach s" and "sb_disabled (sr_button s)" and "sc_changed c \<noteq> Some False" and "str_truthy (sc_form c)" and "sc_valid c"
  shows "\<exists>due. sb_timers (sr_button s) = [due] \<and> fst (kcSave_click now c (kcSave_timer due (sr_button s))) = Saved"
  using save_reach_ok [OF assms(1)] assms(2-5) by (auto simp: save_ok_def kcSave_timer_def kcSave_click_def)

definition demo_click :: save_click where
  "demo_click = \<lparr>sc_changed = Some True, sc_form = Some ''realmForm'', sc_valid = True\<rparr>"

lemma demo_saves: "\<exists>s. save_reach s \<and> sr_saves s = [0, 600]"
proof -
  let ?b1 = "\<lparr>sb_disabled = True, sb_timers = [500]\<rparr>" and ?b2 = "\<lparr>sb_disabled = True, sb_timers = [1100]\<rparr>"
  have "save_reach \<lparr>sr_now = 0, sr_button = new_save_button, sr_saves = []\<rparr>" by (rule save_start)
  from save_more [OF this step_click [of _ demo_click Saved ?b1]]
  have "save_reach \<lparr>sr_now = 0, sr_button = ?b1, sr_saves = [0]\<rparr>"
    by (simp add: kcSave_click_def demo_click_def new_save_button_def clickDelay_def str_truthy_def)
  from save_more [OF this step_click [of _ demo_click Prevented ?b1]]
  have "save_reach \<lparr>sr_now = 0, sr_button = ?b1, sr_saves = [0]\<rparr>"
    by (simp add: kcSave_click_def demo_click_def)
  from save_more [OF this step_wait [of _ 600]] have "save_reach \<lparr>sr_now = 600, sr_button = ?b1, sr_saves = [0]\<rparr>" by simp
  from save_more [OF this step_timer [of 500]] have "save_reach \<lparr>sr_now = 600, sr_button = new_save_button, sr_saves = [0]\<rparr>"
    by (simp add: kcSave_timer_def new_save_button_def)
  from save_more [OF this step_click [of _ demo_click Saved ?b2]]
  have "save_reach \<lparr>sr_now = 600, sr_button = ?b2, sr_saves = [0, 600]\<rparr>"
    by (simp add: kcSave_click_def demo_click_def new_save_button_def clickDelay_def str_truthy_def)
  then show ?thesis by force
qed

theorem saves_apart_witness: "\<exists>s. save_reach s \<and> length (sr_saves s) = 2 \<and> sr_saves s ! 0 + 500 \<le> sr_saves s ! 1"
proof -
  obtain s where s: "save_reach s" "sr_saves s = [0, 600]" using demo_saves by blast
  from saves_apart [OF s(1), of 0 1] s show ?thesis by auto
qed

subsection \<open>Forms that may only be read\<close>

text \<open>The elements of a form that are not to be ignored, by their tags and in their order: whether each is disabled.\<close>

record form_elements =
  fo_inputs :: "bool list"
  fo_buttons :: "bool list"
  fo_selects :: "bool list"
  fo_textareas :: "bool list"

text \<open>The object \<open>disabled\<close>, one for all forms of the console: the keys that it has.\<close>

definition ro_key :: "string \<Rightarrow> nat \<Rightarrow> string" where
  "ro_key tag i = tag @ nat_str i"

fun disable_each :: "string \<Rightarrow> nat \<Rightarrow> bool list \<Rightarrow> string set \<Rightarrow> bool list \<times> string set" where
  "disable_each tag i [] D = ([], D)"
| "disable_each tag i (b # bs) D =
     (let (bs', D') = disable_each tag (Suc i) bs (if b then D else insert (ro_key tag i) D) in (True # bs', D'))"

text \<open>The entry that is deleted is the one of the index without the tag.\<close>

fun enable_each :: "string \<Rightarrow> nat \<Rightarrow> bool list \<Rightarrow> string set \<Rightarrow> bool list \<times> string set" where
  "enable_each tag i [] D = ([], D)"
| "enable_each tag i (b # bs) D =
     (let (bs', D') = enable_each tag (Suc i) bs (if ro_key tag i \<in> D then D - {nat_str i} else D) in
      ((b \<and> ro_key tag i \<notin> D) # bs', D'))"

definition kcReadOnly :: "bool \<Rightarrow> form_elements \<times> string set \<Rightarrow> form_elements \<times> string set" where
  "kcReadOnly readOnly = (\<lambda>(f, D).
     if readOnly then
       (let (is, D) = disable_each ''INPUT'' 0 (fo_inputs f) D; (bs, D) = disable_each ''BUTTON'' 0 (fo_buttons f) D;
            (ss, D) = disable_each ''SELECT'' 0 (fo_selects f) D; (ts, D) = disable_each ''TEXTAREA'' 0 (fo_textareas f) D in
        (\<lparr>fo_inputs = is, fo_buttons = bs, fo_selects = ss, fo_textareas = ts\<rparr>, D))
     else
       (let (is, D) = enable_each ''INPUT'' 0 (fo_inputs f) D; (is, D) = enable_each ''INPUT'' 0 is D;
            (bs, D) = enable_each ''BUTTON'' 0 (fo_buttons f) D; (ss, D) = enable_each ''SELECT'' 0 (fo_selects f) D;
            (ts, D) = enable_each ''TEXTAREA'' 0 (fo_textareas f) D in
        (\<lparr>fo_inputs = is, fo_buttons = bs, fo_selects = ss, fo_textareas = ts\<rparr>, D)))"

definition ro_tags :: "string set" where
  "ro_tags = {''INPUT'', ''BUTTON'', ''SELECT'', ''TEXTAREA''}"

lemma nat_str_inj: "nat_str m = nat_str n \<Longrightarrow> m = n"
  by (metis nat_str_value)

lemma ro_key_inj:
  assumes "ro_key t i = ro_key u j" and "t \<in> ro_tags" and "u \<in> ro_tags"
  shows "t = u \<and> i = j"
proof -
  let ?P = "\<lambda>c. c \<notin> set ''0123456789''"
  have tag: "takeWhile ?P (ro_key v k) = v" if "v \<in> ro_tags" for v k
  proof -
    have "takeWhile ?P (nat_str k) = []"
      using nat_str_digits [of "hd (nat_str k)" k] nat_str_not_Nil [of k] by (cases "nat_str k") auto
    moreover have "\<forall>c \<in> set v. ?P c" using that by (auto simp: ro_tags_def)
    ultimately show ?thesis by (simp add: ro_key_def takeWhile_append2)
  qed
  then have "t = u" using assms by metis
  then show ?thesis using assms(1) by (simp add: ro_key_def nat_str_inj)
qed

definition recorded :: "string \<Rightarrow> nat \<Rightarrow> bool list \<Rightarrow> string set" where
  "recorded tag i bs = (\<lambda>j. ro_key tag (i + j)) ` {j. j < length bs \<and> \<not> bs ! j}"

lemma recorded_Cons: "recorded tag i (b # bs) = (if b then {} else {ro_key tag i}) \<union> recorded tag (Suc i) bs"
proof -
  have "{j. j < length (b # bs) \<and> \<not> (b # bs) ! j} = (if b then {} else {0}) \<union> Suc ` {j. j < length bs \<and> \<not> bs ! j}"
    by (auto simp: less_Suc_eq_0_disj)
  then show ?thesis by (simp add: recorded_def image_Un image_image)
qed

lemma disable_each_eq: "disable_each tag i bs D = (replicate (length bs) True, D \<union> recorded tag i bs)"
proof (induction bs arbitrary: i D)
  case (Cons b bs)
  then show ?case by (auto simp: recorded_Cons)
qed (simp add: recorded_def)

text \<open>No key is the text of a number: nothing is ever deleted.\<close>

definition ro_keys :: "string set \<Rightarrow> bool" where
  "ro_keys D \<longleftrightarrow> (\<forall>k \<in> D. \<forall>n. k \<noteq> nat_str n)"

lemma enable_each_eq:
  assumes "ro_keys D"
  shows "enable_each tag i bs D = (map (\<lambda>j. bs ! j \<and> ro_key tag (i + j) \<notin> D) [0..<length bs], D)"
proof (induction bs arbitrary: i)
  case (Cons b bs)
  have "D - {nat_str i} = D" using assms by (auto simp: ro_keys_def)
  then have "enable_each tag i (b # bs) D =
      ((b \<and> ro_key tag i \<notin> D) # map (\<lambda>j. bs ! j \<and> ro_key tag (Suc i + j) \<notin> D) [0..<length bs], D)"
    using Cons [of "Suc i"] by simp
  also have "\<dots> = (map (\<lambda>j. (b # bs) ! j \<and> ro_key tag (i + j) \<notin> D) [0..<Suc (length bs)], D)"
    by (subst map_upt_Suc) simp
  finally show ?case by simp
qed simp

lemma ro_key_not_number:
  assumes "t \<in> ro_tags"
  shows "ro_key t i \<noteq> nat_str n"
proof
  assume eq: "ro_key t i = nat_str n"
  have "hd t \<in> set (ro_key t i)" using assms by (auto simp: ro_tags_def ro_key_def)
  then have "hd t \<in> set ''0123456789''" unfolding eq by (rule nat_str_digits)
  then show False using assms by (auto simp: ro_tags_def)
qed

lemma ro_keys_recorded: "t \<in> ro_tags \<Longrightarrow> ro_keys (recorded t i bs)"
  by (auto simp: ro_keys_def recorded_def ro_key_not_number)

lemma ro_keys_Un: "ro_keys (A \<union> B) \<longleftrightarrow> ro_keys A \<and> ro_keys B"
  by (auto simp: ro_keys_def)

lemma recorded_iff: "t \<in> ro_tags \<Longrightarrow> u \<in> ro_tags \<Longrightarrow> ro_key t j \<in> recorded u 0 bs \<longleftrightarrow> t = u \<and> j < length bs \<and> \<not> bs ! j"
  by (auto simp: recorded_def dest: ro_key_inj)

definition form_keys :: "form_elements \<Rightarrow> string set" where
  "form_keys f = recorded ''INPUT'' 0 (fo_inputs f) \<union> recorded ''BUTTON'' 0 (fo_buttons f) \<union> recorded ''SELECT'' 0 (fo_selects f) \<union>
     recorded ''TEXTAREA'' 0 (fo_textareas f)"

lemma ro_tags_members: "''INPUT'' \<in> ro_tags" "''BUTTON'' \<in> ro_tags" "''SELECT'' \<in> ro_tags" "''TEXTAREA'' \<in> ro_tags"
  by (simp_all add: ro_tags_def)

lemma ro_keys_form: "ro_keys (form_keys f)"
  by (simp add: form_keys_def ro_keys_Un ro_keys_recorded ro_tags_members)

lemma form_keys_iff:
  "ro_key ''INPUT'' j \<in> form_keys f \<longleftrightarrow> j < length (fo_inputs f) \<and> \<not> fo_inputs f ! j"
  "ro_key ''BUTTON'' j \<in> form_keys f \<longleftrightarrow> j < length (fo_buttons f) \<and> \<not> fo_buttons f ! j"
  "ro_key ''SELECT'' j \<in> form_keys f \<longleftrightarrow> j < length (fo_selects f) \<and> \<not> fo_selects f ! j"
  "ro_key ''TEXTAREA'' j \<in> form_keys f \<longleftrightarrow> j < length (fo_textareas f) \<and> \<not> fo_textareas f ! j"
  by (simp_all add: form_keys_def recorded_iff ro_tags_members)

definition all_disabled :: "form_elements \<Rightarrow> form_elements" where
  "all_disabled f = \<lparr>fo_inputs = replicate (length (fo_inputs f)) True, fo_buttons = replicate (length (fo_buttons f)) True,
     fo_selects = replicate (length (fo_selects f)) True, fo_textareas = replicate (length (fo_textareas f)) True\<rparr>"

lemma kcReadOnly_True: "kcReadOnly True (f, D) = (all_disabled f, D \<union> form_keys f)"
  by (simp add: kcReadOnly_def disable_each_eq all_disabled_def form_keys_def Let_def Un_assoc)

definition still_disabled :: "string \<Rightarrow> string set \<Rightarrow> bool list \<Rightarrow> bool list" where
  "still_disabled tag D bs = map (\<lambda>j. bs ! j \<and> ro_key tag j \<notin> D) [0..<length bs]"

lemma still_disabled_twice: "still_disabled tag D (still_disabled tag D bs) = still_disabled tag D bs"
  by (auto simp: still_disabled_def)

lemma enable_still: "ro_keys D \<Longrightarrow> enable_each tag 0 bs D = (still_disabled tag D bs, D)"
  by (simp add: enable_each_eq still_disabled_def)

lemma kcReadOnly_False:
  "ro_keys D \<Longrightarrow> kcReadOnly False (f, D) =
     (\<lparr>fo_inputs = still_disabled ''INPUT'' D (fo_inputs f), fo_buttons = still_disabled ''BUTTON'' D (fo_buttons f),
       fo_selects = still_disabled ''SELECT'' D (fo_selects f), fo_textareas = still_disabled ''TEXTAREA'' D (fo_textareas f)\<rparr>, D)"
  by (simp add: kcReadOnly_def enable_still still_disabled_twice Let_def)

text \<open>A form that is made read-only and writable again is as it was, if no form was read-only before: what was disabled stays so.\<close>

theorem read_only_and_back: "fst (kcReadOnly False (kcReadOnly True (f, {}))) = f"
proof -
  have flags: "map (\<lambda>j. replicate (length bs) True ! j \<and> (j < length bs \<longrightarrow> bs ! j)) [0..<length bs] = bs" for bs :: "bool list"
    by (rule nth_equalityI) auto
  show ?thesis
    by (simp add: kcReadOnly_True kcReadOnly_False ro_keys_form all_disabled_def still_disabled_def form_keys_iff flags)
qed

text \<open>What has been recorded once is never forgotten: a form that is shown later gets its element enabled, although it was disabled for
  another reason, when an element of the same tag at the same place of an earlier form was recorded.\<close>

theorem recorded_element_enabled:
  assumes "fo_inputs f = False # is" and "fo_inputs g = True # js"
  shows "\<exists>ks. fo_inputs (fst (kcReadOnly False (g, snd (kcReadOnly False (kcReadOnly True (f, {})))))) = False # ks"
proof -
  have "snd (kcReadOnly False (kcReadOnly True (f, {}))) = form_keys f"
    by (simp add: kcReadOnly_True kcReadOnly_False ro_keys_form)
  moreover have "ro_key ''INPUT'' 0 \<in> form_keys f" by (simp add: form_keys_iff assms)
  ultimately show ?thesis
    by (simp add: kcReadOnly_False ro_keys_form still_disabled_def assms upt_conv_Cons del: upt_Suc)
qed

subsection \<open>Keys and clicks\<close>

text \<open>Which keys act on a switch: the space bar and the enter key click its box. \<open>kcEnter\<close> acts on the enter key only.\<close>

definition switch_key :: "nat \<Rightarrow> bool \<Rightarrow> bool" where
  "switch_key code on = (if code = 32 \<or> code = 13 then \<not> on else on)"

definition switch_texts :: "string option \<Rightarrow> string option \<Rightarrow> string \<times> string" where
  "switch_texts onText offText =
     (if str_truthy onText then the onText else ''ON'', if str_truthy offText then the offText else ''OFF'')"

text \<open>The values of a switch between two texts, which are expressions; the box shows the first one.\<close>

definition switch_values :: "string option \<Rightarrow> string option \<Rightarrow> string \<times> string" where
  "switch_values trueValue falseValue =
     (if str_truthy trueValue then the trueValue else [CHR 39] @ ''true'' @ [CHR 39],
      if str_truthy falseValue then the falseValue else [CHR 39] @ ''false'' @ [CHR 39])"

definition string_switch :: "bool \<Rightarrow> string" where
  "string_switch checked = (if checked then ''true'' else ''false'')"

definition kcEnter :: "nat \<Rightarrow> ('s \<Rightarrow> 's) \<Rightarrow> 's \<Rightarrow> 's" where
  "kcEnter which action s = (if which = 13 then action s else s)"

definition kcReset :: "string option \<Rightarrow> ('s \<Rightarrow> 's) \<Rightarrow> 's \<Rightarrow> 's" where
  "kcReset form reset s = (if str_truthy form then reset s else s)"

definition kcOpen :: "string option \<Rightarrow> 'b ui_effect" where
  "kcOpen path = GoTo (undef_str path)"

text \<open>The directives that are a template with a scope of their own.\<close>

definition kc_templates :: "(string \<times> string) list" where
  "kc_templates =
     [(''kcMenu'', ''/templates/kc-menu.html''), (''kcTabsRealm'', ''/templates/kc-tabs-realm.html''),
      (''kcTabsAuthentication'', ''/templates/kc-tabs-authentication.html''), (''kcTabsRole'', ''/templates/kc-tabs-role.html''),
      (''kcTabsClientRole'', ''/templates/kc-tabs-client-role.html''), (''kcTabsUser'', ''/templates/kc-tabs-user.html''),
      (''kcTabsUsers'', ''/templates/kc-tabs-users.html''), (''kcTabsClients'', ''/templates/kc-tabs-clients.html''),
      (''kcTabsGroup'', ''/templates/kc-tabs-group.html''), (''kcTabsGroupList'', ''/templates/kc-tabs-group-list.html''),
      (''kcTabsClient'', ''/templates/kc-tabs-client.html''), (''kcTabsClientScope'', ''/templates/kc-tabs-client-scope.html''),
      (''kcNavigationUser'', ''/templates/kc-navigation-user.html''),
      (''kcTabsIdentityProvider'', ''/templates/kc-tabs-identity-provider.html''),
      (''kcTabsUserFederation'', ''/templates/kc-tabs-user-federation.html''), (''kcTabsLdap'', ''/templates/kc-tabs-ldap.html'')]"

definition kc_templateUrl :: "string \<Rightarrow> string \<Rightarrow> string option" where
  "kc_templateUrl resourceUrl directive = map_option (\<lambda>t. resourceUrl @ t) (map_of kc_templates directive)"

subsection \<open>Choosing a role for a configuration\<close>

text \<open>The dialogs \<open>RoleSelectorModalCtrl\<close> and \<open>ComponentRoleSelectorModalCtrl\<close> differ in how they write the chosen name; \<open>'c\<close> is
  the type of the values of the configuration.\<close>

record selector_client =
  sl_id :: string
  sl_clientId :: string

record 'c role_selector =
  se_realm :: string
  se_config :: "(string \<times> 'c) list"
  se_configName :: string
  se_realmRole :: "string option"
  se_clientRole :: "string option"
  se_client :: "selector_client option"
  se_realmRoles :: "string list option"
  se_clients :: "selector_client list option"
  se_clientRoles :: "string list option"
  se_open :: bool
  se_effects :: "unit ui_effect list"

definition new_role_selector :: "string \<Rightarrow> (string \<times> 'c) list \<Rightarrow> string \<Rightarrow> 'c role_selector" where
  "new_role_selector realm config configName =
     \<lparr>se_realm = realm, se_config = config, se_configName = configName, se_realmRole = None, se_clientRole = None, se_client = None,
      se_realmRoles = None, se_clients = None, se_clientRoles = None, se_open = True,
      se_effects = [Request ''GET'' ''RealmRoles'' [(''realm'', realm)] (), Request ''GET'' ''Client'' [(''realm'', realm)] ()]\<rparr>"

definition put_text :: "string \<Rightarrow> string \<Rightarrow> (string \<times> string) list \<Rightarrow> (string \<times> string) list res" where
  "put_text k v c = Ok (AList.update k v c)"

text \<open>\<open>config[k][0] = v\<close>: a component without a value for the property has no list to write to.\<close>

definition put_first :: "string \<Rightarrow> string \<Rightarrow> (string \<times> string list) list \<Rightarrow> (string \<times> string list) list res" where
  "put_first k v c = (case map_of c k of None \<Rightarrow> Throw TypeError | Some vs \<Rightarrow> Ok (AList.update k (v # tl vs) c))"

definition choose_role :: "(string \<Rightarrow> string \<Rightarrow> (string \<times> 'c) list \<Rightarrow> (string \<times> 'c) list res) \<Rightarrow> string option \<Rightarrow> ('c role_selector, unit) comp" where
  "choose_role put v s =
     (case v of
        None \<Rightarrow> (Throw TypeError, s)
      | Some x \<Rightarrow>
          (case put (se_configName s) x (se_config s) of
             Throw e \<Rightarrow> (Throw e, s)
           | Ok c \<Rightarrow> (Ok (), s\<lparr>se_config := c, se_open := False\<rparr>)))"

definition selectRealmRole ::
  "(string \<Rightarrow> string \<Rightarrow> (string \<times> 'c) list \<Rightarrow> (string \<times> 'c) list res) \<Rightarrow> ('c role_selector, unit) comp" where
  "selectRealmRole put s = choose_role put (se_realmRole s) s"

definition selectClientRole ::
  "(string \<Rightarrow> string \<Rightarrow> (string \<times> 'c) list \<Rightarrow> (string \<times> 'c) list res) \<Rightarrow> ('c role_selector, unit) comp" where
  "selectClientRole put s =
     choose_role put
       (case (se_client s, se_clientRole s) of (Some c, Some r) \<Rightarrow> Some (sl_clientId c @ ''.'' @ r) | _ \<Rightarrow> None) s"

definition selector_cancel :: "'c role_selector \<Rightarrow> 'c role_selector" where
  "selector_cancel s = s\<lparr>se_open := False\<rparr>"

definition selector_changeClient :: "'c role_selector \<Rightarrow> 'c role_selector" where
  "selector_changeClient s =
     (case se_client s of
        Some c \<Rightarrow> s\<lparr>se_effects := se_effects s @ [Request ''GET'' ''ClientRole'' [(''realm'', se_realm s), (''client'', sl_id c)] ()]\<rparr>
      | None \<Rightarrow> s\<lparr>se_clientRoles := None\<rparr>)"

definition selector_roles_answer :: "string list \<Rightarrow> 'c role_selector \<Rightarrow> 'c role_selector" where
  "selector_roles_answer roles s = s\<lparr>se_realmRoles := Some roles\<rparr>"

definition selector_clients_answer :: "selector_client list \<Rightarrow> 'c role_selector \<Rightarrow> 'c role_selector" where
  "selector_clients_answer cs s =
     (let s = s\<lparr>se_clients := Some cs\<rparr> in
      case cs of [] \<Rightarrow> s | c # _ \<Rightarrow> selector_changeClient (s\<lparr>se_client := Some c\<rparr>))"

text \<open>The answer to the request of any client that was chosen.\<close>

definition selector_clientRoles_answer :: "string list \<Rightarrow> 'c role_selector \<Rightarrow> 'c role_selector" where
  "selector_clientRoles_answer roles s = s\<lparr>se_clientRoles := Some roles\<rparr>"

subsection \<open>Values of a property with several values\<close>

definition addValueToMultivalued :: "string \<Rightarrow> component_config \<Rightarrow> component_config res" where
  "addValueToMultivalued k c =
     (case c k of
        None \<Rightarrow> Throw TypeError
      | Some vs \<Rightarrow> if vs = [] then Throw TypeError else if last vs \<noteq> [] then Ok (c(k \<mapsto> vs @ [[]])) else Ok c)"

definition deleteValueFromMultivalued :: "string \<Rightarrow> nat \<Rightarrow> component_config \<Rightarrow> component_config res" where
  "deleteValueFromMultivalued k i c =
     (case c k of None \<Rightarrow> Throw TypeError | Some vs \<Rightarrow> Ok (c(k \<mapsto> splice1 i vs)))"

definition uploadFile :: "string \<Rightarrow> string \<Rightarrow> component_config \<Rightarrow> component_config res" where
  "uploadFile k content c = (case c k of None \<Rightarrow> Throw TypeError | Some vs \<Rightarrow> Ok (c(k \<mapsto> content # tl vs)))"

text \<open>What the form of a property offers (kc-component-config.html 52-62): every value may be edited, the last one has the button that adds a
  value, the others have the button that deletes them.\<close>

datatype value_action = EditValue nat string | AddValue | DeleteValue nat

fun value_offered :: "value_action \<Rightarrow> string list \<Rightarrow> bool" where
  "value_offered (EditValue i v) vs = (i < length vs)"
| "value_offered AddValue vs = (vs \<noteq> [])"
| "value_offered (DeleteValue i) vs = (Suc i < length vs)"

fun value_act :: "string \<Rightarrow> value_action \<Rightarrow> component_config \<Rightarrow> component_config res" where
  "value_act k (EditValue i v) c = (case c k of None \<Rightarrow> Throw TypeError | Some vs \<Rightarrow> Ok (c(k \<mapsto> vs[i := v])))"
| "value_act k AddValue c = addValueToMultivalued k c"
| "value_act k (DeleteValue i) c = deleteValueFromMultivalued k i c"

inductive values_reach :: "string \<Rightarrow> component_config \<Rightarrow> component_config \<Rightarrow> bool" for k c where
  values_open: "values_reach k c c"
| values_act: "values_reach k c d \<Longrightarrow> d k = Some vs \<Longrightarrow> value_offered a vs \<Longrightarrow> value_act k a d = Ok e \<Longrightarrow> values_reach k c e"

subsection \<open>The contract of writing a chosen role\<close>

locale config_put =
  fixes put :: "string \<Rightarrow> string \<Rightarrow> (string \<times> 'c) list \<Rightarrow> (string \<times> 'c) list res" and shown :: "'c \<Rightarrow> string option"
  assumes put_shown: "put k v c = Ok d \<Longrightarrow> \<exists>x. map_of d k = Some x \<and> shown x = Some v"
    and put_others: "put k v c = Ok d \<Longrightarrow> j \<noteq> k \<Longrightarrow> map_of d j = map_of c j"
begin

lemma chosen:
  assumes "choose_role put v s = (Ok (), s')"
  shows "\<exists>x. v \<noteq> None \<and> map_of (se_config s') (se_configName s) = Some x \<and> shown x = v" and "\<not> se_open s'"
    and "j \<noteq> se_configName s \<Longrightarrow> map_of (se_config s') j = map_of (se_config s) j"
  using assms put_shown put_others
  by (fastforce simp: choose_role_def split: option.splits res.splits)+

lemma not_chosen: "choose_role put v s = (Throw e, s') \<Longrightarrow> s' = s"
  by (auto simp: choose_role_def split: option.splits res.splits)

end

definition first_text :: "string list \<Rightarrow> string option" where
  "first_text vs = (case vs of [] \<Rightarrow> None | v # _ \<Rightarrow> Some v)"

interpretation text_put: config_put put_text Some
  by unfold_locales (auto simp: put_text_def update_conv')

interpretation first_put: config_put put_first first_text
  by unfold_locales (auto simp: put_first_def first_text_def update_conv' split: option.splits)

text \<open>A client role that is chosen for a component is written as the client and the role, over the first value, and nothing else of the
  configuration changes; when it cannot be written, nothing changes at all.\<close>

theorem component_role_chosen:
  assumes "selectClientRole put_first s = (Ok (), s')"
  shows "\<exists>c r x. se_client s = Some c \<and> se_clientRole s = Some r \<and> map_of (se_config s') (se_configName s) = Some x \<and>
    first_text x = Some (sl_clientId c @ ''.'' @ r)"
    and "j \<noteq> se_configName s \<Longrightarrow> map_of (se_config s') j = map_of (se_config s) j" and "\<not> se_open s'"
  using first_put.chosen [of _ s s'] assms unfolding selectClientRole_def by (fastforce split: option.splits)+

theorem failed_choice_changes_nothing:
  "selectClientRole put_first s = (Throw e, s') \<Longrightarrow> s' = s" "selectRealmRole put_first s = (Throw e, s') \<Longrightarrow> s' = s"
  "selectClientRole put_text t = (Throw e, t') \<Longrightarrow> t' = t" "selectRealmRole put_text t = (Throw e, t') \<Longrightarrow> t' = t"
  by (simp_all add: selectClientRole_def selectRealmRole_def first_put.not_chosen text_put.not_chosen)

text \<open>Two clients are chosen one after the other and the roles of the first arrive last: they are offered for the second client, and the name that
  is written joins a client with a role that it need not have.\<close>

theorem selector_late_answer:
  assumes "se_configName s = ''role''"
  shows "\<exists>s'. selectClientRole put_text
      ((selector_clientRoles_answer rolesA (selector_clientRoles_answer rolesB
          (selector_changeClient ((selector_changeClient (s\<lparr>se_client := Some a\<rparr>))\<lparr>se_client := Some b\<rparr>))))\<lparr>se_clientRole := Some r\<rparr>) = (Ok (), s')
    \<and> se_clientRoles s' = Some rolesA \<and> map_of (se_config s') ''role'' = Some (sl_clientId b @ ''.'' @ r)"
  using assms
  by (simp add: selectClientRole_def choose_role_def put_text_def selector_clientRoles_answer_def selector_changeClient_def update_conv')

text \<open>On the form of a property with several values there is always one, and whatever the form offers succeeds.\<close>

lemma values_stay:
  assumes "values_reach k c d" and "c k = Some us" and "us \<noteq> []"
  shows "\<exists>vs. d k = Some vs \<and> vs \<noteq> []"
  using assms
proof (induction rule: values_reach.induct)
  case (values_act d vs a e)
  then show ?case
    by (cases a) (auto simp: addValueToMultivalued_def deleteValueFromMultivalued_def splice1_def split: if_splits)
qed simp

theorem offered_values_succeed:
  assumes "values_reach k (addLastEmptyValueToMultivaluedLists properties c) d" and "k \<in> multivalued properties"
  shows "\<exists>vs. d k = Some vs \<and> (\<forall>a. value_offered a vs \<longrightarrow> (\<exists>e. value_act k a d = Ok e))"
proof -
  have "\<exists>us. addLastEmptyValueToMultivaluedLists properties c k = Some us \<and> us \<noteq> []"
    using assms(2) by (cases properties)
      (auto simp: addLastEmptyValueToMultivaluedLists_def fold_add_empty add_empty_def Let_def multivalued_def [of None])
  then obtain vs where vs: "d k = Some vs" "vs \<noteq> []" using values_stay [OF assms(1)] by blast
  have "\<exists>e. value_act k a d = Ok e" for a
    using vs by (cases a) (auto simp: addValueToMultivalued_def deleteValueFromMultivalued_def)
  with vs show ?thesis by blast
qed

end
