(* ===== verification/Spec2Isabelle.thy ===== *)
theory Spec2Isabelle
  imports Login_Flow Authz Http Routes Services Composites Mappings Paging Group_Pages Users Realm_Settings Filters Memberships
    Client_Scopes Protocol_Mappers Scope_Editor Authz_Lists Authz_Editors Policy_Choices Authz_Evaluate
    Realm_Times Realm_Events Realm_Import Auth_Flows Identity_Providers Status_Iframe Scope_Mappings Client_Credentials Client_Pages
    User_Federation Realm_Detail Realm_Registration Startup Directives
begin

text \<open>
  Verification of the JavaScript of Keycloak: the adapter that web applications load, the authorization
  client beside it, and the admin console.

  \<^bold>\<open>The adapter\<close> (src/adapters/oidc/js/src/main/resources/keycloak.js). \<open>Keycloak(config)\<close> makes an object
  \<open>kc\<close>; \<open>kc.init\<close> picks an adapter for the platform (page, Cordova window, native browser tab), loads the
  configuration, and processes a login response in the page's URL; \<open>kc.login\<close> and its relatives make URLs and remember
  the login in a storage; \<open>kc.updateToken\<close> refreshes the tokens, with one request for all callers that wait; a hidden
  iframe reports that the session at the server has ended. The theories, in the order of their imports:
  \<^item> Prelude: results with exceptions (\<open>res\<close>), computations on a state that may throw (\<open>comp\<close>; the state changes before
    an exception stay), numbers with NaN, and the string methods of the sources.
  \<^item> Encoding and Json: \<open>encodeURIComponent\<close>, \<open>atob\<close>, UTF-8 through \<open>escape\<close>, \<open>JSON.parse\<close> and
    \<open>JSON.stringify\<close>: the language's library as far as the adapter uses it. The parser of JSON has fuel, the length
    of the text, which is enough: every call consumes a character; the round trip with \<open>JSON_stringify\<close> shows it.
  \<^item> Promise: the two promise implementations (keycloak.js 982-1057) and, as the locale \<open>promise_api\<close>, their contract.
  \<^item> Storage: \<open>LocalStorage\<close> and \<open>CookieStorage\<close> for the state of logins (1417-1534), with a locale for what both promise.
  \<^item> Kc\_State: the fields of \<open>kc\<close>, the closure's variables and what the page has under way (requests, timers,
    windows, promise callbacks), in one record \<open>world\<close>.
  \<^item> Urls, Token, Callback, Adapters: endpoints and URLs (231-338, 526-544, 632-689, 867-878), tokens and their expiry (344-423,
    780-865), parsing of a login response (888-980), the three adapters (1148-1415).
  \<^item> Session: \<open>clearToken\<close>, \<open>processCallback\<close>, \<open>updateToken\<close>, the profile requests and the session iframe.
  \<^item> Init: \<open>loadConfig\<close>, \<open>kc.init\<close> and the continuations of its promises.
  \<^item> Runtime: all calls of the application and all events of the browser as one step relation, and the reachable states.
  \<^item> Invariants: what every step keeps, through the locales \<open>session_step\<close> (what holds from some state on) and
    \<open>session_invariant\<close> (what holds from the start) and their interpretations.
  \<^item> Refresh: a queue of callers that share one request, as the locale \<open>shared_request\<close>, for refreshes and iframe checks; what
    signing out and the login it may start leave alone.
  \<^item> Demo: a concrete run, used by the witnesses. Login\_Flow: a login from its URL to its response.
  \<^item> Status\_Iframe: the script of login-status-iframe.html, which the server puts into the iframe, as a page of its own with
    messages, requests and cookies, and its exchange of messages with \<open>checkLoginIframe\<close> and \<open>messageCallback\<close>.

  \<^bold>\<open>The authorization client\<close> (keycloak-authz.js): theory Authz.

  \<^bold>\<open>The admin console\<close> (src/themes/src/main/resources/theme/base/admin/resources/js). An AngularJS application: app.js
  declares the routes and the interceptors of requests, loaders.js what is loaded before a page opens, services.js the REST
  resources and the shared services, controllers/ and authz/ the pages. A call of AngularJS is an effect in a log and a
  callback is a definition of its own that runs on the answer, so that answers arrive at any time and in any order.
  \<^item> Console: effects, dialogs and notifications. Splitting: \<open>split\<close> at a string, with its round trips.
  \<^item> Resources, Loaders, Routes: the tables of the console, one definition for each resource and loader and lists of at most
    150 source lines for the routes, and the check that every page's requests are complete.
  \<^item> Http: the interceptors, on top of the adapter's \<open>updateToken\<close>. Filters: filters and the page selector.
  \<^item> Units and Services: units of time, component configurations, providers, the current realm.
  \<^item> Roles, Composites, Mappings: the pages that move roles between lists. The locale \<open>transfer\<close> says what its loops
    do; \<open>composite_step\<close> and \<open>mapping_step\<close> are the pages as state machines.
  \<^item> Paging, Group\_Pages, Attributes, Users, Memberships, Realm\_Settings: the pages for groups and users, access to a realm, the
    password policy.
  \<^item> Client\_Editor, Scope\_Editor, Client\_Scopes, Protocol\_Mappers (controllers/clients.js): the list, creation and editor of
    clients with the watch that runs until nothing changes; the editor of client scopes; their assignment to clients and realms, where
    the locale \<open>counted\<close> says what a counter of outstanding answers reports, and their evaluation; protocol mappers.
  \<^item> Scope\_Mappings, Client\_Credentials, Client\_Pages (controllers/clients.js): the roles in the scope of a client; its
    credentials, where the parts of the page share or hide the page's client, and its keys; roles, sessions, identity providers,
    import, revocation, clustering and client storage.
  \<^item> Numbers, Realm\_Times, Realm\_Events, Realm\_Import, Auth\_Flows, Identity\_Providers (controllers/realm.js): \<open>parseInt\<close> and
    its round trip; the pages that show times, with the exact condition for a time to survive being shown and saved; mail settings,
    events and revocation; import and export; authentication flows; identity providers and keys.
  \<^item> Realm\_Detail, Realm\_Registration (controllers/realm.js): creation, renaming and deletion of realms, login settings, themes with
    their locales, caches; the list and page of realm roles, providers of keys, initial access tokens and policies of the registration of clients.
  \<^item> Store\_Config, User\_Federation (controllers/users.js): configurations of components, with the locale \<open>config_fill\<close> as the
    contract of filling in defaults, which the pages for client storage, user storage, LDAP and LDAP mappers interpret; user federation.
  \<^item> Startup (app.js 1-97): from the loading of the page to the start of the application, as a step relation. Directives (app.js
    2147-2819): the save button in time, forms that may only be read, the dialogs that choose a role (locale \<open>config_put\<close>, with an
    interpretation for each way of writing the name), properties with several values.
  \<^item> Authz\_Lists, Authz\_Editors, Policy\_Pages, Policy\_Choices, Authz\_Evaluate (authz/authz-controller.js): the lists of
    protected resources, scopes, policies and permissions; the editors of resource servers, resources and scopes; the service
    \<open>PolicyController\<close> with the delegates of its ten pages, and the draft it remembers while another policy is created; the
    selections of these pages, filled by answers in any order (locale \<open>gathering\<close>); the evaluation of policies.

  \<^bold>\<open>What is shown.\<close> Of the adapter: at most one refresh is in flight and its answers reach every caller, with a login required or
  not (this theory); authentication implies a token, and its content where it can be decoded; a login finds its response within the hour,
  in every flow and response mode, once, and only with its nonce (Login\_Flow); URLs are read back as they were meant (Urls); callback
  parameters are taken out as specified (Callback); the stored state is found once and only expired entries are swept (Storage);
  tokens decode and expire as specified (Token); both promise implementations deliver alike (Promise); the page in the iframe answers
  every question once and the adapter notices a change of the session (Status\_Iframe).
  Of the console: it starts once and only with messages and permissions (Startup); pages send complete requests, lists show fresh data,
  are written where they are read, and list no role twice, forms save what they loaded and are not submitted twice (Directives), the
  watches of the client editor, of the page for LDAP and of the page for themes come to rest, drafts survive, passwords are checked, flows
  in use are not deleted, pages cover their lists. Some theorems pin down defects: an answer that makes the handler of a refresh raise
  blocks all later refreshes, an undecodable token is kept, the late answer of a password reset makes the next one send null, units of
  time are chosen wrongly, attributes of resources are split at commas, a failed request at startup leaves an empty page, a reset keeps
  the new name of a realm.

  \<^bold>\<open>Bounds and simplifications.\<close> Numbers are exact rationals or integers, not IEEE doubles. Text is a list of bytes in
  UTF-8. Times are integers in milliseconds that the step relation lets pass at will. Objects of the console that are compared by
  identity carry their identity as a field. Callbacks of the application are recorded, not run. The runs of the adapter are those in
  a browser that has \<open>Promise\<close>; the adapter's own promises for older browsers are in theory Promise only.

  \<^bold>\<open>Not modelled.\<close> Of the console: windows that only show an object, the reading and uploading of files, the page of server
  information, and of the directives what changes classes, colours and sizes of elements. AngularJS itself: the matching of routes, filters
  and forms are arguments of the definitions or fixed by what is documented of them. keycloak.js in theme keycloak-preview and under
  examples, which are copies or applications of the adapter; vendored libraries (AngularJS, jQuery, ui-ace); the test suite; everything in Java.
\<close>

section \<open>Properties of the running adapter\<close>

text \<open>C1. Whatever the application calls and whatever the browser delivers, at most one refresh request
  is in flight, and while one is, the queue of callers waiting for it is not empty.\<close>

theorem refresh_single_flight:
  "reachable c hs st e w \<Longrightarrow>
     length (refreshes w) \<le> 1 \<and> (refreshes w \<noteq> [] \<longrightarrow> w_refreshQueue w \<noteq> [])"
  using refresh.reachable_ok [of c hs st e w] by (simp add: single_flight_def core_def)

theorem refresh_single_flight_witness:
  "reachable demo_config [] demo_store demo_env demo_session \<and> refreshes demo_session = [(1, demo_request)] \<and>
     length (refreshes demo_session) \<le> 1 \<and> w_refreshQueue demo_session \<noteq> []"
  using refresh_single_flight [OF demo_reachable] demo_reachable by (simp add: demo_session_facts(1))

text \<open>C2. In every reachable state the authentication flag implies that there is an access token and that \<open>tokenParsed\<close> is the
  decoded content of a token: of the access token itself whenever that one can be decoded. (An access token that cannot be decoded
  raises after it was stored and leaves the content of the one before it.)\<close>

theorem authenticated_has_token:
  "reachable c hs st e w \<Longrightarrow> kc_authenticated (w_kc w) \<Longrightarrow>
     str_truthy (kc_token (w_kc w)) \<and>
     (\<exists>t j. kc_tokenParsed (w_kc w) = Some j \<and> decodeToken t = Ok j) \<and>
     (\<forall>j. decodeToken (undef_str (kc_token (w_kc w))) = Ok j \<longrightarrow> kc_tokenParsed (w_kc w) = Some j)"
  using auth.reachable_ok [of c hs st e w] by (auto simp: session_token_def core_def)

theorem authenticated_has_token_witness:
  "str_truthy (kc_token (w_kc demo_session)) \<and> kc_tokenParsed (w_kc demo_session) = Some (JObj [])"
  using authenticated_has_token [OF demo_reachable demo_session_facts(3)] demo_token
  by (simp add: demo_session_facts(4) undef_str_def)

text \<open>C6. A refresh answered with readable tokens empties the queue, keeps the fields that \<open>setToken\<close>
  assigned, and resolves with \<open>true\<close> every caller's promise that was still pending; no other promise changes.\<close>

theorem refresh_answer_settles:
  assumes "r_status r = 200" and "JSON_parse (r_text r) = Ok j" and "j \<noteq> JNull"
    and "setToken (token_member j ''access_token'') (token_member j ''refresh_token'') (token_member j ''id_token'')
           (Some ((l + now_rat w) / 2)) w = (Ok (), w1)"
  shows "\<exists>w'. refresh_response l r w = (Ok (), w') \<and> w_refreshQueue w' = [] \<and> w_kc w' = w_kc w1 \<and>
    (\<forall>p. promise_status p w' =
       (if p \<in> set (w_refreshQueue w) \<and> promise_pending p w then Fulfilled (VBool True) else promise_status p w))"
proof -
  let ?w2 = "call OnAuthRefreshSuccess VUndef w1"
  have w2: "w_promises ?w2 = w_promises w" "w_refreshQueue w1 = w_refreshQueue w"
    using setToken_fields(1,3) [of "token_member j ''access_token''" "token_member j ''refresh_token''"
        "token_member j ''id_token''" "Some ((l + now_rat w) / 2)" w] assms(4) by simp_all
  show ?thesis
    unfolding refresh_response_ok [OF assms]
    by (simp add: drain_refresh_facts w2(2) promise_same [OF w2(1)])
qed

text \<open>The answer of the demonstration run: the same tokens again.\<close>

definition demo_answer :: response where
  "demo_answer = \<lparr>r_status = 200, r_text = ''{}'', r_url = []\<rparr>"

lemma demo_answer_parsed: "JSON_parse (r_text demo_answer) = Ok (JObj [])"
  by (simp add: demo_answer_def) code_simp

theorem refresh_answer_settles_witness:
  "\<exists>w'. refresh_response 1000000 demo_answer demo_session = (Ok (), w') \<and> w_refreshQueue w' = [] \<and>
     promise_status 3 w' = Fulfilled (VBool True)"
proof -
  have t: "token_member (JObj []) k = None" for k by (simp add: token_member_def json_str_def)
  have p: "promise_pending 3 demo_session"
    by (simp add: promise_pending_def demo_session_def demo_refreshing_def demo_signed_def demo_world eval_ops)
  obtain w1 where "setToken None None None (Some ((1000000 + now_rat demo_session) / 2)) demo_session = (Ok (), w1)"
    by (simp add: setToken_def set_refresh_token_def set_id_token_def set_access_token_def str_truthy_def comp_defs)
  then show ?thesis
    using refresh_answer_settles [OF _ demo_answer_parsed, of 1000000 demo_session w1] p demo_session_facts(2)
    by (auto simp: t demo_answer_def)
qed

text \<open>C7. A refresh answered with an error status rejects every caller's pending promise with \<open>true\<close> and empties the
  queue; no other promise there was changes. Status 400 also signs the user out, and where a login is required it starts a new one;
  with any other error status the session stays as it was. Where a login is required, status 400 is handled so once \<open>init\<close> has
  chosen the adapter and the storage and loaded the configuration.\<close>

theorem refresh_failure_settles:
  assumes "r_status r \<noteq> 200" and "r_status r = 400 \<Longrightarrow> kc_loginRequired (w_kc w) \<Longrightarrow> initialised w"
  shows "\<exists>w'. refresh_response l r w = (Ok (), w') \<and> w_refreshQueue w' = [] \<and>
    (\<forall>p < length (w_promises w). promise_status p w' =
       (if p \<in> set (w_refreshQueue w) \<and> promise_pending p w then Rejected (VBool True) else promise_status p w)) \<and>
    w_kc w' = (if r_status r = 400 \<and> str_truthy (kc_token (w_kc w)) then w_kc (signed_out w) else w_kc w) \<and>
    (r_status r = 400 \<and> kc_loginRequired (w_kc w) \<and> str_truthy (kc_token (w_kc w)) \<longrightarrow>
       (\<exists>q w2. kc_login None (signed_out w) = (Ok q, w2) \<and> w_log w' = w_log (call OnAuthRefreshError VUndef w2)))"
proof -
  obtain w1 qs where clear: "r_status r = 400 \<longrightarrow> clearToken w = (Ok (), w1)" "w_promises w1 = w_promises w @ qs"
    "w_refreshQueue w1 = w_refreshQueue w"
    "w_kc w1 = (if r_status r = 400 \<and> str_truthy (kc_token (w_kc w)) then w_kc (signed_out w) else w_kc w)"
    "r_status r = 400 \<and> kc_loginRequired (w_kc w) \<and> str_truthy (kc_token (w_kc w)) \<longrightarrow> (\<exists>q. kc_login None (signed_out w) = (Ok q, w1))"
    "r_status r \<noteq> 400 \<longrightarrow> w1 = w"
  proof (cases "r_status r = 400")
    case True
    then show thesis using that clearToken_returns [of w] assms(2) by auto
  next
    case False
    then show thesis using that [of w "[]"] by auto
  qed
  let ?s = "call OnAuthRefreshError VUndef w1"
  have "refresh_response l r w = (Ok (), drain_refresh (\<lambda>p. setError p (VBool True)) ?s)"
    using refresh_response_failed [OF assms(1), of w w1 l] clear(1,6) by (cases "r_status r = 400") simp_all
  moreover have "promise_status p ?s = promise_status p w \<and> promise_pending p ?s = promise_pending p w" if "p < length (w_promises w)" for p
    using promise_appended [of ?s w qs p] that clear(2) by simp
  moreover have "w_log (drain_refresh (\<lambda>p. setError p (VBool True)) ?s) = w_log ?s"
    by (simp add: drain_refresh_def settle_rev_fields)
  ultimately show ?thesis using clear(3-5) by (auto simp: drain_refresh_facts)
qed

theorem refresh_failure_settles_witness:
  "\<exists>w'. refresh_response 1000000 \<lparr>r_status = 400, r_text = [], r_url = []\<rparr> (upd_kc (\<lambda>k. k\<lparr>kc_loginRequired := True\<rparr>) demo_session) = (Ok (), w') \<and>
     w_refreshQueue w' = [] \<and> kc_token (w_kc w') = None"
proof -
  let ?w = "upd_kc (\<lambda>k. k\<lparr>kc_loginRequired := True\<rparr>) demo_session"
  have "initialised ?w"
    by (simp add: initialised_def demo_session_def demo_refreshing_def demo_signed_def demo_world eval_ops)
  moreover have "str_truthy (kc_token (w_kc ?w))" using demo_session_facts(4) by (simp add: upd_kc_def str_truthy_def)
  ultimately show ?thesis
    using refresh_failure_settles [of "\<lparr>r_status = 400, r_text = [], r_url = []\<rparr>" ?w 1000000]
    by (auto simp: signed_out_kc)
qed

text \<open>C40. An answer to a refresh that makes its handler raise, such as a successful one whose body is not JSON, blocks refreshing
  for good: the handler raises before the queue is touched, and in every state the event loop reaches from there, whatever is called
  and whatever the browser delivers, the callers are still in the queue and no refresh request is in flight.\<close>

theorem refresh_garbled_answer_blocks:
  assumes "reachable c hs st e w" and "w_jobs w = []" and "map_of (w_xhrs w) i = Some x" and "x_handler x = OnRefresh l"
    and "refresh_response l r (take_xhr i w) = (Throw er, w1)" and "step\<^sup>*\<^sup>* w1 w2"
  shows "step w w1 \<and> refreshes w2 = [] \<and> w_refreshQueue w \<noteq> [] \<and>
    take (length (w_refreshQueue w)) (w_refreshQueue w2) = w_refreshQueue w"
proof -
  have flight: "length (refreshes w) \<le> 1" "refreshes w \<noteq> [] \<longrightarrow> w_refreshQueue w \<noteq> []"
    using refresh.reachable_ok [OF assms(1)] by (simp_all add: single_flight_def core_def)
  have mem: "(i, x) \<in> set (refreshes w)" using assms(3,4) by (auto simp: refreshes_def dest: map_of_SomeD)
  then have q: "w_refreshQueue w \<noteq> []" using flight(2) by auto
  have "refreshes w1 = []"
    using refresh_response_refreshes [of l r "take_xhr i w"] refreshes_take [OF flight(1) assms(3)] assms(4,5) by (simp add: core_def)
  moreover have "w_refreshQueue w1 = w_refreshQueue w"
    using refresh_response_throws [OF assms(5)] by (simp add: take_xhr_def)
  ultimately have "stuck_queue (w_refreshQueue w) (core w1)" using q by (simp add: stuck_queue_def core_def)
  with assms(6) have "stuck_queue (w_refreshQueue w) (core w2)" by (rule stuck.steps_ok)
  moreover have "run_event (Response i r) w = w1" using assms(3-5) by (simp add: run_event_def)
  then have "step w w1" using step.Event [OF assms(2), of "Response i r"] by simp
  ultimately show ?thesis using q by (simp add: stuck_queue_def core_def)
qed

theorem refresh_garbled_answer_blocks_witness:
  "step demo_session (take_xhr 1 demo_session) \<and>
   (let w2 = run_call (UpdateToken (Some (-1))) (take_xhr 1 demo_session) in refreshes w2 = [] \<and> take 1 (w_refreshQueue w2) = [3])"
proof -
  let ?r = "\<lparr>r_status = 200, r_text = ''x'', r_url = []\<rparr>" and ?w1 = "take_xhr 1 demo_session"
  have "JSON_parse ''x'' = Throw SyntaxError" by code_simp
  then have t: "refresh_response 1000000 ?r ?w1 = (Throw SyntaxError, ?w1)" by (simp add: refresh_response_def comp_defs)
  have x: "map_of (w_xhrs demo_session) 1 = Some demo_request" "x_handler demo_request = OnRefresh 1000000" "w_jobs demo_session = []"
    by (simp_all add: demo_session_def demo_refreshing_def demo_signed_def demo_request_def demo_world post_form_def eval_ops)
  have "step\<^sup>*\<^sup>* ?w1 (run_call (UpdateToken (Some (-1))) ?w1)" by (rule r_into_rtranclp) (rule step.Call)
  from refresh_garbled_answer_blocks [OF demo_reachable x(3,1,2) t this] show ?thesis
    by (simp add: demo_session_facts(2) Let_def)
qed

text \<open>C13. Callers share refresh requests: over any sequence of calls that need a refresh and of answers, the number of requests
  sent is at most one more than the number of answers.\<close>

theorem refresh_calls_share:
  assumes "client_auth (w_kc w) = Ok a"
  shows "length (refreshes (run_shared ask_refresh (drain_refresh (\<lambda>p. setSuccess p v)) ops w))
    \<le> length (refreshes w) + 1 + length (filter is_answer ops)"
  using assms by (intro refresh_queue.sent_bound) blast

theorem refresh_calls_share_witness:
  "length (refreshes (run_shared ask_refresh (drain_refresh (\<lambda>p. setSuccess p (VBool True)))
      [Ask (''u'', 1), Ask (''u'', 2), Answer, Ask (''u'', 3)] demo_start)) \<le> length (refreshes demo_start) + 1 + 1"
proof -
  obtain a where "client_auth (w_kc demo_start) = Ok a"
    by (simp add: client_auth_def str_truthy_def demo_start_def new_Keycloak_def new_kc_def)
  from refresh_calls_share [OF this, of "VBool True" "[Ask (''u'', 1), Ask (''u'', 2), Answer, Ask (''u'', 3)]"]
  show ?thesis by simp
qed

text \<open>While the session iframe is up, checks share messages in the same way: any number of checks between two answers
  posts one message.\<close>

theorem iframe_checks_share:
  assumes "iframe_ready u w"
  shows "posts (run_shared ask_iframe (iframe_answers u) ops w) =
    posts w + rounds (li_callbackList (w_iframe w) \<noteq> []) ops"
  using iframe_list.sent_rounds [OF assms, of ops] by simp

definition demo_iframe :: world where
  "demo_iframe = demo_start\<lparr>w_iframe := (w_iframe demo_start)\<lparr>li_iframe := Some 0, li_iframeOrigin := Some ''https://kc''\<rparr>\<rparr>"

theorem iframe_checks_share_witness:
  "posts (run_shared ask_iframe (iframe_answers ''https://kc'') [Ask (), Ask (), Answer, Ask ()] demo_iframe) = posts demo_iframe + 2"
proof -
  have "iframe_ready ''https://kc'' demo_iframe" "li_callbackList (w_iframe demo_iframe) = []"
    by (simp_all add: iframe_ready_def demo_iframe_def demo_start_def new_Keycloak_def)
  then show ?thesis using iframe_checks_share [of "''https://kc''" demo_iframe "[Ask (), Ask (), Answer, Ask ()]"] by simp
qed

text \<open>A message that does not come from the session iframe and its origin, or that is not one of the three answers, changes nothing.\<close>

theorem foreign_message_ignored:
  assumes "Some origin \<noteq> li_iframeOrigin (w_iframe w) \<or> \<not> from \<or> data \<notin> {''unchanged'', ''changed'', ''error''}"
  shows "messageCallback origin from data w = (Ok (), w)"
  using assms by (auto simp: messageCallback_def)

theorem foreign_message_ignored_witness:
  "messageCallback ''https://evil'' True ''changed'' demo_iframe = (Ok (), demo_iframe)"
  by (rule foreign_message_ignored) (simp add: demo_iframe_def)

text \<open>An answer of the session iframe empties the list of waiting checks and settles each pending one: resolved when the
  session is unchanged, rejected otherwise, and then the user is signed out first.\<close>

theorem iframe_answer_settles:
  assumes "li_iframeOrigin (w_iframe w) = Some u" and "data \<in> {''unchanged'', ''changed'', ''error''}"
    and "data \<noteq> ''unchanged'' \<Longrightarrow> kc_loginRequired (w_kc w) \<Longrightarrow> initialised w"
  shows "\<exists>w'. messageCallback u True data w = (Ok (), w') \<and> li_callbackList (w_iframe w') = [] \<and>
    (\<forall>p < length (w_promises w). promise_status p w' =
       (if p \<in> set (li_callbackList (w_iframe w)) \<and> promise_pending p w
        then (if data = ''unchanged'' then Fulfilled VUndef else Rejected VUndef) else promise_status p w)) \<and>
    w_kc w' = (if data \<noteq> ''unchanged'' \<and> str_truthy (kc_token (w_kc w)) then w_kc (signed_out w) else w_kc w)"
proof -
  obtain w0 qs where clear: "data \<noteq> ''unchanged'' \<longrightarrow> clearToken w = (Ok (), w0)" "w_promises w0 = w_promises w @ qs" "w_iframe w0 = w_iframe w"
    "w_kc w0 = (if data \<noteq> ''unchanged'' \<and> str_truthy (kc_token (w_kc w)) then w_kc (signed_out w) else w_kc w)"
    "data = ''unchanged'' \<longrightarrow> w0 = w"
  proof (cases "data = ''unchanged''")
    case False
    then show thesis using that clearToken_returns [of w] assms(3) by auto
  next
    case True
    then show thesis using that [of w "[]"] by auto
  qed
  define w1 where "w1 = upd_iframe (\<lambda>l. l\<lparr>li_callbackList := []\<rparr>) w0"
  have m: "messageCallback u True data w =
      (Ok (), settle_rev (\<lambda>p. if data = ''unchanged'' then setSuccess p VUndef else setError p VUndef)
        (li_callbackList (w_iframe w)) w1)"
    using messageCallback_answer [OF assms(1,2), of w0] clear(1,3,5) by (cases "data = ''unchanged''") (simp_all add: w1_def)
  have p: "promise_status p w1 = promise_status p w \<and> promise_pending p w1 = promise_pending p w" if "p < length (w_promises w)" for p
    using promise_appended [of w1 w qs p] that clear(2) by (simp add: w1_def upd_iframe_def)
  have "li_callbackList (w_iframe w1) = []" "w_kc w1 = w_kc w0" by (simp_all add: w1_def upd_iframe_def)
  then show ?thesis
    unfolding m using clear(4) p
    by (cases "data = ''unchanged''") (simp_all add: settle_rev_fields settle_rev_status)
qed

theorem iframe_answer_settles_witness:
  "\<exists>w'. messageCallback ''https://kc'' True ''changed'' demo_iframe = (Ok (), w') \<and> li_callbackList (w_iframe w') = []"
  using iframe_answer_settles [of demo_iframe "''https://kc''" "''changed''"]
  by (auto simp: demo_iframe_def demo_start_def new_Keycloak_def new_kc_def)

lemma choose_adapter_Ok:
  "\<exists>w2. choose_adapter io w1 = (Ok (), w2) \<and> w_promises w2 = w_promises w1 \<and> w_xhrs w2 = w_xhrs w1"
  by (auto simp: choose_adapter_def loadAdapter_def comp_defs str_truthy_def upd_iframe_def
      split: option.split adapter_option.split)

text \<open>\<open>init\<close> with an unknown flow raises \<open>Invalid value for flow\<close> before it makes a promise or sends a request.\<close>

theorem init_invalid_flow:
  assumes "io_flow io = Some f" and "f \<noteq> []" and "f \<notin> {''standard'', ''implicit'', ''hybrid''}"
    and "io_responseMode io \<in> {None, Some [], Some ''query'', Some ''fragment''}"
  shows "\<exists>w'. kc_init (Some io) w = (Throw (Thrown ''Invalid value for flow''), w') \<and>
    w_promises w' = w_promises w \<and> w_xhrs w' = w_xhrs w"
proof -
  let ?keep = "\<lambda>w'. w_promises w' = w_promises w \<and> w_xhrs w' = w_xhrs w"
  obtain w1 where "comp_do (\<lambda>w. create_storage (upd_kc (\<lambda>k. k\<lparr>kc_authenticated := False\<rparr>) w)) w = (Ok (), w1)" "?keep w1"
    by (simp add: comp_do_def create_storage_def createCallbackStorage_def upd_kc_def)
  moreover obtain w2 where "choose_adapter (Some io) w1 = (Ok (), w2)" "w_promises w2 = w_promises w1 \<and> w_xhrs w2 = w_xhrs w1"
    using choose_adapter_Ok [of "Some io" w1] by blast
  moreover obtain w3 where "apply_mode io (apply_iframe_options io w2) = (Ok (), w3)"
    "w_promises w3 = w_promises (apply_iframe_options io w2) \<and> w_xhrs w3 = w_xhrs (apply_iframe_options io w2)"
    using assms(4) by (auto simp: apply_mode_def comp_defs str_truthy_def upd_kc_def)
  moreover have "w_promises (apply_iframe_options io w') = w_promises w'" "w_xhrs (apply_iframe_options io w') = w_xhrs w'" for w'
    by (simp_all add: apply_iframe_options_def upd_iframe_def upd_kc_def Let_def split: option.split)
  moreover have "apply_flow io w' = (Throw (Thrown ''Invalid value for flow''), w')" for w'
    using assms(1-3) by (simp add: apply_flow_def response_type_def comp_defs str_truthy_def undef_str_def)
  ultimately show ?thesis
    by (simp add: kc_init_def apply_options_def comp_bind_def comp_do_def [of "apply_iframe_options io"])
qed

theorem init_invalid_flow_witness:
  "\<exists>w'. kc_init (Some (demo_options\<lparr>io_flow := Some ''pkce''\<rparr>)) demo_start = (Throw (Thrown ''Invalid value for flow''), w') \<and>
     w_xhrs w' = w_xhrs demo_start"
  using init_invalid_flow [of "demo_options\<lparr>io_flow := Some ''pkce''\<rparr>" "''pkce''" demo_start]
  by (auto simp: demo_options_def)

end
